(* ===== verification/Prelude.thy ===== *)
theory Prelude
  imports Complex_Main "HOL-Library.Word" "HOL-Library.Monad_Syntax"
begin

section \<open>Prelude: the conventions of the model\<close>

text \<open>
  The code modelled here is C. A C function whose behaviour is not always defined is a
  HOL function into \<open>option\<close>: \<open>None\<close> says that the execution aborts (a failed \<open>assert\<close>,
  \<open>soundio_panic\<close>) or that the C standard gives it no meaning (a NULL function pointer
  is called, a NULL pointer is dereferenced, an array is read outside its bounds, freed
  memory is used, signed arithmetic overflows, a loop does not end). A state-changing
  function takes the state and returns it updated, \<open>'s \<Rightarrow> ('a \<times> 's) option\<close>. Such
  functions are composed with the option monad's \<open>do\<close> blocks.

  An \<open>int\<close> of the code is a HOL \<open>int\<close>; where the code computes a value that may leave
  the 32-bit range, \<open>c_int\<close> checks it (overflow is undefined behaviour). An unsigned
  type that wraps around is a word. A \<open>double\<close> is a \<open>real\<close>: rounding is not modelled.
\<close>

named_theorems c_defs \<open>definitions of the C primitives, for unfolding\<close>
named_theorems run_simps \<open>equations that evaluate operations of the model\<close>
named_theorems wf_intros \<open>introduction rules for well-formedness invariants\<close>

subsection \<open>Assertions and checked arithmetic\<close>

definition c_assert :: "bool \<Rightarrow> unit option" where
  "c_assert b = (if b then Some () else None)"

definition int_max :: int where "int_max = 2147483647"
definition int_min :: int where "int_min = - 2147483648"

definition in_int :: "int \<Rightarrow> bool" where
  "in_int x \<longleftrightarrow> int_min \<le> x \<and> x \<le> int_max"

text \<open>The result of signed arithmetic: undefined when it leaves the range of \<open>int\<close>.\<close>

definition c_int :: "int \<Rightarrow> int option" where
  "c_int x = (if in_int x then Some x else None)"

text \<open>Conversion of a wider integer to \<open>int\<close>: the value modulo \<open>2^32\<close>, read as signed.\<close>

definition to_int32 :: "int \<Rightarrow> int" where
  "to_int32 x = sint (word_of_int x :: 32 word)"

text \<open>Integer division of C truncates towards zero; dividing by zero is undefined.\<close>

definition c_div :: "int \<Rightarrow> int \<Rightarrow> int option" where
  "c_div a b = (if b = 0 then None else Some (sgn a * sgn b * (\<bar>a\<bar> div \<bar>b\<bar>)))"

text \<open>Conversion of a \<open>double\<close> to an integer type truncates towards zero.\<close>

definition dbl_trunc :: "real \<Rightarrow> int" where
  "dbl_trunc x = (if 0 \<le> x then \<lfloor>x\<rfloor> else \<lceil>x\<rceil>)"

definition dbl_to_int :: "real \<Rightarrow> int option" where
  "dbl_to_int x = c_int (dbl_trunc x)"

text \<open>Reading an array cell: undefined outside the bounds.\<close>

definition arr_at :: "'a list \<Rightarrow> int \<Rightarrow> 'a option" where
  "arr_at xs i = (if 0 \<le> i \<and> i < int (length xs) then Some (xs ! nat i) else None)"

definition arr_set :: "'a list \<Rightarrow> int \<Rightarrow> 'a \<Rightarrow> 'a list option" where
  "arr_set xs i x = (if 0 \<le> i \<and> i < int (length xs) then Some (xs[nat i := x]) else None)"

lemmas c_basic_defs [c_defs] = c_assert_def c_int_def in_int_def int_max_def int_min_def

lemma c_assert_simps [simp, run_simps]:
  "c_assert True = Some ()" "c_assert False = None"
  "c_assert b = Some u \<longleftrightarrow> b" "c_assert b = None \<longleftrightarrow> \<not> b"
  by (auto simp: c_assert_def)

lemma c_int_eq_Some [simp]: "c_int x = Some y \<longleftrightarrow> in_int x \<and> y = x"
  by (auto simp: c_int_def)

lemma c_int_in_range [simp]: "in_int x \<Longrightarrow> c_int x = Some x"
  by simp

lemma in_intI: "- 2147483648 \<le> x \<Longrightarrow> x \<le> 2147483647 \<Longrightarrow> in_int x"
  by (simp add: c_defs)

lemma to_int32_in_range: "in_int x \<Longrightarrow> to_int32 x = x"
  by (simp add: to_int32_def c_defs signed_of_int signed_take_bit_int_eq_self)

lemma c_div_pos: "0 \<le> a \<Longrightarrow> 0 < b \<Longrightarrow> c_div a b = Some (a div b)"
  by (cases "a = 0") (auto simp: c_div_def)

lemma dbl_trunc_nonneg: "0 \<le> x \<Longrightarrow> dbl_trunc x = \<lfloor>x\<rfloor>"
  by (simp add: dbl_trunc_def)

lemma dbl_trunc_of_int [simp]: "dbl_trunc (of_int i) = i"
  by (simp add: dbl_trunc_def)

lemma dbl_trunc_mono: "0 \<le> x \<Longrightarrow> x \<le> y \<Longrightarrow> dbl_trunc x \<le> dbl_trunc y"
  by (simp add: dbl_trunc_def floor_mono)

lemma dbl_trunc_nonneg_iff: "0 \<le> x \<Longrightarrow> 0 \<le> dbl_trunc x"
  by (simp add: dbl_trunc_def)

lemma arr_at_in: "i < length xs \<Longrightarrow> arr_at xs (int i) = Some (xs ! i)"
  by (simp add: arr_at_def)

lemma arr_at_Some_iff:
  "arr_at xs i = Some x \<longleftrightarrow> 0 \<le> i \<and> i < int (length xs) \<and> x = xs ! nat i"
  by (auto simp: arr_at_def)

subsection \<open>Loops with an early exit\<close>

text \<open>
  \<open>find_r f xs\<close> is the loop that tests the elements in order and stops at the first one
  for which the (possibly undefined) test \<open>f\<close> holds; it gives the index. \<open>any_r\<close> only
  says whether there is one.
\<close>

fun find_r :: "('a \<Rightarrow> bool option) \<Rightarrow> 'a list \<Rightarrow> nat option option" where
  "find_r f [] = Some None"
| "find_r f (x # xs) = do {
     b \<leftarrow> f x;
     if b then Some (Some 0) else do {
       r \<leftarrow> find_r f xs;
       Some (map_option Suc r)
     }
   }"

fun any_r :: "('a \<Rightarrow> bool option) \<Rightarrow> 'a list \<Rightarrow> bool option" where
  "any_r f [] = Some False"
| "any_r f (x # xs) = do { b \<leftarrow> f x; if b then Some True else any_r f xs }"

text \<open>A loop that runs a state-changing body on each element in order.\<close>

fun for_each :: "('a \<Rightarrow> 's \<Rightarrow> 's option) \<Rightarrow> 'a list \<Rightarrow> 's \<Rightarrow> 's option" where
  "for_each f [] s = Some s"
| "for_each f (x # xs) s = do { s \<leftarrow> f x s; for_each f xs s }"

lemma any_r_total:
  "(\<And>x. x \<in> set xs \<Longrightarrow> f x = Some (g x)) \<Longrightarrow> any_r f xs = Some (\<exists>x \<in> set xs. g x)"
  by (induction xs) auto

lemma find_r_total:
  "(\<And>x. x \<in> set xs \<Longrightarrow> f x = Some (g x)) \<Longrightarrow>
   find_r f xs = Some (if \<exists>x \<in> set xs. g x then Some (LEAST i. i < length xs \<and> g (xs ! i)) else None)"
proof (induction xs)
  case Nil
  then show ?case by simp
next
  case (Cons x xs)
  from Cons.prems have x: "f x = Some (g x)" and "\<And>y. y \<in> set xs \<Longrightarrow> f y = Some (g y)"
    by auto
  from Cons.IH [OF this(2)] have IH: "find_r f xs =
      Some (if \<exists>y \<in> set xs. g y then Some (LEAST i. i < length xs \<and> g (xs ! i)) else None)"
    by simp
  show ?case
  proof (cases "g x")
    case True
    have "(LEAST i. i < length (x # xs) \<and> g ((x # xs) ! i)) = 0"
      by (rule Least_eq_0) (simp add: True)
    with True x show ?thesis by simp
  next
    case False
    show ?thesis
    proof (cases "\<exists>y \<in> set xs. g y")
      case True
      then obtain k where k: "k < length xs \<and> g (xs ! k)"
        by (auto simp: in_set_conv_nth)
      have "(LEAST i. i < length (x # xs) \<and> g ((x # xs) ! i))
          = Suc (LEAST i. Suc i < length (x # xs) \<and> g ((x # xs) ! Suc i))"
        by (rule Least_Suc [where n = "Suc k"]) (use k False in auto)
      with True False x IH show ?thesis by simp
    next
      case no: False
      with False x IH show ?thesis by simp
    qed
  qed
qed

text \<open>The same as a case distinction on the result.\<close>

definition first_index :: "('a \<Rightarrow> bool) \<Rightarrow> 'a list \<Rightarrow> nat option \<Rightarrow> bool" where
  "first_index g xs r \<longleftrightarrow>
     (case r of
        None \<Rightarrow> \<forall>x \<in> set xs. \<not> g x
      | Some i \<Rightarrow> i < length xs \<and> g (xs ! i) \<and> (\<forall>j < i. \<not> g (xs ! j)))"

lemma find_r_first:
  assumes "\<And>x. x \<in> set xs \<Longrightarrow> f x = Some (g x)"
  shows "\<exists>r. find_r f xs = Some r \<and> first_index g xs r"
proof (cases "\<exists>x \<in> set xs. g x")
  case True
  let ?P = "\<lambda>i. i < length xs \<and> g (xs ! i)"
  from True obtain k where k: "?P k" by (auto simp: in_set_conv_nth)
  define n where "n = (LEAST i. ?P i)"
  from LeastI [of ?P, OF k] have n: "n < length xs" "g (xs ! n)" by (simp_all add: n_def)
  moreover have "\<not> g (xs ! j)" if "j < n" for j
    using not_less_Least [of j ?P] that n(1) unfolding n_def [symmetric] by (metis less_trans)
  moreover have "find_r f xs = Some (Some n)"
    using find_r_total [OF assms, of xs] True by (simp only: if_True n_def)
  ultimately show ?thesis by (simp add: first_index_def)
next
  case False
  have "find_r f xs = Some None"
    using find_r_total [OF assms, of xs] False by (simp only: if_False)
  with False show ?thesis by (simp add: first_index_def)
qed

lemma for_each_inv:
  assumes "for_each f xs s = Some t" and "I s"
    and "\<And>x s t. x \<in> set xs \<Longrightarrow> f x s = Some t \<Longrightarrow> I s \<Longrightarrow> I t"
  shows "I t"
  using assms
proof (induction xs arbitrary: s)
  case Nil
  then show ?case by simp
next
  case (Cons x xs)
  from Cons.prems(1) obtain u where u: "f x s = Some u" "for_each f xs u = Some t"
    by (auto simp: Option.bind_eq_Some_conv)
  have "I u" using Cons.prems(2,3) u(1) by auto
  with u(2) Cons.prems(3) show ?case by (intro Cons.IH) auto
qed

lemma for_each_total:
  assumes "I s"
    and "\<And>x s. x \<in> set xs \<Longrightarrow> I s \<Longrightarrow> \<exists>t. f x s = Some t \<and> I t"
  shows "\<exists>t. for_each f xs s = Some t \<and> I t"
  using assms
proof (induction xs arbitrary: s)
  case Nil
  then show ?case by simp
next
  case (Cons x xs)
  from Cons.prems obtain u where "f x s = Some u" "I u" by auto
  moreover from this(2) Cons.prems(2) have "\<exists>t. for_each f xs u = Some t \<and> I t"
    by (intro Cons.IH) auto
  ultimately show ?case by auto
qed

lemma for_each_append: "for_each f (xs @ ys) s = Option.bind (for_each f xs s) (for_each f ys)"
proof (induction xs arbitrary: s)
  case (Cons x xs)
  then show ?case by (cases "f x s") simp_all
qed simp

lemma for_each_cong:
  "xs = ys \<Longrightarrow> (\<And>x s. x \<in> set ys \<Longrightarrow> f x s = g x s) \<Longrightarrow> for_each f xs s = for_each g ys s"
proof (induction ys arbitrary: xs s)
  case (Cons y ys)
  then show ?case by (cases "g y s") auto
qed simp

lemma for_each_map: "for_each f (map h xs) s = for_each (\<lambda>x. f (h x)) xs s"
proof (induction xs arbitrary: s)
  case (Cons x xs)
  then show ?case by (cases "f (h x) s") simp_all
qed simp

text \<open>A loop over the indices of a list is a loop over its elements.\<close>

lemma for_each_nth: "for_each (\<lambda>i. f (xs ! i)) [0..<length xs] s = for_each f xs s"
  using for_each_map [of f "(!) xs" "[0..<length xs]" s] by (simp add: map_nth)

lemma for_each_index:
  assumes "\<And>i s. i < length xs \<Longrightarrow> f i s = g (xs ! i) s"
  shows "for_each f [0..<length xs] s = for_each g xs s"
proof -
  have "for_each f [0..<length xs] s = for_each (\<lambda>i. g (xs ! i)) [0..<length xs] s"
    by (rule for_each_cong) (simp_all add: assms)
  then show ?thesis by (simp add: for_each_nth)
qed

subsection \<open>Loops without a bound\<close>

text \<open>The body ends the loop with \<open>Inl\<close> and goes round again with \<open>Inr\<close>.\<close>

partial_function (option) repeat_until :: "('s \<Rightarrow> ('r + 's) option) \<Rightarrow> 's \<Rightarrow> 'r option" where
  "repeat_until step s =
     Option.bind (step s) (\<lambda>r. case r of Inl x \<Rightarrow> Some x | Inr t \<Rightarrow> repeat_until step t)"

lemma bind_sum_eq_Some:
  "Option.bind m (\<lambda>r. case r of Inl x \<Rightarrow> f x | Inr y \<Rightarrow> g y) = Some z \<longleftrightarrow>
     (\<exists>x. m = Some (Inl x) \<and> f x = Some z) \<or> (\<exists>y. m = Some (Inr y) \<and> g y = Some z)"
  by (cases m; cases "the m") auto

lemma bind_sum_value_eq_Some:
  "Option.bind m (\<lambda>r. Some (case r of Inl x \<Rightarrow> f x | Inr y \<Rightarrow> g y)) = Some z \<longleftrightarrow>
     (\<exists>x. m = Some (Inl x) \<and> f x = z) \<or> (\<exists>y. m = Some (Inr y) \<and> g y = z)"
  by (cases m; cases "the m") auto

lemmas bind_sums = bind_sum_eq_Some bind_sum_value_eq_Some

text \<open>What holds before every round holds for the last one.\<close>

lemma repeat_until_inv:
  fixes step :: "'s \<Rightarrow> ('r + 's) option"
  assumes run: "repeat_until step s = Some r" and start: "P s"
    and round: "\<And>s t. step s = Some (Inr t) \<Longrightarrow> P s \<Longrightarrow> P t" and last: "\<And>s r. step s = Some (Inl r) \<Longrightarrow> P s \<Longrightarrow> Q r"
  shows "Q r"
proof -
  have "step' = step \<longrightarrow> P s \<longrightarrow> Q r" if "repeat_until step' s = Some r" for step' :: "'s \<Rightarrow> ('r + 's) option" and s r
  proof (rule repeat_until.raw_induct [of "\<lambda>step' s r. step' = step \<longrightarrow> P s \<longrightarrow> Q r", OF _ that])
    fix rec :: "('s \<Rightarrow> ('r + 's) option) \<Rightarrow> 's \<Rightarrow> 'r option" and step' s r
    assume IH: "\<And>step' s r. rec step' s = Some r \<Longrightarrow> step' = step \<longrightarrow> P s \<longrightarrow> Q r"
      and "Option.bind (step' s) (\<lambda>x. case x of Inl x \<Rightarrow> Some x | Inr t \<Rightarrow> rec step' t) = Some r"
    then obtain z where z: "step' s = Some z" "(case z of Inl x \<Rightarrow> Some x | Inr t \<Rightarrow> rec step' t) = Some r"
      by (auto simp: Option.bind_eq_Some_conv)
    show "step' = step \<longrightarrow> P s \<longrightarrow> Q r" using z IH round [of s] last [of s] by (cases z) auto
  qed
  with run start show ?thesis by blast
qed

end
