(* ===== verification/Util.thy ===== *)
theory Util
  imports Prelude
begin

section \<open>src/util.h: minimum, clamp, rounding up, string comparison\<close>

text \<open>
  The inline helpers of \<open>src/util.h\<close>, with the source's comparisons. A buffer of
  characters is a \<open>string\<close>; reading more of it than it holds is undefined. The lemmas say
  that the helpers are the mathematical minimum, maximum, clamp and ceiling.
\<close>

definition soundio_int_min :: "int \<Rightarrow> int \<Rightarrow> int" where
  "soundio_int_min a b = (if a \<le> b then a else b)"

definition soundio_int_max :: "int \<Rightarrow> int \<Rightarrow> int" where
  "soundio_int_max a b = (if a \<ge> b then a else b)"

definition soundio_int_clamp :: "int \<Rightarrow> int \<Rightarrow> int \<Rightarrow> int" where
  "soundio_int_clamp min_value value max_value =
     soundio_int_max (soundio_int_min value max_value) min_value"

definition soundio_double_min :: "real \<Rightarrow> real \<Rightarrow> real" where
  "soundio_double_min a b = (if a \<le> b then a else b)"

definition soundio_double_max :: "real \<Rightarrow> real \<Rightarrow> real" where
  "soundio_double_max a b = (if a \<ge> b then a else b)"

definition soundio_double_clamp :: "real \<Rightarrow> real \<Rightarrow> real \<Rightarrow> real" where
  "soundio_double_clamp min_value value max_value =
     soundio_double_max (soundio_double_min value max_value) min_value"

definition ceil_dbl_to_int :: "real \<Rightarrow> int option" where
  "ceil_dbl_to_int x = do {
     i \<leftarrow> dbl_to_int x;
     let truncation = real_of_int i;
     dbl_to_int (truncation + (if truncation < x then 1 else 0))
   }"

text \<open>\<open>(long long) x\<close> is undefined when the value does not fit in 64 bits.\<close>

definition in_llong :: "int \<Rightarrow> bool" where
  "in_llong x \<longleftrightarrow> - (2 ^ 63) \<le> x \<and> x < 2 ^ 63"

definition ceil_dbl :: "real \<Rightarrow> real option" where
  "ceil_dbl x = do {
     c_assert (in_llong (dbl_trunc x));
     let truncation = real_of_int (dbl_trunc x);
     let ceiling = truncation + (if truncation < x then 1 else 0);
     Some ceiling
   }"

text \<open>\<open>memcmp (s1, s2, n) == 0\<close> and the copy of \<open>n\<close> characters.\<close>

definition mem_read :: "string \<Rightarrow> int \<Rightarrow> string option" where
  "mem_read s n = (if 0 \<le> n \<and> n \<le> int (length s) then Some (take (nat n) s) else None)"

definition soundio_streql :: "string \<Rightarrow> int \<Rightarrow> string \<Rightarrow> int \<Rightarrow> bool option" where
  "soundio_streql str1 str1_len str2 str2_len =
     (if str1_len \<noteq> str2_len then Some False
      else do {
        a \<leftarrow> mem_read str1 str1_len;
        b \<leftarrow> mem_read str2 str1_len;
        Some (a = b)
      })"

subsection \<open>What they compute\<close>

lemma soundio_int_min_eq [simp]: "soundio_int_min a b = min a b"
  by (simp add: soundio_int_min_def min_def)

lemma soundio_int_max_eq [simp]: "soundio_int_max a b = max a b"
  by (simp add: soundio_int_max_def max_def)

lemma soundio_double_min_eq [simp]: "soundio_double_min a b = min a b"
  by (simp add: soundio_double_min_def min_def)

lemma soundio_double_max_eq [simp]: "soundio_double_max a b = max a b"
  by (simp add: soundio_double_max_def max_def)

lemma soundio_int_clamp_range:
  "lo \<le> hi \<Longrightarrow> lo \<le> soundio_int_clamp lo x hi \<and> soundio_int_clamp lo x hi \<le> hi"
  by (auto simp: soundio_int_clamp_def)

lemma soundio_int_clamp_id: "lo \<le> x \<Longrightarrow> x \<le> hi \<Longrightarrow> soundio_int_clamp lo x hi = x"
  by (simp add: soundio_int_clamp_def)

lemma soundio_double_clamp_range:
  "lo \<le> hi \<Longrightarrow> lo \<le> soundio_double_clamp lo x hi \<and> soundio_double_clamp lo x hi \<le> hi"
  by (auto simp: soundio_double_clamp_def)

lemma mem_read_full [simp]: "mem_read s (int (length s)) = Some s"
  by (simp add: mem_read_def)

lemma soundio_streql_full [simp]:
  "soundio_streql a (int (length a)) b (int (length b)) = Some (a = b)"
  by (auto simp: soundio_streql_def mem_read_def)

text \<open>Truncating and then adding one when something was cut off is rounding up.\<close>

lemma trunc_plus_is_ceiling:
  "real_of_int (dbl_trunc x) + (if real_of_int (dbl_trunc x) < x then 1 else 0) = of_int \<lceil>x\<rceil>"
proof (cases "0 \<le> x")
  case True
  then have t: "dbl_trunc x = \<lfloor>x\<rfloor>" by (rule dbl_trunc_nonneg)
  show ?thesis
  proof (cases "of_int \<lfloor>x\<rfloor> < x")
    case True
    then have "\<lceil>x\<rceil> = \<lfloor>x\<rfloor> + 1" by linarith
    with True t show ?thesis by simp
  next
    case False
    then have "of_int \<lfloor>x\<rfloor> = x" by linarith
    with t show ?thesis by (metis add.right_neutral ceiling_of_int order_less_irrefl)
  qed
next
  case False
  then have "dbl_trunc x = \<lceil>x\<rceil>" by (simp add: dbl_trunc_def)
  moreover have "\<not> of_int \<lceil>x\<rceil> < x" by linarith
  ultimately show ?thesis by simp
qed

lemma ceil_dbl_eq: "in_llong (dbl_trunc x) \<Longrightarrow> ceil_dbl x = Some (of_int \<lceil>x\<rceil>)"
  by (simp only: ceil_dbl_def c_assert_simps Let_def Option.bind.simps trunc_plus_is_ceiling)

lemma ceil_dbl_to_int_eq:
  assumes "in_int (dbl_trunc x)" and "in_int \<lceil>x\<rceil>"
  shows "ceil_dbl_to_int x = Some \<lceil>x\<rceil>"
  using assms
  by (simp only: ceil_dbl_to_int_def dbl_to_int_def c_int_in_range Option.bind.simps Let_def
      trunc_plus_is_ceiling dbl_trunc_of_int)

end
