(* ===== verification/SoundIoTypes.thy ===== *)
theory SoundIoTypes
  imports Prelude
begin

section \<open>The enumerations of soundio.h and the pure functions on them\<close>

text \<open>
  The enums of \<open>soundio/soundio.h\<close> as datatypes with the source's enumerators; \<open>X_val\<close> is
  the integer the C compiler gives an enumerator (its position, from 0) and \<open>X_all\<close> lists
  the enumerators in that order. Where the code compares or indexes with an enum
  (\<open>format <= SoundIoFormatInvalid\<close>, \<open>backend > SoundIoBackendDummy\<close>,
  \<open>channel_names[id]\<close>) the model does so through \<open>X_val\<close> or the order it induces. Then
  the pure functions of \<open>soundio.c\<close> on error codes, formats and backends.
\<close>

subsection \<open>Enumerations\<close>

datatype SoundIoError =
    SoundIoErrorNone | SoundIoErrorNoMem | SoundIoErrorInitAudioBackend |
    SoundIoErrorSystemResources | SoundIoErrorOpeningDevice | SoundIoErrorNoSuchDevice |
    SoundIoErrorInvalid | SoundIoErrorBackendUnavailable | SoundIoErrorStreaming |
    SoundIoErrorIncompatibleDevice | SoundIoErrorNoSuchClient |
    SoundIoErrorIncompatibleBackend | SoundIoErrorBackendDisconnected |
    SoundIoErrorInterrupted | SoundIoErrorUnderflow | SoundIoErrorEncodingString

fun SoundIoError_val :: "SoundIoError \<Rightarrow> int" where
  "SoundIoError_val SoundIoErrorNone = 0" |
  "SoundIoError_val SoundIoErrorNoMem = 1" |
  "SoundIoError_val SoundIoErrorInitAudioBackend = 2" |
  "SoundIoError_val SoundIoErrorSystemResources = 3" |
  "SoundIoError_val SoundIoErrorOpeningDevice = 4" |
  "SoundIoError_val SoundIoErrorNoSuchDevice = 5" |
  "SoundIoError_val SoundIoErrorInvalid = 6" |
  "SoundIoError_val SoundIoErrorBackendUnavailable = 7" |
  "SoundIoError_val SoundIoErrorStreaming = 8" |
  "SoundIoError_val SoundIoErrorIncompatibleDevice = 9" |
  "SoundIoError_val SoundIoErrorNoSuchClient = 10" |
  "SoundIoError_val SoundIoErrorIncompatibleBackend = 11" |
  "SoundIoError_val SoundIoErrorBackendDisconnected = 12" |
  "SoundIoError_val SoundIoErrorInterrupted = 13" |
  "SoundIoError_val SoundIoErrorUnderflow = 14" |
  "SoundIoError_val SoundIoErrorEncodingString = 15"

definition SoundIoError_all :: "SoundIoError list" where
  "SoundIoError_all = [
    SoundIoErrorNone, SoundIoErrorNoMem, SoundIoErrorInitAudioBackend,
    SoundIoErrorSystemResources, SoundIoErrorOpeningDevice, SoundIoErrorNoSuchDevice,
    SoundIoErrorInvalid, SoundIoErrorBackendUnavailable, SoundIoErrorStreaming,
    SoundIoErrorIncompatibleDevice, SoundIoErrorNoSuchClient,
    SoundIoErrorIncompatibleBackend, SoundIoErrorBackendDisconnected,
    SoundIoErrorInterrupted, SoundIoErrorUnderflow, SoundIoErrorEncodingString]"

datatype (plugins only: code) SoundIoChannelId =
    SoundIoChannelIdInvalid | SoundIoChannelIdFrontLeft | SoundIoChannelIdFrontRight |
    SoundIoChannelIdFrontCenter | SoundIoChannelIdLfe | SoundIoChannelIdBackLeft |
    SoundIoChannelIdBackRight | SoundIoChannelIdFrontLeftCenter |
    SoundIoChannelIdFrontRightCenter | SoundIoChannelIdBackCenter |
    SoundIoChannelIdSideLeft | SoundIoChannelIdSideRight | SoundIoChannelIdTopCenter |
    SoundIoChannelIdTopFrontLeft | SoundIoChannelIdTopFrontCenter |
    SoundIoChannelIdTopFrontRight | SoundIoChannelIdTopBackLeft |
    SoundIoChannelIdTopBackCenter | SoundIoChannelIdTopBackRight |
    SoundIoChannelIdBackLeftCenter | SoundIoChannelIdBackRightCenter |
    SoundIoChannelIdFrontLeftWide | SoundIoChannelIdFrontRightWide |
    SoundIoChannelIdFrontLeftHigh | SoundIoChannelIdFrontCenterHigh |
    SoundIoChannelIdFrontRightHigh | SoundIoChannelIdTopFrontLeftCenter |
    SoundIoChannelIdTopFrontRightCenter | SoundIoChannelIdTopSideLeft |
    SoundIoChannelIdTopSideRight | SoundIoChannelIdLeftLfe | SoundIoChannelIdRightLfe |
    SoundIoChannelIdLfe2 | SoundIoChannelIdBottomCenter |
    SoundIoChannelIdBottomLeftCenter | SoundIoChannelIdBottomRightCenter |
    SoundIoChannelIdMsMid | SoundIoChannelIdMsSide | SoundIoChannelIdAmbisonicW |
    SoundIoChannelIdAmbisonicX | SoundIoChannelIdAmbisonicY |
    SoundIoChannelIdAmbisonicZ | SoundIoChannelIdXyX | SoundIoChannelIdXyY |
    SoundIoChannelIdHeadphonesLeft | SoundIoChannelIdHeadphonesRight |
    SoundIoChannelIdClickTrack | SoundIoChannelIdForeignLanguage |
    SoundIoChannelIdHearingImpaired | SoundIoChannelIdNarration |
    SoundIoChannelIdHaptic | SoundIoChannelIdDialogCentricMix | SoundIoChannelIdAux |
    SoundIoChannelIdAux0 | SoundIoChannelIdAux1 | SoundIoChannelIdAux2 |
    SoundIoChannelIdAux3 | SoundIoChannelIdAux4 | SoundIoChannelIdAux5 |
    SoundIoChannelIdAux6 | SoundIoChannelIdAux7 | SoundIoChannelIdAux8 |
    SoundIoChannelIdAux9 | SoundIoChannelIdAux10 | SoundIoChannelIdAux11 |
    SoundIoChannelIdAux12 | SoundIoChannelIdAux13 | SoundIoChannelIdAux14 |
    SoundIoChannelIdAux15

fun SoundIoChannelId_val :: "SoundIoChannelId \<Rightarrow> int" where
  "SoundIoChannelId_val SoundIoChannelIdInvalid = 0" |
  "SoundIoChannelId_val SoundIoChannelIdFrontLeft = 1" |
  "SoundIoChannelId_val SoundIoChannelIdFrontRight = 2" |
  "SoundIoChannelId_val SoundIoChannelIdFrontCenter = 3" |
  "SoundIoChannelId_val SoundIoChannelIdLfe = 4" |
  "SoundIoChannelId_val SoundIoChannelIdBackLeft = 5" |
  "SoundIoChannelId_val SoundIoChannelIdBackRight = 6" |
  "SoundIoChannelId_val SoundIoChannelIdFrontLeftCenter = 7" |
  "SoundIoChannelId_val SoundIoChannelIdFrontRightCenter = 8" |
  "SoundIoChannelId_val SoundIoChannelIdBackCenter = 9" |
  "SoundIoChannelId_val SoundIoChannelIdSideLeft = 10" |
  "SoundIoChannelId_val SoundIoChannelIdSideRight = 11" |
  "SoundIoChannelId_val SoundIoChannelIdTopCenter = 12" |
  "SoundIoChannelId_val SoundIoChannelIdTopFrontLeft = 13" |
  "SoundIoChannelId_val SoundIoChannelIdTopFrontCenter = 14" |
  "SoundIoChannelId_val SoundIoChannelIdTopFrontRight = 15" |
  "SoundIoChannelId_val SoundIoChannelIdTopBackLeft = 16" |
  "SoundIoChannelId_val SoundIoChannelIdTopBackCenter = 17" |
  "SoundIoChannelId_val SoundIoChannelIdTopBackRight = 18" |
  "SoundIoChannelId_val SoundIoChannelIdBackLeftCenter = 19" |
  "SoundIoChannelId_val SoundIoChannelIdBackRightCenter = 20" |
  "SoundIoChannelId_val SoundIoChannelIdFrontLeftWide = 21" |
  "SoundIoChannelId_val SoundIoChannelIdFrontRightWide = 22" |
  "SoundIoChannelId_val SoundIoChannelIdFrontLeftHigh = 23" |
  "SoundIoChannelId_val SoundIoChannelIdFrontCenterHigh = 24" |
  "SoundIoChannelId_val SoundIoChannelIdFrontRightHigh = 25" |
  "SoundIoChannelId_val SoundIoChannelIdTopFrontLeftCenter = 26" |
  "SoundIoChannelId_val SoundIoChannelIdTopFrontRightCenter = 27" |
  "SoundIoChannelId_val SoundIoChannelIdTopSideLeft = 28" |
  "SoundIoChannelId_val SoundIoChannelIdTopSideRight = 29" |
  "SoundIoChannelId_val SoundIoChannelIdLeftLfe = 30" |
  "SoundIoChannelId_val SoundIoChannelIdRightLfe = 31" |
  "SoundIoChannelId_val SoundIoChannelIdLfe2 = 32" |
  "SoundIoChannelId_val SoundIoChannelIdBottomCenter = 33" |
  "SoundIoChannelId_val SoundIoChannelIdBottomLeftCenter = 34" |
  "SoundIoChannelId_val SoundIoChannelIdBottomRightCenter = 35" |
  "SoundIoChannelId_val SoundIoChannelIdMsMid = 36" |
  "SoundIoChannelId_val SoundIoChannelIdMsSide = 37" |
  "SoundIoChannelId_val SoundIoChannelIdAmbisonicW = 38" |
  "SoundIoChannelId_val SoundIoChannelIdAmbisonicX = 39" |
  "SoundIoChannelId_val SoundIoChannelIdAmbisonicY = 40" |
  "SoundIoChannelId_val SoundIoChannelIdAmbisonicZ = 41" |
  "SoundIoChannelId_val SoundIoChannelIdXyX = 42" |
  "SoundIoChannelId_val SoundIoChannelIdXyY = 43" |
  "SoundIoChannelId_val SoundIoChannelIdHeadphonesLeft = 44" |
  "SoundIoChannelId_val SoundIoChannelIdHeadphonesRight = 45" |
  "SoundIoChannelId_val SoundIoChannelIdClickTrack = 46" |
  "SoundIoChannelId_val SoundIoChannelIdForeignLanguage = 47" |
  "SoundIoChannelId_val SoundIoChannelIdHearingImpaired = 48" |
  "SoundIoChannelId_val SoundIoChannelIdNarration = 49" |
  "SoundIoChannelId_val SoundIoChannelIdHaptic = 50" |
  "SoundIoChannelId_val SoundIoChannelIdDialogCentricMix = 51" |
  "SoundIoChannelId_val SoundIoChannelIdAux = 52" |
  "SoundIoChannelId_val SoundIoChannelIdAux0 = 53" |
  "SoundIoChannelId_val SoundIoChannelIdAux1 = 54" |
  "SoundIoChannelId_val SoundIoChannelIdAux2 = 55" |
  "SoundIoChannelId_val SoundIoChannelIdAux3 = 56" |
  "SoundIoChannelId_val SoundIoChannelIdAux4 = 57" |
  "SoundIoChannelId_val SoundIoChannelIdAux5 = 58" |
  "SoundIoChannelId_val SoundIoChannelIdAux6 = 59" |
  "SoundIoChannelId_val SoundIoChannelIdAux7 = 60" |
  "SoundIoChannelId_val SoundIoChannelIdAux8 = 61" |
  "SoundIoChannelId_val SoundIoChannelIdAux9 = 62" |
  "SoundIoChannelId_val SoundIoChannelIdAux10 = 63" |
  "SoundIoChannelId_val SoundIoChannelIdAux11 = 64" |
  "SoundIoChannelId_val SoundIoChannelIdAux12 = 65" |
  "SoundIoChannelId_val SoundIoChannelIdAux13 = 66" |
  "SoundIoChannelId_val SoundIoChannelIdAux14 = 67" |
  "SoundIoChannelId_val SoundIoChannelIdAux15 = 68"

definition SoundIoChannelId_all :: "SoundIoChannelId list" where
  "SoundIoChannelId_all = [
    SoundIoChannelIdInvalid, SoundIoChannelIdFrontLeft, SoundIoChannelIdFrontRight,
    SoundIoChannelIdFrontCenter, SoundIoChannelIdLfe, SoundIoChannelIdBackLeft,
    SoundIoChannelIdBackRight, SoundIoChannelIdFrontLeftCenter,
    SoundIoChannelIdFrontRightCenter, SoundIoChannelIdBackCenter,
    SoundIoChannelIdSideLeft, SoundIoChannelIdSideRight, SoundIoChannelIdTopCenter,
    SoundIoChannelIdTopFrontLeft, SoundIoChannelIdTopFrontCenter,
    SoundIoChannelIdTopFrontRight, SoundIoChannelIdTopBackLeft,
    SoundIoChannelIdTopBackCenter, SoundIoChannelIdTopBackRight,
    SoundIoChannelIdBackLeftCenter, SoundIoChannelIdBackRightCenter,
    SoundIoChannelIdFrontLeftWide, SoundIoChannelIdFrontRightWide,
    SoundIoChannelIdFrontLeftHigh, SoundIoChannelIdFrontCenterHigh,
    SoundIoChannelIdFrontRightHigh, SoundIoChannelIdTopFrontLeftCenter,
    SoundIoChannelIdTopFrontRightCenter, SoundIoChannelIdTopSideLeft,
    SoundIoChannelIdTopSideRight, SoundIoChannelIdLeftLfe, SoundIoChannelIdRightLfe,
    SoundIoChannelIdLfe2, SoundIoChannelIdBottomCenter,
    SoundIoChannelIdBottomLeftCenter, SoundIoChannelIdBottomRightCenter,
    SoundIoChannelIdMsMid, SoundIoChannelIdMsSide, SoundIoChannelIdAmbisonicW,
    SoundIoChannelIdAmbisonicX, SoundIoChannelIdAmbisonicY, SoundIoChannelIdAmbisonicZ,
    SoundIoChannelIdXyX, SoundIoChannelIdXyY, SoundIoChannelIdHeadphonesLeft,
    SoundIoChannelIdHeadphonesRight, SoundIoChannelIdClickTrack,
    SoundIoChannelIdForeignLanguage, SoundIoChannelIdHearingImpaired,
    SoundIoChannelIdNarration, SoundIoChannelIdHaptic, SoundIoChannelIdDialogCentricMix,
    SoundIoChannelIdAux, SoundIoChannelIdAux0, SoundIoChannelIdAux1,
    SoundIoChannelIdAux2, SoundIoChannelIdAux3, SoundIoChannelIdAux4,
    SoundIoChannelIdAux5, SoundIoChannelIdAux6, SoundIoChannelIdAux7,
    SoundIoChannelIdAux8, SoundIoChannelIdAux9, SoundIoChannelIdAux10,
    SoundIoChannelIdAux11, SoundIoChannelIdAux12, SoundIoChannelIdAux13,
    SoundIoChannelIdAux14, SoundIoChannelIdAux15]"

datatype SoundIoChannelLayoutId =
    SoundIoChannelLayoutIdMono | SoundIoChannelLayoutIdStereo |
    SoundIoChannelLayoutId2Point1 | SoundIoChannelLayoutId3Point0 |
    SoundIoChannelLayoutId3Point0Back | SoundIoChannelLayoutId3Point1 |
    SoundIoChannelLayoutId4Point0 | SoundIoChannelLayoutIdQuad |
    SoundIoChannelLayoutIdQuadSide | SoundIoChannelLayoutId4Point1 |
    SoundIoChannelLayoutId5Point0Back | SoundIoChannelLayoutId5Point0Side |
    SoundIoChannelLayoutId5Point1 | SoundIoChannelLayoutId5Point1Back |
    SoundIoChannelLayoutId6Point0Side | SoundIoChannelLayoutId6Point0Front |
    SoundIoChannelLayoutIdHexagonal | SoundIoChannelLayoutId6Point1 |
    SoundIoChannelLayoutId6Point1Back | SoundIoChannelLayoutId6Point1Front |
    SoundIoChannelLayoutId7Point0 | SoundIoChannelLayoutId7Point0Front |
    SoundIoChannelLayoutId7Point1 | SoundIoChannelLayoutId7Point1Wide |
    SoundIoChannelLayoutId7Point1WideBack | SoundIoChannelLayoutIdOctagonal

fun SoundIoChannelLayoutId_val :: "SoundIoChannelLayoutId \<Rightarrow> int" where
  "SoundIoChannelLayoutId_val SoundIoChannelLayoutIdMono = 0" |
  "SoundIoChannelLayoutId_val SoundIoChannelLayoutIdStereo = 1" |
  "SoundIoChannelLayoutId_val SoundIoChannelLayoutId2Point1 = 2" |
  "SoundIoChannelLayoutId_val SoundIoChannelLayoutId3Point0 = 3" |
  "SoundIoChannelLayoutId_val SoundIoChannelLayoutId3Point0Back = 4" |
  "SoundIoChannelLayoutId_val SoundIoChannelLayoutId3Point1 = 5" |
  "SoundIoChannelLayoutId_val SoundIoChannelLayoutId4Point0 = 6" |
  "SoundIoChannelLayoutId_val SoundIoChannelLayoutIdQuad = 7" |
  "SoundIoChannelLayoutId_val SoundIoChannelLayoutIdQuadSide = 8" |
  "SoundIoChannelLayoutId_val SoundIoChannelLayoutId4Point1 = 9" |
  "SoundIoChannelLayoutId_val SoundIoChannelLayoutId5Point0Back = 10" |
  "SoundIoChannelLayoutId_val SoundIoChannelLayoutId5Point0Side = 11" |
  "SoundIoChannelLayoutId_val SoundIoChannelLayoutId5Point1 = 12" |
  "SoundIoChannelLayoutId_val SoundIoChannelLayoutId5Point1Back = 13" |
  "SoundIoChannelLayoutId_val SoundIoChannelLayoutId6Point0Side = 14" |
  "SoundIoChannelLayoutId_val SoundIoChannelLayoutId6Point0Front = 15" |
  "SoundIoChannelLayoutId_val SoundIoChannelLayoutIdHexagonal = 16" |
  "SoundIoChannelLayoutId_val SoundIoChannelLayoutId6Point1 = 17" |
  "SoundIoChannelLayoutId_val SoundIoChannelLayoutId6Point1Back = 18" |
  "SoundIoChannelLayoutId_val SoundIoChannelLayoutId6Point1Front = 19" |
  "SoundIoChannelLayoutId_val SoundIoChannelLayoutId7Point0 = 20" |
  "SoundIoChannelLayoutId_val SoundIoChannelLayoutId7Point0Front = 21" |
  "SoundIoChannelLayoutId_val SoundIoChannelLayoutId7Point1 = 22" |
  "SoundIoChannelLayoutId_val SoundIoChannelLayoutId7Point1Wide = 23" |
  "SoundIoChannelLayoutId_val SoundIoChannelLayoutId7Point1WideBack = 24" |
  "SoundIoChannelLayoutId_val SoundIoChannelLayoutIdOctagonal = 25"

definition SoundIoChannelLayoutId_all :: "SoundIoChannelLayoutId list" where
  "SoundIoChannelLayoutId_all = [
    SoundIoChannelLayoutIdMono, SoundIoChannelLayoutIdStereo,
    SoundIoChannelLayoutId2Point1, SoundIoChannelLayoutId3Point0,
    SoundIoChannelLayoutId3Point0Back, SoundIoChannelLayoutId3Point1,
    SoundIoChannelLayoutId4Point0, SoundIoChannelLayoutIdQuad,
    SoundIoChannelLayoutIdQuadSide, SoundIoChannelLayoutId4Point1,
    SoundIoChannelLayoutId5Point0Back, SoundIoChannelLayoutId5Point0Side,
    SoundIoChannelLayoutId5Point1, SoundIoChannelLayoutId5Point1Back,
    SoundIoChannelLayoutId6Point0Side, SoundIoChannelLayoutId6Point0Front,
    SoundIoChannelLayoutIdHexagonal, SoundIoChannelLayoutId6Point1,
    SoundIoChannelLayoutId6Point1Back, SoundIoChannelLayoutId6Point1Front,
    SoundIoChannelLayoutId7Point0, SoundIoChannelLayoutId7Point0Front,
    SoundIoChannelLayoutId7Point1, SoundIoChannelLayoutId7Point1Wide,
    SoundIoChannelLayoutId7Point1WideBack, SoundIoChannelLayoutIdOctagonal]"

datatype SoundIoBackend =
    SoundIoBackendNone | SoundIoBackendJack | SoundIoBackendPulseAudio |
    SoundIoBackendAlsa | SoundIoBackendCoreAudio | SoundIoBackendWasapi |
    SoundIoBackendDummy

fun SoundIoBackend_val :: "SoundIoBackend \<Rightarrow> int" where
  "SoundIoBackend_val SoundIoBackendNone = 0" |
  "SoundIoBackend_val SoundIoBackendJack = 1" |
  "SoundIoBackend_val SoundIoBackendPulseAudio = 2" |
  "SoundIoBackend_val SoundIoBackendAlsa = 3" |
  "SoundIoBackend_val SoundIoBackendCoreAudio = 4" |
  "SoundIoBackend_val SoundIoBackendWasapi = 5" |
  "SoundIoBackend_val SoundIoBackendDummy = 6"

definition SoundIoBackend_all :: "SoundIoBackend list" where
  "SoundIoBackend_all = [
    SoundIoBackendNone, SoundIoBackendJack, SoundIoBackendPulseAudio,
    SoundIoBackendAlsa, SoundIoBackendCoreAudio, SoundIoBackendWasapi,
    SoundIoBackendDummy]"

datatype SoundIoDeviceAim =
    SoundIoDeviceAimInput | SoundIoDeviceAimOutput

fun SoundIoDeviceAim_val :: "SoundIoDeviceAim \<Rightarrow> int" where
  "SoundIoDeviceAim_val SoundIoDeviceAimInput = 0" |
  "SoundIoDeviceAim_val SoundIoDeviceAimOutput = 1"

definition SoundIoDeviceAim_all :: "SoundIoDeviceAim list" where
  "SoundIoDeviceAim_all = [
    SoundIoDeviceAimInput, SoundIoDeviceAimOutput]"

datatype SoundIoFormat =
    SoundIoFormatInvalid | SoundIoFormatS8 | SoundIoFormatU8 | SoundIoFormatS16LE |
    SoundIoFormatS16BE | SoundIoFormatU16LE | SoundIoFormatU16BE | SoundIoFormatS24LE |
    SoundIoFormatS24BE | SoundIoFormatU24LE | SoundIoFormatU24BE | SoundIoFormatS32LE |
    SoundIoFormatS32BE | SoundIoFormatU32LE | SoundIoFormatU32BE |
    SoundIoFormatFloat32LE | SoundIoFormatFloat32BE | SoundIoFormatFloat64LE |
    SoundIoFormatFloat64BE

fun SoundIoFormat_val :: "SoundIoFormat \<Rightarrow> int" where
  "SoundIoFormat_val SoundIoFormatInvalid = 0" |
  "SoundIoFormat_val SoundIoFormatS8 = 1" |
  "SoundIoFormat_val SoundIoFormatU8 = 2" |
  "SoundIoFormat_val SoundIoFormatS16LE = 3" |
  "SoundIoFormat_val SoundIoFormatS16BE = 4" |
  "SoundIoFormat_val SoundIoFormatU16LE = 5" |
  "SoundIoFormat_val SoundIoFormatU16BE = 6" |
  "SoundIoFormat_val SoundIoFormatS24LE = 7" |
  "SoundIoFormat_val SoundIoFormatS24BE = 8" |
  "SoundIoFormat_val SoundIoFormatU24LE = 9" |
  "SoundIoFormat_val SoundIoFormatU24BE = 10" |
  "SoundIoFormat_val SoundIoFormatS32LE = 11" |
  "SoundIoFormat_val SoundIoFormatS32BE = 12" |
  "SoundIoFormat_val SoundIoFormatU32LE = 13" |
  "SoundIoFormat_val SoundIoFormatU32BE = 14" |
  "SoundIoFormat_val SoundIoFormatFloat32LE = 15" |
  "SoundIoFormat_val SoundIoFormatFloat32BE = 16" |
  "SoundIoFormat_val SoundIoFormatFloat64LE = 17" |
  "SoundIoFormat_val SoundIoFormatFloat64BE = 18"

definition SoundIoFormat_all :: "SoundIoFormat list" where
  "SoundIoFormat_all = [
    SoundIoFormatInvalid, SoundIoFormatS8, SoundIoFormatU8, SoundIoFormatS16LE,
    SoundIoFormatS16BE, SoundIoFormatU16LE, SoundIoFormatU16BE, SoundIoFormatS24LE,
    SoundIoFormatS24BE, SoundIoFormatU24LE, SoundIoFormatU24BE, SoundIoFormatS32LE,
    SoundIoFormatS32BE, SoundIoFormatU32LE, SoundIoFormatU32BE, SoundIoFormatFloat32LE,
    SoundIoFormatFloat32BE, SoundIoFormatFloat64LE, SoundIoFormatFloat64BE]"

subsection \<open>The order of the enumerators\<close>

lemma SoundIoError_all_val: "map SoundIoError_val SoundIoError_all = map int [0..<16]"
  by (simp add: SoundIoError_all_def upt_rec)

lemma SoundIoBackend_all_val: "map SoundIoBackend_val SoundIoBackend_all = map int [0..<7]"
  by (simp add: SoundIoBackend_all_def upt_rec)

lemma SoundIoFormat_all_val: "map SoundIoFormat_val SoundIoFormat_all = map int [0..<19]"
  by (simp add: SoundIoFormat_all_def upt_rec)

lemma SoundIoChannelId_all_val: "map SoundIoChannelId_val SoundIoChannelId_all = map int [0..<69]"
  by (simp add: SoundIoChannelId_all_def upt_rec)

lemma in_SoundIoError_all [simp]: "e \<in> set SoundIoError_all"
  by (cases e) (simp_all add: SoundIoError_all_def)

lemma in_SoundIoBackend_all [simp]: "b \<in> set SoundIoBackend_all"
  by (cases b) (simp_all add: SoundIoBackend_all_def)

lemma in_SoundIoFormat_all [simp]: "f \<in> set SoundIoFormat_all"
  by (cases f) (simp_all add: SoundIoFormat_all_def)

lemma in_SoundIoChannelId_all [simp]: "c \<in> set SoundIoChannelId_all"
  by (cases c) (simp_all add: SoundIoChannelId_all_def)

text \<open>A listing whose values are \<open>0, 1, 2, \<dots>\<close> inverts the value function.\<close>

lemma val_all_nth:
  assumes "map v xs = map int [0..<n]" and "x \<in> set xs"
  shows "0 \<le> v x \<and> v x < int n \<and> xs ! nat (v x) = x"
proof -
  from assms(1) have len: "length xs = n"
    by (metis length_map length_upt diff_zero)
  from assms(2) obtain i where i: "i < length xs" "xs ! i = x"
    by (auto simp: in_set_conv_nth)
  have "v x = map v xs ! i" using i by simp
  also have "\<dots> = int i" using i len by (simp add: assms(1))
  finally show ?thesis using i len by simp
qed

lemmas SoundIoBackend_val_nth = val_all_nth [OF SoundIoBackend_all_val in_SoundIoBackend_all]
lemmas SoundIoFormat_val_nth = val_all_nth [OF SoundIoFormat_all_val in_SoundIoFormat_all]
lemmas SoundIoChannelId_val_nth = val_all_nth [OF SoundIoChannelId_all_val in_SoundIoChannelId_all]
lemmas SoundIoError_val_nth = val_all_nth [OF SoundIoError_all_val in_SoundIoError_all]

lemma SoundIoBackend_val_inj [simp]: "SoundIoBackend_val a = SoundIoBackend_val b \<longleftrightarrow> a = b"
  by (metis SoundIoBackend_val_nth)

lemma SoundIoFormat_val_inj [simp]: "SoundIoFormat_val a = SoundIoFormat_val b \<longleftrightarrow> a = b"
  by (metis SoundIoFormat_val_nth)

lemma SoundIoChannelId_val_inj [simp]: "SoundIoChannelId_val a = SoundIoChannelId_val b \<longleftrightarrow> a = b"
  by (metis SoundIoChannelId_val_nth)

instantiation SoundIoBackend :: linorder
begin
definition less_eq_SoundIoBackend :: "SoundIoBackend \<Rightarrow> SoundIoBackend \<Rightarrow> bool" where
  "less_eq_SoundIoBackend a b \<longleftrightarrow> SoundIoBackend_val a \<le> SoundIoBackend_val b"
definition less_SoundIoBackend :: "SoundIoBackend \<Rightarrow> SoundIoBackend \<Rightarrow> bool" where
  "less_SoundIoBackend a b \<longleftrightarrow> SoundIoBackend_val a < SoundIoBackend_val b"
instance
  by standard (auto simp: less_eq_SoundIoBackend_def less_SoundIoBackend_def)
end

instantiation SoundIoFormat :: linorder
begin
definition less_eq_SoundIoFormat :: "SoundIoFormat \<Rightarrow> SoundIoFormat \<Rightarrow> bool" where
  "less_eq_SoundIoFormat a b \<longleftrightarrow> SoundIoFormat_val a \<le> SoundIoFormat_val b"
definition less_SoundIoFormat :: "SoundIoFormat \<Rightarrow> SoundIoFormat \<Rightarrow> bool" where
  "less_SoundIoFormat a b \<longleftrightarrow> SoundIoFormat_val a < SoundIoFormat_val b"
instance
  by standard (auto simp: less_eq_SoundIoFormat_def less_SoundIoFormat_def)
end

instantiation SoundIoChannelId :: linorder
begin
definition less_eq_SoundIoChannelId :: "SoundIoChannelId \<Rightarrow> SoundIoChannelId \<Rightarrow> bool" where
  "less_eq_SoundIoChannelId a b \<longleftrightarrow> SoundIoChannelId_val a \<le> SoundIoChannelId_val b"
definition less_SoundIoChannelId :: "SoundIoChannelId \<Rightarrow> SoundIoChannelId \<Rightarrow> bool" where
  "less_SoundIoChannelId a b \<longleftrightarrow> SoundIoChannelId_val a < SoundIoChannelId_val b"
instance
  by standard (auto simp: less_eq_SoundIoChannelId_def less_SoundIoChannelId_def)
end

lemma SoundIoFormat_le_Invalid [simp]: "f \<le> SoundIoFormatInvalid \<longleftrightarrow> f = SoundIoFormatInvalid"
  by (cases f) (simp_all add: less_eq_SoundIoFormat_def)

lemma SoundIoBackend_le_None [simp]: "b \<le> SoundIoBackendNone \<longleftrightarrow> b = SoundIoBackendNone"
  by (cases b) (simp_all add: less_eq_SoundIoBackend_def)

lemma SoundIoBackend_le_Dummy [simp]: "b \<le> SoundIoBackendDummy"
  by (cases b) (simp_all add: less_eq_SoundIoBackend_def)

lemma SoundIoBackend_gt_Dummy [simp]: "\<not> SoundIoBackendDummy < b"
  by (cases b) (simp_all add: less_SoundIoBackend_def)

subsection \<open>Error codes, formats and backends: \<open>soundio.c\<close>\<close>

text \<open>The switch of \<open>soundio_strerror\<close> is on an \<open>int\<close>: any value may be passed.\<close>

definition SoundIoError_of :: "int \<Rightarrow> SoundIoError option" where
  "SoundIoError_of i = find (\<lambda>e. SoundIoError_val e = i) SoundIoError_all"

definition soundio_strerror :: "int \<Rightarrow> string" where
  "soundio_strerror error =
     (case SoundIoError_of error of
        Some SoundIoErrorNone \<Rightarrow> ''(no error)''
      | Some SoundIoErrorNoMem \<Rightarrow> ''out of memory''
      | Some SoundIoErrorInitAudioBackend \<Rightarrow> ''unable to initialize audio backend''
      | Some SoundIoErrorSystemResources \<Rightarrow> ''system resource not available''
      | Some SoundIoErrorOpeningDevice \<Rightarrow> ''unable to open device''
      | Some SoundIoErrorNoSuchDevice \<Rightarrow> ''no such device''
      | Some SoundIoErrorInvalid \<Rightarrow> ''invalid value''
      | Some SoundIoErrorBackendUnavailable \<Rightarrow> ''backend unavailable''
      | Some SoundIoErrorStreaming \<Rightarrow> ''unrecoverable streaming failure''
      | Some SoundIoErrorIncompatibleDevice \<Rightarrow> ''incompatible device''
      | Some SoundIoErrorNoSuchClient \<Rightarrow> ''no such client''
      | Some SoundIoErrorIncompatibleBackend \<Rightarrow> ''incompatible backend''
      | Some SoundIoErrorBackendDisconnected \<Rightarrow> ''backend disconnected''
      | Some SoundIoErrorInterrupted \<Rightarrow> ''interrupted; try again''
      | Some SoundIoErrorUnderflow \<Rightarrow> ''buffer underflow''
      | Some SoundIoErrorEncodingString \<Rightarrow> ''failed to encode string''
      | None \<Rightarrow> ''(invalid error)'')"

fun soundio_get_bytes_per_sample :: "SoundIoFormat \<Rightarrow> int" where
  "soundio_get_bytes_per_sample SoundIoFormatU8 = 1" |
  "soundio_get_bytes_per_sample SoundIoFormatS8 = 1" |
  "soundio_get_bytes_per_sample SoundIoFormatS16LE = 2" |
  "soundio_get_bytes_per_sample SoundIoFormatS16BE = 2" |
  "soundio_get_bytes_per_sample SoundIoFormatU16LE = 2" |
  "soundio_get_bytes_per_sample SoundIoFormatU16BE = 2" |
  "soundio_get_bytes_per_sample SoundIoFormatS24LE = 4" |
  "soundio_get_bytes_per_sample SoundIoFormatS24BE = 4" |
  "soundio_get_bytes_per_sample SoundIoFormatU24LE = 4" |
  "soundio_get_bytes_per_sample SoundIoFormatU24BE = 4" |
  "soundio_get_bytes_per_sample SoundIoFormatS32LE = 4" |
  "soundio_get_bytes_per_sample SoundIoFormatS32BE = 4" |
  "soundio_get_bytes_per_sample SoundIoFormatU32LE = 4" |
  "soundio_get_bytes_per_sample SoundIoFormatU32BE = 4" |
  "soundio_get_bytes_per_sample SoundIoFormatFloat32LE = 4" |
  "soundio_get_bytes_per_sample SoundIoFormatFloat32BE = 4" |
  "soundio_get_bytes_per_sample SoundIoFormatFloat64LE = 8" |
  "soundio_get_bytes_per_sample SoundIoFormatFloat64BE = 8" |
  "soundio_get_bytes_per_sample SoundIoFormatInvalid = - 1"

definition soundio_get_bytes_per_frame :: "SoundIoFormat \<Rightarrow> int \<Rightarrow> int option" where
  "soundio_get_bytes_per_frame format channel_count =
     c_int (soundio_get_bytes_per_sample format * channel_count)"

definition soundio_get_bytes_per_second :: "SoundIoFormat \<Rightarrow> int \<Rightarrow> int \<Rightarrow> int option" where
  "soundio_get_bytes_per_second format channel_count sample_rate = do {
     bytes_per_frame \<leftarrow> soundio_get_bytes_per_frame format channel_count;
     c_int (bytes_per_frame * sample_rate)
   }"

fun soundio_format_string :: "SoundIoFormat \<Rightarrow> string" where
  "soundio_format_string SoundIoFormatS8 = ''signed 8-bit''" |
  "soundio_format_string SoundIoFormatU8 = ''unsigned 8-bit''" |
  "soundio_format_string SoundIoFormatS16LE = ''signed 16-bit LE''" |
  "soundio_format_string SoundIoFormatS16BE = ''signed 16-bit BE''" |
  "soundio_format_string SoundIoFormatU16LE = ''unsigned 16-bit LE''" |
  "soundio_format_string SoundIoFormatU16BE = ''unsigned 16-bit LE''" |
  "soundio_format_string SoundIoFormatS24LE = ''signed 24-bit LE''" |
  "soundio_format_string SoundIoFormatS24BE = ''signed 24-bit BE''" |
  "soundio_format_string SoundIoFormatU24LE = ''unsigned 24-bit LE''" |
  "soundio_format_string SoundIoFormatU24BE = ''unsigned 24-bit BE''" |
  "soundio_format_string SoundIoFormatS32LE = ''signed 32-bit LE''" |
  "soundio_format_string SoundIoFormatS32BE = ''signed 32-bit BE''" |
  "soundio_format_string SoundIoFormatU32LE = ''unsigned 32-bit LE''" |
  "soundio_format_string SoundIoFormatU32BE = ''unsigned 32-bit BE''" |
  "soundio_format_string SoundIoFormatFloat32LE = ''float 32-bit LE''" |
  "soundio_format_string SoundIoFormatFloat32BE = ''float 32-bit BE''" |
  "soundio_format_string SoundIoFormatFloat64LE = ''float 64-bit LE''" |
  "soundio_format_string SoundIoFormatFloat64BE = ''float 64-bit BE''" |
  "soundio_format_string SoundIoFormatInvalid = ''(invalid sample format)''"

fun soundio_backend_name :: "SoundIoBackend \<Rightarrow> string" where
  "soundio_backend_name SoundIoBackendNone = ''(none)''" |
  "soundio_backend_name SoundIoBackendJack = ''JACK''" |
  "soundio_backend_name SoundIoBackendPulseAudio = ''PulseAudio''" |
  "soundio_backend_name SoundIoBackendAlsa = ''ALSA''" |
  "soundio_backend_name SoundIoBackendCoreAudio = ''CoreAudio''" |
  "soundio_backend_name SoundIoBackendWasapi = ''WASAPI''" |
  "soundio_backend_name SoundIoBackendDummy = ''Dummy''"

text \<open>
  Native-endian and foreign-endian formats: the macros of \<open>soundio.h\<close>, chosen by the byte
  order of the target (\<open>SOUNDIO_OS_BIG_ENDIAN\<close>).
\<close>

definition ne_fmt :: "bool \<Rightarrow> SoundIoFormat \<Rightarrow> SoundIoFormat \<Rightarrow> SoundIoFormat" where
  "ne_fmt big_endian le be = (if big_endian then be else le)"

definition SoundIoFormatFloat32NE :: "bool \<Rightarrow> SoundIoFormat" where
  "SoundIoFormatFloat32NE big_endian = ne_fmt big_endian SoundIoFormatFloat32LE SoundIoFormatFloat32BE"

text \<open>
  A foreign-endian macro is the native one of the opposite byte order, so the list of all
  formats in native-then-foreign pairs is written once.
\<close>

definition native_foreign_pairs :: "bool \<Rightarrow> (SoundIoFormat \<times> SoundIoFormat) \<Rightarrow> SoundIoFormat list" where
  "native_foreign_pairs big_endian p =
     [ne_fmt big_endian (fst p) (snd p), ne_fmt (\<not> big_endian) (fst p) (snd p)]"

lemma soundio_get_bytes_per_sample_bounds:
  "f \<noteq> SoundIoFormatInvalid \<Longrightarrow> soundio_get_bytes_per_sample f \<in> {1, 2, 4, 8}"
  by (cases f) simp_all

lemma soundio_get_bytes_per_sample_pos [simp]:
  "0 < soundio_get_bytes_per_sample f \<longleftrightarrow> f \<noteq> SoundIoFormatInvalid"
  by (cases f) simp_all

lemma SoundIoFormatFloat32NE_valid [simp]: "SoundIoFormatFloat32NE b \<noteq> SoundIoFormatInvalid"
  by (simp add: SoundIoFormatFloat32NE_def ne_fmt_def)

lemma SoundIoError_of_val [simp]: "SoundIoError_of (SoundIoError_val e) = Some e"
  by (cases e) (simp_all add: SoundIoError_of_def SoundIoError_all_def)

end
