(* ===== verification/Memory.thy ===== *)
theory Memory
  imports Util SoundIoTypes
begin

section \<open>The allocator\<close>

text \<open>
  \<open>malloc\<close>, \<open>calloc\<close>, \<open>realloc\<close>, \<open>free\<close> and the system calls that may fail for lack of
  resources. A block is a number; \<open>blocks\<close> holds the live ones. A pointer is a
  \<open>nat option\<close>, NULL is \<open>None\<close>. Whether a request succeeds is decided by \<open>answers\<close>, one
  answer per request and success once it is used up: a theorem about all states covers
  every pattern of failures. Freeing a block that is not live is undefined. What a block
  holds is kept by its owner (in the structs), or in the maps that later theories add to
  this record for the structs that several pointers reach.
\<close>

record mem =
  answers :: "bool list"
  next_id :: nat
  blocks :: "nat set"

definition ask :: "'z mem_scheme \<Rightarrow> bool \<times> 'z mem_scheme" where
  "ask s = (case answers s of [] \<Rightarrow> (True, s) | b # bs \<Rightarrow> (b, s\<lparr>answers := bs\<rparr>))"

definition alloc :: "'z mem_scheme \<Rightarrow> nat option \<times> 'z mem_scheme" where
  "alloc s =
     (let (ok, s) = ask s
      in if ok then (Some (next_id s), s\<lparr>next_id := Suc (next_id s), blocks := insert (next_id s) (blocks s)\<rparr>)
         else (None, s))"

definition free_blk :: "nat option \<Rightarrow> 'z mem_scheme \<Rightarrow> 'z mem_scheme option" where
  "free_blk p s =
     (case p of None \<Rightarrow> Some s
      | Some b \<Rightarrow> if b \<in> blocks s then Some (s\<lparr>blocks := blocks s - {b}\<rparr>) else None)"

text \<open>\<open>realloc\<close>: a new block on success (the old one is gone), NULL and no change on failure.\<close>

definition realloc_blk :: "nat option \<Rightarrow> 'z mem_scheme \<Rightarrow> (nat option \<times> 'z mem_scheme) option" where
  "realloc_blk p s =
     (let (q, s) = alloc s
      in if q = None then Some (None, s)
         else do { s \<leftarrow> free_blk p s; Some (q, s) })"

definition mem_ok :: "'z mem_scheme \<Rightarrow> bool" where
  "mem_ok s \<longleftrightarrow> (\<forall>b \<in> blocks s. b < next_id s)"

text \<open>Pointers that may be followed: NULL or a live block.\<close>

definition ptr_ok :: "nat option \<Rightarrow> 'z mem_scheme \<Rightarrow> bool" where
  "ptr_ok p s \<longleftrightarrow> (case p of None \<Rightarrow> True | Some b \<Rightarrow> b \<in> blocks s)"

lemma ptr_ok_None [simp]: "ptr_ok None s"
  by (simp add: ptr_ok_def)

lemma ptr_ok_Some [simp]: "ptr_ok (Some b) s \<longleftrightarrow> b \<in> blocks s"
  by (simp add: ptr_ok_def)

lemma ask_frame [simp]:
  "next_id (snd (ask s)) = next_id s" "blocks (snd (ask s)) = blocks s"
  "mem.more (snd (ask s)) = mem.more s"
  by (simp_all add: ask_def split: list.split)

lemma ask_nil [simp, run_simps]: "answers s = [] \<Longrightarrow> ask s = (True, s)"
  by (simp add: ask_def)

lemma ask_cons [run_simps]: "answers s = b # bs \<Longrightarrow> ask s = (b, s\<lparr>answers := bs\<rparr>)"
  by (simp add: ask_def)

lemma ask_mem_ok [simp]: "mem_ok (snd (ask s)) = mem_ok s"
  by (simp add: mem_ok_def)

lemma alloc_cases:
  obtains (fail) s' where "alloc s = (None, s')" "blocks s' = blocks s" "next_id s' = next_id s"
      "mem.more s' = mem.more s"
    | (ok) s' where "alloc s = (Some (next_id s), s')" "blocks s' = insert (next_id s) (blocks s)"
      "next_id s' = Suc (next_id s)" "mem.more s' = mem.more s"
proof (cases "ask s")
  case (Pair b t)
  have t: "next_id t = next_id s" "blocks t = blocks s" "mem.more t = mem.more s"
    using ask_frame [of s] Pair by simp_all
  show thesis
  proof (cases b)
    case True
    let ?s' = "t\<lparr>next_id := Suc (next_id t), blocks := insert (next_id t) (blocks t)\<rparr>"
    show thesis using True Pair t by (intro ok [of ?s']) (simp_all add: alloc_def)
  next
    case False
    show thesis using False Pair t by (intro fail [of t]) (simp_all add: alloc_def)
  qed
qed

lemma alloc_fresh: "mem_ok s \<Longrightarrow> next_id s \<notin> blocks s"
  by (auto simp: mem_ok_def)

lemma alloc_mem_ok [wf_intros]: "mem_ok s \<Longrightarrow> mem_ok (snd (alloc s))"
  by (rule alloc_cases [of s]) (auto simp: mem_ok_def less_SucI)

lemma alloc_nil [run_simps]:
  "answers s = [] \<Longrightarrow>
   alloc s = (Some (next_id s), s\<lparr>next_id := Suc (next_id s), blocks := insert (next_id s) (blocks s)\<rparr>)"
  by (simp add: alloc_def)

lemma free_blk_None [simp, run_simps]: "free_blk None s = Some s"
  by (simp add: free_blk_def)

lemma free_blk_live [run_simps]: "b \<in> blocks s \<Longrightarrow> free_blk (Some b) s = Some (s\<lparr>blocks := blocks s - {b}\<rparr>)"
  by (simp add: free_blk_def)

lemma free_blk_dead: "b \<notin> blocks s \<Longrightarrow> free_blk (Some b) s = None"
  by (simp add: free_blk_def)

lemma free_blk_eq_Some:
  "free_blk p s = Some t \<longleftrightarrow>
   (p = None \<and> t = s \<or> (\<exists>b. p = Some b \<and> b \<in> blocks s \<and> t = s\<lparr>blocks := blocks s - {b}\<rparr>))"
  by (auto simp: free_blk_def split: option.split)

lemma free_blk_mem_ok [wf_intros]: "free_blk p s = Some t \<Longrightarrow> mem_ok s \<Longrightarrow> mem_ok t"
  by (auto simp: free_blk_eq_Some mem_ok_def)

lemma free_blk_total: "ptr_ok p s \<Longrightarrow> \<exists>t. free_blk p s = Some t"
  by (auto simp: free_blk_def ptr_ok_def split: option.splits)

lemma realloc_blk_spec:
  assumes "mem_ok s" and "ptr_ok p s"
  shows "\<exists>q s'. realloc_blk p s = Some (q, s') \<and> mem_ok s' \<and> mem.more s' = mem.more s \<and>
           (case q of None \<Rightarrow> blocks s' = blocks s
            | Some b \<Rightarrow> b \<notin> blocks s \<and> blocks s' = insert b (blocks s - set_option p))"
proof (rule alloc_cases [of s])
  fix t assume t: "alloc s = (None, t)" "blocks t = blocks s" "next_id t = next_id s" "mem.more t = mem.more s"
  then show ?thesis using assms by (auto simp: realloc_blk_def mem_ok_def)
next
  fix t assume t: "alloc s = (Some (next_id s), t)" "blocks t = insert (next_id s) (blocks s)"
    "next_id t = Suc (next_id s)" "mem.more t = mem.more s"
  from assms(2) t(2) obtain u where u: "free_blk p t = Some u" "blocks u = blocks t - set_option p"
    "next_id u = next_id t" "mem.more u = mem.more t"
    by (cases p) (auto simp: free_blk_def)
  have "next_id s \<notin> set_option p" "next_id s \<notin> blocks s"
    using assms by (cases p; auto simp: mem_ok_def)+
  with t u assms show ?thesis
    by (auto simp: realloc_blk_def mem_ok_def less_SucI)
qed

text \<open>\<open>soundio_str_dupe\<close> and \<open>soundio_alloc_sprintf\<close> give a fresh block holding a string.\<close>

type_synonym cstring = "(nat \<times> string) option"

abbreviation str_blk :: "cstring \<Rightarrow> nat option" where
  "str_blk p \<equiv> map_option fst p"

definition soundio_str_dupe :: "string \<Rightarrow> int \<Rightarrow> 'z mem_scheme \<Rightarrow> (cstring \<times> 'z mem_scheme) option" where
  "soundio_str_dupe str str_len s =
     (let (out, s) = alloc s
      in case out of None \<Rightarrow> Some (None, s)
         | Some b \<Rightarrow> do { c \<leftarrow> mem_read str str_len; Some (Some (b, c), s) })"

text \<open>
  \<open>formatted\<close> is what \<open>vsnprintf\<close> prints for the format and its arguments; the result is
  the string with its length.
\<close>

definition soundio_alloc_sprintf :: "string \<Rightarrow> 'z mem_scheme \<Rightarrow> (cstring \<times> int) \<times> 'z mem_scheme" where
  "soundio_alloc_sprintf formatted s =
     (let len1 = int (length formatted);
          (m, s) = alloc s
      in case m of None \<Rightarrow> ((None, 0), s) | Some b \<Rightarrow> ((Some (b, formatted), len1), s))"

text \<open>\<open>strdup\<close> of the C library.\<close>

definition strdup :: "string \<Rightarrow> 'z mem_scheme \<Rightarrow> cstring \<times> 'z mem_scheme" where
  "strdup str s = (let (out, s) = alloc s in (map_option (\<lambda>b. (b, str)) out, s))"

lemma soundio_str_dupe_total:
  "0 \<le> n \<Longrightarrow> n \<le> int (length str) \<Longrightarrow>
   soundio_str_dupe str n s =
     (let (out, s) = alloc s in Some (map_option (\<lambda>b. (b, take (nat n) str)) out, s))"
  by (auto simp: soundio_str_dupe_def mem_read_def split: option.split prod.split)

subsection \<open>Freeing several blocks\<close>

definition free_all :: "nat list \<Rightarrow> 'z mem_scheme \<Rightarrow> 'z mem_scheme option" where
  "free_all bs s = for_each (\<lambda>b. free_blk (Some b)) bs s"

definition opt_list :: "'a option \<Rightarrow> 'a list" where
  "opt_list p = (case p of None \<Rightarrow> [] | Some b \<Rightarrow> [b])"

lemma opt_list_simps [simp]: "opt_list None = []" "opt_list (Some b) = [b]" "set (opt_list p) = set_option p"
  by (auto simp: opt_list_def split: option.split)

lemma free_all_append: "free_all (as @ bs) s = Option.bind (free_all as s) (free_all bs)"
  unfolding free_all_def for_each_append by (cases "for_each (\<lambda>b. free_blk (Some b)) as s") (simp_all add: free_all_def)

lemma free_blk_free_all: "free_blk p s = free_all (opt_list p) s"
proof (cases p)
  case (Some b)
  then show ?thesis by (cases "free_blk (Some b) s") (simp_all add: free_all_def)
qed (simp add: free_all_def)

lemma free_all_eq:
  "distinct bs \<Longrightarrow> set bs \<subseteq> blocks s \<Longrightarrow> free_all bs s = Some (s\<lparr>blocks := blocks s - set bs\<rparr>)"
proof (induction bs arbitrary: s)
  case Nil
  then show ?case by (simp add: free_all_def)
next
  case (Cons b bs)
  let ?s = "s\<lparr>blocks := blocks s - {b}\<rparr>"
  have "distinct bs" "set bs \<subseteq> blocks ?s" using Cons.prems by auto
  from Cons.IH [OF this] Cons.prems show ?case
    by (simp add: free_all_def free_blk_def Diff_insert2 [symmetric] Diff_insert [symmetric])
qed

lemma for_each_free: "for_each (\<lambda>x. free_blk (f x)) xs s = free_all (concat (map (\<lambda>x. opt_list (f x)) xs)) s"
proof (induction xs arbitrary: s)
  case Nil
  then show ?case by (simp add: free_all_def)
next
  case (Cons x xs)
  then show ?case
    by (cases "free_all (opt_list (f x)) s") (simp_all add: free_all_append free_blk_free_all)
qed

end
