(* ===== verification/ChannelLayout.thy ===== *)
theory ChannelLayout
  imports Memory
begin

section \<open>src/channel_layout.c: channel layouts and channel names\<close>

text \<open>
  A layout is a name, a channel count and an array of \<open>SOUNDIO_MAX_CHANNELS\<close> channel ids of
  which the first \<open>channel_count\<close> are meant. The two tables of \<open>channel_layout.c\<close> are
  transcribed; the functions keep the loops of the source, and reading an array outside its
  bounds is undefined (a layout whose count exceeds the array). The functions of \<open>soundio.c\<close>
  that work on layouts alone (matching and sorting) are at the end.
\<close>

definition SOUNDIO_MAX_CHANNELS :: nat where "SOUNDIO_MAX_CHANNELS = 24"

record SoundIoChannelLayout =
  cl_name :: "string option"
  cl_channel_count :: int
  cl_channels :: "SoundIoChannelId list"

text \<open>An initialiser: the cells that it does not mention are zero, the invalid channel.\<close>

definition layout_init :: "string \<Rightarrow> int \<Rightarrow> SoundIoChannelId list \<Rightarrow> SoundIoChannelLayout" where
  "layout_init nm n ids =
     \<lparr>cl_name = Some nm, cl_channel_count = n,
      cl_channels = ids @ replicate (SOUNDIO_MAX_CHANNELS - length ids) SoundIoChannelIdInvalid\<rparr>"

definition layout_zero :: SoundIoChannelLayout where
  "layout_zero = \<lparr>cl_name = None, cl_channel_count = 0,
     cl_channels = replicate SOUNDIO_MAX_CHANNELS SoundIoChannelIdInvalid\<rparr>"

definition builtin_layouts_upto_5 :: "SoundIoChannelLayout list" where
  "builtin_layouts_upto_5 = [
    layout_init ''Mono'' 1 [
      SoundIoChannelIdFrontCenter],
    layout_init ''Stereo'' 2 [
      SoundIoChannelIdFrontLeft, SoundIoChannelIdFrontRight],
    layout_init ''2.1'' 3 [
      SoundIoChannelIdFrontLeft, SoundIoChannelIdFrontRight, SoundIoChannelIdLfe],
    layout_init ''3.0'' 3 [
      SoundIoChannelIdFrontLeft, SoundIoChannelIdFrontRight, SoundIoChannelIdFrontCenter],
    layout_init ''3.0 (back)'' 3 [
      SoundIoChannelIdFrontLeft, SoundIoChannelIdFrontRight, SoundIoChannelIdBackCenter],
    layout_init ''3.1'' 4 [
      SoundIoChannelIdFrontLeft, SoundIoChannelIdFrontRight, SoundIoChannelIdFrontCenter,
      SoundIoChannelIdLfe],
    layout_init ''4.0'' 4 [
      SoundIoChannelIdFrontLeft, SoundIoChannelIdFrontRight, SoundIoChannelIdFrontCenter,
      SoundIoChannelIdBackCenter],
    layout_init ''Quad'' 4 [
      SoundIoChannelIdFrontLeft, SoundIoChannelIdFrontRight, SoundIoChannelIdBackLeft,
      SoundIoChannelIdBackRight],
    layout_init ''Quad (side)'' 4 [
      SoundIoChannelIdFrontLeft, SoundIoChannelIdFrontRight, SoundIoChannelIdSideLeft,
      SoundIoChannelIdSideRight],
    layout_init ''4.1'' 5 [
      SoundIoChannelIdFrontLeft, SoundIoChannelIdFrontRight, SoundIoChannelIdFrontCenter,
      SoundIoChannelIdBackCenter, SoundIoChannelIdLfe],
    layout_init ''5.0 (back)'' 5 [
      SoundIoChannelIdFrontLeft, SoundIoChannelIdFrontRight, SoundIoChannelIdFrontCenter,
      SoundIoChannelIdBackLeft, SoundIoChannelIdBackRight],
    layout_init ''5.0 (side)'' 5 [
      SoundIoChannelIdFrontLeft, SoundIoChannelIdFrontRight, SoundIoChannelIdFrontCenter,
      SoundIoChannelIdSideLeft, SoundIoChannelIdSideRight]]"

definition builtin_layouts_from_6 :: "SoundIoChannelLayout list" where
  "builtin_layouts_from_6 = [
    layout_init ''5.1'' 6 [
      SoundIoChannelIdFrontLeft, SoundIoChannelIdFrontRight, SoundIoChannelIdFrontCenter,
      SoundIoChannelIdSideLeft, SoundIoChannelIdSideRight, SoundIoChannelIdLfe],
    layout_init ''5.1 (back)'' 6 [
      SoundIoChannelIdFrontLeft, SoundIoChannelIdFrontRight, SoundIoChannelIdFrontCenter,
      SoundIoChannelIdBackLeft, SoundIoChannelIdBackRight, SoundIoChannelIdLfe],
    layout_init ''6.0 (side)'' 6 [
      SoundIoChannelIdFrontLeft, SoundIoChannelIdFrontRight, SoundIoChannelIdFrontCenter,
      SoundIoChannelIdSideLeft, SoundIoChannelIdSideRight, SoundIoChannelIdBackCenter],
    layout_init ''6.0 (front)'' 6 [
      SoundIoChannelIdFrontLeft, SoundIoChannelIdFrontRight, SoundIoChannelIdSideLeft,
      SoundIoChannelIdSideRight, SoundIoChannelIdFrontLeftCenter,
      SoundIoChannelIdFrontRightCenter],
    layout_init ''Hexagonal'' 6 [
      SoundIoChannelIdFrontLeft, SoundIoChannelIdFrontRight, SoundIoChannelIdFrontCenter,
      SoundIoChannelIdBackLeft, SoundIoChannelIdBackRight, SoundIoChannelIdBackCenter],
    layout_init ''6.1'' 7 [
      SoundIoChannelIdFrontLeft, SoundIoChannelIdFrontRight, SoundIoChannelIdFrontCenter,
      SoundIoChannelIdSideLeft, SoundIoChannelIdSideRight, SoundIoChannelIdBackCenter,
      SoundIoChannelIdLfe],
    layout_init ''6.1 (back)'' 7 [
      SoundIoChannelIdFrontLeft, SoundIoChannelIdFrontRight, SoundIoChannelIdFrontCenter,
      SoundIoChannelIdBackLeft, SoundIoChannelIdBackRight, SoundIoChannelIdBackCenter,
      SoundIoChannelIdLfe],
    layout_init ''6.1 (front)'' 7 [
      SoundIoChannelIdFrontLeft, SoundIoChannelIdFrontRight, SoundIoChannelIdSideLeft,
      SoundIoChannelIdSideRight, SoundIoChannelIdFrontLeftCenter,
      SoundIoChannelIdFrontRightCenter, SoundIoChannelIdLfe],
    layout_init ''7.0'' 7 [
      SoundIoChannelIdFrontLeft, SoundIoChannelIdFrontRight, SoundIoChannelIdFrontCenter,
      SoundIoChannelIdSideLeft, SoundIoChannelIdSideRight, SoundIoChannelIdBackLeft,
      SoundIoChannelIdBackRight],
    layout_init ''7.0 (front)'' 7 [
      SoundIoChannelIdFrontLeft, SoundIoChannelIdFrontRight, SoundIoChannelIdFrontCenter,
      SoundIoChannelIdSideLeft, SoundIoChannelIdSideRight, SoundIoChannelIdFrontLeftCenter,
      SoundIoChannelIdFrontRightCenter],
    layout_init ''7.1'' 8 [
      SoundIoChannelIdFrontLeft, SoundIoChannelIdFrontRight, SoundIoChannelIdFrontCenter,
      SoundIoChannelIdSideLeft, SoundIoChannelIdSideRight, SoundIoChannelIdBackLeft,
      SoundIoChannelIdBackRight, SoundIoChannelIdLfe],
    layout_init ''7.1 (wide)'' 8 [
      SoundIoChannelIdFrontLeft, SoundIoChannelIdFrontRight, SoundIoChannelIdFrontCenter,
      SoundIoChannelIdSideLeft, SoundIoChannelIdSideRight, SoundIoChannelIdFrontLeftCenter,
      SoundIoChannelIdFrontRightCenter, SoundIoChannelIdLfe],
    layout_init ''7.1 (wide) (back)'' 8 [
      SoundIoChannelIdFrontLeft, SoundIoChannelIdFrontRight, SoundIoChannelIdFrontCenter,
      SoundIoChannelIdBackLeft, SoundIoChannelIdBackRight, SoundIoChannelIdFrontLeftCenter,
      SoundIoChannelIdFrontRightCenter, SoundIoChannelIdLfe],
    layout_init ''Octagonal'' 8 [
      SoundIoChannelIdFrontLeft, SoundIoChannelIdFrontRight, SoundIoChannelIdFrontCenter,
      SoundIoChannelIdSideLeft, SoundIoChannelIdSideRight, SoundIoChannelIdBackLeft,
      SoundIoChannelIdBackRight, SoundIoChannelIdBackCenter]]"

definition builtin_channel_layouts :: "SoundIoChannelLayout list" where
  "builtin_channel_layouts = builtin_layouts_upto_5 @ builtin_layouts_from_6"

text \<open>Three names per channel; a missing one is NULL.\<close>

definition channel_names :: "string option list list" where
  "channel_names = [
    [Some ''(Invalid Channel)'', None, None],
    [Some ''Front Left'', Some ''FL'', Some ''front-left''],
    [Some ''Front Right'', Some ''FR'', Some ''front-right''],
    [Some ''Front Center'', Some ''FC'', Some ''front-center''],
    [Some ''LFE'', Some ''LFE'', Some ''lfe''],
    [Some ''Back Left'', Some ''BL'', Some ''rear-left''],
    [Some ''Back Right'', Some ''BR'', Some ''rear-right''],
    [Some ''Front Left Center'', Some ''FLC'', Some ''front-left-of-center''],
    [Some ''Front Right Center'', Some ''FRC'', Some ''front-right-of-center''],
    [Some ''Back Center'', Some ''BC'', Some ''rear-center''],
    [Some ''Side Left'', Some ''SL'', Some ''side-left''],
    [Some ''Side Right'', Some ''SR'', Some ''side-right''],
    [Some ''Top Center'', Some ''TC'', Some ''top-center''],
    [Some ''Top Front Left'', Some ''TFL'', Some ''top-front-left''],
    [Some ''Top Front Center'', Some ''TFC'', Some ''top-front-center''],
    [Some ''Top Front Right'', Some ''TFR'', Some ''top-front-right''],
    [Some ''Top Back Left'', Some ''TBL'', Some ''top-rear-left''],
    [Some ''Top Back Center'', Some ''TBC'', Some ''top-rear-center''],
    [Some ''Top Back Right'', Some ''TBR'', Some ''top-rear-right''],
    [Some ''Back Left Center'', None, None],
    [Some ''Back Right Center'', None, None],
    [Some ''Front Left Wide'', None, None],
    [Some ''Front Right Wide'', None, None],
    [Some ''Front Left High'', None, None],
    [Some ''Front Center High'', None, None],
    [Some ''Front Right High'', None, None],
    [Some ''Top Front Left Center'', None, None],
    [Some ''Top Front Right Center'', None, None],
    [Some ''Top Side Left'', None, None],
    [Some ''Top Side Right'', None, None],
    [Some ''Left LFE'', None, None],
    [Some ''Right LFE'', None, None],
    [Some ''LFE 2'', None, None],
    [Some ''Bottom Center'', None, None],
    [Some ''Bottom Left Center'', None, None],
    [Some ''Bottom Right Center'', None, None],
    [Some ''Mid/Side Mid'', None, None],
    [Some ''Mid/Side Side'', None, None],
    [Some ''Ambisonic W'', None, None],
    [Some ''Ambisonic X'', None, None],
    [Some ''Ambisonic Y'', None, None],
    [Some ''Ambisonic Z'', None, None],
    [Some ''X-Y X'', None, None],
    [Some ''X-Y Y'', None, None],
    [Some ''Headphones Left'', None, None],
    [Some ''Headphones Right'', None, None],
    [Some ''Click Track'', None, None],
    [Some ''Foreign Language'', None, None],
    [Some ''Hearing Impaired'', None, None],
    [Some ''Narration'', None, None],
    [Some ''Haptic'', None, None],
    [Some ''Dialog Centric Mix'', None, None],
    [Some ''Aux'', None, None],
    [Some ''Aux 0'', None, None],
    [Some ''Aux 1'', None, None],
    [Some ''Aux 2'', None, None],
    [Some ''Aux 3'', None, None],
    [Some ''Aux 4'', None, None],
    [Some ''Aux 5'', None, None],
    [Some ''Aux 6'', None, None],
    [Some ''Aux 7'', None, None],
    [Some ''Aux 8'', None, None],
    [Some ''Aux 9'', None, None],
    [Some ''Aux 10'', None, None],
    [Some ''Aux 11'', None, None],
    [Some ''Aux 12'', None, None],
    [Some ''Aux 13'', None, None],
    [Some ''Aux 14'', None, None],
    [Some ''Aux 15'', None, None]]"

definition soundio_get_channel_name :: "SoundIoChannelId \<Rightarrow> string" where
  "soundio_get_channel_name ident =
     (if SoundIoChannelId_val ident \<ge> int (length channel_names) then ''(Invalid Channel)''
      else the (channel_names ! nat (SoundIoChannelId_val ident) ! 0))"

definition soundio_channel_layout_equal ::
  "SoundIoChannelLayout \<Rightarrow> SoundIoChannelLayout \<Rightarrow> bool option" where
  "soundio_channel_layout_equal a b =
     (if cl_channel_count a \<noteq> cl_channel_count b then Some False
      else do {
        differ \<leftarrow> any_r (\<lambda>i. do {
            x \<leftarrow> arr_at (cl_channels a) i;
            y \<leftarrow> arr_at (cl_channels b) i;
            Some (x \<noteq> y)
          }) [0..cl_channel_count a - 1];
        Some (\<not> differ)
      })"

definition soundio_channel_layout_builtin_count :: int where
  "soundio_channel_layout_builtin_count = int (length builtin_channel_layouts)"

text \<open>
  The function returns a pointer into the table, here the index it points to: its two
  assertions let an index one past the end through. Following the pointer reads the table.
\<close>

definition get_builtin_ptr :: "int \<Rightarrow> int option" where
  "get_builtin_ptr index = do {
     c_assert (index \<ge> 0);
     c_assert (index \<le> int (length builtin_channel_layouts));
     Some index
   }"

definition soundio_channel_layout_get_builtin :: "int \<Rightarrow> SoundIoChannelLayout option" where
  "soundio_channel_layout_get_builtin index = do {
     p \<leftarrow> get_builtin_ptr index;
     arr_at builtin_channel_layouts p
   }"

definition soundio_channel_layout_find_channel ::
  "SoundIoChannelLayout \<Rightarrow> SoundIoChannelId \<Rightarrow> int option" where
  "soundio_channel_layout_find_channel layout channel = do {
     found \<leftarrow> find_r (\<lambda>i. do { c \<leftarrow> arr_at (cl_channels layout) i; Some (c = channel) })
       [0..cl_channel_count layout - 1];
     Some (case found of Some i \<Rightarrow> int i | None \<Rightarrow> - 1)
   }"

definition soundio_channel_layout_detect_builtin ::
  "SoundIoChannelLayout \<Rightarrow> (bool \<times> SoundIoChannelLayout) option" where
  "soundio_channel_layout_detect_builtin layout = do {
     found \<leftarrow> find_r (\<lambda>builtin_layout. soundio_channel_layout_equal builtin_layout layout)
       builtin_channel_layouts;
     Some (case found of
         Some i \<Rightarrow> (True, layout\<lparr>cl_name := cl_name (builtin_channel_layouts ! i)\<rparr>)
       | None \<Rightarrow> (False, layout\<lparr>cl_name := None\<rparr>))
   }"

text \<open>The outer \<open>option\<close> is definedness, the inner one a pointer that may be NULL.\<close>

definition default_layout_id :: "int \<Rightarrow> SoundIoChannelLayoutId option" where
  "default_layout_id channel_count =
     (if channel_count = 1 then Some SoundIoChannelLayoutIdMono
      else if channel_count = 2 then Some SoundIoChannelLayoutIdStereo
      else if channel_count = 3 then Some SoundIoChannelLayoutId3Point0
      else if channel_count = 4 then Some SoundIoChannelLayoutId4Point0
      else if channel_count = 5 then Some SoundIoChannelLayoutId5Point0Back
      else if channel_count = 6 then Some SoundIoChannelLayoutId5Point1Back
      else if channel_count = 7 then Some SoundIoChannelLayoutId6Point1
      else if channel_count = 8 then Some SoundIoChannelLayoutId7Point1
      else None)"

definition soundio_channel_layout_get_default :: "int \<Rightarrow> SoundIoChannelLayout option option" where
  "soundio_channel_layout_get_default channel_count =
     (case default_layout_id channel_count of
        None \<Rightarrow> Some None
      | Some ident \<Rightarrow> do {
          l \<leftarrow> soundio_channel_layout_get_builtin (SoundIoChannelLayoutId_val ident);
          Some (Some l)
        })"

text \<open>The inner loop of the parser stops at the first NULL alias of a row.\<close>

fun match_aliases :: "string option list \<Rightarrow> string \<Rightarrow> int \<Rightarrow> bool option" where
  "match_aliases [] str str_len = Some False"
| "match_aliases (None # rest) str str_len = Some False"
| "match_aliases (Some alias # rest) str str_len = do {
     eq \<leftarrow> soundio_streql alias (int (length alias)) str str_len;
     if eq then Some True else match_aliases rest str str_len
   }"

definition soundio_parse_channel_id :: "string \<Rightarrow> int \<Rightarrow> SoundIoChannelId option" where
  "soundio_parse_channel_id str str_len = do {
     found \<leftarrow> find_r (\<lambda>row. match_aliases row str str_len) channel_names;
     Some (case found of
         Some ident \<Rightarrow> SoundIoChannelId_all ! ident
       | None \<Rightarrow> SoundIoChannelIdInvalid)
   }"

subsection \<open>Matching and sorting layouts: \<open>soundio.c\<close>\<close>

definition layout_contains :: "SoundIoChannelLayout list \<Rightarrow> SoundIoChannelLayout \<Rightarrow> bool option" where
  "layout_contains available_layouts target_layout =
     any_r (\<lambda>available_layout. soundio_channel_layout_equal target_layout available_layout)
       available_layouts"

text \<open>The result is a pointer into \<open>preferred_layouts\<close> (its index) or NULL.\<close>

definition soundio_best_matching_channel_layout ::
  "SoundIoChannelLayout list \<Rightarrow> SoundIoChannelLayout list \<Rightarrow> nat option option" where
  "soundio_best_matching_channel_layout preferred_layouts available_layouts =
     find_r (\<lambda>preferred_layout. layout_contains available_layouts preferred_layout) preferred_layouts"

text \<open>
  The comparison function of the sort receives pointers to two elements of the array, that is
  to two layouts, but reads them as pointers to pointers: it takes the first word of an
  element, its \<open>name\<close>, for the address of a layout and reads the count of that one,
  bytes 8 to 11 of the name's characters (64-bit pointers, little-endian). A NULL name is
  dereferenced, and a name of fewer than 11 characters is read past its end.
\<close>

definition count_through_name :: "SoundIoChannelLayout \<Rightarrow> int option" where
  "count_through_name elem = do {
     nm \<leftarrow> cl_name elem;
     let bytes = map (\<lambda>c. of_char c :: int) nm @ [0];
     b8 \<leftarrow> arr_at bytes 8; b9 \<leftarrow> arr_at bytes 9; b10 \<leftarrow> arr_at bytes 10; b11 \<leftarrow> arr_at bytes 11;
     Some (to_int32 (b8 + 2 ^ 8 * b9 + 2 ^ 16 * b10 + 2 ^ 24 * b11))
   }"

definition compare_layouts :: "SoundIoChannelLayout \<Rightarrow> SoundIoChannelLayout \<Rightarrow> int option" where
  "compare_layouts a b = do {
     count_a \<leftarrow> count_through_name a;
     count_b \<leftarrow> count_through_name b;
     Some (if count_a > count_b then - 1 else if count_a < count_b then 1 else 0)
   }"

text \<open>\<open>qsort\<close> of the C library, as an insertion sort that calls the comparison function.\<close>

fun insert_r :: "('a \<Rightarrow> 'a \<Rightarrow> int option) \<Rightarrow> 'a \<Rightarrow> 'a list \<Rightarrow> 'a list option" where
  "insert_r cmp x [] = Some [x]"
| "insert_r cmp x (y # ys) = do {
     c \<leftarrow> cmp x y;
     if c \<le> 0 then Some (x # y # ys) else do { zs \<leftarrow> insert_r cmp x ys; Some (y # zs) }
   }"

fun qsort_r :: "('a \<Rightarrow> 'a \<Rightarrow> int option) \<Rightarrow> 'a list \<Rightarrow> 'a list option" where
  "qsort_r cmp [] = Some []"
| "qsort_r cmp (x # xs) = do { ys \<leftarrow> qsort_r cmp xs; insert_r cmp x ys }"

definition soundio_sort_channel_layouts ::
  "SoundIoChannelLayout list option \<Rightarrow> SoundIoChannelLayout list option option" where
  "soundio_sort_channel_layouts layouts =
     (case layouts of None \<Rightarrow> Some None
      | Some ls \<Rightarrow> do { r \<leftarrow> qsort_r compare_layouts ls; Some (Some r) })"

subsection \<open>What the loops compute\<close>

definition layout_wf :: "SoundIoChannelLayout \<Rightarrow> bool" where
  "layout_wf l \<longleftrightarrow> 0 \<le> cl_channel_count l \<and> cl_channel_count l \<le> int SOUNDIO_MAX_CHANNELS \<and>
     length (cl_channels l) = SOUNDIO_MAX_CHANNELS"

text \<open>The channels a layout means.\<close>

definition layout_ids :: "SoundIoChannelLayout \<Rightarrow> SoundIoChannelId list" where
  "layout_ids l = take (nat (cl_channel_count l)) (cl_channels l)"

lemma layout_wf_zero [simp]: "layout_wf layout_zero"
  by (simp add: layout_wf_def layout_zero_def SOUNDIO_MAX_CHANNELS_def)

lemma length_layout_ids: "layout_wf l \<Longrightarrow> int (length (layout_ids l)) = cl_channel_count l"
  by (auto simp: layout_wf_def layout_ids_def)

lemma layout_cell:
  "layout_wf l \<Longrightarrow> 0 \<le> i \<Longrightarrow> i < cl_channel_count l \<Longrightarrow> arr_at (cl_channels l) i = Some (layout_ids l ! nat i)"
  by (auto simp: layout_wf_def layout_ids_def arr_at_def)

lemma layout_name_irrelevant [simp]:
  "layout_wf (l\<lparr>cl_name := n\<rparr>) = layout_wf l" "layout_ids (l\<lparr>cl_name := n\<rparr>) = layout_ids l"
  by (simp_all add: layout_wf_def layout_ids_def)

lemma layout_equal_spec:
  assumes "layout_wf a" and "layout_wf b"
  shows "soundio_channel_layout_equal a b = Some (layout_ids a = layout_ids b)"
proof (cases "cl_channel_count a = cl_channel_count b")
  case False
  then have "length (layout_ids a) \<noteq> length (layout_ids b)"
    using assms [THEN length_layout_ids] by linarith
  with False show ?thesis by (auto simp: soundio_channel_layout_equal_def)
next
  case True
  let ?g = "\<lambda>i. layout_ids a ! nat i \<noteq> layout_ids b ! nat i"
  have len: "int (length (layout_ids a)) = cl_channel_count a" "int (length (layout_ids b)) = cl_channel_count a"
    using assms [THEN length_layout_ids] True by auto
  have "any_r (\<lambda>i. do { x \<leftarrow> arr_at (cl_channels a) i; y \<leftarrow> arr_at (cl_channels b) i; Some (x \<noteq> y) })
      [0..cl_channel_count a - 1] = Some (\<exists>i \<in> set [0..cl_channel_count a - 1]. ?g i)"
    by (rule any_r_total) (use assms True in \<open>auto simp: layout_cell\<close>)
  also have "(\<exists>i \<in> set [0..cl_channel_count a - 1]. ?g i) \<longleftrightarrow> layout_ids a \<noteq> layout_ids b"
  proof
    assume "layout_ids a \<noteq> layout_ids b"
    with len obtain j where j: "j < length (layout_ids a)" "layout_ids a ! j \<noteq> layout_ids b ! j"
      using nth_equalityI by (metis of_nat_eq_iff)
    then show "\<exists>i \<in> set [0..cl_channel_count a - 1]. ?g i"
      using len by (intro bexI [of _ "int j"]) auto
  qed auto
  finally show ?thesis using True by (simp add: soundio_channel_layout_equal_def)
qed

lemma layout_contains_spec:
  assumes "layout_wf t" and "\<forall>l \<in> set ls. layout_wf l"
  shows "layout_contains ls t = Some (\<exists>l \<in> set ls. layout_ids l = layout_ids t)"
proof -
  have "layout_contains ls t = Some (\<exists>l \<in> set ls. layout_ids t = layout_ids l)"
    unfolding layout_contains_def
    by (rule any_r_total) (use assms in \<open>auto simp: layout_equal_spec\<close>)
  then show ?thesis by (auto simp: eq_commute)
qed

subsection \<open>The tables\<close>

lemmas builtin_defs = builtin_channel_layouts_def builtin_layouts_upto_5_def builtin_layouts_from_6_def

lemma builtin_length [simp]: "length builtin_channel_layouts = 26"
  by (simp add: builtin_defs)

lemma builtin_wf: "l \<in> set builtin_channel_layouts \<Longrightarrow> layout_wf l"
proof -
  have "list_all layout_wf builtin_channel_layouts"
    by (simp add: builtin_defs layout_wf_def layout_init_def SOUNDIO_MAX_CHANNELS_def)
  then show "l \<in> set builtin_channel_layouts \<Longrightarrow> layout_wf l"
    by (auto simp: list_all_iff)
qed

lemma builtin_distinct: "distinct (map layout_ids builtin_channel_layouts)"
  by code_simp

lemma channel_names_length [simp]: "length channel_names = 69"
  by (simp add: channel_names_def)

lemma SoundIoChannelId_all_length [simp]: "length SoundIoChannelId_all = 69"
  by (simp add: SoundIoChannelId_all_def)

lemma get_builtin_in_range:
  "0 \<le> i \<Longrightarrow> i < 26 \<Longrightarrow> soundio_channel_layout_get_builtin i = Some (builtin_channel_layouts ! nat i)"
  by (simp add: soundio_channel_layout_get_builtin_def get_builtin_ptr_def arr_at_def)

subsection \<open>Parsing channel names\<close>

text \<open>The names of the table in order, each with the id of its row.\<close>

definition row_aliases :: "string option list \<Rightarrow> string list" where
  "row_aliases row = map the (takeWhile (\<lambda>a. a \<noteq> None) row)"

definition alias_table :: "(string \<times> SoundIoChannelId) list" where
  "alias_table = concat (map2 (\<lambda>row i. map (\<lambda>a. (a, i)) (row_aliases row)) channel_names SoundIoChannelId_all)"

lemma match_aliases_full: "match_aliases row str (int (length str)) = Some (str \<in> set (row_aliases row))"
  by (induction row str "int (length str)" rule: match_aliases.induct) (auto simp: row_aliases_def)

lemma map_of_row: "map_of (map (\<lambda>a. (a, i)) xs) a = (if a \<in> set xs then Some i else None)"
  by (induction xs) auto

lemma find_row:
  "length rows = length ids \<Longrightarrow>
   find_r (\<lambda>row. Some (str \<in> set (row_aliases row))) rows = Some r \<Longrightarrow>
   map_of (concat (map2 (\<lambda>row i. map (\<lambda>a. (a, i)) (row_aliases row)) rows ids)) str = map_option (nth ids) r"
proof (induction rows ids arbitrary: r rule: list_induct2)
  case Nil
  then show ?case by simp
next
  case (Cons row rows i ids)
  then show ?case
    by (auto simp: map_add_def map_of_row option.map_comp comp_def Option.bind_eq_Some_conv
        split: if_splits option.split)
qed

lemma parse_channel_id_lookup:
  "soundio_parse_channel_id str (int (length str)) =
   Some (case map_of alias_table str of None \<Rightarrow> SoundIoChannelIdInvalid | Some i \<Rightarrow> i)"
proof -
  have "\<exists>r. find_r (\<lambda>row. Some (str \<in> set (row_aliases row))) channel_names = Some r"
    by (subst find_r_total) auto
  then obtain r where r: "find_r (\<lambda>row. Some (str \<in> set (row_aliases row))) channel_names = Some r" ..
  then have "map_of alias_table str = map_option (nth SoundIoChannelId_all) r"
    unfolding alias_table_def by (intro find_row) simp_all
  with r show ?thesis
    by (auto simp: soundio_parse_channel_id_def match_aliases_full split: option.split)
qed

text \<open>No name stands in two rows: looking a name up gives the row it was taken from.\<close>

definition consistent :: "(string \<times> SoundIoChannelId) list \<Rightarrow> bool" where
  "consistent t \<longleftrightarrow> list_all (\<lambda>p. map_of t (fst p) = Some (snd p)) t"

text \<open>The names are told apart by a hash, which is quicker to compare than the names.\<close>

definition name_hash :: "string \<Rightarrow> int" where
  "name_hash str = foldl (\<lambda>n c. (n * 31 + of_char c) mod 16384) 0 str"

lemma distinct_hashes: "distinct (map (\<lambda>p. name_hash (fst p)) (remdups_adj alias_table))"
  by code_simp

lemma alias_table_consistent: "consistent alias_table"
proof -
  have inj: "p = q" if "p \<in> set alias_table" "q \<in> set alias_table" "fst p = fst q" for p q
    using distinct_hashes that by (auto simp: distinct_map inj_on_def)
  have "map_of alias_table (fst p) = Some (snd p)" if p: "p \<in> set alias_table" for p
  proof -
    obtain v where v: "map_of alias_table (fst p) = Some v"
      using p by (metis map_of_eq_None_iff image_eqI not_None_eq)
    then have "(fst p, v) \<in> set alias_table" by (rule map_of_SomeD)
    from inj [OF this p] have "v = snd p" by (metis fst_conv snd_conv)
    with v show ?thesis by simp
  qed
  then show ?thesis by (auto simp: consistent_def list_all_iff)
qed

lemma alias_in_table:
  assumes "a \<in> set (row_aliases (channel_names ! nat (SoundIoChannelId_val c)))"
  shows "(a, c) \<in> set alias_table"
proof -
  let ?i = "nat (SoundIoChannelId_val c)"
  have c: "?i < 69" "SoundIoChannelId_all ! ?i = c"
    using SoundIoChannelId_val_nth [of c] by auto
  then have "(channel_names ! ?i, c) \<in> set (zip channel_names SoundIoChannelId_all)"
    by (auto simp: in_set_zip)
  with assms show ?thesis by (force simp: alias_table_def)
qed

lemma parse_alias:
  assumes "a \<in> set (row_aliases (channel_names ! nat (SoundIoChannelId_val c)))"
  shows "soundio_parse_channel_id a (int (length a)) = Some c"
  using alias_table_consistent alias_in_table [OF assms]
  by (auto simp: parse_channel_id_lookup consistent_def list_all_iff)

lemma channel_name_is_alias:
  "soundio_get_channel_name c \<in> set (row_aliases (channel_names ! nat (SoundIoChannelId_val c)))"
proof -
  have "list_all (\<lambda>row. row \<noteq> [] \<and> hd row \<noteq> None) channel_names"
    by (simp add: channel_names_def)
  moreover have i: "nat (SoundIoChannelId_val c) < 69" "\<not> SoundIoChannelId_val c \<ge> 69"
    using SoundIoChannelId_val_nth [of c] by auto
  then have "channel_names ! nat (SoundIoChannelId_val c) \<in> set channel_names" by simp
  ultimately have "channel_names ! nat (SoundIoChannelId_val c) \<noteq> []"
    "hd (channel_names ! nat (SoundIoChannelId_val c)) \<noteq> None"
    by (auto simp: list_all_iff)
  with i show ?thesis
    by (cases "channel_names ! nat (SoundIoChannelId_val c)")
      (auto simp: soundio_get_channel_name_def row_aliases_def)
qed

subsection \<open>Properties\<close>

text \<open>Parsing the name that \<open>soundio_get_channel_name\<close> gives for a channel id returns that
  id, for every id.
\<close>

theorem channel_name_roundtrip:
  "soundio_parse_channel_id (soundio_get_channel_name c) (int (length (soundio_get_channel_name c))) = Some c"
  by (rule parse_alias [OF channel_name_is_alias])

text \<open>Parsing is defined for every string and is table lookup: the result is the id of the
  row that lists the string among its names, and the invalid id when no row does.
\<close>

theorem parse_channel_id_complete:
  "soundio_parse_channel_id str (int (length str)) = Some c \<longleftrightarrow>
   str \<in> set (row_aliases (channel_names ! nat (SoundIoChannelId_val c))) \<or>
   c = SoundIoChannelIdInvalid \<and>
     \<not> (\<exists>i. str \<in> set (row_aliases (channel_names ! nat (SoundIoChannelId_val i))))"
proof -
  have "(\<exists>i. str \<in> set (row_aliases (channel_names ! nat (SoundIoChannelId_val i)))) \<longleftrightarrow>
      map_of alias_table str \<noteq> None"
  proof
    assume "map_of alias_table str \<noteq> None"
    then obtain i where "(str, i) \<in> set alias_table" by (auto dest: map_of_SomeD)
    then obtain row where "(row, i) \<in> set (zip channel_names SoundIoChannelId_all)" "str \<in> set (row_aliases row)"
      by (auto simp: alias_table_def)
    then obtain k where k: "k < 69" "channel_names ! k = row" "SoundIoChannelId_all ! k = i"
      by (auto simp: in_set_zip)
    have "map int [0..<69] ! k = SoundIoChannelId_val i"
      using k by (simp flip: SoundIoChannelId_all_val)
    with k have "nat (SoundIoChannelId_val i) = k" by simp
    with k \<open>str \<in> set (row_aliases row)\<close>
    show "\<exists>i. str \<in> set (row_aliases (channel_names ! nat (SoundIoChannelId_val i)))"
      by (intro exI [of _ i]) simp
  next
    assume "\<exists>i. str \<in> set (row_aliases (channel_names ! nat (SoundIoChannelId_val i)))"
    then show "map_of alias_table str \<noteq> None"
      using alias_in_table weak_map_of_SomeI by fastforce
  qed
  then show ?thesis
    using parse_alias [of str] parse_channel_id_lookup [of str]
    by (auto split: option.splits)
qed

text \<open>Two layouts with a legal channel count compare equal exactly when they list the same
  channels in the same order; the names play no role and no cell outside the arrays is read.
\<close>

theorem layout_equal_iff_same_channels:
  assumes "layout_wf a" and "layout_wf b"
  shows "soundio_channel_layout_equal a b = Some (layout_ids a = layout_ids b)"
  by (rule layout_equal_spec [OF assms])

theorem layout_equal_iff_same_channels_witness:
  "soundio_channel_layout_equal (layout_init ''x'' 1 [SoundIoChannelIdLfe]) layout_zero = Some False"
  using layout_equal_iff_same_channels [of "layout_init ''x'' 1 [SoundIoChannelIdLfe]" layout_zero]
  by (simp add: layout_wf_def layout_init_def layout_zero_def layout_ids_def SOUNDIO_MAX_CHANNELS_def)

text \<open>A builtin layout is recognised whatever name it carries, and gets its table name back:
  no earlier entry of the table has the same channels.
\<close>

theorem detect_builtin_roundtrip:
  assumes "b \<in> set builtin_channel_layouts"
  shows "soundio_channel_layout_detect_builtin (b\<lparr>cl_name := nm\<rparr>) = Some (True, b)"
proof -
  let ?l = "b\<lparr>cl_name := nm\<rparr>"
  let ?g = "\<lambda>x. layout_ids x = layout_ids b"
  have "layout_wf ?l" using builtin_wf [OF assms] by simp
  then have "soundio_channel_layout_equal x ?l = Some (?g x)" if "x \<in> set builtin_channel_layouts" for x
    using that by (simp add: layout_equal_spec builtin_wf)
  then obtain r where
    r: "find_r (\<lambda>x. soundio_channel_layout_equal x ?l) builtin_channel_layouts = Some r"
      "first_index ?g builtin_channel_layouts r"
    using find_r_first [where f = "\<lambda>x. soundio_channel_layout_equal x ?l" and g = ?g] by blast
  from assms r(2) obtain i where i: "r = Some i" "i < 26" "?g (builtin_channel_layouts ! i)"
    by (auto simp: first_index_def split: option.splits)
  from assms obtain j where j: "j < 26" "builtin_channel_layouts ! j = b"
    by (auto simp: in_set_conv_nth)
  with i have "map layout_ids builtin_channel_layouts ! i = map layout_ids builtin_channel_layouts ! j"
    by simp
  then have "i = j"
    using builtin_distinct i j by (subst (asm) nth_eq_iff_index_eq) simp_all
  with r i j show ?thesis by (simp add: soundio_channel_layout_detect_builtin_def)
qed

theorem detect_builtin_roundtrip_witness:
  "soundio_channel_layout_detect_builtin ((builtin_channel_layouts ! 1)\<lparr>cl_name := None\<rparr>)
     = Some (True, builtin_channel_layouts ! 1)"
  by (rule detect_builtin_roundtrip) simp

text \<open>A layout that has the channels of no builtin one is left unnamed, and the function says
  so.
\<close>

theorem detect_builtin_unknown:
  assumes "layout_wf l" and "\<forall>b \<in> set builtin_channel_layouts. layout_ids b \<noteq> layout_ids l"
  shows "soundio_channel_layout_detect_builtin l = Some (False, l\<lparr>cl_name := None\<rparr>)"
proof -
  let ?g = "\<lambda>x. layout_ids x = layout_ids l"
  have "soundio_channel_layout_equal x l = Some (?g x)" if "x \<in> set builtin_channel_layouts" for x
    using that assms(1) by (simp add: layout_equal_spec builtin_wf)
  then obtain r where
    r: "find_r (\<lambda>x. soundio_channel_layout_equal x l) builtin_channel_layouts = Some r"
      "first_index ?g builtin_channel_layouts r"
    using find_r_first [where f = "\<lambda>x. soundio_channel_layout_equal x l" and g = ?g] by blast
  have "r = None"
    using r(2) assms(2) by (auto simp: first_index_def split: option.splits)
  with r(1) show ?thesis by (simp add: soundio_channel_layout_detect_builtin_def)
qed

theorem detect_builtin_unknown_witness:
  "soundio_channel_layout_detect_builtin layout_zero = Some (False, layout_zero\<lparr>cl_name := None\<rparr>)"
  by (rule detect_builtin_unknown)
    (simp, simp add: builtin_defs layout_ids_def layout_init_def layout_zero_def)

lemma default_layout_spec:
  "\<exists>r. soundio_channel_layout_get_default n = Some r \<and>
     (case r of
        Some l \<Rightarrow> l \<in> set builtin_channel_layouts \<and> cl_channel_count l = n \<and> 1 \<le> n \<and> n \<le> 8
      | None \<Rightarrow> n < 1 \<or> 8 < n)"
proof (cases "1 \<le> n \<and> n \<le> 8")
  case True
  then have "n \<in> {1, 2, 3, 4, 5, 6, 7, 8}" by auto
  then show ?thesis
    by (auto simp: soundio_channel_layout_get_default_def default_layout_id_def get_builtin_in_range)
      (simp_all add: builtin_defs layout_init_def)
next
  case False
  then show ?thesis
    by (auto simp: soundio_channel_layout_get_default_def default_layout_id_def)
qed

text \<open>The default layout for a channel count from 1 to 8 is a builtin layout with exactly
  that many channels; for any other count the result is NULL.
\<close>

theorem default_layout_count:
  "\<exists>r. soundio_channel_layout_get_default n = Some r \<and>
     (case r of
        Some l \<Rightarrow> l \<in> set builtin_channel_layouts \<and> cl_channel_count l = n \<and> 1 \<le> n \<and> n \<le> 8
      | None \<Rightarrow> n < 1 \<or> 8 < n)"
  by (rule default_layout_spec)

text \<open>\<open>soundio_channel_layout_find_channel\<close> gives the first index at which the layout has the
  channel, and -1 exactly when it does not have it.
\<close>

theorem find_channel_first:
  assumes "layout_wf l"
  shows "\<exists>r. soundio_channel_layout_find_channel l c = Some r \<and>
     (if c \<in> set (layout_ids l)
      then 0 \<le> r \<and> r < cl_channel_count l \<and> layout_ids l ! nat r = c \<and>
        c \<notin> set (take (nat r) (layout_ids l))
      else r = - 1)"
proof -
  let ?xs = "[0..cl_channel_count l - 1]"
  let ?g = "\<lambda>i. layout_ids l ! nat i = c"
  have len: "int (length (layout_ids l)) = cl_channel_count l"
    by (rule length_layout_ids [OF assms])
  let ?f = "\<lambda>i. do { x \<leftarrow> arr_at (cl_channels l) i; Some (x = c) }"
  have "?f i = Some (?g i)" if "i \<in> set ?xs" for i
    using that assms by (simp add: layout_cell)
  then obtain r where r: "find_r ?f ?xs = Some r" "first_index ?g ?xs r"
    using find_r_first [where f = ?f and g = ?g and xs = ?xs] by blast
  show ?thesis
  proof (cases r)
    case None
    have "c \<notin> set (layout_ids l)"
    proof
      assume "c \<in> set (layout_ids l)"
      then obtain j where "j < length (layout_ids l)" "layout_ids l ! j = c" by (auto simp: in_set_conv_nth)
      with len have "int j \<in> set ?xs" "?g (int j)" by auto
      moreover have "\<forall>i \<in> set ?xs. \<not> ?g i"
        using None r(2) by (simp only: first_index_def option.simps)
      ultimately show False by blast
    qed
    with None r(1) show ?thesis by (simp add: soundio_channel_layout_find_channel_def)
  next
    case (Some i)
    with r(2) have i: "i < length ?xs" "?g (?xs ! i)" "\<forall>j < i. \<not> ?g (?xs ! j)"
      by (auto simp: first_index_def)
    then have il: "i < length (layout_ids l)" using len by simp
    moreover have "layout_ids l ! i = c" using i by simp
    moreover have "c \<notin> set (take i (layout_ids l))"
      using i(1,3) by (auto simp: in_set_conv_nth)
    ultimately show ?thesis
      using Some r(1) len by (auto simp: soundio_channel_layout_find_channel_def)
  qed
qed

theorem find_channel_first_witness:
  "\<exists>r. soundio_channel_layout_find_channel (builtin_channel_layouts ! 1) SoundIoChannelIdFrontRight = Some r \<and> 0 \<le> r"
proof -
  have "layout_wf (builtin_channel_layouts ! 1)" by (rule builtin_wf) simp
  from find_channel_first [OF this, of SoundIoChannelIdFrontRight] show ?thesis
    by (auto simp: builtin_defs layout_ids_def layout_init_def)
qed

text \<open>\<open>soundio_best_matching_channel_layout\<close> returns the first preferred layout that has the
  channels of an available one, and NULL only when there is no such layout.
\<close>

theorem best_matching_is_first_available:
  assumes "\<forall>l \<in> set preferred. layout_wf l" and "\<forall>l \<in> set available. layout_wf l"
  shows "\<exists>r. soundio_best_matching_channel_layout preferred available = Some r \<and>
     first_index (\<lambda>p. layout_ids p \<in> layout_ids ` set available) preferred r"
proof -
  let ?g = "\<lambda>p. layout_ids p \<in> layout_ids ` set available"
  have "layout_contains available p = Some (?g p)" if "p \<in> set preferred" for p
    using that assms by (simp add: layout_contains_spec) (metis image_iff)
  from find_r_first [where f = "layout_contains available" and g = ?g, OF this] show ?thesis
    by (simp add: soundio_best_matching_channel_layout_def)
qed

theorem best_matching_is_first_available_witness:
  "\<exists>r. soundio_best_matching_channel_layout builtin_channel_layouts [builtin_channel_layouts ! 3] = Some r \<and>
     first_index (\<lambda>p. layout_ids p \<in> layout_ids ` set [builtin_channel_layouts ! 3]) builtin_channel_layouts r"
  by (rule best_matching_is_first_available) (auto intro: builtin_wf)

lemma short_name_undefined:
  "(case cl_name l of None \<Rightarrow> True | Some nm \<Rightarrow> length nm < 11) \<Longrightarrow> count_through_name l = None"
  by (auto simp: count_through_name_def arr_at_def split: option.splits)

lemma insert_r_nonempty: "insert_r cmp x ys = Some zs \<Longrightarrow> zs \<noteq> []"
  by (cases ys) (auto simp: Option.bind_eq_Some_conv split: if_splits)

text \<open>Sorting channel layouts is undefined for every array of two or more layouts whose names
  are NULL or shorter than 11 characters (as most builtin names are): the comparison function
  takes the name pointer of an element for the address of a layout.
\<close>

theorem sort_channel_layouts_undefined:
  assumes "2 \<le> length ls"
    and "\<forall>l \<in> set ls. case cl_name l of None \<Rightarrow> True | Some nm \<Rightarrow> length nm < 11"
  shows "soundio_sort_channel_layouts (Some ls) = None"
proof -
  have c: "compare_layouts x y = None" if "x \<in> set ls" for x y
    using that assms(2) by (simp add: compare_layouts_def short_name_undefined)
  have ne: "zs \<noteq> []" if "qsort_r compare_layouts (y # ys) = Some zs" for y ys zs
    using that by (auto simp: Option.bind_eq_Some_conv dest: insert_r_nonempty)
  from assms(1) obtain x y ys where ls: "ls = x # y # ys"
    by (metis Suc_le_length_iff numeral_2_eq_2)
  show ?thesis
  proof (cases "qsort_r compare_layouts (y # ys)")
    case None
    then have "qsort_r compare_layouts ls = None" by (simp only: ls qsort_r.simps(2) [of _ x] Option.bind.simps)
    then show ?thesis by (simp add: soundio_sort_channel_layouts_def)
  next
    case (Some zs)
    with ne obtain z zs' where "zs = z # zs'" by (cases zs) auto
    with Some c [of x] ls have "qsort_r compare_layouts ls = None"
      by (simp only: ls qsort_r.simps(2) [of _ x] Option.bind.simps) (simp add: ls)
    then show ?thesis by (simp add: soundio_sort_channel_layouts_def)
  qed
qed

theorem sort_channel_layouts_undefined_witness:
  "soundio_sort_channel_layouts (Some [builtin_channel_layouts ! 0, builtin_channel_layouts ! 1]) = None"
  by (rule sort_channel_layouts_undefined) (simp_all add: builtin_defs layout_init_def)

text \<open>The assertion on the index of a builtin layout lets the index one past the table through.\<close>

lemma get_builtin_past_the_end:
  "get_builtin_ptr 26 = Some 26" "soundio_channel_layout_get_builtin 26 = None"
  by (simp_all add: soundio_channel_layout_get_builtin_def get_builtin_ptr_def arr_at_def)

end
