(* ===== verification/ListOps.thy ===== *)
theory ListOps
  imports Memory
begin

section \<open>src/list.h: growable arrays\<close>

text \<open>
  The list that \<open>SOUNDIO_MAKE_LIST_STRUCT\<close> and \<open>SOUNDIO_MAKE_LIST_DEF\<close> generate for an
  element type: a block of \<open>capacity\<close> cells of which the first \<open>length\<close> are in use. A cell
  that was never written is \<open>None\<close>, and reading it is undefined. The operations keep the
  macro's names without the list's own prefix. The section proves each of them to be the
  operation on sequences it stands for, and that the doubling loop ends with a capacity
  that is large enough and less than twice what was asked for.
\<close>

record 'a clist =
  l_items :: "'a option list"
  l_blk :: "nat option"
  l_length :: int
  l_capacity :: int

definition clist_zero :: "'a clist" where
  "clist_zero = \<lparr>l_items = [], l_blk = None, l_length = 0, l_capacity = 0\<rparr>"

definition list_deinit :: "'a clist \<Rightarrow> 'z mem_scheme \<Rightarrow> 'z mem_scheme option" where
  "list_deinit l s = free_blk (l_blk l) s"

text \<open>The doubling loop. It need not end (a capacity of 0) and may overflow: \<open>None\<close>.\<close>

partial_function (option) grow :: "int \<Rightarrow> int \<Rightarrow> int option" where
  "grow better_capacity new_capacity =
     (if better_capacity < new_capacity
      then Option.bind (c_int (better_capacity * 2)) (\<lambda>b. grow b new_capacity)
      else Some better_capacity)"

definition list_ensure_capacity ::
  "'a clist \<Rightarrow> int \<Rightarrow> 'z mem_scheme \<Rightarrow> (SoundIoError \<times> 'a clist \<times> 'z mem_scheme) option" where
  "list_ensure_capacity l new_capacity s = do {
     better_capacity \<leftarrow> grow (soundio_int_max (l_capacity l) 16) new_capacity;
     if better_capacity \<noteq> l_capacity l then do {
       (new_items, s) \<leftarrow> realloc_blk (l_blk l) s;
       if new_items = None then Some (SoundIoErrorNoMem, l, s)
       else Some (SoundIoErrorNone,
         l\<lparr>l_blk := new_items,
           l_items := l_items l @ replicate (nat better_capacity - length (l_items l)) None,
           l_capacity := better_capacity\<rparr>, s)
     }
     else Some (SoundIoErrorNone, l, s)
   }"

definition list_append ::
  "'a \<Rightarrow> 'a clist \<Rightarrow> 'z mem_scheme \<Rightarrow> (SoundIoError \<times> 'a clist \<times> 'z mem_scheme) option" where
  "list_append item l s = do {
     n \<leftarrow> c_int (l_length l + 1);
     (err, l, s) \<leftarrow> list_ensure_capacity l n s;
     if err \<noteq> SoundIoErrorNone then Some (err, l, s)
     else do {
       items \<leftarrow> arr_set (l_items l) (l_length l) (Some item);
       Some (SoundIoErrorNone, l\<lparr>l_items := items, l_length := l_length l + 1\<rparr>, s)
     }
   }"

definition list_val_at :: "'a clist \<Rightarrow> int \<Rightarrow> 'a option" where
  "list_val_at l index = do {
     c_assert (index \<ge> 0);
     c_assert (index < l_length l);
     cell \<leftarrow> arr_at (l_items l) index;
     cell
   }"

text \<open>A pointer to an item is its index.\<close>

definition list_ptr_at :: "'a clist \<Rightarrow> int \<Rightarrow> nat option" where
  "list_ptr_at l index = do {
     c_assert (index \<ge> 0);
     c_assert (index < l_length l);
     Some (nat index)
   }"

definition list_pop :: "'a clist \<Rightarrow> ('a \<times> 'a clist) option" where
  "list_pop l = do {
     c_assert (l_length l \<ge> 1);
     let l = l\<lparr>l_length := l_length l - 1\<rparr>;
     cell \<leftarrow> arr_at (l_items l) (l_length l);
     v \<leftarrow> cell;
     Some (v, l)
   }"

definition list_resize ::
  "'a clist \<Rightarrow> int \<Rightarrow> 'z mem_scheme \<Rightarrow> (SoundIoError \<times> 'a clist \<times> 'z mem_scheme) option" where
  "list_resize l new_length s = do {
     c_assert (new_length \<ge> 0);
     (err, l, s) \<leftarrow> list_ensure_capacity l new_length s;
     if err \<noteq> SoundIoErrorNone then Some (err, l, s)
     else Some (SoundIoErrorNone, l\<lparr>l_length := new_length\<rparr>, s)
   }"

definition list_add_one ::
  "'a clist \<Rightarrow> 'z mem_scheme \<Rightarrow> (SoundIoError \<times> 'a clist \<times> 'z mem_scheme) option" where
  "list_add_one l s = do { n \<leftarrow> c_int (l_length l + 1); list_resize l n s }"

definition list_last_val :: "'a clist \<Rightarrow> 'a option" where
  "list_last_val l = do {
     c_assert (l_length l \<ge> 1);
     cell \<leftarrow> arr_at (l_items l) (l_length l - 1);
     cell
   }"

definition list_last_ptr :: "'a clist \<Rightarrow> nat option" where
  "list_last_ptr l = do {
     c_assert (l_length l \<ge> 1);
     Some (nat (l_length l - 1))
   }"

definition list_clear :: "'a clist \<Rightarrow> 'a clist" where
  "list_clear l = l\<lparr>l_length := 0\<rparr>"

definition list_swap_remove :: "'a clist \<Rightarrow> int \<Rightarrow> ('a \<times> 'a clist) option" where
  "list_swap_remove l index = do {
     c_assert (index \<ge> 0);
     c_assert (index < l_length l);
     (last, l) \<leftarrow> list_pop l;
     if index = l_length l then Some (last, l)
     else do {
       cell \<leftarrow> arr_at (l_items l) index;
       item \<leftarrow> cell;
       items \<leftarrow> arr_set (l_items l) index (Some last);
       Some (item, l\<lparr>l_items := items\<rparr>)
     }
   }"

text \<open>Writing through the pointer that \<open>_last_ptr\<close> or \<open>_ptr_at\<close> gave.\<close>

definition list_store :: "'a clist \<Rightarrow> nat \<Rightarrow> 'a \<Rightarrow> 'a clist option" where
  "list_store l p v = do {
     items \<leftarrow> arr_set (l_items l) (int p) (Some v);
     Some (l\<lparr>l_items := items\<rparr>)
   }"

subsection \<open>The sequence a list stands for\<close>

definition list_abs :: "'a clist \<Rightarrow> 'a list" where
  "list_abs l = map the (take (nat (l_length l)) (l_items l))"

text \<open>The struct is consistent: the block has \<open>capacity\<close> cells, those in use are written.\<close>

definition list_wf :: "'a clist \<Rightarrow> bool" where
  "list_wf l \<longleftrightarrow>
     int (length (l_items l)) = l_capacity l \<and> 0 \<le> l_length l \<and> l_length l \<le> l_capacity l \<and>
     (\<forall>i < nat (l_length l). l_items l ! i \<noteq> None)"

definition list_ok :: "'a clist \<Rightarrow> 'z mem_scheme \<Rightarrow> bool" where
  "list_ok l s \<longleftrightarrow> list_wf l \<and> ptr_ok (l_blk l) s"

text \<open>The length up to which a list can grow without overflowing its capacity.\<close>

definition list_limit :: int where "list_limit = 2 ^ 30"

lemma list_wf_zero [simp]: "list_wf clist_zero"
  by (simp add: list_wf_def clist_zero_def)

lemma list_ok_zero [simp]: "list_ok clist_zero s"
  by (simp add: list_ok_def) (simp add: clist_zero_def)

lemma list_abs_zero [simp]: "list_abs clist_zero = []"
  by (simp add: list_abs_def clist_zero_def)

lemma length_list_abs: "list_wf l \<Longrightarrow> int (length (list_abs l)) = l_length l"
  by (auto simp: list_wf_def list_abs_def)

lemma list_abs_nth: "list_wf l \<Longrightarrow> i < nat (l_length l) \<Longrightarrow> list_abs l ! i = the (l_items l ! i)"
  by (auto simp: list_wf_def list_abs_def)

lemma list_cell:
  assumes "list_wf l" and "0 \<le> i" and "i < l_length l"
  shows "arr_at (l_items l) i = Some (Some (list_abs l ! nat i))"
proof -
  from assms have "nat i < nat (l_length l)" "nat i < length (l_items l)"
    by (auto simp: list_wf_def)
  with assms show ?thesis
    by (auto simp: list_wf_def list_abs_nth arr_at_Some_iff)
qed

subsection \<open>The doubling loop\<close>

lemma grow_spec:
  assumes "16 \<le> b" and "n \<le> list_limit"
  shows "\<exists>k. grow b n = Some (b * 2 ^ k) \<and> n \<le> b * 2 ^ k \<and> (k = 0 \<or> b * 2 ^ k < 2 * n)"
  using assms
proof (induction "nat (n - b)" arbitrary: b rule: less_induct)
  case less
  show ?case
  proof (cases "b < n")
    case False
    then have "grow b n = Some b" by (subst grow.simps) simp
    with False show ?thesis by (intro exI [of _ 0]) simp
  next
    case True
    with less.prems have b2: "b * 2 \<le> int_max" "in_int (b * 2)"
      by (auto simp: list_limit_def c_defs)
    from True less.prems have "nat (n - b * 2) < nat (n - b)" by simp
    then obtain k where k: "grow (b * 2) n = Some (b * 2 * 2 ^ k)" "n \<le> b * 2 * 2 ^ k"
      "k = 0 \<or> b * 2 * 2 ^ k < 2 * n"
      using less.hyps [of "b * 2"] less.prems by auto
    from b2(2) have c: "c_int (b * 2) = Some (b * 2)" by simp
    have "grow b n = Some (b * 2 ^ Suc k)"
      using True k(1) by (subst grow.simps) (simp add: c mult.assoc)
    with k(2,3) True show ?thesis by (intro exI [of _ "Suc k"]) (auto simp: mult.assoc)
  qed
qed

subsection \<open>The operations are those of sequences\<close>

text \<open>
  The blocks a list does not own are untouched by its operations: \<open>frame\<close>.
\<close>

definition list_frame :: "'a clist \<Rightarrow> 'z mem_scheme \<Rightarrow> 'a clist \<Rightarrow> 'z mem_scheme \<Rightarrow> bool" where
  "list_frame l s l' s' \<longleftrightarrow>
     blocks s' - set_option (l_blk l') = blocks s - set_option (l_blk l) \<and> mem.more s' = mem.more s"

lemma list_ensure_capacity_spec:
  assumes "list_ok l s" and "mem_ok s" and "n \<le> list_limit"
  shows "\<exists>e l' s'. list_ensure_capacity l n s = Some (e, l', s') \<and>
           list_ok l' s' \<and> mem_ok s' \<and> list_frame l s l' s' \<and> l_length l' = l_length l \<and>
           list_abs l' = list_abs l \<and> e \<in> {SoundIoErrorNone, SoundIoErrorNoMem} \<and>
           (e = SoundIoErrorNone \<longrightarrow> n \<le> l_capacity l')"
proof -
  let ?b = "soundio_int_max (l_capacity l) 16"
  from assms(3) obtain k where "grow ?b n = Some (?b * 2 ^ k)" "n \<le> ?b * 2 ^ k"
    using grow_spec [of ?b n] by auto
  moreover have "?b * 1 \<le> ?b * 2 ^ k" by (intro mult_left_mono) auto
  ultimately obtain c where c: "grow ?b n = Some c" "n \<le> c" "l_capacity l \<le> c"
    by auto
  show ?thesis
  proof (cases "c = l_capacity l")
    case True
    with c assms show ?thesis
      by (auto simp: list_ensure_capacity_def list_frame_def)
  next
    case False
    obtain q s' where q: "realloc_blk (l_blk l) s = Some (q, s')" "mem_ok s'" "mem.more s' = mem.more s"
      "case q of None \<Rightarrow> blocks s' = blocks s
       | Some b \<Rightarrow> b \<notin> blocks s \<and> blocks s' = insert b (blocks s - set_option (l_blk l))"
      using realloc_blk_spec [of s "l_blk l"] assms by (auto simp: list_ok_def)
    show ?thesis
    proof (cases q)
      case None
      with q False c assms show ?thesis
        by (auto simp: list_ensure_capacity_def list_frame_def list_ok_def ptr_ok_def
            split: option.splits)
    next
      case (Some b)
      have "nat (l_length l) \<le> length (l_items l)" "int (length (l_items l)) = l_capacity l"
        "l_length l \<le> c"
        using assms(1) c(3) by (auto simp: list_ok_def list_wf_def)
      then show ?thesis
        using q Some False c assms
        by (auto simp: list_ensure_capacity_def list_frame_def list_ok_def list_wf_def
            list_abs_def nth_append)
    qed
  qed
qed

lemma list_append_spec:
  assumes "list_ok l s" and "mem_ok s" and "l_length l < list_limit"
  shows "\<exists>e l' s'. list_append x l s = Some (e, l', s') \<and>
           list_ok l' s' \<and> mem_ok s' \<and> list_frame l s l' s' \<and>
           (e = SoundIoErrorNone \<and> list_abs l' = list_abs l @ [x] \<and> l_length l' = l_length l + 1 \<or>
            e = SoundIoErrorNoMem \<and> list_abs l' = list_abs l \<and> l_length l' = l_length l)"
proof -
  have len: "0 \<le> l_length l" "in_int (l_length l + 1)"
    using assms by (auto simp: list_ok_def list_wf_def list_limit_def c_defs)
  obtain e l' s' where e: "list_ensure_capacity l (l_length l + 1) s = Some (e, l', s')"
    "list_ok l' s'" "mem_ok s'" "list_frame l s l' s'" "l_length l' = l_length l"
    "list_abs l' = list_abs l" "e \<in> {SoundIoErrorNone, SoundIoErrorNoMem}"
    "e = SoundIoErrorNone \<longrightarrow> l_length l + 1 \<le> l_capacity l'"
    using list_ensure_capacity_spec [OF assms(1,2), of "l_length l + 1"] assms(3)
    by auto
  show ?thesis
  proof (cases "e = SoundIoErrorNone")
    case False
    with e len show ?thesis by (auto simp: list_append_def)
  next
    case True
    let ?n = "nat (l_length l)"
    let ?l = "l'\<lparr>l_items := (l_items l')[?n := Some x], l_length := l_length l + 1\<rparr>"
    have n: "?n < length (l_items l')"
      using True e len by (auto simp: list_ok_def list_wf_def)
    have run: "list_append x l s = Some (SoundIoErrorNone, ?l, s')"
      using True e len n by (auto simp: list_append_def arr_set_def)
    have "list_wf ?l"
      using True e len n by (auto simp: list_ok_def list_wf_def nth_list_update)
    moreover have "nat (l_length l + 1) = Suc ?n" using len by simp
    then have "list_abs ?l = list_abs l @ [x]"
      using e(5,6) n by (simp add: list_abs_def take_Suc_conv_app_nth)
    ultimately show ?thesis
      using run e by (auto simp: list_ok_def list_frame_def)
  qed
qed

lemma list_val_at_spec:
  assumes "list_wf l" and "0 \<le> i" and "i < l_length l"
  shows "list_val_at l i = Some (list_abs l ! nat i)"
  using assms list_cell [OF assms] by (simp add: list_val_at_def)

lemma list_val_at_fault:
  assumes "i < 0 \<or> l_length l \<le> i"
  shows "list_val_at l i = None"
  using assms by (cases "i \<ge> 0") (auto simp: list_val_at_def c_assert_def)

lemma list_last_val_spec:
  assumes "list_wf l" and "list_abs l \<noteq> []"
  shows "list_last_val l = Some (last (list_abs l))"
proof -
  have len: "int (length (list_abs l)) = l_length l" by (rule length_list_abs [OF assms(1)])
  with assms(2) have "1 \<le> l_length l" by (cases "list_abs l") auto
  moreover from this len have "nat (l_length l - 1) = length (list_abs l) - 1" by linarith
  ultimately show ?thesis
    using list_cell [OF assms(1), of "l_length l - 1"] assms(2)
    by (simp add: list_last_val_def last_conv_nth)
qed

lemma list_shrink:
  assumes "list_wf l" and "1 \<le> l_length l"
  shows "list_wf (l\<lparr>l_length := l_length l - 1\<rparr>)"
    and "list_abs (l\<lparr>l_length := l_length l - 1\<rparr>) = butlast (list_abs l)"
proof -
  show "list_wf (l\<lparr>l_length := l_length l - 1\<rparr>)"
    using assms by (auto simp: list_wf_def)
  have n: "nat (l_length l) = Suc (nat (l_length l - 1))" "nat (l_length l) \<le> length (l_items l)"
    using assms by (auto simp: list_wf_def)
  then show "list_abs (l\<lparr>l_length := l_length l - 1\<rparr>) = butlast (list_abs l)"
    by (simp add: list_abs_def map_butlast [symmetric] butlast_take)
qed

lemma list_pop_spec:
  assumes "list_wf l" and "list_abs l \<noteq> []"
  shows "list_pop l = Some (last (list_abs l), l\<lparr>l_length := l_length l - 1\<rparr>)"
    and "list_wf (l\<lparr>l_length := l_length l - 1\<rparr>)"
    and "list_abs (l\<lparr>l_length := l_length l - 1\<rparr>) = butlast (list_abs l)"
proof -
  have len: "int (length (list_abs l)) = l_length l" by (rule length_list_abs [OF assms(1)])
  with assms(2) have 1: "1 \<le> l_length l" by (cases "list_abs l") auto
  from this len have "nat (l_length l - 1) = length (list_abs l) - 1" by linarith
  with 1 list_cell [OF assms(1), of "l_length l - 1"] assms(2)
  show "list_pop l = Some (last (list_abs l), l\<lparr>l_length := l_length l - 1\<rparr>)"
    by (simp add: list_pop_def last_conv_nth)
  show "list_wf (l\<lparr>l_length := l_length l - 1\<rparr>)"
    "list_abs (l\<lparr>l_length := l_length l - 1\<rparr>) = butlast (list_abs l)"
    using list_shrink [OF assms(1) 1] .
qed

text \<open>
  Removing by swapping: the item at the index comes out, the last one takes its place. As a
  multiset the rest stays, and the order of the items before the index is kept.
\<close>

lemma list_swap_remove_spec:
  assumes "list_wf l" and "i < length (list_abs l)"
  shows "\<exists>l'. list_swap_remove l (int i) = Some (list_abs l ! i, l') \<and> list_wf l' \<and> l_blk l' = l_blk l \<and>
           list_abs l' = butlast ((list_abs l)[i := last (list_abs l)])"
proof -
  have len: "int (length (list_abs l)) = l_length l" by (rule length_list_abs [OF assms(1)])
  then have ne: "list_abs l \<noteq> []" and i: "int i < l_length l" using assms(2) by auto
  let ?l = "l\<lparr>l_length := l_length l - 1\<rparr>"
  note pop = list_pop_spec [OF assms(1) ne]
  show ?thesis
  proof (cases "int i = l_length l - 1")
    case True
    then have "i = length (list_abs l) - 1" using len by linarith
    with ne have "last (list_abs l) = list_abs l ! i" "(list_abs l)[i := last (list_abs l)] = list_abs l"
      by (simp_all add: last_conv_nth)
    with True pop i show ?thesis by (auto simp: list_swap_remove_def)
  next
    case False
    then have i': "int i < l_length ?l" using i by simp
    have cell: "arr_at (l_items l) (int i) = Some (Some (list_abs l ! i))"
      using list_cell [OF assms(1), of "int i"] i by simp
    have il: "i < length (l_items l)" using i assms(1) by (auto simp: list_wf_def)
    let ?l' = "?l\<lparr>l_items := (l_items l)[i := Some (last (list_abs l))]\<rparr>"
    have run: "list_swap_remove l (int i) = Some (list_abs l ! i, ?l')"
      using pop(1) i False cell il by (simp add: list_swap_remove_def arr_set_def)
    have "list_wf ?l'"
      using pop(2) il unfolding list_wf_def
      by (simp, metis nth_list_update option.discI)
    moreover have ne_last: "i \<noteq> length (list_abs l) - 1" using i' len by simp
    moreover have "list_abs ?l' = (list_abs ?l)[i := last (list_abs l)]"
      by (simp add: list_abs_def take_update_swap map_update)
    then have "list_abs ?l' = butlast ((list_abs l)[i := last (list_abs l)])"
      using ne_last by (simp add: pop(3) butlast_list_update)
    ultimately show ?thesis using run by auto
  qed
qed

text \<open>
  \<open>add_one\<close> leaves the new cell unwritten; storing through \<open>last_ptr\<close> completes an append.
\<close>

lemma list_add_one_store:
  assumes "list_ok l s" and "mem_ok s" and "l_length l < list_limit"
  shows "\<exists>e l' s'. list_add_one l s = Some (e, l', s') \<and> mem_ok s' \<and> list_frame l s l' s' \<and>
           (e = SoundIoErrorNone \<and>
              (\<exists>p l''. list_last_ptr l' = Some p \<and> list_store l' p x = Some l'' \<and> list_ok l'' s' \<and>
                list_abs l'' = list_abs l @ [x] \<and> l_blk l'' = l_blk l') \<or>
            e = SoundIoErrorNoMem \<and> list_ok l' s' \<and> list_abs l' = list_abs l)"
proof -
  have len: "0 \<le> l_length l" "in_int (l_length l + 1)"
    using assms by (auto simp: list_ok_def list_wf_def list_limit_def c_defs)
  obtain e l' s' where e: "list_ensure_capacity l (l_length l + 1) s = Some (e, l', s')"
    "list_ok l' s'" "mem_ok s'" "list_frame l s l' s'" "l_length l' = l_length l"
    "list_abs l' = list_abs l" "e \<in> {SoundIoErrorNone, SoundIoErrorNoMem}"
    "e = SoundIoErrorNone \<longrightarrow> l_length l + 1 \<le> l_capacity l'"
    using list_ensure_capacity_spec [OF assms(1,2), of "l_length l + 1"] assms(3)
    by auto
  show ?thesis
  proof (cases "e = SoundIoErrorNone")
    case False
    with e len show ?thesis by (auto simp: list_add_one_def list_resize_def)
  next
    case True
    let ?n = "nat (l_length l)"
    let ?l = "l'\<lparr>l_length := l_length l + 1\<rparr>"
    let ?l' = "?l\<lparr>l_items := (l_items l')[?n := Some x]\<rparr>"
    have n: "?n < length (l_items l')"
      using True e len by (auto simp: list_ok_def list_wf_def)
    have run: "list_add_one l s = Some (SoundIoErrorNone, ?l, s')"
      using True e len by (simp add: list_add_one_def list_resize_def)
    have ptr: "list_last_ptr ?l = Some ?n" "list_store ?l ?n x = Some ?l'"
      using n len by (auto simp: list_last_ptr_def list_store_def arr_set_def)
    have "list_wf ?l'"
      using True e len n by (auto simp: list_ok_def list_wf_def nth_list_update)
    moreover have "nat (l_length l + 1) = Suc ?n" using len by simp
    then have "list_abs ?l' = list_abs l @ [x]"
      using e(5,6) n by (simp add: list_abs_def take_Suc_conv_app_nth)
    ultimately show ?thesis
      using run ptr e by (auto simp: list_ok_def list_frame_def)
  qed
qed

lemma list_clear_spec:
  "list_wf l \<Longrightarrow> list_wf (list_clear l)" "list_abs (list_clear l) = []"
  by (auto simp: list_wf_def list_clear_def list_abs_def)

lemma list_deinit_spec:
  assumes "list_ok l s"
  shows "\<exists>s'. list_deinit l s = Some s' \<and> blocks s' = blocks s - set_option (l_blk l) \<and>
           next_id s' = next_id s \<and> mem.more s' = mem.more s"
  using assms by (cases "l_blk l") (auto simp: list_deinit_def list_ok_def free_blk_def)

subsection \<open>The interface of a growable sequence\<close>

text \<open>
  What the users of these lists (the device lists, the sample rates, the JACK clients, the
  pending files) rely on: appending either extends the sequence or fails and leaves it,
  and reading an index gives the item that was appended there.
\<close>

locale growable =
  fixes seq :: "'l \<Rightarrow> 'a list"
    and ok :: "'l \<Rightarrow> 's \<Rightarrow> bool"
    and push :: "'a \<Rightarrow> 'l \<Rightarrow> 's \<Rightarrow> (SoundIoError \<times> 'l \<times> 's) option"
    and val_at :: "'l \<Rightarrow> int \<Rightarrow> 'a option"
    and limit :: nat
  assumes push_law: "ok l s \<Longrightarrow> length (seq l) < limit \<Longrightarrow>
      \<exists>e l' s'. push x l s = Some (e, l', s') \<and> ok l' s' \<and>
        (e = SoundIoErrorNone \<and> seq l' = seq l @ [x] \<or> e = SoundIoErrorNoMem \<and> seq l' = seq l)"
    and val_at_law: "ok l s \<Longrightarrow> i < length (seq l) \<Longrightarrow> val_at l (int i) = Some (seq l ! i)"

text \<open>Appending items in order until one fails, as the loops over devices do.\<close>

fun push_all ::
  "('a \<Rightarrow> 'l \<Rightarrow> 's \<Rightarrow> (SoundIoError \<times> 'l \<times> 's) option) \<Rightarrow> 'a list \<Rightarrow> 'l \<Rightarrow> 's \<Rightarrow>
   (SoundIoError \<times> 'l \<times> 's) option" where
  "push_all push [] l s = Some (SoundIoErrorNone, l, s)"
| "push_all push (x # xs) l s = do {
     (err, l, s) \<leftarrow> push x l s;
     if err \<noteq> SoundIoErrorNone then Some (err, l, s) else push_all push xs l s
   }"

context growable begin

lemma push_all_seq:
  assumes "ok l s" and "length (seq l) + length xs \<le> limit"
  shows "\<exists>e l' s' k. push_all push xs l s = Some (e, l', s') \<and> ok l' s' \<and> k \<le> length xs \<and>
           seq l' = seq l @ take k xs \<and>
           (e = SoundIoErrorNone \<and> k = length xs \<or> e = SoundIoErrorNoMem \<and> k < length xs)"
  using assms
proof (induction xs arbitrary: l s)
  case Nil
  then show ?case by auto
next
  case (Cons x xs)
  from Cons.prems obtain e l1 s1 where p: "push x l s = Some (e, l1, s1)" "ok l1 s1"
    "e = SoundIoErrorNone \<and> seq l1 = seq l @ [x] \<or> e = SoundIoErrorNoMem \<and> seq l1 = seq l"
    using push_law [of l s x] by auto
  show ?case
  proof (cases "e = SoundIoErrorNone")
    case False
    with p show ?thesis by (intro exI [of _ e] exI [of _ l1] exI [of _ s1] exI [of _ 0]) auto
  next
    case True
    with p Cons.prems obtain e' l' s' k where "push_all push xs l1 s1 = Some (e', l', s')" "ok l' s'"
      "k \<le> length xs" "seq l' = seq l1 @ take k xs"
      "e' = SoundIoErrorNone \<and> k = length xs \<or> e' = SoundIoErrorNoMem \<and> k < length xs"
      using Cons.IH [of l1 s1] by auto
    with True p show ?thesis
      by (intro exI [of _ e'] exI [of _ l'] exI [of _ s'] exI [of _ "Suc k"]) auto
  qed
qed

lemma push_all_read_back:
  assumes "ok l s" and "length (seq l) + length xs \<le> limit"
    and "push_all push xs l s = Some (SoundIoErrorNone, l', s')" and "i < length xs"
  shows "val_at l' (int (length (seq l) + i)) = Some (xs ! i)"
proof -
  from push_all_seq [OF assms(1,2)] assms(3) have "ok l' s'" "seq l' = seq l @ xs"
    by auto
  with assms(4) val_at_law [of l' s' "length (seq l) + i"] show ?thesis
    by (simp add: nth_append)
qed

end

interpretation clist: growable list_abs "\<lambda>l s. list_ok l s \<and> mem_ok s" list_append list_val_at "nat list_limit"
proof
  fix l :: "'a clist" and s :: "'b mem_scheme" and x
  assume a: "list_ok l s \<and> mem_ok s" "length (list_abs l) < nat list_limit"
  then have "l_length l < list_limit"
    using length_list_abs [of l] by (simp add: list_ok_def)
  with a list_append_spec [of l s x]
  show "\<exists>e l' s'. list_append x l s = Some (e, l', s') \<and> (list_ok l' s' \<and> mem_ok s') \<and>
      (e = SoundIoErrorNone \<and> list_abs l' = list_abs l @ [x] \<or>
       e = SoundIoErrorNoMem \<and> list_abs l' = list_abs l)"
    by fastforce
next
  fix l :: "'a clist" and s :: "'b mem_scheme" and i
  assume "list_ok l s \<and> mem_ok s" "i < length (list_abs l)"
  then show "list_val_at l (int i) = Some (list_abs l ! i)"
    using length_list_abs [of l] by (simp add: list_ok_def list_val_at_spec)
qed

end
