(* ===== verification/Os.thy ===== *)
theory Os
  imports ListOps
begin

section \<open>src/os.c: threads, mutexes, conditions and mirrored memory (POSIX)\<close>

text \<open>
  The POSIX branches of \<open>src/os.c\<close> (neither Windows nor kqueue). The state adds to the
  allocator the structs that \<open>os.c\<close> allocates, the open file descriptors, the address space
  of the process and the contents of the temporary files. A system call succeeds or fails
  by the allocator's \<open>answers\<close>; what a successful call does is its documented effect:
  \<open>mmap\<close> without an address picks an unused region, \<open>mmap\<close> with \<open>MAP_FIXED\<close> replaces the
  region it is given, \<open>munmap\<close> of length 0 is an error. A step of the model is a call made
  by one thread, so locking a mutex that is locked already is a deadlock, and unlocking or
  destroying one in the wrong state fails the assertion in \<open>assert_no_err\<close>; all three are
  undefined here. A wait on a condition may return spuriously, which is the behaviour
  modelled; joining a thread returns at once.
\<close>

record SoundIoOsMutex =
  mutex_id_init :: bool
  mutex_locked :: bool

record SoundIoOsCond =
  cond_id_init :: bool
  cond_attr_init :: bool
  cond_default_mutex_init :: bool
  cond_signals :: nat  \<comment> \<open>how often it was signalled\<close>

text \<open>The functions that the backends run in a thread.\<close>

datatype thread_fn = playback_thread_run | capture_thread_run | device_thread_run | outstream_thread_run | instream_thread_run
  | device_thread_run_ca

record SoundIoOsThread =
  thread_attr_init :: bool
  thread_running :: bool
  thread_run :: thread_fn

record SoundIoOsMirroredMemory =
  mm_capacity :: nat
  mm_address :: nat  \<comment> \<open>0 is NULL\<close>

text \<open>A byte of the address space: unmapped, reserved without access, or a byte of a file.\<close>

datatype page = Unmapped | Reserved | Mapped nat nat

record os = mem +
  mutexes :: "nat \<rightharpoonup> SoundIoOsMutex"
  conds :: "nat \<rightharpoonup> SoundIoOsCond"
  threads :: "nat \<rightharpoonup> SoundIoOsThread"
  rtprio_warnings :: nat
  initialized :: bool
  init_mutex_locked :: bool
  page_size :: int
  sysconf_pagesize :: int
  open_fds :: "nat set"
  next_fd :: nat
  vm :: "nat \<Rightarrow> page"
  vm_next :: nat
  file_data :: "nat \<Rightarrow> nat \<Rightarrow> 8 word"

subsection \<open>Mutexes\<close>

definition soundio_os_mutex_destroy :: "nat option \<Rightarrow> 'z os_scheme \<Rightarrow> 'z os_scheme option" where
  "soundio_os_mutex_destroy mutex s =
     (case mutex of None \<Rightarrow> Some s
      | Some m \<Rightarrow> do {
          mutex \<leftarrow> mutexes s m;
          c_assert (mutex_id_init mutex \<longrightarrow> \<not> mutex_locked mutex);
          free_blk (Some m) (s\<lparr>mutexes := (mutexes s)(m := None)\<rparr>)
        })"

definition soundio_os_mutex_create :: "'z os_scheme \<Rightarrow> (nat option \<times> 'z os_scheme) option" where
  "soundio_os_mutex_create s =
     (let (p, s) = alloc s
      in case p of
           None \<Rightarrow> do { s \<leftarrow> soundio_os_mutex_destroy None s; Some (None, s) }
         | Some m \<Rightarrow>
             let s = s\<lparr>mutexes := (mutexes s)(m \<mapsto> \<lparr>mutex_id_init = False, mutex_locked = False\<rparr>)\<rparr>;
                 (ok, s) = ask s \<comment> \<open>\<open>pthread_mutex_init\<close>\<close>
             in if \<not> ok then do { s \<leftarrow> soundio_os_mutex_destroy (Some m) s; Some (None, s) }
                else Some (Some m, s\<lparr>mutexes := (mutexes s)(m \<mapsto> \<lparr>mutex_id_init = True, mutex_locked = False\<rparr>)\<rparr>))"

definition soundio_os_mutex_lock :: "nat option \<Rightarrow> 'z os_scheme \<Rightarrow> 'z os_scheme option" where
  "soundio_os_mutex_lock mutex s = do {
     m \<leftarrow> mutex;
     mt \<leftarrow> mutexes s m;
     c_assert (\<not> mutex_locked mt);
     Some (s\<lparr>mutexes := (mutexes s)(m \<mapsto> mt\<lparr>mutex_locked := True\<rparr>)\<rparr>)
   }"

definition soundio_os_mutex_unlock :: "nat option \<Rightarrow> 'z os_scheme \<Rightarrow> 'z os_scheme option" where
  "soundio_os_mutex_unlock mutex s = do {
     m \<leftarrow> mutex;
     mt \<leftarrow> mutexes s m;
     c_assert (mutex_locked mt);
     Some (s\<lparr>mutexes := (mutexes s)(m \<mapsto> mt\<lparr>mutex_locked := False\<rparr>)\<rparr>)
   }"

subsection \<open>Conditions\<close>

definition soundio_os_cond_destroy :: "nat option \<Rightarrow> 'z os_scheme \<Rightarrow> 'z os_scheme option" where
  "soundio_os_cond_destroy cnd s =
     (case cnd of None \<Rightarrow> Some s
      | Some c \<Rightarrow> do {
          conds s c;
          free_blk (Some c) (s\<lparr>conds := (conds s)(c := None)\<rparr>)
        })"

definition cond_give_up :: "nat \<Rightarrow> 'z os_scheme \<Rightarrow> (nat option \<times> 'z os_scheme) option" where
  "cond_give_up c s = do { s \<leftarrow> soundio_os_cond_destroy (Some c) s; Some (None, s) }"

definition set_cond :: "nat \<Rightarrow> bool \<Rightarrow> bool \<Rightarrow> bool \<Rightarrow> 'z os_scheme \<Rightarrow> 'z os_scheme" where
  "set_cond c id_init attr_init default_mutex_init s =
     s\<lparr>conds := (conds s)(c \<mapsto> \<lparr>cond_id_init = id_init, cond_attr_init = attr_init,
        cond_default_mutex_init = default_mutex_init, cond_signals = 0\<rparr>)\<rparr>"

definition soundio_os_cond_create :: "'z os_scheme \<Rightarrow> (nat option \<times> 'z os_scheme) option" where
  "soundio_os_cond_create s =
     (let (p, s) = alloc s
      in case p of
           None \<Rightarrow> do { s \<leftarrow> soundio_os_cond_destroy None s; Some (None, s) }
         | Some c \<Rightarrow>
             let s = set_cond c False False False s;
                 (ok, s) = ask s \<comment> \<open>\<open>pthread_condattr_init\<close>\<close>
             in if \<not> ok then cond_give_up c s else
             let s = set_cond c False True False s;
                 (ok, s) = ask s \<comment> \<open>\<open>pthread_condattr_setclock\<close>\<close>
             in if \<not> ok then cond_give_up c s else
             let (ok, s) = ask s \<comment> \<open>\<open>pthread_cond_init\<close>\<close>
             in if \<not> ok then cond_give_up c s else
             let s = set_cond c True True False s;
                 (ok, s) = ask s \<comment> \<open>\<open>pthread_mutex_init\<close> of the default mutex\<close>
             in if \<not> ok then cond_give_up c s
                else Some (Some c, set_cond c True True True s))"

definition soundio_os_cond_signal ::
  "nat option \<Rightarrow> nat option \<Rightarrow> 'z os_scheme \<Rightarrow> 'z os_scheme option" where
  "soundio_os_cond_signal cnd locked_mutex s = do {
     c \<leftarrow> cnd;
     cd \<leftarrow> conds s c;
     c_assert (locked_mutex = None \<longrightarrow> cond_default_mutex_init cd);
     Some (s\<lparr>conds := (conds s)(c \<mapsto> cd\<lparr>cond_signals := Suc (cond_signals cd)\<rparr>)\<rparr>)
   }"

text \<open>The wait needs the mutex locked by the caller; it is locked again when the wait returns.\<close>

definition cond_target_locked :: "SoundIoOsCond \<Rightarrow> nat option \<Rightarrow> 'z os_scheme \<Rightarrow> unit option" where
  "cond_target_locked cd locked_mutex s =
     (case locked_mutex of
        None \<Rightarrow> c_assert (cond_default_mutex_init cd)
      | Some m \<Rightarrow> do { mt \<leftarrow> mutexes s m; c_assert (mutex_locked mt) })"

definition soundio_os_cond_wait ::
  "nat option \<Rightarrow> nat option \<Rightarrow> 'z os_scheme \<Rightarrow> 'z os_scheme option" where
  "soundio_os_cond_wait cnd locked_mutex s = do {
     c \<leftarrow> cnd;
     cd \<leftarrow> conds s c;
     cond_target_locked cd locked_mutex s;
     Some s
   }"

subsection \<open>Threads\<close>

definition soundio_os_thread_destroy :: "nat option \<Rightarrow> 'z os_scheme \<Rightarrow> 'z os_scheme option" where
  "soundio_os_thread_destroy thr s =
     (case thr of None \<Rightarrow> Some s
      | Some t \<Rightarrow> do {
          threads s t;
          free_blk (Some t) (s\<lparr>threads := (threads s)(t := None)\<rparr>)
        })"

definition thread_give_up ::
  "nat \<Rightarrow> SoundIoError \<Rightarrow> 'z os_scheme \<Rightarrow> (SoundIoError \<times> nat option \<times> 'z os_scheme) option" where
  "thread_give_up t err s = do { s \<leftarrow> soundio_os_thread_destroy (Some t) s; Some (err, None, s) }"

text \<open>
  \<open>emit_rtprio_warning\<close> says whether the caller passed a callback: then the thread asks for
  real-time priority, and when it may not have it (\<open>EPERM\<close>) the callback is called and a
  normal thread is created. The result is an error code and the thread handle.
\<close>

definition soundio_os_thread_create ::
  "thread_fn \<Rightarrow> bool \<Rightarrow> 'z os_scheme \<Rightarrow> (SoundIoError \<times> nat option \<times> 'z os_scheme) option" where
  "soundio_os_thread_create run emit_rtprio_warning s =
     (let (p, s) = alloc s
      in case p of
           None \<Rightarrow> do { s \<leftarrow> soundio_os_thread_destroy None s; Some (SoundIoErrorNoMem, None, s) }
         | Some t \<Rightarrow>
             let thr = (\<lambda>attr_init running.
                   \<lparr>thread_attr_init = attr_init, thread_running = running, thread_run = run\<rparr>);
                 s = s\<lparr>threads := (threads s)(t \<mapsto> thr False False)\<rparr>;
                 (ok, s) = ask s \<comment> \<open>\<open>pthread_attr_init\<close>\<close>
             in if \<not> ok then thread_give_up t SoundIoErrorNoMem s else
             let s = s\<lparr>threads := (threads s)(t \<mapsto> thr True False)\<rparr>;
                 (ok1, s) = (if emit_rtprio_warning then ask s else (True, s)) \<comment> \<open>\<open>sched_get_priority_max\<close>\<close>
             in if \<not> ok1 then thread_give_up t SoundIoErrorSystemResources s else
             let (ok2, s) = (if emit_rtprio_warning then ask s else (True, s)) \<comment> \<open>\<open>pthread_attr_setschedpolicy\<close>\<close>
             in if \<not> ok2 then thread_give_up t SoundIoErrorSystemResources s else
             let (ok3, s) = (if emit_rtprio_warning then ask s else (True, s)) \<comment> \<open>\<open>pthread_attr_setschedparam\<close>\<close>
             in if \<not> ok3 then thread_give_up t SoundIoErrorSystemResources s else
             let (created, s) = ask s \<comment> \<open>\<open>pthread_create\<close>\<close>
             in if created then Some (SoundIoErrorNone, Some t, s\<lparr>threads := (threads s)(t \<mapsto> thr True True)\<rparr>)
             else
             let (other_errno, s) = ask s \<comment> \<open>the error is not \<open>EPERM\<close>\<close>
             in if other_errno \<or> \<not> emit_rtprio_warning then thread_give_up t SoundIoErrorNoMem s
             else
             let s = s\<lparr>rtprio_warnings := Suc (rtprio_warnings s)\<rparr>;
                 (created, s) = ask s \<comment> \<open>\<open>pthread_create\<close> without the attributes\<close>
             in if \<not> created then thread_give_up t SoundIoErrorNoMem s
                else Some (SoundIoErrorNone, Some t, s\<lparr>threads := (threads s)(t \<mapsto> thr True True)\<rparr>))"

subsection \<open>Initialisation\<close>

definition internal_init :: "'z os_scheme \<Rightarrow> SoundIoError \<times> 'z os_scheme" where
  "internal_init s = (SoundIoErrorNone, s\<lparr>page_size := sysconf_pagesize s\<rparr>)"

definition soundio_os_init :: "'z os_scheme \<Rightarrow> (SoundIoError \<times> 'z os_scheme) option" where
  "soundio_os_init s = do {
     c_assert (\<not> init_mutex_locked s);
     let s = s\<lparr>init_mutex_locked := True\<rparr>;
     if initialized s then Some (SoundIoErrorNone, s\<lparr>init_mutex_locked := False\<rparr>)
     else do {
       let s = s\<lparr>initialized := True\<rparr>;
       let (err, s) = internal_init s;
       if err \<noteq> SoundIoErrorNone then Some (err, s)
       else Some (SoundIoErrorNone, s\<lparr>init_mutex_locked := False\<rparr>)
     }
   }"

definition soundio_os_page_size :: "'z os_scheme \<Rightarrow> int" where
  "soundio_os_page_size s = page_size s"

subsection \<open>The deadline of a timed wait\<close>

text \<open>
  \<open>soundio_os_cond_timed_wait\<close> adds the relative time to the monotonic clock's seconds and
  nanoseconds. The result is the absolute deadline it passes to \<open>pthread_cond_timedwait\<close>.
\<close>

definition timed_wait_deadline :: "int \<times> int \<Rightarrow> real \<Rightarrow> (int \<times> int) option" where
  "timed_wait_deadline now seconds = do {
     let tv_sec = fst now;
     let tv_nsec = snd now;
     let tv_nsec = dbl_trunc (real_of_int tv_nsec + seconds * 1000000000);
     carry \<leftarrow> c_div tv_nsec 1000000000;
     let tv_sec = tv_sec + carry;
     Some (tv_sec, tv_nsec - 1000000000 * carry)
   }"

definition soundio_os_cond_timed_wait ::
  "nat option \<Rightarrow> nat option \<Rightarrow> int \<times> int \<Rightarrow> real \<Rightarrow> 'z os_scheme \<Rightarrow> 'z os_scheme option" where
  "soundio_os_cond_timed_wait cnd locked_mutex now seconds s = do {
     c \<leftarrow> cnd;
     cd \<leftarrow> conds s c;
     cond_target_locked cd locked_mutex s;
     (tv_sec, tv_nsec) \<leftarrow> timed_wait_deadline now seconds;
     c_assert (0 \<le> tv_nsec \<and> tv_nsec < 1000000000); \<comment> \<open>else \<open>EINVAL\<close>\<close>
     Some s
   }"

definition soundio_os_get_time :: "int \<times> int \<Rightarrow> real" where
  "soundio_os_get_time tms =
     (let seconds = real_of_int (fst tms) in seconds + real_of_int (snd tms) / 1000000000)"

subsection \<open>The address space\<close>

definition vm_set :: "nat \<Rightarrow> nat \<Rightarrow> (nat \<Rightarrow> page) \<Rightarrow> 'z os_scheme \<Rightarrow> 'z os_scheme" where
  "vm_set a n f s = s\<lparr>vm := (\<lambda>x. if a \<le> x \<and> x < a + n then f (x - a) else vm s x)\<rparr>"

definition mmap_anon :: "nat \<Rightarrow> 'z os_scheme \<Rightarrow> nat option \<times> 'z os_scheme" where
  "mmap_anon n s =
     (let (ok, s) = ask s
      in if \<not> ok \<or> n = 0 then (None, s)
         else (Some (vm_next s), (vm_set (vm_next s) n (\<lambda>_. Reserved) s)\<lparr>vm_next := vm_next s + n\<rparr>))"

definition mmap_fixed :: "nat \<Rightarrow> nat \<Rightarrow> nat \<Rightarrow> 'z os_scheme \<Rightarrow> nat option \<times> 'z os_scheme" where
  "mmap_fixed a n fd s =
     (let (ok, s) = ask s
      in if \<not> ok \<or> n = 0 then (None, s) else (Some a, vm_set a n (Mapped fd) s))"

definition munmap :: "nat \<Rightarrow> nat \<Rightarrow> 'z os_scheme \<Rightarrow> bool \<times> 'z os_scheme" where
  "munmap a n s = (if n = 0 then (False, s) else (True, vm_set a n (\<lambda>_. Unmapped) s))"

text \<open>
  A new temporary file: its descriptor also names the file, which starts out all zero.
  Closing releases the descriptor even when \<open>close\<close> reports an error.
\<close>

definition mkstemp :: "'z os_scheme \<Rightarrow> nat option \<times> 'z os_scheme" where
  "mkstemp s =
     (let (ok, s) = ask s
      in if \<not> ok then (None, s)
         else (Some (next_fd s), s\<lparr>next_fd := Suc (next_fd s), open_fds := insert (next_fd s) (open_fds s),
           file_data := (file_data s)(next_fd s := (\<lambda>_. 0))\<rparr>))"

definition close_fd :: "nat \<Rightarrow> 'z os_scheme \<Rightarrow> bool \<times> 'z os_scheme" where
  "close_fd fd s = (let (ok, s) = ask s in (ok, s\<lparr>open_fds := open_fds s - {fd}\<rparr>))"

definition load_byte :: "nat \<Rightarrow> 'z os_scheme \<Rightarrow> 8 word option" where
  "load_byte a s = (case vm s a of Mapped f i \<Rightarrow> Some (file_data s f i) | _ \<Rightarrow> None)"

definition store_byte :: "nat \<Rightarrow> 8 word \<Rightarrow> 'z os_scheme \<Rightarrow> 'z os_scheme option" where
  "store_byte a b s =
     (case vm s a of
        Mapped f i \<Rightarrow> Some (s\<lparr>file_data := (file_data s)(f := (file_data s f)(i := b))\<rparr>)
      | _ \<Rightarrow> None)"

subsection \<open>Mirrored memory\<close>

definition ceil_dbl_to_size_t :: "real \<Rightarrow> nat option" where
  "ceil_dbl_to_size_t x = do {
     c_assert (0 \<le> dbl_trunc x \<and> dbl_trunc x < 2 ^ 64);
     let truncation = real_of_int (dbl_trunc x);
     let r = truncation + (if truncation < x then 1 else 0);
     c_assert (r < 2 ^ 64);
     Some (nat (dbl_trunc r))
   }"

text \<open>An \<open>int\<close> passed for a \<open>size_t\<close>.\<close>

definition to_size_t :: "int \<Rightarrow> nat" where
  "to_size_t x = nat (x mod 2 ^ 64)"

definition close_and_fail ::
  "nat \<Rightarrow> SoundIoError \<Rightarrow> SoundIoOsMirroredMemory \<Rightarrow> 'z os_scheme \<Rightarrow>
   (SoundIoError \<times> SoundIoOsMirroredMemory \<times> 'z os_scheme) option" where
  "close_and_fail fd err m s = (let (_, s) = close_fd fd s in Some (err, m, s))"

definition soundio_os_init_mirrored_memory ::
  "SoundIoOsMirroredMemory \<Rightarrow> nat \<Rightarrow> 'z os_scheme \<Rightarrow>
   (SoundIoError \<times> SoundIoOsMirroredMemory \<times> 'z os_scheme) option" where
  "soundio_os_init_mirrored_memory m requested_capacity s = do {
     c_assert (page_size s \<noteq> 0);
     pages \<leftarrow> ceil_dbl_to_size_t (real requested_capacity / real_of_int (page_size s));
     let actual_capacity = (pages * nat (page_size s)) mod 2 ^ 64;
     let twice = (actual_capacity * 2) mod 2 ^ 64;
     let (fd1, s) = mkstemp s; \<comment> \<open>in \<open>/dev/shm\<close>\<close>
     let (fd2, s) = (if fd1 = None then mkstemp s else (fd1, s)); \<comment> \<open>in \<open>/tmp\<close>\<close>
     case fd2 of
       None \<Rightarrow> Some (SoundIoErrorSystemResources, m, s)
     | Some fd \<Rightarrow>
       let (ok, s) = ask s \<comment> \<open>\<open>unlink\<close>\<close>
       in if \<not> ok then close_and_fail fd SoundIoErrorSystemResources m s else
       let (ok, s) = ask s \<comment> \<open>\<open>ftruncate\<close>\<close>
       in if \<not> ok then close_and_fail fd SoundIoErrorSystemResources m s else
       let (address, s) = mmap_anon twice s
       in case address of
         None \<Rightarrow> close_and_fail fd SoundIoErrorNoMem m s
       | Some a \<Rightarrow>
         let (other, s) = mmap_fixed a actual_capacity fd s
         in if other \<noteq> Some a then
              let (_, s) = munmap a twice s in close_and_fail fd SoundIoErrorNoMem m s
         else
         let (other, s) = mmap_fixed (a + actual_capacity) actual_capacity fd s
         in if other \<noteq> Some (a + actual_capacity) then
              let (_, s) = munmap a twice s in close_and_fail fd SoundIoErrorNoMem m s
         else
         let m = m\<lparr>mm_address := a\<rparr>;
             (ok, s) = close_fd fd s
         in if \<not> ok then Some (SoundIoErrorSystemResources, m, s)
         else Some (SoundIoErrorNone, m\<lparr>mm_capacity := actual_capacity\<rparr>, s)
   }"

definition soundio_os_deinit_mirrored_memory ::
  "SoundIoOsMirroredMemory \<Rightarrow> 'z os_scheme \<Rightarrow> (SoundIoOsMirroredMemory \<times> 'z os_scheme) option" where
  "soundio_os_deinit_mirrored_memory m s =
     (if mm_address m = 0 then Some (m, s)
      else do {
        let (ok, s) = munmap (mm_address m) (2 * mm_capacity m) s;
        c_assert ok;
        Some (m\<lparr>mm_address := 0\<rparr>, s)
      })"

subsection \<open>Lemmas: what the creators give and what they give back\<close>

text \<open>
  A creator that fails has given back everything it had acquired: the structs and the
  blocks are those of the state it started from.
\<close>

definition os_heap_eq :: "'z os_scheme \<Rightarrow> 'z os_scheme \<Rightarrow> bool" where
  "os_heap_eq s t \<longleftrightarrow> blocks t = blocks s \<and> mutexes t = mutexes s \<and> conds t = conds s \<and> threads t = threads s"

text \<open>Blocks are allocated below \<open>next_id\<close>, and the structs of \<open>os.c\<close> live in them.\<close>

definition os_ok :: "'z os_scheme \<Rightarrow> bool" where
  "os_ok s \<longleftrightarrow> mem_ok s \<and> dom (mutexes s) \<subseteq> blocks s \<and> dom (conds s) \<subseteq> blocks s \<and> dom (threads s) \<subseteq> blocks s"

lemma os_fresh:
  assumes "os_ok s"
  shows "next_id s \<notin> blocks s" "mutexes s (next_id s) = None" "conds s (next_id s) = None"
    "threads s (next_id s) = None"
  using assms alloc_fresh [of s] by (auto simp: os_ok_def)

lemma ask_os_frame [simp]:
  "mutexes (snd (ask s)) = mutexes s" "conds (snd (ask s)) = conds s" "threads (snd (ask s)) = threads s"
  "vm (snd (ask s)) = vm s" "vm_next (snd (ask s)) = vm_next s" "open_fds (snd (ask s)) = open_fds s"
  "next_fd (snd (ask s)) = next_fd s" "page_size (snd (ask s)) = page_size s"
  "file_data (snd (ask s)) = file_data s"
  by (simp_all add: ask_def split: list.split)

lemma ask_eq:
  assumes "ask s = (b, t)"
  shows "blocks t = blocks s" "next_id t = next_id s" "mutexes t = mutexes s" "conds t = conds s"
    "threads t = threads s" "vm t = vm s" "vm_next t = vm_next s" "open_fds t = open_fds s"
    "next_fd t = next_fd s" "page_size t = page_size s" "file_data t = file_data s"
  using ask_frame [of s] ask_os_frame [of s] assms by simp_all

lemma alloc_os:
  obtains (fail) t where "alloc s = (None, t)" "os_heap_eq s t"
    | (ok) t where "alloc s = (Some (next_id s), t)" "blocks t = insert (next_id s) (blocks s)"
      "mutexes t = mutexes s" "conds t = conds s" "threads t = threads s"
      "next_id t = Suc (next_id s)"
proof (cases "ask s")
  case (Pair b t)
  note t = ask_eq [OF Pair]
  show thesis
  proof (cases b)
    case True
    let ?t = "t\<lparr>next_id := Suc (next_id t), blocks := insert (next_id t) (blocks t)\<rparr>"
    show thesis using True Pair t by (intro ok [of ?t]) (simp_all add: alloc_def)
  next
    case False
    show thesis using False Pair t by (intro fail [of t]) (simp_all add: alloc_def os_heap_eq_def)
  qed
qed

lemma mutex_create_spec:
  assumes "os_ok s"
  shows "\<exists>p t. soundio_os_mutex_create s = Some (p, t) \<and>
     (case p of None \<Rightarrow> os_heap_eq s t
      | Some m \<Rightarrow> m \<notin> blocks s \<and> blocks t = insert m (blocks s) \<and>
          mutexes t = (mutexes s)(m \<mapsto> \<lparr>mutex_id_init = True, mutex_locked = False\<rparr>) \<and>
          conds t = conds s \<and> threads t = threads s)"
proof (cases rule: alloc_os [of s])
  case (fail t)
  then show ?thesis by (simp add: soundio_os_mutex_create_def soundio_os_mutex_destroy_def)
next
  case (ok t)
  let ?m = "next_id s"
  note fresh = os_fresh [OF assms]
  let ?u = "t\<lparr>mutexes := (mutexes t)(?m \<mapsto> \<lparr>mutex_id_init = False, mutex_locked = False\<rparr>)\<rparr>"
  obtain b v where v: "ask ?u = (b, v)" by (cases "ask ?u")
  note v' = ask_eq [OF v]
  show ?thesis
    using ok fresh v v'
    by (cases b) (auto simp: soundio_os_mutex_create_def soundio_os_mutex_destroy_def free_blk_def
        os_heap_eq_def fun_upd_idem)
qed

text \<open>The owner of a lock may unlock it, and gets back the state from before the lock.\<close>

lemma mutex_lock_unlock:
  assumes "mutexes s m = Some mt" and "\<not> mutex_locked mt"
  shows "\<exists>t. soundio_os_mutex_lock (Some m) s = Some t \<and> soundio_os_mutex_lock (Some m) t = None \<and>
     soundio_os_mutex_unlock (Some m) t = Some s"
proof -
  have "mt\<lparr>mutex_locked := False\<rparr> = mt" using assms(2) by simp
  with assms show ?thesis
    by (simp add: soundio_os_mutex_lock_def soundio_os_mutex_unlock_def fun_upd_idem)
qed

text \<open>The state in the middle of a creator: the block and the struct are there, nothing else changed.\<close>

definition cond_held :: "nat \<Rightarrow> 'z os_scheme \<Rightarrow> 'z os_scheme \<Rightarrow> bool" where
  "cond_held c s t \<longleftrightarrow> blocks t = insert c (blocks s) \<and> mutexes t = mutexes s \<and> threads t = threads s \<and>
     (\<exists>x. conds t = (conds s)(c \<mapsto> x))"

lemma cond_held_ask: "cond_held c s t \<Longrightarrow> ask t = (b, u) \<Longrightarrow> cond_held c s u"
  by (auto simp: cond_held_def ask_eq)

lemma cond_held_set: "cond_held c s t \<Longrightarrow> cond_held c s (set_cond c x y z t)"
  by (auto simp: cond_held_def set_cond_def)

lemma cond_held_give_up:
  "cond_held c s t \<Longrightarrow> c \<notin> blocks s \<Longrightarrow> conds s c = None \<Longrightarrow>
   \<exists>u. cond_give_up c t = Some (None, u) \<and> os_heap_eq s u"
  by (auto simp: cond_held_def cond_give_up_def soundio_os_cond_destroy_def free_blk_def os_heap_eq_def
      fun_upd_idem)

lemma cond_create_spec:
  assumes "os_ok s"
  shows "\<exists>p t. soundio_os_cond_create s = Some (p, t) \<and>
     (case p of None \<Rightarrow> os_heap_eq s t
      | Some c \<Rightarrow> c \<notin> blocks s \<and> cond_held c s t \<and>
          conds t c = Some \<lparr>cond_id_init = True, cond_attr_init = True, cond_default_mutex_init = True,
            cond_signals = 0\<rparr>)"
proof (cases rule: alloc_os [of s])
  case (fail t)
  then show ?thesis by (simp add: soundio_os_cond_create_def soundio_os_cond_destroy_def)
next
  case (ok t)
  let ?c = "next_id s"
  note fresh = os_fresh [OF assms]
  have h0: "cond_held ?c s (set_cond ?c False False False t)"
    using ok by (auto simp: cond_held_def set_cond_def)
  obtain b1 t1 where t1: "ask (set_cond ?c False False False t) = (b1, t1)" by fastforce
  note h1 = cond_held_ask [OF h0 t1]
  obtain b2 t2 where t2: "ask (set_cond ?c False True False t1) = (b2, t2)" by fastforce
  note h2 = cond_held_ask [OF cond_held_set [OF h1] t2]
  obtain b3 t3 where t3: "ask t2 = (b3, t3)" by fastforce
  note h3 = cond_held_ask [OF h2 t3]
  obtain b4 t4 where t4: "ask (set_cond ?c True True False t3) = (b4, t4)" by fastforce
  note h4 = cond_held_ask [OF cond_held_set [OF h3] t4]
  note give_up = cond_held_give_up [OF _ fresh(1,3)]
  have eq: "soundio_os_cond_create s =
     (if \<not> b1 then cond_give_up ?c t1 else if \<not> b2 then cond_give_up ?c t2 else
      if \<not> b3 then cond_give_up ?c t3 else if \<not> b4 then cond_give_up ?c t4
      else Some (Some ?c, set_cond ?c True True True t4))"
    by (simp add: soundio_os_cond_create_def ok(1) t1 t2 t3 t4)
  show ?thesis
  proof (cases "b1 \<and> b2 \<and> b3 \<and> b4")
    case True
    with eq show ?thesis
      using fresh(1) cond_held_set [OF h4] by (simp add: set_cond_def)
  next
    case False
    then show ?thesis
      unfolding eq using give_up [OF h1] give_up [OF h2] give_up [OF h3] give_up [OF h4] by auto
  qed
qed

definition thread_held :: "nat \<Rightarrow> 'z os_scheme \<Rightarrow> 'z os_scheme \<Rightarrow> bool" where
  "thread_held c s t \<longleftrightarrow> blocks t = insert c (blocks s) \<and> mutexes t = mutexes s \<and> conds t = conds s \<and>
     (\<exists>x. threads t = (threads s)(c \<mapsto> x))"

lemma thread_held_ask: "thread_held c s t \<Longrightarrow> ask t = (b, u) \<Longrightarrow> thread_held c s u"
  by (auto simp: thread_held_def ask_eq)

lemma thread_held_ask_if: "thread_held c s t \<Longrightarrow> (if g then ask t else (True, t)) = (b, u) \<Longrightarrow> thread_held c s u"
  by (cases g) (auto intro: thread_held_ask)

lemma thread_held_set:
  "thread_held c s t \<Longrightarrow> thread_held c s (t\<lparr>threads := (threads t)(c \<mapsto> x)\<rparr>)"
  "thread_held c s t \<Longrightarrow> thread_held c s (t\<lparr>rtprio_warnings := n\<rparr>)"
  by (auto simp: thread_held_def)

lemma thread_held_give_up:
  "thread_held c s t \<Longrightarrow> c \<notin> blocks s \<Longrightarrow> threads s c = None \<Longrightarrow>
   \<exists>u. thread_give_up c err t = Some (err, None, u) \<and> os_heap_eq s u"
  by (auto simp: thread_held_def thread_give_up_def soundio_os_thread_destroy_def free_blk_def os_heap_eq_def
      fun_upd_idem)

definition thread_result ::
  "thread_fn \<Rightarrow> 'z os_scheme \<Rightarrow> (SoundIoError \<times> nat option \<times> 'z os_scheme) option \<Rightarrow> bool" where
  "thread_result run s r \<longleftrightarrow> (\<exists>err p t. r = Some (err, p, t) \<and>
     (case p of None \<Rightarrow> err \<in> {SoundIoErrorNoMem, SoundIoErrorSystemResources} \<and> os_heap_eq s t
      | Some c \<Rightarrow> err = SoundIoErrorNone \<and> c \<notin> blocks s \<and> thread_held c s t \<and>
          threads t c = Some \<lparr>thread_attr_init = True, thread_running = True, thread_run = run\<rparr>))"

lemma thread_create_spec:
  assumes "os_ok s"
  shows "thread_result run s (soundio_os_thread_create run w s)"
proof (cases rule: alloc_os [of s])
  case (fail t)
  then show ?thesis by (simp add: soundio_os_thread_create_def soundio_os_thread_destroy_def thread_result_def)
next
  case (ok t)
  let ?c = "next_id s"
  let ?thr = "\<lambda>a r. \<lparr>thread_attr_init = a, thread_running = r, thread_run = run\<rparr>"
  let ?set = "\<lambda>t a r. t\<lparr>threads := (threads t)(?c \<mapsto> ?thr a r)\<rparr>"
  note fresh = os_fresh [OF assms]
  have h0: "thread_held ?c s (?set t False False)"
    using ok by (auto simp: thread_held_def)
  obtain b1 t1 where t1: "ask (?set t False False) = (b1, t1)" by fastforce
  note h1 = thread_held_ask [OF h0 t1]
  obtain b2 t2 where t2: "(if w then ask (?set t1 True False) else (True, ?set t1 True False)) = (b2, t2)"
    by fastforce
  note h2 = thread_held_ask_if [OF thread_held_set(1) [OF h1] t2]
  obtain b3 t3 where t3: "(if w then ask t2 else (True, t2)) = (b3, t3)" by fastforce
  note h3 = thread_held_ask_if [OF h2 t3]
  obtain b4 t4 where t4: "(if w then ask t3 else (True, t3)) = (b4, t4)" by fastforce
  note h4 = thread_held_ask_if [OF h3 t4]
  obtain b5 t5 where t5: "ask t4 = (b5, t5)" by fastforce
  note h5 = thread_held_ask [OF h4 t5]
  obtain b6 t6 where t6: "ask t5 = (b6, t6)" by fastforce
  note h6 = thread_held_ask [OF h5 t6]
  let ?t6 = "t6\<lparr>rtprio_warnings := Suc (rtprio_warnings t6)\<rparr>"
  obtain b7 t7 where t7: "ask ?t6 = (b7, t7)" by fastforce
  note h7 = thread_held_ask [OF thread_held_set(2) [OF h6] t7]
  have eq: "soundio_os_thread_create run w s =
     (if \<not> b1 then thread_give_up ?c SoundIoErrorNoMem t1
      else if \<not> b2 then thread_give_up ?c SoundIoErrorSystemResources t2
      else if \<not> b3 then thread_give_up ?c SoundIoErrorSystemResources t3
      else if \<not> b4 then thread_give_up ?c SoundIoErrorSystemResources t4
      else if b5 then Some (SoundIoErrorNone, Some ?c, ?set t5 True True)
      else if b6 \<or> \<not> w then thread_give_up ?c SoundIoErrorNoMem t6
      else if \<not> b7 then thread_give_up ?c SoundIoErrorNoMem t7
      else Some (SoundIoErrorNone, Some ?c, ?set t7 True True))"
    by (simp add: soundio_os_thread_create_def Let_def ok(1) t1 t2 t3 t4 t5 t6 t7 del: if_split)
  have res: "thread_result run s (thread_give_up ?c err u)"
    if "thread_held ?c s u" "err \<in> {SoundIoErrorNoMem, SoundIoErrorSystemResources}" for err u
    using thread_held_give_up [OF that(1) fresh(1,4), of err] that(2) by (auto simp: thread_result_def)
  have res_ok: "thread_result run s (Some (SoundIoErrorNone, Some ?c, ?set u True True))"
    if "thread_held ?c s u" for u
    using thread_held_set(1) [OF that, of "?thr True True"] fresh(1) by (simp add: thread_result_def)
  show ?thesis
    unfolding eq by (simp add: res res_ok h1 h2 h3 h4 h5 h6 h7)
qed

subsection \<open>Lemmas: mirrored memory\<close>

text \<open>The address space above \<open>vm_next\<close> is unused, and descriptors are below \<open>next_fd\<close>.\<close>

definition vm_ok :: "'z os_scheme \<Rightarrow> bool" where
  "vm_ok s \<longleftrightarrow> 0 < vm_next s \<and> (\<forall>x \<ge> vm_next s. vm s x = Unmapped) \<and> (\<forall>f \<in> open_fds s. f < next_fd s)"

text \<open>The requested size rounded up to whole pages.\<close>

definition mirror_capacity :: "nat \<Rightarrow> nat \<Rightarrow> nat" where
  "mirror_capacity page n = (n + page - 1) div page * page"

text \<open>
  The two halves of the region show the same bytes of one file, which are zero, the rest
  of the address space is what it was.
\<close>

definition mirrored :: "nat \<Rightarrow> nat \<Rightarrow> 'z os_scheme \<Rightarrow> bool" where
  "mirrored a cap s \<longleftrightarrow>
     (\<exists>f. \<forall>i < cap. vm s (a + i) = Mapped f i \<and> vm s (a + cap + i) = Mapped f i)"

lemma mirror_capacity_bounds:
  assumes "0 < page"
  shows "n \<le> mirror_capacity page n" "mirror_capacity page n < n + page" "page dvd mirror_capacity page n"
proof -
  let ?q = "n + page - 1"
  have "mirror_capacity page n + ?q mod page = ?q"
    by (simp add: mirror_capacity_def)
  moreover have "?q mod page < page" using assms by simp
  ultimately show "n \<le> mirror_capacity page n" "mirror_capacity page n < n + page"
    using assms by linarith+
qed (simp add: mirror_capacity_def)

lemma ceil_dbl_to_size_t_eq:
  assumes "0 \<le> x" and "x < 2 ^ 63"
  shows "ceil_dbl_to_size_t x = Some (nat \<lceil>x\<rceil>)"
proof -
  have f: "0 \<le> \<lfloor>x\<rfloor>" "\<lfloor>x\<rfloor> < 2 ^ 63" using assms by (simp_all add: floor_less_iff)
  have c: "real_of_int \<lfloor>x\<rfloor> + (if real_of_int \<lfloor>x\<rfloor> < x then 1 else 0) = real_of_int \<lceil>x\<rceil>"
    by (simp add: ceiling_altdef) linarith
  have "\<lceil>x\<rceil> \<le> 2 ^ 63" using assms by (simp add: ceiling_le_iff)
  then have "\<lceil>x\<rceil> < 2 ^ 64" by simp
  then have "real_of_int \<lceil>x\<rceil> < real_of_int (2 ^ 64)" by (simp only: of_int_less_iff)
  then have "real_of_int \<lceil>x\<rceil> < 2 ^ 64" by simp
  with f c assms show ?thesis
    by (simp add: ceil_dbl_to_size_t_def dbl_trunc_nonneg)
qed

lemma mirror_capacity_eq:
  assumes "0 < page"
  shows "nat \<lceil>real n / real page\<rceil> * page = mirror_capacity page n"
proof -
  let ?q = "(n + page - 1) div page"
  have "n \<le> ?q * page" "?q * page < n + page"
    using mirror_capacity_bounds [OF assms, of n] by (simp_all add: mirror_capacity_def)
  then have "real n \<le> real ?q * real page" "real ?q * real page < real n + real page"
    by (metis of_nat_le_iff of_nat_mult, metis of_nat_less_iff of_nat_mult of_nat_add)
  then have "real n / real page \<le> real ?q" "real ?q - 1 < real n / real page"
    using assms by (simp_all add: field_simps)
  then have "\<lceil>real n / real page\<rceil> = int ?q"
    by (simp add: ceiling_unique)
  then show ?thesis by (simp add: mirror_capacity_def)
qed

lemma mkstemp_eq:
  assumes "mkstemp s = (r, t)"
  shows "vm t = vm s" "vm_next t = vm_next s" "next_fd s \<le> next_fd t"
    "open_fds t = open_fds s \<union> set_option r" "\<And>f. r = Some f \<Longrightarrow> f = next_fd s"
  using assms ask_eq [of s] by (auto simp: mkstemp_def split: prod.splits if_splits)

lemma mmap_anon_eq:
  assumes "mmap_anon n s = (r, t)"
  shows "open_fds t = open_fds s"
    "r = None \<Longrightarrow> vm t = vm s"
    "r = Some a \<Longrightarrow> a = vm_next s \<and> 0 < n \<and> vm t = (\<lambda>x. if a \<le> x \<and> x < a + n then Reserved else vm s x)"
  using assms ask_eq [of s] by (auto simp: mmap_anon_def vm_set_def split: prod.splits if_splits)

lemma mmap_fixed_eq:
  assumes "mmap_fixed b n fd s = (r, t)"
  shows "open_fds t = open_fds s"
    "r = None \<Longrightarrow> vm t = vm s"
    "r \<noteq> None \<Longrightarrow> r = Some b \<and> vm t = (\<lambda>x. if b \<le> x \<and> x < b + n then Mapped fd (x - b) else vm s x)"
  using assms ask_eq [of s] by (auto simp: mmap_fixed_def vm_set_def split: prod.splits if_splits)

lemma munmap_eq:
  assumes "munmap a n s = (r, t)"
  shows "open_fds t = open_fds s" "0 < n \<Longrightarrow> r \<and> vm t = (\<lambda>x. if a \<le> x \<and> x < a + n then Unmapped else vm s x)"
  using assms by (auto simp: munmap_def vm_set_def split: if_splits)

lemma close_fd_eq:
  assumes "close_fd fd s = (r, t)"
  shows "open_fds t = open_fds s - {fd}" "vm t = vm s"
  using assms ask_eq [of s] by (auto simp: close_fd_def split: prod.splits)

text \<open>
  What a call gives: the mirrored region, or an error with everything given back, or, when
  only the final \<open>close\<close> failed, an error with the region still mapped.
\<close>

definition mirror_result ::
  "SoundIoOsMirroredMemory \<Rightarrow> nat \<Rightarrow> 'z os_scheme \<Rightarrow>
   (SoundIoError \<times> SoundIoOsMirroredMemory \<times> 'z os_scheme) option \<Rightarrow> bool" where
  "mirror_result m cap s r \<longleftrightarrow> (\<exists>err m' t. r = Some (err, m', t) \<and> open_fds t = open_fds s \<and>
     (if err = SoundIoErrorNone then
        m' = \<lparr>mm_capacity = cap, mm_address = vm_next s\<rparr> \<and> mirrored (vm_next s) cap t \<and>
        (\<forall>x. x < vm_next s \<or> vm_next s + 2 * cap \<le> x \<longrightarrow> vm t x = vm s x)
      else
        err \<in> {SoundIoErrorNoMem, SoundIoErrorSystemResources} \<and>
        (m' = m \<and> vm t = vm s \<or> m' = m\<lparr>mm_address := vm_next s\<rparr> \<and> err = SoundIoErrorSystemResources)))"

lemma mirror_result_fail:
  assumes "vm t = vm s" and "open_fds t - {fd} = open_fds s"
    and "err \<in> {SoundIoErrorNoMem, SoundIoErrorSystemResources}"
  shows "mirror_result m cap s (close_and_fail fd err m t)"
proof -
  obtain b u where u: "close_fd fd t = (b, u)" by fastforce
  show ?thesis using assms close_fd_eq [OF u]
    by (auto simp: mirror_result_def close_and_fail_def u)
qed

lemma mirror_result_unmap:
  assumes "munmap (vm_next s) (2 * cap) t = (b, u)" and "0 < cap"
    and "\<And>x. x < vm_next s \<or> vm_next s + 2 * cap \<le> x \<Longrightarrow> vm t x = vm s x"
    and "vm_ok s" and "open_fds t - {fd} = open_fds s"
  shows "mirror_result m cap s (close_and_fail fd SoundIoErrorNoMem m u)"
proof (rule mirror_result_fail)
  show "vm u = vm s"
    using assms(2,3,4) munmap_eq [OF assms(1)] by (fastforce simp: vm_ok_def)
  show "open_fds u - {fd} = open_fds s"
    using munmap_eq [OF assms(1)] assms(5) by simp
qed simp

lemma init_mirrored_memory_spec:
  assumes "vm_ok s" and page: "page_size s = int page" "0 < page"
    and n: "0 < n" "n + page \<le> 2 ^ 62"
  shows "mirror_result m (mirror_capacity page n) s (soundio_os_init_mirrored_memory m n s)"
proof -
  define cap where "cap = mirror_capacity page n"
  define a where "a = vm_next s"
  have cap: "0 < cap" "cap < 2 ^ 62"
    using mirror_capacity_bounds [OF page(2), of n] n by (simp_all add: cap_def)
  have "real n / real page \<le> real n / 1"
    using page(2) by (intro divide_left_mono) auto
  also have "\<dots> < 2 ^ 63" using n(2) by simp
  finally have ceil: "ceil_dbl_to_size_t (real n / real page) = Some (nat \<lceil>real n / real page\<rceil>)"
    by (intro ceil_dbl_to_size_t_eq) simp_all
  have pages: "nat \<lceil>real n / real page\<rceil> * page = cap"
    using mirror_capacity_eq [OF page(2)] by (simp add: cap_def)
  obtain r1 s1 where s1: "mkstemp s = (r1, s1)" by fastforce
  obtain r2 s2 where s2: "(if r1 = None then mkstemp s1 else (r1, s1)) = (r2, s2)" by fastforce
  have fd: "vm s2 = vm s" "vm_next s2 = a" "open_fds s2 - set_option r2 = open_fds s"
    using mkstemp_eq [OF s1] mkstemp_eq [of s1 r2 s2] s2 assms(1)
    by (auto simp: vm_ok_def a_def split: if_splits)
  show ?thesis
  proof (cases r2)
    case None
    then have "open_fds s2 = open_fds s" using fd by simp
    with None s1 s2 fd ceil show ?thesis
      by (simp add: soundio_os_init_mirrored_memory_def page mirror_result_def)
  next
    case (Some fd')
    obtain b3 s3 where s3: "ask s2 = (b3, s3)" by fastforce
    obtain b4 s4 where s4: "ask s3 = (b4, s4)" by fastforce
    obtain r5 s5 where s5: "mmap_anon (2 * cap) s4 = (r5, s5)" by fastforce
    obtain r6 s6 where s6: "mmap_fixed a cap fd' s5 = (r6, s6)" by fastforce
    obtain r7 s7 where s7: "mmap_fixed (a + cap) cap fd' s6 = (r7, s7)" by fastforce
    obtain b8 s8 where s8: "munmap a (2 * cap) s6 = (b8, s8)" by fastforce
    obtain b9 s9 where s9: "munmap a (2 * cap) s7 = (b9, s9)" by fastforce
    obtain b10 s10 where s10: "close_fd fd' s7 = (b10, s10)" by fastforce
    note e = ask_eq [OF s3] ask_eq [OF s4] mmap_anon_eq [OF s5] mmap_fixed_eq [OF s6] mmap_fixed_eq [OF s7]
    have r5: "r5 = None \<or> r5 = Some a" using e fd by (cases r5) auto
    have fds: "open_fds s3 - {fd'} = open_fds s" "open_fds s4 - {fd'} = open_fds s"
      "open_fds s5 - {fd'} = open_fds s" "open_fds s6 - {fd'} = open_fds s" "open_fds s7 - {fd'} = open_fds s"
      using e fd Some by simp_all
    have vm: "vm s3 = vm s" "vm s4 = vm s" "r5 = None \<Longrightarrow> vm s5 = vm s"
      using e fd by simp_all
    have vm5: "vm s5 = (\<lambda>x. if a \<le> x \<and> x < a + 2 * cap then Reserved else vm s x)" if "r5 = Some a"
      using mmap_anon_eq(3) [OF s5 that] unfolding vm(2) by blast
    have vm6: "vm s6 = vm s5 \<or> r6 = Some a \<and> vm s6 = (\<lambda>x. if a \<le> x \<and> x < a + cap then Mapped fd' (x - a) else vm s5 x)"
      using mmap_fixed_eq(2,3) [OF s6] by blast
    have vm7: "vm s7 = vm s6 \<or> r7 = Some (a + cap) \<and>
        vm s7 = (\<lambda>x. if a + cap \<le> x \<and> x < a + cap + cap then Mapped fd' (x - (a + cap)) else vm s6 x)"
      using mmap_fixed_eq(2,3) [OF s7] by blast
    have out: "vm s6 x = vm s x" "vm s7 x = vm s x"
      if "r5 = Some a" "x < a \<or> a + 2 * cap \<le> x" for x
      using vm5 [OF that(1)] vm6 vm7 that(2) by auto
    have all: "soundio_os_init_mirrored_memory m n s =
      (if \<not> b3 then close_and_fail fd' SoundIoErrorSystemResources m s3
       else if \<not> b4 then close_and_fail fd' SoundIoErrorSystemResources m s4
       else if r5 = None then close_and_fail fd' SoundIoErrorNoMem m s5
       else if r6 \<noteq> Some a then close_and_fail fd' SoundIoErrorNoMem m s8
       else if r7 \<noteq> Some (a + cap) then close_and_fail fd' SoundIoErrorNoMem m s9
       else if \<not> b10 then Some (SoundIoErrorSystemResources, m\<lparr>mm_address := a\<rparr>, s10)
       else Some (SoundIoErrorNone, m\<lparr>mm_address := a, mm_capacity := cap\<rparr>, s10))"
      using r5 cap
      by (auto simp: soundio_os_init_mirrored_memory_def page ceil pages s1 s2 Some s3 s4 s5 s6 s7 s8 s9 s10
          mult.commute [of cap 2] Let_def split del: if_split cong: if_cong)
    have fail: "mirror_result m cap s (close_and_fail fd' err m u)"
      if "vm u = vm s" "open_fds u - {fd'} = open_fds s" "err \<in> {SoundIoErrorNoMem, SoundIoErrorSystemResources}"
      for err u using mirror_result_fail [OF that] .
    have unmap: "mirror_result m cap s (close_and_fail fd' SoundIoErrorNoMem m s8)"
      "mirror_result m cap s (close_and_fail fd' SoundIoErrorNoMem m s9)" if "r5 = Some a"
      using mirror_result_unmap [OF s8 [unfolded a_def] cap(1) _ assms(1) fds(4), of m]
        mirror_result_unmap [OF s9 [unfolded a_def] cap(1) _ assms(1) fds(5), of m] out [OF that]
      by (simp_all add: a_def)
    have ok: "mirrored a cap s10 \<and> (\<forall>x. x < a \<or> a + 2 * cap \<le> x \<longrightarrow> vm s10 x = vm s x)"
      if "r5 = Some a" "r6 = Some a" "r7 = Some (a + cap)"
    proof -
      have "vm s6 = (\<lambda>x. if a \<le> x \<and> x < a + cap then Mapped fd' (x - a) else vm s5 x)"
        "vm s7 = (\<lambda>x. if a + cap \<le> x \<and> x < a + cap + cap then Mapped fd' (x - (a + cap)) else vm s6 x)"
        using mmap_fixed_eq(3) [OF s6] mmap_fixed_eq(3) [OF s7] that by simp_all
      then have "mirrored a cap s7" by (auto simp: mirrored_def)
      then show ?thesis using out(2) [OF that(1)] close_fd_eq [OF s10] by (simp add: mirrored_def)
    qed
    have fin: "mirror_result m cap s (Some (SoundIoErrorSystemResources, m\<lparr>mm_address := a\<rparr>, s10))"
      using close_fd_eq [OF s10] fds by (simp add: mirror_result_def a_def)
    have succ: "mirror_result m cap s (Some (SoundIoErrorNone, m\<lparr>mm_address := a, mm_capacity := cap\<rparr>, s10))"
      if "r5 = Some a" "r6 = Some a" "r7 = Some (a + cap)"
      using close_fd_eq [OF s10] fds ok [OF that] by (simp add: mirror_result_def a_def)
    show ?thesis
      unfolding all cap_def [symmetric]
      using r5 unmap fin succ by (auto simp: fail vm fds)
  qed
qed

lemma deinit_mirrored_memory_spec:
  assumes "mm_address m \<noteq> 0" and "0 < mm_capacity m"
  shows "\<exists>t. soundio_os_deinit_mirrored_memory m s = Some (m\<lparr>mm_address := 0\<rparr>, t) \<and>
     open_fds t = open_fds s \<and>
     vm t = (\<lambda>x. if mm_address m \<le> x \<and> x < mm_address m + 2 * mm_capacity m then Unmapped else vm s x)"
proof -
  obtain b t where t: "munmap (mm_address m) (2 * mm_capacity m) s = (b, t)" by fastforce
  show ?thesis using assms munmap_eq [OF t] by (simp add: soundio_os_deinit_mirrored_memory_def t)
qed

text \<open>A store through one half is seen through the other, and changes no other byte.\<close>

lemma mirrored_store:
  assumes "mirrored a cap s" and "i < cap" and "p = a + i \<or> p = a + cap + i"
  shows "\<exists>t. store_byte p b s = Some t \<and> mirrored a cap t \<and> vm t = vm s \<and>
     load_byte (a + i) t = Some b \<and> load_byte (a + cap + i) t = Some b \<and>
     (\<forall>j < cap. j \<noteq> i \<longrightarrow> load_byte (a + j) t = load_byte (a + j) s)"
proof -
  from assms(1) obtain f where f: "\<And>i. i < cap \<Longrightarrow> vm s (a + i) = Mapped f i \<and> vm s (a + cap + i) = Mapped f i"
    unfolding mirrored_def by blast
  let ?t = "s\<lparr>file_data := (file_data s)(f := (file_data s f)(i := b))\<rparr>"
  have "store_byte p b s = Some ?t"
    using assms(3) f [OF assms(2)] by (auto simp: store_byte_def)
  moreover have "mirrored a cap ?t" using assms(1) by (simp add: mirrored_def)
  ultimately show ?thesis using f assms(2) by (auto simp: load_byte_def)
qed

subsection \<open>Properties\<close>

text \<open>The state of a process that has called \<open>soundio_os_init\<close> on a machine with 4096-byte pages.\<close>

definition os_start :: "bool list \<Rightarrow> os" where
  "os_start ans =
     \<lparr>answers = ans, next_id = 0, blocks = {}, mutexes = (\<lambda>_. None), conds = (\<lambda>_. None), threads = (\<lambda>_. None),
      rtprio_warnings = 0, initialized = True, init_mutex_locked = False, page_size = 4096,
      sysconf_pagesize = 4096, open_fds = {}, next_fd = 3, vm = (\<lambda>_. Unmapped), vm_next = 65536,
      file_data = (\<lambda>_ _. 0)\<rparr>"

lemma os_start_ok [simp]: "vm_ok (os_start ans)" "os_ok (os_start ans)" "page_size (os_start ans) = 4096"
  by (simp_all add: os_start_def vm_ok_def os_ok_def mem_ok_def)

text \<open>C35. \<open>soundio_os_init_mirrored_memory\<close> always returns. When it succeeds the capacity is the
  requested size rounded up to whole pages, the address is not NULL, byte \<open>i\<close> and byte
  \<open>capacity + i\<close> of the region are the same byte of one file for every \<open>i\<close> below the
  capacity, and the descriptor of the temporary file is closed.\<close>

theorem init_mirrored_memory_mirrors:
  assumes "vm_ok s" and "page_size s = int page" and "0 < page" and "0 < n" and "n + page \<le> 2 ^ 62"
  shows "\<exists>err m' t. soundio_os_init_mirrored_memory m n s = Some (err, m', t) \<and> open_fds t = open_fds s \<and>
     (err = SoundIoErrorNone \<longrightarrow>
        mm_capacity m' = mirror_capacity page n \<and> n \<le> mm_capacity m' \<and> mm_capacity m' < n + page \<and>
        page dvd mm_capacity m' \<and> mm_address m' \<noteq> 0 \<and>
        (\<exists>f. \<forall>i < mm_capacity m'. vm t (mm_address m' + i) = Mapped f i \<and>
           vm t (mm_address m' + mm_capacity m' + i) = Mapped f i))"
proof -
  note r = init_mirrored_memory_spec [OF assms, of m, unfolded mirror_result_def mirrored_def]
  from r obtain err m' t where
    "soundio_os_init_mirrored_memory m n s = Some (err, m', t)" "open_fds t = open_fds s"
    "err = SoundIoErrorNone \<Longrightarrow> m' = \<lparr>mm_capacity = mirror_capacity page n, mm_address = vm_next s\<rparr> \<and>
       (\<exists>f. \<forall>i < mirror_capacity page n. vm t (vm_next s + i) = Mapped f i \<and>
         vm t (vm_next s + mirror_capacity page n + i) = Mapped f i)"
    by (metis (mono_tags, lifting))
  then show ?thesis
    using mirror_capacity_bounds [OF assms(3), of n] assms(1) by (auto simp: vm_ok_def)
qed

theorem init_mirrored_memory_mirrors_witness:
  "\<exists>err m' t. soundio_os_init_mirrored_memory \<lparr>mm_capacity = 0, mm_address = 0\<rparr> 5000 (os_start [True]) = Some (err, m', t) \<and>
     open_fds t = open_fds (os_start [True]) \<and>
     (err = SoundIoErrorNone \<longrightarrow> mm_capacity m' = mirror_capacity 4096 5000 \<and> mm_address m' \<noteq> 0)"
  using init_mirrored_memory_mirrors [of "os_start [True]" 4096 5000 "\<lparr>mm_capacity = 0, mm_address = 0\<rparr>"]
  by auto

text \<open>When \<open>soundio_os_init_mirrored_memory\<close> returns an error, the open descriptors are
  those of before, and either nothing was changed, neither in the address space nor in the
  struct, or the final \<open>close\<close> failed, the address is set and the region is still mapped.\<close>

theorem init_mirrored_memory_failure:
  assumes "vm_ok s" and "page_size s = int page" and "0 < page" and "0 < n" and "n + page \<le> 2 ^ 62"
    and "soundio_os_init_mirrored_memory m n s = Some (err, m', t)" and "err \<noteq> SoundIoErrorNone"
  shows "err \<in> {SoundIoErrorNoMem, SoundIoErrorSystemResources} \<and> open_fds t = open_fds s \<and>
     (m' = m \<and> vm t = vm s \<or>
      m' = m\<lparr>mm_address := vm_next s\<rparr> \<and> err = SoundIoErrorSystemResources)"
  using init_mirrored_memory_spec [OF assms(1-5), of m] assms(6,7)
  by (auto simp: mirror_result_def)

lemma mirror_failure_run:
  "\<exists>t. soundio_os_init_mirrored_memory m 5000 (os_start [False, False]) = Some (SoundIoErrorSystemResources, m, t)"
proof -
  have "ceil_dbl_to_size_t (real 5000 / real_of_int 4096) = Some (nat \<lceil>real 5000 / real_of_int 4096\<rceil>)"
    by (rule ceil_dbl_to_size_t_eq) simp_all
  then show ?thesis
    by (simp add: soundio_os_init_mirrored_memory_def mkstemp_def ask_def os_start_def)
qed

theorem init_mirrored_memory_failure_witness:
  "\<exists>t. open_fds t = open_fds (os_start [False, False]) \<and>
     soundio_os_init_mirrored_memory \<lparr>mm_capacity = 0, mm_address = 0\<rparr> 5000 (os_start [False, False]) =
       Some (SoundIoErrorSystemResources, \<lparr>mm_capacity = 0, mm_address = 0\<rparr>, t)"
  using mirror_failure_run [of "\<lparr>mm_capacity = 0, mm_address = 0\<rparr>"]
    init_mirrored_memory_failure [of "os_start [False, False]" 4096 5000 "\<lparr>mm_capacity = 0, mm_address = 0\<rparr>"
      SoundIoErrorSystemResources "\<lparr>mm_capacity = 0, mm_address = 0\<rparr>"]
  by auto

text \<open>Releasing a region that was just mapped succeeds, clears the address and restores the
  address space and the open descriptors of before the mapping.\<close>

theorem mirrored_memory_roundtrip:
  assumes "vm_ok s" and "page_size s = int page" and "0 < page" and "0 < n" and "n + page \<le> 2 ^ 62"
    and "soundio_os_init_mirrored_memory m n s = Some (SoundIoErrorNone, m', t)"
  shows "\<exists>u. soundio_os_deinit_mirrored_memory m' t = Some (m'\<lparr>mm_address := 0\<rparr>, u) \<and>
     vm u = vm s \<and> open_fds u = open_fds s"
proof -
  have m': "m' = \<lparr>mm_capacity = mirror_capacity page n, mm_address = vm_next s\<rparr>" "open_fds t = open_fds s"
    and out: "\<And>x. x < vm_next s \<or> vm_next s + 2 * mirror_capacity page n \<le> x \<Longrightarrow> vm t x = vm s x"
    using init_mirrored_memory_spec [OF assms(1-5), of m] assms(6) by (auto simp: mirror_result_def)
  have "0 < mirror_capacity page n" using mirror_capacity_bounds(1) [OF assms(3), of n] assms(4) by simp
  then obtain u where u: "soundio_os_deinit_mirrored_memory m' t = Some (m'\<lparr>mm_address := 0\<rparr>, u)"
      "open_fds u = open_fds t"
      "vm u = (\<lambda>x. if vm_next s \<le> x \<and> x < vm_next s + 2 * mirror_capacity page n then Unmapped else vm t x)"
    using deinit_mirrored_memory_spec [of m' t] assms(1) m' by (auto simp: vm_ok_def)
  have "vm u = vm s"
    using u(3) out assms(1) by (fastforce simp: vm_ok_def)
  with u m' show ?thesis by blast
qed

lemma ceil_5000: "ceil_dbl_to_size_t (real 5000 / real_of_int 4096) = Some 2"
proof -
  have "ceil_dbl_to_size_t (real 5000 / real_of_int 4096) = Some (nat \<lceil>real 5000 / real_of_int 4096\<rceil>)"
    by (rule ceil_dbl_to_size_t_eq) simp_all
  moreover have "\<lceil>real 5000 / real_of_int 4096\<rceil> = 2" by (rule ceiling_unique) simp_all
  ultimately show ?thesis by simp
qed

lemma mirror_success_run:
  "soundio_os_init_mirrored_memory \<lparr>mm_capacity = 0, mm_address = 0\<rparr> 5000 (os_start []) =
     Some (SoundIoErrorNone, \<lparr>mm_capacity = 8192, mm_address = 65536\<rparr>,
       snd (snd (the (soundio_os_init_mirrored_memory \<lparr>mm_capacity = 0, mm_address = 0\<rparr> 5000 (os_start [])))))"
  using ceil_5000
  by (simp add: soundio_os_init_mirrored_memory_def mkstemp_def ask_def os_start_def mmap_anon_def
      mmap_fixed_def close_fd_def vm_set_def)

theorem mirrored_memory_roundtrip_witness:
  "\<exists>t u. soundio_os_init_mirrored_memory \<lparr>mm_capacity = 0, mm_address = 0\<rparr> 5000 (os_start []) =
       Some (SoundIoErrorNone, \<lparr>mm_capacity = 8192, mm_address = 65536\<rparr>, t) \<and>
     soundio_os_deinit_mirrored_memory \<lparr>mm_capacity = 8192, mm_address = 65536\<rparr> t =
       Some (\<lparr>mm_capacity = 8192, mm_address = 0\<rparr>, u) \<and> vm u = vm (os_start [])"
proof -
  obtain t where t: "soundio_os_init_mirrored_memory \<lparr>mm_capacity = 0, mm_address = 0\<rparr> 5000 (os_start []) =
      Some (SoundIoErrorNone, \<lparr>mm_capacity = 8192, mm_address = 65536\<rparr>, t)"
    using mirror_success_run by blast
  from mirrored_memory_roundtrip [OF _ _ _ _ _ t, of 4096] t show ?thesis by auto
qed

text \<open>When the last system call, \<open>close\<close>, fails, the error leaves the address set and the
  capacity unset, so that the release the caller then performs on the error path unmaps
  nothing: \<open>munmap\<close> of length 0 fails and the assertion on it aborts the program.\<close>

theorem mirrored_memory_close_failure_aborts:
  "\<exists>m t. soundio_os_init_mirrored_memory \<lparr>mm_capacity = 0, mm_address = 0\<rparr> 5000
        (os_start [True, True, True, True, True, True, False]) = Some (SoundIoErrorSystemResources, m, t) \<and>
     mm_address m = 65536 \<and> soundio_os_deinit_mirrored_memory m t = None"
  using ceil_5000
  by (simp add: soundio_os_init_mirrored_memory_def mkstemp_def ask_def os_start_def mmap_anon_def
      mmap_fixed_def close_fd_def vm_set_def soundio_os_deinit_mirrored_memory_def munmap_def)

text \<open>\<open>soundio_os_thread_create\<close> always returns. Either it reports \<open>SoundIoErrorNone\<close> and the
  new thread runs the given function in a block of its own, or it reports an error, the
  handle is NULL and every block and struct is as before.\<close>

theorem thread_create_all_or_nothing:
  assumes "os_ok s"
  shows "\<exists>err p t. soundio_os_thread_create run warn s = Some (err, p, t) \<and>
     (err = SoundIoErrorNone \<longleftrightarrow> p \<noteq> None) \<and>
     (case p of None \<Rightarrow> blocks t = blocks s \<and> threads t = threads s \<and> mutexes t = mutexes s \<and> conds t = conds s
      | Some c \<Rightarrow> blocks t = insert c (blocks s) \<and> c \<notin> blocks s \<and>
          threads t = (threads s)(c \<mapsto> \<lparr>thread_attr_init = True, thread_running = True, thread_run = run\<rparr>))"
proof -
  obtain err p t where t: "soundio_os_thread_create run warn s = Some (err, p, t)"
    and p: "case p of None \<Rightarrow> err \<in> {SoundIoErrorNoMem, SoundIoErrorSystemResources} \<and> os_heap_eq s t
      | Some c \<Rightarrow> err = SoundIoErrorNone \<and> c \<notin> blocks s \<and> thread_held c s t \<and>
          threads t c = Some \<lparr>thread_attr_init = True, thread_running = True, thread_run = run\<rparr>"
    using thread_create_spec [OF assms, of run warn] unfolding thread_result_def by blast
  show ?thesis
  proof (cases p)
    case None
    with t p show ?thesis by (auto simp: os_heap_eq_def)
  next
    case (Some c)
    with p obtain x where "threads t = (threads s)(c \<mapsto> x)" by (auto simp: thread_held_def)
    with Some t p show ?thesis by (auto simp: thread_held_def)
  qed
qed

theorem thread_create_all_or_nothing_witness:
  "\<exists>err p t. soundio_os_thread_create playback_thread_run True (os_start [True, True, True, False]) = Some (err, p, t) \<and>
     (err = SoundIoErrorNone \<longleftrightarrow> p \<noteq> None)"
  using thread_create_all_or_nothing [of "os_start [True, True, True, False]" playback_thread_run True] by auto

text \<open>For a wait of non-negative length the deadline that \<open>soundio_os_cond_timed_wait\<close>
  computes is normalised (nanoseconds from 0 to 999999999) and lies at the clock's time
  plus the length of the wait, cut to whole nanoseconds.\<close>

theorem timed_wait_deadline_correct:
  assumes "0 \<le> tv_nsec" and "0 \<le> seconds"
  shows "\<exists>sec nsec. timed_wait_deadline (tv_sec, tv_nsec) seconds = Some (sec, nsec) \<and>
     0 \<le> nsec \<and> nsec < 1000000000 \<and>
     sec * 1000000000 + nsec = tv_sec * 1000000000 + \<lfloor>real_of_int tv_nsec + seconds * 1000000000\<rfloor>"
proof -
  define n where "n = \<lfloor>real_of_int tv_nsec + seconds * 1000000000\<rfloor>"
  have n: "dbl_trunc (real_of_int tv_nsec + seconds * 1000000000) = n" "0 \<le> n"
    using assms unfolding n_def by (simp_all add: dbl_trunc_nonneg)
  then have "timed_wait_deadline (tv_sec, tv_nsec) seconds =
      Some (tv_sec + n div 1000000000, n - 1000000000 * (n div 1000000000))"
    by (simp add: timed_wait_deadline_def c_div_pos Let_def)
  then show ?thesis
    unfolding n_def [symmetric] by (simp add: minus_mult_div_eq_mod algebra_simps)
qed

theorem timed_wait_deadline_correct_witness:
  "\<exists>sec nsec. timed_wait_deadline (7, 900000000) (1 / 2) = Some (sec, nsec) \<and> nsec < 1000000000 \<and>
     sec * 1000000000 + nsec = 7 * 1000000000 + 1400000000"
  using timed_wait_deadline_correct [of 900000000 "1 / 2" 7] by simp blast

end
