(* ===== verification/RingBuffer.thy ===== *)
theory RingBuffer
  imports Os
begin

section \<open>src/ring_buffer.c: the single-producer, single-consumer ring buffer\<close>

text \<open>
  The ring buffer over mirrored memory. The offsets are \<open>unsigned long\<close>: words of a width
  \<open>'l\<close> that is a parameter of the model (64 on most systems, 32 on Windows). They grow
  without bound and wrap around; positions are taken modulo the capacity and the fill count
  is their difference. The theory proves that the buffer is a FIFO queue of bytes (through
  the locale \<open>byte_fifo\<close>), and that its assertions hold in every interleaving of one writer
  and one reader (an \<open>inductive\<close> step relation over the loads and stores of both).
\<close>

record 'offset SoundIoRingBuffer =
  rb_mem :: SoundIoOsMirroredMemory
  write_offset :: 'offset
  read_offset :: 'offset
  rb_capacity :: int

definition ring_zero :: "('l::len) word SoundIoRingBuffer" where
  "ring_zero = \<lparr>rb_mem = \<lparr>mm_capacity = 0, mm_address = 0\<rparr>, write_offset = 0, read_offset = 0, rb_capacity = 0\<rparr>"

subsection \<open>The operations\<close>

definition soundio_ring_buffer_init ::
  "('l::len) word SoundIoRingBuffer \<Rightarrow> int \<Rightarrow> 'z os_scheme \<Rightarrow>
   (SoundIoError \<times> 'l word SoundIoRingBuffer \<times> 'z os_scheme) option" where
  "soundio_ring_buffer_init rb requested_capacity s = do {
     (err, m, s) \<leftarrow> soundio_os_init_mirrored_memory (rb_mem rb) (to_size_t requested_capacity) s;
     let rb = rb\<lparr>rb_mem := m\<rparr>;
     if err \<noteq> SoundIoErrorNone then Some (err, rb, s)
     else Some (SoundIoErrorNone,
       rb\<lparr>write_offset := 0, read_offset := 0, rb_capacity := to_int32 (int (mm_capacity m))\<rparr>, s)
   }"

definition soundio_ring_buffer_deinit ::
  "('l::len) word SoundIoRingBuffer \<Rightarrow> 'z os_scheme \<Rightarrow> ('l word SoundIoRingBuffer \<times> 'z os_scheme) option" where
  "soundio_ring_buffer_deinit rb s = do {
     (m, s) \<leftarrow> soundio_os_deinit_mirrored_memory (rb_mem rb) s;
     Some (rb\<lparr>rb_mem := m\<rparr>, s)
   }"

definition soundio_ring_buffer_destroy ::
  "(nat \<times> ('l::len) word SoundIoRingBuffer) option \<Rightarrow> 'z os_scheme \<Rightarrow> 'z os_scheme option" where
  "soundio_ring_buffer_destroy p s =
     (case p of None \<Rightarrow> Some s
      | Some (b, rb) \<Rightarrow> do { (_, s) \<leftarrow> soundio_ring_buffer_deinit rb s; free_blk (Some b) s })"

definition soundio_ring_buffer_create ::
  "int \<Rightarrow> 'z os_scheme \<Rightarrow> ((nat \<times> ('l::len) word SoundIoRingBuffer) option \<times> 'z os_scheme) option" where
  "soundio_ring_buffer_create requested_capacity s = do {
     let (p, s) = alloc s;
     c_assert (requested_capacity > 0);
     case p of
       None \<Rightarrow> do {
         s \<leftarrow> soundio_ring_buffer_destroy (None :: (nat \<times> 'l word SoundIoRingBuffer) option) s;
         Some (None, s)
       }
     | Some b \<Rightarrow> do {
         (err, rb, s) \<leftarrow> soundio_ring_buffer_init (ring_zero :: 'l word SoundIoRingBuffer) requested_capacity s;
         if err \<noteq> SoundIoErrorNone then do { s \<leftarrow> soundio_ring_buffer_destroy (Some (b, rb)) s; Some (None, s) }
         else Some (Some (b, rb), s)
       }
   }"

definition soundio_ring_buffer_capacity :: "('l::len) word SoundIoRingBuffer \<Rightarrow> int" where
  "soundio_ring_buffer_capacity rb = rb_capacity rb"

text \<open>The capacity is converted to \<open>unsigned long\<close> for the modulo; modulo 0 is undefined.\<close>

definition ring_position :: "('l::len) word \<Rightarrow> ('l::len) word SoundIoRingBuffer \<Rightarrow> nat option" where
  "ring_position offset rb = do {
     c_assert ((word_of_int (rb_capacity rb) :: 'l word) \<noteq> 0);
     Some (unat (offset mod word_of_int (rb_capacity rb)))
   }"

definition soundio_ring_buffer_write_ptr :: "('l::len) word SoundIoRingBuffer \<Rightarrow> nat option" where
  "soundio_ring_buffer_write_ptr rb = do {
     i \<leftarrow> ring_position (write_offset rb) rb;
     Some (mm_address (rb_mem rb) + i)
   }"

definition soundio_ring_buffer_read_ptr :: "('l::len) word SoundIoRingBuffer \<Rightarrow> nat option" where
  "soundio_ring_buffer_read_ptr rb = do {
     i \<leftarrow> ring_position (read_offset rb) rb;
     Some (mm_address (rb_mem rb) + i)
   }"

text \<open>The fill count from a value loaded for each offset, with the two assertions.\<close>

definition fill_of :: "int \<Rightarrow> ('l::len) word \<Rightarrow> 'l word \<Rightarrow> int option" where
  "fill_of capacity read_off write_off = do {
     let count = to_int32 (uint (write_off - read_off));
     c_assert (count \<ge> 0);
     c_assert (count \<le> capacity);
     Some count
   }"

definition soundio_ring_buffer_fill_count :: "('l::len) word SoundIoRingBuffer \<Rightarrow> int option" where
  "soundio_ring_buffer_fill_count rb = fill_of (rb_capacity rb) (read_offset rb) (write_offset rb)"

definition soundio_ring_buffer_free_count :: "('l::len) word SoundIoRingBuffer \<Rightarrow> int option" where
  "soundio_ring_buffer_free_count rb = do {
     count \<leftarrow> soundio_ring_buffer_fill_count rb;
     c_int (rb_capacity rb - count)
   }"

definition soundio_ring_buffer_advance_write_ptr ::
  "('l::len) word SoundIoRingBuffer \<Rightarrow> int \<Rightarrow> 'l word SoundIoRingBuffer option" where
  "soundio_ring_buffer_advance_write_ptr rb count = do {
     let rb = rb\<lparr>write_offset := write_offset rb + word_of_int count\<rparr>;
     c \<leftarrow> soundio_ring_buffer_fill_count rb;
     c_assert (c \<ge> 0);
     Some rb
   }"

definition soundio_ring_buffer_advance_read_ptr ::
  "('l::len) word SoundIoRingBuffer \<Rightarrow> int \<Rightarrow> 'l word SoundIoRingBuffer option" where
  "soundio_ring_buffer_advance_read_ptr rb count = do {
     let rb = rb\<lparr>read_offset := read_offset rb + word_of_int count\<rparr>;
     c \<leftarrow> soundio_ring_buffer_fill_count rb;
     c_assert (c \<ge> 0);
     Some rb
   }"

definition soundio_ring_buffer_clear :: "('l::len) word SoundIoRingBuffer \<Rightarrow> 'l word SoundIoRingBuffer" where
  "soundio_ring_buffer_clear rb = rb\<lparr>write_offset := read_offset rb\<rparr>"

subsection \<open>Bytes in mirrored memory\<close>

text \<open>A client copies bytes into the buffer from \<open>write_ptr\<close> on and out of it from \<open>read_ptr\<close> on.\<close>

fun store_bytes :: "nat \<Rightarrow> 8 word list \<Rightarrow> 'z os_scheme \<Rightarrow> 'z os_scheme option" where
  "store_bytes p [] s = Some s"
| "store_bytes p (b # bs) s = do { s \<leftarrow> store_byte p b s; store_bytes (Suc p) bs s }"

fun load_bytes :: "nat \<Rightarrow> nat \<Rightarrow> 'z os_scheme \<Rightarrow> 8 word list option" where
  "load_bytes p 0 s = Some []"
| "load_bytes p (Suc n) s = do { b \<leftarrow> load_byte p s; bs \<leftarrow> load_bytes (Suc p) n s; Some (b # bs) }"

definition byte_at :: "nat \<Rightarrow> 'z os_scheme \<Rightarrow> 8 word" where
  "byte_at p s = (case load_byte p s of Some b \<Rightarrow> b | None \<Rightarrow> 0)"

lemma mod_shift_inj:
  fixes c :: nat
  assumes "k < c" "l < c" and "(i + k) mod c = (i + l) mod c"
  shows "k = l"
proof -
  have *: "k' = l'" if "l' \<le> k'" "k' < c" "(i + k') mod c = (i + l') mod c" for k' l'
  proof -
    have "c dvd k' - l'"
      using that mod_eq_dvd_iff_nat [of "i + l'" "i + k'" c] by simp
    with that show ?thesis by (meson dvd_imp_le le_antisym less_imp_diff_less linorder_not_less zero_less_diff)
  qed
  show ?thesis
    using * [of l k] * [of k l] assms by (metis linorder_le_cases)
qed

lemma mirrored_cell:
  assumes "mirrored a cap s" and "i < 2 * cap"
  shows "load_byte (a + i) s = Some (byte_at (a + i mod cap) s)"
proof -
  from assms(1) obtain f where f: "\<And>i. i < cap \<Longrightarrow> vm s (a + i) = Mapped f i \<and> vm s (a + cap + i) = Mapped f i"
    unfolding mirrored_def by blast
  show ?thesis
  proof (cases "i < cap")
    case True
    then show ?thesis using f [of i] by (simp add: load_byte_def byte_at_def)
  next
    case False
    then have "i mod cap = i - cap" using assms(2) by (simp add: le_mod_geq)
    with False f [of "i - cap"] assms(2) show ?thesis by (simp add: load_byte_def byte_at_def)
  qed
qed

lemma load_bytes_mirrored:
  assumes "mirrored a cap s" and "i + n \<le> 2 * cap"
  shows "load_bytes (a + i) n s = Some (map (\<lambda>k. byte_at (a + (i + k) mod cap) s) [0..<n])"
  using assms(2)
proof (induction n arbitrary: i)
  case 0
  then show ?case by simp
next
  case (Suc n)
  have "load_bytes (a + Suc i) n s = Some (map (\<lambda>k. byte_at (a + (Suc i + k) mod cap) s) [0..<n])"
    using Suc.prems by (intro Suc.IH) simp
  moreover have "load_byte (a + i) s = Some (byte_at (a + i mod cap) s)"
    using Suc.prems by (intro mirrored_cell [OF assms(1)]) simp
  moreover have "[0..<Suc n] = 0 # map Suc [0..<n]"
    by (simp add: map_Suc_upt upt_conv_Cons)
  ultimately show ?case by simp
qed

lemma store_bytes_mirrored:
  assumes "mirrored a cap s" and "i + length bs \<le> 2 * cap" and "length bs \<le> cap"
  shows "\<exists>t. store_bytes (a + i) bs s = Some t \<and> mirrored a cap t \<and> vm t = vm s \<and>
     (\<forall>k < length bs. byte_at (a + (i + k) mod cap) t = bs ! k) \<and>
     (\<forall>j < cap. (\<forall>k < length bs. (i + k) mod cap \<noteq> j) \<longrightarrow> byte_at (a + j) t = byte_at (a + j) s)"
  using assms
proof (induction bs arbitrary: i s)
  case Nil
  then show ?case by simp
next
  case (Cons b bs)
  have c: "0 < cap" using Cons.prems by simp
  have i: "i mod cap < cap" "a + i = a + i mod cap \<or> a + i = a + cap + i mod cap"
    using Cons.prems c by (auto simp: mod_if le_mod_geq)
  obtain u where u: "store_byte (a + i) b s = Some u" "mirrored a cap u" "vm u = vm s"
      "load_byte (a + i mod cap) u = Some b"
      "\<And>j. j < cap \<Longrightarrow> j \<noteq> i mod cap \<Longrightarrow> load_byte (a + j) u = load_byte (a + j) s"
    using mirrored_store [OF Cons.prems(1) i, of b] by blast
  have "Suc i + length bs \<le> 2 * cap" "length bs \<le> cap" using Cons.prems by simp_all
  from Cons.IH [OF u(2) this] obtain t where t: "store_bytes (a + Suc i) bs u = Some t" "mirrored a cap t"
      "vm t = vm u" "\<And>k. k < length bs \<Longrightarrow> byte_at (a + (Suc i + k) mod cap) t = bs ! k"
      "\<And>j. j < cap \<Longrightarrow> \<forall>k < length bs. (Suc i + k) mod cap \<noteq> j \<Longrightarrow> byte_at (a + j) t = byte_at (a + j) u"
    by blast
  have other: "(Suc i + k) mod cap \<noteq> i mod cap" if "k < length bs" for k
    using mod_shift_inj [of "Suc k" cap 0 i] that Cons.prems by auto
  have first: "byte_at (a + i mod cap) t = b"
    using t(5) [OF i(1)] other u(4) by (simp add: byte_at_def)
  show ?case
  proof (intro exI [of _ t] conjI allI impI)
    show "store_bytes (a + i) (b # bs) s = Some t" using u(1) t(1) by simp
    show "byte_at (a + (i + k) mod cap) t = (b # bs) ! k" if "k < length (b # bs)" for k
      using that first t(4) by (cases k) auto
    show "byte_at (a + j) t = byte_at (a + j) s"
      if "j < cap" "\<forall>k < length (b # bs). (i + k) mod cap \<noteq> j" for j
    proof -
      from that(2) have "i mod cap \<noteq> j" "\<forall>k < length bs. (Suc i + k) mod cap \<noteq> j" by force+
      then show ?thesis using t(5) [OF that(1)] u(5) [OF that(1)] by (simp add: byte_at_def)
    qed
  qed (use u t in simp_all)
qed

subsection \<open>The invariant of the offsets\<close>

definition ring_cap :: "('l::len) word SoundIoRingBuffer \<Rightarrow> nat" where
  "ring_cap rb = nat (rb_capacity rb)"

definition ring_fill :: "('l::len) word SoundIoRingBuffer \<Rightarrow> nat" where
  "ring_fill rb = unat (write_offset rb - read_offset rb)"

definition ring_inv :: "('l::len) word SoundIoRingBuffer \<Rightarrow> bool" where
  "ring_inv rb \<longleftrightarrow> 0 < rb_capacity rb \<and> rb_capacity rb \<le> int_max \<and> 32 \<le> LENGTH('l) \<and>
     ring_fill rb \<le> ring_cap rb"

text \<open>
  The positions agree with the offsets: the capacity divides the number of offsets, or the
  write offset has not wrapped around.
\<close>

definition ring_sync :: "('l::len) word SoundIoRingBuffer \<Rightarrow> bool" where
  "ring_sync rb \<longleftrightarrow> ring_cap rb dvd 2 ^ LENGTH('l) \<or> read_offset rb \<le> write_offset rb"

lemma ring_cap_less:
  fixes rb :: "('l::len) word SoundIoRingBuffer"
  assumes "ring_inv rb"
  shows "0 < ring_cap rb" "ring_cap rb < 2 ^ 31" "ring_cap rb < 2 ^ LENGTH('l)"
    "rb_capacity rb = int (ring_cap rb)"
proof -
  show *: "0 < ring_cap rb" "ring_cap rb < 2 ^ 31" "rb_capacity rb = int (ring_cap rb)"
    using assms by (auto simp: ring_inv_def ring_cap_def c_defs)
  have "(2 :: nat) ^ 31 \<le> 2 ^ LENGTH('l)"
    using assms by (intro power_increasing) (simp_all add: ring_inv_def)
  with * show "ring_cap rb < 2 ^ LENGTH('l)" by linarith
qed

lemma to_int32_small: "n < 2 ^ 31 \<Longrightarrow> to_int32 (int n) = int n"
  by (rule to_int32_in_range) (simp add: c_defs)

lemma fill_of_total:
  assumes "unat (w - r) \<le> c" and "c < 2 ^ 31"
  shows "fill_of (int c) r w = Some (int (unat (w - r)))"
proof -
  have "to_int32 (uint (w - r)) = int (unat (w - r))"
    using assms to_int32_small [of "unat (w - r)"] by simp
  moreover have "int (unat (w - r)) \<le> int c" using assms(1) by (simp only: of_nat_le_iff)
  ultimately show ?thesis by (simp add: fill_of_def Let_def)
qed

lemma fill_count_total:
  assumes "ring_inv rb"
  shows "soundio_ring_buffer_fill_count rb = Some (int (ring_fill rb))"
  unfolding soundio_ring_buffer_fill_count_def ring_cap_less(4) [OF assms] ring_fill_def
  using assms ring_cap_less(2) [OF assms] by (intro fill_of_total) (simp_all add: ring_inv_def ring_fill_def)

lemma free_count_total:
  assumes "ring_inv rb"
  shows "soundio_ring_buffer_free_count rb = Some (int (ring_cap rb) - int (ring_fill rb))"
proof -
  have "in_int (int (ring_cap rb) - int (ring_fill rb))"
    using ring_cap_less(2) [OF assms] assms by (auto simp: in_int_def int_max_def int_min_def ring_inv_def)
  then show ?thesis
    using assms ring_cap_less(4) [OF assms]
    by (simp add: soundio_ring_buffer_free_count_def fill_count_total)
qed

lemma ring_position_total:
  fixes rb :: "('l::len) word SoundIoRingBuffer"
  assumes "ring_inv rb"
  shows "ring_position off rb = Some (unat off mod ring_cap rb)"
proof -
  note cap = ring_cap_less [OF assms]
  have "unat (word_of_int (rb_capacity rb) :: 'l word) = ring_cap rb"
    using cap by (simp add: unat_of_nat)
  moreover from this have "(word_of_int (rb_capacity rb) :: 'l word) \<noteq> 0"
    using cap(1) by (metis less_irrefl unat_0)
  ultimately show ?thesis by (simp add: ring_position_def unat_mod)
qed

lemma unat_add_small:
  fixes x :: "('l::len) word"
  assumes "unat x + n < 2 ^ LENGTH('l)"
  shows "unat (x + of_nat n) = unat x + n"
  using assms by (simp add: unat_word_ariths unat_of_nat)

lemma unat_sub_small:
  fixes x :: "('l::len) word"
  assumes "n \<le> unat x"
  shows "unat (x - of_nat n) = unat x - n"
proof -
  have "n < 2 ^ LENGTH('l)" using assms unsigned_less [of x, where ?'a = nat] by linarith
  then have "unat (of_nat n :: 'l word) = n" by (simp add: unat_of_nat)
  moreover from this have "of_nat n \<le> x" using assms by (simp add: word_le_nat_alt)
  ultimately show ?thesis by (simp add: unat_sub)
qed

lemma sync_positions:
  fixes rb :: "('l::len) word SoundIoRingBuffer"
  assumes "ring_sync rb"
  shows "unat (write_offset rb) mod ring_cap rb = (unat (read_offset rb) + ring_fill rb) mod ring_cap rb"
  using assms unfolding ring_sync_def
proof
  assume d: "ring_cap rb dvd 2 ^ LENGTH('l)"
  have "unat (read_offset rb + (write_offset rb - read_offset rb)) =
      (unat (read_offset rb) + ring_fill rb) mod 2 ^ LENGTH('l)"
    by (simp only: unat_word_ariths ring_fill_def)
  then show ?thesis by (simp add: mod_mod_cancel [OF d])
next
  assume "read_offset rb \<le> write_offset rb"
  then have "ring_fill rb = unat (write_offset rb) - unat (read_offset rb)" "unat (read_offset rb) \<le> unat (write_offset rb)"
    by (simp_all add: ring_fill_def unat_sub word_le_nat_alt)
  then show ?thesis by simp
qed

text \<open>Advancing within the free (or the filled) part moves the fill count by the amount.\<close>

lemma advance_write_total:
  fixes rb :: "('l::len) word SoundIoRingBuffer"
  assumes "ring_inv rb" and "ring_fill rb + n \<le> ring_cap rb"
  shows "\<exists>rb'. soundio_ring_buffer_advance_write_ptr rb (int n) = Some rb' \<and> ring_inv rb' \<and>
     rb' = rb\<lparr>write_offset := write_offset rb + of_nat n\<rparr> \<and> ring_fill rb' = ring_fill rb + n"
proof -
  let ?rb = "rb\<lparr>write_offset := write_offset rb + of_nat n\<rparr>"
  have "ring_fill ?rb = unat ((write_offset rb - read_offset rb) + of_nat n)"
    by (simp add: ring_fill_def algebra_simps)
  also have "\<dots> = ring_fill rb + n"
    unfolding ring_fill_def using assms(2) ring_cap_less(3) [OF assms(1)]
    by (intro unat_add_small) (simp add: ring_fill_def)
  finally have fill: "ring_fill ?rb = ring_fill rb + n" .
  moreover from this have "ring_inv ?rb" using assms by (simp add: ring_inv_def ring_cap_def)
  ultimately show ?thesis
    by (simp add: soundio_ring_buffer_advance_write_ptr_def fill_count_total)
qed

lemma advance_read_total:
  fixes rb :: "('l::len) word SoundIoRingBuffer"
  assumes "ring_inv rb" and "n \<le> ring_fill rb"
  shows "\<exists>rb'. soundio_ring_buffer_advance_read_ptr rb (int n) = Some rb' \<and> ring_inv rb' \<and>
     rb' = rb\<lparr>read_offset := read_offset rb + of_nat n\<rparr> \<and> ring_fill rb' = ring_fill rb - n"
proof -
  let ?rb = "rb\<lparr>read_offset := read_offset rb + of_nat n\<rparr>"
  have "ring_fill ?rb = unat ((write_offset rb - read_offset rb) - of_nat n)"
    by (simp add: ring_fill_def algebra_simps)
  also have "\<dots> = ring_fill rb - n"
    unfolding ring_fill_def using assms(2) by (intro unat_sub_small) (simp add: ring_fill_def)
  finally have fill: "ring_fill ?rb = ring_fill rb - n" .
  moreover from this have "ring_inv ?rb" using assms by (auto simp: ring_inv_def ring_cap_def)
  ultimately show ?thesis
    by (simp add: soundio_ring_buffer_advance_read_ptr_def fill_count_total)
qed

subsection \<open>The buffer as a queue of bytes\<close>

text \<open>
  The contract of a byte queue of bounded size: a client may enqueue a block that fits and
  dequeue a block that is there, and sees the bytes in order. \<open>room s n\<close> says that \<open>n\<close> more
  bytes may pass through the queue.
\<close>

datatype fifo_op = Enqueue "8 word list" | Dequeue nat

text \<open>A run of operations gives the bytes read, in order.\<close>

fun run_ops ::
  "(8 word list \<Rightarrow> 's \<Rightarrow> 's option) \<Rightarrow> (nat \<Rightarrow> 's \<Rightarrow> (8 word list \<times> 's) option) \<Rightarrow>
   fifo_op list \<Rightarrow> 's \<Rightarrow> (8 word list \<times> 's) option" where
  "run_ops enqueue dequeue [] s = Some ([], s)"
| "run_ops enqueue dequeue (Enqueue bs # ops) s = do { s \<leftarrow> enqueue bs s; run_ops enqueue dequeue ops s }"
| "run_ops enqueue dequeue (Dequeue n # ops) s = do {
     (out, s) \<leftarrow> dequeue n s;
     (rest, s) \<leftarrow> run_ops enqueue dequeue ops s;
     Some (out @ rest, s)
   }"

fun written :: "fifo_op list \<Rightarrow> 8 word list" where
  "written [] = []"
| "written (Enqueue bs # ops) = bs @ written ops"
| "written (Dequeue n # ops) = written ops"

text \<open>The client keeps to the protocol: it never overfills the queue (holding \<open>n\<close>) nor underruns it.\<close>

fun fits :: "nat \<Rightarrow> nat \<Rightarrow> fifo_op list \<Rightarrow> bool" where
  "fits cap n [] = True"
| "fits cap n (Enqueue bs # ops) = (n + length bs \<le> cap \<and> fits cap (n + length bs) ops)"
| "fits cap n (Dequeue k # ops) = (k \<le> n \<and> fits cap (n - k) ops)"

locale byte_fifo =
  fixes enqueue :: "8 word list \<Rightarrow> 's \<Rightarrow> 's option"
    and dequeue :: "nat \<Rightarrow> 's \<Rightarrow> (8 word list \<times> 's) option"
    and contents :: "'s \<Rightarrow> 8 word list"
    and size_of :: "'s \<Rightarrow> nat"
    and inv :: "'s \<Rightarrow> bool"
    and room :: "'s \<Rightarrow> nat \<Rightarrow> bool"
  assumes enqueue_law: "inv s \<Longrightarrow> length (contents s) + length bs \<le> size_of s \<Longrightarrow> room s (length bs + k) \<Longrightarrow>
      \<exists>t. enqueue bs s = Some t \<and> inv t \<and> contents t = contents s @ bs \<and> size_of t = size_of s \<and> room t k"
    and dequeue_law: "inv s \<Longrightarrow> n \<le> length (contents s) \<Longrightarrow> room s k \<Longrightarrow>
      \<exists>t. dequeue n s = Some (take n (contents s), t) \<and> inv t \<and> contents t = drop n (contents s) \<and>
        size_of t = size_of s \<and> room t k"
begin

lemma run_fifo:
  assumes "inv s" and "fits (size_of s) (length (contents s)) ops" and "room s (length (written ops))"
  shows "\<exists>out t. run_ops enqueue dequeue ops s = Some (out, t) \<and> inv t \<and> contents s @ written ops = out @ contents t"
  using assms
proof (induction ops arbitrary: s rule: written.induct)
  case 1
  then show ?case by simp
next
  case (2 bs ops)
  then obtain t where t: "enqueue bs s = Some t" "inv t" "contents t = contents s @ bs"
      "size_of t = size_of s" "room t (length (written ops))"
    using enqueue_law [of s bs "length (written ops)"] by auto
  with 2 obtain out u where "run_ops enqueue dequeue ops t = Some (out, u)" "inv u" "contents t @ written ops = out @ contents u"
    using "2.IH" [of t] by auto
  with t show ?case by auto
next
  case (3 n ops)
  then obtain t where t: "dequeue n s = Some (take n (contents s), t)" "inv t" "contents t = drop n (contents s)"
      "size_of t = size_of s" "room t (length (written ops))"
    using dequeue_law [of s n "length (written ops)"] by auto
  with 3 obtain out u where u: "run_ops enqueue dequeue ops t = Some (out, u)" "inv u" "contents t @ written ops = out @ contents u"
    using "3.IH" [of t] by auto
  then have "contents s @ written ops = (take n (contents s) @ out) @ contents u"
    using t(3) append_take_drop_id [of n "contents s"] by (metis append.assoc)
  with t u show ?case by auto
qed

end

text \<open>
  The operations a client performs on the ring buffer: ask for the free (or filled) part,
  copy at the pointer, advance. \<open>ring_bytes\<close> is what the buffer holds, oldest byte first.
\<close>

definition ring_write ::
  "8 word list \<Rightarrow> ('l::len) word SoundIoRingBuffer \<times> 'z os_scheme \<Rightarrow> ('l word SoundIoRingBuffer \<times> 'z os_scheme) option" where
  "ring_write bs st = do {
     let (rb, s) = st;
     free \<leftarrow> soundio_ring_buffer_free_count rb;
     c_assert (int (length bs) \<le> free);
     p \<leftarrow> soundio_ring_buffer_write_ptr rb;
     s \<leftarrow> store_bytes p bs s;
     rb \<leftarrow> soundio_ring_buffer_advance_write_ptr rb (int (length bs));
     Some (rb, s)
   }"

definition ring_read ::
  "nat \<Rightarrow> ('l::len) word SoundIoRingBuffer \<times> 'z os_scheme \<Rightarrow>
   (8 word list \<times> 'l word SoundIoRingBuffer \<times> 'z os_scheme) option" where
  "ring_read n st = do {
     let (rb, s) = st;
     fill \<leftarrow> soundio_ring_buffer_fill_count rb;
     c_assert (int n \<le> fill);
     p \<leftarrow> soundio_ring_buffer_read_ptr rb;
     bs \<leftarrow> load_bytes p n s;
     rb \<leftarrow> soundio_ring_buffer_advance_read_ptr rb (int n);
     Some (bs, rb, s)
   }"

definition ring_cell :: "('l::len) word SoundIoRingBuffer \<Rightarrow> nat \<Rightarrow> nat" where
  "ring_cell rb i = mm_address (rb_mem rb) + (unat (read_offset rb) + i) mod ring_cap rb"

definition ring_bytes :: "('l::len) word SoundIoRingBuffer \<times> 'z os_scheme \<Rightarrow> 8 word list" where
  "ring_bytes st = (let (rb, s) = st in map (\<lambda>i. byte_at (ring_cell rb i) s) [0..<ring_fill rb])"

definition ring_ok :: "('l::len) word SoundIoRingBuffer \<times> 'z os_scheme \<Rightarrow> bool" where
  "ring_ok st \<longleftrightarrow> (let (rb, s) = st in
     ring_inv rb \<and> ring_sync rb \<and> mirrored (mm_address (rb_mem rb)) (ring_cap rb) s)"

text \<open>Room for \<open>n\<close> more bytes: positions survive a wrap-around of the offset, or there is none.\<close>

definition ring_room :: "('l::len) word SoundIoRingBuffer \<times> 'z os_scheme \<Rightarrow> nat \<Rightarrow> bool" where
  "ring_room st n \<longleftrightarrow> ring_cap (fst st) dvd 2 ^ LENGTH('l) \<or> unat (write_offset (fst st)) + n < 2 ^ LENGTH('l)"

lemma ring_bytes_length [simp]: "length (ring_bytes (rb, s)) = ring_fill rb"
  by (simp add: ring_bytes_def)

lemma ring_write_law:
  fixes rb :: "('l::len) word SoundIoRingBuffer"
  assumes "ring_ok (rb, s)" and fit: "ring_fill rb + length bs \<le> ring_cap rb"
    and room: "ring_room (rb, s) (length bs + k)"
  shows "\<exists>t. ring_write bs (rb, s) = Some t \<and> ring_ok t \<and> ring_bytes t = ring_bytes (rb, s) @ bs \<and>
     ring_cap (fst t) = ring_cap rb \<and> ring_room t k"
proof -
  let ?a = "mm_address (rb_mem rb)" and ?c = "ring_cap rb"
  let ?w = "unat (write_offset rb) mod ?c"
  from assms(1) have inv: "ring_inv rb" and sync: "ring_sync rb" and mir: "mirrored ?a ?c s"
    by (simp_all add: ring_ok_def)
  note cap = ring_cap_less [OF inv]
  have w: "?w = (unat (read_offset rb) + ring_fill rb) mod ?c" by (rule sync_positions [OF sync])
  have "?w < ?c" using cap(1) by simp
  then obtain t where t: "store_bytes (?a + ?w) bs s = Some t" "mirrored ?a ?c t"
      "\<And>k. k < length bs \<Longrightarrow> byte_at (?a + (?w + k) mod ?c) t = bs ! k"
      "\<And>j. j < ?c \<Longrightarrow> \<forall>k < length bs. (?w + k) mod ?c \<noteq> j \<Longrightarrow> byte_at (?a + j) t = byte_at (?a + j) s"
    using store_bytes_mirrored [OF mir, of ?w bs] fit by auto
  obtain rb' where rb': "soundio_ring_buffer_advance_write_ptr rb (int (length bs)) = Some rb'" "ring_inv rb'"
      "rb' = rb\<lparr>write_offset := write_offset rb + of_nat (length bs)\<rparr>" "ring_fill rb' = ring_fill rb + length bs"
    using advance_write_total [OF inv fit] by blast
  have "ring_write bs (rb, s) = Some (rb', t)"
    using fit t(1) rb'(1) ring_position_total [OF inv]
    by (simp add: ring_write_def free_count_total [OF inv] soundio_ring_buffer_write_ptr_def)
  moreover have cell: "ring_cell rb' i = ring_cell rb i" "ring_cap rb' = ?c" for i
    by (simp_all add: rb'(3) ring_cell_def ring_cap_def)
  have "ring_bytes (rb', t) = ring_bytes (rb, s) @ bs"
  proof (rule nth_equalityI)
    fix i assume "i < length (ring_bytes (rb', t))"
    then have i: "i < ring_fill rb + length bs" using rb'(4) by simp
    show "ring_bytes (rb', t) ! i = (ring_bytes (rb, s) @ bs) ! i"
    proof (cases "i < ring_fill rb")
      case True
      have "(?w + k) mod ?c \<noteq> (unat (read_offset rb) + i) mod ?c" if "k < length bs" for k
        using mod_shift_inj [of "ring_fill rb + k" ?c i "unat (read_offset rb)"] that True fit w
        by (auto simp: mod_add_left_eq add.assoc)
      then have "byte_at (ring_cell rb i) t = byte_at (ring_cell rb i) s"
        using t(4) [of "(unat (read_offset rb) + i) mod ?c"] cap(1) by (simp add: ring_cell_def)
      with True i rb'(4) show ?thesis by (simp add: ring_bytes_def cell nth_append)
    next
      case False
      then obtain j where j: "i = ring_fill rb + j" by (metis le_add_diff_inverse not_le)
      then have "(unat (read_offset rb) + i) mod ?c = (?w + j) mod ?c"
        by (simp add: w mod_add_left_eq add.assoc)
      with i j t(3) [of j] rb'(4) show ?thesis
        by (simp add: ring_bytes_def cell(1) nth_append, simp add: ring_cell_def)
    qed
  qed (simp add: rb'(4))
  moreover have sync': "ring_sync rb' \<and> ring_room (rb', t) k"
  proof (cases "?c dvd 2 ^ LENGTH('l)")
    case True
    then show ?thesis by (simp add: ring_sync_def ring_room_def cell)
  next
    case False
    with room have less: "unat (write_offset rb) + length bs + k < 2 ^ LENGTH('l)" by (simp add: ring_room_def)
    then have "unat (write_offset rb') = unat (write_offset rb) + length bs"
      using unat_add_small [of "write_offset rb" "length bs"] by (simp add: rb'(3))
    with less False sync show ?thesis
      by (simp add: ring_sync_def ring_room_def cell word_le_nat_alt rb'(3))
  qed
  moreover have "mm_address (rb_mem rb') = ?a" by (simp add: rb'(3))
  ultimately show ?thesis using rb'(2) t(2) by (simp add: ring_ok_def cell)
qed

lemma ring_read_law:
  fixes rb :: "('l::len) word SoundIoRingBuffer"
  assumes "ring_ok (rb, s)" and fit: "n \<le> ring_fill rb" and room: "ring_room (rb, s) k"
  shows "\<exists>t. ring_read n (rb, s) = Some (take n (ring_bytes (rb, s)), t) \<and> ring_ok t \<and>
     ring_bytes t = drop n (ring_bytes (rb, s)) \<and> ring_cap (fst t) = ring_cap rb \<and> ring_room t k"
proof -
  let ?a = "mm_address (rb_mem rb)" and ?c = "ring_cap rb"
  let ?r = "unat (read_offset rb) mod ?c"
  from assms(1) have inv: "ring_inv rb" and sync: "ring_sync rb" and mir: "mirrored ?a ?c s"
    by (simp_all add: ring_ok_def)
  note cap = ring_cap_less [OF inv]
  have nc: "n \<le> ?c" using inv fit by (simp add: ring_inv_def)
  have "?r < ?c" using cap(1) by simp
  with nc have "?r + n \<le> 2 * ?c" by linarith
  then have load: "load_bytes (?a + ?r) n s = Some (take n (ring_bytes (rb, s)))"
    using load_bytes_mirrored [OF mir, of ?r n] fit
    by (simp add: ring_bytes_def ring_cell_def take_map mod_add_left_eq)
  obtain rb' where rb': "soundio_ring_buffer_advance_read_ptr rb (int n) = Some rb'" "ring_inv rb'"
      "rb' = rb\<lparr>read_offset := read_offset rb + of_nat n\<rparr>" "ring_fill rb' = ring_fill rb - n"
    using advance_read_total [OF inv fit] by blast
  have "ring_read n (rb, s) = Some (take n (ring_bytes (rb, s)), rb', s)"
    using fit load rb'(1) ring_position_total [OF inv]
    by (simp add: ring_read_def fill_count_total [OF inv] soundio_ring_buffer_read_ptr_def)
  moreover have cap': "ring_cap rb' = ?c" by (simp add: rb'(3) ring_cap_def)
  moreover have "ring_sync rb' \<and> unat (read_offset rb') mod ?c = (unat (read_offset rb) + n) mod ?c"
  proof (cases "?c dvd 2 ^ LENGTH('l)")
    case True
    then have "unat (read_offset rb') mod ?c = (unat (read_offset rb) + n) mod ?c"
      by (simp add: rb'(3) unat_word_ariths unat_of_nat mod_mod_cancel mod_add_right_eq)
    with True show ?thesis by (simp add: ring_sync_def cap')
  next
    case False
    with sync have le: "read_offset rb \<le> write_offset rb" by (simp add: ring_sync_def)
    then have "ring_fill rb = unat (write_offset rb) - unat (read_offset rb)"
      by (simp add: ring_fill_def unat_sub)
    with fit le have "unat (read_offset rb) + n \<le> unat (write_offset rb)" by (simp add: word_le_nat_alt)
    moreover from this have "unat (read_offset rb') = unat (read_offset rb) + n"
      using unat_add_small [of "read_offset rb" n] unsigned_less [of "write_offset rb", where ?'a = nat]
      by (simp add: rb'(3))
    ultimately show ?thesis by (simp add: ring_sync_def word_le_nat_alt rb'(3))
  qed
  moreover from this have "(unat (read_offset rb') + i) mod ?c = (unat (read_offset rb) + (n + i)) mod ?c" for i
    by (metis (no_types, lifting) mod_add_left_eq add.assoc)
  then have "ring_cell rb' i = ring_cell rb (n + i)" for i
    unfolding ring_cell_def cap' by (simp add: rb'(3))
  then have "ring_bytes (rb', s) = drop n (ring_bytes (rb, s))"
    by (intro nth_equalityI) (simp_all add: ring_bytes_def rb'(4) less_diff_conv add.commute)
  moreover have "ring_room (rb', s) k" using room by (simp add: ring_room_def cap' rb'(3) ring_cap_def)
  moreover have "mm_address (rb_mem rb') = ?a" by (simp add: rb'(3))
  ultimately show ?thesis using rb'(2) mir by (simp add: ring_ok_def)
qed

interpretation ring: byte_fifo ring_write ring_read ring_bytes "\<lambda>st. ring_cap (fst st)" ring_ok ring_room
proof
  fix s :: "'a word SoundIoRingBuffer \<times> 'z os_scheme" and bs :: "8 word list" and k
  assume "ring_ok s" "length (ring_bytes s) + length bs \<le> ring_cap (fst s)" "ring_room s (length bs + k)"
  then show "\<exists>t. ring_write bs s = Some t \<and> ring_ok t \<and> ring_bytes t = ring_bytes s @ bs \<and>
      ring_cap (fst t) = ring_cap (fst s) \<and> ring_room t k"
    using ring_write_law [of "fst s" "snd s" bs k] by (cases s) simp
next
  fix s :: "'a word SoundIoRingBuffer \<times> 'z os_scheme" and n k :: nat
  assume "ring_ok s" "n \<le> length (ring_bytes s)" "ring_room s k"
  then show "\<exists>t. ring_read n s = Some (take n (ring_bytes s), t) \<and> ring_ok t \<and>
      ring_bytes t = drop n (ring_bytes s) \<and> ring_cap (fst t) = ring_cap (fst s) \<and> ring_room t k"
    using ring_read_law [of "fst s" "snd s" n k] by (cases s) simp
qed

text \<open>A new buffer is empty, at least as large as asked for, and in the invariant.\<close>

lemma ring_init_spec:
  fixes rb :: "('l::len) word SoundIoRingBuffer"
  assumes "vm_ok s" and "page_size s = int page" and "0 < page" and "0 < n" and "n + int page \<le> 2 ^ 31"
    and "32 \<le> LENGTH('l)" and "soundio_ring_buffer_init rb n s = Some (SoundIoErrorNone, rb', t)"
  shows "ring_ok (rb', t)" "ring_bytes (rb', t) = []" "n \<le> rb_capacity rb'" "rb_capacity rb' < n + int page"
    "unat (write_offset rb') = 0" "rb_capacity rb' = int (mm_capacity (rb_mem rb'))"
proof -
  define k where "k = nat n"
  have k: "n = int k" "0 < k" "k + page \<le> 2 ^ 31" using assms(4,5) by (simp_all add: k_def)
  then have "k + page \<le> 2 ^ 62" by simp
  have size: "to_size_t n = k" using k by (simp add: to_size_t_def)
  from assms(7) obtain m where m: "soundio_os_init_mirrored_memory (rb_mem rb) k s = Some (SoundIoErrorNone, m, t)"
    and rb': "rb' = rb\<lparr>rb_mem := m, write_offset := 0, read_offset := 0, rb_capacity := to_int32 (int (mm_capacity m))\<rparr>"
    by (auto simp: soundio_ring_buffer_init_def size Option.bind_eq_Some_conv Let_def split: if_splits)
  have mir: "m = \<lparr>mm_capacity = mirror_capacity page k, mm_address = vm_next s\<rparr>"
      "mirrored (vm_next s) (mirror_capacity page k) t"
    using init_mirrored_memory_spec [OF assms(1-3) k(2) \<open>k + page \<le> 2 ^ 62\<close>, of "rb_mem rb"] m
    by (auto simp: mirror_result_def)
  note b = mirror_capacity_bounds [OF assms(3), of k]
  have c: "mirror_capacity page k < 2 ^ 31" using b k by linarith
  then have cap: "rb_capacity rb' = int (mirror_capacity page k)"
    using mir(1) to_int32_small by (simp add: rb')
  show "n \<le> rb_capacity rb'" "rb_capacity rb' < n + int page" using cap b k by simp_all
  show "unat (write_offset rb') = 0" "ring_bytes (rb', t) = []"
    by (simp_all add: rb' ring_bytes_def ring_fill_def)
  show "rb_capacity rb' = int (mm_capacity (rb_mem rb'))" using cap mir(1) by (simp add: rb')
  have "ring_inv rb'"
    using cap b k c assms(6) by (simp add: ring_inv_def ring_fill_def rb' int_max_def)
  moreover have "ring_cap rb' = mirror_capacity page k" using cap by (simp add: ring_cap_def)
  moreover have "mm_address (rb_mem rb') = vm_next s" using mir(1) by (simp add: rb')
  moreover have "ring_sync rb'" by (simp add: ring_sync_def rb')
  ultimately show "ring_ok (rb', t)" using mir(2) by (simp add: ring_ok_def)
qed

text \<open>A failed \<open>create\<close> gives back the struct; one that succeeds owns one block more.\<close>

lemma ring_destroy_spec:
  assumes "b \<in> blocks s" and "mm_address (rb_mem rb) \<noteq> 0 \<longrightarrow> 0 < mm_capacity (rb_mem rb)"
  shows "\<exists>t. soundio_ring_buffer_destroy (Some (b, rb)) s = Some t \<and> blocks t = blocks s - {b}"
proof (cases "mm_address (rb_mem rb) = 0")
  case True
  then show ?thesis using assms(1)
    by (simp add: soundio_ring_buffer_destroy_def soundio_ring_buffer_deinit_def
        soundio_os_deinit_mirrored_memory_def free_blk_live)
next
  case False
  obtain ok u where u: "munmap (mm_address (rb_mem rb)) (2 * mm_capacity (rb_mem rb)) s = (ok, u)" by fastforce
  have "ok" "blocks u = blocks s" using False u assms(2) by (auto simp: munmap_def vm_set_def)
  with False u assms(1) show ?thesis
    by (simp add: soundio_ring_buffer_destroy_def soundio_ring_buffer_deinit_def
        soundio_os_deinit_mirrored_memory_def free_blk_live)
qed

subsection \<open>One writer and one reader at the same time\<close>

text \<open>
  Every load and store of an offset is a step of its own. The writer asks for the free
  count (\<open>read_offset\<close> is loaded first, then \<open>write_offset\<close>), advances by at most that much,
  and the assertion of \<open>soundio_ring_buffer_advance_write_ptr\<close> counts again; the reader does
  the same with the fill count. With \<open>clear\<close> the writer may also call
  \<open>soundio_ring_buffer_clear\<close>, a load and a store. A failed assertion sets \<open>aborted\<close>.
\<close>

datatype 'w writer_pc = WIdle | WLoaded 'w | WFree nat | WAdvanced | WCheck 'w | WClear 'w
datatype 'w reader_pc = RIdle | RLoaded 'w | RFill nat | RAdvanced | RCheck 'w

record 'w spsc =
  sp_rb :: "'w SoundIoRingBuffer"
  sp_w :: "'w writer_pc"
  sp_r :: "'w reader_pc"
  aborted :: bool

definition spsc_start :: "'w SoundIoRingBuffer \<Rightarrow> 'w spsc" where
  "spsc_start rb = \<lparr>sp_rb = rb, sp_w = WIdle, sp_r = RIdle, aborted = False\<rparr>"

abbreviation sp_count :: "('l::len) word spsc \<Rightarrow> 'l word \<Rightarrow> int option" where
  "sp_count s r \<equiv> fill_of (rb_capacity (sp_rb s)) r (write_offset (sp_rb s))"

inductive spsc_step :: "bool \<Rightarrow> ('l::len) word spsc \<Rightarrow> 'l word spsc \<Rightarrow> bool" for clear where
  w_load: "sp_w s = WIdle \<Longrightarrow> spsc_step clear s (s\<lparr>sp_w := WLoaded (read_offset (sp_rb s))\<rparr>)"
| w_count: "sp_w s = WLoaded r \<Longrightarrow> sp_count s r = Some c \<Longrightarrow>
    spsc_step clear s (s\<lparr>sp_w := WFree (nat (rb_capacity (sp_rb s) - c))\<rparr>)"
| w_abort: "sp_w s = WLoaded r \<or> sp_w s = WCheck r \<Longrightarrow> sp_count s r = None \<Longrightarrow>
    spsc_step clear s (s\<lparr>aborted := True\<rparr>)"
| w_advance: "sp_w s = WFree f \<Longrightarrow> n \<le> f \<Longrightarrow>
    spsc_step clear s (s\<lparr>sp_w := WAdvanced,
      sp_rb := (sp_rb s)\<lparr>write_offset := write_offset (sp_rb s) + of_nat n\<rparr>\<rparr>)"
| w_check: "sp_w s = WAdvanced \<Longrightarrow> spsc_step clear s (s\<lparr>sp_w := WCheck (read_offset (sp_rb s))\<rparr>)"
| w_checked: "sp_w s = WCheck r \<Longrightarrow> sp_count s r = Some c \<Longrightarrow> spsc_step clear s (s\<lparr>sp_w := WIdle\<rparr>)"
| w_clear: "clear \<Longrightarrow> sp_w s = WIdle \<Longrightarrow> spsc_step clear s (s\<lparr>sp_w := WClear (read_offset (sp_rb s))\<rparr>)"
| w_cleared: "sp_w s = WClear r \<Longrightarrow>
    spsc_step clear s (s\<lparr>sp_w := WIdle, sp_rb := (sp_rb s)\<lparr>write_offset := r\<rparr>\<rparr>)"
| r_load: "sp_r s = RIdle \<Longrightarrow> spsc_step clear s (s\<lparr>sp_r := RLoaded (read_offset (sp_rb s))\<rparr>)"
| r_count: "sp_r s = RLoaded r \<Longrightarrow> sp_count s r = Some c \<Longrightarrow> spsc_step clear s (s\<lparr>sp_r := RFill (nat c)\<rparr>)"
| r_abort: "sp_r s = RLoaded r \<or> sp_r s = RCheck r \<Longrightarrow> sp_count s r = None \<Longrightarrow>
    spsc_step clear s (s\<lparr>aborted := True\<rparr>)"
| r_advance: "sp_r s = RFill f \<Longrightarrow> n \<le> f \<Longrightarrow>
    spsc_step clear s (s\<lparr>sp_r := RAdvanced,
      sp_rb := (sp_rb s)\<lparr>read_offset := read_offset (sp_rb s) + of_nat n\<rparr>\<rparr>)"
| r_check: "sp_r s = RAdvanced \<Longrightarrow> spsc_step clear s (s\<lparr>sp_r := RCheck (read_offset (sp_rb s))\<rparr>)"
| r_checked: "sp_r s = RCheck r \<Longrightarrow> sp_count s r = Some c \<Longrightarrow> spsc_step clear s (s\<lparr>sp_r := RIdle\<rparr>)"

text \<open>
  A value of \<open>read_offset\<close> that the writer loaded may be stale: it then counts more bytes than
  there are, but never more than the capacity.
\<close>

definition stale_ok :: "('l::len) word SoundIoRingBuffer \<Rightarrow> 'l word \<Rightarrow> bool" where
  "stale_ok rb r \<longleftrightarrow> ring_fill rb \<le> unat (write_offset rb - r) \<and> unat (write_offset rb - r) \<le> ring_cap rb"

definition writer_ok :: "('l::len) word SoundIoRingBuffer \<Rightarrow> 'l word writer_pc \<Rightarrow> bool" where
  "writer_ok rb pc \<longleftrightarrow>
     (case pc of WLoaded r \<Rightarrow> stale_ok rb r | WCheck r \<Rightarrow> stale_ok rb r
      | WFree f \<Rightarrow> ring_fill rb + f \<le> ring_cap rb | WClear r \<Rightarrow> False | _ \<Rightarrow> True)"

definition reader_ok :: "('l::len) word SoundIoRingBuffer \<Rightarrow> 'l word reader_pc \<Rightarrow> bool" where
  "reader_ok rb pc \<longleftrightarrow>
     (case pc of RLoaded r \<Rightarrow> r = read_offset rb | RCheck r \<Rightarrow> r = read_offset rb
      | RFill f \<Rightarrow> f \<le> ring_fill rb | _ \<Rightarrow> True)"

definition spsc_inv :: "('l::len) word spsc \<Rightarrow> bool" where
  "spsc_inv s \<longleftrightarrow> \<not> aborted s \<and> ring_inv (sp_rb s) \<and> writer_ok (sp_rb s) (sp_w s) \<and> reader_ok (sp_rb s) (sp_r s)"

lemma stale_count:
  assumes "ring_inv (sp_rb s)" and "stale_ok (sp_rb s) r"
  shows "sp_count s r = Some (int (unat (write_offset (sp_rb s) - r)))"
  using fill_of_total [of "write_offset (sp_rb s)" r "ring_cap (sp_rb s)"] assms ring_cap_less [OF assms(1)]
  by (simp add: stale_ok_def)

lemma stale_self: "ring_inv rb \<Longrightarrow> stale_ok rb (read_offset rb)"
  by (simp add: stale_ok_def ring_inv_def ring_fill_def)

lemma writer_advance_ok:
  assumes "ring_inv rb" and "reader_ok rb pc" and "ring_fill rb + n \<le> ring_cap rb"
  shows "ring_inv (rb\<lparr>write_offset := write_offset rb + of_nat n\<rparr>)"
    "reader_ok (rb\<lparr>write_offset := write_offset rb + of_nat n\<rparr>) pc"
  using advance_write_total [OF assms(1,3)] assms(2) by (auto simp: reader_ok_def split: reader_pc.splits)

lemma reader_advance_ok:
  assumes "ring_inv rb" and "writer_ok rb pc" and "n \<le> ring_fill rb"
  shows "ring_inv (rb\<lparr>read_offset := read_offset rb + of_nat n\<rparr>)"
    "writer_ok (rb\<lparr>read_offset := read_offset rb + of_nat n\<rparr>) pc"
proof -
  let ?rb = "rb\<lparr>read_offset := read_offset rb + of_nat n\<rparr>"
  have *: "ring_inv ?rb" "ring_fill ?rb = ring_fill rb - n" "ring_cap ?rb = ring_cap rb"
    using advance_read_total [OF assms(1,3)] by (auto simp: ring_cap_def)
  then show "ring_inv ?rb" by simp
  show "writer_ok ?rb pc"
    using assms(2) * by (auto simp: writer_ok_def stale_ok_def split: writer_pc.splits)
qed

lemma spsc_step_inv: "spsc_step False s t \<Longrightarrow> spsc_inv s \<Longrightarrow> spsc_inv t"
proof (induction rule: spsc_step.induct)
  case (w_count s r c)
  then have "stale_ok (sp_rb s) r" "ring_inv (sp_rb s)" by (simp_all add: spsc_inv_def writer_ok_def)
  moreover define k where "k = unat (write_offset (sp_rb s) - r)"
  ultimately have "c = int k" "ring_fill (sp_rb s) \<le> k" "k \<le> ring_cap (sp_rb s)"
      "rb_capacity (sp_rb s) = int (ring_cap (sp_rb s))"
    using stale_count [of s r] w_count(2) ring_cap_less(4) [of "sp_rb s"] by (simp_all add: stale_ok_def)
  then have "ring_fill (sp_rb s) + nat (rb_capacity (sp_rb s) - c) \<le> ring_cap (sp_rb s)" by linarith
  with w_count(3) show ?case by (simp add: spsc_inv_def writer_ok_def)
next
  case (w_abort s r)
  then show ?case using stale_count [of s r] by (auto simp: spsc_inv_def writer_ok_def)
next
  case (w_advance s f n)
  then have "ring_inv (sp_rb s)" "reader_ok (sp_rb s) (sp_r s)" "ring_fill (sp_rb s) + n \<le> ring_cap (sp_rb s)"
    by (simp_all add: spsc_inv_def writer_ok_def)
  from writer_advance_ok [OF this] w_advance show ?case by (simp add: spsc_inv_def writer_ok_def)
next
  case (r_count s r c)
  then have "r = read_offset (sp_rb s)" "ring_inv (sp_rb s)" by (simp_all add: spsc_inv_def reader_ok_def)
  with stale_count [of s r] stale_self [of "sp_rb s"] r_count show ?case
    by (auto simp: spsc_inv_def reader_ok_def ring_fill_def)
next
  case (r_abort s r)
  then show ?case using stale_count [of s r] stale_self [of "sp_rb s"]
    by (auto simp: spsc_inv_def reader_ok_def)
next
  case (r_advance s f n)
  then have "ring_inv (sp_rb s)" "writer_ok (sp_rb s) (sp_w s)" "n \<le> ring_fill (sp_rb s)"
    by (simp_all add: spsc_inv_def reader_ok_def)
  from reader_advance_ok [OF this] r_advance show ?case by (simp add: spsc_inv_def reader_ok_def)
qed (auto simp: spsc_inv_def writer_ok_def reader_ok_def stale_self)

lemma spsc_reachable_inv: "(spsc_step False)\<^sup>*\<^sup>* s t \<Longrightarrow> spsc_inv s \<Longrightarrow> spsc_inv t"
  by (induction rule: rtranclp_induct) (auto intro: spsc_step_inv)

lemma spsc_start_inv: "ring_inv rb \<Longrightarrow> spsc_inv (spsc_start rb)"
  by (simp add: spsc_inv_def spsc_start_def writer_ok_def reader_ok_def)

inductive_simps spsc_idle_simps:
  "spsc_step clear \<lparr>sp_rb = rb, sp_w = WIdle, sp_r = RIdle, aborted = a\<rparr> t"

subsection \<open>Properties\<close>

text \<open>C1. The ring buffer is a FIFO queue: starting from a newly initialised buffer, any sequence
  of writes that fit into the free part and reads of at most the filled part completes
  without a failed assertion, the bytes read followed by the bytes still in the buffer are
  exactly the bytes written, in order. The total written must be below the number of
  offsets unless the capacity divides it.\<close>

theorem ring_buffer_fifo:
  fixes rb :: "('l::len) word SoundIoRingBuffer"
  assumes "vm_ok s" and "page_size s = int page" and "0 < page" and "0 < n" and "n + int page \<le> 2 ^ 31"
    and "32 \<le> LENGTH('l)" and "soundio_ring_buffer_init rb n s = Some (SoundIoErrorNone, rb', t)"
    and "fits (ring_cap rb') 0 ops"
    and "ring_cap rb' dvd 2 ^ LENGTH('l) \<or> length (written ops) < 2 ^ LENGTH('l)"
  shows "\<exists>out st. run_ops ring_write ring_read ops (rb', t) = Some (out, st) \<and> ring_ok st \<and> written ops = out @ ring_bytes st"
proof -
  note init = ring_init_spec [OF assms(1-7)]
  have "ring_room (rb', t) (length (written ops))" using assms(9) init(5) by (simp add: ring_room_def)
  then show ?thesis using ring.run_fifo [of "(rb', t)" ops] init assms(8) by simp
qed

lemma ring_init_run:
  "\<exists>rb t. soundio_ring_buffer_init (ring_zero :: 64 word SoundIoRingBuffer) 5000 (os_start []) =
     Some (SoundIoErrorNone, rb, t) \<and> ring_cap rb = 8192"
proof -
  obtain t where "soundio_os_init_mirrored_memory \<lparr>mm_capacity = 0, mm_address = 0\<rparr> 5000 (os_start []) =
      Some (SoundIoErrorNone, \<lparr>mm_capacity = 8192, mm_address = 65536\<rparr>, t)"
    using mirror_success_run by blast
  then show ?thesis
    using to_int32_small [of 8192]
    by (simp add: soundio_ring_buffer_init_def ring_zero_def to_size_t_def ring_cap_def)
qed

theorem ring_buffer_fifo_witness:
  "\<exists>rb t out st. soundio_ring_buffer_init (ring_zero :: 64 word SoundIoRingBuffer) 5000 (os_start []) =
       Some (SoundIoErrorNone, rb, t) \<and>
     run_ops ring_write ring_read [Enqueue [1, 2, 3], Dequeue 2, Enqueue [4]] (rb, t) = Some (out, st) \<and>
     [1, 2, 3, 4] = out @ ring_bytes st"
proof -
  obtain rb t where rb: "soundio_ring_buffer_init (ring_zero :: 64 word SoundIoRingBuffer) 5000 (os_start []) =
      Some (SoundIoErrorNone, rb, t)" "ring_cap rb = 8192"
    using ring_init_run by blast
  show ?thesis
    using ring_buffer_fifo [OF _ _ _ _ _ _ rb(1), of 4096 "[Enqueue [1, 2, 3], Dequeue 2, Enqueue [4]]"] rb
    by auto
qed


definition ring_ten :: "64 word SoundIoRingBuffer" where
  "ring_ten = \<lparr>rb_mem = \<lparr>mm_capacity = 4096, mm_address = 65536\<rparr>, write_offset = 10, read_offset = 0,
     rb_capacity = 4096\<rparr>"

lemma ring_ten_inv: "ring_inv ring_ten"
  by (simp add: ring_inv_def ring_ten_def int_max_def ring_fill_def ring_cap_def)


text \<open>C40. The documentation allows the writer to call \<open>soundio_ring_buffer_clear\<close>. When the reader
  has just counted ten bytes and the writer clears before the reader advances over them, the
  reader's assertion fails.\<close>

theorem ring_buffer_clear_race:
  "\<exists>s. (spsc_step True)\<^sup>*\<^sup>* (spsc_start ring_ten) s \<and> aborted s"
proof -
  let ?s = "\<lambda>wo ro w r. \<lparr>sp_rb = ring_ten\<lparr>write_offset := wo, read_offset := ro\<rparr>, sp_w = w, sp_r = r, aborted = False\<rparr>"
  let ?step = "spsc_step True"
  have start: "spsc_start ring_ten = ?s 10 0 WIdle RIdle" by (simp add: spsc_start_def ring_ten_def)
  have "fill_of 4096 (0 :: 64 word) 10 = Some 10"
    using fill_of_total [of "10 :: 64 word" 0 4096] by simp
  then have "?step (?s 10 0 WIdle RIdle) (?s 10 0 WIdle (RLoaded 0))" "?step (?s 10 0 WIdle (RLoaded 0)) (?s 10 0 WIdle (RFill 10))"
    using spsc_step.r_load [of "?s 10 0 WIdle RIdle" True] spsc_step.r_count [of "?s 10 0 WIdle (RLoaded 0)" 0 10 True]
    by (simp_all add: ring_ten_def)
  moreover have "?step (?s 10 0 WIdle (RFill 10)) (?s 10 0 (WClear 0) (RFill 10))"
      "?step (?s 10 0 (WClear 0) (RFill 10)) (?s 0 0 WIdle (RFill 10))"
    using spsc_step.w_clear [of True "?s 10 0 WIdle (RFill 10)"] spsc_step.w_cleared [of "?s 10 0 (WClear 0) (RFill 10)" 0 True]
    by (simp_all add: ring_ten_def)
  moreover have "?step (?s 0 0 WIdle (RFill 10)) (?s 0 10 WIdle RAdvanced)"
      "?step (?s 0 10 WIdle RAdvanced) (?s 0 10 WIdle (RCheck 10))"
    using spsc_step.r_advance [of "?s 0 0 WIdle (RFill 10)" 10 10 True] spsc_step.r_check [of "?s 0 10 WIdle RAdvanced" True]
    by (simp_all add: ring_ten_def)
  moreover have "fill_of 4096 (10 :: 64 word) 0 = None" by code_simp
  then have "?step (?s 0 10 WIdle (RCheck 10)) (?s 0 10 WIdle (RCheck 10)\<lparr>aborted := True\<rparr>)"
    using spsc_step.r_abort [of "?s 0 10 WIdle (RCheck 10)" 10 True] by (simp add: ring_ten_def)
  ultimately have "?step\<^sup>*\<^sup>* (?s 10 0 WIdle RIdle) (?s 0 10 WIdle (RCheck 10)\<lparr>aborted := True\<rparr>)"
    by (meson converse_rtranclp_into_rtranclp r_into_rtranclp)
  then show ?thesis unfolding start by (intro exI conjI) (assumption, simp)
qed

text \<open>Where \<open>unsigned long\<close> has 32 bits, a capacity that is not a power of two breaks the queue
  once 2^32 bytes have passed: of two consecutive bytes the second is written to the start
  of the buffer, while the reader looks for it right after the first.\<close>

theorem ring_buffer_wrap_breaks_32_bit:
  "\<exists>rb rb' :: 32 word SoundIoRingBuffer. ring_inv rb \<and> rb_capacity rb = 3 * 4096 \<and>
     soundio_ring_buffer_advance_write_ptr rb 1 = Some rb' \<and>
     soundio_ring_buffer_read_ptr rb' = Some (65536 + 4095) \<and> soundio_ring_buffer_write_ptr rb = Some (65536 + 4095) \<and>
     soundio_ring_buffer_write_ptr rb' = Some 65536"
proof -
  let ?rb = "\<lparr>rb_mem = \<lparr>mm_capacity = 12288, mm_address = 65536\<rparr>, write_offset = 4294967295, read_offset = 4294967295,
      rb_capacity = 12288\<rparr> :: 32 word SoundIoRingBuffer"
  have inv: "ring_inv ?rb" by (simp add: ring_inv_def int_max_def ring_fill_def)
  have cap: "ring_cap ?rb = 12288" by (simp add: ring_cap_def)
  obtain rb' where rb': "soundio_ring_buffer_advance_write_ptr ?rb 1 = Some rb'" "ring_inv rb'"
      "rb' = ?rb\<lparr>write_offset := write_offset ?rb + of_nat 1\<rparr>"
    using advance_write_total [OF inv, of 1] cap by (auto simp: ring_fill_def)
  have "unat (4294967295 :: 32 word) mod 12288 = 4095" by simp
  with cap rb' ring_position_total [OF inv] ring_position_total [OF rb'(2)] inv show ?thesis
    by (intro exI [of _ ?rb] exI [of _ rb'])
      (simp add: soundio_ring_buffer_read_ptr_def soundio_ring_buffer_write_ptr_def ring_cap_def)
qed

end
