(* ===== verification/Device.thy ===== *)
theory Device
  imports ChannelLayout Os
begin

section \<open>Devices: reference counting, ownership and queries\<close>

text \<open>
  \<open>SoundIoDevice\<close> with its private part, \<open>SoundIoDevicesInfo\<close>, and the device functions of
  \<open>src/soundio.c\<close>. A device is a heap struct reached through several pointers (the device
  list and every stream on it), so the state maps its block to the struct. An array of the
  device is a block of its own or a field inside the struct; a datatype per array says
  which, because \<open>soundio_device_unref\<close> frees it only in the first case. The public and the
  private struct are one record: the code casts between them.
\<close>

record SoundIoSampleRateRange =
  range_min :: int
  range_max :: int

text \<open>The JACK part of a device (\<open>src/jack.h\<close>). The latency range is its maximum, a frame count.\<close>

record SoundIoDeviceJackPort =
  djp_full_name :: cstring
  djp_full_name_len :: int
  djp_channel_id :: SoundIoChannelId
  djp_latency_max :: nat

record SoundIoDeviceJack =
  dj_port_count :: int
  dj_ports :: "(nat \<times> SoundIoDeviceJackPort list) option"

text \<open>The CoreAudio part of a device (\<open>src/coreaudio.h\<close>).\<close>

type_synonym AudioObjectID = "32 word"

record SoundIoDeviceCoreAudio =
  dca_device_id :: AudioObjectID
  dca_latency_frames :: "32 word"

datatype layouts_ptr = LayoutsNull | LayoutsCurrent | LayoutsBlock nat "SoundIoChannelLayout list"
datatype formats_ptr = FormatsNull | FormatsPrealloc | FormatsBlock nat "SoundIoFormat list"
datatype rates_ptr = RatesNull | RatesPrealloc | RatesList | RatesBlock nat "SoundIoSampleRateRange list"

text \<open>The \<open>destruct\<close> functions of the backends.\<close>

datatype dev_destruct = jack_destruct_device

record SoundIoDevice =
  dev_soundio :: "nat option"
  dev_id :: cstring
  dev_name :: cstring
  aim :: SoundIoDeviceAim
  layouts :: layouts_ptr
  layout_count :: int
  current_layout :: SoundIoChannelLayout
  formats :: formats_ptr
  format_count :: int
  current_format :: SoundIoFormat
  sample_rates :: rates_ptr
  sample_rate_count :: int
  sample_rate_current :: int
  software_latency_min :: real
  software_latency_max :: real
  software_latency_current :: real
  is_raw :: bool
  ref_count :: int
  probe_error :: SoundIoError
  dev_jack :: SoundIoDeviceJack
  dev_ca :: SoundIoDeviceCoreAudio
  destruct :: "dev_destruct option"
  prealloc_sample_rate_range :: SoundIoSampleRateRange
  sample_rates_list :: "SoundIoSampleRateRange clist"
  prealloc_format :: SoundIoFormat

text \<open>What \<open>ALLOCATE\<close> gives: all zero. The zero of \<open>aim\<close> is the input device.\<close>

definition device_zero :: SoundIoDevice where
  "device_zero =
     \<lparr>dev_soundio = None, dev_id = None, dev_name = None, aim = SoundIoDeviceAimInput,
      layouts = LayoutsNull, layout_count = 0, current_layout = layout_zero,
      formats = FormatsNull, format_count = 0, current_format = SoundIoFormatInvalid,
      sample_rates = RatesNull, sample_rate_count = 0, sample_rate_current = 0,
      software_latency_min = 0, software_latency_max = 0, software_latency_current = 0,
      is_raw = False, ref_count = 0, probe_error = SoundIoErrorNone,
      dev_jack = \<lparr>dj_port_count = 0, dj_ports = None\<rparr>,
      dev_ca = \<lparr>dca_device_id = 0, dca_latency_frames = 0\<rparr>, destruct = None,
      prealloc_sample_rate_range = \<lparr>range_min = 0, range_max = 0\<rparr>,
      sample_rates_list = clist_zero, prealloc_format = SoundIoFormatInvalid\<rparr>"

record SoundIoDevicesInfo =
  input_devices :: "nat clist"
  output_devices :: "nat clist"
  default_output_index :: int
  default_input_index :: int

definition devices_info_zero :: SoundIoDevicesInfo where
  "devices_info_zero =
     \<lparr>input_devices = clist_zero, output_devices = clist_zero, default_output_index = 0, default_input_index = 0\<rparr>"

record devs = os +
  devices :: "nat \<rightharpoonup> SoundIoDevice"
  infos :: "nat \<rightharpoonup> SoundIoDevicesInfo"

subsection \<open>The arrays of a device\<close>

text \<open>The cells that may be read through each array pointer.\<close>

definition layout_cells :: "SoundIoDevice \<Rightarrow> SoundIoChannelLayout list" where
  "layout_cells d =
     (case layouts d of LayoutsNull \<Rightarrow> [] | LayoutsCurrent \<Rightarrow> [current_layout d] | LayoutsBlock b xs \<Rightarrow> xs)"

definition format_cells :: "SoundIoDevice \<Rightarrow> SoundIoFormat list" where
  "format_cells d =
     (case formats d of FormatsNull \<Rightarrow> [] | FormatsPrealloc \<Rightarrow> [prealloc_format d] | FormatsBlock b xs \<Rightarrow> xs)"

definition rate_cell :: "SoundIoDevice \<Rightarrow> int \<Rightarrow> SoundIoSampleRateRange option" where
  "rate_cell d i =
     (case sample_rates d of
        RatesNull \<Rightarrow> None
      | RatesPrealloc \<Rightarrow> arr_at [prealloc_sample_rate_range d] i
      | RatesList \<Rightarrow> Option.bind (arr_at (l_items (sample_rates_list d)) i) (\<lambda>x. x)
      | RatesBlock b xs \<Rightarrow> arr_at xs i)"

subsection \<open>Queries\<close>

definition soundio_device_supports_format :: "SoundIoDevice \<Rightarrow> SoundIoFormat \<Rightarrow> bool option" where
  "soundio_device_supports_format device format =
     any_r (\<lambda>i. do { f \<leftarrow> arr_at (format_cells device) (int i); Some (f = format) })
       [0..<nat (format_count device)]"

definition soundio_device_supports_layout :: "SoundIoDevice \<Rightarrow> SoundIoChannelLayout \<Rightarrow> bool option" where
  "soundio_device_supports_layout device layout =
     any_r (\<lambda>i. do { l \<leftarrow> arr_at (layout_cells device) (int i); soundio_channel_layout_equal l layout })
       [0..<nat (layout_count device)]"

definition soundio_device_supports_sample_rate :: "SoundIoDevice \<Rightarrow> int \<Rightarrow> bool option" where
  "soundio_device_supports_sample_rate device sample_rate =
     any_r (\<lambda>i. do {
         rng \<leftarrow> rate_cell device (int i);
         Some (sample_rate \<ge> range_min rng \<and> sample_rate \<le> range_max rng)
       })
       [0..<nat (sample_rate_count device)]"

definition abs_diff_int :: "int \<Rightarrow> int \<Rightarrow> int option" where
  "abs_diff_int a b = do {
     x \<leftarrow> c_int (a - b);
     if x \<ge> 0 then Some x else c_int (- x)
   }"

text \<open>
  The loop of \<open>soundio_device_nearest_sample_rate\<close> over the indices left to look at, with the
  best rate and its distance so far.
\<close>

fun nearest_loop :: "SoundIoDevice \<Rightarrow> nat list \<Rightarrow> int \<Rightarrow> int \<Rightarrow> int \<Rightarrow> int option" where
  "nearest_loop device [] sample_rate best_rate best_delta = Some best_rate"
| "nearest_loop device (i # is) sample_rate best_rate best_delta = do {
     rng \<leftarrow> rate_cell device (int i);
     let candidate_rate = soundio_int_clamp (range_min rng) sample_rate (range_max rng);
     if candidate_rate = sample_rate then Some candidate_rate
     else do {
       delta \<leftarrow> abs_diff_int candidate_rate sample_rate;
       let best_rate_too_small = best_rate < sample_rate;
       let candidate_rate_too_small = candidate_rate < sample_rate;
       if best_rate = - 1 \<or> (best_rate_too_small \<and> \<not> candidate_rate_too_small) \<or>
          ((best_rate_too_small \<or> \<not> candidate_rate_too_small) \<and> delta < best_delta)
       then nearest_loop device is sample_rate candidate_rate delta
       else nearest_loop device is sample_rate best_rate best_delta
     }
   }"

definition soundio_device_nearest_sample_rate :: "SoundIoDevice \<Rightarrow> int \<Rightarrow> int option" where
  "soundio_device_nearest_sample_rate device sample_rate =
     nearest_loop device [0..<nat (sample_rate_count device)] sample_rate (- 1) (- 1)"

text \<open>\<open>strcmp\<close> needs both strings.\<close>

definition soundio_device_equal :: "SoundIoDevice \<Rightarrow> SoundIoDevice \<Rightarrow> bool option" where
  "soundio_device_equal a b =
     (if is_raw a = is_raw b \<and> aim a = aim b then do {
        ia \<leftarrow> dev_id a;
        ib \<leftarrow> dev_id b;
        Some (snd ia = snd ib)
      } else Some False)"

text \<open>The first \<open>layout_count\<close> cells are sorted in place.\<close>

definition sort_first :: "int \<Rightarrow> SoundIoChannelLayout list \<Rightarrow> SoundIoChannelLayout list option" where
  "sort_first n xs = do {
     c_assert (0 \<le> n \<and> n \<le> int (length xs));
     r \<leftarrow> soundio_sort_channel_layouts (Some (take (nat n) xs));
     ys \<leftarrow> r;
     Some (ys @ drop (nat n) xs)
   }"

definition soundio_device_sort_channel_layouts :: "SoundIoDevice \<Rightarrow> SoundIoDevice option" where
  "soundio_device_sort_channel_layouts device =
     (case layouts device of
        LayoutsNull \<Rightarrow> Some device
      | LayoutsCurrent \<Rightarrow> do {
          xs \<leftarrow> sort_first (layout_count device) [current_layout device];
          Some (device\<lparr>current_layout := hd xs\<rparr>)
        }
      | LayoutsBlock b xs \<Rightarrow> do {
          xs \<leftarrow> sort_first (layout_count device) xs;
          Some (device\<lparr>layouts := LayoutsBlock b xs\<rparr>)
        })"

subsection \<open>Reference counting\<close>

definition soundio_device_ref :: "nat option \<Rightarrow> 'z devs_scheme \<Rightarrow> 'z devs_scheme option" where
  "soundio_device_ref device s = do {
     p \<leftarrow> device;
     d \<leftarrow> devices s p;
     n \<leftarrow> c_int (ref_count d + 1);
     Some (s\<lparr>devices := (devices s)(p \<mapsto> d\<lparr>ref_count := n\<rparr>)\<rparr>)
   }"

text \<open>\<open>destruct_device\<close> of \<open>src/jack.c\<close>: the port names, then the array of ports.\<close>

definition destruct_device :: "SoundIoDeviceJack \<Rightarrow> 'z devs_scheme \<Rightarrow> 'z devs_scheme option" where
  "destruct_device dj s = do {
     s \<leftarrow> for_each (\<lambda>i s. do {
         (b, ports) \<leftarrow> dj_ports dj;
         djp \<leftarrow> arr_at ports (int i);
         free_blk (str_blk (djp_full_name djp)) s
       }) [0..<nat (dj_port_count dj)] s;
     free_blk (map_option fst (dj_ports dj)) s
   }"

definition run_destruct :: "SoundIoDevice \<Rightarrow> 'z devs_scheme \<Rightarrow> 'z devs_scheme option" where
  "run_destruct d s =
     (case destruct d of
        None \<Rightarrow> Some s
      | Some jack_destruct_device \<Rightarrow> destruct_device (dev_jack d) s)"

definition free_sample_rates :: "SoundIoDevice \<Rightarrow> 'z devs_scheme \<Rightarrow> 'z devs_scheme option" where
  "free_sample_rates d s = (case sample_rates d of RatesBlock b _ \<Rightarrow> free_blk (Some b) s | _ \<Rightarrow> Some s)"

definition free_formats :: "SoundIoDevice \<Rightarrow> 'z devs_scheme \<Rightarrow> 'z devs_scheme option" where
  "free_formats d s = (case formats d of FormatsBlock b _ \<Rightarrow> free_blk (Some b) s | _ \<Rightarrow> Some s)"

definition free_layouts :: "SoundIoDevice \<Rightarrow> 'z devs_scheme \<Rightarrow> 'z devs_scheme option" where
  "free_layouts d s = (case layouts d of LayoutsBlock b _ \<Rightarrow> free_blk (Some b) s | _ \<Rightarrow> Some s)"

definition soundio_device_unref :: "nat option \<Rightarrow> 'z devs_scheme \<Rightarrow> 'z devs_scheme option" where
  "soundio_device_unref device s =
     (case device of None \<Rightarrow> Some s
      | Some p \<Rightarrow> do {
          d \<leftarrow> devices s p;
          n \<leftarrow> c_int (ref_count d - 1);
          let s = s\<lparr>devices := (devices s)(p \<mapsto> d\<lparr>ref_count := n\<rparr>)\<rparr>;
          c_assert (n \<ge> 0);
          if n = 0 then do {
            s \<leftarrow> run_destruct d s;
            s \<leftarrow> free_blk (str_blk (dev_id d)) s;
            s \<leftarrow> free_blk (str_blk (dev_name d)) s;
            s \<leftarrow> free_sample_rates d s;
            s \<leftarrow> list_deinit (sample_rates_list d) s;
            s \<leftarrow> free_formats d s;
            s \<leftarrow> free_layouts d s;
            free_blk (Some p) (s\<lparr>devices := (devices s)(p := None)\<rparr>)
          }
          else Some s
        })"

subsection \<open>Device lists\<close>

definition unref_list :: "nat clist \<Rightarrow> 'z devs_scheme \<Rightarrow> 'z devs_scheme option" where
  "unref_list l s =
     for_each (\<lambda>i s. do { dev \<leftarrow> list_val_at l (int i); soundio_device_unref (Some dev) s })
       [0..<nat (l_length l)] s"

definition soundio_destroy_devices_info :: "nat option \<Rightarrow> 'z devs_scheme \<Rightarrow> 'z devs_scheme option" where
  "soundio_destroy_devices_info devices_info s =
     (case devices_info of None \<Rightarrow> Some s
      | Some q \<Rightarrow> do {
          info \<leftarrow> infos s q;
          s \<leftarrow> unref_list (input_devices info) s;
          s \<leftarrow> unref_list (output_devices info) s;
          s \<leftarrow> list_deinit (input_devices info) s;
          s \<leftarrow> list_deinit (output_devices info) s;
          free_blk (Some q) (s\<lparr>infos := (infos s)(q := None)\<rparr>)
        })"

subsection \<open>What a device owns\<close>

definition jack_blocks :: "SoundIoDeviceJack \<Rightarrow> nat list" where
  "jack_blocks dj =
     (case dj_ports dj of None \<Rightarrow> []
      | Some (b, ports) \<Rightarrow> concat (map (\<lambda>djp. opt_list (str_blk (djp_full_name djp))) ports) @ [b])"

definition rates_blocks :: "rates_ptr \<Rightarrow> nat list" where
  "rates_blocks r = (case r of RatesBlock b _ \<Rightarrow> [b] | _ \<Rightarrow> [])"

definition formats_blocks :: "formats_ptr \<Rightarrow> nat list" where
  "formats_blocks r = (case r of FormatsBlock b _ \<Rightarrow> [b] | _ \<Rightarrow> [])"

definition layouts_blocks :: "layouts_ptr \<Rightarrow> nat list" where
  "layouts_blocks r = (case r of LayoutsBlock b _ \<Rightarrow> [b] | _ \<Rightarrow> [])"

definition dev_blocks :: "nat \<Rightarrow> SoundIoDevice \<Rightarrow> nat list" where
  "dev_blocks p d =
     (if destruct d = None then [] else jack_blocks (dev_jack d)) @
     opt_list (str_blk (dev_id d)) @ opt_list (str_blk (dev_name d)) @ rates_blocks (sample_rates d) @
     opt_list (l_blk (sample_rates_list d)) @ formats_blocks (formats d) @ layouts_blocks (layouts d) @ [p]"

text \<open>
  The device may be destroyed: its blocks are distinct and live, and the JACK part has as
  many ports as its count says.
\<close>

definition jack_ports_ok :: "SoundIoDevice \<Rightarrow> bool" where
  "jack_ports_ok d \<longleftrightarrow> destruct d = None \<or>
     (case dj_ports (dev_jack d) of
        None \<Rightarrow> dj_port_count (dev_jack d) \<le> 0
      | Some (_, ports) \<Rightarrow> dj_port_count (dev_jack d) = int (length ports))"

definition dev_ok :: "nat \<Rightarrow> SoundIoDevice \<Rightarrow> 'z devs_scheme \<Rightarrow> bool" where
  "dev_ok p d s \<longleftrightarrow> distinct (dev_blocks p d) \<and> set (dev_blocks p d) \<subseteq> blocks s \<and> jack_ports_ok d"

lemma for_each_skip: "(\<And>x s. x \<in> set xs \<Longrightarrow> f x s = Some s) \<Longrightarrow> for_each f xs s = Some s"
  by (induction xs) auto

lemma free_blk_fun: "free_blk p = free_all (opt_list p)"
  by (rule ext) (rule free_blk_free_all)

lemma destruct_free_all:
  assumes "jack_ports_ok d" and "destruct d = Some jack_destruct_device"
  shows "destruct_device (dev_jack d) s = free_all (jack_blocks (dev_jack d)) s"
proof (cases "dj_ports (dev_jack d)")
  case None
  then show ?thesis using assms
    by (simp add: destruct_device_def jack_ports_ok_def jack_blocks_def free_all_def)
next
  case (Some bp)
  obtain b ports where bp: "bp = (b, ports)" by fastforce
  have count: "nat (dj_port_count (dev_jack d)) = length ports"
    using assms Some bp by (simp add: jack_ports_ok_def)
  have "for_each (\<lambda>i s. do {
         (b, ports) \<leftarrow> dj_ports (dev_jack d);
         djp \<leftarrow> arr_at ports (int i);
         free_blk (str_blk (djp_full_name djp)) s
       }) [0..<length ports] s = for_each (\<lambda>djp. free_blk (str_blk (djp_full_name djp))) ports s"
    by (rule for_each_index) (simp add: Some bp arr_at_in)
  then show ?thesis
    unfolding destruct_device_def count
    by (simp add: for_each_free jack_blocks_def Some bp free_all_append free_blk_fun [of "Some b"])
qed

lemma unref_parts_free_all:
  "list_deinit l s = free_all (opt_list (l_blk l)) s"
  "free_sample_rates d s = free_all (rates_blocks (sample_rates d)) s"
  "free_formats d s = free_all (formats_blocks (formats d)) s"
  "free_layouts d s = free_all (layouts_blocks (layouts d)) s"
  by (simp_all add: list_deinit_def free_sample_rates_def free_formats_def free_layouts_def rates_blocks_def
      formats_blocks_def layouts_blocks_def free_blk_free_all split: rates_ptr.split formats_ptr.split layouts_ptr.split)
    (simp_all add: free_all_def)

lemma run_destruct_free_all:
  "jack_ports_ok d \<Longrightarrow> run_destruct d s =
     free_all (if destruct d = None then [] else jack_blocks (dev_jack d)) s"
  using destruct_free_all [of d s]
  by (cases "destruct d") (auto simp: run_destruct_def free_all_def split: dev_destruct.split)

text \<open>
  Dropping a reference: the device is gone with everything it owns when it was the last
  one, else only the count changes.
\<close>

definition after_unref :: "SoundIoDevice \<Rightarrow> SoundIoDevice option" where
  "after_unref d = (if ref_count d = 1 then None else Some (d\<lparr>ref_count := ref_count d - 1\<rparr>))"

definition unref_frees :: "nat \<Rightarrow> SoundIoDevice \<Rightarrow> nat set" where
  "unref_frees p d = (if ref_count d = 1 then set (dev_blocks p d) else {})"

lemma device_unref_spec:
  assumes d: "devices s p = Some d" and ok: "dev_ok p d s" and n: "0 < ref_count d" "in_int (ref_count d)"
  shows "soundio_device_unref (Some p) s =
     Some (s\<lparr>blocks := blocks s - unref_frees p d, devices := (devices s)(p := after_unref d)\<rparr>)"
proof -
  have range: "in_int (ref_count d - 1)" using n by (simp add: in_int_def int_max_def int_min_def)
  show ?thesis
  proof (cases "ref_count d = 1")
    case False
    with n d range show ?thesis
      by (simp add: soundio_device_unref_def after_unref_def unref_frees_def)
  next
    case True
    let ?rest = "(if destruct d = None then [] else jack_blocks (dev_jack d)) @
     opt_list (str_blk (dev_id d)) @ opt_list (str_blk (dev_name d)) @ rates_blocks (sample_rates d) @
     opt_list (l_blk (sample_rates_list d)) @ formats_blocks (formats d) @ layouts_blocks (layouts d)"
    let ?s = "s\<lparr>devices := (devices s)(p \<mapsto> d\<lparr>ref_count := 0\<rparr>)\<rparr>"
    have split: "dev_blocks p d = ?rest @ [p]" by (simp add: dev_blocks_def)
    have all: "distinct (?rest @ [p])" "set (?rest @ [p]) \<subseteq> blocks s"
      using ok unfolding dev_ok_def split by blast+
    then have dist: "distinct ?rest" and sub: "set ?rest \<subseteq> blocks ?s" and p: "p \<in> blocks s" "p \<notin> set ?rest"
      by auto
    have "soundio_device_unref (Some p) s = do {
        s \<leftarrow> free_all ?rest ?s;
        free_blk (Some p) (s\<lparr>devices := (devices s)(p := None)\<rparr>)
      }"
      using d range True ok
      by (simp add: soundio_device_unref_def dev_ok_def run_destruct_free_all unref_parts_free_all
          free_blk_free_all free_all_append Option.bind_assoc)
    also have "\<dots> = Some (s\<lparr>blocks := blocks s - set ?rest - {p}, devices := (devices s)(p := None)\<rparr>)"
      using p by (simp only: free_all_eq [OF dist sub]) (simp add: free_blk_def)
    also have "blocks s - set ?rest - {p} = blocks s - unref_frees p d"
      unfolding unref_frees_def split using True by auto
    finally show ?thesis using True by (simp add: after_unref_def fun_upd_def)
  qed
qed

text \<open>Every device of the heap may be destroyed, and no two own a block in common.\<close>

definition devs_ok :: "'z devs_scheme \<Rightarrow> bool" where
  "devs_ok s \<longleftrightarrow> mem_ok s \<and> (\<forall>p d. devices s p = Some d \<longrightarrow> dev_ok p d s) \<and>
     (\<forall>p q d e. devices s p = Some d \<longrightarrow> devices s q = Some e \<longrightarrow> p \<noteq> q \<longrightarrow>
        set (dev_blocks p d) \<inter> set (dev_blocks q e) = {})"

lemma dev_blocks_ref_count [simp]: "dev_blocks p (d\<lparr>ref_count := n\<rparr>) = dev_blocks p d"
  by (simp add: dev_blocks_def)

lemma dev_ok_frame:
  "dev_ok p d s \<Longrightarrow> set (dev_blocks p d) \<subseteq> blocks t \<Longrightarrow> dev_ok p (d\<lparr>ref_count := n\<rparr>) t \<and> dev_ok p d t"
  by (auto simp: dev_ok_def jack_ports_ok_def split: option.splits)

lemma devs_ok_unref:
  assumes "devs_ok s" and "devices s p = Some d"
  shows "devs_ok (s\<lparr>blocks := blocks s - unref_frees p d, devices := (devices s)(p := after_unref d)\<rparr>)"
    (is "devs_ok ?t")
  unfolding devs_ok_def
proof (intro conjI allI impI)
  show "mem_ok ?t" using assms(1) by (auto simp: devs_ok_def mem_ok_def)
next
  fix q e assume e: "devices ?t q = Some e"
  then obtain e' where e': "devices s q = Some e'" "e = e' \<or> e = e'\<lparr>ref_count := ref_count e - 0\<rparr>"
      "q = p \<Longrightarrow> ref_count d \<noteq> 1"
    using assms(2) by (auto simp: after_unref_def split: if_splits)
  have "dev_ok q e' s" using assms(1) e'(1) by (auto simp: devs_ok_def)
  moreover have "set (dev_blocks q e') \<inter> unref_frees p d = {}"
  proof (cases "q = p")
    case True
    with e' show ?thesis by (simp add: unref_frees_def)
  next
    case False
    with assms e'(1) show ?thesis unfolding devs_ok_def unref_frees_def by (metis inf_bot_right)
  qed
  ultimately have "dev_ok q e' ?t \<and> dev_ok q (e'\<lparr>ref_count := ref_count e - 0\<rparr>) ?t"
    using dev_ok_frame [of q e' s ?t] by (auto simp: dev_ok_def)
  with e'(2) show "dev_ok q e ?t" by metis
next
  fix q r e f
  assume e: "devices ?t q = Some e" and f: "devices ?t r = Some f" and "q \<noteq> r"
  then obtain e' f' where "devices s q = Some e'" "devices s r = Some f'"
      "dev_blocks q e = dev_blocks q e'" "dev_blocks r f = dev_blocks r f'"
    using assms(2) by (auto simp: after_unref_def split: if_splits)
  with assms(1) \<open>q \<noteq> r\<close> show "set (dev_blocks q e) \<inter> set (dev_blocks r f) = {}"
    unfolding devs_ok_def by metis
qed

text \<open>A loop that drops one reference to each device of a list without repetitions.\<close>

lemma unref_each_spec:
  assumes "devs_ok s" and "distinct ps"
    and "\<And>p. p \<in> set ps \<Longrightarrow> \<exists>d. devices s p = Some d \<and> 0 < ref_count d \<and> in_int (ref_count d)"
  shows "for_each (\<lambda>p. soundio_device_unref (Some p)) ps s =
     Some (s\<lparr>blocks := blocks s - (\<Union>p \<in> set ps. unref_frees p (the (devices s p))),
            devices := (\<lambda>p. if p \<in> set ps then after_unref (the (devices s p)) else devices s p)\<rparr>) \<and>
     devs_ok (s\<lparr>blocks := blocks s - (\<Union>p \<in> set ps. unref_frees p (the (devices s p))),
            devices := (\<lambda>p. if p \<in> set ps then after_unref (the (devices s p)) else devices s p)\<rparr>)"
  using assms
proof (induction ps arbitrary: s)
  case Nil
  then show ?case by simp
next
  case (Cons p ps)
  from Cons.prems(3) obtain d where d: "devices s p = Some d" "0 < ref_count d" "in_int (ref_count d)"
    by auto
  have "dev_ok p d s" using Cons.prems(1) d(1) by (auto simp: devs_ok_def)
  note unref = device_unref_spec [OF d(1) this d(2,3)]
  let ?t = "s\<lparr>blocks := blocks s - unref_frees p d, devices := (devices s)(p := after_unref d)\<rparr>"
  have "devs_ok ?t" by (rule devs_ok_unref [OF Cons.prems(1) d(1)])
  moreover have "distinct ps" "p \<notin> set ps" using Cons.prems(2) by simp_all
  moreover have "\<And>q. q \<in> set ps \<Longrightarrow> \<exists>e. devices ?t q = Some e \<and> 0 < ref_count e \<and> in_int (ref_count e)"
    using Cons.prems(3) \<open>p \<notin> set ps\<close> by (metis (no_types, lifting) devs.select_convs(1) devs.surjective devs.update_convs(1) fun_upd_other list.set_intros(2))
  ultimately have IH: "for_each (\<lambda>p. soundio_device_unref (Some p)) ps ?t =
     Some (?t\<lparr>blocks := blocks ?t - (\<Union>p \<in> set ps. unref_frees p (the (devices ?t p))),
            devices := (\<lambda>p. if p \<in> set ps then after_unref (the (devices ?t p)) else devices ?t p)\<rparr>) \<and>
     devs_ok (?t\<lparr>blocks := blocks ?t - (\<Union>p \<in> set ps. unref_frees p (the (devices ?t p))),
            devices := (\<lambda>p. if p \<in> set ps then after_unref (the (devices ?t p)) else devices ?t p)\<rparr>)"
    by (intro Cons.IH) blast+
  have "(\<Union>q \<in> set ps. unref_frees q (the (devices ?t q))) = (\<Union>q \<in> set ps. unref_frees q (the (devices s q)))"
    using \<open>p \<notin> set ps\<close> by (intro SUP_cong) auto
  moreover have "(\<lambda>q. if q \<in> set ps then after_unref (the (devices ?t q)) else devices ?t q) =
      (\<lambda>q. if q \<in> set (p # ps) then after_unref (the (devices s q)) else devices s q)"
    using \<open>p \<notin> set ps\<close> d(1) by (auto simp: fun_eq_iff)
  moreover have "blocks s - unref_frees p d - X = blocks s - (unref_frees p d \<union> X)" for X by blast
  ultimately show ?case using IH d(1) by (simp add: unref)
qed

subsection \<open>The destruction of a device list\<close>

text \<open>The devices of a list, and the list's own block.\<close>

lemma unref_list_each:
  assumes "list_wf l"
  shows "unref_list l s = for_each (\<lambda>p. soundio_device_unref (Some p)) (list_abs l) s"
proof -
  have len: "l_length l = int (length (list_abs l))" using length_list_abs [OF assms] by simp
  then have "list_val_at l (int i) = Some (list_abs l ! i)" if "i < length (list_abs l)" for i
    using list_val_at_spec [OF assms, of "int i"] that by simp
  then show ?thesis
    unfolding unref_list_def by (subst len) (simp add: for_each_index)
qed

definition info_blocks :: "nat \<Rightarrow> SoundIoDevicesInfo \<Rightarrow> nat list" where
  "info_blocks q info = opt_list (l_blk (input_devices info)) @ opt_list (l_blk (output_devices info)) @ [q]"

definition info_devices :: "SoundIoDevicesInfo \<Rightarrow> nat list" where
  "info_devices info = list_abs (input_devices info) @ list_abs (output_devices info)"

text \<open>The list owns its blocks, none of them a device's, and holds a reference to each device in it.\<close>

definition info_ok :: "nat \<Rightarrow> SoundIoDevicesInfo \<Rightarrow> 'z devs_scheme \<Rightarrow> bool" where
  "info_ok q info s \<longleftrightarrow>
     list_wf (input_devices info) \<and> list_wf (output_devices info) \<and>
     distinct (info_devices info) \<and> distinct (info_blocks q info) \<and> set (info_blocks q info) \<subseteq> blocks s \<and>
     (\<forall>p d. devices s p = Some d \<longrightarrow> set (dev_blocks p d) \<inter> set (info_blocks q info) = {}) \<and>
     (\<forall>p \<in> set (info_devices info). \<exists>d. devices s p = Some d \<and> 0 < ref_count d \<and> in_int (ref_count d))"

definition dropped :: "nat list \<Rightarrow> 'z devs_scheme \<Rightarrow> nat set" where
  "dropped ps s = (\<Union>p \<in> set ps. unref_frees p (the (devices s p)))"

definition info_destroyed :: "nat \<Rightarrow> SoundIoDevicesInfo \<Rightarrow> 'z devs_scheme \<Rightarrow> 'z devs_scheme" where
  "info_destroyed q info s =
     s\<lparr>devices := (\<lambda>p. if p \<in> set (info_devices info) then after_unref (the (devices s p)) else devices s p),
       blocks := blocks s - dropped (info_devices info) s - set (info_blocks q info),
       infos := (infos s)(q := None)\<rparr>"

lemma destroy_devices_info_spec:
  assumes "devs_ok s" and q: "infos s q = Some info" and ok: "info_ok q info s"
  shows "soundio_destroy_devices_info (Some q) s = Some (info_destroyed q info s)"
    and "devs_ok (info_destroyed q info s)"
proof -
  let ?ps = "info_devices info"
  let ?s = "s\<lparr>blocks := blocks s - dropped ?ps s,
      devices := (\<lambda>p. if p \<in> set ?ps then after_unref (the (devices s p)) else devices s p)\<rparr>"
  have each: "for_each (\<lambda>p. soundio_device_unref (Some p)) ?ps s = Some ?s" and ok': "devs_ok ?s"
    using unref_each_spec [OF assms(1), of ?ps] ok by (auto simp: info_ok_def dropped_def)
  let ?t = "?s\<lparr>blocks := blocks ?s - set (info_blocks q info), infos := (infos s)(q := None)\<rparr>"
  have disj: "unref_frees p (the (devices s p)) \<inter> set (info_blocks q info) = {}" if "p \<in> set ?ps" for p
    using ok that unfolding info_ok_def unref_frees_def by (metis inf_bot_left option.sel)
  then have sub: "set (info_blocks q info) \<subseteq> blocks ?s"
    using ok by (auto simp: info_ok_def dropped_def)
  have "soundio_destroy_devices_info (Some q) s = do {
      s \<leftarrow> for_each (\<lambda>p. soundio_device_unref (Some p)) ?ps s;
      s \<leftarrow> free_all (opt_list (l_blk (input_devices info)) @ opt_list (l_blk (output_devices info))) s;
      free_blk (Some q) (s\<lparr>infos := (infos s)(q := None)\<rparr>)
    }"
    using q ok
    by (simp add: soundio_destroy_devices_info_def unref_list_each info_ok_def info_devices_def for_each_append
        unref_parts_free_all free_all_append Option.bind_assoc)
  also have "\<dots> = Some ?t"
  proof -
    let ?ls = "opt_list (l_blk (input_devices info)) @ opt_list (l_blk (output_devices info))"
    have "distinct ?ls" "set ?ls \<subseteq> blocks ?s" "q \<in> blocks ?s" "q \<notin> set ?ls"
      using ok sub by (auto simp: info_ok_def info_blocks_def)
    moreover have "set (info_blocks q info) = insert q (set ?ls)" by (auto simp: info_blocks_def)
    moreover have "X - insert q Y = X - Y - {q}" for X Y :: "nat set" by blast
    ultimately show ?thesis
      by (simp only: each Option.bind.simps free_all_eq) (simp add: free_blk_def fun_upd_def)
  qed
  finally show "soundio_destroy_devices_info (Some q) s = Some (info_destroyed q info s)"
    by (simp add: info_destroyed_def)
  have "devs_ok ?t"
    unfolding devs_ok_def
  proof (intro conjI allI impI)
    show "mem_ok ?t" using ok' by (auto simp: devs_ok_def mem_ok_def)
    show "dev_ok p d ?t" if pd: "devices ?t p = Some d" for p d
    proof -
      have "dev_ok p d ?s" using ok' pd by (auto simp: devs_ok_def)
      moreover have "\<exists>d'. devices s p = Some d' \<and> dev_blocks p d = dev_blocks p d'"
      proof (cases "p \<in> set ?ps")
        case True
        with ok obtain d' where d': "devices s p = Some d'" unfolding info_ok_def by blast
        with True pd have "after_unref d' = Some d" by simp
        then have "dev_blocks p d = dev_blocks p d'" by (auto simp: after_unref_def split: if_splits)
        with d' show ?thesis by blast
      qed (use pd in simp)
      then have "set (dev_blocks p d) \<inter> set (info_blocks q info) = {}"
        using ok unfolding info_ok_def by metis
      ultimately show ?thesis by (auto simp: dev_ok_def)
    qed
    show "set (dev_blocks p d) \<inter> set (dev_blocks r e) = {}"
      if "devices ?t p = Some d" "devices ?t r = Some e" "p \<noteq> r" for p r d e
      using ok' that unfolding devs_ok_def by simp
  qed
  then show "devs_ok (info_destroyed q info s)" by (simp add: info_destroyed_def)
qed

subsection \<open>Lemmas on the queries\<close>

text \<open>The ranges of a device that can be read.\<close>

definition rates_ok :: "SoundIoDevice \<Rightarrow> SoundIoSampleRateRange list \<Rightarrow> bool" where
  "rates_ok d rs \<longleftrightarrow> nat (sample_rate_count d) = length rs \<and> (\<forall>i < length rs. rate_cell d (int i) = Some (rs ! i))"

text \<open>A range a device may report: not empty, and positive rates.\<close>

definition range_ok :: "SoundIoSampleRateRange \<Rightarrow> bool" where
  "range_ok r \<longleftrightarrow> 0 < range_min r \<and> range_min r \<le> range_max r \<and> range_max r \<le> int_max"

definition in_range :: "int \<Rightarrow> SoundIoSampleRateRange \<Rightarrow> bool" where
  "in_range x r \<longleftrightarrow> range_min r \<le> x \<and> x \<le> range_max r"

lemma supports_sample_rate_iff:
  assumes "rates_ok d rs"
  shows "soundio_device_supports_sample_rate d x = Some (\<exists>r \<in> set rs. in_range x r)"
proof -
  have "soundio_device_supports_sample_rate d x = Some (\<exists>i \<in> set [0..<length rs]. in_range x (rs ! i))"
    unfolding soundio_device_supports_sample_rate_def
    using assms by (subst any_r_total [where g = "\<lambda>i. in_range x (rs ! i)"]) (auto simp: rates_ok_def in_range_def)
  moreover have "(\<exists>i \<in> set [0..<length rs]. in_range x (rs ! i)) \<longleftrightarrow> (\<exists>r \<in> set rs. in_range x r)"
    using nth_mem by (fastforce simp: in_set_conv_nth)
  ultimately show ?thesis by simp
qed

text \<open>
  A rate \<open>y\<close> serves a wanted rate \<open>x\<close> at least as well as \<open>z\<close>: a rate that is not lower than
  \<open>x\<close> is better than one that is, and of two on the same side the closer is.
\<close>

definition no_worse :: "int \<Rightarrow> int \<Rightarrow> int \<Rightarrow> bool" where
  "no_worse x y z \<longleftrightarrow> (x \<le> y \<and> z < x) \<or> (x \<le> y \<and> y \<le> z) \<or> (y < x \<and> z \<le> y)"

lemma no_worse_refl [simp]: "no_worse x y y"
  by (auto simp: no_worse_def)

lemma no_worse_trans: "no_worse x y z \<Longrightarrow> no_worse x z w \<Longrightarrow> no_worse x y w"
  by (auto simp: no_worse_def)

lemma clamp_in_range: "range_ok r \<Longrightarrow> in_range (soundio_int_clamp (range_min r) x (range_max r)) r"
  by (auto simp: range_ok_def in_range_def soundio_int_clamp_def soundio_int_min_def soundio_int_max_def)

lemma clamp_best: "range_ok r \<Longrightarrow> in_range z r \<Longrightarrow> no_worse x (soundio_int_clamp (range_min r) x (range_max r)) z"
  by (auto simp: range_ok_def in_range_def soundio_int_clamp_def soundio_int_min_def soundio_int_max_def no_worse_def)

lemma abs_diff_int_eq: "0 \<le> a \<Longrightarrow> a \<le> int_max \<Longrightarrow> 0 \<le> b \<Longrightarrow> b \<le> int_max \<Longrightarrow> abs_diff_int a b = Some \<bar>a - b\<bar>"
  by (auto simp: abs_diff_int_def in_int_def int_max_def int_min_def)

text \<open>What the loop has found so far: nothing, or a rate of a range seen before, no worse than any other.\<close>

definition found :: "int \<Rightarrow> SoundIoSampleRateRange list \<Rightarrow> int \<Rightarrow> int \<Rightarrow> bool" where
  "found x seen best delta \<longleftrightarrow>
     (if seen = [] then best = - 1
      else delta = \<bar>best - x\<bar> \<and> best \<noteq> x \<and> (\<exists>r \<in> set seen. in_range best r) \<and>
        (\<forall>r \<in> set seen. \<forall>z. in_range z r \<longrightarrow> no_worse x best z))"

lemma found_step:
  assumes "found x seen best delta" and "\<forall>r \<in> set seen. range_ok r" and "in_range c r"
    and "\<And>z. in_range z r \<Longrightarrow> no_worse x c z" and "c \<noteq> x"
    and better: "better \<longleftrightarrow> best = - 1 \<or> (best < x \<and> \<not> c < x) \<or> ((best < x \<or> \<not> c < x) \<and> \<bar>c - x\<bar> < delta)"
  shows "found x (seen @ [r]) (if better then c else best) (if better then \<bar>c - x\<bar> else delta)"
proof (cases "seen = []")
  case True
  with assms show ?thesis by (simp add: found_def)
next
  case some: False
  with assms(1) have f: "delta = \<bar>best - x\<bar>" "best \<noteq> x" "\<exists>r \<in> set seen. in_range best r"
      "\<forall>r \<in> set seen. \<forall>z. in_range z r \<longrightarrow> no_worse x best z"
    by (simp_all add: found_def)
  then have "0 < best" using assms(2) by (auto simp: in_range_def range_ok_def)
  then have cmp: "if better then no_worse x c best else no_worse x best c"
    unfolding better using f(1,2) assms(5) by (auto simp: no_worse_def)
  show ?thesis
  proof (cases better)
    case True
    with cmp have "\<forall>r \<in> set seen. \<forall>z. in_range z r \<longrightarrow> no_worse x c z" using f(4) no_worse_trans by auto
    with True assms(3-5) show ?thesis by (simp add: found_def)
  next
    case False
    with cmp have "\<forall>z. in_range z r \<longrightarrow> no_worse x best z" using assms(4) no_worse_trans by auto
    with False f show ?thesis by (simp add: found_def)
  qed
qed

lemma nearest_loop_spec:
  assumes "rates_ok d rs" and "\<forall>r \<in> set rs. range_ok r" and "0 \<le> x" "x \<le> int_max"
    and "is = [k..<length rs]" and "k \<le> length rs" and "found x (take k rs) best delta"
  shows "\<exists>y. nearest_loop d is x best delta = Some y \<and>
     (if rs = [] then y = - 1 else (\<exists>r \<in> set rs. in_range y r) \<and> (\<forall>r \<in> set rs. \<forall>z. in_range z r \<longrightarrow> no_worse x y z))"
  using assms(5-7)
proof (induction "is" arbitrary: k best delta)
  case Nil
  then have "[k..<length rs] = []" by simp
  then have "k = length rs" using Nil(2) unfolding upt_eq_Nil_conv by auto
  with Nil show ?case by (cases "rs = []") (auto simp: found_def)
next
  case (Cons i "is")
  have "[k..<length rs] = i # is" using Cons.prems(1) by simp
  then have i: "i = k" "k < length rs" "is = [Suc k..<length rs]"
    unfolding upt_eq_Cons_conv by auto
  let ?r = "rs ! k"
  let ?c = "soundio_int_clamp (range_min ?r) x (range_max ?r)"
  have r: "rate_cell d (int i) = Some ?r" "range_ok ?r" using assms(1,2) i by (simp_all add: rates_ok_def)
  have c: "in_range ?c ?r" "\<And>z. in_range z ?r \<Longrightarrow> no_worse x ?c z"
    using clamp_in_range [OF r(2)] clamp_best [OF r(2)] by blast+
  have c0: "0 < ?c" "?c \<le> int_max" using c(1) r(2) by (auto simp: in_range_def range_ok_def)
  have seen: "take (Suc k) rs = take k rs @ [?r]" using i(2) by (simp add: take_Suc_conv_app_nth)
  show ?case
  proof (cases "?c = x")
    case True
    have "\<forall>r \<in> set rs. \<forall>z. in_range z r \<longrightarrow> no_worse x x z" by (auto simp: no_worse_def)
    moreover have "?r \<in> set rs" "rs \<noteq> []" using i(2) by auto
    ultimately show ?thesis using True r c(1) by (auto simp: Let_def)
  next
    case False
    have delta: "abs_diff_int ?c x = Some \<bar>?c - x\<bar>" using c0 assms(3,4) by (intro abs_diff_int_eq) auto
    let ?better = "best = - 1 \<or> best < x \<and> \<not> ?c < x \<or> (best < x \<or> \<not> ?c < x) \<and> \<bar>?c - x\<bar> < delta"
    let ?b = "if ?better then ?c else best" and ?d = "if ?better then \<bar>?c - x\<bar> else delta"
    have step: "nearest_loop d (i # is) x best delta = nearest_loop d is x ?b ?d"
    proof (cases ?better)
      case True
      with r(1) False delta show ?thesis unfolding if_P [OF True] by (simp add: Let_def)
    next
      case no: False
      with r(1) False delta show ?thesis unfolding if_not_P [OF no] by (auto simp: Let_def)
    qed
    have "found x (take (Suc k) rs) ?b ?d"
      unfolding seen
      by (rule found_step [OF Cons.prems(3) _ c False]) (use assms(2) in \<open>auto dest: in_set_takeD\<close>)
    with Cons.IH [of "Suc k" ?b ?d] i step show ?thesis by simp
  qed
qed

lemma supports_format_iff:
  assumes "nat (format_count d) \<le> length (format_cells d)"
  shows "soundio_device_supports_format d f = Some (f \<in> set (take (nat (format_count d)) (format_cells d)))"
proof -
  let ?n = "nat (format_count d)"
  have "soundio_device_supports_format d f = Some (\<exists>i \<in> set [0..<?n]. format_cells d ! i = f)"
    unfolding soundio_device_supports_format_def
    using assms by (subst any_r_total [where g = "\<lambda>i. format_cells d ! i = f"]) (auto simp: arr_at_in)
  moreover have "(\<exists>i \<in> set [0..<?n]. format_cells d ! i = f) \<longleftrightarrow> f \<in> set (take ?n (format_cells d))"
    using assms by (auto simp: in_set_conv_nth intro!: bexI)
  ultimately show ?thesis by simp
qed

subsection \<open>Properties\<close>


definition two_ranges :: SoundIoDevice where
  "two_ranges = device_zero\<lparr>sample_rate_count := 2,
     sample_rates := RatesBlock 1 [\<lparr>range_min = 8000, range_max = 44100\<rparr>, \<lparr>range_min = 96000, range_max = 96000\<rparr>]\<rparr>"

lemma two_ranges_ok:
  "rates_ok two_ranges [\<lparr>range_min = 8000, range_max = 44100\<rparr>, \<lparr>range_min = 96000, range_max = 96000\<rparr>]"
  by (simp add: rates_ok_def two_ranges_def rate_cell_def arr_at_def less_Suc_eq numeral_2_eq_2)


text \<open>C25. Dropping a reference of a device either only decreases its count, or, when it was the
  last one, frees exactly the blocks the device owns, each once, and leaves every other
  device intact and releasable.\<close>

theorem device_unref_frees_exactly:
  assumes "devs_ok s" and "devices s p = Some d" and "0 < ref_count d" and "ref_count d \<le> int_max"
  shows "\<exists>t. soundio_device_unref (Some p) s = Some t \<and> devs_ok t \<and>
     (if ref_count d = 1 then blocks t = blocks s - set (dev_blocks p d) \<and> devices t p = None
      else blocks t = blocks s \<and> devices t p = Some (d\<lparr>ref_count := ref_count d - 1\<rparr>)) \<and>
     (\<forall>q. q \<noteq> p \<longrightarrow> devices t q = devices s q)"
proof -
  have "dev_ok p d s" "in_int (ref_count d)"
    using assms by (auto simp: devs_ok_def in_int_def int_min_def)
  with device_unref_spec [OF assms(2) _ assms(3)] devs_ok_unref [OF assms(1,2)]
  show ?thesis by (auto simp: after_unref_def unref_frees_def)
qed

definition one_device :: devs where
  "one_device = os.extend (os_start [])
     \<lparr>devices = [7 \<mapsto> device_zero\<lparr>ref_count := 1, dev_id := Some (3, ''a''), layouts := LayoutsCurrent\<rparr>], infos = (\<lambda>_. None)\<rparr>
     \<lparr>blocks := {3, 7}, next_id := 8\<rparr>"

theorem device_unref_frees_exactly_witness:
  "\<exists>t. soundio_device_unref (Some 7) one_device = Some t \<and> blocks t = {}"
proof -
  have "devs_ok one_device"
    by (auto simp: devs_ok_def one_device_def os.defs os_start_def mem_ok_def dev_ok_def dev_blocks_def jack_ports_ok_def
        device_zero_def rates_blocks_def formats_blocks_def layouts_blocks_def clist_zero_def split: if_splits)
  moreover have "devices one_device 7 = Some (device_zero\<lparr>ref_count := 1, dev_id := Some (3, ''a''), layouts := LayoutsCurrent\<rparr>)"
      "blocks one_device = {3, 7}"
    by (simp_all add: one_device_def os.defs)
  ultimately show ?thesis
    using device_unref_frees_exactly [of one_device 7]
    by (auto simp: int_max_def dev_blocks_def device_zero_def rates_blocks_def formats_blocks_def layouts_blocks_def clist_zero_def)
qed

end
