(* ===== verification/State.thy ===== *)
theory State
  imports Device RingBuffer
begin

section \<open>The state of the library\<close>

text \<open>
  The structs of \<open>src/soundio_private.h\<close> and of the backends' headers, and the state that
  all operations work on: the allocator, the operating system, the devices, and maps from
  blocks to \<open>SoundIoPrivate\<close> and to the stream structs. The public and the private part of a
  struct are one record. The unions of backend data are products here (only the part of the
  connected backend is used; clearing the union clears all parts).

  A function pointer of \<open>SoundIoPrivate\<close> is NULL or a function of a backend, so the table
  of pointers maps each slot to the backend whose function it holds. Callbacks of the
  application that the model only has to observe are recorded in \<open>trace\<close>; the callbacks that
  do work in the middle of the code (\<open>write_callback\<close>, \<open>read_callback\<close>) are parameters of the
  operations that call them.
\<close>

text \<open>
  Division of \<open>double\<close> values. The result of a division by zero is infinite or not a number,
  which a \<open>real\<close> cannot be; it counts as undefined.
\<close>

definition dbl_div :: "real \<Rightarrow> real \<Rightarrow> real option" where
  "dbl_div a b = (if b = 0 then None else Some (a / b))"

record SoundIoChannelArea =
  area_ptr :: nat
  area_step :: int

definition area_zero :: SoundIoChannelArea where
  "area_zero = \<lparr>area_ptr = 0, area_step = 0\<rparr>"

subsection \<open>The dummy backend's structs\<close>

record SoundIoDummy =
  dummy_mutex :: "nat option"
  dummy_cond :: "nat option"
  devices_emitted :: bool

record SoundIoOutStreamDummy =
  osd_thread :: "nat option"
  osd_cond :: "nat option"
  osd_abort_flag :: bool
  osd_period_duration :: real
  osd_buffer_frame_count :: int
  osd_frames_left :: int
  osd_write_frame_count :: int
  osd_ring_buffer :: "64 word SoundIoRingBuffer"
  osd_clear_buffer_flag :: bool
  osd_pause_requested :: bool
  osd_areas :: "SoundIoChannelArea list"

record SoundIoInStreamDummy =
  isd_thread :: "nat option"
  isd_cond :: "nat option"
  isd_abort_flag :: bool
  isd_period_duration :: real
  isd_frames_left :: int
  isd_read_frame_count :: int
  isd_buffer_frame_count :: int
  isd_ring_buffer :: "64 word SoundIoRingBuffer"
  isd_pause_requested :: bool
  isd_areas :: "SoundIoChannelArea list"

definition dummy_zero :: SoundIoDummy where
  "dummy_zero = \<lparr>dummy_mutex = None, dummy_cond = None, devices_emitted = False\<rparr>"

definition osd_zero :: SoundIoOutStreamDummy where
  "osd_zero = \<lparr>osd_thread = None, osd_cond = None, osd_abort_flag = False, osd_period_duration = 0,
     osd_buffer_frame_count = 0, osd_frames_left = 0, osd_write_frame_count = 0, osd_ring_buffer = ring_zero,
     osd_clear_buffer_flag = False, osd_pause_requested = False,
     osd_areas = replicate SOUNDIO_MAX_CHANNELS area_zero\<rparr>"

definition isd_zero :: SoundIoInStreamDummy where
  "isd_zero = \<lparr>isd_thread = None, isd_cond = None, isd_abort_flag = False, isd_period_duration = 0,
     isd_frames_left = 0, isd_read_frame_count = 0, isd_buffer_frame_count = 0, isd_ring_buffer = ring_zero,
     isd_pause_requested = False, isd_areas = replicate SOUNDIO_MAX_CHANNELS area_zero\<rparr>"

subsection \<open>The JACK backend's structs\<close>

record SoundIoJack =
  jack_client :: "nat option"
  jack_mutex :: "nat option"
  jack_cond :: "nat option"
  refresh_devices_flag :: bool
  jack_sample_rate :: int
  jack_period_size :: int
  is_shutdown :: bool
  emitted_shutdown_cb :: bool

text \<open>A port of a stream: the port of its own and the name of the device port it connects to.\<close>

record SoundIoStreamJackPort =
  own_port :: "nat option"
  peer_port_name :: "string option"

record SoundIoStreamJack =
  sj_client :: "nat option"
  sj_period_size :: int
  sj_frames_left :: int
  sj_hardware_latency :: real
  sj_ports :: "SoundIoStreamJackPort list"
  sj_areas :: "SoundIoChannelArea list"

definition jack_zero :: SoundIoJack where
  "jack_zero = \<lparr>jack_client = None, jack_mutex = None, jack_cond = None, refresh_devices_flag = False,
     jack_sample_rate = 0, jack_period_size = 0, is_shutdown = False, emitted_shutdown_cb = False\<rparr>"

definition sj_zero :: SoundIoStreamJack where
  "sj_zero = \<lparr>sj_client = None, sj_period_size = 0, sj_frames_left = 0, sj_hardware_latency = 0,
     sj_ports = replicate SOUNDIO_MAX_CHANNELS \<lparr>own_port = None, peer_port_name = None\<rparr>,
     sj_areas = replicate SOUNDIO_MAX_CHANNELS area_zero\<rparr>"

subsection \<open>The PulseAudio backend's structs\<close>

text \<open>The buffer attributes of the library's interface; a \<open>size_t\<close> is a 64-bit word.\<close>

record pa_buffer_attr =
  maxlength :: "32 word"
  tlength :: "32 word"
  prebuf :: "32 word"
  minreq :: "32 word"
  fragsize :: "32 word"

record SoundIoPulseAudio =
  device_query_err :: SoundIoError
  connection_err :: SoundIoError
  pulse_emitted_shutdown_cb :: bool
  pulse_context :: "nat option"
  device_scan_queued :: bool
  current_devices_info :: "nat option"
  default_sink_name :: cstring
  default_source_name :: cstring
  ready_devices_info :: "nat option"
  ready_flag :: bool
  main_loop :: "nat option"
  pulse_props :: "nat option"

record SoundIoOutStreamPulseAudio =
  ospa_stream :: "nat option"
  ospa_stream_ready :: bool
  ospa_buffer_attr :: pa_buffer_attr
  ospa_write_ptr :: nat
  ospa_write_byte_count :: "64 word"
  ospa_clear_buffer_flag :: bool
  ospa_areas :: "SoundIoChannelArea list"

record SoundIoInStreamPulseAudio =
  ispa_stream :: "nat option"
  ispa_stream_ready :: bool
  ispa_buffer_attr :: pa_buffer_attr
  ispa_peek_buf :: "nat option"
  ispa_peek_buf_index :: "64 word"
  ispa_peek_buf_size :: "64 word"
  ispa_peek_buf_frames_left :: int
  ispa_read_frame_count :: int
  ispa_areas :: "SoundIoChannelArea list"

definition pulse_zero :: SoundIoPulseAudio where
  "pulse_zero = \<lparr>device_query_err = SoundIoErrorNone, connection_err = SoundIoErrorNone,
     pulse_emitted_shutdown_cb = False, pulse_context = None, device_scan_queued = False,
     current_devices_info = None, default_sink_name = None, default_source_name = None,
     ready_devices_info = None, ready_flag = False, main_loop = None, pulse_props = None\<rparr>"

definition buffer_attr_zero :: pa_buffer_attr where
  "buffer_attr_zero = \<lparr>maxlength = 0, tlength = 0, prebuf = 0, minreq = 0, fragsize = 0\<rparr>"

definition ospa_zero :: SoundIoOutStreamPulseAudio where
  "ospa_zero = \<lparr>ospa_stream = None, ospa_stream_ready = False, ospa_buffer_attr = buffer_attr_zero,
     ospa_write_ptr = 0, ospa_write_byte_count = 0, ospa_clear_buffer_flag = False,
     ospa_areas = replicate SOUNDIO_MAX_CHANNELS area_zero\<rparr>"

definition ispa_zero :: SoundIoInStreamPulseAudio where
  "ispa_zero = \<lparr>ispa_stream = None, ispa_stream_ready = False, ispa_buffer_attr = buffer_attr_zero,
     ispa_peek_buf = None, ispa_peek_buf_index = 0, ispa_peek_buf_size = 0, ispa_peek_buf_frames_left = 0,
     ispa_read_frame_count = 0, ispa_areas = replicate SOUNDIO_MAX_CHANNELS area_zero\<rparr>"

subsection \<open>The ALSA backend's structs\<close>

text \<open>
  The types of the library's interface that the structs hold. A file descriptor is an \<open>int\<close>. A
  pending file is its name, up to the terminating null character.
\<close>

datatype snd_pcm_access =
    SND_PCM_ACCESS_MMAP_INTERLEAVED | SND_PCM_ACCESS_MMAP_NONINTERLEAVED | SND_PCM_ACCESS_MMAP_COMPLEX
  | SND_PCM_ACCESS_RW_INTERLEAVED | SND_PCM_ACCESS_RW_NONINTERLEAVED

datatype (plugins only: code) snd_pcm_chmap_position =
    SND_CHMAP_UNKNOWN | SND_CHMAP_NA | SND_CHMAP_MONO | SND_CHMAP_FL | SND_CHMAP_FR | SND_CHMAP_RL | SND_CHMAP_RR
  | SND_CHMAP_FC | SND_CHMAP_LFE | SND_CHMAP_SL | SND_CHMAP_SR | SND_CHMAP_RC | SND_CHMAP_FLC | SND_CHMAP_FRC
  | SND_CHMAP_RLC | SND_CHMAP_RRC | SND_CHMAP_FLW | SND_CHMAP_FRW | SND_CHMAP_FLH | SND_CHMAP_FCH | SND_CHMAP_FRH
  | SND_CHMAP_TC | SND_CHMAP_TFL | SND_CHMAP_TFR | SND_CHMAP_TFC | SND_CHMAP_TRL | SND_CHMAP_TRR | SND_CHMAP_TRC
  | SND_CHMAP_TFLC | SND_CHMAP_TFRC | SND_CHMAP_TSL | SND_CHMAP_TSR | SND_CHMAP_LLFE | SND_CHMAP_RLFE
  | SND_CHMAP_BC | SND_CHMAP_BLC | SND_CHMAP_BRC | SND_CHMAP_OTHER nat

record snd_pcm_chmap =
  chmap_channels :: "32 word"
  chmap_pos :: "snd_pcm_chmap_position list"

record SoundIoAlsa =
  alsa_mutex :: "nat option"
  alsa_cond :: "nat option"
  alsa_thread :: "nat option"
  alsa_abort_flag :: bool
  notify_fd :: int
  notify_wd :: int
  have_devices_flag :: bool
  notify_pipe_fd :: "int \<times> int"
  pending_files :: "string clist"
  alsa_ready_devices_info :: "nat option"
  shutdown_err :: SoundIoError
  alsa_emitted_shutdown_cb :: bool

text \<open>A channel map is its block and its contents; the frame counts of the library are 64-bit words.\<close>

record SoundIoOutStreamAlsa =
  osa_handle :: "nat option"
  osa_chmap :: "(nat \<times> snd_pcm_chmap) option"
  osa_chmap_size :: int
  osa_offset :: "64 word"
  osa_access :: snd_pcm_access
  osa_buffer_size_frames :: "64 word"
  osa_sample_buffer_size :: int
  osa_sample_buffer :: "nat option"
  osa_poll_fd_count :: int
  osa_poll_fd_count_with_extra :: int
  osa_poll_fds :: "nat option"
  osa_poll_exit_pipe_fd :: "int \<times> int"
  osa_thread :: "nat option"
  osa_thread_exit_flag :: bool
  osa_period_size :: "64 word"
  osa_write_frame_count :: int
  osa_is_paused :: bool
  osa_clear_buffer_flag :: bool
  osa_areas :: "SoundIoChannelArea list"

record SoundIoInStreamAlsa =
  isa_handle :: "nat option"
  isa_chmap :: "(nat \<times> snd_pcm_chmap) option"
  isa_chmap_size :: int
  isa_offset :: "64 word"
  isa_access :: snd_pcm_access
  isa_sample_buffer_size :: int
  isa_sample_buffer :: "nat option"
  isa_poll_fd_count :: int
  isa_poll_fds :: "nat option"
  isa_thread :: "nat option"
  isa_thread_exit_flag :: bool
  isa_period_size :: int
  isa_read_frame_count :: int
  isa_is_paused :: bool
  isa_areas :: "SoundIoChannelArea list"

definition alsa_zero :: SoundIoAlsa where
  "alsa_zero = \<lparr>alsa_mutex = None, alsa_cond = None, alsa_thread = None, alsa_abort_flag = False, notify_fd = 0,
     notify_wd = 0, have_devices_flag = False, notify_pipe_fd = (0, 0), pending_files = clist_zero,
     alsa_ready_devices_info = None, shutdown_err = SoundIoErrorNone, alsa_emitted_shutdown_cb = False\<rparr>"

definition osa_zero :: SoundIoOutStreamAlsa where
  "osa_zero = \<lparr>osa_handle = None, osa_chmap = None, osa_chmap_size = 0, osa_offset = 0,
     osa_access = SND_PCM_ACCESS_MMAP_INTERLEAVED, osa_buffer_size_frames = 0, osa_sample_buffer_size = 0,
     osa_sample_buffer = None, osa_poll_fd_count = 0, osa_poll_fd_count_with_extra = 0, osa_poll_fds = None,
     osa_poll_exit_pipe_fd = (0, 0), osa_thread = None, osa_thread_exit_flag = False, osa_period_size = 0,
     osa_write_frame_count = 0, osa_is_paused = False, osa_clear_buffer_flag = False,
     osa_areas = replicate SOUNDIO_MAX_CHANNELS area_zero\<rparr>"

definition isa_zero :: SoundIoInStreamAlsa where
  "isa_zero = \<lparr>isa_handle = None, isa_chmap = None, isa_chmap_size = 0, isa_offset = 0,
     isa_access = SND_PCM_ACCESS_MMAP_INTERLEAVED, isa_sample_buffer_size = 0, isa_sample_buffer = None,
     isa_poll_fd_count = 0, isa_poll_fds = None, isa_thread = None, isa_thread_exit_flag = False, isa_period_size = 0,
     isa_read_frame_count = 0, isa_is_paused = False, isa_areas = replicate SOUNDIO_MAX_CHANNELS area_zero\<rparr>"

subsection \<open>The CoreAudio backend's structs\<close>

text \<open>
  A buffer of the library: its channels, its size and the address of its samples. A list of buffers
  has as many entries as its count says.
\<close>

record AudioBuffer =
  mNumberChannels :: "32 word"
  mDataByteSize :: "32 word"
  mData :: nat

record SoundIoCoreAudio =
  ca_mutex :: "nat option"
  ca_cond :: "nat option"
  ca_thread :: "nat option"
  ca_abort_flag :: bool
  ca_ready_devices_info :: "nat option"
  ca_have_devices_flag :: bool
  have_devices_cond :: "nat option"
  scan_devices_cond :: "nat option"
  registered_listeners :: "AudioObjectID clist"
  ca_device_scan_queued :: bool
  service_restarted :: bool
  ca_shutdown_err :: SoundIoError
  ca_emitted_shutdown_cb :: bool

record SoundIoOutStreamCoreAudio =
  osca_instance :: "nat option"
  osca_io_data :: "AudioBuffer list option"
  osca_buffer_index :: int
  osca_frames_left :: int
  osca_write_frame_count :: int
  osca_hardware_latency :: real
  osca_volume :: real
  osca_areas :: "SoundIoChannelArea list"

record SoundIoInStreamCoreAudio =
  isca_instance :: "nat option"
  isca_buffer_list :: "(nat \<times> AudioBuffer list) option"
  isca_frames_left :: int
  isca_hardware_latency :: real
  isca_areas :: "SoundIoChannelArea list"

definition ca_zero :: SoundIoCoreAudio where
  "ca_zero = \<lparr>ca_mutex = None, ca_cond = None, ca_thread = None, ca_abort_flag = False, ca_ready_devices_info = None,
     ca_have_devices_flag = False, have_devices_cond = None, scan_devices_cond = None, registered_listeners = clist_zero,
     ca_device_scan_queued = False, service_restarted = False, ca_shutdown_err = SoundIoErrorNone,
     ca_emitted_shutdown_cb = False\<rparr>"

definition osca_zero :: SoundIoOutStreamCoreAudio where
  "osca_zero = \<lparr>osca_instance = None, osca_io_data = None, osca_buffer_index = 0, osca_frames_left = 0,
     osca_write_frame_count = 0, osca_hardware_latency = 0, osca_volume = 0,
     osca_areas = replicate SOUNDIO_MAX_CHANNELS area_zero\<rparr>"

definition isca_zero :: SoundIoInStreamCoreAudio where
  "isca_zero = \<lparr>isca_instance = None, isca_buffer_list = None, isca_frames_left = 0, isca_hardware_latency = 0,
     isca_areas = replicate SOUNDIO_MAX_CHANNELS area_zero\<rparr>"

subsection \<open>Streams\<close>

record SoundIoOutStream =
  os_device :: "nat option"
  os_format :: SoundIoFormat
  os_sample_rate :: int
  os_layout :: SoundIoChannelLayout
  os_software_latency :: real
  os_volume :: real
  os_error_callback_default :: bool
  os_name :: "string option"
  os_non_terminal_hint :: bool
  os_bytes_per_frame :: int
  os_bytes_per_sample :: int
  os_layout_error :: SoundIoError
  osd :: SoundIoOutStreamDummy
  osj :: SoundIoStreamJack
  ospa :: SoundIoOutStreamPulseAudio
  osa :: SoundIoOutStreamAlsa
  osca :: SoundIoOutStreamCoreAudio

record SoundIoInStream =
  is_device :: "nat option"
  is_format :: SoundIoFormat
  is_sample_rate :: int
  is_layout :: SoundIoChannelLayout
  is_software_latency :: real
  is_error_callback_default :: bool
  is_name :: "string option"
  is_non_terminal_hint :: bool
  is_bytes_per_frame :: int
  is_bytes_per_sample :: int
  is_layout_error :: SoundIoError
  isd :: SoundIoInStreamDummy
  isj :: SoundIoStreamJack
  ispa :: SoundIoInStreamPulseAudio
  isa :: SoundIoInStreamAlsa
  isca :: SoundIoInStreamCoreAudio

definition outstream_zero :: SoundIoOutStream where
  "outstream_zero = \<lparr>os_device = None, os_format = SoundIoFormatInvalid, os_sample_rate = 0,
     os_layout = layout_zero, os_software_latency = 0, os_volume = 0, os_error_callback_default = False, os_name = None,
     os_non_terminal_hint = False, os_bytes_per_frame = 0, os_bytes_per_sample = 0,
     os_layout_error = SoundIoErrorNone, osd = osd_zero, osj = sj_zero, ospa = ospa_zero, osa = osa_zero,
     osca = osca_zero\<rparr>"

definition instream_zero :: SoundIoInStream where
  "instream_zero = \<lparr>is_device = None, is_format = SoundIoFormatInvalid, is_sample_rate = 0,
     is_layout = layout_zero, is_software_latency = 0, is_error_callback_default = False, is_name = None,
     is_non_terminal_hint = False, is_bytes_per_frame = 0, is_bytes_per_sample = 0,
     is_layout_error = SoundIoErrorNone, isd = isd_zero, isj = sj_zero, ispa = ispa_zero, isa = isa_zero,
     isca = isca_zero\<rparr>"

subsection \<open>\<open>SoundIoPrivate\<close>\<close>

text \<open>The slots for function pointers.\<close>

datatype vfn =
    V_destroy | V_flush_events | V_wait_events | V_wakeup | V_force_device_scan
  | V_outstream_open | V_outstream_destroy | V_outstream_start | V_outstream_begin_write
  | V_outstream_end_write | V_outstream_clear_buffer | V_outstream_pause | V_outstream_get_latency
  | V_outstream_set_volume
  | V_instream_open | V_instream_destroy | V_instream_start | V_instream_begin_read
  | V_instream_end_read | V_instream_pause | V_instream_get_latency

record SoundIoPrivate =
  current_backend :: SoundIoBackend
  app_name :: string
  emit_rtprio_warning_set :: bool
  on_backend_disconnect_default :: bool
  jack_info_callback_set :: bool
  jack_error_callback_set :: bool
  safe_devices_info :: "nat option"
  vtable :: "vfn \<Rightarrow> SoundIoBackend option"
  dummy :: SoundIoDummy
  jack :: SoundIoJack
  pulseaudio :: SoundIoPulseAudio
  alsa :: SoundIoAlsa
  coreaudio :: SoundIoCoreAudio

datatype event =
    DevicesChange nat | BackendDisconnect nat SoundIoError | EventsSignal nat
  | UnderflowCb nat | OverflowCb nat | OutStreamError nat SoundIoError | InStreamError nat SoundIoError

record sio = devs +
  sios :: "nat \<rightharpoonup> SoundIoPrivate"
  outstreams :: "nat \<rightharpoonup> SoundIoOutStream"
  instreams :: "nat \<rightharpoonup> SoundIoInStream"
  trace :: "event list"

definition emit :: "event \<Rightarrow> 'z sio_scheme \<Rightarrow> 'z sio_scheme" where
  "emit e s = s\<lparr>trace := trace s @ [e]\<rparr>"

subsection \<open>Access through a pointer\<close>

text \<open>Updating a struct that is not there is undefined.\<close>

definition upd_sio :: "nat \<Rightarrow> (SoundIoPrivate \<Rightarrow> SoundIoPrivate) \<Rightarrow> 'z sio_scheme \<Rightarrow> 'z sio_scheme option" where
  "upd_sio si f s = do { x \<leftarrow> sios s si; Some (s\<lparr>sios := (sios s)(si \<mapsto> f x)\<rparr>) }"

definition upd_out :: "nat \<Rightarrow> (SoundIoOutStream \<Rightarrow> SoundIoOutStream) \<Rightarrow> 'z sio_scheme \<Rightarrow> 'z sio_scheme option" where
  "upd_out p f s = do { x \<leftarrow> outstreams s p; Some (s\<lparr>outstreams := (outstreams s)(p \<mapsto> f x)\<rparr>) }"

definition upd_in :: "nat \<Rightarrow> (SoundIoInStream \<Rightarrow> SoundIoInStream) \<Rightarrow> 'z sio_scheme \<Rightarrow> 'z sio_scheme option" where
  "upd_in p f s = do { x \<leftarrow> instreams s p; Some (s\<lparr>instreams := (instreams s)(p \<mapsto> f x)\<rparr>) }"

definition upd_info :: "nat option \<Rightarrow> (SoundIoDevicesInfo \<Rightarrow> SoundIoDevicesInfo) \<Rightarrow> 'z sio_scheme \<Rightarrow> 'z sio_scheme option" where
  "upd_info q f s = do { q \<leftarrow> q; x \<leftarrow> infos s q; Some (s\<lparr>infos := (infos s)(q \<mapsto> f x)\<rparr>) }"

definition upd_dev :: "nat \<Rightarrow> (SoundIoDevice \<Rightarrow> SoundIoDevice) \<Rightarrow> 'z sio_scheme \<Rightarrow> 'z sio_scheme option" where
  "upd_dev p f s = do { x \<leftarrow> devices s p; Some (s\<lparr>devices := (devices s)(p \<mapsto> f x)\<rparr>) }"

abbreviation upd_osd :: "nat \<Rightarrow> (SoundIoOutStreamDummy \<Rightarrow> SoundIoOutStreamDummy) \<Rightarrow> 'z sio_scheme \<Rightarrow> 'z sio_scheme option" where
  "upd_osd p f \<equiv> upd_out p (\<lambda>x. x\<lparr>osd := f (osd x)\<rparr>)"

abbreviation upd_isd :: "nat \<Rightarrow> (SoundIoInStreamDummy \<Rightarrow> SoundIoInStreamDummy) \<Rightarrow> 'z sio_scheme \<Rightarrow> 'z sio_scheme option" where
  "upd_isd p f \<equiv> upd_in p (\<lambda>x. x\<lparr>isd := f (isd x)\<rparr>)"

lemmas upd_defs = upd_sio_def upd_out_def upd_in_def upd_info_def upd_dev_def

subsection \<open>Allocation in explicit form\<close>

text \<open>
  The states after a call to the allocator written as updates, so that a run of the code is
  evaluated by rewriting; \<open>ids_ok\<close> says that everything in the heap has an identifier that was
  handed out.
\<close>

definition ids_ok :: "'z sio_scheme \<Rightarrow> bool" where
  "ids_ok s \<longleftrightarrow> (\<forall>i \<ge> next_id s. i \<notin> blocks s \<and> mutexes s i = None \<and> conds s i = None \<and> threads s i = None \<and>
     devices s i = None \<and> infos s i = None \<and> sios s i = None \<and> outstreams s i = None \<and> instreams s i = None)"

abbreviation bump :: "bool list \<Rightarrow> nat \<Rightarrow> 'z mem_scheme \<Rightarrow> 'z mem_scheme" where
  "bump ans n s \<equiv> s\<lparr>answers := ans, next_id := n\<rparr>"

lemma ask_explicit:
  fixes s :: "'z mem_scheme"
  obtains b ans where "ask s = (b, s\<lparr>answers := ans\<rparr>)"
proof (cases "answers s")
  case Nil
  then have "ask s = (True, s\<lparr>answers := []\<rparr>)" by (simp add: ask_def)
  then show thesis by (rule that)
next
  case (Cons b bs)
  then have "ask s = (b, s\<lparr>answers := bs\<rparr>)" by (simp add: ask_def)
  then show thesis by (rule that)
qed

lemma alloc_explicit:
  fixes s :: "'z mem_scheme"
  obtains (fail) ans where "alloc s = (None, s\<lparr>answers := ans\<rparr>)"
    | (ok) ans where "alloc s = (Some (next_id s), s\<lparr>answers := ans, next_id := Suc (next_id s),
        blocks := insert (next_id s) (blocks s)\<rparr>)"
proof -
  obtain b ans where a: "ask s = (b, s\<lparr>answers := ans\<rparr>)" by (rule ask_explicit)
  show thesis
  proof (cases b)
    case True
    with a show thesis by (intro ok [of ans]) (simp add: alloc_def)
  next
    case False
    with a show thesis by (intro fail [of ans]) (simp add: alloc_def)
  qed
qed

lemma mutex_create_explicit:
  fixes s :: "'z os_scheme"
  assumes "next_id s \<notin> blocks s" and "mutexes s (next_id s) = None"
  obtains (no_mutex) ans n where "soundio_os_mutex_create s = Some (None, s\<lparr>answers := ans, next_id := n\<rparr>)" "next_id s \<le> n"
    | (created) ans where "soundio_os_mutex_create s = Some (Some (next_id s),
        s\<lparr>answers := ans, next_id := Suc (next_id s), blocks := insert (next_id s) (blocks s),
          mutexes := (mutexes s)(next_id s \<mapsto> \<lparr>mutex_id_init = True, mutex_locked = False\<rparr>)\<rparr>)"
proof (cases rule: alloc_explicit [of s])
  case (fail ans)
  show thesis by (rule no_mutex [of "next_id s" ans]) (simp_all add: soundio_os_mutex_create_def soundio_os_mutex_destroy_def fail)
next
  case (ok ans)
  let ?t = "s\<lparr>answers := ans, next_id := Suc (next_id s), blocks := insert (next_id s) (blocks s),
      mutexes := (mutexes s)(next_id s \<mapsto> \<lparr>mutex_id_init = False, mutex_locked = False\<rparr>)\<rparr>"
  obtain b ans' where a: "ask ?t = (b, ?t\<lparr>answers := ans'\<rparr>)" by (rule ask_explicit)
  show thesis
  proof (cases b)
    case True
    show thesis
      by (rule created [of ans']) (use True a in \<open>simp add: soundio_os_mutex_create_def ok\<close>)
  next
    case False
    show thesis
    proof (rule no_mutex [of "Suc (next_id s)" ans'])
      have "insert (next_id s) (blocks s) - {next_id s} = blocks s" using assms(1) by blast
      moreover have "(mutexes s)(next_id s := None) = mutexes s" using assms(2) by (rule fun_upd_idem)
      ultimately show "soundio_os_mutex_create s = Some (None, bump ans' (Suc (next_id s)) s)"
        using False a by (simp add: soundio_os_mutex_create_def ok soundio_os_mutex_destroy_def free_blk_def)
    qed simp
  qed
qed

text \<open>The struct of a usable condition.\<close>

definition cond_made :: SoundIoOsCond where
  "cond_made = \<lparr>cond_id_init = True, cond_attr_init = True, cond_default_mutex_init = True, cond_signals = 0\<rparr>"

lemma cond_create_explicit:
  fixes s :: "'z os_scheme"
  assumes "next_id s \<notin> blocks s" and "conds s (next_id s) = None"
  obtains (no_cond) ans n where "soundio_os_cond_create s = Some (None, s\<lparr>answers := ans, next_id := n\<rparr>)" "next_id s \<le> n"
    | (created) ans where "soundio_os_cond_create s = Some (Some (next_id s),
        s\<lparr>answers := ans, next_id := Suc (next_id s), blocks := insert (next_id s) (blocks s),
          conds := (conds s)(next_id s \<mapsto> cond_made)\<rparr>)"
proof (cases rule: alloc_explicit [of s])
  case (fail ans)
  show thesis by (rule no_cond [of "next_id s" ans]) (simp_all add: soundio_os_cond_create_def soundio_os_cond_destroy_def fail)
next
  case (ok ans)
  let ?c = "next_id s"
  let ?t = "\<lambda>ans x. s\<lparr>answers := ans, next_id := Suc ?c, blocks := insert ?c (blocks s), conds := (conds s)(?c \<mapsto> x)\<rparr>"
  let ?x = "\<lambda>i a m. \<lparr>cond_id_init = i, cond_attr_init = a, cond_default_mutex_init = m, cond_signals = 0\<rparr>"
  have ask_t: "\<exists>b a'. ask (?t a x) = (b, ?t a' x)" for a x
  proof -
    obtain b a' where "ask (?t a x) = (b, (?t a x)\<lparr>answers := a'\<rparr>)" by (rule ask_explicit)
    then show ?thesis by (intro exI [of _ b] exI [of _ a']) simp
  qed
  obtain b1 a1 where 1: "ask (?t ans (?x False False False)) = (b1, ?t a1 (?x False False False))"
    using ask_t by blast
  obtain b2 a2 where 2: "ask (?t a1 (?x False True False)) = (b2, ?t a2 (?x False True False))"
    using ask_t by blast
  obtain b3 a3 where 3: "ask (?t a2 (?x False True False)) = (b3, ?t a3 (?x False True False))"
    using ask_t by blast
  obtain b4 a4 where 4: "ask (?t a3 (?x True True False)) = (b4, ?t a4 (?x True True False))"
    using ask_t by blast
  have "insert ?c (blocks s) - {?c} = blocks s" using assms(1) by blast
  moreover have "(conds s)(?c := None) = conds s" using assms(2) by (rule fun_upd_idem)
  ultimately have give_up: "cond_give_up ?c (?t a x) = Some (None, s\<lparr>answers := a, next_id := Suc ?c\<rparr>)" for a x
    by (simp add: cond_give_up_def soundio_os_cond_destroy_def free_blk_def)
  have eq: "soundio_os_cond_create s =
      (if \<not> b1 then cond_give_up ?c (?t a1 (?x False False False))
       else if \<not> b2 then cond_give_up ?c (?t a2 (?x False True False))
       else if \<not> b3 then cond_give_up ?c (?t a3 (?x False True False))
       else if \<not> b4 then cond_give_up ?c (?t a4 (?x True True False))
       else Some (Some ?c, ?t a4 cond_made))"
    using 1 2 3 4 by (simp add: soundio_os_cond_create_def ok set_cond_def cond_made_def)
  show thesis
  proof (cases "b1 \<and> b2 \<and> b3 \<and> b4")
    case True
    with eq show thesis by (intro created [of a4]) simp
  next
    case False
    then obtain a where "soundio_os_cond_create s = Some (None, s\<lparr>answers := a, next_id := Suc ?c\<rparr>)"
      unfolding eq give_up by (metis (full_types))
    then show thesis by (intro no_cond) auto
  qed
qed

text \<open>The first append to an empty list allocates sixteen cells.\<close>

lemma grow_16_1: "grow 16 1 = Some 16"
  by (subst grow.simps) simp

lemma list_append_first:
  "list_append x clist_zero s =
     (let (b, s) = alloc s
      in case b of None \<Rightarrow> Some (SoundIoErrorNoMem, clist_zero, s)
         | Some b \<Rightarrow> Some (SoundIoErrorNone,
             \<lparr>l_items = Some x # replicate 15 None, l_blk = Some b, l_length = 1, l_capacity = 16\<rparr>, s))"
proof -
  obtain b t where t: "alloc s = (b, t)" by fastforce
  have r: "realloc_blk None s = Some (b, t)" by (cases b) (simp_all add: realloc_blk_def t)
  have "(Suc 15) = 16" by simp
  then have "replicate 16 None = None # replicate 15 (None :: 'a option)" by (metis replicate_Suc)
  then show ?thesis
    by (cases b) (simp_all add: list_append_def list_ensure_capacity_def clist_zero_def soundio_int_max_def
        grow_16_1 r t in_int_def int_max_def int_min_def arr_set_def)
qed

end
