(* ===== verification/Dummy.thy ===== *)
theory Dummy
  imports State
begin

section \<open>src/dummy.c: the dummy backend\<close>

text \<open>
  Every function of the dummy backend, with all its error paths. \<open>si\<close>, \<open>os\<close> and \<open>is\<close> are the
  blocks of the structs the functions get. The two threads are functions of their own, one
  iteration of the loop at a time: the clock readings of the iteration are its inputs, and
  so is the application's callback, a state transformer that gets the stream and the two
  frame counts. What the other threads do (pausing, clearing, destroying) happens between
  iterations, by the operations of this theory.
\<close>

type_synonym 'z callback = "nat \<Rightarrow> int \<Rightarrow> int \<Rightarrow> 'z sio_scheme \<Rightarrow> 'z sio_scheme option"

subsection \<open>The backend itself\<close>

definition destroy_dummy :: "nat \<Rightarrow> 'z sio_scheme \<Rightarrow> 'z sio_scheme option" where
  "destroy_dummy si s = do {
     x \<leftarrow> sios s si;
     let sid = dummy x;
     s \<leftarrow> (if dummy_cond sid \<noteq> None then soundio_os_cond_destroy (dummy_cond sid) s else Some s);
     if dummy_mutex sid \<noteq> None then soundio_os_mutex_destroy (dummy_mutex sid) s else Some s
   }"

definition flush_events_dummy :: "nat \<Rightarrow> 'z sio_scheme \<Rightarrow> 'z sio_scheme option" where
  "flush_events_dummy si s = do {
     x \<leftarrow> sios s si;
     if devices_emitted (dummy x) then Some s
     else do {
       s \<leftarrow> upd_sio si (\<lambda>x. x\<lparr>dummy := (dummy x)\<lparr>devices_emitted := True\<rparr>\<rparr>) s;
       Some (emit (DevicesChange si) s)
     }
   }"

definition wait_events_dummy :: "nat \<Rightarrow> 'z sio_scheme \<Rightarrow> 'z sio_scheme option" where
  "wait_events_dummy si s = do {
     s \<leftarrow> flush_events_dummy si s;
     x \<leftarrow> sios s si;
     soundio_os_cond_wait (dummy_cond (dummy x)) None s
   }"

definition wakeup_dummy :: "nat \<Rightarrow> 'z sio_scheme \<Rightarrow> 'z sio_scheme option" where
  "wakeup_dummy si s = do {
     x \<leftarrow> sios s si;
     soundio_os_cond_signal (dummy_cond (dummy x)) None s
   }"

definition force_device_scan_dummy :: "nat \<Rightarrow> 'z sio_scheme \<Rightarrow> 'z sio_scheme option" where
  "force_device_scan_dummy si s = Some s"

subsection \<open>The devices\<close>

definition SOUNDIO_MIN_SAMPLE_RATE :: int where "SOUNDIO_MIN_SAMPLE_RATE = 8000"
definition SOUNDIO_MAX_SAMPLE_RATE :: int where "SOUNDIO_MAX_SAMPLE_RATE = 5644800"

definition all_formats :: "bool \<Rightarrow> SoundIoFormat list" where
  "all_formats big_endian =
     concat (map (native_foreign_pairs big_endian)
       [(SoundIoFormatFloat32LE, SoundIoFormatFloat32BE), (SoundIoFormatS32LE, SoundIoFormatS32BE),
        (SoundIoFormatU32LE, SoundIoFormatU32BE), (SoundIoFormatS24LE, SoundIoFormatS24BE),
        (SoundIoFormatU24LE, SoundIoFormatU24BE), (SoundIoFormatFloat64LE, SoundIoFormatFloat64BE),
        (SoundIoFormatS16LE, SoundIoFormatS16BE), (SoundIoFormatU16LE, SoundIoFormatU16BE)])
     @ [SoundIoFormatS8, SoundIoFormatU8]"

definition set_all_device_formats ::
  "bool \<Rightarrow> nat \<Rightarrow> 'z sio_scheme \<Rightarrow> (SoundIoError \<times> 'z sio_scheme) option" where
  "set_all_device_formats big_endian device s = do {
     s \<leftarrow> upd_dev device (\<lambda>d. d\<lparr>format_count := 18\<rparr>) s;
     let (b, s) = alloc s;
     case b of
       None \<Rightarrow> do { s \<leftarrow> upd_dev device (\<lambda>d. d\<lparr>formats := FormatsNull\<rparr>) s; Some (SoundIoErrorNoMem, s) }
     | Some b \<Rightarrow> do {
         s \<leftarrow> upd_dev device (\<lambda>d. d\<lparr>formats := FormatsBlock b (all_formats big_endian)\<rparr>) s;
         Some (SoundIoErrorNone, s)
       }
   }"

definition set_all_device_sample_rates :: "nat \<Rightarrow> 'z sio_scheme \<Rightarrow> 'z sio_scheme option" where
  "set_all_device_sample_rates device s =
     upd_dev device (\<lambda>d. d\<lparr>sample_rate_count := 1, sample_rates := RatesPrealloc,
       prealloc_sample_rate_range :=
         \<lparr>range_min = SOUNDIO_MIN_SAMPLE_RATE, range_max = SOUNDIO_MAX_SAMPLE_RATE\<rparr>\<rparr>) s"

fun copy_builtin_layouts :: "nat list \<Rightarrow> SoundIoChannelLayout list option" where
  "copy_builtin_layouts [] = Some []"
| "copy_builtin_layouts (i # is) = do {
     l \<leftarrow> soundio_channel_layout_get_builtin (int i);
     ls \<leftarrow> copy_builtin_layouts is;
     Some (l # ls)
   }"

definition set_all_device_channel_layouts ::
  "nat \<Rightarrow> 'z sio_scheme \<Rightarrow> (SoundIoError \<times> 'z sio_scheme) option" where
  "set_all_device_channel_layouts device s = do {
     let n = soundio_channel_layout_builtin_count;
     s \<leftarrow> upd_dev device (\<lambda>d. d\<lparr>layout_count := n\<rparr>) s;
     let (b, s) = alloc s;
     case b of
       None \<Rightarrow> do { s \<leftarrow> upd_dev device (\<lambda>d. d\<lparr>layouts := LayoutsNull\<rparr>) s; Some (SoundIoErrorNoMem, s) }
     | Some b \<Rightarrow> do {
         ls \<leftarrow> copy_builtin_layouts [0..<nat n];
         s \<leftarrow> upd_dev device (\<lambda>d. d\<lparr>layouts := LayoutsBlock b ls\<rparr>) s;
         Some (SoundIoErrorNone, s)
       }
   }"

subsection \<open>Initialisation\<close>

definition dummy_give_up ::
  "nat \<Rightarrow> nat option \<Rightarrow> SoundIoError \<Rightarrow> 'z sio_scheme \<Rightarrow> (SoundIoError \<times> 'z sio_scheme) option" where
  "dummy_give_up si device err s = do {
     s \<leftarrow> soundio_device_unref device s;
     s \<leftarrow> destroy_dummy si s;
     Some (err, s)
   }"

text \<open>
  The two blocks that create a device differ in its names, its aim and the list that gets
  it. \<open>list_append\<close> on the device list is \<open>SoundIoListDevicePtr_append\<close>.
\<close>

definition append_device ::
  "SoundIoDeviceAim \<Rightarrow> nat option \<Rightarrow> nat \<Rightarrow> 'z sio_scheme \<Rightarrow> (SoundIoError \<times> 'z sio_scheme) option" where
  "append_device a q p s = do {
     q' \<leftarrow> q;
     info \<leftarrow> infos s q';
     (err, l, s) \<leftarrow> list_append p (case a of SoundIoDeviceAimOutput \<Rightarrow> output_devices info
        | SoundIoDeviceAimInput \<Rightarrow> input_devices info) s;
     s \<leftarrow> upd_info q (\<lambda>info. case a of SoundIoDeviceAimOutput \<Rightarrow> info\<lparr>output_devices := l\<rparr>
        | SoundIoDeviceAimInput \<Rightarrow> info\<lparr>input_devices := l\<rparr>) s;
     Some (err, s)
   }"

definition create_dummy_device ::
  "bool \<Rightarrow> nat \<Rightarrow> string \<Rightarrow> string \<Rightarrow> SoundIoDeviceAim \<Rightarrow> 'z sio_scheme \<Rightarrow> (SoundIoError \<times> 'z sio_scheme) option" where
  "create_dummy_device big_endian si id_str name_str a s =
     (let (dev, s) = alloc s
      in case dev of None \<Rightarrow> dummy_give_up si None SoundIoErrorNoMem s
      | Some p \<Rightarrow>
        let s = s\<lparr>devices := (devices s)(p \<mapsto> device_zero\<lparr>ref_count := 1, dev_soundio := Some si\<rparr>)\<rparr>;
            (id, s) = strdup id_str s;
            (nm, s) = strdup name_str s
        in do {
          s \<leftarrow> upd_dev p (\<lambda>d. d\<lparr>dev_id := id, dev_name := nm\<rparr>) s;
          if id = None \<or> nm = None then dummy_give_up si (Some p) SoundIoErrorNoMem s
          else do {
            (err, s) \<leftarrow> set_all_device_channel_layouts p s;
            if err \<noteq> SoundIoErrorNone then dummy_give_up si (Some p) err s
            else do {
              (err, s) \<leftarrow> set_all_device_formats big_endian p s;
              if err \<noteq> SoundIoErrorNone then dummy_give_up si (Some p) err s
              else do {
                s \<leftarrow> set_all_device_sample_rates p s;
                s \<leftarrow> upd_dev p (\<lambda>d. d\<lparr>software_latency_current := 1 / 10, software_latency_min := 1 / 100,
                       software_latency_max := 4, sample_rate_current := 48000, aim := a\<rparr>) s;
                x \<leftarrow> sios s si;
                (err, s) \<leftarrow> append_device a (safe_devices_info x) p s;
                if err \<noteq> SoundIoErrorNone then dummy_give_up si (Some p) SoundIoErrorNoMem s
                else Some (SoundIoErrorNone, s)
              }
            }
          }
        })"

definition dummy_vtable :: "vfn \<Rightarrow> SoundIoBackend option" where
  "dummy_vtable f = (if f = V_outstream_set_volume then None else Some SoundIoBackendDummy)"

text \<open>The devices and the function table, once the lists exist.\<close>

definition dummy_init_devices ::
  "bool \<Rightarrow> nat \<Rightarrow> 'z sio_scheme \<Rightarrow> (SoundIoError \<times> 'z sio_scheme) option" where
  "dummy_init_devices big_endian si s = do {
     (err, s) \<leftarrow> create_dummy_device big_endian si ''dummy-out'' ''Dummy Output Device'' SoundIoDeviceAimOutput s;
     if err \<noteq> SoundIoErrorNone then Some (err, s)
     else do {
       (err, s) \<leftarrow> create_dummy_device big_endian si ''dummy-in'' ''Dummy Input Device'' SoundIoDeviceAimInput s;
       if err \<noteq> SoundIoErrorNone then Some (err, s)
       else do {
         s \<leftarrow> upd_sio si (\<lambda>x. x\<lparr>vtable := (\<lambda>f. if f = V_outstream_set_volume then vtable x f else dummy_vtable f)\<rparr>) s;
         Some (SoundIoErrorNone, s)
       }
     }
   }"

definition info_start :: SoundIoDevicesInfo where
  "info_start = devices_info_zero\<lparr>default_input_index := 0, default_output_index := 0\<rparr>"

definition soundio_dummy_init ::
  "bool \<Rightarrow> nat \<Rightarrow> 'z sio_scheme \<Rightarrow> (SoundIoError \<times> 'z sio_scheme) option" where
  "soundio_dummy_init big_endian si s = do {
     (m, s) \<leftarrow> soundio_os_mutex_create s;
     s \<leftarrow> upd_sio si (\<lambda>x. x\<lparr>dummy := (dummy x)\<lparr>dummy_mutex := m\<rparr>\<rparr>) s;
     if m = None then dummy_give_up si None SoundIoErrorNoMem s
     else do {
       (c, s) \<leftarrow> soundio_os_cond_create s;
       s \<leftarrow> upd_sio si (\<lambda>x. x\<lparr>dummy := (dummy x)\<lparr>dummy_cond := c\<rparr>\<rparr>) s;
       if c = None then dummy_give_up si None SoundIoErrorNoMem s
       else do {
         x \<leftarrow> sios s si;
         c_assert (safe_devices_info x = None);
         let (q, s) = alloc s;
         s \<leftarrow> upd_sio si (\<lambda>x. x\<lparr>safe_devices_info := q\<rparr>) s;
         case q of None \<Rightarrow> dummy_give_up si None SoundIoErrorNoMem s
         | Some q' \<Rightarrow> dummy_init_devices big_endian si (s\<lparr>infos := (infos s)(q' \<mapsto> info_start)\<rparr>)
       }
     }
   }"

subsection \<open>Output streams\<close>

definition outstream_destroy_dummy :: "nat \<Rightarrow> 'z sio_scheme \<Rightarrow> 'z sio_scheme option" where
  "outstream_destroy_dummy p s = do {
     os \<leftarrow> outstreams s p;
     s \<leftarrow> (if osd_thread (osd os) \<noteq> None then do {
         s \<leftarrow> upd_osd p (\<lambda>d. d\<lparr>osd_abort_flag := False\<rparr>) s;
         s \<leftarrow> soundio_os_cond_signal (osd_cond (osd os)) None s;
         s \<leftarrow> soundio_os_thread_destroy (osd_thread (osd os)) s;
         upd_osd p (\<lambda>d. d\<lparr>osd_thread := None\<rparr>) s
       } else Some s);
     s \<leftarrow> soundio_os_cond_destroy (osd_cond (osd os)) s;
     s \<leftarrow> upd_osd p (\<lambda>d. d\<lparr>osd_cond := None\<rparr>) s;
     (rb, s) \<leftarrow> soundio_ring_buffer_deinit (osd_ring_buffer (osd os)) s;
     upd_osd p (\<lambda>d. d\<lparr>osd_ring_buffer := rb\<rparr>) s
   }"

text \<open>The size of a buffer: an \<open>int\<close> product, then a \<open>double\<close> converted to \<open>int\<close>.\<close>

definition buffer_bytes :: "int \<Rightarrow> int \<Rightarrow> real \<Rightarrow> int option" where
  "buffer_bytes bytes_per_frame sample_rate duration = do {
     n \<leftarrow> c_int (bytes_per_frame * sample_rate);
     dbl_to_int (real_of_int n * duration)
   }"

definition outstream_open_dummy :: "nat \<Rightarrow> 'z sio_scheme \<Rightarrow> (SoundIoError \<times> 'z sio_scheme) option" where
  "outstream_open_dummy p s = do {
     os \<leftarrow> outstreams s p;
     dv \<leftarrow> os_device os;
     device \<leftarrow> devices s dv;
     s \<leftarrow> upd_osd p (\<lambda>d. d\<lparr>osd_clear_buffer_flag := True, osd_pause_requested := False\<rparr>) s;
     let latency = (if os_software_latency os = 0
       then soundio_double_clamp (software_latency_min device) 1 (software_latency_max device)
       else os_software_latency os);
     s \<leftarrow> upd_out p (\<lambda>x. x\<lparr>os_software_latency := latency\<rparr>) s;
     s \<leftarrow> upd_osd p (\<lambda>d. d\<lparr>osd_period_duration := latency / 2\<rparr>) s;
     buffer_size \<leftarrow> buffer_bytes (os_bytes_per_frame os) (os_sample_rate os) latency;
     (err, rb, s) \<leftarrow> soundio_ring_buffer_init (osd_ring_buffer (osd os)) buffer_size s;
     s \<leftarrow> upd_osd p (\<lambda>d. d\<lparr>osd_ring_buffer := rb\<rparr>) s;
     if err \<noteq> SoundIoErrorNone then do { s \<leftarrow> outstream_destroy_dummy p s; Some (err, s) }
     else do {
       let actual_capacity = soundio_ring_buffer_capacity rb;
       frame_count \<leftarrow> c_div actual_capacity (os_bytes_per_frame os);
       s \<leftarrow> upd_osd p (\<lambda>d. d\<lparr>osd_buffer_frame_count := frame_count\<rparr>) s;
       latency \<leftarrow> dbl_div (real_of_int frame_count) (real_of_int (os_sample_rate os));
       s \<leftarrow> upd_out p (\<lambda>x. x\<lparr>os_software_latency := latency\<rparr>) s;
       (c, s) \<leftarrow> soundio_os_cond_create s;
       s \<leftarrow> upd_osd p (\<lambda>d. d\<lparr>osd_cond := c\<rparr>) s;
       if c = None then do { s \<leftarrow> outstream_destroy_dummy p s; Some (SoundIoErrorNoMem, s) }
       else Some (SoundIoErrorNone, s)
     }
   }"

definition outstream_pause_dummy :: "nat \<Rightarrow> bool \<Rightarrow> 'z sio_scheme \<Rightarrow> (SoundIoError \<times> 'z sio_scheme) option" where
  "outstream_pause_dummy p pause s = do {
     s \<leftarrow> upd_osd p (\<lambda>d. d\<lparr>osd_pause_requested := pause\<rparr>) s;
     Some (SoundIoErrorNone, s)
   }"

definition outstream_start_dummy :: "nat \<Rightarrow> nat \<Rightarrow> 'z sio_scheme \<Rightarrow> (SoundIoError \<times> 'z sio_scheme) option" where
  "outstream_start_dummy si p s = do {
     x \<leftarrow> sios s si;
     os \<leftarrow> outstreams s p;
     c_assert (osd_thread (osd os) = None);
     s \<leftarrow> upd_osd p (\<lambda>d. d\<lparr>osd_abort_flag := True\<rparr>) s;
     (err, t, s) \<leftarrow> soundio_os_thread_create playback_thread_run (emit_rtprio_warning_set x) s;
     s \<leftarrow> upd_osd p (\<lambda>d. d\<lparr>osd_thread := t\<rparr>) s;
     Some (err, s)
   }"

text \<open>The areas of the channels: one per channel, interleaved from the pointer on.\<close>

definition interleave_areas ::
  "nat \<Rightarrow> int \<Rightarrow> int \<Rightarrow> int \<Rightarrow> SoundIoChannelArea list \<Rightarrow> SoundIoChannelArea list option" where
  "interleave_areas ptr bytes_per_sample bytes_per_frame channel_count areas =
     for_each (\<lambda>ch areas. arr_set areas (int ch)
         \<lparr>area_ptr = nat (int ptr + bytes_per_sample * int ch), area_step = bytes_per_frame\<rparr>)
       [0..<nat channel_count] areas"

text \<open>The result is the error and the areas; \<open>frame_count\<close> is not changed.\<close>

definition outstream_begin_write_dummy ::
  "nat \<Rightarrow> int \<Rightarrow> 'z sio_scheme \<Rightarrow> (SoundIoError \<times> SoundIoChannelArea list \<times> 'z sio_scheme) option" where
  "outstream_begin_write_dummy p frame_count s = do {
     os \<leftarrow> outstreams s p;
     if frame_count > osd_frames_left (osd os) then Some (SoundIoErrorInvalid, [], s)
     else do {
       write_ptr \<leftarrow> soundio_ring_buffer_write_ptr (osd_ring_buffer (osd os));
       areas \<leftarrow> interleave_areas write_ptr (os_bytes_per_sample os) (os_bytes_per_frame os)
         (cl_channel_count (os_layout os)) (osd_areas (osd os));
       s \<leftarrow> upd_osd p (\<lambda>d. d\<lparr>osd_areas := areas, osd_write_frame_count := frame_count\<rparr>) s;
       Some (SoundIoErrorNone, areas, s)
     }
   }"

definition outstream_end_write_dummy :: "nat \<Rightarrow> 'z sio_scheme \<Rightarrow> (SoundIoError \<times> 'z sio_scheme) option" where
  "outstream_end_write_dummy p s = do {
     os \<leftarrow> outstreams s p;
     byte_count \<leftarrow> c_int (osd_write_frame_count (osd os) * os_bytes_per_frame os);
     rb \<leftarrow> soundio_ring_buffer_advance_write_ptr (osd_ring_buffer (osd os)) byte_count;
     left \<leftarrow> c_int (osd_frames_left (osd os) - osd_write_frame_count (osd os));
     s \<leftarrow> upd_osd p (\<lambda>d. d\<lparr>osd_ring_buffer := rb, osd_frames_left := left\<rparr>) s;
     Some (SoundIoErrorNone, s)
   }"

definition outstream_clear_buffer_dummy :: "nat \<Rightarrow> 'z sio_scheme \<Rightarrow> (SoundIoError \<times> 'z sio_scheme) option" where
  "outstream_clear_buffer_dummy p s = do {
     s \<leftarrow> upd_osd p (\<lambda>d. d\<lparr>osd_clear_buffer_flag := False\<rparr>) s;
     os \<leftarrow> outstreams s p;
     s \<leftarrow> soundio_os_cond_signal (osd_cond (osd os)) None s;
     Some (SoundIoErrorNone, s)
   }"

definition outstream_get_latency_dummy :: "nat \<Rightarrow> 'z sio_scheme \<Rightarrow> (SoundIoError \<times> real) option" where
  "outstream_get_latency_dummy p s = do {
     os \<leftarrow> outstreams s p;
     fill_bytes \<leftarrow> soundio_ring_buffer_fill_count (osd_ring_buffer (osd os));
     frames \<leftarrow> c_div fill_bytes (os_bytes_per_frame os);
     latency \<leftarrow> dbl_div (real_of_int frames) (real_of_int (os_sample_rate os));
     Some (SoundIoErrorNone, latency)
   }"

subsection \<open>The playback thread\<close>

text \<open>The local variables of the thread function.\<close>

record thread_vars =
  start_time :: real
  frames_consumed :: int

definition ask_to_write :: "'z callback \<Rightarrow> nat \<Rightarrow> int \<Rightarrow> 'z sio_scheme \<Rightarrow> 'z sio_scheme option" where
  "ask_to_write write_callback p free_frames s = do {
     s \<leftarrow> upd_osd p (\<lambda>d. d\<lparr>osd_frames_left := free_frames\<rparr>) s;
     if free_frames > 0 then write_callback p 0 free_frames s else Some s
   }"

text \<open>Before the loop. \<open>t0\<close> is the clock after the first callback.\<close>

definition playback_thread_start ::
  "'z callback \<Rightarrow> nat \<Rightarrow> real \<Rightarrow> 'z sio_scheme \<Rightarrow> (thread_vars \<times> 'z sio_scheme) option" where
  "playback_thread_start write_callback p t0 s = do {
     os \<leftarrow> outstreams s p;
     fill_bytes \<leftarrow> soundio_ring_buffer_fill_count (osd_ring_buffer (osd os));
     free_bytes \<leftarrow> c_int (soundio_ring_buffer_capacity (osd_ring_buffer (osd os)) - fill_bytes);
     free_frames \<leftarrow> c_div free_bytes (os_bytes_per_frame os);
     s \<leftarrow> ask_to_write write_callback p free_frames s;
     Some (\<lparr>start_time = t0, frames_consumed = 0\<rparr>, s)
   }"

text \<open>The time until the next period, for the timed wait.\<close>

definition relative_wait :: "real \<Rightarrow> real \<Rightarrow> real \<Rightarrow> real option" where
  "relative_wait start now period = do {
     let time_passed = now - start;
     periods \<leftarrow> dbl_div time_passed period;
     k \<leftarrow> ceil_dbl periods;
     let next_period = start + k * period;
     Some (next_period - now)
   }"

text \<open>\<open>int frames_to_kill = total_frames - frames_consumed\<close>, from \<open>long\<close> values.\<close>

definition frames_due :: "real \<Rightarrow> int \<Rightarrow> int \<Rightarrow> int option" where
  "frames_due total_time sample_rate consumed = do {
     let total_frames = dbl_trunc (total_time * real_of_int sample_rate);
     c_assert (in_llong total_frames);
     Some (to_int32 (total_frames - consumed))
   }"

text \<open>
  One iteration of the loop, with the clock readings \<open>now\<close> (at its start), \<open>t1\<close> (when the
  frames to consume are computed) and \<open>t2\<close> (after a callback that restarts the clock), and
  \<open>wall\<close> the time as \<open>soundio_os_cond_timed_wait\<close> reads it. The loop is left when
  \<open>abort_flag\<close> was cleared.
\<close>

definition playback_thread_iteration ::
  "'z callback \<Rightarrow> nat \<Rightarrow> int \<times> int \<Rightarrow> real \<Rightarrow> real \<Rightarrow> real \<Rightarrow> thread_vars \<Rightarrow> 'z sio_scheme \<Rightarrow>
   (bool \<times> thread_vars \<times> 'z sio_scheme) option" where
  "playback_thread_iteration write_callback p wall now t1 t2 v s = do {
     os \<leftarrow> outstreams s p;
     s \<leftarrow> upd_osd p (\<lambda>d. d\<lparr>osd_abort_flag := True\<rparr>) s;
     if \<not> osd_abort_flag (osd os) then Some (False, v, s)
     else do {
       relative_time \<leftarrow> relative_wait (start_time v) now (osd_period_duration (osd os));
       s \<leftarrow> soundio_os_cond_timed_wait (osd_cond (osd os)) None wall relative_time s;
       os \<leftarrow> outstreams s p;
       s \<leftarrow> upd_osd p (\<lambda>d. d\<lparr>osd_clear_buffer_flag := True\<rparr>) s;
       if \<not> osd_clear_buffer_flag (osd os) then do {
         let rb = soundio_ring_buffer_clear (osd_ring_buffer (osd os));
         s \<leftarrow> upd_osd p (\<lambda>d. d\<lparr>osd_ring_buffer := rb\<rparr>) s;
         free_frames \<leftarrow> c_div (soundio_ring_buffer_capacity rb) (os_bytes_per_frame os);
         s \<leftarrow> ask_to_write write_callback p free_frames s;
         Some (True, \<lparr>start_time = t2, frames_consumed = 0\<rparr>, s)
       }
       else if osd_pause_requested (osd os) then
         Some (True, \<lparr>start_time = now, frames_consumed = 0\<rparr>, s)
       else do {
         fill_bytes \<leftarrow> soundio_ring_buffer_fill_count (osd_ring_buffer (osd os));
         fill_frames \<leftarrow> c_div fill_bytes (os_bytes_per_frame os);
         free_bytes \<leftarrow> c_int (soundio_ring_buffer_capacity (osd_ring_buffer (osd os)) - fill_bytes);
         free_frames \<leftarrow> c_div free_bytes (os_bytes_per_frame os);
         frames_to_kill \<leftarrow> frames_due (t1 - start_time v) (os_sample_rate os) (frames_consumed v);
         let read_count = soundio_int_min frames_to_kill fill_frames;
         byte_count \<leftarrow> c_int (read_count * os_bytes_per_frame os);
         rb \<leftarrow> soundio_ring_buffer_advance_read_ptr (osd_ring_buffer (osd os)) byte_count;
         s \<leftarrow> upd_osd p (\<lambda>d. d\<lparr>osd_ring_buffer := rb\<rparr>) s;
         let v = v\<lparr>frames_consumed := frames_consumed v + read_count\<rparr>;
         if frames_to_kill > fill_frames then do {
           let s = emit (UnderflowCb p) s;
           s \<leftarrow> ask_to_write write_callback p free_frames s;
           Some (True, \<lparr>start_time = t2, frames_consumed = 0\<rparr>, s)
         }
         else if free_frames > 0 then do {
           s \<leftarrow> ask_to_write write_callback p free_frames s;
           Some (True, v, s)
         }
         else Some (True, v, s)
       }
     }
   }"

subsection \<open>Input streams\<close>

definition instream_destroy_dummy :: "nat \<Rightarrow> 'z sio_scheme \<Rightarrow> 'z sio_scheme option" where
  "instream_destroy_dummy p s = do {
     is \<leftarrow> instreams s p;
     s \<leftarrow> (if isd_thread (isd is) \<noteq> None then do {
         s \<leftarrow> upd_isd p (\<lambda>d. d\<lparr>isd_abort_flag := False\<rparr>) s;
         s \<leftarrow> soundio_os_cond_signal (isd_cond (isd is)) None s;
         s \<leftarrow> soundio_os_thread_destroy (isd_thread (isd is)) s;
         upd_isd p (\<lambda>d. d\<lparr>isd_thread := None\<rparr>) s
       } else Some s);
     s \<leftarrow> soundio_os_cond_destroy (isd_cond (isd is)) s;
     s \<leftarrow> upd_isd p (\<lambda>d. d\<lparr>isd_cond := None\<rparr>) s;
     (rb, s) \<leftarrow> soundio_ring_buffer_deinit (isd_ring_buffer (isd is)) s;
     upd_isd p (\<lambda>d. d\<lparr>isd_ring_buffer := rb\<rparr>) s
   }"

definition instream_open_dummy :: "nat \<Rightarrow> 'z sio_scheme \<Rightarrow> (SoundIoError \<times> 'z sio_scheme) option" where
  "instream_open_dummy p s = do {
     is \<leftarrow> instreams s p;
     dv \<leftarrow> is_device is;
     device \<leftarrow> devices s dv;
     s \<leftarrow> upd_isd p (\<lambda>d. d\<lparr>isd_pause_requested := False\<rparr>) s;
     let latency = (if is_software_latency is = 0
       then soundio_double_clamp (software_latency_min device) 1 (software_latency_max device)
       else is_software_latency is);
     s \<leftarrow> upd_in p (\<lambda>x. x\<lparr>is_software_latency := latency\<rparr>) s;
     s \<leftarrow> upd_isd p (\<lambda>d. d\<lparr>isd_period_duration := latency\<rparr>) s;
     let target_buffer_duration = latency * 4;
     buffer_size \<leftarrow> buffer_bytes (is_bytes_per_frame is) (is_sample_rate is) target_buffer_duration;
     (err, rb, s) \<leftarrow> soundio_ring_buffer_init (isd_ring_buffer (isd is)) buffer_size s;
     s \<leftarrow> upd_isd p (\<lambda>d. d\<lparr>isd_ring_buffer := rb\<rparr>) s;
     if err \<noteq> SoundIoErrorNone then do { s \<leftarrow> instream_destroy_dummy p s; Some (err, s) }
     else do {
       let actual_capacity = soundio_ring_buffer_capacity rb;
       frame_count \<leftarrow> c_div actual_capacity (is_bytes_per_frame is);
       s \<leftarrow> upd_isd p (\<lambda>d. d\<lparr>isd_buffer_frame_count := frame_count\<rparr>) s;
       (c, s) \<leftarrow> soundio_os_cond_create s;
       s \<leftarrow> upd_isd p (\<lambda>d. d\<lparr>isd_cond := c\<rparr>) s;
       if c = None then do { s \<leftarrow> instream_destroy_dummy p s; Some (SoundIoErrorNoMem, s) }
       else Some (SoundIoErrorNone, s)
     }
   }"

definition instream_pause_dummy :: "nat \<Rightarrow> bool \<Rightarrow> 'z sio_scheme \<Rightarrow> (SoundIoError \<times> 'z sio_scheme) option" where
  "instream_pause_dummy p pause s = do {
     s \<leftarrow> upd_isd p (\<lambda>d. d\<lparr>isd_pause_requested := pause\<rparr>) s;
     Some (SoundIoErrorNone, s)
   }"

definition instream_start_dummy :: "nat \<Rightarrow> nat \<Rightarrow> 'z sio_scheme \<Rightarrow> (SoundIoError \<times> 'z sio_scheme) option" where
  "instream_start_dummy si p s = do {
     x \<leftarrow> sios s si;
     is \<leftarrow> instreams s p;
     c_assert (isd_thread (isd is) = None);
     s \<leftarrow> upd_isd p (\<lambda>d. d\<lparr>isd_abort_flag := True\<rparr>) s;
     (err, t, s) \<leftarrow> soundio_os_thread_create capture_thread_run (emit_rtprio_warning_set x) s;
     s \<leftarrow> upd_isd p (\<lambda>d. d\<lparr>isd_thread := t\<rparr>) s;
     Some (err, s)
   }"

definition instream_begin_read_dummy ::
  "nat \<Rightarrow> int \<Rightarrow> 'z sio_scheme \<Rightarrow> (SoundIoError \<times> SoundIoChannelArea list \<times> 'z sio_scheme) option" where
  "instream_begin_read_dummy p frame_count s = do {
     is \<leftarrow> instreams s p;
     c_assert (frame_count \<le> isd_frames_left (isd is));
     read_ptr \<leftarrow> soundio_ring_buffer_read_ptr (isd_ring_buffer (isd is));
     areas \<leftarrow> interleave_areas read_ptr (is_bytes_per_sample is) (is_bytes_per_frame is)
       (cl_channel_count (is_layout is)) (isd_areas (isd is));
     s \<leftarrow> upd_isd p (\<lambda>d. d\<lparr>isd_areas := areas, isd_read_frame_count := frame_count\<rparr>) s;
     Some (SoundIoErrorNone, areas, s)
   }"

definition instream_end_read_dummy :: "nat \<Rightarrow> 'z sio_scheme \<Rightarrow> (SoundIoError \<times> 'z sio_scheme) option" where
  "instream_end_read_dummy p s = do {
     is \<leftarrow> instreams s p;
     byte_count \<leftarrow> c_int (isd_read_frame_count (isd is) * is_bytes_per_frame is);
     rb \<leftarrow> soundio_ring_buffer_advance_read_ptr (isd_ring_buffer (isd is)) byte_count;
     left \<leftarrow> c_int (isd_frames_left (isd is) - isd_read_frame_count (isd is));
     s \<leftarrow> upd_isd p (\<lambda>d. d\<lparr>isd_ring_buffer := rb, isd_frames_left := left\<rparr>) s;
     Some (SoundIoErrorNone, s)
   }"

definition instream_get_latency_dummy :: "nat \<Rightarrow> 'z sio_scheme \<Rightarrow> (SoundIoError \<times> real) option" where
  "instream_get_latency_dummy p s = do {
     is \<leftarrow> instreams s p;
     fill_bytes \<leftarrow> soundio_ring_buffer_fill_count (isd_ring_buffer (isd is));
     frames \<leftarrow> c_div fill_bytes (is_bytes_per_frame is);
     latency \<leftarrow> dbl_div (real_of_int frames) (real_of_int (is_sample_rate is));
     Some (SoundIoErrorNone, latency)
   }"

subsection \<open>The capture thread\<close>

definition capture_thread_start :: "real \<Rightarrow> thread_vars" where
  "capture_thread_start t0 = \<lparr>start_time = t0, frames_consumed = 0\<rparr>"

definition capture_thread_iteration ::
  "'z callback \<Rightarrow> nat \<Rightarrow> int \<times> int \<Rightarrow> real \<Rightarrow> real \<Rightarrow> real \<Rightarrow> thread_vars \<Rightarrow> 'z sio_scheme \<Rightarrow>
   (bool \<times> thread_vars \<times> 'z sio_scheme) option" where
  "capture_thread_iteration read_callback p wall now t1 t2 v s = do {
     is \<leftarrow> instreams s p;
     s \<leftarrow> upd_isd p (\<lambda>d. d\<lparr>isd_abort_flag := True\<rparr>) s;
     if \<not> isd_abort_flag (isd is) then Some (False, v, s)
     else do {
       relative_time \<leftarrow> relative_wait (start_time v) now (isd_period_duration (isd is));
       s \<leftarrow> soundio_os_cond_timed_wait (isd_cond (isd is)) None wall relative_time s;
       is \<leftarrow> instreams s p;
       if isd_pause_requested (isd is) then
         Some (True, \<lparr>start_time = now, frames_consumed = 0\<rparr>, s)
       else do {
         fill_bytes \<leftarrow> soundio_ring_buffer_fill_count (isd_ring_buffer (isd is));
         free_bytes \<leftarrow> c_int (soundio_ring_buffer_capacity (isd_ring_buffer (isd is)) - fill_bytes);
         fill_frames \<leftarrow> c_div fill_bytes (is_bytes_per_frame is);
         free_frames \<leftarrow> c_div free_bytes (is_bytes_per_frame is);
         frames_to_kill \<leftarrow> frames_due (t1 - start_time v) (is_sample_rate is) (frames_consumed v);
         let write_count = soundio_int_min frames_to_kill free_frames;
         byte_count \<leftarrow> c_int (write_count * is_bytes_per_frame is);
         rb \<leftarrow> soundio_ring_buffer_advance_write_ptr (isd_ring_buffer (isd is)) byte_count;
         s \<leftarrow> upd_isd p (\<lambda>d. d\<lparr>isd_ring_buffer := rb\<rparr>) s;
         let v = v\<lparr>frames_consumed := frames_consumed v + write_count\<rparr>;
         let (v, s) = (if frames_to_kill > free_frames
           then (\<lparr>start_time = t2, frames_consumed = 0\<rparr>, emit (OverflowCb p) s) else (v, s));
         if fill_frames > 0 then do {
           s \<leftarrow> upd_isd p (\<lambda>d. d\<lparr>isd_frames_left := fill_frames\<rparr>) s;
           s \<leftarrow> read_callback p 0 fill_frames s;
           Some (True, v, s)
         }
         else Some (True, v, s)
       }
     }
   }"

end
