(* ===== verification/DummyInit.thy ===== *)
theory DummyInit
  imports Dummy
begin

section \<open>The dummy backend comes and goes\<close>

text \<open>
  What \<open>soundio_dummy_init\<close> does on every outcome of the allocator and of the operating system:
  a device is built or undone completely, and so is the backend. The runs are evaluated by
  rewriting, with the states written as explicit updates.
\<close>

subsection \<open>Lemmas: the creation of a device\<close>

lemma copy_builtin_layouts_map:
  "\<forall>i \<in> set is. i < 26 \<Longrightarrow> copy_builtin_layouts is = Some (map ((!) builtin_channel_layouts) is)"
  by (induction "is") (simp_all add: get_builtin_in_range)

lemma length_builtin: "length builtin_channel_layouts = 26"
  by (simp add: builtin_channel_layouts_def builtin_layouts_upto_5_def builtin_layouts_from_6_def)

lemma builtin_count_26: "soundio_channel_layout_builtin_count = 26"
  by (simp add: soundio_channel_layout_builtin_count_def length_builtin)

lemma copy_all_builtin: "copy_builtin_layouts [0..<26] = Some builtin_channel_layouts"
  using copy_builtin_layouts_map [of "[0..<26]"] map_nth [of builtin_channel_layouts]
  by (simp add: length_builtin del: upt_rec_numeral)

text \<open>The state while the device at \<open>p\<close> is under construction: \<open>d\<close> so far, with the blocks \<open>B\<close> live.\<close>

definition building ::
  "'z sio_scheme \<Rightarrow> nat \<Rightarrow> bool list \<Rightarrow> nat \<Rightarrow> nat set \<Rightarrow> SoundIoDevice \<Rightarrow> 'z sio_scheme" where
  "building s p ans k B d = s\<lparr>answers := ans, next_id := k, blocks := B, devices := (devices s)(p \<mapsto> d)\<rparr>"

lemma building_sel [simp]:
  "sios (building s p ans k B d) = sios s" "infos (building s p ans k B d) = infos s"
  "devices (building s p ans k B d) p = Some d" "next_id (building s p ans k B d) = k"
  "blocks (building s p ans k B d) = B"
  by (simp_all add: building_def)

lemma upd_dev_building [simp]: "upd_dev p f (building s p ans k B d) = Some (building s p ans k B (f d))"
  by (simp add: upd_dev_def building_def)

lemma alloc_building:
  obtains (fail) ans' where "alloc (building s p ans k B d) = (None, building s p ans' k B d)"
    | (ok) ans' where "alloc (building s p ans k B d) = (Some k, building s p ans' (Suc k) (insert k B) d)"
proof (cases rule: alloc_explicit [of "building s p ans k B d"])
  case (fail a)
  then show thesis by (intro that(1) [of a]) (simp add: building_def)
next
  case (ok a)
  then show thesis by (intro that(2) [of a]) (simp add: building_def)
qed

text \<open>Dropping the only reference to the device undoes the construction.\<close>

lemma unref_building:
  assumes "ref_count d = 1" and "distinct (dev_blocks p d)" and "jack_ports_ok d"
    and "B = blocks s \<union> set (dev_blocks p d)" and "blocks s \<inter> set (dev_blocks p d) = {}" and "devices s p = None"
  shows "dummy_give_up si (Some p) err (building s p ans k B d) = dummy_give_up si None err (bump ans k s)"
proof -
  let ?u = "building s p ans k B d"
  have "dev_ok p d ?u" using assms by (simp add: dev_ok_def)
  then have "soundio_device_unref (Some p) ?u =
      Some (?u\<lparr>blocks := B - set (dev_blocks p d), devices := (devices ?u)(p := None)\<rparr>)"
    using device_unref_spec [of ?u p d] assms(1)
    by (simp add: unref_frees_def after_unref_def in_int_def int_max_def int_min_def)
  also have "B - set (dev_blocks p d) = blocks s" using assms(4,5) by blast
  also have "(devices ?u)(p := None) = devices s" using assms(6) by (simp add: building_def fun_upd_idem)
  finally have "soundio_device_unref (Some p) ?u = Some (bump ans k s)" by (simp add: building_def)
  then show ?thesis by (simp add: dummy_give_up_def soundio_device_unref_def [of None])
qed

text \<open>The device that the code builds in the blocks \<open>p\<close> to \<open>p + 4\<close>.\<close>

definition dummy_device :: "bool \<Rightarrow> nat \<Rightarrow> string \<Rightarrow> string \<Rightarrow> SoundIoDeviceAim \<Rightarrow> nat \<Rightarrow> SoundIoDevice" where
  "dummy_device big_endian si id_str name_str a p =
     device_zero\<lparr>ref_count := 1, dev_soundio := Some si, dev_id := Some (p + 1, id_str), dev_name := Some (p + 2, name_str),
       layout_count := 26, layouts := LayoutsBlock (p + 3) builtin_channel_layouts,
       format_count := 18, formats := FormatsBlock (p + 4) (all_formats big_endian),
       sample_rate_count := 1, sample_rates := RatesPrealloc,
       prealloc_sample_rate_range := \<lparr>range_min = SOUNDIO_MIN_SAMPLE_RATE, range_max = SOUNDIO_MAX_SAMPLE_RATE\<rparr>,
       software_latency_current := 1 / 10, software_latency_min := 1 / 100, software_latency_max := 4,
       sample_rate_current := 48000, aim := a\<rparr>"

definition list_one :: "nat \<Rightarrow> nat \<Rightarrow> nat clist" where
  "list_one b p = \<lparr>l_items = Some p # replicate 15 None, l_blk = Some b, l_length = 1, l_capacity = 16\<rparr>"

definition with_device :: "SoundIoDeviceAim \<Rightarrow> nat \<Rightarrow> nat \<Rightarrow> SoundIoDevicesInfo \<Rightarrow> SoundIoDevicesInfo" where
  "with_device a b p info = (case a of SoundIoDeviceAimOutput \<Rightarrow> info\<lparr>output_devices := list_one b p\<rparr>
     | SoundIoDeviceAimInput \<Rightarrow> info\<lparr>input_devices := list_one b p\<rparr>)"

definition aim_list :: "SoundIoDeviceAim \<Rightarrow> SoundIoDevicesInfo \<Rightarrow> nat clist" where
  "aim_list a info = (case a of SoundIoDeviceAimOutput \<Rightarrow> output_devices info | SoundIoDeviceAimInput \<Rightarrow> input_devices info)"

lemmas dev_blocks_simps = dev_blocks_def device_zero_def rates_blocks_def formats_blocks_def layouts_blocks_def
  clist_zero_def jack_ports_ok_def dev_ok_def

lemma append_device_first_aux:
  assumes i: "infos u q = Some info" and l: "aim_list a info = clist_zero" and v: "alloc u = (b, v)" and v': "infos v = infos u"
  shows "append_device a (Some q) p u =
    (case b of None \<Rightarrow> Some (SoundIoErrorNoMem, v)
        | Some b \<Rightarrow> Some (SoundIoErrorNone, v\<lparr>infos := (infos v)(q \<mapsto> with_device a b p info)\<rparr>))"
proof -
  have i': "infos v q = Some info" using i v' by simp
  have same: "(infos v)(q \<mapsto> info) = infos v" using i' by (rule fun_upd_idem)
  have keep: "(case a of SoundIoDeviceAimOutput \<Rightarrow> info\<lparr>output_devices := clist_zero\<rparr>
        | SoundIoDeviceAimInput \<Rightarrow> info\<lparr>input_devices := clist_zero\<rparr>) = info"
    using l by (cases info; cases a) (simp_all add: aim_list_def)
  have items: "(case a of SoundIoDeviceAimOutput \<Rightarrow> output_devices info
        | SoundIoDeviceAimInput \<Rightarrow> input_devices info) = clist_zero"
    using l by (simp add: aim_list_def)
  show ?thesis
  proof (cases b)
    case None
    show ?thesis
      by (simp only: append_device_def Option.bind.simps i items list_append_first v None Let_def prod.case option.case upd_info_def i' keep same) simp
  next
    case (Some c)
    show ?thesis
      by (simp only: append_device_def Option.bind.simps i items list_append_first v Some Let_def prod.case option.case upd_info_def i' with_device_def list_one_def)
  qed
qed
lemma append_device_first:
  assumes "infos u q = Some info" and "aim_list a info = clist_zero"
  shows "append_device a (Some q) p u =
    (let (b, v) = alloc u
     in case b of None \<Rightarrow> Some (SoundIoErrorNoMem, v)
        | Some b \<Rightarrow> Some (SoundIoErrorNone, v\<lparr>infos := (infos v)(q \<mapsto> with_device a b p info)\<rparr>))"
proof -
  obtain b v where v: "alloc u = (b, v)" by fastforce
  have "infos v = infos u"
    by (rule alloc_explicit [of u]) (use v in simp_all)
  from append_device_first_aux [OF assms v this] show ?thesis by (simp only: v Let_def prod.case)
qed

lemma create_dummy_device_explicit:
  fixes s :: "'z sio_scheme"
  assumes ids: "ids_ok s" and si: "sios s si = Some x" "safe_devices_info x = Some q" "infos s q = Some info"
    and l: "aim_list a info = clist_zero"
  obtains (no_device) ans n where
      "create_dummy_device big_endian si id_str name_str a s = dummy_give_up si None SoundIoErrorNoMem (bump ans n s)"
      "next_id s \<le> n"
    | (created) ans where
      "create_dummy_device big_endian si id_str name_str a s = Some (SoundIoErrorNone,
         s\<lparr>answers := ans, next_id := next_id s + 6, blocks := blocks s \<union> {next_id s..next_id s + 5},
           devices := (devices s)(next_id s \<mapsto> dummy_device big_endian si id_str name_str a (next_id s)),
           infos := (infos s)(q \<mapsto> with_device a (next_id s + 5) (next_id s) info)\<rparr>)"
proof (cases rule: alloc_explicit [of s])
  case (fail ans)
  show thesis by (rule no_device [of "next_id s" ans]) (simp_all add: create_dummy_device_def fail)
next
  case (ok a1)
  let ?p = "next_id s"
  let ?b = "building s ?p"
  let ?d0 = "device_zero\<lparr>ref_count := 1, dev_soundio := Some si\<rparr>"
  have fresh: "\<And>i. ?p \<le> i \<Longrightarrow> i \<notin> blocks s" "devices s ?p = None"
    using ids by (auto simp: ids_ok_def)
  have start: "s\<lparr>answers := a1, next_id := Suc ?p, blocks := insert ?p (blocks s),
      devices := (devices s)(?p \<mapsto> ?d0)\<rparr> = ?b a1 (Suc ?p) (insert ?p (blocks s)) ?d0"
    by (simp add: building_def)
  note run = create_dummy_device_def ok start strdup_def set_all_device_channel_layouts_def builtin_count_26
    copy_all_builtin set_all_device_formats_def set_all_device_sample_rates_def si append_device_first [where info = info, OF _ l]

  have dist: "blocks s \<inter> set (dev_blocks ?p d) = {}" if "set (dev_blocks ?p d) \<subseteq> {?p..}" for d
    using fresh(1) that by auto
  note undo = unref_building [OF _ _ _ _ dist fresh(2)]
  let ?run = "create_dummy_device big_endian si id_str name_str a s"
  let ?k1 = "Suc ?p" and ?k2 = "Suc (Suc ?p)" and ?k3 = "Suc (Suc (Suc ?p))" and ?k4 = "Suc (Suc (Suc (Suc ?p)))"
    and ?k5 = "Suc (Suc (Suc (Suc (Suc ?p))))" and ?k6 = "Suc (Suc (Suc (Suc (Suc (Suc ?p)))))"
  let ?B1 = "insert ?p (blocks s)"
  let ?B2 = "insert ?k1 ?B1"
  let ?B3 = "insert ?k2 ?B2"
  let ?B4 = "insert ?k3 ?B3"
  let ?B5 = "insert ?k4 ?B4"
  let ?d1 = "?d0\<lparr>dev_id := Some (?k1, id_str), dev_name := Some (?k2, name_str), layout_count := 26\<rparr>"
  let ?d2 = "?d1\<lparr>layouts := LayoutsBlock ?k3 builtin_channel_layouts, format_count := 18\<rparr>"
  let ?d3 = "?d2\<lparr>formats := FormatsBlock ?k4 (all_formats big_endian), sample_rate_count := 1,
      sample_rates := RatesPrealloc,
      prealloc_sample_rate_range := \<lparr>range_min = SOUNDIO_MIN_SAMPLE_RATE, range_max = SOUNDIO_MAX_SAMPLE_RATE\<rparr>,
      software_latency_current := 1 / 10, software_latency_min := 1 / 100, software_latency_max := 4,
      sample_rate_current := 48000, aim := a\<rparr>"
  have num: "?p + 3 = ?k3" "?p + 4 = ?k4" "?p + 5 = ?k5" "?p + 6 = ?k6" by simp_all
  have set: "blocks s \<union> {?p..?k5} = insert ?k5 ?B5" by (auto simp: atLeastAtMostSuc_conv)
  show thesis
  proof (cases rule: alloc_building [of s ?p a1 ?k1 ?B1 ?d0])
    case f2: (fail a2)
    show thesis
    proof (cases rule: alloc_building [of s ?p a2 ?k1 ?B1 ?d0])
      case (fail a3)
      show thesis
      proof (rule no_device [of ?k1 a3])
        show "?run = dummy_give_up si None SoundIoErrorNoMem (bump a3 ?k1 s)"
          by (simp add: run f2 fail) (subst undo; simp add: dev_blocks_simps insert_commute)
      qed simp
    next
      case o3: (ok a3)
      show thesis
      proof (rule no_device [of ?k2 a3])
        show "?run = dummy_give_up si None SoundIoErrorNoMem (bump a3 ?k2 s)"
          by (simp add: run f2 o3) (subst undo; simp add: dev_blocks_simps insert_commute)
      qed simp
    qed
  next
    case o2: (ok a2)
    show thesis
    proof (cases rule: alloc_building [of s ?p a2 ?k2 ?B2 ?d0])
      case (fail a3)
      show thesis
      proof (rule no_device [of ?k2 a3])
        show "?run = dummy_give_up si None SoundIoErrorNoMem (bump a3 ?k2 s)"
          by (simp add: run o2 fail) (subst undo; simp add: dev_blocks_simps insert_commute)
      qed simp
    next
      case o3: (ok a3)
      show thesis
      proof (cases rule: alloc_building [of s ?p a3 ?k3 ?B3 ?d1])
        case (fail a4)
        show thesis
        proof (rule no_device [of ?k3 a4])
          show "?run = dummy_give_up si None SoundIoErrorNoMem (bump a4 ?k3 s)"
            by (simp add: run o2 o3 fail) (subst undo; simp add: dev_blocks_simps insert_commute)
        qed simp
      next
        case o4: (ok a4)
        show thesis
        proof (cases rule: alloc_building [of s ?p a4 ?k4 ?B4 ?d2])
          case (fail a5)
          show thesis
          proof (rule no_device [of ?k4 a5])
            show "?run = dummy_give_up si None SoundIoErrorNoMem (bump a5 ?k4 s)"
              by (simp add: run o2 o3 o4 fail) (subst undo; simp add: dev_blocks_simps insert_commute)
          qed simp
        next
          case o5: (ok a5)
          show thesis
          proof (cases rule: alloc_building [of s ?p a5 ?k5 ?B5 ?d3])
            case (fail a6)
            show thesis
            proof (rule no_device [of ?k5 a6])
              show "?run = dummy_give_up si None SoundIoErrorNoMem (bump a6 ?k5 s)"
                by (simp add: run o2 o3 o4 o5 fail) (subst undo; simp add: dev_blocks_simps insert_commute)
            qed simp
          next
            case o6: (ok a6)
            show thesis
            proof (rule created [of a6])
              show "?run = Some (SoundIoErrorNone,
                  s\<lparr>answers := a6, next_id := ?p + 6, blocks := blocks s \<union> {?p..?p + 5},
                    devices := (devices s)(?p \<mapsto> dummy_device big_endian si id_str name_str a ?p),
                    infos := (infos s)(q \<mapsto> with_device a (?p + 5) ?p info)\<rparr>)"
                by (simp add: run o2 o3 o4 o5 o6) (simp add: building_def dummy_device_def num set)
            qed
          qed
        qed
      qed
    qed
  qed
qed

subsection \<open>The initialisation\<close>

lemma dummy_zero_sel [simp]:
  "dummy_mutex dummy_zero = None" "dummy_cond dummy_zero = None" "devices_emitted dummy_zero = False"
  by (simp_all add: dummy_zero_def)

lemma dummy_zero_upd [simp]:
  "dummy_zero\<lparr>dummy_mutex := None\<rparr> = dummy_zero"
  "dummy_zero\<lparr>dummy_mutex := m, dummy_cond := None\<rparr> = dummy_zero\<lparr>dummy_mutex := m\<rparr>"
  by (simp_all add: dummy_zero_def)

lemma safe_devices_info_upd_None:
  "safe_devices_info x = None \<Longrightarrow> x\<lparr>dummy := y, safe_devices_info := None\<rparr> = x\<lparr>dummy := y\<rparr>"
  by (cases x) simp

text \<open>A library object that is not connected: as it was created or disconnected.\<close>

definition idle :: "SoundIoPrivate \<Rightarrow> bool" where
  "idle x \<longleftrightarrow> current_backend x = SoundIoBackendNone \<and> safe_devices_info x = None \<and> vtable x = (\<lambda>f. None) \<and>
     dummy x = dummy_zero \<and> jack x = jack_zero \<and> pulseaudio x = pulse_zero \<and> alsa x = alsa_zero \<and> coreaudio x = ca_zero"

lemma idle_reset:
  "idle x \<Longrightarrow> x\<lparr>dummy := dummy_zero, jack := jack_zero, pulseaudio := pulse_zero, alsa := alsa_zero, coreaudio := ca_zero, current_backend := SoundIoBackendNone,
     safe_devices_info := None, vtable := (\<lambda>f. None)\<rparr> = x"
  by (cases x) (simp add: idle_def)

text \<open>
  The state while the dummy backend of \<open>si\<close> is being set up in the blocks from \<open>k\<close> on: the
  mutex \<open>k\<close>, the condition \<open>k + 1\<close>, the device lists \<open>k + 2\<close>, and the blocks \<open>B\<close>, the devices
  \<open>D\<close> and the lists \<open>info\<close> so far. \<open>h\<close> says whether the mutex and the condition are still there.
\<close>

definition half_built ::
  "'z sio_scheme \<Rightarrow> nat \<Rightarrow> SoundIoPrivate \<Rightarrow> bool \<Rightarrow> bool list \<Rightarrow> nat \<Rightarrow> nat set \<Rightarrow> (nat \<rightharpoonup> SoundIoDevice) \<Rightarrow>
   SoundIoDevicesInfo \<Rightarrow> 'z sio_scheme" where
  "half_built s si x h ans n B D info = s\<lparr>answers := ans, next_id := n,
     blocks := blocks s \<union> B \<union> (if h then {next_id s, next_id s + 1} else {}) \<union> {next_id s + 2},
     mutexes := (if h then (mutexes s)(next_id s \<mapsto> \<lparr>mutex_id_init = True, mutex_locked = False\<rparr>) else mutexes s),
     conds := (if h then (conds s)(next_id s + 1 \<mapsto> cond_made) else conds s),
     devices := D, infos := (infos s)(next_id s + 2 \<mapsto> info),
     sios := (sios s)(si \<mapsto> x\<lparr>dummy := \<lparr>dummy_mutex = Some (next_id s), dummy_cond = Some (next_id s + 1),
       devices_emitted = False\<rparr>, safe_devices_info := Some (next_id s + 2)\<rparr>)\<rparr>"

lemma half_built_sel [simp]:
  "devices (half_built s si x h ans n B D info) = D" "next_id (half_built s si x h ans n B D info) = n"
  "infos (half_built s si x h ans n B D info) (Suc (Suc (next_id s))) = Some info"
  "answers (half_built s si x h ans n B D info) = ans"
  by (simp_all add: half_built_def)

lemma half_built_bump [simp]: "bump a m (half_built s si x h ans n B D info) = half_built s si x h a m B D info"
  by (simp add: half_built_def)

lemma destroy_dummy_half_built:
  assumes "\<And>i. next_id s \<le> i \<Longrightarrow> i \<notin> blocks s" and "mutexes s (next_id s) = None" and "conds s (Suc (next_id s)) = None"
    and "next_id s \<notin> B" and "Suc (next_id s) \<notin> B"
  shows "destroy_dummy si (half_built s si x True ans n B D info) = Some (half_built s si x False ans n B D info)"
proof -
  let ?k = "next_id s"
  have "blocks s \<union> B \<union> {?k, ?k + 1} \<union> {?k + 2} - {?k + 1} - {?k} = blocks s \<union> B \<union> {?k + 2}"
    using assms(1) [of ?k] assms(1) [of "Suc ?k"] assms(4,5) by auto
  moreover have "(mutexes s)(?k := None) = mutexes s" "(conds s)(Suc ?k := None) = conds s"
    using assms(2,3) by (simp_all add: fun_upd_idem)
  ultimately show ?thesis
    by (simp add: destroy_dummy_def half_built_def soundio_os_cond_destroy_def soundio_os_mutex_destroy_def free_blk_def)
qed

lemma half_built_grow:
  assumes "i = next_id s + 2"
  shows "(half_built s si x h ans n B D info)\<lparr>answers := a, next_id := m,
      blocks := blocks (half_built s si x h ans n B D info) \<union> C, devices := D',
      infos := (infos (half_built s si x h ans n B D info))(i \<mapsto> info')\<rparr> =
    half_built s si x h a m (B \<union> C) D' info'"
  by (simp add: half_built_def assms Un_ac)

lemma ids_ok_half_built:
  assumes "ids_ok s" and "next_id s + 3 \<le> n" and "\<And>i. n \<le> i \<Longrightarrow> i \<notin> B \<and> D i = None" and "sios s si = Some y"
  shows "ids_ok (half_built s si x h ans n B D info)"
proof -
  have "si < next_id s"
  proof (rule ccontr)
    assume "\<not> si < next_id s"
    then have "sios s si = None" using assms(1) by (simp add: ids_ok_def)
    with assms(4) show False by simp
  qed
  with assms show ?thesis by (auto simp: ids_ok_def half_built_def)
qed

lemma info_start_lists: "aim_list a info_start = clist_zero"
  by (cases a) (simp_all add: aim_list_def info_start_def devices_info_zero_def)

text \<open>The two devices and the lists that hold them.\<close>

definition out_dev :: "bool \<Rightarrow> nat \<Rightarrow> nat \<Rightarrow> SoundIoDevice" where
  "out_dev be si = dummy_device be si ''dummy-out'' ''Dummy Output Device'' SoundIoDeviceAimOutput"

definition in_dev :: "bool \<Rightarrow> nat \<Rightarrow> nat \<Rightarrow> SoundIoDevice" where
  "in_dev be si = dummy_device be si ''dummy-in'' ''Dummy Input Device'' SoundIoDeviceAimInput"

definition info_out :: "nat \<Rightarrow> SoundIoDevicesInfo" where
  "info_out k = with_device SoundIoDeviceAimOutput (k + 8) (k + 3) info_start"

definition info_both :: "nat \<Rightarrow> SoundIoDevicesInfo" where
  "info_both k = with_device SoundIoDeviceAimInput (k + 14) (k + 9) (info_out k)"

lemma info_out_input: "aim_list SoundIoDeviceAimInput (info_out k) = clist_zero"
  by (simp add: info_out_def aim_list_def with_device_def info_start_def devices_info_zero_def)

text \<open>The part of the initialisation before the devices.\<close>

definition no_backend :: "nat \<Rightarrow> SoundIoPrivate \<Rightarrow> 'z sio_scheme \<Rightarrow> 'z sio_scheme \<Rightarrow> bool" where
  "no_backend si x s t \<longleftrightarrow> (\<exists>ans n y. next_id s \<le> n \<and> t = s\<lparr>answers := ans, next_id := n, sios := (sios s)(si \<mapsto> x\<lparr>dummy := y\<rparr>)\<rparr>)"

lemma no_backendI:
  "next_id s \<le> n \<Longrightarrow>
   no_backend si x s (s\<lparr>answers := ans, next_id := n, sios := (sios s)(si \<mapsto> x\<lparr>dummy := y\<rparr>)\<rparr>)"
  unfolding no_backend_def by blast

lemma dummy_init_start:
  fixes s :: "'z sio_scheme"
  assumes ids: "ids_ok s" and x: "sios s si = Some x" and idle: "idle x"
  obtains (aborted) t where "soundio_dummy_init be si s = Some (SoundIoErrorNoMem, t)" "no_backend si x s t"
    | (started) ans where "soundio_dummy_init be si s =
        dummy_init_devices be si (half_built s si x True ans (next_id s + 3) {} (devices s) info_start)"
proof -
  let ?k = "next_id s"
  have fresh: "i \<notin> blocks s" "mutexes s i = None" "conds s i = None" if "?k \<le> i" for i
    using ids that by (auto simp: ids_ok_def)
  have safe: "safe_devices_info x = None" "dummy x = dummy_zero" using idle by (simp_all add: idle_def)
  have ks: "?k \<notin> blocks s" "mutexes s ?k = None" by (simp_all add: fresh)
  from ks show thesis
  proof (cases rule: mutex_create_explicit)
    case (no_mutex ans n)
    show thesis
    proof (rule aborted)
      show "soundio_dummy_init be si s = Some (SoundIoErrorNoMem,
          s\<lparr>answers := ans, next_id := n, sios := (sios s)(si \<mapsto> x\<lparr>dummy := dummy_zero\<rparr>)\<rparr>)"
        using no_mutex x safe
        by (simp add: soundio_dummy_init_def upd_sio_def dummy_give_up_def soundio_device_unref_def destroy_dummy_def)
      show "no_backend si x s (s\<lparr>answers := ans, next_id := n, sios := (sios s)(si \<mapsto> x\<lparr>dummy := dummy_zero\<rparr>)\<rparr>)"
        by (rule no_backendI) (rule no_mutex(2))
    qed
  next
    case c1: (created a1)
    let ?m = "\<lparr>mutex_id_init = True, mutex_locked = False\<rparr>"
    let ?y1 = "dummy_zero\<lparr>dummy_mutex := Some ?k\<rparr>"
    let ?s1 = "s\<lparr>answers := a1, next_id := Suc ?k, blocks := insert ?k (blocks s), mutexes := (mutexes s)(?k \<mapsto> ?m),
        sios := (sios s)(si \<mapsto> x\<lparr>dummy := ?y1\<rparr>)\<rparr>"
    have "next_id ?s1 \<notin> blocks ?s1" "conds ?s1 (next_id ?s1) = None" by (simp_all add: fresh)
    then show thesis
    proof (cases rule: cond_create_explicit)
      case (no_cond a2 n)
      have "insert ?k (blocks s) - {?k} = blocks s" using ks by simp
      moreover have "(mutexes s)(?k := None) = mutexes s" using ks by (simp add: fun_upd_idem)
      ultimately have "soundio_dummy_init be si s = Some (SoundIoErrorNoMem,
          s\<lparr>answers := a2, next_id := n, sios := (sios s)(si \<mapsto> x\<lparr>dummy := ?y1\<rparr>)\<rparr>)"
        using c1 no_cond x safe
        by (simp add: soundio_dummy_init_def upd_sio_def dummy_give_up_def soundio_device_unref_def destroy_dummy_def
            soundio_os_mutex_destroy_def free_blk_def)
      moreover have "no_backend si x s (s\<lparr>answers := a2, next_id := n, sios := (sios s)(si \<mapsto> x\<lparr>dummy := ?y1\<rparr>)\<rparr>)"
        by (rule no_backendI) (use no_cond(2) in simp)
      ultimately show thesis by (rule aborted)
    next
      case c2: (created a2)
      let ?y2 = "?y1\<lparr>dummy_cond := Some (Suc ?k)\<rparr>"
      let ?s2 = "s\<lparr>mutexes := (mutexes s)(?k \<mapsto> ?m), answers := a2, next_id := Suc (Suc ?k),
          blocks := insert (Suc ?k) (insert ?k (blocks s)), conds := (conds s)(Suc ?k \<mapsto> cond_made),
          sios := (sios s)(si \<mapsto> x\<lparr>dummy := ?y2\<rparr>)\<rparr>"
      note run = soundio_dummy_init_def c1 c2 x safe upd_sio_def
      have restore: "insert (Suc ?k) (insert ?k (blocks s)) - {Suc ?k} - {?k} = blocks s"
        "(mutexes s)(?k := None) = mutexes s" "(conds s)(Suc ?k := None) = conds s"
        using fresh by (auto simp: fun_upd_idem)
      show thesis
      proof (cases rule: alloc_explicit [of ?s2])
        case (fail a3)
        have "soundio_dummy_init be si s = Some (SoundIoErrorNoMem,
            s\<lparr>answers := a3, next_id := Suc (Suc ?k), sios := (sios s)(si \<mapsto> x\<lparr>dummy := ?y2\<rparr>)\<rparr>)"
          using fail restore
          by (simp add: run dummy_give_up_def soundio_device_unref_def destroy_dummy_def
              soundio_os_mutex_destroy_def soundio_os_cond_destroy_def free_blk_def safe_devices_info_upd_None)
        moreover have "no_backend si x s (s\<lparr>answers := a3, next_id := Suc (Suc ?k), sios := (sios s)(si \<mapsto> x\<lparr>dummy := ?y2\<rparr>)\<rparr>)"
          by (rule no_backendI) simp
        ultimately show thesis by (rule aborted)
      next
        case (ok a3)
        show thesis
        proof (rule started)
          show "soundio_dummy_init be si s =
              dummy_init_devices be si (half_built s si x True a3 (?k + 3) {} (devices s) info_start)"
            using ok
            by (simp add: run) (rule arg_cong [where f = "dummy_init_devices be si"],
              simp add: half_built_def dummy_zero_def insert_commute numeral_3_eq_3)
        qed
      qed
    qed
  qed
qed

text \<open>What is left when the devices could not be created: nothing, or the output device in its list.\<close>

definition leftover ::
  "bool \<Rightarrow> nat \<Rightarrow> 'z sio_scheme \<Rightarrow> nat set \<Rightarrow> (nat \<rightharpoonup> SoundIoDevice) \<Rightarrow> SoundIoDevicesInfo \<Rightarrow> bool" where
  "leftover be si s B D info \<longleftrightarrow>
     B = {} \<and> D = devices s \<and> info = info_start \<or>
     B = {next_id s + 3..next_id s + 8} \<and> info = info_out (next_id s) \<and>
     D = (devices s)(next_id s + 3 \<mapsto> out_dev be si (next_id s + 3))"

lemma half_built_sios:
  "sios (half_built s si x h ans n B D info) si = Some (x\<lparr>dummy := \<lparr>dummy_mutex = Some (next_id s),
     dummy_cond = Some (next_id s + 1), devices_emitted = False\<rparr>, safe_devices_info := Some (next_id s + 2)\<rparr>)"
  by (simp add: half_built_def)

lemma give_up_half_built:
  assumes "ids_ok s" and "B \<subseteq> {next_id s + 3..}"
  shows "dummy_give_up si None SoundIoErrorNoMem (half_built s si x True ans n B D info) =
    Some (SoundIoErrorNoMem, half_built s si x False ans n B D info)"
proof -
  have "destroy_dummy si (half_built s si x True ans n B D info) = Some (half_built s si x False ans n B D info)"
    by (rule destroy_dummy_half_built) (use assms in \<open>auto simp: ids_ok_def\<close>)
  then show ?thesis by (simp add: dummy_give_up_def soundio_device_unref_def)
qed

lemma dummy_init_devices_run:
  fixes s :: "'z sio_scheme"
  assumes ids: "ids_ok s" and x: "sios s si = Some x"
  obtains (undone) ans n B D info where
      "dummy_init_devices be si (half_built s si x True a (next_id s + 3) {} (devices s) info_start) =
         Some (SoundIoErrorNoMem, half_built s si x False ans n B D info)"
      "leftover be si s B D info" "next_id s + 3 \<le> n"
    | (ready) ans where
      "dummy_init_devices be si (half_built s si x True a (next_id s + 3) {} (devices s) info_start) =
         do {
           t \<leftarrow> upd_sio si (\<lambda>x. x\<lparr>vtable := (\<lambda>f. if f = V_outstream_set_volume then vtable x f else dummy_vtable f)\<rparr>)
             (half_built s si x True ans (next_id s + 15) {next_id s + 3..next_id s + 14}
                ((devices s)(next_id s + 3 \<mapsto> out_dev be si (next_id s + 3), next_id s + 9 \<mapsto> in_dev be si (next_id s + 9)))
                (info_both (next_id s)));
           Some (SoundIoErrorNone, t)
         }"
proof -
  let ?k = "next_id s"
  let ?u = "half_built s si x True a (?k + 3) {} (devices s) info_start"
  have u: "ids_ok ?u" by (rule ids_ok_half_built [OF ids _ _ x]) (use ids in \<open>auto simp: ids_ok_def\<close>)
  show thesis
  proof (cases rule: create_dummy_device_explicit [OF u half_built_sios, of "?k + 2" info_start SoundIoDeviceAimOutput be
        "''dummy-out''" "''Dummy Output Device''"])
    case 1 then show ?case by simp
  next
    case 2 then show ?case by simp
  next
    case 3 show ?case by (rule info_start_lists)
  next
    case (4 ans n)
    then show thesis
      by (intro undone [of ans n "{}" "devices s" info_start])
        (simp_all add: dummy_init_devices_def give_up_half_built ids leftover_def)
  next
    case c1: (5 a1)
    let ?D = "(devices s)(?k + 3 \<mapsto> out_dev be si (?k + 3))"
    let ?v = "half_built s si x True a1 (?k + 9) {?k + 3..?k + 8} ?D (info_out ?k)"
    have v: "create_dummy_device be si ''dummy-out'' ''Dummy Output Device'' SoundIoDeviceAimOutput ?u =
        Some (SoundIoErrorNone, ?v)"
      using c1 half_built_grow [where i = "?k + 2" and s = s and si = si and x = x and h = True and ans = a and n = "?k + 3"
          and B = "{}" and D = "devices s" and info = info_start and a = a1 and m = "?k + 9"
          and C = "{?k + 3..?k + 8}" and D' = ?D and info' = "info_out ?k"]
      by (simp add: out_dev_def info_out_def add.commute)
    have ids_v: "ids_ok ?v" by (rule ids_ok_half_built [OF ids _ _ x]) (use ids in \<open>auto simp: ids_ok_def\<close>)
    show thesis
    proof (cases rule: create_dummy_device_explicit [OF ids_v half_built_sios, of "?k + 2" "info_out ?k" SoundIoDeviceAimInput be
          "''dummy-in''" "''Dummy Input Device''"])
      case 1 then show ?case by simp
    next
      case 2 then show ?case by simp
    next
      case 3 show ?case by (rule info_out_input)
    next
      case (4 ans n)
      then show thesis
        by (intro undone [of ans n "{?k + 3..?k + 8}" ?D "info_out ?k"])
          (simp_all add: dummy_init_devices_def v give_up_half_built ids leftover_def)
    next
      case c2: (5 a2)
      have split: "{?k + 3..?k + 8} \<union> {?k + 9..?k + 14} = {?k + 3..?k + 14}" by auto
      let ?D' = "?D(?k + 9 \<mapsto> in_dev be si (?k + 9))"
      have "create_dummy_device be si ''dummy-in'' ''Dummy Input Device'' SoundIoDeviceAimInput ?v =
          Some (SoundIoErrorNone, half_built s si x True a2 (?k + 15) {?k + 3..?k + 14} ?D' (info_both ?k))"
        using c2 half_built_grow [where i = "?k + 2" and s = s and si = si and x = x and h = True and ans = a1 and n = "?k + 9"
            and B = "{?k + 3..?k + 8}" and D = ?D and info = "info_out ?k" and a = a2 and m = "?k + 15"
            and C = "{?k + 9..?k + 14}" and D' = ?D' and info' = "info_both ?k"]
        by (simp add: in_dev_def info_both_def split add.commute)
      then show thesis by (intro ready [of a2]) (simp add: dummy_init_devices_def v)
    qed
  qed
qed

subsection \<open>Destroying the devices\<close>

lemma dummy_device_blocks: "dev_blocks p (dummy_device be si i n a p) = [p + 1, p + 2, p + 4, p + 3, p]"
  by (simp add: dummy_device_def dev_blocks_simps)

lemma atLeastAtMost_add_4: "{p..p + 4} = {p, p + 1, p + 2, p + 3, p + 4 :: nat}"
  by auto

lemma unref_dummy_device:
  assumes "devices s p = Some (dummy_device be si i n a p)" and "{p..q} \<subseteq> blocks s" and q: "q = p + 4"
  shows "soundio_device_unref (Some p) s = Some (s\<lparr>blocks := blocks s - {p..q}, devices := (devices s)(p := None)\<rparr>)"
proof -
  let ?d = "dummy_device be si i n a p"
  have set: "set (dev_blocks p ?d) = {p..p + 4}" by (auto simp: dummy_device_blocks atLeastAtMost_add_4)
  have "destruct ?d = None" by (simp add: dummy_device_def device_zero_def)
  then have "dev_ok p ?d s" using assms(2) unfolding q by (simp add: dev_ok_def set jack_ports_ok_def) (simp add: dummy_device_blocks)
  moreover have "ref_count ?d = 1" by (simp add: dummy_device_def)
  ultimately show ?thesis
    using device_unref_spec [OF assms(1)] by (simp add: unref_frees_def after_unref_def set q in_int_def int_max_def int_min_def)
qed

lemma unref_list_empty [simp]: "unref_list clist_zero s = Some s"
  by (simp add: unref_list_def clist_zero_def)

lemma unref_list_one [simp]: "unref_list (list_one b p) s = soundio_device_unref (Some p) s"
  by (cases "soundio_device_unref (Some p) s") (simp_all add: unref_list_def list_one_def list_val_at_def arr_at_def)

lemma list_deinit_simps [simp]: "list_deinit clist_zero s = Some s" "list_deinit (list_one b p) s = free_blk (Some b) s"
  by (simp_all add: list_deinit_def clist_zero_def list_one_def free_blk_def)

lemma destroy_info_start:
  assumes "infos t q = Some info_start" and "q \<in> blocks t"
  shows "soundio_destroy_devices_info (Some q) t = Some (t\<lparr>blocks := blocks t - {q}, infos := (infos t)(q := None)\<rparr>)"
  using assms by (simp add: soundio_destroy_devices_info_def info_start_def devices_info_zero_def free_blk_def)

lemma info_out_sel: "input_devices (info_out k) = clist_zero" "output_devices (info_out k) = list_one (k + 8) (k + 3)"
  by (simp_all add: info_out_def with_device_def info_start_def devices_info_zero_def)

lemma info_both_sel: "input_devices (info_both k) = list_one (k + 14) (k + 9)" "output_devices (info_both k) = list_one (k + 8) (k + 3)"
  by (simp_all add: info_both_def info_out_sel with_device_def)

lemma destroy_info_out:
  assumes "infos t (k + 2) = Some (info_out k)" and "devices t (k + 3) = Some (out_dev be si (k + 3))"
    and "{k + 2..k + 8} \<subseteq> blocks t"
  shows "soundio_destroy_devices_info (Some (k + 2)) t =
    Some (t\<lparr>blocks := blocks t - {k + 2..k + 8}, devices := (devices t)(k + 3 := None), infos := (infos t)(k + 2 := None)\<rparr>)"
proof -
  have "blocks t - {k + 3..k + 7} - {k + 8} - {k + 2} = blocks t - {k + 2..k + 8}" by auto
  moreover have "soundio_device_unref (Some (k + 3)) t =
      Some (t\<lparr>blocks := blocks t - {k + 3..k + 7}, devices := (devices t)(k + 3 := None)\<rparr>)"
    using unref_dummy_device [of t "k + 3" _ _ _ _ _ "k + 7"] assms(2,3) unfolding out_dev_def by (auto simp: subset_iff)
  moreover have "k + 8 \<in> blocks t" "k + 2 \<in> blocks t" using assms(3) by auto
  ultimately show ?thesis
    using assms(1) by (simp add: soundio_destroy_devices_info_def info_out_sel free_blk_def)
qed

lemma destroy_info_both:
  assumes "infos t (k + 2) = Some (info_both k)" and "devices t (k + 3) = Some (out_dev be si (k + 3))"
    and "devices t (k + 9) = Some (in_dev be si (k + 9))" and "{k + 2..k + 14} \<subseteq> blocks t"
  shows "soundio_destroy_devices_info (Some (k + 2)) t =
    Some (t\<lparr>blocks := blocks t - {k + 2..k + 14}, devices := (devices t)(k + 9 := None, k + 3 := None),
      infos := (infos t)(k + 2 := None)\<rparr>)"
proof -
  let ?t = "t\<lparr>blocks := blocks t - {k + 9..k + 13}, devices := (devices t)(k + 9 := None)\<rparr>"
  have set: "blocks t - {k + 9..k + 13} - {k + 3..k + 7} - {k + 14} - {k + 8} - {k + 2} = blocks t - {k + 2..k + 14}" by auto
  have 1: "soundio_device_unref (Some (k + 9)) t = Some ?t"
    using unref_dummy_device [of t "k + 9" _ _ _ _ _ "k + 13"] assms(3,4) unfolding in_dev_def by (auto simp: subset_iff)
  have 2: "soundio_device_unref (Some (k + 3)) ?t =
      Some (t\<lparr>blocks := blocks t - {k + 9..k + 13} - {k + 3..k + 7}, devices := (devices t)(k + 9 := None, k + 3 := None)\<rparr>)"
    using unref_dummy_device [of ?t "k + 3" _ _ _ _ _ "k + 7"] assms(2,4) unfolding out_dev_def by (auto simp: subset_iff)
  have "k + 14 \<in> blocks t" "k + 8 \<in> blocks t" "k + 2 \<in> blocks t" using assms(4) by auto
  then show ?thesis
    using assms(1) 1 2 set by (simp add: soundio_destroy_devices_info_def info_both_sel free_blk_def)
qed

end
