(* ===== verification/Jack.thy ===== *)
theory Jack
  imports Dummy
begin

section \<open>src/jack.c: the JACK backend\<close>

text \<open>
  The functions of the JACK backend. The JACK library is not part of the sources: its
  functions are the fields of \<open>jack_api\<close>, a parameter of every operation that calls them,
  on a state \<open>'j\<close> of the library and its server that the record \<open>jsio\<close> adds to the state.
  A function of the library that may not be called with every argument is partial. Clients
  and ports are handles; the list that \<open>jack_get_ports\<close> allocates is a handle with the names.
  A pointer into a string is the rest of that string. Of a latency range only the maximum is
  used. The callbacks that JACK calls from its own threads are operations of their own.
\<close>

subsection \<open>The interface of the library\<close>

datatype JackPortFlag = JackPortIsInput | JackPortIsOutput | JackPortIsPhysical | JackPortCanMonitor | JackPortIsTerminal

datatype JackStatus =
    JackFailure | JackInvalidOption | JackNameNotUnique | JackServerStarted | JackServerFailed | JackServerError
  | JackNoSuchClient | JackLoadFailure | JackInitFailure | JackShmFailure | JackVersionError

datatype JackLatencyMode = JackCaptureLatency | JackPlaybackLatency

datatype jack_cb = ProcessCb | BufferSizeCb | SampleRateCb | XrunCb | PortRegistrationCb | PortRenameCb

definition JACK_DEFAULT_AUDIO_TYPE :: string where
  "JACK_DEFAULT_AUDIO_TYPE = ''32 bit float mono audio''"

text \<open>\<open>jack_client_open\<close> is called with \<open>JackNoStartServer\<close> everywhere. A zero result is success.\<close>

record 'j jack_api =
  jack_set_error_function :: "'j \<Rightarrow> 'j"
  jack_set_info_function :: "'j \<Rightarrow> 'j"
  jack_client_open :: "string \<Rightarrow> 'j \<Rightarrow> (nat option \<times> JackStatus set) \<times> 'j"
  jack_client_close :: "nat option \<Rightarrow> 'j \<Rightarrow> 'j option"
  jack_activate :: "nat \<Rightarrow> 'j \<Rightarrow> int \<times> 'j"
  jack_set_callback :: "jack_cb \<Rightarrow> nat \<Rightarrow> nat \<Rightarrow> 'j \<Rightarrow> int \<times> 'j"
  jack_on_shutdown :: "nat \<Rightarrow> nat \<Rightarrow> 'j \<Rightarrow> 'j"
  jack_get_buffer_size :: "nat \<Rightarrow> 'j \<Rightarrow> nat"
  jack_get_sample_rate :: "nat \<Rightarrow> 'j \<Rightarrow> nat"
  jack_get_ports :: "nat \<Rightarrow> 'j \<Rightarrow> (nat \<times> string list) option \<times> 'j"
  jack_free :: "nat \<Rightarrow> 'j \<Rightarrow> 'j option"
  jack_port_by_name :: "nat \<Rightarrow> string \<Rightarrow> 'j \<Rightarrow> nat option \<times> 'j"
  jack_port_flags :: "nat \<Rightarrow> 'j \<Rightarrow> JackPortFlag set"
  jack_port_type :: "nat \<Rightarrow> 'j \<Rightarrow> string"
  jack_port_latency_max :: "nat \<Rightarrow> JackLatencyMode \<Rightarrow> 'j \<Rightarrow> nat"
  jack_port_register :: "nat \<Rightarrow> string \<Rightarrow> JackPortFlag set \<Rightarrow> 'j \<Rightarrow> nat option \<times> 'j"
  jack_port_name :: "nat \<Rightarrow> 'j \<Rightarrow> string"
  jack_port_get_buffer :: "nat \<Rightarrow> nat \<Rightarrow> 'j \<Rightarrow> nat"
  jack_connect :: "nat \<Rightarrow> string \<Rightarrow> string \<Rightarrow> 'j \<Rightarrow> int \<times> 'j"

text \<open>
  \<open>world\<close> is the state of the external libraries. \<open>global_msg_callback_flag\<close> is the static flag of
  the file; true when it is set. \<open>loop_locks\<close> says how often the caller holds the lock of each
  main loop of the PulseAudio library.
\<close>

record 'j jsio = sio +
  world :: 'j
  global_msg_callback_flag :: bool
  loop_locks :: "nat \<Rightarrow> nat"

definition in_world :: "('j \<Rightarrow> 'a \<times> 'j) \<Rightarrow> ('j, 'z) jsio_scheme \<Rightarrow> 'a \<times> ('j, 'z) jsio_scheme" where
  "in_world f s = (let (r, w) = f (world s) in (r, s\<lparr>world := w\<rparr>))"

definition world_do :: "('j \<Rightarrow> 'j option) \<Rightarrow> ('j, 'z) jsio_scheme \<Rightarrow> ('j, 'z) jsio_scheme option" where
  "world_do f s = do { w \<leftarrow> f (world s); Some (s\<lparr>world := w\<rparr>) }"

definition the_world :: "('j \<Rightarrow> 'j) \<Rightarrow> ('j, 'z) jsio_scheme \<Rightarrow> ('j, 'z) jsio_scheme" where
  "the_world f s = s\<lparr>world := f (world s)\<rparr>"

abbreviation upd_sij :: "nat \<Rightarrow> (SoundIoJack \<Rightarrow> SoundIoJack) \<Rightarrow> 'z sio_scheme \<Rightarrow> 'z sio_scheme option" where
  "upd_sij si f \<equiv> upd_sio si (\<lambda>x. x\<lparr>jack := f (jack x)\<rparr>)"

abbreviation upd_osj :: "nat \<Rightarrow> (SoundIoStreamJack \<Rightarrow> SoundIoStreamJack) \<Rightarrow> 'z sio_scheme \<Rightarrow> 'z sio_scheme option" where
  "upd_osj p f \<equiv> upd_out p (\<lambda>x. x\<lparr>osj := f (osj x)\<rparr>)"

abbreviation upd_isj :: "nat \<Rightarrow> (SoundIoStreamJack \<Rightarrow> SoundIoStreamJack) \<Rightarrow> 'z sio_scheme \<Rightarrow> 'z sio_scheme option" where
  "upd_isj p f \<equiv> upd_in p (\<lambda>x. x\<lparr>isj := f (isj x)\<rparr>)"

subsection \<open>Clients and their ports\<close>

text \<open>The structs of the scan. A cell of the port array that was not written yet is \<open>None\<close>.\<close>

record SoundIoJackPort =
  jp_full_name :: string
  jp_full_name_len :: int
  jp_name :: string
  jp_name_len :: int
  jp_channel_id :: SoundIoChannelId
  jp_latency_max :: nat

record SoundIoJackClient =
  jc_name :: string
  jc_name_len :: int
  jc_is_physical :: bool
  jc_aim :: SoundIoDeviceAim
  jc_port_count :: int
  jc_ports :: "SoundIoJackPort option list"

text \<open>
  The loop of \<open>split_str\<close>, \<open>k\<close> characters behind the start: the length of the part before
  the character, the part after it and its length, or nothing when the string ends.
\<close>

fun split_loop :: "string \<Rightarrow> int \<Rightarrow> char \<Rightarrow> int \<Rightarrow> (int \<times> string \<times> int) option" where
  "split_loop [] input_str_len c k = None"
| "split_loop (x # xs) input_str_len c k =
     (if x = c then Some (k, xs, input_str_len - 1 - k) else split_loop xs input_str_len c (k + 1))"

definition split_str :: "string \<Rightarrow> int \<Rightarrow> char \<Rightarrow> string \<times> (int \<times> string \<times> int) option" where
  "split_str input_str input_str_len c = (input_str, split_loop input_str input_str_len c 0)"

text \<open>The result is a pointer to the client, that is its index in the list.\<close>

definition find_or_create_client ::
  "SoundIoJackClient clist \<Rightarrow> SoundIoDeviceAim \<Rightarrow> bool \<Rightarrow> string \<Rightarrow> int \<Rightarrow> 'z mem_scheme \<Rightarrow>
   (nat option \<times> SoundIoJackClient clist \<times> 'z mem_scheme) option" where
  "find_or_create_client clients a is_physical client_name client_name_len s = do {
     found \<leftarrow> find_r (\<lambda>i. do {
         client \<leftarrow> list_val_at clients (int i);
         if jc_is_physical client = is_physical \<and> jc_aim client = a
         then soundio_streql (jc_name client) (jc_name_len client) client_name client_name_len
         else Some False
       }) [0..<nat (l_length clients)];
     case found of
       Some i \<Rightarrow> Some (Some i, clients, s)
     | None \<Rightarrow> do {
         (err, clients, s) \<leftarrow> list_add_one clients s;
         if err \<noteq> SoundIoErrorNone then Some (None, clients, s)
         else do {
           i \<leftarrow> list_last_ptr clients;
           clients \<leftarrow> list_store clients i \<lparr>jc_name = client_name, jc_name_len = client_name_len,
             jc_is_physical = is_physical, jc_aim = a, jc_port_count = 0,
             jc_ports = replicate SOUNDIO_MAX_CHANNELS None\<rparr>;
           Some (Some i, clients, s)
         }
       }
   }"

subsection \<open>The device scan\<close>

text \<open>
  The first loop of \<open>refresh_devices_bare\<close>, over the names of the ports. The error is
  \<open>SoundIoErrorInterrupted\<close> when a port has gone, \<open>SoundIoErrorNoMem\<close> when a client cannot be
  added; the caller cleans up.
\<close>

definition add_port ::
  "'j jack_api \<Rightarrow> nat \<Rightarrow> string \<Rightarrow> SoundIoJackClient clist \<Rightarrow> ('j, 'z) jsio_scheme \<Rightarrow>
   (SoundIoError \<times> SoundIoJackClient clist \<times> ('j, 'z) jsio_scheme) option" where
  "add_port api jport client_and_port_name clients s = do {
     let client_and_port_name_len = to_int32 (int (length client_and_port_name));
     let flags = jack_port_flags api jport (world s);
     let port_type = jack_port_type api jport (world s);
     if port_type \<noteq> JACK_DEFAULT_AUDIO_TYPE then Some (SoundIoErrorNone, clients, s)
     else do {
       let a = (if JackPortIsInput \<in> flags then SoundIoDeviceAimOutput else SoundIoDeviceAimInput);
       let is_physical = (JackPortIsPhysical \<in> flags);
       let (client_name, rest) = split_str client_and_port_name client_and_port_name_len (CHR '':'');
       case rest of
         None \<Rightarrow> Some (SoundIoErrorNone, clients, s)
       | Some (client_name_len, port_name, port_name_len) \<Rightarrow> do {
           (p, clients, s) \<leftarrow> find_or_create_client clients a is_physical client_name client_name_len s;
           case p of
             None \<Rightarrow> Some (SoundIoErrorNoMem, clients, s)
           | Some p \<Rightarrow> do {
               client \<leftarrow> list_val_at clients (int p);
               if jc_port_count client \<ge> int SOUNDIO_MAX_CHANNELS then Some (SoundIoErrorNone, clients, s)
               else do {
                 channel_id \<leftarrow> soundio_parse_channel_id port_name port_name_len;
                 let latency_mode = (if a = SoundIoDeviceAimOutput then JackPlaybackLatency else JackCaptureLatency);
                 let port = \<lparr>jp_full_name = client_and_port_name, jp_full_name_len = client_and_port_name_len,
                   jp_name = port_name, jp_name_len = port_name_len, jp_channel_id = channel_id,
                   jp_latency_max = jack_port_latency_max api jport latency_mode (world s)\<rparr>;
                 ports \<leftarrow> arr_set (jc_ports client) (jc_port_count client) (Some port);
                 clients \<leftarrow> list_store clients p
                   (client\<lparr>jc_ports := ports, jc_port_count := jc_port_count client + 1\<rparr>);
                 Some (SoundIoErrorNone, clients, s)
               }
             }
         }
     }
   }"

fun scan_ports ::
  "'j jack_api \<Rightarrow> nat \<Rightarrow> string list \<Rightarrow> SoundIoJackClient clist \<Rightarrow> ('j, 'z) jsio_scheme \<Rightarrow>
   (SoundIoError \<times> SoundIoJackClient clist \<times> ('j, 'z) jsio_scheme) option" where
  "scan_ports api c [] clients s = Some (SoundIoErrorNone, clients, s)"
| "scan_ports api c (client_and_port_name # names) clients s =
     (let (jport, s) = in_world (jack_port_by_name api c client_and_port_name) s
      in case jport of
           None \<Rightarrow> Some (SoundIoErrorInterrupted, clients, s)
         | Some jport \<Rightarrow> do {
             (err, clients, s) \<leftarrow> add_port api jport client_and_port_name clients s;
             if err \<noteq> SoundIoErrorNone then Some (err, clients, s)
             else scan_ports api c names clients s
           })"

text \<open>The cleanup of the error paths: the names (when they are freed there), the device, the lists.\<close>

definition refresh_give_up ::
  "'j jack_api \<Rightarrow> nat option \<Rightarrow> nat option \<Rightarrow> nat \<Rightarrow> SoundIoError \<Rightarrow> ('j, 'z) jsio_scheme \<Rightarrow>
   (SoundIoError \<times> ('j, 'z) jsio_scheme) option" where
  "refresh_give_up api port_names device devices_info err s = do {
     s \<leftarrow> (case port_names of None \<Rightarrow> Some s | Some n \<Rightarrow> world_do (jack_free api n) s);
     s \<leftarrow> soundio_device_unref device s;
     s \<leftarrow> soundio_destroy_devices_info (Some devices_info) s;
     Some (err, s)
   }"

text \<open>\<open>memcpy\<close> into a buffer; writing outside it is undefined.\<close>

definition mem_write :: "string \<Rightarrow> int \<Rightarrow> string \<Rightarrow> string option" where
  "mem_write buf i src =
     (if 0 \<le> i \<and> i + int (length src) \<le> int (length buf)
      then Some (take (nat i) buf @ src @ drop (nat i + length src) buf) else None)"

text \<open>The string that a buffer holds as seen through a \<open>char *\<close>: without a NUL it has no end.\<close>

definition c_string :: "string \<Rightarrow> string option" where
  "c_string buf = (if CHR 0x00 \<in> set buf then Some (takeWhile (\<lambda>c. c \<noteq> CHR 0x00) buf) else None)"

definition client_port :: "SoundIoJackClient \<Rightarrow> nat \<Rightarrow> SoundIoJackPort option" where
  "client_port client i = do { cell \<leftarrow> arr_at (jc_ports client) (int i); cell }"

text \<open>\<open>description_len\<close>, an \<open>int\<close> summed up over the ports.\<close>

fun add_name_lens :: "SoundIoJackClient \<Rightarrow> nat list \<Rightarrow> int \<Rightarrow> int option" where
  "add_name_lens client [] n = Some n"
| "add_name_lens client (i # is) n = do {
     port \<leftarrow> client_port client i;
     n \<leftarrow> c_int (n + jp_name_len port);
     add_name_lens client is n
   }"

definition description_len :: "SoundIoJackClient \<Rightarrow> int option" where
  "description_len client = do {
     n \<leftarrow> c_int (jc_name_len client + 3 + 2 * jc_port_count client);
     add_name_lens client [0..<nat (jc_port_count client)] n
   }"

text \<open>The names of the ports, each followed by a comma except the last, from \<open>index\<close> on.\<close>

fun write_port_names :: "SoundIoJackClient \<Rightarrow> nat list \<Rightarrow> int \<Rightarrow> string \<Rightarrow> string option" where
  "write_port_names client [] index buf = Some buf"
| "write_port_names client (i # is) index buf = do {
     port \<leftarrow> client_port client i;
     nm \<leftarrow> mem_read (jp_name port) (jp_name_len port);
     buf \<leftarrow> mem_write buf index nm;
     let index = index + jp_name_len port;
     if int i + 1 < jc_port_count client then do {
       buf \<leftarrow> mem_write buf index '', '';
       write_port_names client is (index + 2) buf
     }
     else write_port_names client is index buf
   }"

definition write_description :: "SoundIoJackClient \<Rightarrow> string \<Rightarrow> string option" where
  "write_description client buf = do {
     nm \<leftarrow> mem_read (jc_name client) (jc_name_len client);
     buf \<leftarrow> mem_write buf 0 nm;
     buf \<leftarrow> mem_write buf (jc_name_len client) '': '';
     write_port_names client [0..<nat (jc_port_count client)] (jc_name_len client + 2) buf
   }"

text \<open>
  The ports of the device. \<open>dj->ports[port_index]\<close> gets a copy of the name; the loop stops
  when there is no memory for one (the result is then false).
\<close>

definition set_dj_port :: "nat \<Rightarrow> nat \<Rightarrow> SoundIoDeviceJackPort \<Rightarrow> 'z sio_scheme \<Rightarrow> 'z sio_scheme option" where
  "set_dj_port p i djp s = do {
     d \<leftarrow> devices s p;
     (b, ports) \<leftarrow> dj_ports (dev_jack d);
     ports \<leftarrow> arr_set ports (int i) djp;
     upd_dev p (\<lambda>d. d\<lparr>dev_jack := (dev_jack d)\<lparr>dj_ports := Some (b, ports)\<rparr>\<rparr>) s
   }"

fun copy_ports :: "SoundIoJackClient \<Rightarrow> nat \<Rightarrow> nat list \<Rightarrow> 'z sio_scheme \<Rightarrow> (bool \<times> 'z sio_scheme) option" where
  "copy_ports client p [] s = Some (True, s)"
| "copy_ports client p (i # is) s = do {
     port \<leftarrow> client_port client i;
     (nm, s) \<leftarrow> soundio_str_dupe (jp_full_name port) (jp_full_name_len port) s;
     s \<leftarrow> set_dj_port p i \<lparr>djp_full_name = nm, djp_full_name_len = jp_full_name_len port,
       djp_channel_id = jp_channel_id port, djp_latency_max = jp_latency_max port\<rparr> s;
     if nm = None then Some (False, s) else copy_ports client p is s
   }"

definition djp_zero :: SoundIoDeviceJackPort where
  "djp_zero = \<lparr>djp_full_name = None, djp_full_name_len = 0, djp_channel_id = SoundIoChannelIdInvalid, djp_latency_max = 0\<rparr>"

text \<open>The layout of the device: the channels of the ports, or a default one when some are unknown.\<close>

fun set_channels :: "SoundIoJackClient \<Rightarrow> nat list \<Rightarrow> SoundIoChannelLayout \<Rightarrow> bool \<Rightarrow> (SoundIoChannelLayout \<times> bool) option" where
  "set_channels client [] layout any_invalid = Some (layout, any_invalid)"
| "set_channels client (i # is) layout any_invalid = do {
     port \<leftarrow> client_port client i;
     channels \<leftarrow> arr_set (cl_channels layout) (int i) (jp_channel_id port);
     set_channels client is (layout\<lparr>cl_channels := channels\<rparr>)
       (any_invalid \<or> jp_channel_id port = SoundIoChannelIdInvalid)
   }"

definition client_layout :: "SoundIoJackClient \<Rightarrow> SoundIoChannelLayout option" where
  "client_layout client = do {
     (layout, any_invalid) \<leftarrow> set_channels client [0..<nat (jc_port_count client)]
       (layout_zero\<lparr>cl_channel_count := jc_port_count client\<rparr>) False;
     if any_invalid then do {
       l \<leftarrow> soundio_channel_layout_get_default (jc_port_count client);
       Some (case l of Some l \<Rightarrow> l | None \<Rightarrow> layout)
     }
     else do {
       (known, layout) \<leftarrow> soundio_channel_layout_detect_builtin layout;
       Some layout
     }
   }"

text \<open>The default device is the first physical one of its aim.\<close>

definition set_default_index :: "SoundIoJackClient \<Rightarrow> SoundIoDevicesInfo \<Rightarrow> SoundIoDevicesInfo" where
  "set_default_index client info =
     (case jc_aim client of
        SoundIoDeviceAimOutput \<Rightarrow>
          (if default_output_index info < 0 \<and> jc_is_physical client
           then info\<lparr>default_output_index := l_length (output_devices info)\<rparr> else info)
      | SoundIoDeviceAimInput \<Rightarrow>
          (if default_input_index info < 0 \<and> jc_is_physical client
           then info\<lparr>default_input_index := l_length (input_devices info)\<rparr> else info))"

text \<open>
  The body of the second loop: a device for a client. \<open>names\<close> is the list to free and \<open>q\<close>
  the device lists under construction.
\<close>

definition create_jack_device ::
  "'j jack_api \<Rightarrow> bool \<Rightarrow> nat \<Rightarrow> nat \<Rightarrow> nat \<Rightarrow> SoundIoJackClient \<Rightarrow> ('j, 'z) jsio_scheme \<Rightarrow>
   (SoundIoError \<times> ('j, 'z) jsio_scheme) option" where
  "create_jack_device api big_endian si names q client s =
     (let (dev, s) = alloc s
      in case dev of None \<Rightarrow> refresh_give_up api (Some names) None q SoundIoErrorNoMem s
      | Some p \<Rightarrow> do {
          x \<leftarrow> sios s si;
          let sij = jack x;
          len \<leftarrow> description_len client;
          (id, s) \<leftarrow> soundio_str_dupe (jc_name client) (jc_name_len client) s;
          let (name, s) = alloc s;
          latency \<leftarrow> dbl_div (real_of_int (jack_period_size sij)) (real_of_int (jack_sample_rate sij));
          let (ports, s) = alloc s;
          let d = device_zero\<lparr>destruct := Some jack_destruct_device, ref_count := 1, dev_soundio := Some si, is_raw := False,
              aim := jc_aim client, dev_id := id, dev_name := map_option (\<lambda>b. (b, [])) name,
              current_format := SoundIoFormatFloat32NE big_endian, sample_rate_count := 1, sample_rates := RatesPrealloc,
              prealloc_sample_rate_range := \<lparr>range_min = jack_sample_rate sij, range_max = jack_sample_rate sij\<rparr>,
              sample_rate_current := jack_sample_rate sij, software_latency_current := latency,
              software_latency_min := latency, software_latency_max := latency,
              dev_jack := \<lparr>dj_port_count = jc_port_count client,
                dj_ports = map_option (\<lambda>b. (b, replicate (nat (jc_port_count client)) djp_zero)) ports\<rparr>\<rparr>;
          let s = s\<lparr>devices := (devices s)(p \<mapsto> d)\<rparr>;
          if id = None \<or> name = None \<or> ports = None
          then refresh_give_up api (Some names) (Some p) q SoundIoErrorNoMem s
          else do {
            (ok, s) \<leftarrow> copy_ports client p [0..<nat (jc_port_count client)] s;
            if \<not> ok then refresh_give_up api (Some names) (Some p) q SoundIoErrorNoMem s
            else do {
              buf \<leftarrow> write_description client (replicate (nat len) (CHR 0x00));
              nm \<leftarrow> c_string buf;
              layout \<leftarrow> client_layout client;
              s \<leftarrow> upd_dev p (\<lambda>d. d\<lparr>dev_name := map_option (\<lambda>b. (b, nm)) name, current_layout := layout,
                layout_count := 1, layouts := LayoutsCurrent, format_count := 1, formats := FormatsPrealloc,
                prealloc_format := current_format d\<rparr>) s;
              s \<leftarrow> upd_info (Some q) (set_default_index client) s;
              (err, s) \<leftarrow> append_device (jc_aim client) (Some q) p s;
              if err \<noteq> SoundIoErrorNone then refresh_give_up api None (Some p) q SoundIoErrorNoMem s
              else Some (SoundIoErrorNone, s)
            }
          }
        })"

fun create_jack_devices ::
  "'j jack_api \<Rightarrow> bool \<Rightarrow> nat \<Rightarrow> nat \<Rightarrow> nat \<Rightarrow> SoundIoJackClient clist \<Rightarrow> nat list \<Rightarrow> ('j, 'z) jsio_scheme \<Rightarrow>
   (SoundIoError \<times> ('j, 'z) jsio_scheme) option" where
  "create_jack_devices api big_endian si names q clients [] s = Some (SoundIoErrorNone, s)"
| "create_jack_devices api big_endian si names q clients (i # is) s = do {
     client \<leftarrow> list_val_at clients (int i);
     if jc_port_count client \<le> 0 then create_jack_devices api big_endian si names q clients is s
     else do {
       (err, s) \<leftarrow> create_jack_device api big_endian si names q client s;
       if err \<noteq> SoundIoErrorNone then Some (err, s)
       else create_jack_devices api big_endian si names q clients is s
     }
   }"

text \<open>The array of the list \<open>clients\<close> is not freed on any path.\<close>

definition refresh_devices_bare ::
  "'j jack_api \<Rightarrow> bool \<Rightarrow> nat \<Rightarrow> ('j, 'z) jsio_scheme \<Rightarrow> (SoundIoError \<times> ('j, 'z) jsio_scheme) option" where
  "refresh_devices_bare api big_endian si s = do {
     x \<leftarrow> sios s si;
     if is_shutdown (jack x) then Some (SoundIoErrorBackendDisconnected, s)
     else
       let (q, s) = alloc s
       in case q of None \<Rightarrow> Some (SoundIoErrorNoMem, s)
       | Some q \<Rightarrow> do {
           let s = s\<lparr>infos := (infos s)(q \<mapsto> devices_info_zero\<lparr>default_output_index := - 1, default_input_index := - 1\<rparr>)\<rparr>;
           c \<leftarrow> jack_client (jack x);
           let (port_names, s) = in_world (jack_get_ports api c) s;
           case port_names of
             None \<Rightarrow> refresh_give_up api None None q SoundIoErrorNoMem s
           | Some (names, port_list) \<Rightarrow> do {
               (err, clients, s) \<leftarrow> scan_ports api c port_list clist_zero s;
               if err \<noteq> SoundIoErrorNone then refresh_give_up api (Some names) None q err s
               else do {
                 (err, s) \<leftarrow> create_jack_devices api big_endian si names q clients [0..<nat (l_length clients)] s;
                 if err \<noteq> SoundIoErrorNone then Some (err, s)
                 else do {
                   s \<leftarrow> world_do (jack_free api names) s;
                   s \<leftarrow> soundio_destroy_devices_info (safe_devices_info x) s;
                   s \<leftarrow> upd_sio si (\<lambda>x. x\<lparr>safe_devices_info := Some q\<rparr>) s;
                   Some (SoundIoErrorNone, s)
                 }
               }
             }
         }
   }"

text \<open>The loop goes on while the scan is interrupted, possibly for ever.\<close>

partial_function (option) refresh_devices ::
  "'j jack_api \<Rightarrow> bool \<Rightarrow> nat \<Rightarrow> ('j, 'z) jsio_scheme \<Rightarrow> (SoundIoError \<times> ('j, 'z) jsio_scheme) option" where
  "refresh_devices api big_endian si s =
     Option.bind (refresh_devices_bare api big_endian si s)
       (\<lambda>r. if fst r = SoundIoErrorInterrupted then refresh_devices api big_endian si (snd r) else Some r)"

subsection \<open>Events\<close>

text \<open>
  \<open>others\<close> is what the other threads do while the caller waits with the mutex released.
  The default callback for a disconnected backend ends the program.
\<close>

definition on_backend_disconnect :: "nat \<Rightarrow> SoundIoError \<Rightarrow> 'z sio_scheme \<Rightarrow> 'z sio_scheme option" where
  "on_backend_disconnect si err s = do {
     x \<leftarrow> sios s si;
     c_assert (\<not> on_backend_disconnect_default x);
     Some (emit (BackendDisconnect si err) s)
   }"

definition released_wait ::
  "(('j, 'z) jsio_scheme \<Rightarrow> ('j, 'z) jsio_scheme option) \<Rightarrow> nat option \<Rightarrow> nat option \<Rightarrow> ('j, 'z) jsio_scheme \<Rightarrow>
   ('j, 'z) jsio_scheme option" where
  "released_wait others cnd mutex s = do {
     s \<leftarrow> soundio_os_cond_wait cnd mutex s;
     s \<leftarrow> soundio_os_mutex_unlock mutex s;
     s \<leftarrow> others s;
     soundio_os_mutex_lock mutex s
   }"

definition my_flush_events ::
  "'j jack_api \<Rightarrow> bool \<Rightarrow> (('j, 'z) jsio_scheme \<Rightarrow> ('j, 'z) jsio_scheme option) \<Rightarrow> nat \<Rightarrow> bool \<Rightarrow>
   ('j, 'z) jsio_scheme \<Rightarrow> ('j, 'z) jsio_scheme option" where
  "my_flush_events api big_endian others si wait s = do {
     x \<leftarrow> sios s si;
     let mutex = jack_mutex (jack x);
     s \<leftarrow> soundio_os_mutex_lock mutex s;
     s \<leftarrow> (if wait then released_wait others (jack_cond (jack x)) mutex s else Some s);
     x \<leftarrow> sios s si;
     let cb_shutdown = (is_shutdown (jack x) \<and> \<not> emitted_shutdown_cb (jack x));
     s \<leftarrow> (if cb_shutdown then upd_sij si (\<lambda>j. j\<lparr>emitted_shutdown_cb := True\<rparr>) s else Some s);
     s \<leftarrow> soundio_os_mutex_unlock mutex s;
     if cb_shutdown then on_backend_disconnect si SoundIoErrorBackendDisconnected s
     else do {
       x \<leftarrow> sios s si;
       s \<leftarrow> upd_sij si (\<lambda>j. j\<lparr>refresh_devices_flag := True\<rparr>) s;
       if refresh_devices_flag (jack x) then Some s
       else do {
         (err, s) \<leftarrow> refresh_devices api big_endian si s;
         if err \<noteq> SoundIoErrorNone then upd_sij si (\<lambda>j. j\<lparr>refresh_devices_flag := False\<rparr>) s
         else Some (emit (DevicesChange si) s)
       }
     }
   }"

definition flush_events_jack ::
  "'j jack_api \<Rightarrow> bool \<Rightarrow> nat \<Rightarrow> ('j, 'z) jsio_scheme \<Rightarrow> ('j, 'z) jsio_scheme option" where
  "flush_events_jack api big_endian si s = my_flush_events api big_endian Some si False s"

definition wait_events_jack ::
  "'j jack_api \<Rightarrow> bool \<Rightarrow> (('j, 'z) jsio_scheme \<Rightarrow> ('j, 'z) jsio_scheme option) \<Rightarrow> nat \<Rightarrow>
   ('j, 'z) jsio_scheme \<Rightarrow> ('j, 'z) jsio_scheme option" where
  "wait_events_jack api big_endian others si s = do {
     s \<leftarrow> my_flush_events api big_endian Some si False s;
     my_flush_events api big_endian others si True s
   }"

definition wakeup_jack :: "nat \<Rightarrow> 'z sio_scheme \<Rightarrow> 'z sio_scheme option" where
  "wakeup_jack si s = do {
     x \<leftarrow> sios s si;
     s \<leftarrow> soundio_os_mutex_lock (jack_mutex (jack x)) s;
     s \<leftarrow> soundio_os_cond_signal (jack_cond (jack x)) (jack_mutex (jack x)) s;
     soundio_os_mutex_unlock (jack_mutex (jack x)) s
   }"

definition force_device_scan_jack :: "nat \<Rightarrow> 'z sio_scheme \<Rightarrow> 'z sio_scheme option" where
  "force_device_scan_jack si s = do {
     s \<leftarrow> upd_sij si (\<lambda>j. j\<lparr>refresh_devices_flag := False\<rparr>) s;
     x \<leftarrow> sios s si;
     s \<leftarrow> soundio_os_mutex_lock (jack_mutex (jack x)) s;
     s \<leftarrow> soundio_os_cond_signal (jack_cond (jack x)) (jack_mutex (jack x)) s;
     let s = emit (EventsSignal si) s;
     soundio_os_mutex_unlock (jack_mutex (jack x)) s
   }"

definition notify_devices_change :: "nat \<Rightarrow> 'z sio_scheme \<Rightarrow> 'z sio_scheme option" where
  "notify_devices_change si s = do {
     s \<leftarrow> upd_sij si (\<lambda>j. j\<lparr>refresh_devices_flag := False\<rparr>) s;
     x \<leftarrow> sios s si;
     s \<leftarrow> soundio_os_mutex_lock (jack_mutex (jack x)) s;
     s \<leftarrow> soundio_os_cond_signal (jack_cond (jack x)) (jack_mutex (jack x)) s;
     let s = emit (EventsSignal si) s;
     soundio_os_mutex_unlock (jack_mutex (jack x)) s
   }"

text \<open>The callbacks of the main client. \<open>jack_nframes_t\<close> is unsigned and stored in an \<open>int\<close>.\<close>

definition buffer_size_callback :: "nat \<Rightarrow> nat \<Rightarrow> 'z sio_scheme \<Rightarrow> (int \<times> 'z sio_scheme) option" where
  "buffer_size_callback nframes si s = do {
     s \<leftarrow> upd_sij si (\<lambda>j. j\<lparr>jack_period_size := to_int32 (int nframes)\<rparr>) s;
     s \<leftarrow> notify_devices_change si s;
     Some (0, s)
   }"

definition sample_rate_callback :: "nat \<Rightarrow> nat \<Rightarrow> 'z sio_scheme \<Rightarrow> (int \<times> 'z sio_scheme) option" where
  "sample_rate_callback nframes si s = do {
     s \<leftarrow> upd_sij si (\<lambda>j. j\<lparr>jack_sample_rate := to_int32 (int nframes)\<rparr>) s;
     s \<leftarrow> notify_devices_change si s;
     Some (0, s)
   }"

definition port_registration_callback :: "nat \<Rightarrow> 'z sio_scheme \<Rightarrow> 'z sio_scheme option" where
  "port_registration_callback si s = notify_devices_change si s"

definition port_rename_calllback :: "nat \<Rightarrow> 'z sio_scheme \<Rightarrow> 'z sio_scheme option" where
  "port_rename_calllback si s = notify_devices_change si s"

definition shutdown_callback :: "nat \<Rightarrow> 'z sio_scheme \<Rightarrow> 'z sio_scheme option" where
  "shutdown_callback si s = do {
     x \<leftarrow> sios s si;
     s \<leftarrow> soundio_os_mutex_lock (jack_mutex (jack x)) s;
     s \<leftarrow> upd_sij si (\<lambda>j. j\<lparr>is_shutdown := True\<rparr>) s;
     s \<leftarrow> soundio_os_cond_signal (jack_cond (jack x)) (jack_mutex (jack x)) s;
     let s = emit (EventsSignal si) s;
     soundio_os_mutex_unlock (jack_mutex (jack x)) s
   }"

subsection \<open>What output and input streams share\<close>

definition find_port_matching_channel ::
  "SoundIoDevice \<Rightarrow> SoundIoChannelId \<Rightarrow> SoundIoDeviceJackPort option option" where
  "find_port_matching_channel device ident = do {
     found \<leftarrow> find_r (\<lambda>ch. do {
         chan_id \<leftarrow> arr_at (cl_channels (current_layout device)) (int ch);
         Some (chan_id = ident)
       }) [0..<nat (cl_channel_count (current_layout device))];
     case found of None \<Rightarrow> Some None
     | Some ch \<Rightarrow> do {
         (b, ports) \<leftarrow> dj_ports (dev_jack device);
         djp \<leftarrow> arr_at ports (int ch);
         Some (Some djp)
       }
   }"

definition nframes_max :: "nat \<Rightarrow> nat \<Rightarrow> nat" where
  "nframes_max a b = (if a \<ge> b then a else b)"

text \<open>The callbacks are set in order until one cannot be set.\<close>

fun set_callbacks ::
  "'j jack_api \<Rightarrow> jack_cb list \<Rightarrow> nat \<Rightarrow> nat \<Rightarrow> ('j, 'z) jsio_scheme \<Rightarrow> bool \<times> ('j, 'z) jsio_scheme" where
  "set_callbacks api [] c arg s = (True, s)"
| "set_callbacks api (cb # cbs) c arg s =
     (let (err, s) = in_world (jack_set_callback api cb c arg) s
      in if err \<noteq> 0 then (False, s) else set_callbacks api cbs c arg s)"

text \<open>\<open>return\<close> after a failed \<open>jack_client_open\<close>.\<close>

definition open_error :: "JackStatus set \<Rightarrow> SoundIoError \<Rightarrow> SoundIoError option" where
  "open_error status otherwise = do {
     c_assert (JackInvalidOption \<notin> status);
     Some (if JackShmFailure \<in> status then SoundIoErrorSystemResources
           else if JackNoSuchClient \<in> status then SoundIoErrorNoSuchClient
           else otherwise)
   }"

text \<open>The registered ports, the number of those that found a partner, and the latency so far.\<close>

record port_map =
  pm_ports :: "SoundIoStreamJackPort list"
  pm_connected :: int
  pm_latency :: nat

text \<open>
  The first loop over the channels of the layout: register a port for the channel and look
  for the device port with the same channel. It stops (false) when JACK gives no port.
\<close>

fun register_ports ::
  "'j jack_api \<Rightarrow> nat \<Rightarrow> JackPortFlag set \<Rightarrow> SoundIoDevice \<Rightarrow> SoundIoChannelLayout \<Rightarrow> nat list \<Rightarrow> port_map \<Rightarrow>
   ('j, 'z) jsio_scheme \<Rightarrow> (bool \<times> port_map \<times> ('j, 'z) jsio_scheme) option" where
  "register_ports api c flags device layout [] pm s = Some (True, pm, s)"
| "register_ports api c flags device layout (ch # chs) pm s = do {
     my_channel_id \<leftarrow> arr_at (cl_channels layout) (int ch);
     let (jport, s) = in_world (jack_port_register api c (soundio_get_channel_name my_channel_id) flags) s;
     case jport of None \<Rightarrow> Some (False, pm, s)
     | Some jport \<Rightarrow> do {
         osjp \<leftarrow> arr_at (pm_ports pm) (int ch);
         djp \<leftarrow> find_port_matching_channel device my_channel_id;
         let osjp = osjp\<lparr>own_port := Some jport\<rparr>;
         let osjp = (case djp of None \<Rightarrow> osjp | Some djp \<Rightarrow> osjp\<lparr>peer_port_name := map_option snd (djp_full_name djp)\<rparr>);
         ports \<leftarrow> arr_set (pm_ports pm) (int ch) osjp;
         let pm = pm\<lparr>pm_ports := ports\<rparr>;
         let pm = (case djp of None \<Rightarrow> pm
           | Some djp \<Rightarrow> pm\<lparr>pm_connected := pm_connected pm + 1, pm_latency := nframes_max (pm_latency pm) (djp_latency_max djp)\<rparr>);
         register_ports api c flags device layout chs pm s
       }
   }"

text \<open>The second loop, when no port found a partner: the ports of the device in order.\<close>

fun pair_in_order :: "SoundIoDevice \<Rightarrow> nat list \<Rightarrow> port_map \<Rightarrow> port_map option" where
  "pair_in_order device [] pm = Some pm"
| "pair_in_order device (ch # chs) pm = do {
     (b, dports) \<leftarrow> dj_ports (dev_jack device);
     djp \<leftarrow> arr_at dports (int ch);
     osjp \<leftarrow> arr_at (pm_ports pm) (int ch);
     ports \<leftarrow> arr_set (pm_ports pm) (int ch) (osjp\<lparr>peer_port_name := map_option snd (djp_full_name djp)\<rparr>);
     pair_in_order device chs
       (pm\<lparr>pm_ports := ports, pm_latency := nframes_max (pm_latency pm) (djp_latency_max djp)\<rparr>)
   }"

fun get_buffers ::
  "'j jack_api \<Rightarrow> nat \<Rightarrow> int \<Rightarrow> 'j \<Rightarrow> SoundIoStreamJackPort list \<Rightarrow> nat list \<Rightarrow> SoundIoChannelArea list \<Rightarrow>
   SoundIoChannelArea list option" where
  "get_buffers api nframes bytes_per_sample w ports [] areas = Some areas"
| "get_buffers api nframes bytes_per_sample w ports (ch # chs) areas = do {
     osjp \<leftarrow> arr_at ports (int ch);
     port \<leftarrow> own_port osjp;
     areas \<leftarrow> arr_set areas (int ch) \<lparr>area_ptr = jack_port_get_buffer api port nframes w, area_step = bytes_per_sample\<rparr>;
     get_buffers api nframes bytes_per_sample w ports chs areas
   }"

text \<open>The connections of a started stream; ports without a partner are left alone.\<close>

fun connect_ports ::
  "'j jack_api \<Rightarrow> bool \<Rightarrow> nat \<Rightarrow> SoundIoStreamJackPort list \<Rightarrow> nat list \<Rightarrow> ('j, 'z) jsio_scheme \<Rightarrow>
   (SoundIoError \<times> ('j, 'z) jsio_scheme) option" where
  "connect_ports api outgoing c ports [] s = Some (SoundIoErrorNone, s)"
| "connect_ports api outgoing c ports (ch # chs) s = do {
     osjp \<leftarrow> arr_at ports (int ch);
     case peer_port_name osjp of None \<Rightarrow> connect_ports api outgoing c ports chs s
     | Some peer \<Rightarrow> do {
         port \<leftarrow> own_port osjp;
         let own = jack_port_name api port (world s);
         let (err, s) = in_world (if outgoing then jack_connect api c own peer else jack_connect api c peer own) s;
         if err \<noteq> 0 then Some (SoundIoErrorStreaming, s) else connect_ports api outgoing c ports chs s
       }
   }"


subsection \<open>Output streams\<close>

definition outstream_error_callback :: "nat \<Rightarrow> SoundIoError \<Rightarrow> 'z sio_scheme \<Rightarrow> 'z sio_scheme option" where
  "outstream_error_callback p err s = do {
     os \<leftarrow> outstreams s p;
     c_assert (\<not> os_error_callback_default os);
     Some (emit (OutStreamError p err) s)
   }"

definition outstream_process_callback ::
  "'j jack_api \<Rightarrow> ('j, 'z) jsio_ext callback \<Rightarrow> nat \<Rightarrow> nat \<Rightarrow> ('j, 'z) jsio_scheme \<Rightarrow> (int \<times> ('j, 'z) jsio_scheme) option" where
  "outstream_process_callback api write_callback nframes p s = do {
     s \<leftarrow> upd_osj p (\<lambda>j. j\<lparr>sj_frames_left := to_int32 (int nframes)\<rparr>) s;
     os \<leftarrow> outstreams s p;
     areas \<leftarrow> get_buffers api nframes (os_bytes_per_sample os) (world s) (sj_ports (osj os))
       [0..<nat (cl_channel_count (os_layout os))] (sj_areas (osj os));
     s \<leftarrow> upd_osj p (\<lambda>j. j\<lparr>sj_areas := areas\<rparr>) s;
     s \<leftarrow> write_callback p (sj_frames_left (osj os)) (sj_frames_left (osj os)) s;
     Some (0, s)
   }"

definition outstream_destroy_jack :: "'j jack_api \<Rightarrow> nat \<Rightarrow> ('j, 'z) jsio_scheme \<Rightarrow> ('j, 'z) jsio_scheme option" where
  "outstream_destroy_jack api p s = do {
     os \<leftarrow> outstreams s p;
     s \<leftarrow> world_do (jack_client_close api (sj_client (osj os))) s;
     upd_osj p (\<lambda>j. j\<lparr>sj_client := None\<rparr>) s
   }"

definition outstream_xrun_callback :: "nat \<Rightarrow> 'z sio_scheme \<Rightarrow> (int \<times> 'z sio_scheme) option" where
  "outstream_xrun_callback p s = Some (0, emit (UnderflowCb p) s)"

definition outstream_buffer_size_callback :: "nat \<Rightarrow> nat \<Rightarrow> 'z sio_scheme \<Rightarrow> (int \<times> 'z sio_scheme) option" where
  "outstream_buffer_size_callback nframes p s = do {
     os \<leftarrow> outstreams s p;
     if (word_of_int (sj_period_size (osj os)) :: 32 word) = word_of_nat nframes then Some (0, s)
     else do { s \<leftarrow> outstream_error_callback p SoundIoErrorStreaming s; Some (- 1, s) }
   }"

definition outstream_sample_rate_callback :: "nat \<Rightarrow> nat \<Rightarrow> 'z sio_scheme \<Rightarrow> (int \<times> 'z sio_scheme) option" where
  "outstream_sample_rate_callback nframes p s = do {
     os \<leftarrow> outstreams s p;
     if (word_of_nat nframes :: 32 word) = word_of_int (os_sample_rate os) then Some (0, s)
     else do { s \<leftarrow> outstream_error_callback p SoundIoErrorStreaming s; Some (- 1, s) }
   }"

definition outstream_shutdown_callback :: "nat \<Rightarrow> 'z sio_scheme \<Rightarrow> 'z sio_scheme option" where
  "outstream_shutdown_callback p s = outstream_error_callback p SoundIoErrorStreaming s"

definition outstream_jack_failed ::
  "'j jack_api \<Rightarrow> nat \<Rightarrow> ('j, 'z) jsio_scheme \<Rightarrow> (SoundIoError \<times> ('j, 'z) jsio_scheme) option" where
  "outstream_jack_failed api p s = do { s \<leftarrow> outstream_destroy_jack api p s; Some (SoundIoErrorOpeningDevice, s) }"

text \<open>
  The second half of \<open>outstream_open_jack\<close>: ports, partners and latency. The partners are taken in
  order when no channel matched.
\<close>

definition outstream_map_channels ::
  "'j jack_api \<Rightarrow> nat \<Rightarrow> nat \<Rightarrow> ('j, 'z) jsio_scheme \<Rightarrow> (SoundIoError \<times> ('j, 'z) jsio_scheme) option" where
  "outstream_map_channels api c p s = do {
     os \<leftarrow> outstreams s p;
     dv \<leftarrow> os_device os;
     device \<leftarrow> devices s dv;
     let n = cl_channel_count (os_layout os);
     let flags = insert JackPortIsOutput (if os_non_terminal_hint os then {} else {JackPortIsTerminal});
     (ok, pm, s) \<leftarrow> register_ports api c flags device (os_layout os) [0..<nat n]
       \<lparr>pm_ports = sj_ports (osj os), pm_connected = 0, pm_latency = 0\<rparr> s;
     s \<leftarrow> upd_osj p (\<lambda>j. j\<lparr>sj_ports := pm_ports pm\<rparr>) s;
     if \<not> ok then outstream_jack_failed api p s
     else do {
       (pm, s) \<leftarrow> (if pm_connected pm = 0 then do {
           let ch_count = soundio_int_min n (dj_port_count (dev_jack device));
           pm \<leftarrow> pair_in_order device [0..<nat ch_count] (pm\<lparr>pm_latency := 0\<rparr>);
           s \<leftarrow> upd_out p (\<lambda>x. x\<lparr>os_layout_error := SoundIoErrorIncompatibleDevice\<rparr>) s;
           Some (pm, s)
         } else Some (pm, s));
       latency \<leftarrow> dbl_div (real (pm_latency pm)) (real_of_int (os_sample_rate os));
       s \<leftarrow> upd_osj p (\<lambda>j. j\<lparr>sj_ports := pm_ports pm, sj_hardware_latency := latency\<rparr>) s;
       Some (SoundIoErrorNone, s)
     }
   }"

definition outstream_open_jack ::
  "'j jack_api \<Rightarrow> nat \<Rightarrow> nat \<Rightarrow> ('j, 'z) jsio_scheme \<Rightarrow> (SoundIoError \<times> ('j, 'z) jsio_scheme) option" where
  "outstream_open_jack api si p s = do {
     x \<leftarrow> sios s si;
     os \<leftarrow> outstreams s p;
     dv \<leftarrow> os_device os;
     device \<leftarrow> devices s dv;
     if is_shutdown (jack x) then Some (SoundIoErrorBackendDisconnected, s)
     else do {
       let name = (case os_name os of None \<Rightarrow> ''SoundIoOutStream'' | Some n \<Rightarrow> n);
       s \<leftarrow> upd_out p (\<lambda>x. x\<lparr>os_name := Some name, os_software_latency := software_latency_current device\<rparr>) s;
       s \<leftarrow> upd_osj p (\<lambda>j. j\<lparr>sj_period_size := jack_period_size (jack x)\<rparr>) s;
       let ((client, status), s) = in_world (jack_client_open api name) s;
       s \<leftarrow> upd_osj p (\<lambda>j. j\<lparr>sj_client := client\<rparr>) s;
       case client of
         None \<Rightarrow> do {
           s \<leftarrow> outstream_destroy_jack api p s;
           err \<leftarrow> open_error status SoundIoErrorOpeningDevice;
           Some (err, s)
         }
       | Some c \<Rightarrow>
           let (ok, s) = set_callbacks api [ProcessCb, BufferSizeCb, SampleRateCb, XrunCb] c p s
           in if \<not> ok then outstream_jack_failed api p s
              else outstream_map_channels api c p (s\<lparr>world := jack_on_shutdown api c p (world s)\<rparr>)
     }
   }"

definition outstream_pause_jack :: "nat \<Rightarrow> nat \<Rightarrow> bool \<Rightarrow> 'z sio_scheme \<Rightarrow> (SoundIoError \<times> 'z sio_scheme) option" where
  "outstream_pause_jack si p pause s = do {
     x \<leftarrow> sios s si;
     Some (if is_shutdown (jack x) then SoundIoErrorBackendDisconnected else SoundIoErrorIncompatibleBackend, s)
   }"

definition outstream_start_jack ::
  "'j jack_api \<Rightarrow> nat \<Rightarrow> nat \<Rightarrow> ('j, 'z) jsio_scheme \<Rightarrow> (SoundIoError \<times> ('j, 'z) jsio_scheme) option" where
  "outstream_start_jack api si p s = do {
     x \<leftarrow> sios s si;
     os \<leftarrow> outstreams s p;
     if is_shutdown (jack x) then Some (SoundIoErrorBackendDisconnected, s)
     else do {
       c \<leftarrow> sj_client (osj os);
       let (err, s) = in_world (jack_activate api c) s;
       if err \<noteq> 0 then Some (SoundIoErrorStreaming, s)
       else connect_ports api True c (sj_ports (osj os)) [0..<nat (cl_channel_count (os_layout os))] s
     }
   }"

definition outstream_begin_write_jack ::
  "nat \<Rightarrow> int \<Rightarrow> 'z sio_scheme \<Rightarrow> (SoundIoError \<times> SoundIoChannelArea list \<times> 'z sio_scheme) option" where
  "outstream_begin_write_jack p frame_count s = do {
     os \<leftarrow> outstreams s p;
     if frame_count \<noteq> sj_frames_left (osj os) then Some (SoundIoErrorInvalid, [], s)
     else Some (SoundIoErrorNone, sj_areas (osj os), s)
   }"

definition outstream_end_write_jack :: "nat \<Rightarrow> 'z sio_scheme \<Rightarrow> (SoundIoError \<times> 'z sio_scheme) option" where
  "outstream_end_write_jack p s = do {
     s \<leftarrow> upd_osj p (\<lambda>j. j\<lparr>sj_frames_left := 0\<rparr>) s;
     Some (SoundIoErrorNone, s)
   }"

definition outstream_get_latency_jack :: "nat \<Rightarrow> 'z sio_scheme \<Rightarrow> (SoundIoError \<times> real) option" where
  "outstream_get_latency_jack p s = do {
     os \<leftarrow> outstreams s p;
     Some (SoundIoErrorNone, sj_hardware_latency (osj os))
   }"

definition outstream_clear_buffer_jack :: "nat \<Rightarrow> 'z sio_scheme \<Rightarrow> (SoundIoError \<times> 'z sio_scheme) option" where
  "outstream_clear_buffer_jack p s = Some (SoundIoErrorIncompatibleBackend, s)"

subsection \<open>Input streams\<close>

definition instream_error_callback :: "nat \<Rightarrow> SoundIoError \<Rightarrow> 'z sio_scheme \<Rightarrow> 'z sio_scheme option" where
  "instream_error_callback p err s = do {
     is \<leftarrow> instreams s p;
     c_assert (\<not> is_error_callback_default is);
     Some (emit (InStreamError p err) s)
   }"

definition instream_process_callback ::
  "'j jack_api \<Rightarrow> ('j, 'z) jsio_ext callback \<Rightarrow> nat \<Rightarrow> nat \<Rightarrow> ('j, 'z) jsio_scheme \<Rightarrow> (int \<times> ('j, 'z) jsio_scheme) option" where
  "instream_process_callback api read_callback nframes p s = do {
     s \<leftarrow> upd_isj p (\<lambda>j. j\<lparr>sj_frames_left := to_int32 (int nframes)\<rparr>) s;
     is \<leftarrow> instreams s p;
     areas \<leftarrow> get_buffers api nframes (is_bytes_per_sample is) (world s) (sj_ports (isj is))
       [0..<nat (cl_channel_count (is_layout is))] (sj_areas (isj is));
     s \<leftarrow> upd_isj p (\<lambda>j. j\<lparr>sj_areas := areas\<rparr>) s;
     s \<leftarrow> read_callback p (sj_frames_left (isj is)) (sj_frames_left (isj is)) s;
     Some (0, s)
   }"

definition instream_destroy_jack :: "'j jack_api \<Rightarrow> nat \<Rightarrow> ('j, 'z) jsio_scheme \<Rightarrow> ('j, 'z) jsio_scheme option" where
  "instream_destroy_jack api p s = do {
     is \<leftarrow> instreams s p;
     s \<leftarrow> world_do (jack_client_close api (sj_client (isj is))) s;
     upd_isj p (\<lambda>j. j\<lparr>sj_client := None\<rparr>) s
   }"

definition instream_xrun_callback :: "nat \<Rightarrow> 'z sio_scheme \<Rightarrow> (int \<times> 'z sio_scheme) option" where
  "instream_xrun_callback p s = Some (0, emit (OverflowCb p) s)"

definition instream_buffer_size_callback :: "nat \<Rightarrow> nat \<Rightarrow> 'z sio_scheme \<Rightarrow> (int \<times> 'z sio_scheme) option" where
  "instream_buffer_size_callback nframes p s = do {
     is \<leftarrow> instreams s p;
     if (word_of_int (sj_period_size (isj is)) :: 32 word) = word_of_nat nframes then Some (0, s)
     else do { s \<leftarrow> instream_error_callback p SoundIoErrorStreaming s; Some (- 1, s) }
   }"

definition instream_sample_rate_callback :: "nat \<Rightarrow> nat \<Rightarrow> 'z sio_scheme \<Rightarrow> (int \<times> 'z sio_scheme) option" where
  "instream_sample_rate_callback nframes p s = do {
     is \<leftarrow> instreams s p;
     if (word_of_nat nframes :: 32 word) = word_of_int (is_sample_rate is) then Some (0, s)
     else do { s \<leftarrow> instream_error_callback p SoundIoErrorStreaming s; Some (- 1, s) }
   }"

definition instream_shutdown_callback :: "nat \<Rightarrow> 'z sio_scheme \<Rightarrow> 'z sio_scheme option" where
  "instream_shutdown_callback p s = instream_error_callback p SoundIoErrorStreaming s"

definition instream_jack_failed ::
  "'j jack_api \<Rightarrow> nat \<Rightarrow> ('j, 'z) jsio_scheme \<Rightarrow> (SoundIoError \<times> ('j, 'z) jsio_scheme) option" where
  "instream_jack_failed api p s = do { s \<leftarrow> instream_destroy_jack api p s; Some (SoundIoErrorOpeningDevice, s) }"

text \<open>
  The second half of \<open>instream_open_jack\<close>: ports, partners and latency. The partners are taken in
  order when no channel matched.
\<close>

definition instream_map_channels ::
  "'j jack_api \<Rightarrow> nat \<Rightarrow> nat \<Rightarrow> ('j, 'z) jsio_scheme \<Rightarrow> (SoundIoError \<times> ('j, 'z) jsio_scheme) option" where
  "instream_map_channels api c p s = do {
     is \<leftarrow> instreams s p;
     dv \<leftarrow> is_device is;
     device \<leftarrow> devices s dv;
     let n = cl_channel_count (is_layout is);
     let flags = insert JackPortIsInput (if is_non_terminal_hint is then {} else {JackPortIsTerminal});
     (ok, pm, s) \<leftarrow> register_ports api c flags device (is_layout is) [0..<nat n]
       \<lparr>pm_ports = sj_ports (isj is), pm_connected = 0, pm_latency = 0\<rparr> s;
     s \<leftarrow> upd_isj p (\<lambda>j. j\<lparr>sj_ports := pm_ports pm\<rparr>) s;
     if \<not> ok then instream_jack_failed api p s
     else do {
       (pm, s) \<leftarrow> (if pm_connected pm = 0 then do {
           let ch_count = soundio_int_min n (dj_port_count (dev_jack device));
           pm \<leftarrow> pair_in_order device [0..<nat ch_count] (pm\<lparr>pm_latency := 0\<rparr>);
           s \<leftarrow> upd_in p (\<lambda>x. x\<lparr>is_layout_error := SoundIoErrorIncompatibleDevice\<rparr>) s;
           Some (pm, s)
         } else Some (pm, s));
       latency \<leftarrow> dbl_div (real (pm_latency pm)) (real_of_int (is_sample_rate is));
       s \<leftarrow> upd_isj p (\<lambda>j. j\<lparr>sj_ports := pm_ports pm, sj_hardware_latency := latency\<rparr>) s;
       Some (SoundIoErrorNone, s)
     }
   }"

definition instream_open_jack ::
  "'j jack_api \<Rightarrow> nat \<Rightarrow> nat \<Rightarrow> ('j, 'z) jsio_scheme \<Rightarrow> (SoundIoError \<times> ('j, 'z) jsio_scheme) option" where
  "instream_open_jack api si p s = do {
     x \<leftarrow> sios s si;
     is \<leftarrow> instreams s p;
     dv \<leftarrow> is_device is;
     device \<leftarrow> devices s dv;
     if is_shutdown (jack x) then Some (SoundIoErrorBackendDisconnected, s)
     else do {
       let name = (case is_name is of None \<Rightarrow> ''SoundIoInStream'' | Some n \<Rightarrow> n);
       s \<leftarrow> upd_in p (\<lambda>x. x\<lparr>is_name := Some name, is_software_latency := software_latency_current device\<rparr>) s;
       s \<leftarrow> upd_isj p (\<lambda>j. j\<lparr>sj_period_size := jack_period_size (jack x)\<rparr>) s;
       let ((client, status), s) = in_world (jack_client_open api name) s;
       s \<leftarrow> upd_isj p (\<lambda>j. j\<lparr>sj_client := client\<rparr>) s;
       case client of
         None \<Rightarrow> do {
           s \<leftarrow> instream_destroy_jack api p s;
           err \<leftarrow> open_error status SoundIoErrorOpeningDevice;
           Some (err, s)
         }
       | Some c \<Rightarrow>
           let (ok, s) = set_callbacks api [ProcessCb, BufferSizeCb, SampleRateCb, XrunCb] c p s
           in if \<not> ok then instream_jack_failed api p s
              else instream_map_channels api c p (s\<lparr>world := jack_on_shutdown api c p (world s)\<rparr>)
     }
   }"

definition instream_pause_jack :: "nat \<Rightarrow> nat \<Rightarrow> bool \<Rightarrow> 'z sio_scheme \<Rightarrow> (SoundIoError \<times> 'z sio_scheme) option" where
  "instream_pause_jack si p pause s = do {
     x \<leftarrow> sios s si;
     Some (if is_shutdown (jack x) then SoundIoErrorBackendDisconnected else SoundIoErrorIncompatibleBackend, s)
   }"

definition instream_start_jack ::
  "'j jack_api \<Rightarrow> nat \<Rightarrow> nat \<Rightarrow> ('j, 'z) jsio_scheme \<Rightarrow> (SoundIoError \<times> ('j, 'z) jsio_scheme) option" where
  "instream_start_jack api si p s = do {
     x \<leftarrow> sios s si;
     is \<leftarrow> instreams s p;
     if is_shutdown (jack x) then Some (SoundIoErrorBackendDisconnected, s)
     else do {
       c \<leftarrow> sj_client (isj is);
       let (err, s) = in_world (jack_activate api c) s;
       if err \<noteq> 0 then Some (SoundIoErrorStreaming, s)
       else connect_ports api False c (sj_ports (isj is)) [0..<nat (cl_channel_count (is_layout is))] s
     }
   }"

definition instream_begin_read_jack ::
  "nat \<Rightarrow> int \<Rightarrow> 'z sio_scheme \<Rightarrow> (SoundIoError \<times> SoundIoChannelArea list \<times> 'z sio_scheme) option" where
  "instream_begin_read_jack p frame_count s = do {
     is \<leftarrow> instreams s p;
     if frame_count \<noteq> sj_frames_left (isj is) then Some (SoundIoErrorInvalid, [], s)
     else Some (SoundIoErrorNone, sj_areas (isj is), s)
   }"

definition instream_end_read_jack :: "nat \<Rightarrow> 'z sio_scheme \<Rightarrow> (SoundIoError \<times> 'z sio_scheme) option" where
  "instream_end_read_jack p s = do {
     s \<leftarrow> upd_isj p (\<lambda>j. j\<lparr>sj_frames_left := 0\<rparr>) s;
     Some (SoundIoErrorNone, s)
   }"

definition instream_get_latency_jack :: "nat \<Rightarrow> 'z sio_scheme \<Rightarrow> (SoundIoError \<times> real) option" where
  "instream_get_latency_jack p s = do {
     is \<leftarrow> instreams s p;
     Some (SoundIoErrorNone, sj_hardware_latency (isj is))
   }"

subsection \<open>The backend\<close>

definition destroy_jack :: "'j jack_api \<Rightarrow> nat \<Rightarrow> ('j, 'z) jsio_scheme \<Rightarrow> ('j, 'z) jsio_scheme option" where
  "destroy_jack api si s = do {
     x \<leftarrow> sios s si;
     let sij = jack x;
     s \<leftarrow> (if jack_client sij \<noteq> None then world_do (jack_client_close api (jack_client sij)) s else Some s);
     s \<leftarrow> (if jack_cond sij \<noteq> None then soundio_os_cond_destroy (jack_cond sij) s else Some s);
     if jack_mutex sij \<noteq> None then soundio_os_mutex_destroy (jack_mutex sij) s else Some s
   }"

definition jack_init_failed ::
  "'j jack_api \<Rightarrow> nat \<Rightarrow> SoundIoError \<Rightarrow> ('j, 'z) jsio_scheme \<Rightarrow> (SoundIoError \<times> ('j, 'z) jsio_scheme) option" where
  "jack_init_failed api si err s = do { s \<leftarrow> destroy_jack api si s; Some (err, s) }"

definition set_msg_functions ::
  "'j jack_api \<Rightarrow> SoundIoPrivate \<Rightarrow> ('j, 'z) jsio_scheme \<Rightarrow> ('j, 'z) jsio_scheme" where
  "set_msg_functions api x s =
     (if global_msg_callback_flag s then s
      else
        let s = (if jack_error_callback_set x then s\<lparr>world := jack_set_error_function api (world s)\<rparr> else s);
            s = (if jack_info_callback_set x then s\<lparr>world := jack_set_info_function api (world s)\<rparr> else s)
        in s\<lparr>global_msg_callback_flag := False\<rparr>)"

definition jack_vtable :: "vfn \<Rightarrow> SoundIoBackend option" where
  "jack_vtable f = (if f = V_outstream_set_volume then None else Some SoundIoBackendJack)"

text \<open>From the client on: callbacks, parameters, activation, the first scan, the table.\<close>

definition jack_init_client ::
  "'j jack_api \<Rightarrow> bool \<Rightarrow> nat \<Rightarrow> nat \<Rightarrow> ('j, 'z) jsio_scheme \<Rightarrow> (SoundIoError \<times> ('j, 'z) jsio_scheme) option" where
  "jack_init_client api big_endian si c s =
     (let (ok, s) = set_callbacks api [BufferSizeCb, SampleRateCb, PortRegistrationCb, PortRenameCb] c si s
      in if \<not> ok then jack_init_failed api si SoundIoErrorInitAudioBackend s
      else do {
        let s = s\<lparr>world := jack_on_shutdown api c si (world s)\<rparr>;
        s \<leftarrow> upd_sij si (\<lambda>j. j\<lparr>refresh_devices_flag := False,
          jack_period_size := to_int32 (int (jack_get_buffer_size api c (world s))),
          jack_sample_rate := to_int32 (int (jack_get_sample_rate api c (world s)))\<rparr>) s;
        let (err, s) = in_world (jack_activate api c) s;
        if err \<noteq> 0 then jack_init_failed api si SoundIoErrorInitAudioBackend s
        else do {
          (err, s) \<leftarrow> refresh_devices api big_endian si s;
          if err \<noteq> SoundIoErrorNone then jack_init_failed api si err s
          else do {
            s \<leftarrow> upd_sio si (\<lambda>x. x\<lparr>vtable := (\<lambda>f. if f = V_outstream_set_volume then vtable x f else jack_vtable f)\<rparr>) s;
            Some (SoundIoErrorNone, s)
          }
        }
      })"

definition soundio_jack_init ::
  "'j jack_api \<Rightarrow> bool \<Rightarrow> nat \<Rightarrow> ('j, 'z) jsio_scheme \<Rightarrow> (SoundIoError \<times> ('j, 'z) jsio_scheme) option" where
  "soundio_jack_init api big_endian si s = do {
     x \<leftarrow> sios s si;
     let s = set_msg_functions api x s;
     (m, s) \<leftarrow> soundio_os_mutex_create s;
     s \<leftarrow> upd_sij si (\<lambda>j. j\<lparr>jack_mutex := m\<rparr>) s;
     if m = None then jack_init_failed api si SoundIoErrorNoMem s
     else do {
       (c, s) \<leftarrow> soundio_os_cond_create s;
       s \<leftarrow> upd_sij si (\<lambda>j. j\<lparr>jack_cond := c\<rparr>) s;
       if c = None then jack_init_failed api si SoundIoErrorNoMem s
       else do {
         let ((client, status), s) = in_world (jack_client_open api (app_name x)) s;
         s \<leftarrow> upd_sij si (\<lambda>j. j\<lparr>jack_client := client\<rparr>) s;
         case client of
           None \<Rightarrow> do {
             s \<leftarrow> destroy_jack api si s;
             err \<leftarrow> open_error status SoundIoErrorInitAudioBackend;
             Some (err, s)
           }
         | Some c \<Rightarrow> jack_init_client api big_endian si c s
       }
     }
   }"

end
