(* ===== verification/PulseApi.thy ===== *)
theory PulseApi
  imports Jack
begin

section \<open>The interface of PulseAudio and the conversions of src/pulseaudio.c\<close>

text \<open>
  The PulseAudio client library is not part of the sources: the functions that the backend
  calls are the fields of \<open>pa_api\<close>, on the state of the external libraries. Contexts, streams,
  operations and main loops are handles. The enumerations have the names that the source
  uses; every other channel position is \<open>PA_CHANNEL_POSITION_OTHER\<close>. The second half of the
  theory holds the conversions of sample formats, channel positions and channel maps.
\<close>

subsection \<open>The types of the interface\<close>

datatype pa_sample_format =
    PA_SAMPLE_U8 | PA_SAMPLE_ALAW | PA_SAMPLE_ULAW | PA_SAMPLE_S16LE | PA_SAMPLE_S16BE
  | PA_SAMPLE_FLOAT32LE | PA_SAMPLE_FLOAT32BE | PA_SAMPLE_S32LE | PA_SAMPLE_S32BE | PA_SAMPLE_S24LE
  | PA_SAMPLE_S24BE | PA_SAMPLE_S24_32LE | PA_SAMPLE_S24_32BE | PA_SAMPLE_MAX | PA_SAMPLE_INVALID

datatype (plugins only: code) pa_channel_position =
    PA_CHANNEL_POSITION_MONO | PA_CHANNEL_POSITION_FRONT_LEFT | PA_CHANNEL_POSITION_FRONT_RIGHT
  | PA_CHANNEL_POSITION_FRONT_CENTER | PA_CHANNEL_POSITION_REAR_CENTER | PA_CHANNEL_POSITION_REAR_LEFT
  | PA_CHANNEL_POSITION_REAR_RIGHT | PA_CHANNEL_POSITION_LFE | PA_CHANNEL_POSITION_FRONT_LEFT_OF_CENTER
  | PA_CHANNEL_POSITION_FRONT_RIGHT_OF_CENTER | PA_CHANNEL_POSITION_SIDE_LEFT | PA_CHANNEL_POSITION_SIDE_RIGHT
  | PA_CHANNEL_POSITION_TOP_CENTER | PA_CHANNEL_POSITION_TOP_FRONT_LEFT | PA_CHANNEL_POSITION_TOP_FRONT_RIGHT
  | PA_CHANNEL_POSITION_TOP_FRONT_CENTER | PA_CHANNEL_POSITION_TOP_REAR_LEFT | PA_CHANNEL_POSITION_TOP_REAR_RIGHT
  | PA_CHANNEL_POSITION_TOP_REAR_CENTER | PA_CHANNEL_POSITION_AUX0 | PA_CHANNEL_POSITION_AUX1
  | PA_CHANNEL_POSITION_AUX2 | PA_CHANNEL_POSITION_AUX3 | PA_CHANNEL_POSITION_AUX4
  | PA_CHANNEL_POSITION_AUX5 | PA_CHANNEL_POSITION_AUX6 | PA_CHANNEL_POSITION_AUX7
  | PA_CHANNEL_POSITION_AUX8 | PA_CHANNEL_POSITION_AUX9 | PA_CHANNEL_POSITION_AUX10
  | PA_CHANNEL_POSITION_AUX11 | PA_CHANNEL_POSITION_AUX12 | PA_CHANNEL_POSITION_AUX13
  | PA_CHANNEL_POSITION_AUX14 | PA_CHANNEL_POSITION_AUX15 | PA_CHANNEL_POSITION_INVALID
  | PA_CHANNEL_POSITION_OTHER int

datatype pa_context_state =
    PA_CONTEXT_UNCONNECTED | PA_CONTEXT_CONNECTING | PA_CONTEXT_AUTHORIZING | PA_CONTEXT_SETTING_NAME
  | PA_CONTEXT_READY | PA_CONTEXT_FAILED | PA_CONTEXT_TERMINATED

datatype pa_operation_state = PA_OPERATION_RUNNING | PA_OPERATION_DONE | PA_OPERATION_CANCELLED

datatype pa_stream_state =
    PA_STREAM_UNCONNECTED | PA_STREAM_CREATING | PA_STREAM_READY | PA_STREAM_FAILED | PA_STREAM_TERMINATED

datatype pa_stream_flag = PA_STREAM_START_CORKED | PA_STREAM_AUTO_TIMING_UPDATE | PA_STREAM_INTERPOLATE_TIMING

datatype pa_subscription = PA_SUBSCRIPTION_MASK_SINK | PA_SUBSCRIPTION_MASK_SOURCE | PA_SUBSCRIPTION_MASK_SERVER

datatype pa_seek_mode = PA_SEEK_RELATIVE | PA_SEEK_RELATIVE_ON_READ

text \<open>The most channels a stream of the library can have.\<close>

definition PA_CHANNELS_MAX :: nat where "PA_CHANNELS_MAX = 32"

record pa_sample_spec =
  ss_format :: pa_sample_format
  ss_rate :: "32 word"
  ss_channels :: "8 word"

text \<open>A map has a cell per channel; a cell that was never written is \<open>None\<close>.\<close>

record pa_channel_map =
  cm_channels :: "8 word"
  cm_map :: "pa_channel_position option list"

text \<open>Of \<open>pa_sink_info\<close> and \<open>pa_source_info\<close> the fields the code reads; a string may be NULL.\<close>

record pa_device_info =
  info_name :: "string option"
  info_description :: "string option"
  info_sample_spec :: pa_sample_spec
  info_channel_map :: pa_channel_map

record pa_server_info =
  info_default_sink_name :: "string option"
  info_default_source_name :: "string option"

text \<open>
  The calls that the library makes from the thread of its main loop: the callbacks of the
  context, of an operation (\<open>None\<close> for the end of a list) and of a stream. The first argument is
  the pointer the callback gets as \<open>userdata\<close>, the library object or the stream.
\<close>

datatype pa_callback =
    SubscribeCb nat
  | ContextStateCb nat nat
  | SinkInfoCb nat "pa_device_info option"
  | SourceInfoCb nat "pa_device_info option"
  | ServerInfoCb nat pa_server_info
  | TimingUpdateCb nat
  | PlaybackStateCb nat nat
  | PlaybackWriteCb nat "64 word"
  | PlaybackUnderflowCb nat
  | RecordingStateCb nat nat
  | RecordingReadCb nat "64 word"

datatype pa_stream_cb = PaWriteCb | PaStateCb | PaUnderflowCb | PaOverflowCb | PaReadCb

text \<open>
  What the backend needs of the library. \<open>pa_callback_count\<close> and \<open>pa_next_callback\<close> stand for the
  thread of the main loop: the number of callbacks it makes while the caller waits, and the
  next one. A function that may not be called with NULL is partial where the code may do so.
\<close>

record 'j pa_api =
  pa_threaded_mainloop_new :: "'j \<Rightarrow> nat option \<times> 'j"
  pa_threaded_mainloop_start :: "nat \<Rightarrow> 'j \<Rightarrow> int \<times> 'j"
  pa_threaded_mainloop_stop :: "nat \<Rightarrow> 'j \<Rightarrow> 'j"
  pa_threaded_mainloop_free :: "nat \<Rightarrow> 'j \<Rightarrow> 'j"
  pa_threaded_mainloop_signal :: "nat \<Rightarrow> 'j \<Rightarrow> 'j"
  pa_threaded_mainloop_in_thread :: "nat \<Rightarrow> 'j \<Rightarrow> bool"
  pa_callback_count :: "nat \<Rightarrow> 'j \<Rightarrow> nat"
  pa_next_callback :: "nat \<Rightarrow> 'j \<Rightarrow> pa_callback \<times> 'j"
  pa_proplist_new :: "'j \<Rightarrow> nat option \<times> 'j"
  pa_proplist_free :: "nat \<Rightarrow> 'j \<Rightarrow> 'j"
  pa_context_new_with_proplist :: "nat \<Rightarrow> string \<Rightarrow> nat \<Rightarrow> 'j \<Rightarrow> nat option \<times> 'j"
  pa_context_set_subscribe_callback :: "nat \<Rightarrow> nat \<Rightarrow> 'j \<Rightarrow> 'j"
  pa_context_set_state_callback :: "nat \<Rightarrow> nat \<Rightarrow> 'j \<Rightarrow> 'j"
  pa_context_connect :: "nat \<Rightarrow> 'j \<Rightarrow> int \<times> 'j"
  pa_context_disconnect :: "nat option \<Rightarrow> 'j \<Rightarrow> 'j option"
  pa_context_unref :: "nat option \<Rightarrow> 'j \<Rightarrow> 'j option"
  pa_context_get_state :: "nat \<Rightarrow> 'j \<Rightarrow> pa_context_state"
  pa_context_subscribe :: "nat \<Rightarrow> pa_subscription set \<Rightarrow> 'j \<Rightarrow> nat option \<times> 'j"
  pa_context_get_sink_info_list :: "nat \<Rightarrow> nat \<Rightarrow> 'j \<Rightarrow> nat option \<times> 'j"
  pa_context_get_source_info_list :: "nat \<Rightarrow> nat \<Rightarrow> 'j \<Rightarrow> nat option \<times> 'j"
  pa_context_get_server_info :: "nat \<Rightarrow> nat \<Rightarrow> 'j \<Rightarrow> nat option \<times> 'j"
  pa_operation_get_state :: "nat \<Rightarrow> 'j \<Rightarrow> pa_operation_state"
  pa_operation_unref :: "nat \<Rightarrow> 'j \<Rightarrow> 'j"
  pa_stream_new :: "nat \<Rightarrow> string \<Rightarrow> pa_sample_spec \<Rightarrow> pa_channel_map \<Rightarrow> 'j \<Rightarrow> nat option \<times> 'j"
  pa_stream_set_callback :: "pa_stream_cb \<Rightarrow> nat \<Rightarrow> nat option \<Rightarrow> 'j \<Rightarrow> 'j"
  pa_stream_connect_playback :: "nat \<Rightarrow> string option \<Rightarrow> pa_buffer_attr \<Rightarrow> pa_stream_flag set \<Rightarrow> 'j \<Rightarrow> int \<times> 'j"
  pa_stream_connect_record :: "nat \<Rightarrow> string option \<Rightarrow> pa_buffer_attr \<Rightarrow> pa_stream_flag set \<Rightarrow> 'j \<Rightarrow> int \<times> 'j"
  pa_stream_disconnect :: "nat \<Rightarrow> 'j \<Rightarrow> 'j"
  pa_stream_unref :: "nat \<Rightarrow> 'j \<Rightarrow> 'j"
  pa_stream_get_state :: "nat \<Rightarrow> 'j \<Rightarrow> pa_stream_state"
  pa_stream_update_timing_info :: "nat \<Rightarrow> nat \<Rightarrow> 'j \<Rightarrow> nat option \<times> 'j"
  pa_stream_writable_size :: "nat \<Rightarrow> 'j \<Rightarrow> 64 word"
  pa_stream_cork :: "nat \<Rightarrow> bool \<Rightarrow> 'j \<Rightarrow> nat option \<times> 'j"
  pa_stream_is_corked :: "nat \<Rightarrow> 'j \<Rightarrow> int"
  pa_stream_begin_write :: "nat \<Rightarrow> 64 word \<Rightarrow> 'j \<Rightarrow> (int \<times> nat \<times> 64 word) \<times> 'j"
  pa_stream_write :: "nat \<Rightarrow> nat \<Rightarrow> 64 word \<Rightarrow> pa_seek_mode \<Rightarrow> 'j \<Rightarrow> int \<times> 'j"
  pa_stream_peek :: "nat \<Rightarrow> 'j \<Rightarrow> (int \<times> nat option \<times> 64 word) \<times> 'j"
  pa_stream_drop :: "nat \<Rightarrow> 'j \<Rightarrow> int \<times> 'j"
  pa_stream_get_latency :: "nat \<Rightarrow> 'j \<Rightarrow> (int \<times> 64 word) \<times> 'j"

subsection \<open>Sample formats\<close>

definition from_pulseaudio_format :: "pa_sample_spec \<Rightarrow> SoundIoFormat" where
  "from_pulseaudio_format sample_spec =
     (case ss_format sample_spec of
        PA_SAMPLE_U8 \<Rightarrow> SoundIoFormatU8
      | PA_SAMPLE_S16LE \<Rightarrow> SoundIoFormatS16LE
      | PA_SAMPLE_S16BE \<Rightarrow> SoundIoFormatS16BE
      | PA_SAMPLE_FLOAT32LE \<Rightarrow> SoundIoFormatFloat32LE
      | PA_SAMPLE_FLOAT32BE \<Rightarrow> SoundIoFormatFloat32BE
      | PA_SAMPLE_S32LE \<Rightarrow> SoundIoFormatS32LE
      | PA_SAMPLE_S32BE \<Rightarrow> SoundIoFormatS32BE
      | PA_SAMPLE_S24_32LE \<Rightarrow> SoundIoFormatS24LE
      | PA_SAMPLE_S24_32BE \<Rightarrow> SoundIoFormatS24BE
      | PA_SAMPLE_MAX \<Rightarrow> SoundIoFormatInvalid
      | PA_SAMPLE_INVALID \<Rightarrow> SoundIoFormatInvalid
      | PA_SAMPLE_ALAW \<Rightarrow> SoundIoFormatInvalid
      | PA_SAMPLE_ULAW \<Rightarrow> SoundIoFormatInvalid
      | PA_SAMPLE_S24LE \<Rightarrow> SoundIoFormatInvalid
      | PA_SAMPLE_S24BE \<Rightarrow> SoundIoFormatInvalid)"

definition to_pulseaudio_format :: "SoundIoFormat \<Rightarrow> pa_sample_format" where
  "to_pulseaudio_format format =
     (case format of
        SoundIoFormatU8 \<Rightarrow> PA_SAMPLE_U8
      | SoundIoFormatS16LE \<Rightarrow> PA_SAMPLE_S16LE
      | SoundIoFormatS16BE \<Rightarrow> PA_SAMPLE_S16BE
      | SoundIoFormatS24LE \<Rightarrow> PA_SAMPLE_S24_32LE
      | SoundIoFormatS24BE \<Rightarrow> PA_SAMPLE_S24_32BE
      | SoundIoFormatS32LE \<Rightarrow> PA_SAMPLE_S32LE
      | SoundIoFormatS32BE \<Rightarrow> PA_SAMPLE_S32BE
      | SoundIoFormatFloat32LE \<Rightarrow> PA_SAMPLE_FLOAT32LE
      | SoundIoFormatFloat32BE \<Rightarrow> PA_SAMPLE_FLOAT32BE
      | SoundIoFormatInvalid \<Rightarrow> PA_SAMPLE_INVALID
      | SoundIoFormatS8 \<Rightarrow> PA_SAMPLE_INVALID
      | SoundIoFormatU16LE \<Rightarrow> PA_SAMPLE_INVALID
      | SoundIoFormatU16BE \<Rightarrow> PA_SAMPLE_INVALID
      | SoundIoFormatU24LE \<Rightarrow> PA_SAMPLE_INVALID
      | SoundIoFormatU24BE \<Rightarrow> PA_SAMPLE_INVALID
      | SoundIoFormatU32LE \<Rightarrow> PA_SAMPLE_INVALID
      | SoundIoFormatU32BE \<Rightarrow> PA_SAMPLE_INVALID
      | SoundIoFormatFloat64LE \<Rightarrow> PA_SAMPLE_INVALID
      | SoundIoFormatFloat64BE \<Rightarrow> PA_SAMPLE_INVALID)"

text \<open>The formats of every device of the backend.\<close>

definition pulse_formats :: "SoundIoFormat list" where
  "pulse_formats = [SoundIoFormatU8, SoundIoFormatS16LE, SoundIoFormatS16BE, SoundIoFormatFloat32LE,
     SoundIoFormatFloat32BE, SoundIoFormatS32LE, SoundIoFormatS32BE, SoundIoFormatS24LE, SoundIoFormatS24BE]"

subsection \<open>Channel positions and channel maps\<close>

definition from_pulseaudio_channel_pos :: "pa_channel_position \<Rightarrow> SoundIoChannelId" where
  "from_pulseaudio_channel_pos pos =
     (case pos of
        PA_CHANNEL_POSITION_MONO \<Rightarrow> SoundIoChannelIdFrontCenter
      | PA_CHANNEL_POSITION_FRONT_LEFT \<Rightarrow> SoundIoChannelIdFrontLeft
      | PA_CHANNEL_POSITION_FRONT_RIGHT \<Rightarrow> SoundIoChannelIdFrontRight
      | PA_CHANNEL_POSITION_FRONT_CENTER \<Rightarrow> SoundIoChannelIdFrontCenter
      | PA_CHANNEL_POSITION_REAR_CENTER \<Rightarrow> SoundIoChannelIdBackCenter
      | PA_CHANNEL_POSITION_REAR_LEFT \<Rightarrow> SoundIoChannelIdBackLeft
      | PA_CHANNEL_POSITION_REAR_RIGHT \<Rightarrow> SoundIoChannelIdBackRight
      | PA_CHANNEL_POSITION_LFE \<Rightarrow> SoundIoChannelIdLfe
      | PA_CHANNEL_POSITION_FRONT_LEFT_OF_CENTER \<Rightarrow> SoundIoChannelIdFrontLeftCenter
      | PA_CHANNEL_POSITION_FRONT_RIGHT_OF_CENTER \<Rightarrow> SoundIoChannelIdFrontRightCenter
      | PA_CHANNEL_POSITION_SIDE_LEFT \<Rightarrow> SoundIoChannelIdSideLeft
      | PA_CHANNEL_POSITION_SIDE_RIGHT \<Rightarrow> SoundIoChannelIdSideRight
      | PA_CHANNEL_POSITION_TOP_CENTER \<Rightarrow> SoundIoChannelIdTopCenter
      | PA_CHANNEL_POSITION_TOP_FRONT_LEFT \<Rightarrow> SoundIoChannelIdTopFrontLeft
      | PA_CHANNEL_POSITION_TOP_FRONT_RIGHT \<Rightarrow> SoundIoChannelIdTopFrontRight
      | PA_CHANNEL_POSITION_TOP_FRONT_CENTER \<Rightarrow> SoundIoChannelIdTopFrontCenter
      | PA_CHANNEL_POSITION_TOP_REAR_LEFT \<Rightarrow> SoundIoChannelIdTopBackLeft
      | PA_CHANNEL_POSITION_TOP_REAR_RIGHT \<Rightarrow> SoundIoChannelIdTopBackRight
      | PA_CHANNEL_POSITION_TOP_REAR_CENTER \<Rightarrow> SoundIoChannelIdTopBackCenter
      | PA_CHANNEL_POSITION_AUX0 \<Rightarrow> SoundIoChannelIdAux0
      | PA_CHANNEL_POSITION_AUX1 \<Rightarrow> SoundIoChannelIdAux1
      | PA_CHANNEL_POSITION_AUX2 \<Rightarrow> SoundIoChannelIdAux2
      | PA_CHANNEL_POSITION_AUX3 \<Rightarrow> SoundIoChannelIdAux3
      | PA_CHANNEL_POSITION_AUX4 \<Rightarrow> SoundIoChannelIdAux4
      | PA_CHANNEL_POSITION_AUX5 \<Rightarrow> SoundIoChannelIdAux5
      | PA_CHANNEL_POSITION_AUX6 \<Rightarrow> SoundIoChannelIdAux6
      | PA_CHANNEL_POSITION_AUX7 \<Rightarrow> SoundIoChannelIdAux7
      | PA_CHANNEL_POSITION_AUX8 \<Rightarrow> SoundIoChannelIdAux8
      | PA_CHANNEL_POSITION_AUX9 \<Rightarrow> SoundIoChannelIdAux9
      | PA_CHANNEL_POSITION_AUX10 \<Rightarrow> SoundIoChannelIdAux10
      | PA_CHANNEL_POSITION_AUX11 \<Rightarrow> SoundIoChannelIdAux11
      | PA_CHANNEL_POSITION_AUX12 \<Rightarrow> SoundIoChannelIdAux12
      | PA_CHANNEL_POSITION_AUX13 \<Rightarrow> SoundIoChannelIdAux13
      | PA_CHANNEL_POSITION_AUX14 \<Rightarrow> SoundIoChannelIdAux14
      | PA_CHANNEL_POSITION_AUX15 \<Rightarrow> SoundIoChannelIdAux15
      | _ \<Rightarrow> SoundIoChannelIdInvalid)"

definition to_pulseaudio_channel_pos :: "SoundIoChannelId \<Rightarrow> pa_channel_position" where
  "to_pulseaudio_channel_pos channel_id =
     (case channel_id of
        SoundIoChannelIdFrontLeft \<Rightarrow> PA_CHANNEL_POSITION_FRONT_LEFT
      | SoundIoChannelIdFrontRight \<Rightarrow> PA_CHANNEL_POSITION_FRONT_RIGHT
      | SoundIoChannelIdFrontCenter \<Rightarrow> PA_CHANNEL_POSITION_FRONT_CENTER
      | SoundIoChannelIdLfe \<Rightarrow> PA_CHANNEL_POSITION_LFE
      | SoundIoChannelIdBackLeft \<Rightarrow> PA_CHANNEL_POSITION_REAR_LEFT
      | SoundIoChannelIdBackRight \<Rightarrow> PA_CHANNEL_POSITION_REAR_RIGHT
      | SoundIoChannelIdFrontLeftCenter \<Rightarrow> PA_CHANNEL_POSITION_FRONT_LEFT_OF_CENTER
      | SoundIoChannelIdFrontRightCenter \<Rightarrow> PA_CHANNEL_POSITION_FRONT_RIGHT_OF_CENTER
      | SoundIoChannelIdBackCenter \<Rightarrow> PA_CHANNEL_POSITION_REAR_CENTER
      | SoundIoChannelIdSideLeft \<Rightarrow> PA_CHANNEL_POSITION_SIDE_LEFT
      | SoundIoChannelIdSideRight \<Rightarrow> PA_CHANNEL_POSITION_SIDE_RIGHT
      | SoundIoChannelIdTopCenter \<Rightarrow> PA_CHANNEL_POSITION_TOP_CENTER
      | SoundIoChannelIdTopFrontLeft \<Rightarrow> PA_CHANNEL_POSITION_TOP_FRONT_LEFT
      | SoundIoChannelIdTopFrontCenter \<Rightarrow> PA_CHANNEL_POSITION_TOP_FRONT_CENTER
      | SoundIoChannelIdTopFrontRight \<Rightarrow> PA_CHANNEL_POSITION_TOP_FRONT_RIGHT
      | SoundIoChannelIdTopBackLeft \<Rightarrow> PA_CHANNEL_POSITION_TOP_REAR_LEFT
      | SoundIoChannelIdTopBackCenter \<Rightarrow> PA_CHANNEL_POSITION_TOP_REAR_CENTER
      | SoundIoChannelIdTopBackRight \<Rightarrow> PA_CHANNEL_POSITION_TOP_REAR_RIGHT
      | SoundIoChannelIdAux0 \<Rightarrow> PA_CHANNEL_POSITION_AUX0
      | SoundIoChannelIdAux1 \<Rightarrow> PA_CHANNEL_POSITION_AUX1
      | SoundIoChannelIdAux2 \<Rightarrow> PA_CHANNEL_POSITION_AUX2
      | SoundIoChannelIdAux3 \<Rightarrow> PA_CHANNEL_POSITION_AUX3
      | SoundIoChannelIdAux4 \<Rightarrow> PA_CHANNEL_POSITION_AUX4
      | SoundIoChannelIdAux5 \<Rightarrow> PA_CHANNEL_POSITION_AUX5
      | SoundIoChannelIdAux6 \<Rightarrow> PA_CHANNEL_POSITION_AUX6
      | SoundIoChannelIdAux7 \<Rightarrow> PA_CHANNEL_POSITION_AUX7
      | SoundIoChannelIdAux8 \<Rightarrow> PA_CHANNEL_POSITION_AUX8
      | SoundIoChannelIdAux9 \<Rightarrow> PA_CHANNEL_POSITION_AUX9
      | SoundIoChannelIdAux10 \<Rightarrow> PA_CHANNEL_POSITION_AUX10
      | SoundIoChannelIdAux11 \<Rightarrow> PA_CHANNEL_POSITION_AUX11
      | SoundIoChannelIdAux12 \<Rightarrow> PA_CHANNEL_POSITION_AUX12
      | SoundIoChannelIdAux13 \<Rightarrow> PA_CHANNEL_POSITION_AUX13
      | SoundIoChannelIdAux14 \<Rightarrow> PA_CHANNEL_POSITION_AUX14
      | SoundIoChannelIdAux15 \<Rightarrow> PA_CHANNEL_POSITION_AUX15
      | _ \<Rightarrow> PA_CHANNEL_POSITION_INVALID)"

text \<open>The channels are written into the array of the layout, which has \<open>SOUNDIO_MAX_CHANNELS\<close> cells.\<close>

definition set_positions :: "pa_channel_map \<Rightarrow> SoundIoChannelLayout \<Rightarrow> SoundIoChannelLayout option" where
  "set_positions channel_map =
     for_each (\<lambda>i channel_layout. do {
         cell \<leftarrow> arr_at (cm_map channel_map) (int i);
         pos \<leftarrow> cell;
         channels \<leftarrow> arr_set (cl_channels channel_layout) (int i) (from_pulseaudio_channel_pos pos);
         Some (channel_layout\<lparr>cl_channels := channels\<rparr>)
       }) [0..<unat (cm_channels channel_map)]"

definition set_from_pulseaudio_channel_map ::
  "pa_channel_map \<Rightarrow> SoundIoChannelLayout \<Rightarrow> SoundIoChannelLayout option" where
  "set_from_pulseaudio_channel_map channel_map channel_layout = do {
     channel_layout \<leftarrow> set_positions channel_map (channel_layout\<lparr>cl_channel_count := uint (cm_channels channel_map)\<rparr>);
     let channel_layout = channel_layout\<lparr>cl_name := None\<rparr>;
     found \<leftarrow> find_r (\<lambda>i. do {
         builtin_layout \<leftarrow> soundio_channel_layout_get_builtin (int i);
         soundio_channel_layout_equal builtin_layout channel_layout
       }) [0..<nat soundio_channel_layout_builtin_count];
     case found of None \<Rightarrow> Some channel_layout
     | Some i \<Rightarrow> do {
         builtin_layout \<leftarrow> soundio_channel_layout_get_builtin (int i);
         Some (channel_layout\<lparr>cl_name := cl_name builtin_layout\<rparr>)
       }
   }"

text \<open>The count is compared as an \<open>unsigned\<close>; the map on the stack is not initialised.\<close>

definition to_pulseaudio_channel_map :: "SoundIoChannelLayout \<Rightarrow> pa_channel_map option" where
  "to_pulseaudio_channel_map channel_layout = do {
     c_assert (uint (word_of_int (cl_channel_count channel_layout) :: 32 word) \<le> int PA_CHANNELS_MAX);
     for_each (\<lambda>i channel_map. do {
         c \<leftarrow> arr_at (cl_channels channel_layout) (int i);
         cells \<leftarrow> arr_set (cm_map channel_map) (int i) (Some (to_pulseaudio_channel_pos c));
         Some (channel_map\<lparr>cm_map := cells\<rparr>)
       }) [0..<nat (cl_channel_count channel_layout)]
       \<lparr>cm_channels = word_of_int (cl_channel_count channel_layout), cm_map = replicate PA_CHANNELS_MAX None\<rparr>
   }"

end
