(* ===== verification/Pulse.thy ===== *)
theory Pulse
  imports PulseApi
begin

section \<open>src/pulseaudio.c: the PulseAudio backend\<close>

text \<open>
  The functions of the PulseAudio backend. The library runs a main loop in a thread of its own
  and calls back from there; the backend holds the lock of the loop while it works and releases
  it only to wait. A wait is therefore the place where callbacks happen: the library says how
  many come and which, and \<open>run_callbacks\<close> runs the callback functions of the source on them, one
  after the other. Callbacks between two operations are operations of their own.

  The lock is counted per loop for the thread that calls the operations (the library's lock is
  recursive). As the library documents, it may not be taken or given back from the thread of
  the loop, and waiting needs it.
\<close>

text \<open>The library and the callbacks of the application that carry data.\<close>

record ('j, 'z) pulse_env =
  pa :: "'j pa_api"
  write_callback :: "('j, 'z) jsio_ext callback"
  read_callback :: "('j, 'z) jsio_ext callback"

abbreviation upd_sipa :: "nat \<Rightarrow> (SoundIoPulseAudio \<Rightarrow> SoundIoPulseAudio) \<Rightarrow> 'z sio_scheme \<Rightarrow> 'z sio_scheme option" where
  "upd_sipa si f \<equiv> upd_sio si (\<lambda>x. x\<lparr>pulseaudio := f (pulseaudio x)\<rparr>)"

abbreviation upd_ospa :: "nat \<Rightarrow> (SoundIoOutStreamPulseAudio \<Rightarrow> SoundIoOutStreamPulseAudio) \<Rightarrow> 'z sio_scheme \<Rightarrow> 'z sio_scheme option" where
  "upd_ospa p f \<equiv> upd_out p (\<lambda>x. x\<lparr>ospa := f (ospa x)\<rparr>)"

abbreviation upd_ispa :: "nat \<Rightarrow> (SoundIoInStreamPulseAudio \<Rightarrow> SoundIoInStreamPulseAudio) \<Rightarrow> 'z sio_scheme \<Rightarrow> 'z sio_scheme option" where
  "upd_ispa p f \<equiv> upd_in p (\<lambda>x. x\<lparr>ispa := f (ispa x)\<rparr>)"

subsection \<open>The lock and signals\<close>

definition pulse_loop :: "nat \<Rightarrow> 'z sio_scheme \<Rightarrow> nat option" where
  "pulse_loop si s = do { x \<leftarrow> sios s si; main_loop (pulseaudio x) }"

definition pa_threaded_mainloop_lock ::
  "('j, 'z) pulse_env \<Rightarrow> nat \<Rightarrow> ('j, 'z) jsio_scheme \<Rightarrow> ('j, 'z) jsio_scheme option" where
  "pa_threaded_mainloop_lock e l s = do {
     c_assert (\<not> pa_threaded_mainloop_in_thread (pa e) l (world s));
     Some (s\<lparr>loop_locks := (loop_locks s)(l := Suc (loop_locks s l))\<rparr>)
   }"

definition pa_threaded_mainloop_unlock ::
  "('j, 'z) pulse_env \<Rightarrow> nat \<Rightarrow> ('j, 'z) jsio_scheme \<Rightarrow> ('j, 'z) jsio_scheme option" where
  "pa_threaded_mainloop_unlock e l s = do {
     c_assert (\<not> pa_threaded_mainloop_in_thread (pa e) l (world s));
     c_assert (loop_locks s l > 0);
     Some (s\<lparr>loop_locks := (loop_locks s)(l := loop_locks s l - 1)\<rparr>)
   }"

definition pulse_signal :: "('j, 'z) pulse_env \<Rightarrow> nat \<Rightarrow> ('j, 'z) jsio_scheme \<Rightarrow> ('j, 'z) jsio_scheme option" where
  "pulse_signal e si s = do { l \<leftarrow> pulse_loop si s; Some (the_world (pa_threaded_mainloop_signal (pa e) l) s) }"

subsection \<open>Callbacks of the context\<close>

definition subscribe_callback :: "('j, 'z) pulse_env \<Rightarrow> nat \<Rightarrow> ('j, 'z) jsio_scheme \<Rightarrow> ('j, 'z) jsio_scheme option" where
  "subscribe_callback e si s = do {
     s \<leftarrow> upd_sipa si (\<lambda>a. a\<lparr>device_scan_queued := True\<rparr>) s;
     s \<leftarrow> pulse_signal e si s;
     Some (emit (EventsSignal si) s)
   }"

definition subscribe_to_events ::
  "('j, 'z) pulse_env \<Rightarrow> nat \<Rightarrow> ('j, 'z) jsio_scheme \<Rightarrow> (SoundIoError \<times> ('j, 'z) jsio_scheme) option" where
  "subscribe_to_events e si s = do {
     x \<leftarrow> sios s si;
     c \<leftarrow> pulse_context (pulseaudio x);
     let events = {PA_SUBSCRIPTION_MASK_SINK, PA_SUBSCRIPTION_MASK_SOURCE, PA_SUBSCRIPTION_MASK_SERVER};
     let (subscribe_op, s) = in_world (pa_context_subscribe (pa e) c events) s;
     case subscribe_op of None \<Rightarrow> Some (SoundIoErrorNoMem, s)
     | Some op \<Rightarrow> Some (SoundIoErrorNone, the_world (pa_operation_unref (pa e) op) s)
   }"

definition context_state_callback ::
  "('j, 'z) pulse_env \<Rightarrow> nat \<Rightarrow> nat \<Rightarrow> ('j, 'z) jsio_scheme \<Rightarrow> ('j, 'z) jsio_scheme option" where
  "context_state_callback e context si s = do {
     x \<leftarrow> sios s si;
     (case pa_context_get_state (pa e) context (world s) of
        PA_CONTEXT_UNCONNECTED \<Rightarrow> Some s
      | PA_CONTEXT_CONNECTING \<Rightarrow> Some s
      | PA_CONTEXT_AUTHORIZING \<Rightarrow> Some s
      | PA_CONTEXT_SETTING_NAME \<Rightarrow> Some s
      | PA_CONTEXT_READY \<Rightarrow> do {
          s \<leftarrow> upd_sipa si (\<lambda>a. a\<lparr>ready_flag := True\<rparr>) s;
          pulse_signal e si s
        }
      | PA_CONTEXT_TERMINATED \<Rightarrow> pulse_signal e si s
      | PA_CONTEXT_FAILED \<Rightarrow> do {
          s \<leftarrow> (if ready_flag (pulseaudio x)
            then upd_sipa si (\<lambda>a. a\<lparr>connection_err := SoundIoErrorBackendDisconnected\<rparr>) s
            else upd_sipa si (\<lambda>a. a\<lparr>connection_err := SoundIoErrorInitAudioBackend, ready_flag := True\<rparr>) s);
          s \<leftarrow> pulse_signal e si s;
          Some (emit (EventsSignal si) s)
        })
   }"

subsection \<open>Callbacks of the device queries\<close>

definition set_all_device_formats_pa :: "nat \<Rightarrow> 'z sio_scheme \<Rightarrow> (SoundIoError \<times> 'z sio_scheme) option" where
  "set_all_device_formats_pa device s = do {
     s \<leftarrow> upd_dev device (\<lambda>d. d\<lparr>format_count := 9\<rparr>) s;
     let (b, s) = alloc s;
     case b of
       None \<Rightarrow> do { s \<leftarrow> upd_dev device (\<lambda>d. d\<lparr>formats := FormatsNull\<rparr>) s; Some (SoundIoErrorNoMem, s) }
     | Some b \<Rightarrow> do {
         s \<leftarrow> upd_dev device (\<lambda>d. d\<lparr>formats := FormatsBlock b pulse_formats\<rparr>) s;
         Some (SoundIoErrorNone, s)
       }
   }"

text \<open>The function for the layouts is the one of \<open>src/dummy.c\<close>, statement for statement.\<close>

definition set_all_device_channel_layouts_pa :: "nat \<Rightarrow> 'z sio_scheme \<Rightarrow> (SoundIoError \<times> 'z sio_scheme) option" where
  "set_all_device_channel_layouts_pa = set_all_device_channel_layouts"

definition query_failed :: "nat option \<Rightarrow> nat \<Rightarrow> 'z sio_scheme \<Rightarrow> 'z sio_scheme option" where
  "query_failed device si s = do {
     s \<leftarrow> soundio_device_unref device s;
     upd_sipa si (\<lambda>a. a\<lparr>device_query_err := SoundIoErrorNoMem\<rparr>) s
   }"

text \<open>
  The callbacks for sinks and sources differ in the aim of the device and the list that gets it.
  \<open>device_of_info\<close> is the rest of the body from the first allocation on.
\<close>

definition rates_of_info :: "pa_device_info \<Rightarrow> SoundIoDevice \<Rightarrow> SoundIoDevice" where
  "rates_of_info info d =
     (let rate = sint (ss_rate (info_sample_spec info))
      in d\<lparr>sample_rate_current := rate, sample_rate_count := 1, sample_rates := RatesPrealloc,
           prealloc_sample_rate_range := \<lparr>range_min = soundio_int_min SOUNDIO_MIN_SAMPLE_RATE rate,
             range_max = soundio_int_max SOUNDIO_MAX_SAMPLE_RATE rate\<rparr>,
           current_format := from_pulseaudio_format (info_sample_spec info)\<rparr>)"

definition device_of_info ::
  "SoundIoDeviceAim \<Rightarrow> pa_device_info \<Rightarrow> nat \<Rightarrow> 'z sio_scheme \<Rightarrow> 'z sio_scheme option" where
  "device_of_info a info si s =
     (let (dev, s) = alloc s
      in case dev of None \<Rightarrow> query_failed None si s
      | Some p \<Rightarrow> do {
          let s = s\<lparr>devices := (devices s)(p \<mapsto> device_zero\<lparr>ref_count := 1, dev_soundio := Some si\<rparr>)\<rparr>;
          id_str \<leftarrow> info_name info;
          let (id, s) = strdup id_str s;
          name_str \<leftarrow> info_description info;
          let (nm, s) = strdup name_str s;
          s \<leftarrow> upd_dev p (\<lambda>d. d\<lparr>dev_id := id, dev_name := nm\<rparr>) s;
          if id = None \<or> nm = None then query_failed (Some p) si s
          else do {
            s \<leftarrow> upd_dev p (rates_of_info info) s;
            (err, s) \<leftarrow> set_all_device_formats_pa p s;
            if err \<noteq> SoundIoErrorNone then query_failed (Some p) si s
            else do {
              d \<leftarrow> devices s p;
              layout \<leftarrow> set_from_pulseaudio_channel_map (info_channel_map info) (current_layout d);
              s \<leftarrow> upd_dev p (\<lambda>d. d\<lparr>current_layout := layout\<rparr>) s;
              (err, s) \<leftarrow> set_all_device_channel_layouts_pa p s;
              if err \<noteq> SoundIoErrorNone then query_failed (Some p) si s
              else do {
                s \<leftarrow> upd_dev p (\<lambda>d. d\<lparr>aim := a\<rparr>) s;
                x \<leftarrow> sios s si;
                (err, s) \<leftarrow> append_device a (current_devices_info (pulseaudio x)) p s;
                if err \<noteq> SoundIoErrorNone then query_failed (Some p) si s else Some s
              }
            }
          }
        })"

definition device_info_callback ::
  "('j, 'z) pulse_env \<Rightarrow> SoundIoDeviceAim \<Rightarrow> pa_device_info option \<Rightarrow> nat \<Rightarrow> ('j, 'z) jsio_scheme \<Rightarrow>
   ('j, 'z) jsio_scheme option" where
  "device_info_callback e a info si s =
     (case info of None \<Rightarrow> pulse_signal e si s
      | Some info \<Rightarrow> do {
          x \<leftarrow> sios s si;
          if device_query_err (pulseaudio x) \<noteq> SoundIoErrorNone then Some s else device_of_info a info si s
        })"

definition sink_info_callback ::
  "('j, 'z) pulse_env \<Rightarrow> pa_device_info option \<Rightarrow> nat \<Rightarrow> ('j, 'z) jsio_scheme \<Rightarrow> ('j, 'z) jsio_scheme option" where
  "sink_info_callback e = device_info_callback e SoundIoDeviceAimOutput"

definition source_info_callback ::
  "('j, 'z) pulse_env \<Rightarrow> pa_device_info option \<Rightarrow> nat \<Rightarrow> ('j, 'z) jsio_scheme \<Rightarrow> ('j, 'z) jsio_scheme option" where
  "source_info_callback e = device_info_callback e SoundIoDeviceAimInput"

definition server_info_callback ::
  "('j, 'z) pulse_env \<Rightarrow> pa_server_info \<Rightarrow> nat \<Rightarrow> ('j, 'z) jsio_scheme \<Rightarrow> ('j, 'z) jsio_scheme option" where
  "server_info_callback e info si s = do {
     x \<leftarrow> sios s si;
     c_assert (default_sink_name (pulseaudio x) = None);
     c_assert (default_source_name (pulseaudio x) = None);
     sink_str \<leftarrow> info_default_sink_name info;
     let (sink, s) = strdup sink_str s;
     source_str \<leftarrow> info_default_source_name info;
     let (source, s) = strdup source_str s;
     s \<leftarrow> upd_sipa si (\<lambda>a. a\<lparr>default_sink_name := sink, default_source_name := source\<rparr>) s;
     s \<leftarrow> (if sink = None \<or> source = None
       then upd_sipa si (\<lambda>a. a\<lparr>device_query_err := SoundIoErrorNoMem\<rparr>) s else Some s);
     pulse_signal e si s
   }"

subsection \<open>Callbacks of the streams\<close>

definition size_div :: "64 word \<Rightarrow> int \<Rightarrow> 64 word option" where
  "size_div n d = (if (word_of_int d :: 64 word) = 0 then None else Some (n div word_of_int d))"

definition playback_stream_state_callback ::
  "('j, 'z) pulse_env \<Rightarrow> nat \<Rightarrow> nat \<Rightarrow> ('j, 'z) jsio_scheme \<Rightarrow> ('j, 'z) jsio_scheme option" where
  "playback_stream_state_callback e stream p s = do {
     os \<leftarrow> outstreams s p;
     dv \<leftarrow> os_device os;
     device \<leftarrow> devices s dv;
     si \<leftarrow> dev_soundio device;
     (case pa_stream_get_state (pa e) stream (world s) of
        PA_STREAM_UNCONNECTED \<Rightarrow> Some s
      | PA_STREAM_CREATING \<Rightarrow> Some s
      | PA_STREAM_TERMINATED \<Rightarrow> Some s
      | PA_STREAM_READY \<Rightarrow> do {
          s \<leftarrow> upd_ospa p (\<lambda>o'. o'\<lparr>ospa_stream_ready := True\<rparr>) s;
          pulse_signal e si s
        }
      | PA_STREAM_FAILED \<Rightarrow> outstream_error_callback p SoundIoErrorStreaming s)
   }"

definition playback_stream_underflow_callback :: "nat \<Rightarrow> 'z sio_scheme \<Rightarrow> 'z sio_scheme option" where
  "playback_stream_underflow_callback p s = Some (emit (UnderflowCb p) s)"

definition playback_stream_write_callback ::
  "('j, 'z) pulse_env \<Rightarrow> 64 word \<Rightarrow> nat \<Rightarrow> ('j, 'z) jsio_scheme \<Rightarrow> ('j, 'z) jsio_scheme option" where
  "playback_stream_write_callback e nbytes p s = do {
     os \<leftarrow> outstreams s p;
     frames \<leftarrow> size_div nbytes (os_bytes_per_frame os);
     write_callback e p 0 (to_int32 (uint frames)) s
   }"

definition recording_stream_state_callback ::
  "('j, 'z) pulse_env \<Rightarrow> nat \<Rightarrow> nat \<Rightarrow> ('j, 'z) jsio_scheme \<Rightarrow> ('j, 'z) jsio_scheme option" where
  "recording_stream_state_callback e stream p s = do {
     is \<leftarrow> instreams s p;
     dv \<leftarrow> is_device is;
     device \<leftarrow> devices s dv;
     si \<leftarrow> dev_soundio device;
     (case pa_stream_get_state (pa e) stream (world s) of
        PA_STREAM_UNCONNECTED \<Rightarrow> Some s
      | PA_STREAM_CREATING \<Rightarrow> Some s
      | PA_STREAM_TERMINATED \<Rightarrow> Some s
      | PA_STREAM_READY \<Rightarrow> do {
          s \<leftarrow> upd_ispa p (\<lambda>i. i\<lparr>ispa_stream_ready := True\<rparr>) s;
          pulse_signal e si s
        }
      | PA_STREAM_FAILED \<Rightarrow> instream_error_callback p SoundIoErrorStreaming s)
   }"

definition recording_stream_read_callback ::
  "('j, 'z) pulse_env \<Rightarrow> 64 word \<Rightarrow> nat \<Rightarrow> ('j, 'z) jsio_scheme \<Rightarrow> ('j, 'z) jsio_scheme option" where
  "recording_stream_read_callback e nbytes p s = do {
     is \<leftarrow> instreams s p;
     frames \<leftarrow> size_div nbytes (is_bytes_per_frame is);
     c_assert (nbytes mod word_of_int (is_bytes_per_frame is) = 0);
     c_assert (nbytes > 0);
     read_callback e p 0 (to_int32 (uint frames)) s
   }"

definition timing_update_callback ::
  "('j, 'z) pulse_env \<Rightarrow> nat \<Rightarrow> ('j, 'z) jsio_scheme \<Rightarrow> ('j, 'z) jsio_scheme option" where
  "timing_update_callback e si s = pulse_signal e si s"

subsection \<open>Waiting\<close>

definition call_back :: "('j, 'z) pulse_env \<Rightarrow> pa_callback \<Rightarrow> ('j, 'z) jsio_scheme \<Rightarrow> ('j, 'z) jsio_scheme option" where
  "call_back e cb =
     (case cb of
        SubscribeCb si \<Rightarrow> subscribe_callback e si
      | ContextStateCb context si \<Rightarrow> context_state_callback e context si
      | SinkInfoCb si info \<Rightarrow> sink_info_callback e info si
      | SourceInfoCb si info \<Rightarrow> source_info_callback e info si
      | ServerInfoCb si info \<Rightarrow> server_info_callback e info si
      | TimingUpdateCb si \<Rightarrow> timing_update_callback e si
      | PlaybackStateCb stream p \<Rightarrow> playback_stream_state_callback e stream p
      | PlaybackWriteCb p nbytes \<Rightarrow> playback_stream_write_callback e nbytes p
      | PlaybackUnderflowCb p \<Rightarrow> playback_stream_underflow_callback p
      | RecordingStateCb stream p \<Rightarrow> recording_stream_state_callback e stream p
      | RecordingReadCb p nbytes \<Rightarrow> recording_stream_read_callback e nbytes p)"

primrec run_callbacks :: "('j, 'z) pulse_env \<Rightarrow> nat \<Rightarrow> nat \<Rightarrow> ('j, 'z) jsio_scheme \<Rightarrow> ('j, 'z) jsio_scheme option" where
  "run_callbacks e l 0 s = Some s"
| "run_callbacks e l (Suc n) s =
     (let (cb, s) = in_world (pa_next_callback (pa e) l) s
      in do { s \<leftarrow> call_back e cb s; run_callbacks e l n s })"

definition pa_threaded_mainloop_wait ::
  "('j, 'z) pulse_env \<Rightarrow> nat \<Rightarrow> ('j, 'z) jsio_scheme \<Rightarrow> ('j, 'z) jsio_scheme option" where
  "pa_threaded_mainloop_wait e l s = do {
     c_assert (\<not> pa_threaded_mainloop_in_thread (pa e) l (world s));
     c_assert (loop_locks s l > 0);
     run_callbacks e l (pa_callback_count (pa e) l (world s)) s
   }"

text \<open>The loop of \<open>perform_operation\<close>; it does not end when the operation goes on running.\<close>

partial_function (option) operation_loop ::
  "('j, 'z) pulse_env \<Rightarrow> nat \<Rightarrow> nat \<Rightarrow> ('j, 'z) jsio_scheme \<Rightarrow> (SoundIoError \<times> ('j, 'z) jsio_scheme) option" where
  "operation_loop e si op s =
     (if pa_operation_get_state (pa e) op (world s) = PA_OPERATION_RUNNING
      then Option.bind (pulse_loop si s)
        (\<lambda>l. Option.bind (pa_threaded_mainloop_wait e l s) (operation_loop e si op))
      else Some (if pa_operation_get_state (pa e) op (world s) = PA_OPERATION_DONE
                 then SoundIoErrorNone else SoundIoErrorInterrupted,
        the_world (pa_operation_unref (pa e) op) s))"

definition perform_operation ::
  "('j, 'z) pulse_env \<Rightarrow> nat \<Rightarrow> nat option \<Rightarrow> ('j, 'z) jsio_scheme \<Rightarrow> (SoundIoError \<times> ('j, 'z) jsio_scheme) option" where
  "perform_operation e si op s =
     (case op of None \<Rightarrow> Some (SoundIoErrorNoMem, s) | Some op \<Rightarrow> operation_loop e si op s)"

subsection \<open>The device scan\<close>

definition cleanup_refresh_devices :: "nat \<Rightarrow> 'z sio_scheme \<Rightarrow> 'z sio_scheme option" where
  "cleanup_refresh_devices si s = do {
     x \<leftarrow> sios s si;
     s \<leftarrow> soundio_destroy_devices_info (current_devices_info (pulseaudio x)) s;
     s \<leftarrow> upd_sipa si (\<lambda>a. a\<lparr>current_devices_info := None\<rparr>) s;
     s \<leftarrow> free_blk (str_blk (default_sink_name (pulseaudio x))) s;
     s \<leftarrow> upd_sipa si (\<lambda>a. a\<lparr>default_sink_name := None\<rparr>) s;
     s \<leftarrow> free_blk (str_blk (default_source_name (pulseaudio x))) s;
     upd_sipa si (\<lambda>a. a\<lparr>default_source_name := None\<rparr>) s
   }"

text \<open>The loop over one list: the index of the last device with the default name, else the first.\<close>

definition default_device_index ::
  "SoundIoDeviceAim \<Rightarrow> nat clist \<Rightarrow> cstring \<Rightarrow> 'z devs_scheme \<Rightarrow> int option" where
  "default_device_index a l default_name s =
     (if l_length l > 0
      then for_each (\<lambda>i index. do {
          device \<leftarrow> list_val_at l (int i);
          d \<leftarrow> devices s device;
          c_assert (aim d = a);
          id \<leftarrow> dev_id d;
          nm \<leftarrow> default_name;
          Some (if snd id = snd nm then int i else index)
        }) [0..<nat (l_length l)] 0
      else Some (- 1))"

definition publish_devices ::
  "('j, 'z) pulse_env \<Rightarrow> nat \<Rightarrow> ('j, 'z) jsio_scheme \<Rightarrow> (SoundIoError \<times> ('j, 'z) jsio_scheme) option" where
  "publish_devices e si s = do {
     x \<leftarrow> sios s si;
     let sipa = pulseaudio x;
     q \<leftarrow> current_devices_info sipa;
     info \<leftarrow> infos s q;
     input_index \<leftarrow> default_device_index SoundIoDeviceAimInput (input_devices info) (default_source_name sipa) s;
     output_index \<leftarrow> default_device_index SoundIoDeviceAimOutput (output_devices info) (default_sink_name sipa) s;
     s \<leftarrow> upd_info (Some q) (\<lambda>info. info\<lparr>default_output_index := output_index, default_input_index := input_index\<rparr>) s;
     s \<leftarrow> soundio_destroy_devices_info (ready_devices_info sipa) s;
     s \<leftarrow> upd_sipa si (\<lambda>a. a\<lparr>ready_devices_info := Some q, current_devices_info := None\<rparr>) s;
     s \<leftarrow> pulse_signal e si s;
     Some (SoundIoErrorNone, emit (EventsSignal si) s)
   }"

text \<open>The three queries are started together, then waited for in turn.\<close>

definition refresh_devices_pa ::
  "('j, 'z) pulse_env \<Rightarrow> nat \<Rightarrow> ('j, 'z) jsio_scheme \<Rightarrow> (SoundIoError \<times> ('j, 'z) jsio_scheme) option" where
  "refresh_devices_pa e si s = do {
     x \<leftarrow> sios s si;
     c_assert (current_devices_info (pulseaudio x) = None);
     let (q, s) = alloc s;
     case q of None \<Rightarrow> Some (SoundIoErrorNoMem, s)
     | Some q \<Rightarrow> do {
         let s = s\<lparr>infos := (infos s)(q \<mapsto> devices_info_zero)\<rparr>;
         s \<leftarrow> upd_sipa si (\<lambda>a. a\<lparr>current_devices_info := Some q\<rparr>) s;
         c \<leftarrow> pulse_context (pulseaudio x);
         let (list_sink_op, s) = in_world (pa_context_get_sink_info_list (pa e) c si) s;
         let (list_source_op, s) = in_world (pa_context_get_source_info_list (pa e) c si) s;
         let (server_info_op, s) = in_world (pa_context_get_server_info (pa e) c si) s;
         (err, s) \<leftarrow> perform_operation e si list_sink_op s;
         if err \<noteq> SoundIoErrorNone then Some (err, s)
         else do {
           (err, s) \<leftarrow> perform_operation e si list_source_op s;
           if err \<noteq> SoundIoErrorNone then Some (err, s)
           else do {
             (err, s) \<leftarrow> perform_operation e si server_info_op s;
             if err \<noteq> SoundIoErrorNone then Some (err, s)
             else do {
               x \<leftarrow> sios s si;
               if device_query_err (pulseaudio x) \<noteq> SoundIoErrorNone
               then Some (device_query_err (pulseaudio x), s)
               else publish_devices e si s
             }
           }
         }
       }
   }"

subsection \<open>Events\<close>

definition queued_scan ::
  "('j, 'z) pulse_env \<Rightarrow> nat \<Rightarrow> ('j, 'z) jsio_scheme \<Rightarrow> ('j, 'z) jsio_scheme option" where
  "queued_scan e si s = do {
     x \<leftarrow> sios s si;
     if device_scan_queued (pulseaudio x) \<and> connection_err (pulseaudio x) = SoundIoErrorNone then do {
       s \<leftarrow> upd_sipa si (\<lambda>a. a\<lparr>device_scan_queued := False\<rparr>) s;
       (err, s) \<leftarrow> refresh_devices_pa e si s;
       s \<leftarrow> upd_sipa si (\<lambda>a. a\<lparr>connection_err := err\<rparr>) s;
       cleanup_refresh_devices si s
     }
     else Some s
   }"

definition my_flush_events_pa ::
  "('j, 'z) pulse_env \<Rightarrow> nat \<Rightarrow> bool \<Rightarrow> ('j, 'z) jsio_scheme \<Rightarrow> ('j, 'z) jsio_scheme option" where
  "my_flush_events_pa e si wait s = do {
     l \<leftarrow> pulse_loop si s;
     s \<leftarrow> pa_threaded_mainloop_lock e l s;
     s \<leftarrow> (if wait then pa_threaded_mainloop_wait e l s else Some s);
     s \<leftarrow> queued_scan e si s;
     x \<leftarrow> sios s si;
     let sipa = pulseaudio x;
     let cb_shutdown = (connection_err sipa \<noteq> SoundIoErrorNone \<and> \<not> pulse_emitted_shutdown_cb sipa);
     let change = (\<not> cb_shutdown \<and> ready_devices_info sipa \<noteq> None);
     let old_devices_info = (if change then safe_devices_info x else None);
     s \<leftarrow> (if cb_shutdown then upd_sipa si (\<lambda>a. a\<lparr>pulse_emitted_shutdown_cb := True\<rparr>) s
       else if change then upd_sio si (\<lambda>x. x\<lparr>safe_devices_info := ready_devices_info (pulseaudio x),
         pulseaudio := (pulseaudio x)\<lparr>ready_devices_info := None\<rparr>\<rparr>) s
       else Some s);
     s \<leftarrow> pa_threaded_mainloop_unlock e l s;
     s \<leftarrow> (if cb_shutdown then on_backend_disconnect si (connection_err sipa) s
       else if change then Some (emit (DevicesChange si) s)
       else Some s);
     soundio_destroy_devices_info old_devices_info s
   }"

definition flush_events_pa :: "('j, 'z) pulse_env \<Rightarrow> nat \<Rightarrow> ('j, 'z) jsio_scheme \<Rightarrow> ('j, 'z) jsio_scheme option" where
  "flush_events_pa e si s = my_flush_events_pa e si False s"

definition wait_events_pa :: "('j, 'z) pulse_env \<Rightarrow> nat \<Rightarrow> ('j, 'z) jsio_scheme \<Rightarrow> ('j, 'z) jsio_scheme option" where
  "wait_events_pa e si s = do {
     s \<leftarrow> my_flush_events_pa e si False s;
     my_flush_events_pa e si True s
   }"

definition wakeup_pa :: "('j, 'z) pulse_env \<Rightarrow> nat \<Rightarrow> ('j, 'z) jsio_scheme \<Rightarrow> ('j, 'z) jsio_scheme option" where
  "wakeup_pa e si s = do {
     l \<leftarrow> pulse_loop si s;
     s \<leftarrow> pa_threaded_mainloop_lock e l s;
     s \<leftarrow> pulse_signal e si s;
     pa_threaded_mainloop_unlock e l s
   }"

definition force_device_scan_pa :: "('j, 'z) pulse_env \<Rightarrow> nat \<Rightarrow> ('j, 'z) jsio_scheme \<Rightarrow> ('j, 'z) jsio_scheme option" where
  "force_device_scan_pa e si s = do {
     l \<leftarrow> pulse_loop si s;
     s \<leftarrow> pa_threaded_mainloop_lock e l s;
     s \<leftarrow> upd_sipa si (\<lambda>a. a\<lparr>device_scan_queued := True\<rparr>) s;
     s \<leftarrow> pulse_signal e si s;
     let s = emit (EventsSignal si) s;
     pa_threaded_mainloop_unlock e l s
   }"

subsection \<open>Connecting and disconnecting\<close>

definition destroy_pa :: "('j, 'z) pulse_env \<Rightarrow> nat \<Rightarrow> ('j, 'z) jsio_scheme \<Rightarrow> ('j, 'z) jsio_scheme option" where
  "destroy_pa e si s = do {
     x \<leftarrow> sios s si;
     let sipa = pulseaudio x;
     let s = (case main_loop sipa of None \<Rightarrow> s | Some l \<Rightarrow> the_world (pa_threaded_mainloop_stop (pa e) l) s);
     s \<leftarrow> world_do (pa_context_disconnect (pa e) (pulse_context sipa)) s;
     s \<leftarrow> world_do (pa_context_unref (pa e) (pulse_context sipa)) s;
     s \<leftarrow> soundio_destroy_devices_info (current_devices_info sipa) s;
     s \<leftarrow> soundio_destroy_devices_info (ready_devices_info sipa) s;
     let s = (case main_loop sipa of None \<Rightarrow> s | Some l \<Rightarrow> the_world (pa_threaded_mainloop_free (pa e) l) s);
     let s = (case pulse_props sipa of None \<Rightarrow> s | Some p \<Rightarrow> the_world (pa_proplist_free (pa e) p) s);
     s \<leftarrow> free_blk (str_blk (default_sink_name sipa)) s;
     free_blk (str_blk (default_source_name sipa)) s
   }"

definition pulse_init_failed ::
  "('j, 'z) pulse_env \<Rightarrow> nat \<Rightarrow> SoundIoError \<Rightarrow> ('j, 'z) jsio_scheme \<Rightarrow> (SoundIoError \<times> ('j, 'z) jsio_scheme) option" where
  "pulse_init_failed e si err s = do { s \<leftarrow> destroy_pa e si s; Some (err, s) }"

text \<open>The wait for the connection; it does not end when no callback reports one.\<close>

partial_function (option) wait_until_ready ::
  "('j, 'z) pulse_env \<Rightarrow> nat \<Rightarrow> nat \<Rightarrow> ('j, 'z) jsio_scheme \<Rightarrow> ('j, 'z) jsio_scheme option" where
  "wait_until_ready e l si s =
     Option.bind (sios s si) (\<lambda>x.
       if ready_flag (pulseaudio x) then Some s
       else Option.bind (pa_threaded_mainloop_wait e l s) (wait_until_ready e l si))"

definition pulse_vtable :: "vfn \<Rightarrow> SoundIoBackend option" where
  "pulse_vtable f = (if f = V_outstream_set_volume then None else Some SoundIoBackendPulseAudio)"

definition pulse_init_connected ::
  "('j, 'z) pulse_env \<Rightarrow> nat \<Rightarrow> nat \<Rightarrow> ('j, 'z) jsio_scheme \<Rightarrow> (SoundIoError \<times> ('j, 'z) jsio_scheme) option" where
  "pulse_init_connected e si l s = do {
     s \<leftarrow> pa_threaded_mainloop_lock e l s;
     s \<leftarrow> wait_until_ready e l si s;
     x \<leftarrow> sios s si;
     if connection_err (pulseaudio x) \<noteq> SoundIoErrorNone then do {
       s \<leftarrow> pa_threaded_mainloop_unlock e l s;
       s \<leftarrow> destroy_pa e si s;
       x \<leftarrow> sios s si;
       Some (connection_err (pulseaudio x), s)
     }
     else do {
       (err, s) \<leftarrow> subscribe_to_events e si s;
       s \<leftarrow> pa_threaded_mainloop_unlock e l s;
       if err \<noteq> SoundIoErrorNone then pulse_init_failed e si err s
       else do {
         s \<leftarrow> upd_sio si (\<lambda>x. x\<lparr>vtable := (\<lambda>f. if f = V_outstream_set_volume then vtable x f else pulse_vtable f)\<rparr>) s;
         Some (SoundIoErrorNone, s)
       }
     }
   }"

definition pulse_init_context ::
  "('j, 'z) pulse_env \<Rightarrow> nat \<Rightarrow> nat \<Rightarrow> nat \<Rightarrow> ('j, 'z) jsio_scheme \<Rightarrow> (SoundIoError \<times> ('j, 'z) jsio_scheme) option" where
  "pulse_init_context e si l c s = do {
     let s = the_world (pa_context_set_subscribe_callback (pa e) c si) s;
     let s = the_world (pa_context_set_state_callback (pa e) c si) s;
     let (err, s) = in_world (pa_context_connect (pa e) c) s;
     if err \<noteq> 0 then pulse_init_failed e si SoundIoErrorInitAudioBackend s
     else do {
       let (err, s) = in_world (pa_threaded_mainloop_start (pa e) l) s;
       if err \<noteq> 0 then pulse_init_failed e si SoundIoErrorNoMem s
       else pulse_init_connected e si l s
     }
   }"

definition soundio_pulseaudio_init ::
  "('j, 'z) pulse_env \<Rightarrow> nat \<Rightarrow> ('j, 'z) jsio_scheme \<Rightarrow> (SoundIoError \<times> ('j, 'z) jsio_scheme) option" where
  "soundio_pulseaudio_init e si s = do {
     s \<leftarrow> upd_sipa si (\<lambda>a. a\<lparr>device_scan_queued := True\<rparr>) s;
     let (loop, s) = in_world (pa_threaded_mainloop_new (pa e)) s;
     s \<leftarrow> upd_sipa si (\<lambda>a. a\<lparr>main_loop := loop\<rparr>) s;
     case loop of None \<Rightarrow> pulse_init_failed e si SoundIoErrorNoMem s
     | Some l \<Rightarrow> do {
         let (props, s) = in_world (pa_proplist_new (pa e)) s;
         s \<leftarrow> upd_sipa si (\<lambda>a. a\<lparr>pulse_props := props\<rparr>) s;
         case props of None \<Rightarrow> pulse_init_failed e si SoundIoErrorNoMem s
         | Some pr \<Rightarrow> do {
             x \<leftarrow> sios s si;
             let (context, s) = in_world (pa_context_new_with_proplist (pa e) l (app_name x) pr) s;
             s \<leftarrow> upd_sipa si (\<lambda>a. a\<lparr>pulse_context := context\<rparr>) s;
             case context of None \<Rightarrow> pulse_init_failed e si SoundIoErrorNoMem s
             | Some c \<Rightarrow> pulse_init_context e si l c s
           }
       }
   }"

end
