(* ===== verification/PulseStreams.thy ===== *)
theory PulseStreams
  imports Pulse
begin

section \<open>src/pulseaudio.c: streams\<close>

text \<open>
  The stream functions of the PulseAudio backend. A stream function that must hold the lock of
  the main loop takes it; the functions that move samples are called from callbacks, where the
  library holds it. The result of \<open>begin\<close> functions is the error, the areas (no cells for NULL)
  and the frame count that is returned through the pointer.
\<close>

text \<open>Size of a buffer in bytes: a product of \<open>int\<close> values of which one is a rounded \<open>double\<close>.\<close>

definition pulse_buffer_length :: "int \<Rightarrow> int \<Rightarrow> real \<Rightarrow> int option" where
  "pulse_buffer_length bytes_per_frame bytes_per_second software_latency = do {
     frames \<leftarrow> dbl_div (software_latency * real_of_int bytes_per_second) (real_of_int bytes_per_frame);
     n \<leftarrow> ceil_dbl_to_int frames;
     c_int (bytes_per_frame * n)
   }"

definition pulse_attr_default :: pa_buffer_attr where
  "pulse_attr_default = \<lparr>maxlength = - 1, tlength = - 1, prebuf = 0, minreq = - 1, fragsize = - 1\<rparr>"

definition pulse_sample_spec :: "SoundIoFormat \<Rightarrow> int \<Rightarrow> SoundIoChannelLayout \<Rightarrow> pa_sample_spec" where
  "pulse_sample_spec format rate layout =
     \<lparr>ss_format = to_pulseaudio_format format, ss_rate = word_of_int rate,
      ss_channels = word_of_int (cl_channel_count layout)\<rparr>"

text \<open>\<open>pause\<close> is compared as an \<open>int\<close> with the result of \<open>pa_stream_is_corked\<close>.\<close>

definition cork_if_needed ::
  "('j, 'z) pulse_env \<Rightarrow> nat \<Rightarrow> bool \<Rightarrow> ('j, 'z) jsio_scheme \<Rightarrow> bool \<times> ('j, 'z) jsio_scheme" where
  "cork_if_needed e st pause s =
     (if of_bool pause \<noteq> pa_stream_is_corked (pa e) st (world s)
      then let (op, s) = in_world (pa_stream_cork (pa e) st pause) s
           in (case op of None \<Rightarrow> (False, s) | Some op \<Rightarrow> (True, the_world (pa_operation_unref (pa e) op) s))
      else (True, s))"

definition lock_outside ::
  "('j, 'z) pulse_env \<Rightarrow> nat \<Rightarrow> ('j, 'z) jsio_scheme \<Rightarrow> ('j, 'z) jsio_scheme option" where
  "lock_outside e l s =
     (if pa_threaded_mainloop_in_thread (pa e) l (world s) then Some s else pa_threaded_mainloop_lock e l s)"

definition unlock_outside ::
  "('j, 'z) pulse_env \<Rightarrow> nat \<Rightarrow> ('j, 'z) jsio_scheme \<Rightarrow> ('j, 'z) jsio_scheme option" where
  "unlock_outside e l s =
     (if pa_threaded_mainloop_in_thread (pa e) l (world s) then Some s else pa_threaded_mainloop_unlock e l s)"

subsection \<open>Output streams\<close>

definition outstream_destroy_pa ::
  "('j, 'z) pulse_env \<Rightarrow> nat \<Rightarrow> nat \<Rightarrow> ('j, 'z) jsio_scheme \<Rightarrow> ('j, 'z) jsio_scheme option" where
  "outstream_destroy_pa e si p s = do {
     os \<leftarrow> outstreams s p;
     (case ospa_stream (ospa os) of None \<Rightarrow> Some s
      | Some st \<Rightarrow> do {
          l \<leftarrow> pulse_loop si s;
          s \<leftarrow> pa_threaded_mainloop_lock e l s;
          let s = the_world (pa_stream_set_callback (pa e) PaWriteCb st None) s;
          let s = the_world (pa_stream_set_callback (pa e) PaStateCb st None) s;
          let s = the_world (pa_stream_set_callback (pa e) PaUnderflowCb st None) s;
          let s = the_world (pa_stream_set_callback (pa e) PaOverflowCb st None) s;
          let s = the_world (pa_stream_disconnect (pa e) st) s;
          let s = the_world (pa_stream_unref (pa e) st) s;
          s \<leftarrow> pa_threaded_mainloop_unlock e l s;
          upd_ospa p (\<lambda>o'. o'\<lparr>ospa_stream := None\<rparr>) s
        })
   }"

text \<open>The wait for the stream; it does not end when no callback says that the stream is ready.\<close>

partial_function (option) wait_playback_ready ::
  "('j, 'z) pulse_env \<Rightarrow> nat \<Rightarrow> nat \<Rightarrow> ('j, 'z) jsio_scheme \<Rightarrow> ('j, 'z) jsio_scheme option" where
  "wait_playback_ready e l p s =
     Option.bind (outstreams s p) (\<lambda>os.
       if ospa_stream_ready (ospa os) then Some s
       else Option.bind (pa_threaded_mainloop_wait e l s) (wait_playback_ready e l p))"

definition outstream_connect_pa ::
  "('j, 'z) pulse_env \<Rightarrow> nat \<Rightarrow> nat \<Rightarrow> nat \<Rightarrow> nat \<Rightarrow> ('j, 'z) jsio_scheme \<Rightarrow>
   (SoundIoError \<times> ('j, 'z) jsio_scheme) option" where
  "outstream_connect_pa e si l p st s = do {
     let s = the_world (pa_stream_set_callback (pa e) PaStateCb st (Some p)) s;
     os \<leftarrow> outstreams s p;
     bytes_per_second \<leftarrow> c_int (os_bytes_per_frame os * os_sample_rate os);
     attr \<leftarrow> (if os_software_latency os > 0 then do {
         n \<leftarrow> pulse_buffer_length (os_bytes_per_frame os) bytes_per_second (os_software_latency os);
         Some (pulse_attr_default\<lparr>maxlength := word_of_int n, tlength := word_of_int n\<rparr>)
       } else Some pulse_attr_default);
     s \<leftarrow> upd_ospa p (\<lambda>o'. o'\<lparr>ospa_buffer_attr := attr\<rparr>) s;
     let flags = {PA_STREAM_START_CORKED, PA_STREAM_AUTO_TIMING_UPDATE, PA_STREAM_INTERPOLATE_TIMING};
     dv \<leftarrow> os_device os;
     device \<leftarrow> devices s dv;
     let (err, s) = in_world (pa_stream_connect_playback (pa e) st (map_option snd (dev_id device)) attr flags) s;
     if err \<noteq> 0 then do {
       s \<leftarrow> pa_threaded_mainloop_unlock e l s;
       Some (SoundIoErrorOpeningDevice, s)
     }
     else do {
       s \<leftarrow> wait_playback_ready e l p s;
       let (op, s) = in_world (pa_stream_update_timing_info (pa e) st si) s;
       (err, s) \<leftarrow> perform_operation e si op s;
       if err \<noteq> SoundIoErrorNone then do { s \<leftarrow> pa_threaded_mainloop_unlock e l s; Some (err, s) }
       else do {
         latency \<leftarrow> dbl_div (real_of_int (uint (pa_stream_writable_size (pa e) st (world s)))) (real_of_int bytes_per_second);
         s \<leftarrow> upd_out p (\<lambda>x. x\<lparr>os_software_latency := latency\<rparr>) s;
         s \<leftarrow> pa_threaded_mainloop_unlock e l s;
         Some (SoundIoErrorNone, s)
       }
     }
   }"

definition outstream_open_pa ::
  "('j, 'z) pulse_env \<Rightarrow> nat \<Rightarrow> nat \<Rightarrow> ('j, 'z) jsio_scheme \<Rightarrow> (SoundIoError \<times> ('j, 'z) jsio_scheme) option" where
  "outstream_open_pa e si p s = do {
     os \<leftarrow> outstreams s p;
     if uint (word_of_int (cl_channel_count (os_layout os)) :: 32 word) > int PA_CHANNELS_MAX
     then Some (SoundIoErrorIncompatibleBackend, s)
     else do {
       let name = (case os_name os of None \<Rightarrow> ''SoundIoOutStream'' | Some n \<Rightarrow> n);
       s \<leftarrow> upd_out p (\<lambda>x. x\<lparr>os_name := Some name\<rparr>) s;
       s \<leftarrow> upd_ospa p (\<lambda>o'. o'\<lparr>ospa_stream_ready := False, ospa_clear_buffer_flag := True\<rparr>) s;
       x \<leftarrow> sios s si;
       c_assert (pulse_context (pulseaudio x) \<noteq> None);
       c \<leftarrow> pulse_context (pulseaudio x);
       l \<leftarrow> pulse_loop si s;
       s \<leftarrow> pa_threaded_mainloop_lock e l s;
       channel_map \<leftarrow> to_pulseaudio_channel_map (os_layout os);
       let sample_spec = pulse_sample_spec (os_format os) (os_sample_rate os) (os_layout os);
       let (stream, s) = in_world (pa_stream_new (pa e) c name sample_spec channel_map) s;
       s \<leftarrow> upd_ospa p (\<lambda>o'. o'\<lparr>ospa_stream := stream\<rparr>) s;
       case stream of
         None \<Rightarrow> do {
           s \<leftarrow> pa_threaded_mainloop_unlock e l s;
           s \<leftarrow> outstream_destroy_pa e si p s;
           Some (SoundIoErrorNoMem, s)
         }
       | Some st \<Rightarrow> outstream_connect_pa e si l p st s
     }
   }"

definition outstream_start_pa ::
  "('j, 'z) pulse_env \<Rightarrow> nat \<Rightarrow> nat \<Rightarrow> ('j, 'z) jsio_scheme \<Rightarrow> (SoundIoError \<times> ('j, 'z) jsio_scheme) option" where
  "outstream_start_pa e si p s = do {
     l \<leftarrow> pulse_loop si s;
     s \<leftarrow> pa_threaded_mainloop_lock e l s;
     os \<leftarrow> outstreams s p;
     st \<leftarrow> ospa_stream (ospa os);
     let n = pa_stream_writable_size (pa e) st (world s);
     s \<leftarrow> upd_ospa p (\<lambda>o'. o'\<lparr>ospa_write_byte_count := n\<rparr>) s;
     frames \<leftarrow> size_div n (os_bytes_per_frame os);
     s \<leftarrow> write_callback e p 0 (to_int32 (uint frames)) s;
     let (op, s) = in_world (pa_stream_cork (pa e) st False) s;
     case op of
       None \<Rightarrow> do { s \<leftarrow> pa_threaded_mainloop_unlock e l s; Some (SoundIoErrorStreaming, s) }
     | Some op \<Rightarrow> do {
         let s = the_world (pa_operation_unref (pa e) op) s;
         let s = the_world (pa_stream_set_callback (pa e) PaWriteCb st (Some p)) s;
         let s = the_world (pa_stream_set_callback (pa e) PaUnderflowCb st (Some p)) s;
         let s = the_world (pa_stream_set_callback (pa e) PaOverflowCb st (Some p)) s;
         s \<leftarrow> pa_threaded_mainloop_unlock e l s;
         Some (SoundIoErrorNone, s)
       }
   }"

definition outstream_begin_write_pa ::
  "('j, 'z) pulse_env \<Rightarrow> nat \<Rightarrow> int \<Rightarrow> ('j, 'z) jsio_scheme \<Rightarrow>
   (SoundIoError \<times> SoundIoChannelArea list \<times> int \<times> ('j, 'z) jsio_scheme) option" where
  "outstream_begin_write_pa e p frame_count s = do {
     os \<leftarrow> outstreams s p;
     st \<leftarrow> ospa_stream (ospa os);
     n \<leftarrow> c_int (frame_count * os_bytes_per_frame os);
     let ((err, ptr, count), s) = in_world (pa_stream_begin_write (pa e) st (word_of_int n)) s;
     s \<leftarrow> upd_ospa p (\<lambda>o'. o'\<lparr>ospa_write_ptr := ptr, ospa_write_byte_count := count\<rparr>) s;
     if err \<noteq> 0 then Some (SoundIoErrorStreaming, [], frame_count, s)
     else do {
       areas \<leftarrow> interleave_areas ptr (os_bytes_per_sample os) (os_bytes_per_frame os)
         (cl_channel_count (os_layout os)) (ospa_areas (ospa os));
       s \<leftarrow> upd_ospa p (\<lambda>o'. o'\<lparr>ospa_areas := areas\<rparr>) s;
       frames \<leftarrow> size_div count (os_bytes_per_frame os);
       Some (SoundIoErrorNone, areas, to_int32 (uint frames), s)
     }
   }"

definition outstream_end_write_pa ::
  "('j, 'z) pulse_env \<Rightarrow> nat \<Rightarrow> ('j, 'z) jsio_scheme \<Rightarrow> (SoundIoError \<times> ('j, 'z) jsio_scheme) option" where
  "outstream_end_write_pa e p s = do {
     os \<leftarrow> outstreams s p;
     st \<leftarrow> ospa_stream (ospa os);
     let seek_mode = (if ospa_clear_buffer_flag (ospa os) then PA_SEEK_RELATIVE else PA_SEEK_RELATIVE_ON_READ);
     s \<leftarrow> upd_ospa p (\<lambda>o'. o'\<lparr>ospa_clear_buffer_flag := True\<rparr>) s;
     let (err, s) = in_world (pa_stream_write (pa e) st (ospa_write_ptr (ospa os)) (ospa_write_byte_count (ospa os)) seek_mode) s;
     Some (if err \<noteq> 0 then SoundIoErrorStreaming else SoundIoErrorNone, s)
   }"

definition outstream_clear_buffer_pa :: "nat \<Rightarrow> 'z sio_scheme \<Rightarrow> (SoundIoError \<times> 'z sio_scheme) option" where
  "outstream_clear_buffer_pa p s = do {
     s \<leftarrow> upd_ospa p (\<lambda>o'. o'\<lparr>ospa_clear_buffer_flag := False\<rparr>) s;
     Some (SoundIoErrorNone, s)
   }"

text \<open>The error path gives the lock back even when it was not taken.\<close>

definition outstream_pause_pa ::
  "('j, 'z) pulse_env \<Rightarrow> nat \<Rightarrow> nat \<Rightarrow> bool \<Rightarrow> ('j, 'z) jsio_scheme \<Rightarrow> (SoundIoError \<times> ('j, 'z) jsio_scheme) option" where
  "outstream_pause_pa e si p pause s = do {
     l \<leftarrow> pulse_loop si s;
     s \<leftarrow> lock_outside e l s;
     os \<leftarrow> outstreams s p;
     st \<leftarrow> ospa_stream (ospa os);
     let (ok, s) = cork_if_needed e st pause s;
     if \<not> ok then do { s \<leftarrow> pa_threaded_mainloop_unlock e l s; Some (SoundIoErrorStreaming, s) }
     else do { s \<leftarrow> unlock_outside e l s; Some (SoundIoErrorNone, s) }
   }"

definition outstream_get_latency_pa ::
  "('j, 'z) pulse_env \<Rightarrow> nat \<Rightarrow> ('j, 'z) jsio_scheme \<Rightarrow> (SoundIoError \<times> real \<times> ('j, 'z) jsio_scheme) option" where
  "outstream_get_latency_pa e p s = do {
     os \<leftarrow> outstreams s p;
     st \<leftarrow> ospa_stream (ospa os);
     let ((err, r_usec), s) = in_world (pa_stream_get_latency (pa e) st) s;
     if err \<noteq> 0 then Some (SoundIoErrorStreaming, 0, s)
     else Some (SoundIoErrorNone, real_of_int (uint r_usec) / 1000000, s)
   }"

subsection \<open>Input streams\<close>

definition instream_destroy_pa ::
  "('j, 'z) pulse_env \<Rightarrow> nat \<Rightarrow> nat \<Rightarrow> ('j, 'z) jsio_scheme \<Rightarrow> ('j, 'z) jsio_scheme option" where
  "instream_destroy_pa e si p s = do {
     is \<leftarrow> instreams s p;
     (case ispa_stream (ispa is) of None \<Rightarrow> Some s
      | Some st \<Rightarrow> do {
          l \<leftarrow> pulse_loop si s;
          s \<leftarrow> pa_threaded_mainloop_lock e l s;
          let s = the_world (pa_stream_set_callback (pa e) PaStateCb st None) s;
          let s = the_world (pa_stream_set_callback (pa e) PaReadCb st None) s;
          let s = the_world (pa_stream_disconnect (pa e) st) s;
          let s = the_world (pa_stream_unref (pa e) st) s;
          s \<leftarrow> pa_threaded_mainloop_unlock e l s;
          upd_ispa p (\<lambda>i. i\<lparr>ispa_stream := None\<rparr>) s
        })
   }"

definition instream_attr :: "SoundIoInStream \<Rightarrow> pa_buffer_attr option" where
  "instream_attr is =
     (if is_software_latency is > 0 then do {
        bytes_per_second \<leftarrow> c_int (is_bytes_per_frame is * is_sample_rate is);
        n \<leftarrow> pulse_buffer_length (is_bytes_per_frame is) bytes_per_second (is_software_latency is);
        Some (pulse_attr_default\<lparr>fragsize := word_of_int n\<rparr>)
      }
      else Some pulse_attr_default)"

definition instream_open_pa ::
  "('j, 'z) pulse_env \<Rightarrow> nat \<Rightarrow> nat \<Rightarrow> ('j, 'z) jsio_scheme \<Rightarrow> (SoundIoError \<times> ('j, 'z) jsio_scheme) option" where
  "instream_open_pa e si p s = do {
     is \<leftarrow> instreams s p;
     if uint (word_of_int (cl_channel_count (is_layout is)) :: 32 word) > int PA_CHANNELS_MAX
     then Some (SoundIoErrorIncompatibleBackend, s)
     else do {
       let name = (case is_name is of None \<Rightarrow> ''SoundIoInStream'' | Some n \<Rightarrow> n);
       s \<leftarrow> upd_in p (\<lambda>x. x\<lparr>is_name := Some name\<rparr>) s;
       s \<leftarrow> upd_ispa p (\<lambda>i. i\<lparr>ispa_stream_ready := False\<rparr>) s;
       l \<leftarrow> pulse_loop si s;
       s \<leftarrow> pa_threaded_mainloop_lock e l s;
       channel_map \<leftarrow> to_pulseaudio_channel_map (is_layout is);
       let sample_spec = pulse_sample_spec (is_format is) (is_sample_rate is) (is_layout is);
       x \<leftarrow> sios s si;
       c \<leftarrow> pulse_context (pulseaudio x);
       let (stream, s) = in_world (pa_stream_new (pa e) c name sample_spec channel_map) s;
       s \<leftarrow> upd_ispa p (\<lambda>i. i\<lparr>ispa_stream := stream\<rparr>) s;
       case stream of
         None \<Rightarrow> do {
           s \<leftarrow> pa_threaded_mainloop_unlock e l s;
           s \<leftarrow> instream_destroy_pa e si p s;
           Some (SoundIoErrorNoMem, s)
         }
       | Some st \<Rightarrow> do {
           let s = the_world (pa_stream_set_callback (pa e) PaStateCb st (Some p)) s;
           let s = the_world (pa_stream_set_callback (pa e) PaReadCb st (Some p)) s;
           attr \<leftarrow> instream_attr is;
           s \<leftarrow> upd_ispa p (\<lambda>i. i\<lparr>ispa_buffer_attr := attr\<rparr>) s;
           s \<leftarrow> pa_threaded_mainloop_unlock e l s;
           Some (SoundIoErrorNone, s)
         }
     }
   }"

partial_function (option) wait_recording_ready ::
  "('j, 'z) pulse_env \<Rightarrow> nat \<Rightarrow> nat \<Rightarrow> ('j, 'z) jsio_scheme \<Rightarrow> ('j, 'z) jsio_scheme option" where
  "wait_recording_ready e l p s =
     Option.bind (instreams s p) (\<lambda>is.
       if ispa_stream_ready (ispa is) then Some s
       else Option.bind (pa_threaded_mainloop_wait e l s) (wait_recording_ready e l p))"

definition instream_start_pa ::
  "('j, 'z) pulse_env \<Rightarrow> nat \<Rightarrow> nat \<Rightarrow> ('j, 'z) jsio_scheme \<Rightarrow> (SoundIoError \<times> ('j, 'z) jsio_scheme) option" where
  "instream_start_pa e si p s = do {
     l \<leftarrow> pulse_loop si s;
     s \<leftarrow> pa_threaded_mainloop_lock e l s;
     is \<leftarrow> instreams s p;
     st \<leftarrow> ispa_stream (ispa is);
     dv \<leftarrow> is_device is;
     device \<leftarrow> devices s dv;
     let flags = {PA_STREAM_AUTO_TIMING_UPDATE, PA_STREAM_INTERPOLATE_TIMING};
     let (err, s) = in_world (pa_stream_connect_record (pa e) st (map_option snd (dev_id device))
       (ispa_buffer_attr (ispa is)) flags) s;
     if err \<noteq> 0 then do {
       s \<leftarrow> pa_threaded_mainloop_unlock e l s;
       Some (SoundIoErrorOpeningDevice, s)
     }
     else do {
       s \<leftarrow> wait_recording_ready e l p s;
       let (op, s) = in_world (pa_stream_update_timing_info (pa e) st si) s;
       (err, s) \<leftarrow> perform_operation e si op s;
       s \<leftarrow> pa_threaded_mainloop_unlock e l s;
       Some (err, s)
     }
   }"

text \<open>The frames that are left of the peeked buffer, up to \<open>frame_count\<close>.\<close>

definition read_peeked ::
  "nat \<Rightarrow> int \<Rightarrow> 'z sio_scheme \<Rightarrow> (SoundIoError \<times> SoundIoChannelArea list \<times> int \<times> 'z sio_scheme) option" where
  "read_peeked p frame_count s = do {
     is \<leftarrow> instreams s p;
     buf \<leftarrow> ispa_peek_buf (ispa is);
     let n = soundio_int_min frame_count (ispa_peek_buf_frames_left (ispa is));
     areas \<leftarrow> interleave_areas (buf + unat (ispa_peek_buf_index (ispa is))) (is_bytes_per_sample is)
       (is_bytes_per_frame is) (cl_channel_count (is_layout is)) (ispa_areas (ispa is));
     s \<leftarrow> upd_ispa p (\<lambda>i. i\<lparr>ispa_read_frame_count := n, ispa_areas := areas\<rparr>) s;
     Some (SoundIoErrorNone, areas, n, s)
   }"

definition instream_begin_read_pa ::
  "('j, 'z) pulse_env \<Rightarrow> nat \<Rightarrow> int \<Rightarrow> ('j, 'z) jsio_scheme \<Rightarrow>
   (SoundIoError \<times> SoundIoChannelArea list \<times> int \<times> ('j, 'z) jsio_scheme) option" where
  "instream_begin_read_pa e p frame_count s = do {
     is \<leftarrow> instreams s p;
     c_assert (ispa_stream_ready (ispa is));
     if ispa_peek_buf (ispa is) \<noteq> None then read_peeked p frame_count s
     else do {
       st \<leftarrow> ispa_stream (ispa is);
       let ((err, buf, size), s) = in_world (pa_stream_peek (pa e) st) s;
       s \<leftarrow> upd_ispa p (\<lambda>i. i\<lparr>ispa_peek_buf := buf, ispa_peek_buf_size := size\<rparr>) s;
       if err \<noteq> 0 then Some (SoundIoErrorStreaming, [], frame_count, s)
       else do {
         frames \<leftarrow> size_div size (is_bytes_per_frame is);
         s \<leftarrow> upd_ispa p (\<lambda>i. i\<lparr>ispa_peek_buf_frames_left := to_int32 (uint frames), ispa_peek_buf_index := 0\<rparr>) s;
         if buf = None then Some (SoundIoErrorNone, [], to_int32 (uint frames), s)
         else read_peeked p frame_count s
       }
     }
   }"

definition drop_peeked ::
  "('j, 'z) pulse_env \<Rightarrow> nat \<Rightarrow> ('j, 'z) jsio_scheme \<Rightarrow> (SoundIoError \<times> ('j, 'z) jsio_scheme) option" where
  "drop_peeked e p s = do {
     is \<leftarrow> instreams s p;
     st \<leftarrow> ispa_stream (ispa is);
     let (err, s) = in_world (pa_stream_drop (pa e) st) s;
     Some (if err \<noteq> 0 then SoundIoErrorStreaming else SoundIoErrorNone, s)
   }"

definition instream_end_read_pa ::
  "('j, 'z) pulse_env \<Rightarrow> nat \<Rightarrow> ('j, 'z) jsio_scheme \<Rightarrow> (SoundIoError \<times> ('j, 'z) jsio_scheme) option" where
  "instream_end_read_pa e p s = do {
     is \<leftarrow> instreams s p;
     if ispa_peek_buf (ispa is) = None then drop_peeked e p s
     else do {
       advance_bytes \<leftarrow> c_int (ispa_read_frame_count (ispa is) * is_bytes_per_frame is);
       let index = ispa_peek_buf_index (ispa is) + word_of_int advance_bytes;
       frames_left \<leftarrow> c_int (ispa_peek_buf_frames_left (ispa is) - ispa_read_frame_count (ispa is));
       s \<leftarrow> upd_ispa p (\<lambda>i. i\<lparr>ispa_peek_buf_index := index, ispa_peek_buf_frames_left := frames_left\<rparr>) s;
       if index \<ge> ispa_peek_buf_size (ispa is) then do {
         (err, s) \<leftarrow> drop_peeked e p s;
         if err \<noteq> SoundIoErrorNone then Some (err, s)
         else do {
           s \<leftarrow> upd_ispa p (\<lambda>i. i\<lparr>ispa_peek_buf := None\<rparr>) s;
           Some (SoundIoErrorNone, s)
         }
       }
       else Some (SoundIoErrorNone, s)
     }
   }"

text \<open>The error path keeps the lock.\<close>

definition instream_pause_pa ::
  "('j, 'z) pulse_env \<Rightarrow> nat \<Rightarrow> nat \<Rightarrow> bool \<Rightarrow> ('j, 'z) jsio_scheme \<Rightarrow> (SoundIoError \<times> ('j, 'z) jsio_scheme) option" where
  "instream_pause_pa e si p pause s = do {
     l \<leftarrow> pulse_loop si s;
     s \<leftarrow> lock_outside e l s;
     is \<leftarrow> instreams s p;
     st \<leftarrow> ispa_stream (ispa is);
     let (ok, s) = cork_if_needed e st pause s;
     if \<not> ok then Some (SoundIoErrorStreaming, s)
     else do { s \<leftarrow> unlock_outside e l s; Some (SoundIoErrorNone, s) }
   }"

definition instream_get_latency_pa ::
  "('j, 'z) pulse_env \<Rightarrow> nat \<Rightarrow> ('j, 'z) jsio_scheme \<Rightarrow> (SoundIoError \<times> real \<times> ('j, 'z) jsio_scheme) option" where
  "instream_get_latency_pa e p s = do {
     is \<leftarrow> instreams s p;
     st \<leftarrow> ispa_stream (ispa is);
     let ((err, r_usec), s) = in_world (pa_stream_get_latency (pa e) st) s;
     if err \<noteq> 0 then Some (SoundIoErrorStreaming, 0, s)
     else Some (SoundIoErrorNone, real_of_int (uint r_usec) / 1000000, s)
   }"

end
