(* ===== verification/AlsaApi.thy ===== *)
theory AlsaApi
  imports Jack
begin

section \<open>The interface of ALSA and the conversions of src/alsa.c\<close>

text \<open>
  The ALSA library, the kernel's file notification and \<open>poll\<close> are not part of the sources: what
  the backend calls are the fields of three records of functions on the state of the external
  libraries, for the system calls, for cards and names, and for one open device. An error of
  the library is a negative number. The parameter sets of a device under configuration belong
  to its handle, because the code uses one at a time. Memory that the library allocates for
  the caller comes from the same allocator as everything else. The theory also holds the
  conversions of formats and channel positions.
\<close>

subsection \<open>Error numbers\<close>

definition EPERM :: int where "EPERM = 1"
definition ENOENT :: int where "ENOENT = 2"
definition EINTR :: int where "EINTR = 4"
definition EIO :: int where "EIO = 5"
definition EBADF :: int where "EBADF = 9"
definition EAGAIN :: int where "EAGAIN = 11"
definition ENOMEM :: int where "ENOMEM = 12"
definition EACCES :: int where "EACCES = 13"
definition EFAULT :: int where "EFAULT = 14"
definition EISDIR :: int where "EISDIR = 21"
definition EINVAL :: int where "EINVAL = 22"
definition ENFILE :: int where "ENFILE = 23"
definition EMFILE :: int where "EMFILE = 24"
definition ENOSPC :: int where "ENOSPC = 28"
definition EPIPE :: int where "EPIPE = 32"
definition ENAMETOOLONG :: int where "ENAMETOOLONG = 36"
definition EBADFD :: int where "EBADFD = 77"
definition ESTRPIPE :: int where "ESTRPIPE = 86"

lemmas errno_defs = EPERM_def ENOENT_def EINTR_def EIO_def EBADF_def EAGAIN_def ENOMEM_def EACCES_def EFAULT_def EISDIR_def
  EINVAL_def ENFILE_def EMFILE_def ENOSPC_def EPIPE_def ENAMETOOLONG_def EBADFD_def ESTRPIPE_def

subsection \<open>The types of the interface\<close>

datatype (plugins only: code) snd_pcm_format =
    SND_PCM_FORMAT_UNKNOWN
  | SND_PCM_FORMAT_S8 | SND_PCM_FORMAT_U8 | SND_PCM_FORMAT_S16_LE | SND_PCM_FORMAT_S16_BE | SND_PCM_FORMAT_U16_LE | SND_PCM_FORMAT_U16_BE
  | SND_PCM_FORMAT_S24_LE | SND_PCM_FORMAT_S24_BE | SND_PCM_FORMAT_U24_LE | SND_PCM_FORMAT_U24_BE | SND_PCM_FORMAT_S32_LE | SND_PCM_FORMAT_S32_BE
  | SND_PCM_FORMAT_U32_LE | SND_PCM_FORMAT_U32_BE | SND_PCM_FORMAT_FLOAT_LE | SND_PCM_FORMAT_FLOAT_BE | SND_PCM_FORMAT_FLOAT64_LE | SND_PCM_FORMAT_FLOAT64_BE
  | SND_PCM_FORMAT_OTHER nat

datatype snd_pcm_stream = SND_PCM_STREAM_PLAYBACK | SND_PCM_STREAM_CAPTURE

datatype snd_pcm_state =
    SND_PCM_STATE_OPEN | SND_PCM_STATE_SETUP | SND_PCM_STATE_PREPARED | SND_PCM_STATE_RUNNING | SND_PCM_STATE_XRUN
  | SND_PCM_STATE_DRAINING | SND_PCM_STATE_PAUSED | SND_PCM_STATE_SUSPENDED | SND_PCM_STATE_DISCONNECTED

datatype poll_event = POLLIN | POLLOUT | POLLERR | POLLNVAL | POLLHUP

datatype in_flag = IN_CREATE | IN_CLOSE_WRITE | IN_DELETE | IN_ISDIR

text \<open>An event of the notification: its mask, the length of the name field and the name.\<close>

record inotify_event =
  ev_mask :: "in_flag set"
  ev_len :: nat
  ev_name :: string

text \<open>Where the samples of a channel are: an address, and the first bit and the distance in bits.\<close>

record snd_pcm_channel_area =
  ca_addr :: nat
  ca_first :: "32 word"
  ca_step :: "32 word"

text \<open>
  System calls. A result is followed by \<open>errno\<close>. \<open>sys_poll_devices\<close> polls the notification and the
  pipe and says which of them is readable.
\<close>

record 'j alsa_sys =
  sys_write :: "int \<Rightarrow> 'j \<Rightarrow> (int \<times> int) \<times> 'j"
  sys_close :: "int \<Rightarrow> 'j \<Rightarrow> 'j"
  sys_inotify_init :: "'j \<Rightarrow> (int \<times> int) \<times> 'j"
  sys_inotify_add_watch :: "int \<Rightarrow> 'j \<Rightarrow> (int \<times> int) \<times> 'j"
  sys_pipe2 :: "'j \<Rightarrow> (int \<times> int \<times> int \<times> int) \<times> 'j"
  sys_poll_devices :: "int \<Rightarrow> int \<Rightarrow> 'j \<Rightarrow> (int \<times> int \<times> bool \<times> bool) \<times> 'j"
  sys_read_events :: "int \<Rightarrow> 'j \<Rightarrow> (int \<times> int \<times> inotify_event list) \<times> 'j"
  sys_read_pipe :: "int \<Rightarrow> 'j \<Rightarrow> (int \<times> int) \<times> 'j"
  sys_poll_stream :: "nat \<Rightarrow> int \<Rightarrow> 'j \<Rightarrow> int \<times> 'j"
  sys_sleep_1ms :: "'j \<Rightarrow> 'j"

text \<open>Cards, names and opening. A list of channel maps is a handle with the maps.\<close>

record 'j alsa_ctl =
  snd_config_update_free_global :: "'j \<Rightarrow> int \<times> 'j"
  snd_config_update :: "'j \<Rightarrow> int \<times> 'j"
  snd_device_name_hint :: "'j \<Rightarrow> (int \<times> nat list) \<times> 'j"
  snd_device_name_get_hint :: "nat \<Rightarrow> string \<Rightarrow> 'j \<Rightarrow> string option"
  snd_device_name_free_hint :: "'j \<Rightarrow> 'j"
  snd_card_next :: "int \<Rightarrow> 'j \<Rightarrow> (int \<times> int) \<times> 'j"
  snd_ctl_open :: "string \<Rightarrow> 'j \<Rightarrow> (int \<times> nat) \<times> 'j"
  snd_ctl_close :: "nat \<Rightarrow> 'j \<Rightarrow> 'j"
  snd_ctl_card_info :: "nat \<Rightarrow> 'j \<Rightarrow> (int \<times> string) \<times> 'j"
  snd_ctl_pcm_next_device :: "nat \<Rightarrow> int \<Rightarrow> 'j \<Rightarrow> (int \<times> int) \<times> 'j"
  snd_ctl_pcm_info :: "nat \<Rightarrow> int \<Rightarrow> snd_pcm_stream \<Rightarrow> 'j \<Rightarrow> (int \<times> string) \<times> 'j"
  snd_pcm_query_chmaps_from_hw :: "int \<Rightarrow> int \<Rightarrow> snd_pcm_stream \<Rightarrow> 'j \<Rightarrow> (nat \<times> snd_pcm_chmap list) option \<times> 'j"
  snd_pcm_query_chmaps :: "nat \<Rightarrow> 'j \<Rightarrow> (nat \<times> snd_pcm_chmap list) option \<times> 'j"
  snd_pcm_free_chmaps :: "nat \<Rightarrow> 'j \<Rightarrow> 'j"
  snd_pcm_get_chmap :: "nat \<Rightarrow> 'j \<Rightarrow> snd_pcm_chmap option"
  snd_pcm_open :: "string option \<Rightarrow> snd_pcm_stream \<Rightarrow> 'j \<Rightarrow> (int \<times> nat) \<times> 'j"
  snd_pcm_close :: "nat \<Rightarrow> 'j \<Rightarrow> 'j"
  snd_pcm_format_physical_width :: "snd_pcm_format \<Rightarrow> int"

text \<open>The parameters of an open device.\<close>

record 'j alsa_params =
  hw_params_any :: "nat \<Rightarrow> 'j \<Rightarrow> int \<times> 'j"
  hw_params_set_rate_resample :: "nat \<Rightarrow> bool \<Rightarrow> 'j \<Rightarrow> int \<times> 'j"
  hw_params_set_access :: "nat \<Rightarrow> snd_pcm_access \<Rightarrow> 'j \<Rightarrow> int \<times> 'j"
  hw_params_get_channels_min :: "nat \<Rightarrow> 'j \<Rightarrow> int \<times> 32 word"
  hw_params_set_channels_last :: "nat \<Rightarrow> 'j \<Rightarrow> (int \<times> 32 word) \<times> 'j"
  hw_params_get_rate_min :: "nat \<Rightarrow> 'j \<Rightarrow> int \<times> 32 word"
  hw_params_set_rate_last :: "nat \<Rightarrow> 'j \<Rightarrow> (int \<times> 32 word) \<times> 'j"
  hw_params_get_buffer_size_min :: "nat \<Rightarrow> 'j \<Rightarrow> int \<times> 64 word"
  hw_params_get_buffer_size_max :: "nat \<Rightarrow> 'j \<Rightarrow> int \<times> 64 word"
  hw_params_set_buffer_size_first :: "nat \<Rightarrow> 'j \<Rightarrow> int \<times> 'j"
  hw_params_set_format_mask :: "nat \<Rightarrow> snd_pcm_format set \<Rightarrow> 'j \<Rightarrow> int \<times> 'j"
  hw_params_get_format_mask :: "nat \<Rightarrow> 'j \<Rightarrow> snd_pcm_format set"
  hw_params_set_channels :: "nat \<Rightarrow> int \<Rightarrow> 'j \<Rightarrow> int \<times> 'j"
  hw_params_set_rate :: "nat \<Rightarrow> int \<Rightarrow> 'j \<Rightarrow> int \<times> 'j"
  hw_params_set_format :: "nat \<Rightarrow> snd_pcm_format \<Rightarrow> 'j \<Rightarrow> int \<times> 'j"
  hw_params_set_buffer_size_near :: "nat \<Rightarrow> 64 word \<Rightarrow> 'j \<Rightarrow> (int \<times> 64 word) \<times> 'j"
  hw_params_set_buffer_size_last :: "nat \<Rightarrow> 'j \<Rightarrow> int \<times> 'j"
  hw_params_set_period_size_near :: "nat \<Rightarrow> 64 word \<Rightarrow> 'j \<Rightarrow> (int \<times> 64 word) \<times> 'j"
  hw_params_get_period_size :: "nat \<Rightarrow> 'j \<Rightarrow> int \<times> 64 word"
  hw_params :: "nat \<Rightarrow> 'j \<Rightarrow> int \<times> 'j"
  sw_params_current :: "nat \<Rightarrow> 'j \<Rightarrow> int \<times> 'j"
  sw_params_set_start_threshold :: "nat \<Rightarrow> 64 word \<Rightarrow> 'j \<Rightarrow> int \<times> 'j"
  sw_params_set_avail_min :: "nat \<Rightarrow> 64 word \<Rightarrow> 'j \<Rightarrow> int \<times> 'j"
  sw_params :: "nat \<Rightarrow> 'j \<Rightarrow> int \<times> 'j"
  snd_pcm_set_chmap :: "nat \<Rightarrow> snd_pcm_chmap \<Rightarrow> 'j \<Rightarrow> int \<times> 'j"
  snd_pcm_poll_descriptors_count :: "nat \<Rightarrow> 'j \<Rightarrow> int"
  snd_pcm_poll_descriptors :: "nat \<Rightarrow> int \<Rightarrow> 'j \<Rightarrow> int \<times> 'j"

text \<open>The transfer of samples.\<close>

record 'j alsa_pcm =
  pcm_state :: "nat \<Rightarrow> 'j \<Rightarrow> snd_pcm_state"
  snd_pcm_prepare :: "nat \<Rightarrow> 'j \<Rightarrow> int \<times> 'j"
  snd_pcm_start :: "nat \<Rightarrow> 'j \<Rightarrow> int \<times> 'j"
  snd_pcm_drop :: "nat \<Rightarrow> 'j \<Rightarrow> int \<times> 'j"
  snd_pcm_reset :: "nat \<Rightarrow> 'j \<Rightarrow> int \<times> 'j"
  snd_pcm_resume :: "nat \<Rightarrow> 'j \<Rightarrow> int \<times> 'j"
  snd_pcm_pause :: "nat \<Rightarrow> bool \<Rightarrow> 'j \<Rightarrow> int \<times> 'j"
  snd_pcm_avail_sync :: "nat \<Rightarrow> 'j \<Rightarrow> int \<times> 'j"
  snd_pcm_avail_update :: "nat \<Rightarrow> 'j \<Rightarrow> int \<times> 'j"
  snd_pcm_delay :: "nat \<Rightarrow> 'j \<Rightarrow> (int \<times> int) \<times> 'j"
  snd_pcm_revents :: "nat \<Rightarrow> int \<Rightarrow> 'j \<Rightarrow> (int \<times> poll_event set) \<times> 'j"
  snd_pcm_mmap_begin :: "nat \<Rightarrow> 64 word \<Rightarrow> 'j \<Rightarrow> (int \<times> snd_pcm_channel_area list \<times> 64 word \<times> 64 word) \<times> 'j"
  snd_pcm_mmap_commit :: "nat \<Rightarrow> 64 word \<Rightarrow> 64 word \<Rightarrow> 'j \<Rightarrow> int \<times> 'j"
  snd_pcm_writei :: "nat \<Rightarrow> nat \<Rightarrow> 64 word \<Rightarrow> 'j \<Rightarrow> int \<times> 'j"
  snd_pcm_writen :: "nat \<Rightarrow> nat list \<Rightarrow> 64 word \<Rightarrow> 'j \<Rightarrow> int \<times> 'j"
  snd_pcm_readi :: "nat \<Rightarrow> nat \<Rightarrow> 64 word \<Rightarrow> 'j \<Rightarrow> int \<times> 'j"
  snd_pcm_readn :: "nat \<Rightarrow> nat list \<Rightarrow> 64 word \<Rightarrow> 'j \<Rightarrow> int \<times> 'j"

text \<open>
  The external world of the backend: the library, where the allocator put a block, and the
  callbacks of the application that carry data.
\<close>

record ('j, 'z) alsa_env =
  asys :: "'j alsa_sys"
  actl :: "'j alsa_ctl"
  apar :: "'j alsa_params"
  apcm :: "'j alsa_pcm"
  block_address :: "nat \<Rightarrow> nat"
  alsa_write_callback :: "('j, 'z) jsio_ext callback"
  alsa_read_callback :: "('j, 'z) jsio_ext callback"

subsection \<open>Conversions\<close>

definition stream_types :: "snd_pcm_stream list" where
  "stream_types = [SND_PCM_STREAM_PLAYBACK, SND_PCM_STREAM_CAPTURE]"

definition prioritized_access_types :: "snd_pcm_access list" where
  "prioritized_access_types = [SND_PCM_ACCESS_MMAP_INTERLEAVED, SND_PCM_ACCESS_MMAP_NONINTERLEAVED,
     SND_PCM_ACCESS_MMAP_COMPLEX, SND_PCM_ACCESS_RW_INTERLEAVED, SND_PCM_ACCESS_RW_NONINTERLEAVED]"

definition aim_to_stream :: "SoundIoDeviceAim \<Rightarrow> snd_pcm_stream" where
  "aim_to_stream a = (case a of SoundIoDeviceAimOutput \<Rightarrow> SND_PCM_STREAM_PLAYBACK
     | SoundIoDeviceAimInput \<Rightarrow> SND_PCM_STREAM_CAPTURE)"

definition from_alsa_chmap_pos :: "snd_pcm_chmap_position \<Rightarrow> SoundIoChannelId" where
  "from_alsa_chmap_pos pos =
     (case pos of
        SND_CHMAP_UNKNOWN \<Rightarrow> SoundIoChannelIdInvalid
      | SND_CHMAP_NA \<Rightarrow> SoundIoChannelIdInvalid
      | SND_CHMAP_MONO \<Rightarrow> SoundIoChannelIdFrontCenter
      | SND_CHMAP_FL \<Rightarrow> SoundIoChannelIdFrontLeft
      | SND_CHMAP_FR \<Rightarrow> SoundIoChannelIdFrontRight
      | SND_CHMAP_RL \<Rightarrow> SoundIoChannelIdBackLeft
      | SND_CHMAP_RR \<Rightarrow> SoundIoChannelIdBackRight
      | SND_CHMAP_FC \<Rightarrow> SoundIoChannelIdFrontCenter
      | SND_CHMAP_LFE \<Rightarrow> SoundIoChannelIdLfe
      | SND_CHMAP_SL \<Rightarrow> SoundIoChannelIdSideLeft
      | SND_CHMAP_SR \<Rightarrow> SoundIoChannelIdSideRight
      | SND_CHMAP_RC \<Rightarrow> SoundIoChannelIdBackCenter
      | SND_CHMAP_FLC \<Rightarrow> SoundIoChannelIdFrontLeftCenter
      | SND_CHMAP_FRC \<Rightarrow> SoundIoChannelIdFrontRightCenter
      | SND_CHMAP_RLC \<Rightarrow> SoundIoChannelIdBackLeftCenter
      | SND_CHMAP_RRC \<Rightarrow> SoundIoChannelIdBackRightCenter
      | SND_CHMAP_FLW \<Rightarrow> SoundIoChannelIdFrontLeftWide
      | SND_CHMAP_FRW \<Rightarrow> SoundIoChannelIdFrontRightWide
      | SND_CHMAP_FLH \<Rightarrow> SoundIoChannelIdFrontLeftHigh
      | SND_CHMAP_FCH \<Rightarrow> SoundIoChannelIdFrontCenterHigh
      | SND_CHMAP_FRH \<Rightarrow> SoundIoChannelIdFrontRightHigh
      | SND_CHMAP_TC \<Rightarrow> SoundIoChannelIdTopCenter
      | SND_CHMAP_TFL \<Rightarrow> SoundIoChannelIdTopFrontLeft
      | SND_CHMAP_TFR \<Rightarrow> SoundIoChannelIdTopFrontRight
      | SND_CHMAP_TFC \<Rightarrow> SoundIoChannelIdTopFrontCenter
      | SND_CHMAP_TRL \<Rightarrow> SoundIoChannelIdTopBackLeft
      | SND_CHMAP_TRR \<Rightarrow> SoundIoChannelIdTopBackRight
      | SND_CHMAP_TRC \<Rightarrow> SoundIoChannelIdTopBackCenter
      | SND_CHMAP_TFLC \<Rightarrow> SoundIoChannelIdTopFrontLeftCenter
      | SND_CHMAP_TFRC \<Rightarrow> SoundIoChannelIdTopFrontRightCenter
      | SND_CHMAP_TSL \<Rightarrow> SoundIoChannelIdTopSideLeft
      | SND_CHMAP_TSR \<Rightarrow> SoundIoChannelIdTopSideRight
      | SND_CHMAP_LLFE \<Rightarrow> SoundIoChannelIdLeftLfe
      | SND_CHMAP_RLFE \<Rightarrow> SoundIoChannelIdRightLfe
      | SND_CHMAP_BC \<Rightarrow> SoundIoChannelIdBottomCenter
      | SND_CHMAP_BLC \<Rightarrow> SoundIoChannelIdBottomLeftCenter
      | SND_CHMAP_BRC \<Rightarrow> SoundIoChannelIdBottomRightCenter
      | SND_CHMAP_OTHER n \<Rightarrow> SoundIoChannelIdInvalid)"

definition to_alsa_chmap_pos :: "SoundIoChannelId \<Rightarrow> snd_pcm_chmap_position" where
  "to_alsa_chmap_pos channel_id =
     (case channel_id of
        SoundIoChannelIdFrontLeft \<Rightarrow> SND_CHMAP_FL
      | SoundIoChannelIdFrontRight \<Rightarrow> SND_CHMAP_FR
      | SoundIoChannelIdBackLeft \<Rightarrow> SND_CHMAP_RL
      | SoundIoChannelIdBackRight \<Rightarrow> SND_CHMAP_RR
      | SoundIoChannelIdFrontCenter \<Rightarrow> SND_CHMAP_FC
      | SoundIoChannelIdLfe \<Rightarrow> SND_CHMAP_LFE
      | SoundIoChannelIdSideLeft \<Rightarrow> SND_CHMAP_SL
      | SoundIoChannelIdSideRight \<Rightarrow> SND_CHMAP_SR
      | SoundIoChannelIdBackCenter \<Rightarrow> SND_CHMAP_RC
      | SoundIoChannelIdFrontLeftCenter \<Rightarrow> SND_CHMAP_FLC
      | SoundIoChannelIdFrontRightCenter \<Rightarrow> SND_CHMAP_FRC
      | SoundIoChannelIdBackLeftCenter \<Rightarrow> SND_CHMAP_RLC
      | SoundIoChannelIdBackRightCenter \<Rightarrow> SND_CHMAP_RRC
      | SoundIoChannelIdFrontLeftWide \<Rightarrow> SND_CHMAP_FLW
      | SoundIoChannelIdFrontRightWide \<Rightarrow> SND_CHMAP_FRW
      | SoundIoChannelIdFrontLeftHigh \<Rightarrow> SND_CHMAP_FLH
      | SoundIoChannelIdFrontCenterHigh \<Rightarrow> SND_CHMAP_FCH
      | SoundIoChannelIdFrontRightHigh \<Rightarrow> SND_CHMAP_FRH
      | SoundIoChannelIdTopCenter \<Rightarrow> SND_CHMAP_TC
      | SoundIoChannelIdTopFrontLeft \<Rightarrow> SND_CHMAP_TFL
      | SoundIoChannelIdTopFrontRight \<Rightarrow> SND_CHMAP_TFR
      | SoundIoChannelIdTopFrontCenter \<Rightarrow> SND_CHMAP_TFC
      | SoundIoChannelIdTopBackLeft \<Rightarrow> SND_CHMAP_TRL
      | SoundIoChannelIdTopBackRight \<Rightarrow> SND_CHMAP_TRR
      | SoundIoChannelIdTopBackCenter \<Rightarrow> SND_CHMAP_TRC
      | SoundIoChannelIdTopFrontLeftCenter \<Rightarrow> SND_CHMAP_TFLC
      | SoundIoChannelIdTopFrontRightCenter \<Rightarrow> SND_CHMAP_TFRC
      | SoundIoChannelIdTopSideLeft \<Rightarrow> SND_CHMAP_TSL
      | SoundIoChannelIdTopSideRight \<Rightarrow> SND_CHMAP_TSR
      | SoundIoChannelIdLeftLfe \<Rightarrow> SND_CHMAP_LLFE
      | SoundIoChannelIdRightLfe \<Rightarrow> SND_CHMAP_RLFE
      | SoundIoChannelIdBottomCenter \<Rightarrow> SND_CHMAP_BC
      | SoundIoChannelIdBottomLeftCenter \<Rightarrow> SND_CHMAP_BLC
      | SoundIoChannelIdBottomRightCenter \<Rightarrow> SND_CHMAP_BRC
      | _ \<Rightarrow> SND_CHMAP_UNKNOWN)"

definition to_alsa_fmt :: "SoundIoFormat \<Rightarrow> snd_pcm_format" where
  "to_alsa_fmt fmt =
     (case fmt of
        SoundIoFormatS8 \<Rightarrow> SND_PCM_FORMAT_S8
      | SoundIoFormatU8 \<Rightarrow> SND_PCM_FORMAT_U8
      | SoundIoFormatS16LE \<Rightarrow> SND_PCM_FORMAT_S16_LE
      | SoundIoFormatS16BE \<Rightarrow> SND_PCM_FORMAT_S16_BE
      | SoundIoFormatU16LE \<Rightarrow> SND_PCM_FORMAT_U16_LE
      | SoundIoFormatU16BE \<Rightarrow> SND_PCM_FORMAT_U16_BE
      | SoundIoFormatS24LE \<Rightarrow> SND_PCM_FORMAT_S24_LE
      | SoundIoFormatS24BE \<Rightarrow> SND_PCM_FORMAT_S24_BE
      | SoundIoFormatU24LE \<Rightarrow> SND_PCM_FORMAT_U24_LE
      | SoundIoFormatU24BE \<Rightarrow> SND_PCM_FORMAT_U24_BE
      | SoundIoFormatS32LE \<Rightarrow> SND_PCM_FORMAT_S32_LE
      | SoundIoFormatS32BE \<Rightarrow> SND_PCM_FORMAT_S32_BE
      | SoundIoFormatU32LE \<Rightarrow> SND_PCM_FORMAT_U32_LE
      | SoundIoFormatU32BE \<Rightarrow> SND_PCM_FORMAT_U32_BE
      | SoundIoFormatFloat32LE \<Rightarrow> SND_PCM_FORMAT_FLOAT_LE
      | SoundIoFormatFloat32BE \<Rightarrow> SND_PCM_FORMAT_FLOAT_BE
      | SoundIoFormatFloat64LE \<Rightarrow> SND_PCM_FORMAT_FLOAT64_LE
      | SoundIoFormatFloat64BE \<Rightarrow> SND_PCM_FORMAT_FLOAT64_BE
      | SoundIoFormatInvalid \<Rightarrow> SND_PCM_FORMAT_UNKNOWN)"

text \<open>The formats in the order of the probe.\<close>

definition probed_formats :: "SoundIoFormat list" where
  "probed_formats = [SoundIoFormatS8, SoundIoFormatU8, SoundIoFormatS16LE, SoundIoFormatS16BE, SoundIoFormatU16LE,
     SoundIoFormatU16BE, SoundIoFormatS24LE, SoundIoFormatS24BE, SoundIoFormatU24LE, SoundIoFormatU24BE,
     SoundIoFormatS32LE, SoundIoFormatS32BE, SoundIoFormatU32LE, SoundIoFormatU32BE, SoundIoFormatFloat32LE,
     SoundIoFormatFloat32BE, SoundIoFormatFloat64LE, SoundIoFormatFloat64BE]"

text \<open>A \<open>double\<close> that is not negative and below \<open>2^64\<close>, rounded up to a frame count.\<close>

definition dbl_to_uframes :: "real \<Rightarrow> 64 word option" where
  "dbl_to_uframes x = do {
     c_assert (0 \<le> dbl_trunc x \<and> dbl_trunc x < 2 ^ 64);
     Some (word_of_int (dbl_trunc x))
   }"

definition ceil_dbl_to_uframes :: "real \<Rightarrow> 64 word option" where
  "ceil_dbl_to_uframes x = do {
     t \<leftarrow> dbl_to_uframes x;
     let truncation = real_of_int (uint t);
     dbl_to_uframes (truncation + (if truncation < x then 1 else 0))
   }"

text \<open>The string is cut at the first \<open>c\<close>: what stays in front, and a pointer to the rest.\<close>

fun str_partition_on_char :: "string \<Rightarrow> char \<Rightarrow> string \<times> string option" where
  "str_partition_on_char [] c = ([], None)"
| "str_partition_on_char (x # xs) c =
     (if x = c then ([], Some xs)
      else let (front, rest) = str_partition_on_char xs c in (x # front, rest))"

definition str_has_prefix :: "string \<Rightarrow> string \<Rightarrow> bool" where
  "str_has_prefix big_str prefix' \<longleftrightarrow> take (length prefix') big_str = prefix'"

text \<open>
  The loop of \<open>copy_str\<close>, from a source that ends with a null character: what was written to
  the destination, and the result. It looks for the end only after the first character, so an
  empty source is read behind its end.
\<close>

fun copy_str :: "string \<Rightarrow> int \<Rightarrow> (string \<times> bool) option" where
  "copy_str src buf_len =
     (if buf_len - 1 \<le> 0 then Some ([], False)
      else case src of
        [] \<Rightarrow> None
      | [x] \<Rightarrow> Some ([x], True)
      | x # xs \<Rightarrow> do { (rest, ok) \<leftarrow> copy_str xs (buf_len - 1); Some (x # rest, ok) })"

text \<open>Decimal digits, as \<open>sprintf\<close> prints them.\<close>

fun digits :: "nat \<Rightarrow> string" where
  "digits n = (if n < 10 then [char_of (48 + n)] else digits (n div 10) @ [char_of (48 + n mod 10)])"

definition decimal :: "int \<Rightarrow> string" where
  "decimal i = (if i < 0 then CHR ''-'' # digits (nat (- i)) else digits (nat i))"

end
