(* ===== verification/Alsa.thy ===== *)
theory Alsa
  imports AlsaApi
begin

section \<open>src/alsa.c: devices and events\<close>

text \<open>
  The ALSA backend without its streams: probing a device, the scan of all devices, the thread
  that watches for devices that come and go, events, initialisation. The device thread is an
  operation per iteration of its loop. While the application waits on the condition the mutex
  is free and the thread runs; how many iterations it makes then is a parameter.
\<close>

abbreviation upd_sia :: "nat \<Rightarrow> (SoundIoAlsa \<Rightarrow> SoundIoAlsa) \<Rightarrow> 'z sio_scheme \<Rightarrow> 'z sio_scheme option" where
  "upd_sia si f \<equiv> upd_sio si (\<lambda>x. x\<lparr>alsa := f (alsa x)\<rparr>)"

abbreviation upd_osa :: "nat \<Rightarrow> (SoundIoOutStreamAlsa \<Rightarrow> SoundIoOutStreamAlsa) \<Rightarrow> 'z sio_scheme \<Rightarrow> 'z sio_scheme option" where
  "upd_osa p f \<equiv> upd_out p (\<lambda>x. x\<lparr>osa := f (osa x)\<rparr>)"

abbreviation upd_isa :: "nat \<Rightarrow> (SoundIoInStreamAlsa \<Rightarrow> SoundIoInStreamAlsa) \<Rightarrow> 'z sio_scheme \<Rightarrow> 'z sio_scheme option" where
  "upd_isa p f \<equiv> upd_in p (\<lambda>x. x\<lparr>isa := f (isa x)\<rparr>)"

text \<open>A call of the library in the middle of a sequence: a negative result is an error.\<close>

definition try_step :: "('j \<Rightarrow> int \<times> 'j) \<Rightarrow> (int \<Rightarrow> ('j, 'z) jsio_scheme \<Rightarrow> 'r option) \<Rightarrow>
    (('j, 'z) jsio_scheme \<Rightarrow> 'r option) \<Rightarrow> ('j, 'z) jsio_scheme \<Rightarrow> 'r option" where
  "try_step call fail next s = (let (err, s) = in_world call s in if err < 0 then fail err s else next s)"

subsection \<open>Waking the threads\<close>

definition wakeup_fd :: "('j, 'z) alsa_env \<Rightarrow> int \<Rightarrow> ('j, 'z) jsio_scheme \<Rightarrow> ('j, 'z) jsio_scheme option" where
  "wakeup_fd e fd s =
     (let ((amt, errno), s) = in_world (sys_write (asys e) fd) s
      in do {
        c_assert (amt = - 1 \<longrightarrow> errno \<notin> {EBADF, EIO, ENOSPC, EPERM, EPIPE});
        Some s
      })"

definition wakeup_device_poll :: "('j, 'z) alsa_env \<Rightarrow> nat \<Rightarrow> ('j, 'z) jsio_scheme \<Rightarrow> ('j, 'z) jsio_scheme option" where
  "wakeup_device_poll e si s = do { x \<leftarrow> sios s si; wakeup_fd e (snd (notify_pipe_fd (alsa x))) s }"

definition wakeup_outstream_poll :: "('j, 'z) alsa_env \<Rightarrow> nat \<Rightarrow> ('j, 'z) jsio_scheme \<Rightarrow> ('j, 'z) jsio_scheme option" where
  "wakeup_outstream_poll e p s = do { os \<leftarrow> outstreams s p; wakeup_fd e (snd (osa_poll_exit_pipe_fd (osa os))) s }"

subsection \<open>Probing a device\<close>

text \<open>The count of an \<open>unsigned\<close> is read as an \<open>int\<close>.\<close>

definition get_channel_layout :: "SoundIoChannelLayout \<Rightarrow> snd_pcm_chmap \<Rightarrow> SoundIoChannelLayout option" where
  "get_channel_layout dest chmap = do {
     let channel_count = soundio_int_min (int SOUNDIO_MAX_CHANNELS) (sint (chmap_channels chmap));
     dest \<leftarrow> for_each (\<lambda>i dest. do {
         pos \<leftarrow> arr_at (chmap_pos chmap) (int i);
         channels \<leftarrow> arr_set (cl_channels dest) (int i) (from_alsa_chmap_pos pos);
         Some (dest\<lparr>cl_channels := channels\<rparr>)
       }) [0..<nat channel_count] (dest\<lparr>cl_channel_count := channel_count\<rparr>);
     (found, dest) \<leftarrow> soundio_channel_layout_detect_builtin dest;
     Some dest
   }"

definition handle_channel_maps ::
  "('j, 'z) alsa_env \<Rightarrow> nat \<Rightarrow> (nat \<times> snd_pcm_chmap list) option \<Rightarrow> ('j, 'z) jsio_scheme \<Rightarrow>
   (SoundIoError \<times> ('j, 'z) jsio_scheme) option" where
  "handle_channel_maps e device maps s =
     (case maps of None \<Rightarrow> Some (SoundIoErrorNone, s)
      | Some (h, ms) \<Rightarrow> do {
          let layout_count = min (length ms) SOUNDIO_MAX_CHANNELS;
          let (b, s) = alloc s;
          case b of
            None \<Rightarrow> do {
              s \<leftarrow> upd_dev device (\<lambda>d. d\<lparr>layouts := LayoutsNull\<rparr>) s;
              Some (SoundIoErrorNoMem, the_world (snd_pcm_free_chmaps (actl e) h) s)
            }
          | Some b \<Rightarrow> do {
              ls \<leftarrow> for_each (\<lambda>i ls. do {
                  layout \<leftarrow> get_channel_layout (ls ! i) (ms ! i);
                  arr_set ls (int i) layout
                }) [0..<layout_count] (replicate layout_count layout_zero);
              s \<leftarrow> upd_dev device (\<lambda>d. d\<lparr>layouts := LayoutsBlock b ls, layout_count := int layout_count\<rparr>) s;
              Some (SoundIoErrorNone, the_world (snd_pcm_free_chmaps (actl e) h) s)
            }
        })"

definition test_fmt_mask :: "nat \<Rightarrow> snd_pcm_format set \<Rightarrow> SoundIoFormat \<Rightarrow> 'z sio_scheme \<Rightarrow> 'z sio_scheme option" where
  "test_fmt_mask device fmt_mask fmt s =
     (if to_alsa_fmt fmt \<in> fmt_mask then do {
        d \<leftarrow> devices s device;
        case formats d of
          FormatsBlock b cells \<Rightarrow> do {
            cells \<leftarrow> arr_set cells (format_count d) fmt;
            upd_dev device (\<lambda>d. d\<lparr>formats := FormatsBlock b cells, format_count := format_count d + 1\<rparr>) s
          }
        | _ \<Rightarrow> None
      }
      else Some s)"

fun try_access_types ::
  "('j, 'z) alsa_env \<Rightarrow> nat \<Rightarrow> snd_pcm_access list \<Rightarrow> ('j, 'z) jsio_scheme \<Rightarrow>
   snd_pcm_access option \<times> ('j, 'z) jsio_scheme" where
  "try_access_types e handle [] s = (None, s)"
| "try_access_types e handle (access # rest) s =
     (let (err, s) = in_world (hw_params_set_access (apar e) handle access) s
      in if err \<ge> 0 then (Some access, s) else try_access_types e handle rest s)"

definition set_access ::
  "('j, 'z) alsa_env \<Rightarrow> nat \<Rightarrow> ('j, 'z) jsio_scheme \<Rightarrow> (SoundIoError \<times> snd_pcm_access option) \<times> ('j, 'z) jsio_scheme" where
  "set_access e handle s =
     (let (access, s) = try_access_types e handle prioritized_access_types s
      in (if access = None then (SoundIoErrorOpeningDevice, None) else (SoundIoErrorNone, access), s))"

text \<open>The formats that the code offers to the device.\<close>

definition offered_formats :: "snd_pcm_format set" where
  "offered_formats = set (map to_alsa_fmt probed_formats)"

definition probe_formats ::
  "('j, 'z) alsa_env \<Rightarrow> nat \<Rightarrow> nat \<Rightarrow> ('j, 'z) jsio_scheme \<Rightarrow> (SoundIoError \<times> ('j, 'z) jsio_scheme) option" where
  "probe_formats e device handle s = do {
     d \<leftarrow> devices s device;
     if formats d \<noteq> FormatsNull then Some (SoundIoErrorNone, s)
     else do {
       let fmt_mask = hw_params_get_format_mask (apar e) handle (world s);
       let (b, s) = alloc s;
       case b of None \<Rightarrow> Some (SoundIoErrorNoMem, s)
       | Some b \<Rightarrow> do {
           s \<leftarrow> upd_dev device (\<lambda>d. d\<lparr>formats := FormatsBlock b (replicate 18 SoundIoFormatInvalid), format_count := 0\<rparr>) s;
           s \<leftarrow> for_each (test_fmt_mask device fmt_mask) probed_formats s;
           Some (SoundIoErrorNone, s)
         }
     }
   }"

text \<open>The result is the error and the least and the greatest number of channels, if they are known.\<close>

definition probe_limits ::
  "('j, 'z) alsa_env \<Rightarrow> nat \<Rightarrow> nat \<Rightarrow> ('j, 'z) jsio_scheme \<Rightarrow>
   (SoundIoError \<times> (int \<times> int) \<times> ('j, 'z) jsio_scheme) option" where
  "probe_limits e device handle s = do {
     let (err, channels_min) = hw_params_get_channels_min (apar e) handle (world s);
     if err < 0 then Some (SoundIoErrorOpeningDevice, (0, 0), s)
     else do {
       let ((err, channels_max), s) = in_world (hw_params_set_channels_last (apar e) handle) s;
       if err < 0 then Some (SoundIoErrorOpeningDevice, (0, 0), s)
       else do {
         let channels = (sint channels_min, sint channels_max);
         let (err, rate_min) = hw_params_get_rate_min (apar e) handle (world s);
         if err < 0 then Some (SoundIoErrorOpeningDevice, channels, s)
         else do {
           let ((err, rate_max), s) = in_world (hw_params_set_rate_last (apar e) handle) s;
           if err < 0 then Some (SoundIoErrorOpeningDevice, channels, s)
           else do {
             s \<leftarrow> upd_dev device (\<lambda>d. d\<lparr>sample_rate_count := 1, sample_rates := RatesPrealloc,
               prealloc_sample_rate_range := \<lparr>range_min = sint rate_min, range_max = sint rate_max\<rparr>\<rparr>) s;
             one_over_actual_rate \<leftarrow> dbl_div 1 (real_of_int (uint rate_max));
             let (err, min_frames) = hw_params_get_buffer_size_min (apar e) handle (world s);
             if err < 0 then Some (SoundIoErrorOpeningDevice, channels, s)
             else do {
               let (err, max_frames) = hw_params_get_buffer_size_max (apar e) handle (world s);
               if err < 0 then Some (SoundIoErrorOpeningDevice, channels, s)
               else do {
                 s \<leftarrow> upd_dev device (\<lambda>d. d\<lparr>software_latency_min := real_of_int (uint min_frames) * one_over_actual_rate,
                   software_latency_max := real_of_int (uint max_frames) * one_over_actual_rate\<rparr>) s;
                 Some (SoundIoErrorNone, channels, s)
               }
             }
           }
         }
       }
     }
   }"

definition probe_open_device ::
  "('j, 'z) alsa_env \<Rightarrow> nat \<Rightarrow> nat \<Rightarrow> bool \<Rightarrow> ('j, 'z) jsio_scheme \<Rightarrow>
   (SoundIoError \<times> (int \<times> int) \<times> ('j, 'z) jsio_scheme) option" where
  "probe_open_device e device handle resample =
     (let fail = (\<lambda>err s. Some (SoundIoErrorOpeningDevice, (0, 0), s))
      in try_step (hw_params_any (apar e) handle) fail
        (try_step (hw_params_set_rate_resample (apar e) handle resample) fail
          (\<lambda>s. let ((err, access), s) = set_access e handle s
            in if err \<noteq> SoundIoErrorNone then Some (err, (0, 0), s)
            else do {
              (err, channels, s) \<leftarrow> probe_limits e device handle s;
              if err \<noteq> SoundIoErrorNone then Some (err, channels, s)
              else
                let fail = (\<lambda>err s. Some (SoundIoErrorOpeningDevice, channels, s))
                in try_step (hw_params_set_buffer_size_first (apar e) handle) fail
                  (try_step (hw_params_set_format_mask (apar e) handle offered_formats) fail
                    (\<lambda>s. do { (err, s) \<leftarrow> probe_formats e device handle s; Some (err, channels, s) })) s
            })))"

text \<open>The built-in layouts with a possible number of channels, when the device has no maps.\<close>

definition guess_layouts ::
  "nat \<Rightarrow> int \<times> int \<Rightarrow> 'z sio_scheme \<Rightarrow> (SoundIoError \<times> 'z sio_scheme) option" where
  "guess_layouts device channels s = do {
     let fitting = filter (\<lambda>layout. fst channels \<le> cl_channel_count layout \<and> cl_channel_count layout \<le> snd channels)
       builtin_channel_layouts;
     let (b, s) = alloc s;
     s \<leftarrow> upd_dev device (\<lambda>d. d\<lparr>layout_count := int (length fitting),
       layouts := (case b of None \<Rightarrow> LayoutsNull | Some b \<Rightarrow> LayoutsBlock b fitting)\<rparr>) s;
     Some (if b = None then SoundIoErrorNoMem else SoundIoErrorNone, s)
   }"

text \<open>The map that the library returns is allocated, read and freed.\<close>

definition read_current_layout ::
  "('j, 'z) alsa_env \<Rightarrow> nat \<Rightarrow> nat \<Rightarrow> ('j, 'z) jsio_scheme \<Rightarrow> ('j, 'z) jsio_scheme option" where
  "read_current_layout e device handle s =
     (case snd_pcm_get_chmap (actl e) handle (world s) of None \<Rightarrow> Some s
      | Some chmap \<Rightarrow>
          let (b, s) = alloc s
          in case b of None \<Rightarrow> Some s
          | Some b \<Rightarrow> do {
              d \<leftarrow> devices s device;
              layout \<leftarrow> get_channel_layout (current_layout d) chmap;
              s \<leftarrow> upd_dev device (\<lambda>d. d\<lparr>current_layout := layout\<rparr>) s;
              free_blk (Some b) s
            })"

text \<open>\<open>err < 0\<close> never holds for the error codes of the library, so the second probe cannot fail.\<close>

definition probe_resampled ::
  "('j, 'z) alsa_env \<Rightarrow> nat \<Rightarrow> nat \<Rightarrow> ('j, 'z) jsio_scheme \<Rightarrow> (SoundIoError \<times> ('j, 'z) jsio_scheme) option" where
  "probe_resampled e device handle s = do {
     d \<leftarrow> devices s device;
     rate \<leftarrow> rate_cell d 0;
     s \<leftarrow> upd_dev device (\<lambda>d. if range_min rate = range_max rate then d\<lparr>sample_rate_current := range_min rate\<rparr> else d) s;
     s \<leftarrow> upd_dev device (\<lambda>d. if software_latency_min d = software_latency_max d
       then d\<lparr>software_latency_current := software_latency_min d\<rparr> else d) s;
     (err, channels, s) \<leftarrow> probe_open_device e device handle True s;
     Some (if SoundIoError_val err < 0 then SoundIoErrorOpeningDevice else SoundIoErrorNone, s)
   }"

definition probe_device ::
  "('j, 'z) alsa_env \<Rightarrow> nat \<Rightarrow> (nat \<times> snd_pcm_chmap list) option \<Rightarrow> ('j, 'z) jsio_scheme \<Rightarrow>
   (SoundIoError \<times> ('j, 'z) jsio_scheme) option" where
  "probe_device e device maps s = do {
     d \<leftarrow> devices s device;
     let ((err, handle), s) = in_world (snd_pcm_open (actl e) (map_option snd (dev_id d)) (aim_to_stream (aim d))) s;
     if err < 0 then do {
       (ignored, s) \<leftarrow> handle_channel_maps e device maps s;
       Some (SoundIoErrorOpeningDevice, s)
     }
     else do {
       let close = the_world (snd_pcm_close (actl e) handle);
       (err, channels, s) \<leftarrow> probe_open_device e device handle False s;
       if err \<noteq> SoundIoErrorNone then do {
         (ignored, s) \<leftarrow> handle_channel_maps e device maps s;
         Some (err, close s)
       }
       else do {
         let (maps, s) = (if maps = None then in_world (snd_pcm_query_chmaps (actl e) handle) s else (maps, s));
         (err, s) \<leftarrow> (if maps = None then guess_layouts device channels s else Some (SoundIoErrorNone, s));
         if err \<noteq> SoundIoErrorNone then Some (err, close s)
         else do {
           s \<leftarrow> read_current_layout e device handle s;
           (err, s) \<leftarrow> handle_channel_maps e device maps s;
           if err \<noteq> SoundIoErrorNone then Some (err, close s)
           else do {
             d \<leftarrow> devices s device;
             (err, s) \<leftarrow> (if is_raw d then Some (SoundIoErrorNone, s) else probe_resampled e device handle s);
             Some (err, close s)
           }
         }
       }
     }
   }"

end
