(* ===== verification/AlsaScan.thy ===== *)
theory AlsaScan
  imports Alsa
begin

section \<open>src/alsa.c: the scan, the device thread and the events\<close>

text \<open>
  \<open>refresh_devices\<close> in two parts, the names that the library hints at and the devices of the
  hardware, then the thread that watches for devices, the events and the initialisation. A
  loop that may not end is \<open>repeat_until\<close> of its body. The device thread is an operation per
  iteration of its loop; how many iterations it makes while the application waits with the
  mutex released is a parameter. A thread that has left its loop is not running.
\<close>

subsection \<open>The names that the library hints at\<close>

definition skipped_hint :: "string \<Rightarrow> bool" where
  "skipped_hint name \<longleftrightarrow> name = ''null'' \<or>
     list_ex (str_has_prefix name) [''front:'', ''surround21:'', ''surround40:'', ''surround41:'',
       ''surround50:'', ''surround51:'', ''surround71:'']"

text \<open>The string is copied for the caller; NULL when it is not there or there is no memory.\<close>

definition get_hint ::
  "('j, 'z) alsa_env \<Rightarrow> nat \<Rightarrow> string \<Rightarrow> ('j, 'z) jsio_scheme \<Rightarrow> cstring \<times> ('j, 'z) jsio_scheme" where
  "get_hint e hint key s =
     (case snd_device_name_get_hint (actl e) hint key (world s) of None \<Rightarrow> (None, s) | Some str \<Rightarrow> strdup str s)"

definition strstr :: "string \<Rightarrow> string \<Rightarrow> bool" where
  "strstr haystack needle \<longleftrightarrow> list_ex (\<lambda>i. str_has_prefix (drop i haystack) needle) [0..<Suc (length haystack)]"

text \<open>
  Whether the name plays and whether it records. The string \<open>io\<close> is freed on one path only.
\<close>

definition hint_direction ::
  "string option \<Rightarrow> string option \<Rightarrow> cstring \<Rightarrow> 'z mem_scheme \<Rightarrow> (bool \<times> bool \<times> 'z mem_scheme) option" where
  "hint_direction descr descr1 io s =
     (if descr = Some ''bcm2835 ALSA, bcm2835 ALSA'' \<and> descr1 = Some ''Direct sample snooping device''
      then Some (False, True, s)
      else if descr = Some ''bcm2835 ALSA, bcm2835 IEC958/HDMI'' \<and> descr1 = Some ''Direct sample snooping device''
      then Some (False, True, s)
      else case io of None \<Rightarrow> Some (True, True, s)
      | Some (b, str) \<Rightarrow> do {
          c_assert (str \<noteq> ''Input'' \<longrightarrow> str = ''Output'');
          s \<leftarrow> free_blk (Some b) s;
          Some (if str = ''Input'' then (False, True, s) else (True, False, s))
        })"

definition hint_stream_skipped :: "bool \<Rightarrow> bool \<Rightarrow> string option \<Rightarrow> snd_pcm_stream \<Rightarrow> bool" where
  "hint_stream_skipped is_playback is_capture descr1 stream =
     (case stream of SND_PCM_STREAM_PLAYBACK \<Rightarrow> \<not> is_playback
      | SND_PCM_STREAM_CAPTURE \<Rightarrow> \<not> is_capture \<or>
          (case descr1 of None \<Rightarrow> False | Some d \<Rightarrow> strstr d ''Output'' \<or> strstr d ''output''))"

definition stream_aim :: "snd_pcm_stream \<Rightarrow> SoundIoDeviceAim" where
  "stream_aim stream = (case stream of SND_PCM_STREAM_PLAYBACK \<Rightarrow> SoundIoDeviceAimOutput
     | SND_PCM_STREAM_CAPTURE \<Rightarrow> SoundIoDeviceAimInput)"

text \<open>The indices of the \<open>default\<close> and the \<open>sysdefault\<close> device of each direction; -1 is none.\<close>

record hint_defaults =
  default_output :: int
  sysdefault_output :: int
  default_input :: int
  sysdefault_input :: int

definition names_device :: "string \<Rightarrow> string \<Rightarrow> bool" where
  "names_device name kind \<longleftrightarrow> str_has_prefix name (kind @ '':'') \<or> name = kind"

definition note_default :: "string \<Rightarrow> SoundIoDeviceAim \<Rightarrow> int \<Rightarrow> hint_defaults \<Rightarrow> hint_defaults" where
  "note_default name a i h =
     (let is_default = names_device name ''default''; is_sysdefault = names_device name ''sysdefault''
      in case a of
           SoundIoDeviceAimOutput \<Rightarrow>
             h\<lparr>default_output := (if is_default then i else default_output h),
               sysdefault_output := (if is_sysdefault then i else sysdefault_output h)\<rparr>
         | SoundIoDeviceAimInput \<Rightarrow>
             h\<lparr>default_input := (if is_default then i else default_input h),
               sysdefault_input := (if is_sysdefault then i else sysdefault_input h)\<rparr>)"

text \<open>The first device of each direction is the default one until a better one is known.\<close>

definition aim_length :: "SoundIoDeviceAim \<Rightarrow> SoundIoDevicesInfo \<Rightarrow> int" where
  "aim_length a info = (case a of SoundIoDeviceAimOutput \<Rightarrow> l_length (output_devices info)
     | SoundIoDeviceAimInput \<Rightarrow> l_length (input_devices info))"

definition first_default :: "SoundIoDeviceAim \<Rightarrow> SoundIoDevicesInfo \<Rightarrow> SoundIoDevicesInfo" where
  "first_default a info =
     (case a of
        SoundIoDeviceAimOutput \<Rightarrow> (if default_output_index info = - 1
          then info\<lparr>default_output_index := l_length (output_devices info)\<rparr> else info)
      | SoundIoDeviceAimInput \<Rightarrow> (if default_input_index info = - 1
          then info\<lparr>default_input_index := l_length (input_devices info)\<rparr> else info))"

definition choose_defaults :: "hint_defaults \<Rightarrow> SoundIoDevicesInfo \<Rightarrow> SoundIoDevicesInfo" where
  "choose_defaults h info =
     (let info = (if default_input h \<ge> 0 then info\<lparr>default_input_index := default_input h\<rparr>
            else if sysdefault_input h \<ge> 0 then info\<lparr>default_input_index := sysdefault_input h\<rparr> else info)
      in if default_output h \<ge> 0 then info\<lparr>default_output_index := default_output h\<rparr>
         else if sysdefault_output h \<ge> 0 then info\<lparr>default_output_index := sysdefault_output h\<rparr> else info)"

text \<open>\<open>soundio_device_unref\<close> of the new device before the error is reported.\<close>

definition drop_device ::
  "nat \<Rightarrow> SoundIoError \<Rightarrow> 'h \<Rightarrow> ('j, 'z) jsio_scheme \<Rightarrow> (SoundIoError \<times> 'h \<times> ('j, 'z) jsio_scheme) option" where
  "drop_device p err h s = do { s \<leftarrow> soundio_device_unref (Some p) s; Some (err, h, s) }"

text \<open>One device for a name and a direction; \<open>q\<close> is the block of the lists under construction.\<close>

definition hint_device ::
  "('j, 'z) alsa_env \<Rightarrow> nat \<Rightarrow> nat \<Rightarrow> string \<Rightarrow> string option \<Rightarrow> string option \<Rightarrow> snd_pcm_stream \<Rightarrow> hint_defaults \<Rightarrow>
   ('j, 'z) jsio_scheme \<Rightarrow> (SoundIoError \<times> hint_defaults \<times> ('j, 'z) jsio_scheme) option" where
  "hint_device e si q name descr descr1 stream h s =
     (let (dev, s) = alloc s
      in case dev of None \<Rightarrow> Some (SoundIoErrorNoMem, h, s)
      | Some p \<Rightarrow> do {
          let (id, s) = strdup name s;
          let (nm, s) = (case descr of None \<Rightarrow> strdup name s
            | Some d \<Rightarrow> (case descr1 of None \<Rightarrow> strdup d s
                | Some d1 \<Rightarrow> let ((str, len), s) = soundio_alloc_sprintf (d @ '': '' @ d1) s in (str, s)));
          let s = s\<lparr>devices := (devices s)(p \<mapsto> device_zero\<lparr>ref_count := 1, dev_soundio := Some si, is_raw := False,
            dev_id := id, dev_name := nm\<rparr>)\<rparr>;
          if id = None \<or> nm = None then drop_device p SoundIoErrorNoMem h s
          else do {
            let a = stream_aim stream;
            s \<leftarrow> upd_dev p (\<lambda>d. d\<lparr>aim := a\<rparr>) s;
            info \<leftarrow> infos s q;
            let h = note_default name a (aim_length a info) h;
            s \<leftarrow> upd_info (Some q) (first_default a) s;
            (err, s) \<leftarrow> probe_device e p None s;
            s \<leftarrow> upd_dev p (\<lambda>d. d\<lparr>probe_error := err\<rparr>) s;
            (err, s) \<leftarrow> append_device a (Some q) p s;
            if err \<noteq> SoundIoErrorNone then drop_device p SoundIoErrorNoMem h s
            else Some (SoundIoErrorNone, h, s)
          }
        })"

fun hint_streams ::
  "('j, 'z) alsa_env \<Rightarrow> nat \<Rightarrow> nat \<Rightarrow> string \<Rightarrow> string option \<Rightarrow> string option \<Rightarrow> bool \<Rightarrow> bool \<Rightarrow> snd_pcm_stream list \<Rightarrow>
   hint_defaults \<Rightarrow> ('j, 'z) jsio_scheme \<Rightarrow> (SoundIoError \<times> hint_defaults \<times> ('j, 'z) jsio_scheme) option" where
  "hint_streams e si q name descr descr1 is_playback is_capture [] h s = Some (SoundIoErrorNone, h, s)"
| "hint_streams e si q name descr descr1 is_playback is_capture (stream # rest) h s =
     (if hint_stream_skipped is_playback is_capture descr1 stream
      then hint_streams e si q name descr descr1 is_playback is_capture rest h s
      else do {
        (err, h, s) \<leftarrow> hint_device e si q name descr descr1 stream h s;
        if err \<noteq> SoundIoErrorNone then Some (err, h, s)
        else hint_streams e si q name descr descr1 is_playback is_capture rest h s
      })"

text \<open>A name that cannot be copied is compared as a NULL pointer, which is undefined.\<close>

definition take_hint ::
  "('j, 'z) alsa_env \<Rightarrow> nat \<Rightarrow> nat \<Rightarrow> nat \<Rightarrow> hint_defaults \<Rightarrow> ('j, 'z) jsio_scheme \<Rightarrow>
   (SoundIoError \<times> hint_defaults \<times> ('j, 'z) jsio_scheme) option" where
  "take_hint e si q hint h s = do {
     let (nm, s) = get_hint e hint ''NAME'' s;
     (b, name) \<leftarrow> nm;
     if skipped_hint name then do { s \<leftarrow> free_blk (Some b) s; Some (SoundIoErrorNone, h, s) }
     else do {
       let (d, s) = get_hint e hint ''DESC'' s;
       let descr = map_option (\<lambda>(b, str). fst (str_partition_on_char str (CHR 0x0A))) d;
       let descr1 = Option.bind d (\<lambda>(b, str). snd (str_partition_on_char str (CHR 0x0A)));
       let (io, s) = get_hint e hint ''IOID'' s;
       (is_playback, is_capture, s) \<leftarrow> hint_direction descr descr1 io s;
       (err, h, s) \<leftarrow> hint_streams e si q name descr descr1 is_playback is_capture stream_types h s;
       s \<leftarrow> free_blk (Some b) s;
       s \<leftarrow> free_blk (str_blk d) s;
       Some (err, h, s)
     }
   }"

fun hint_loop ::
  "('j, 'z) alsa_env \<Rightarrow> nat \<Rightarrow> nat \<Rightarrow> nat list \<Rightarrow> hint_defaults \<Rightarrow> ('j, 'z) jsio_scheme \<Rightarrow>
   (SoundIoError \<times> hint_defaults \<times> ('j, 'z) jsio_scheme) option" where
  "hint_loop e si q [] h s = Some (SoundIoErrorNone, h, s)"
| "hint_loop e si q (hint # hints) h s = do {
     (err, h, s) \<leftarrow> take_hint e si q hint h s;
     if err \<noteq> SoundIoErrorNone then Some (err, h, s) else hint_loop e si q hints h s
   }"

subsection \<open>The devices of the hardware\<close>

text \<open>The cleanup of the error paths: the device, the control handle when it is closed there, the lists.\<close>

definition hw_give_up ::
  "('j, 'z) alsa_env \<Rightarrow> nat option \<Rightarrow> nat option \<Rightarrow> nat \<Rightarrow> SoundIoError \<Rightarrow> ('j, 'z) jsio_scheme \<Rightarrow>
   (SoundIoError \<times> ('j, 'z) jsio_scheme) option" where
  "hw_give_up e device ctl q err s = do {
     s \<leftarrow> soundio_device_unref device s;
     let s = (case ctl of None \<Rightarrow> s | Some c \<Rightarrow> the_world (snd_ctl_close (actl e) c) s);
     s \<leftarrow> soundio_destroy_devices_info (Some q) s;
     Some (err, s)
   }"

text \<open>When the device cannot be appended, the control handle stays open.\<close>

definition hw_device ::
  "('j, 'z) alsa_env \<Rightarrow> nat \<Rightarrow> nat \<Rightarrow> nat \<Rightarrow> int \<Rightarrow> int \<Rightarrow> string \<Rightarrow> string \<Rightarrow> snd_pcm_stream \<Rightarrow> ('j, 'z) jsio_scheme \<Rightarrow>
   (SoundIoError \<times> ('j, 'z) jsio_scheme) option" where
  "hw_device e si q ctl card_index device_index card_name device_name stream s =
     (let (dev, s) = alloc s
      in case dev of None \<Rightarrow> hw_give_up e None (Some ctl) q SoundIoErrorNoMem s
      | Some p \<Rightarrow> do {
          let ((id, id_len), s) = soundio_alloc_sprintf (''hw:'' @ decimal card_index @ '','' @ decimal device_index) s;
          let ((nm, nm_len), s) = soundio_alloc_sprintf (card_name @ '' '' @ device_name) s;
          let s = s\<lparr>devices := (devices s)(p \<mapsto> device_zero\<lparr>ref_count := 1, dev_soundio := Some si,
            dev_id := id, dev_name := nm, is_raw := True\<rparr>)\<rparr>;
          if id = None \<or> nm = None then hw_give_up e (Some p) (Some ctl) q SoundIoErrorNoMem s
          else do {
            let a = stream_aim stream;
            s \<leftarrow> upd_dev p (\<lambda>d. d\<lparr>aim := a\<rparr>) s;
            let (maps, s) = in_world (snd_pcm_query_chmaps_from_hw (actl e) card_index device_index stream) s;
            (err, s) \<leftarrow> probe_device e p maps s;
            s \<leftarrow> upd_dev p (\<lambda>d. d\<lparr>probe_error := err\<rparr>) s;
            (err, s) \<leftarrow> append_device a (Some q) p s;
            if err \<noteq> SoundIoErrorNone then hw_give_up e (Some p) None q SoundIoErrorNoMem s
            else Some (SoundIoErrorNone, s)
          }
        })"

fun hw_streams ::
  "('j, 'z) alsa_env \<Rightarrow> nat \<Rightarrow> nat \<Rightarrow> nat \<Rightarrow> int \<Rightarrow> int \<Rightarrow> string \<Rightarrow> snd_pcm_stream list \<Rightarrow> ('j, 'z) jsio_scheme \<Rightarrow>
   (SoundIoError \<times> ('j, 'z) jsio_scheme) option" where
  "hw_streams e si q ctl card_index device_index card_name [] s = Some (SoundIoErrorNone, s)"
| "hw_streams e si q ctl card_index device_index card_name (stream # rest) s =
     (let ((err, device_name), s) = in_world (snd_ctl_pcm_info (actl e) ctl device_index stream) s
      in if err = - ENOENT then hw_streams e si q ctl card_index device_index card_name rest s
         else if err < 0 then hw_give_up e None (Some ctl) q SoundIoErrorSystemResources s
         else do {
           (err, s) \<leftarrow> hw_device e si q ctl card_index device_index card_name device_name stream s;
           if err \<noteq> SoundIoErrorNone then Some (err, s)
           else hw_streams e si q ctl card_index device_index card_name rest s
         })"

text \<open>The loop over the devices of a card, from \<open>device_index\<close> on.\<close>

definition hw_device_step ::
  "('j, 'z) alsa_env \<Rightarrow> nat \<Rightarrow> nat \<Rightarrow> nat \<Rightarrow> int \<Rightarrow> string \<Rightarrow> int \<times> ('j, 'z) jsio_scheme \<Rightarrow>
   ((SoundIoError \<times> ('j, 'z) jsio_scheme) + (int \<times> ('j, 'z) jsio_scheme)) option" where
  "hw_device_step e si q ctl card_index card_name state =
     (let (device_index, s) = state;
          ((err, device_index), s) = in_world (snd_ctl_pcm_next_device (actl e) ctl device_index) s
      in if err < 0 then map_option Inl (hw_give_up e None (Some ctl) q SoundIoErrorSystemResources s)
         else if device_index < 0 then Some (Inl (SoundIoErrorNone, s))
         else do {
           (err, s) \<leftarrow> hw_streams e si q ctl card_index device_index card_name stream_types s;
           Some (if err \<noteq> SoundIoErrorNone then Inl (err, s) else Inr (device_index, s))
         })"

text \<open>The loop over the cards, from \<open>card_index\<close> on.\<close>

definition hw_card_step ::
  "('j, 'z) alsa_env \<Rightarrow> nat \<Rightarrow> nat \<Rightarrow> int \<times> ('j, 'z) jsio_scheme \<Rightarrow>
   ((SoundIoError \<times> ('j, 'z) jsio_scheme) + (int \<times> ('j, 'z) jsio_scheme)) option" where
  "hw_card_step e si q state =
     (let (card_index, s) = state
      in if card_index < 0 then Some (Inl (SoundIoErrorNone, s))
      else let ((err, ctl), s) = in_world (snd_ctl_open (actl e) (''hw:'' @ decimal card_index)) s
      in if err = - ENOENT then Some (Inl (SoundIoErrorNone, s))
      else if err < 0 then map_option Inl (hw_give_up e None None q SoundIoErrorOpeningDevice s)
      else let ((err, card_name), s) = in_world (snd_ctl_card_info (actl e) ctl) s
      in if err < 0 then map_option Inl (hw_give_up e None (Some ctl) q SoundIoErrorSystemResources s)
      else do {
        (err, s) \<leftarrow> repeat_until (hw_device_step e si q ctl card_index card_name) (- 1, s);
        if err \<noteq> SoundIoErrorNone then Some (Inl (err, s))
        else do {
          let s = the_world (snd_ctl_close (actl e) ctl) s;
          let ((err, card_index), s) = in_world (snd_card_next (actl e) card_index) s;
          if err < 0 then map_option Inl (hw_give_up e None None q SoundIoErrorSystemResources s)
          else Some (Inr (card_index, s))
        }
      })"

subsection \<open>The scan\<close>

text \<open>The new lists replace those that the application has not taken yet.\<close>

definition publish_devices_alsa :: "nat \<Rightarrow> nat \<Rightarrow> 'z sio_scheme \<Rightarrow> 'z sio_scheme option" where
  "publish_devices_alsa si q s = do {
     x \<leftarrow> sios s si;
     let sia = alsa x;
     s \<leftarrow> soundio_os_mutex_lock (alsa_mutex sia) s;
     s \<leftarrow> soundio_destroy_devices_info (alsa_ready_devices_info sia) s;
     s \<leftarrow> upd_sia si (\<lambda>a. a\<lparr>alsa_ready_devices_info := Some q, have_devices_flag := True\<rparr>) s;
     s \<leftarrow> soundio_os_cond_signal (alsa_cond sia) (alsa_mutex sia) s;
     soundio_os_mutex_unlock (alsa_mutex sia) (emit (EventsSignal si) s)
   }"

text \<open>When there is no first card to ask for, the lists are not freed.\<close>

definition refresh_devices_alsa ::
  "('j, 'z) alsa_env \<Rightarrow> nat \<Rightarrow> ('j, 'z) jsio_scheme \<Rightarrow> (SoundIoError \<times> ('j, 'z) jsio_scheme) option" where
  "refresh_devices_alsa e si s =
     try_step (snd_config_update_free_global (actl e)) (\<lambda>err s. Some (SoundIoErrorSystemResources, s))
       (try_step (snd_config_update (actl e)) (\<lambda>err s. Some (SoundIoErrorSystemResources, s))
         (\<lambda>s. let (q, s) = alloc s
           in case q of None \<Rightarrow> Some (SoundIoErrorNoMem, s)
           | Some q \<Rightarrow> do {
               let s = s\<lparr>infos := (infos s)(q \<mapsto> devices_info_zero\<lparr>default_output_index := - 1, default_input_index := - 1\<rparr>)\<rparr>;
               let ((err, hints), s) = in_world (snd_device_name_hint (actl e)) s;
               if err < 0 then do { s \<leftarrow> soundio_destroy_devices_info (Some q) s; Some (SoundIoErrorNoMem, s) }
               else do {
                 (err, h, s) \<leftarrow> hint_loop e si q hints
                   \<lparr>default_output = - 1, sysdefault_output = - 1, default_input = - 1, sysdefault_input = - 1\<rparr> s;
                 if err \<noteq> SoundIoErrorNone then do {
                   s \<leftarrow> soundio_destroy_devices_info (Some q) s;
                   Some (err, the_world (snd_device_name_free_hint (actl e)) s)
                 }
                 else do {
                   s \<leftarrow> upd_info (Some q) (choose_defaults h) s;
                   let s = the_world (snd_device_name_free_hint (actl e)) s;
                   let ((err, card_index), s) = in_world (snd_card_next (actl e) (- 1)) s;
                   if err < 0 then Some (SoundIoErrorSystemResources, s)
                   else do {
                     (err, s) \<leftarrow> repeat_until (hw_card_step e si q) (card_index, s);
                     if err \<noteq> SoundIoErrorNone then Some (err, s)
                     else do { s \<leftarrow> publish_devices_alsa si q s; Some (SoundIoErrorNone, s) }
                   }
                 }
               }
             })) s"

definition shutdown_backend :: "nat \<Rightarrow> SoundIoError \<Rightarrow> 'z sio_scheme \<Rightarrow> 'z sio_scheme option" where
  "shutdown_backend si err s = do {
     x \<leftarrow> sios s si;
     let sia = alsa x;
     s \<leftarrow> soundio_os_mutex_lock (alsa_mutex sia) s;
     s \<leftarrow> upd_sia si (\<lambda>a. a\<lparr>shutdown_err := err\<rparr>) s;
     s \<leftarrow> soundio_os_cond_signal (alsa_cond sia) (alsa_mutex sia) s;
     soundio_os_mutex_unlock (alsa_mutex sia) (emit (EventsSignal si) s)
   }"

end
