(* ===== verification/AlsaThread.thy ===== *)
theory AlsaThread
  imports AlsaScan
begin

section \<open>src/alsa.c: the device thread, events and initialisation\<close>

text \<open>
  The thread that watches the directory of the sound devices, an operation per iteration of
  its loop; what the application calls to take the new lists; creating and destroying the
  backend. The mutex is free while the application waits, and the thread runs then.
\<close>

subsection \<open>The files that were created\<close>

text \<open>An error number that a \<open>read\<close> of the code never gets.\<close>

definition read_checked :: "int \<Rightarrow> int \<Rightarrow> unit option" where
  "read_checked len errno = c_assert (len = - 1 \<longrightarrow> errno \<notin> {EBADF, EFAULT, EINVAL, EIO, EISDIR})"

definition control_event :: "inotify_event \<Rightarrow> bool" where
  "control_event event \<longleftrightarrow>
     (IN_CLOSE_WRITE \<in> ev_mask event \<or> IN_DELETE \<in> ev_mask event \<or> IN_CREATE \<in> ev_mask event) \<and>
     IN_ISDIR \<notin> ev_mask event \<and> ev_len event \<ge> 8 \<and> take 8 (ev_name event) = ''controlC''"

text \<open>A new file is pending until it is closed; a name that is too long is forgotten again.\<close>

definition add_pending ::
  "nat \<Rightarrow> string \<Rightarrow> 'z sio_scheme \<Rightarrow> (SoundIoError \<times> 'z sio_scheme) option" where
  "add_pending si name s = do {
     x \<leftarrow> sios s si;
     (err, l, s) \<leftarrow> list_add_one (pending_files (alsa x)) s;
     if err \<noteq> SoundIoErrorNone then do { s \<leftarrow> upd_sia si (\<lambda>a. a\<lparr>pending_files := l\<rparr>) s; Some (err, s) }
     else do {
       i \<leftarrow> list_last_ptr l;
       (written, ok) \<leftarrow> copy_str name 16;
       l \<leftarrow> list_store l i written;
       l \<leftarrow> (if ok then Some l else map_option snd (list_pop l));
       s \<leftarrow> upd_sia si (\<lambda>a. a\<lparr>pending_files := l\<rparr>) s;
       Some (SoundIoErrorNone, s)
     }
   }"

text \<open>The file is no longer pending; the result says whether it was the last one.\<close>

definition close_pending :: "nat \<Rightarrow> string \<Rightarrow> 'z sio_scheme \<Rightarrow> (bool \<times> 'z sio_scheme) option" where
  "close_pending si name s = do {
     x \<leftarrow> sios s si;
     let l = pending_files (alsa x);
     found \<leftarrow> find_r (\<lambda>i. do { file \<leftarrow> list_val_at l (int i); Some (file = name) }) [0..<nat (l_length l)];
     case found of None \<Rightarrow> Some (False, s)
     | Some i \<Rightarrow> do {
         (file, l) \<leftarrow> list_swap_remove l (int i);
         s \<leftarrow> upd_sia si (\<lambda>a. a\<lparr>pending_files := l\<rparr>) s;
         Some (l_length l = 0, s)
       }
   }"

text \<open>One event: the thread has returned (\<open>Inl\<close>), or whether to scan, and the state.\<close>

definition handle_event ::
  "nat \<Rightarrow> inotify_event \<Rightarrow> bool \<Rightarrow> ('j, 'z) jsio_scheme \<Rightarrow>
   (('j, 'z) jsio_scheme + (bool \<times> ('j, 'z) jsio_scheme)) option" where
  "handle_event si event got s =
     (if \<not> control_event event then Some (Inr (got, s))
      else if IN_CREATE \<in> ev_mask event then do {
        (err, s) \<leftarrow> add_pending si (ev_name event) s;
        if err \<noteq> SoundIoErrorNone then map_option Inl (shutdown_backend si SoundIoErrorNoMem s)
        else Some (Inr (got, s))
      }
      else do {
        x \<leftarrow> sios s si;
        if l_length (pending_files (alsa x)) > 0 then
          if IN_CLOSE_WRITE \<notin> ev_mask event then Some (Inr (got, s))
          else do { (last, s) \<leftarrow> close_pending si (ev_name event) s; Some (Inr (got \<or> last, s)) }
        else Some (Inr (got \<or> IN_DELETE \<in> ev_mask event, s))
      })"

fun handle_events ::
  "nat \<Rightarrow> inotify_event list \<Rightarrow> bool \<Rightarrow> ('j, 'z) jsio_scheme \<Rightarrow>
   (('j, 'z) jsio_scheme + (bool \<times> ('j, 'z) jsio_scheme)) option" where
  "handle_events si [] got s = Some (Inr (got, s))"
| "handle_events si (event # events) got s =
     Option.bind (handle_event si event got s)
       (\<lambda>r. case r of Inl s \<Rightarrow> Some (Inl s) | Inr (got, s) \<Rightarrow> handle_events si events got s)"

text \<open>The loop that reads the notifications until there are no more.\<close>

definition read_events_step ::
  "('j, 'z) alsa_env \<Rightarrow> nat \<Rightarrow> int \<Rightarrow> bool \<times> ('j, 'z) jsio_scheme \<Rightarrow>
   ((('j, 'z) jsio_scheme + (bool \<times> ('j, 'z) jsio_scheme)) + (bool \<times> ('j, 'z) jsio_scheme)) option" where
  "read_events_step e si fd state =
     (let (got, s) = state; ((len, errno, events), s) = in_world (sys_read_events (asys e) fd) s
      in do {
        read_checked len errno;
        if len \<le> 0 then Some (Inl (Inr (got, s)))
        else do {
          r \<leftarrow> handle_events si events got s;
          Some (case r of Inl s \<Rightarrow> Inl (Inl s) | Inr state \<Rightarrow> Inr state)
        }
      })"

definition drain_pipe_step ::
  "('j, 'z) alsa_env \<Rightarrow> int \<Rightarrow> ('j, 'z) jsio_scheme \<Rightarrow> (('j, 'z) jsio_scheme + ('j, 'z) jsio_scheme) option" where
  "drain_pipe_step e fd s =
     (let ((len, errno), s) = in_world (sys_read_pipe (asys e) fd) s
      in do {
        read_checked len errno;
        Some (if len \<le> 0 then Inl s else Inr s)
      })"

subsection \<open>The thread\<close>

text \<open>The end of the body: a scan when one is due. The result says whether the thread goes on.\<close>

definition rescan ::
  "('j, 'z) alsa_env \<Rightarrow> nat \<Rightarrow> bool \<Rightarrow> ('j, 'z) jsio_scheme \<Rightarrow> (bool \<times> ('j, 'z) jsio_scheme) option" where
  "rescan e si got s =
     (if got then do {
        (err, s) \<leftarrow> refresh_devices_alsa e si s;
        if err \<noteq> SoundIoErrorNone then do { s \<leftarrow> shutdown_backend si err s; Some (False, s) }
        else Some (True, s)
      }
      else Some (True, s))"

text \<open>
  One iteration of \<open>device_thread_run\<close>; the result says whether the thread goes on. The flag
  is set again by the test; it was clear when the backend is being destroyed.
\<close>

definition device_thread_iteration ::
  "('j, 'z) alsa_env \<Rightarrow> nat \<Rightarrow> ('j, 'z) jsio_scheme \<Rightarrow> (bool \<times> ('j, 'z) jsio_scheme) option" where
  "device_thread_iteration e si s = do {
     x \<leftarrow> sios s si;
     let notify = notify_fd (alsa x);
     let pipe = fst (notify_pipe_fd (alsa x));
     let ((poll_num, errno, notified, woken), s) = in_world (sys_poll_devices (asys e) notify pipe) s;
     s \<leftarrow> upd_sia si (\<lambda>a. a\<lparr>alsa_abort_flag := True\<rparr>) s;
     if \<not> alsa_abort_flag (alsa x) then Some (False, s)
     else if poll_num = - 1 then
       if errno = EINTR then Some (True, s)
       else do {
         c_assert (errno = ENOMEM);
         s \<leftarrow> shutdown_backend si SoundIoErrorSystemResources s;
         Some (False, s)
       }
     else if poll_num \<le> 0 then Some (True, s)
     else do {
       r \<leftarrow> (if notified then repeat_until (read_events_step e si notify) (False, s) else Some (Inr (False, s)));
       case r of Inl s \<Rightarrow> Some (False, s)
       | Inr (got, s) \<Rightarrow> do {
           s \<leftarrow> (if woken then repeat_until (drain_pipe_step e pipe) s else Some s);
           rescan e si (got \<or> woken) s
         }
     }
   }"

text \<open>The thread does nothing once it has left its loop.\<close>

definition device_thread_step ::
  "('j, 'z) alsa_env \<Rightarrow> nat \<Rightarrow> ('j, 'z) jsio_scheme \<Rightarrow> ('j, 'z) jsio_scheme option" where
  "device_thread_step e si s = do {
     x \<leftarrow> sios s si;
     t \<leftarrow> alsa_thread (alsa x);
     thr \<leftarrow> threads s t;
     if \<not> thread_running thr then Some s
     else do {
       (goes_on, s) \<leftarrow> device_thread_iteration e si s;
       thr \<leftarrow> threads s t;
       Some (if goes_on then s else s\<lparr>threads := (threads s)(t \<mapsto> thr\<lparr>thread_running := False\<rparr>)\<rparr>)
     }
   }"

subsection \<open>Events\<close>

text \<open>The loop that waits for devices or for the end of the backend; \<open>others\<close> runs while it waits.\<close>

definition alsa_wait_step ::
  "(('j, 'z) jsio_scheme \<Rightarrow> ('j, 'z) jsio_scheme option) \<Rightarrow> nat \<Rightarrow> bool \<times> ('j, 'z) jsio_scheme \<Rightarrow>
   (('j, 'z) jsio_scheme + (bool \<times> ('j, 'z) jsio_scheme)) option" where
  "alsa_wait_step others si state =
     (let (wait, s) = state
      in do {
        x \<leftarrow> sios s si;
        if wait \<or> \<not> have_devices_flag (alsa x) \<and> shutdown_err (alsa x) = SoundIoErrorNone then do {
          s \<leftarrow> released_wait others (alsa_cond (alsa x)) (alsa_mutex (alsa x)) s;
          Some (Inr (False, s))
        }
        else Some (Inl s)
      })"

definition my_flush_events_alsa ::
  "(('j, 'z) jsio_scheme \<Rightarrow> ('j, 'z) jsio_scheme option) \<Rightarrow> nat \<Rightarrow> bool \<Rightarrow> ('j, 'z) jsio_scheme \<Rightarrow>
   ('j, 'z) jsio_scheme option" where
  "my_flush_events_alsa others si wait s = do {
     x \<leftarrow> sios s si;
     s \<leftarrow> soundio_os_mutex_lock (alsa_mutex (alsa x)) s;
     s \<leftarrow> repeat_until (alsa_wait_step others si) (wait, s);
     x \<leftarrow> sios s si;
     let sia = alsa x;
     let cb_shutdown = (shutdown_err sia \<noteq> SoundIoErrorNone \<and> \<not> alsa_emitted_shutdown_cb sia);
     let change = (\<not> cb_shutdown \<and> alsa_ready_devices_info sia \<noteq> None);
     let old_devices_info = (if change then safe_devices_info x else None);
     s \<leftarrow> (if cb_shutdown then upd_sia si (\<lambda>a. a\<lparr>alsa_emitted_shutdown_cb := True\<rparr>) s
       else if change then upd_sio si (\<lambda>x. x\<lparr>safe_devices_info := alsa_ready_devices_info sia,
         alsa := (alsa x)\<lparr>alsa_ready_devices_info := None\<rparr>\<rparr>) s
       else Some s);
     s \<leftarrow> soundio_os_mutex_unlock (alsa_mutex sia) s;
     s \<leftarrow> (if cb_shutdown then on_backend_disconnect si (shutdown_err sia) s
       else if change then Some (emit (DevicesChange si) s)
       else Some s);
     soundio_destroy_devices_info old_devices_info s
   }"

definition flush_events_alsa ::
  "(('j, 'z) jsio_scheme \<Rightarrow> ('j, 'z) jsio_scheme option) \<Rightarrow> nat \<Rightarrow> ('j, 'z) jsio_scheme \<Rightarrow> ('j, 'z) jsio_scheme option" where
  "flush_events_alsa others si s = my_flush_events_alsa others si False s"

definition wait_events_alsa ::
  "(('j, 'z) jsio_scheme \<Rightarrow> ('j, 'z) jsio_scheme option) \<Rightarrow> nat \<Rightarrow> ('j, 'z) jsio_scheme \<Rightarrow> ('j, 'z) jsio_scheme option" where
  "wait_events_alsa others si s = do {
     s \<leftarrow> my_flush_events_alsa others si False s;
     my_flush_events_alsa others si True s
   }"

definition wakeup_alsa :: "nat \<Rightarrow> 'z sio_scheme \<Rightarrow> 'z sio_scheme option" where
  "wakeup_alsa si s = do {
     x \<leftarrow> sios s si;
     s \<leftarrow> soundio_os_mutex_lock (alsa_mutex (alsa x)) s;
     s \<leftarrow> soundio_os_cond_signal (alsa_cond (alsa x)) (alsa_mutex (alsa x)) s;
     soundio_os_mutex_unlock (alsa_mutex (alsa x)) s
   }"

definition force_device_scan_alsa :: "('j, 'z) alsa_env \<Rightarrow> nat \<Rightarrow> ('j, 'z) jsio_scheme \<Rightarrow> ('j, 'z) jsio_scheme option" where
  "force_device_scan_alsa e si s = wakeup_device_poll e si s"

subsection \<open>Creating and destroying\<close>

definition destroy_alsa :: "('j, 'z) alsa_env \<Rightarrow> nat \<Rightarrow> ('j, 'z) jsio_scheme \<Rightarrow> ('j, 'z) jsio_scheme option" where
  "destroy_alsa e si s = do {
     x \<leftarrow> sios s si;
     s \<leftarrow> (if alsa_thread (alsa x) \<noteq> None then do {
         s \<leftarrow> upd_sia si (\<lambda>a. a\<lparr>alsa_abort_flag := False\<rparr>) s;
         s \<leftarrow> wakeup_device_poll e si s;
         soundio_os_thread_destroy (alsa_thread (alsa x)) s
       } else Some s);
     x \<leftarrow> sios s si;
     let sia = alsa x;
     s \<leftarrow> list_deinit (pending_files sia) s;
     s \<leftarrow> (if alsa_cond sia \<noteq> None then soundio_os_cond_destroy (alsa_cond sia) s else Some s);
     s \<leftarrow> (if alsa_mutex sia \<noteq> None then soundio_os_mutex_destroy (alsa_mutex sia) s else Some s);
     s \<leftarrow> soundio_destroy_devices_info (alsa_ready_devices_info sia) s;
     let s = the_world (sys_close (asys e) (fst (notify_pipe_fd sia))) s;
     let s = the_world (sys_close (asys e) (snd (notify_pipe_fd sia))) s;
     Some (the_world (sys_close (asys e) (notify_fd sia)) s)
   }"

definition alsa_init_failed ::
  "('j, 'z) alsa_env \<Rightarrow> nat \<Rightarrow> SoundIoError \<Rightarrow> ('j, 'z) jsio_scheme \<Rightarrow> (SoundIoError \<times> ('j, 'z) jsio_scheme) option" where
  "alsa_init_failed e si err s = do { s \<leftarrow> destroy_alsa e si s; Some (err, s) }"

definition alsa_vtable :: "vfn \<Rightarrow> SoundIoBackend option" where
  "alsa_vtable f = (if f = V_outstream_set_volume then None else Some SoundIoBackendAlsa)"

text \<open>From the notification on: the watch, the pipe, the thread, the table.\<close>

definition alsa_init_watch ::
  "('j, 'z) alsa_env \<Rightarrow> nat \<Rightarrow> int \<Rightarrow> ('j, 'z) jsio_scheme \<Rightarrow> (SoundIoError \<times> ('j, 'z) jsio_scheme) option" where
  "alsa_init_watch e si fd s = do {
     let ((wd, errno), s) = in_world (sys_inotify_add_watch (asys e) fd) s;
     s \<leftarrow> upd_sia si (\<lambda>a. a\<lparr>notify_wd := wd\<rparr>) s;
     if wd = - 1 then do {
       c_assert (errno \<notin> {EACCES, EBADF, EFAULT, EINVAL, ENAMETOOLONG});
       alsa_init_failed e si (if errno = ENOSPC then SoundIoErrorSystemResources
         else if errno = ENOMEM then SoundIoErrorNoMem else SoundIoErrorInitAudioBackend) s
     }
     else do {
       let ((r, errno, fd0, fd1), s) = in_world (sys_pipe2 (asys e)) s;
       if r \<noteq> 0 then do {
         c_assert (errno = EMFILE \<or> errno = ENFILE);
         Some (SoundIoErrorSystemResources, s)
       }
       else do {
         s \<leftarrow> upd_sia si (\<lambda>a. a\<lparr>notify_pipe_fd := (fd0, fd1)\<rparr>) s;
         s \<leftarrow> wakeup_device_poll e si s;
         (err, thr, s) \<leftarrow> soundio_os_thread_create device_thread_run False s;
         s \<leftarrow> upd_sia si (\<lambda>a. a\<lparr>alsa_thread := thr\<rparr>) s;
         if err \<noteq> SoundIoErrorNone then alsa_init_failed e si err s
         else do {
           s \<leftarrow> upd_sio si (\<lambda>x. x\<lparr>vtable := (\<lambda>f. if f = V_outstream_set_volume then vtable x f else alsa_vtable f)\<rparr>) s;
           Some (SoundIoErrorNone, s)
         }
       }
     }
   }"

text \<open>The descriptors of the pipe are still zero when an early step fails, and \<open>destroy_alsa\<close> closes them.\<close>

definition soundio_alsa_init ::
  "('j, 'z) alsa_env \<Rightarrow> nat \<Rightarrow> ('j, 'z) jsio_scheme \<Rightarrow> (SoundIoError \<times> ('j, 'z) jsio_scheme) option" where
  "soundio_alsa_init e si s = do {
     s \<leftarrow> upd_sia si (\<lambda>a. a\<lparr>notify_fd := - 1, notify_wd := - 1, alsa_abort_flag := True\<rparr>) s;
     (m, s) \<leftarrow> soundio_os_mutex_create s;
     s \<leftarrow> upd_sia si (\<lambda>a. a\<lparr>alsa_mutex := m\<rparr>) s;
     if m = None then alsa_init_failed e si SoundIoErrorNoMem s
     else do {
       (c, s) \<leftarrow> soundio_os_cond_create s;
       s \<leftarrow> upd_sia si (\<lambda>a. a\<lparr>alsa_cond := c\<rparr>) s;
       if c = None then alsa_init_failed e si SoundIoErrorNoMem s
       else do {
         let ((fd, errno), s) = in_world (sys_inotify_init (asys e)) s;
         s \<leftarrow> upd_sia si (\<lambda>a. a\<lparr>notify_fd := fd\<rparr>) s;
         if fd = - 1 then do {
           c_assert (errno \<noteq> EINVAL);
           c_assert (errno \<notin> {EMFILE, ENFILE} \<longrightarrow> errno = ENOMEM);
           alsa_init_failed e si (if errno \<in> {EMFILE, ENFILE} then SoundIoErrorSystemResources else SoundIoErrorNoMem) s
         }
         else alsa_init_watch e si fd s
       }
     }
   }"

end
