(* ===== verification/AlsaStreams.thy ===== *)
theory AlsaStreams
  imports AlsaThread
begin

section \<open>src/alsa.c: streams\<close>

text \<open>
  Opening, starting, transferring and pausing, and the threads that ask the application for
  data, an operation per iteration of their loop; the result of an iteration says whether the
  thread goes on. \<open>others\<close> is what other threads do while one waits in \<open>poll\<close>. An address
  is a number; \<open>block_address\<close> says where the allocator put a block.
\<close>

subsection \<open>Destroying a stream\<close>

definition outstream_destroy_alsa :: "('j, 'z) alsa_env \<Rightarrow> nat \<Rightarrow> ('j, 'z) jsio_scheme \<Rightarrow> ('j, 'z) jsio_scheme option" where
  "outstream_destroy_alsa e p s = do {
     os \<leftarrow> outstreams s p;
     let oa = osa os;
     s \<leftarrow> (if osa_thread oa \<noteq> None then do {
         s \<leftarrow> upd_osa p (\<lambda>a. a\<lparr>osa_thread_exit_flag := False\<rparr>) s;
         s \<leftarrow> wakeup_outstream_poll e p s;
         s \<leftarrow> soundio_os_thread_destroy (osa_thread oa) s;
         upd_osa p (\<lambda>a. a\<lparr>osa_thread := None\<rparr>) s
       } else Some s);
     let s = (case osa_handle oa of None \<Rightarrow> s | Some h \<Rightarrow> the_world (snd_pcm_close (actl e) h) s);
     s \<leftarrow> free_blk (osa_poll_fds oa) s;
     s \<leftarrow> free_blk (map_option fst (osa_chmap oa)) s;
     s \<leftarrow> free_blk (osa_sample_buffer oa) s;
     upd_osa p (\<lambda>a. a\<lparr>osa_handle := None, osa_poll_fds := None, osa_chmap := None, osa_sample_buffer := None\<rparr>) s
   }"

definition instream_destroy_alsa :: "('j, 'z) alsa_env \<Rightarrow> nat \<Rightarrow> ('j, 'z) jsio_scheme \<Rightarrow> ('j, 'z) jsio_scheme option" where
  "instream_destroy_alsa e p s = do {
     is \<leftarrow> instreams s p;
     let i = isa is;
     s \<leftarrow> (if isa_thread i \<noteq> None then do {
         s \<leftarrow> upd_isa p (\<lambda>i. i\<lparr>isa_thread_exit_flag := False\<rparr>) s;
         s \<leftarrow> soundio_os_thread_destroy (isa_thread i) s;
         upd_isa p (\<lambda>i. i\<lparr>isa_thread := None\<rparr>) s
       } else Some s);
     let s = (case isa_handle i of None \<Rightarrow> s | Some h \<Rightarrow> the_world (snd_pcm_close (actl e) h) s);
     s \<leftarrow> free_blk (isa_poll_fds i) s;
     s \<leftarrow> free_blk (map_option fst (isa_chmap i)) s;
     s \<leftarrow> free_blk (isa_sample_buffer i) s;
     upd_isa p (\<lambda>i. i\<lparr>isa_handle := None, isa_poll_fds := None, isa_chmap := None, isa_sample_buffer := None\<rparr>) s
   }"

subsection \<open>Recovery\<close>

definition resume_step ::
  "('j, 'z) alsa_env \<Rightarrow> nat \<Rightarrow> ('j, 'z) jsio_scheme \<Rightarrow> ((int \<times> ('j, 'z) jsio_scheme) + ('j, 'z) jsio_scheme) option" where
  "resume_step e handle s =
     (let (err, s) = in_world (snd_pcm_resume (apcm e) handle) s
      in Some (if err = - EAGAIN then Inr (the_world (sys_sleep_1ms (asys e)) s) else Inl (err, s)))"

text \<open>\<open>note\<close> tells the application of the underflow or overflow.\<close>

definition xrun_recovery ::
  "('j, 'z) alsa_env \<Rightarrow> nat \<Rightarrow> event \<Rightarrow> int \<Rightarrow> ('j, 'z) jsio_scheme \<Rightarrow> (int \<times> ('j, 'z) jsio_scheme) option" where
  "xrun_recovery e handle note err s =
     (if err = - EPIPE then
        let (err, s) = in_world (snd_pcm_prepare (apcm e) handle) s
        in Some (err, if err \<ge> 0 then emit note s else s)
      else if err = - ESTRPIPE then do {
        (err, s) \<leftarrow> repeat_until (resume_step e handle) s;
        let (err, s) = (if err < 0 then in_world (snd_pcm_prepare (apcm e) handle) s else (err, s));
        Some (err, if err \<ge> 0 then emit note s else s)
      }
      else Some (err, s))"

definition outstream_xrun_recovery ::
  "('j, 'z) alsa_env \<Rightarrow> nat \<Rightarrow> int \<Rightarrow> ('j, 'z) jsio_scheme \<Rightarrow> (int \<times> ('j, 'z) jsio_scheme) option" where
  "outstream_xrun_recovery e p err s = do {
     os \<leftarrow> outstreams s p;
     handle \<leftarrow> osa_handle (osa os);
     xrun_recovery e handle (UnderflowCb p) err s
   }"

definition instream_xrun_recovery ::
  "('j, 'z) alsa_env \<Rightarrow> nat \<Rightarrow> int \<Rightarrow> ('j, 'z) jsio_scheme \<Rightarrow> (int \<times> ('j, 'z) jsio_scheme) option" where
  "instream_xrun_recovery e p err s = do {
     is \<leftarrow> instreams s p;
     handle \<leftarrow> isa_handle (isa is);
     xrun_recovery e handle (OverflowCb p) err s
   }"

subsection \<open>Waiting for the device\<close>

definition poll_bad :: "poll_event set \<Rightarrow> bool" where
  "poll_bad revents \<longleftrightarrow> POLLERR \<in> revents \<or> POLLNVAL \<in> revents \<or> POLLHUP \<in> revents"

definition outstream_poll_step ::
  "('j, 'z) alsa_env \<Rightarrow> (('j, 'z) jsio_scheme \<Rightarrow> ('j, 'z) jsio_scheme option) \<Rightarrow> nat \<Rightarrow> ('j, 'z) jsio_scheme \<Rightarrow>
   ((SoundIoError \<times> ('j, 'z) jsio_scheme) + ('j, 'z) jsio_scheme) option" where
  "outstream_poll_step e others p s = do {
     os \<leftarrow> outstreams s p;
     let oa = osa os;
     fds \<leftarrow> osa_poll_fds oa;
     handle \<leftarrow> osa_handle oa;
     let (err, s) = in_world (sys_poll_stream (asys e) fds (osa_poll_fd_count_with_extra oa)) s;
     s \<leftarrow> others s;
     if err < 0 then Some (Inl (SoundIoErrorStreaming, s))
     else do {
       os \<leftarrow> outstreams s p;
       s \<leftarrow> upd_osa p (\<lambda>a. a\<lparr>osa_thread_exit_flag := True\<rparr>) s;
       if \<not> osa_thread_exit_flag (osa os) then Some (Inl (SoundIoErrorInterrupted, s))
       else do {
         let ((err, revents), s) = in_world (snd_pcm_revents (apcm e) handle (osa_poll_fd_count oa)) s;
         Some (if err < 0 then Inl (SoundIoErrorStreaming, s)
           else if poll_bad revents \<or> POLLOUT \<in> revents then Inl (SoundIoErrorNone, s)
           else Inr s)
       }
     }
   }"

definition outstream_wait_for_poll ::
  "('j, 'z) alsa_env \<Rightarrow> (('j, 'z) jsio_scheme \<Rightarrow> ('j, 'z) jsio_scheme option) \<Rightarrow> nat \<Rightarrow> ('j, 'z) jsio_scheme \<Rightarrow>
   (SoundIoError \<times> ('j, 'z) jsio_scheme) option" where
  "outstream_wait_for_poll e others p s = repeat_until (outstream_poll_step e others p) s"

definition instream_poll_step ::
  "('j, 'z) alsa_env \<Rightarrow> (('j, 'z) jsio_scheme \<Rightarrow> ('j, 'z) jsio_scheme option) \<Rightarrow> nat \<Rightarrow> ('j, 'z) jsio_scheme \<Rightarrow>
   ((int \<times> ('j, 'z) jsio_scheme) + ('j, 'z) jsio_scheme) option" where
  "instream_poll_step e others p s = do {
     is \<leftarrow> instreams s p;
     let i = isa is;
     fds \<leftarrow> isa_poll_fds i;
     handle \<leftarrow> isa_handle i;
     let (err, s) = in_world (sys_poll_stream (asys e) fds (isa_poll_fd_count i)) s;
     s \<leftarrow> others s;
     if err < 0 then Some (Inl (err, s))
     else do {
       let ((err, revents), s) = in_world (snd_pcm_revents (apcm e) handle (isa_poll_fd_count i)) s;
       Some (if err < 0 then Inl (err, s)
         else if poll_bad revents \<or> POLLIN \<in> revents then Inl (0, s)
         else Inr s)
     }
   }"

definition instream_wait_for_poll ::
  "('j, 'z) alsa_env \<Rightarrow> (('j, 'z) jsio_scheme \<Rightarrow> ('j, 'z) jsio_scheme option) \<Rightarrow> nat \<Rightarrow> ('j, 'z) jsio_scheme \<Rightarrow>
   (int \<times> ('j, 'z) jsio_scheme) option" where
  "instream_wait_for_poll e others p s = repeat_until (instream_poll_step e others p) s"

subsection \<open>The thread of an output stream\<close>

text \<open>The thread reports an error and returns.\<close>

definition outstream_thread_failed ::
  "nat \<Rightarrow> SoundIoError \<Rightarrow> ('j, 'z) jsio_scheme \<Rightarrow> (bool \<times> ('j, 'z) jsio_scheme) option" where
  "outstream_thread_failed p err s = do { s \<leftarrow> outstream_error_callback p err s; Some (False, s) }"

definition outstream_recover ::
  "('j, 'z) alsa_env \<Rightarrow> nat \<Rightarrow> int \<Rightarrow> ('j, 'z) jsio_scheme \<Rightarrow> (bool \<times> ('j, 'z) jsio_scheme) option" where
  "outstream_recover e p err s = do {
     (err, s) \<leftarrow> outstream_xrun_recovery e p err s;
     if err < 0 then outstream_thread_failed p SoundIoErrorStreaming s else Some (True, s)
   }"

text \<open>The test of a flag sets it: the state afterwards and what it was.\<close>

definition exit_flag_tas :: "nat \<Rightarrow> ('j, 'z) jsio_scheme \<Rightarrow> (bool \<times> ('j, 'z) jsio_scheme) option" where
  "exit_flag_tas p s = do {
     os \<leftarrow> outstreams s p;
     s \<leftarrow> upd_osa p (\<lambda>a. a\<lparr>osa_thread_exit_flag := True\<rparr>) s;
     Some (osa_thread_exit_flag (osa os), s)
   }"

definition outstream_prepared ::
  "('j, 'z) alsa_env \<Rightarrow> nat \<Rightarrow> nat \<Rightarrow> ('j, 'z) jsio_scheme \<Rightarrow> (bool \<times> ('j, 'z) jsio_scheme) option" where
  "outstream_prepared e p handle s = do {
     let (avail, s) = in_world (snd_pcm_avail_sync (apcm e) handle) s;
     if avail < 0 then outstream_thread_failed p SoundIoErrorStreaming s
     else do {
       os \<leftarrow> outstreams s p;
       if word_of_int avail = osa_buffer_size_frames (osa os) then do {
         s \<leftarrow> alsa_write_callback e p 0 (to_int32 avail) s;
         exit_flag_tas p s
       }
       else do {
         let (err, s) = in_world (snd_pcm_start (apcm e) handle) s;
         if err < 0 then outstream_thread_failed p SoundIoErrorStreaming s else Some (True, s)
       }
     }
   }"

definition outstream_drop ::
  "('j, 'z) alsa_env \<Rightarrow> nat \<Rightarrow> nat \<Rightarrow> ('j, 'z) jsio_scheme \<Rightarrow> (bool \<times> ('j, 'z) jsio_scheme) option" where
  "outstream_drop e p handle s = do {
     let (err, s) = in_world (snd_pcm_drop (apcm e) handle) s;
     if err < 0 then outstream_thread_failed p SoundIoErrorStreaming s
     else do {
       let (err, s) = in_world (snd_pcm_reset (apcm e) handle) s;
       if err < 0 \<and> err \<noteq> - EBADFD then outstream_thread_failed p SoundIoErrorStreaming s else Some (True, s)
     }
   }"

definition outstream_running ::
  "('j, 'z) alsa_env \<Rightarrow> (('j, 'z) jsio_scheme \<Rightarrow> ('j, 'z) jsio_scheme option) \<Rightarrow> nat \<Rightarrow> nat \<Rightarrow> ('j, 'z) jsio_scheme \<Rightarrow>
   (bool \<times> ('j, 'z) jsio_scheme) option" where
  "outstream_running e others p handle s = do {
     (err, s) \<leftarrow> outstream_wait_for_poll e others p s;
     if err = SoundIoErrorInterrupted then Some (False, s)
     else if err \<noteq> SoundIoErrorNone then outstream_thread_failed p err s
     else do {
       (stay, s) \<leftarrow> exit_flag_tas p s;
       if \<not> stay then Some (False, s)
       else do {
         os \<leftarrow> outstreams s p;
         s \<leftarrow> upd_osa p (\<lambda>a. a\<lparr>osa_clear_buffer_flag := True\<rparr>) s;
         if \<not> osa_clear_buffer_flag (osa os) then outstream_drop e p handle s
         else do {
           let (avail, s) = in_world (snd_pcm_avail_update (apcm e) handle) s;
           if avail < 0 then outstream_recover e p avail s
           else do {
             s \<leftarrow> (if avail > 0 then alsa_write_callback e p 0 (to_int32 avail) s else Some s);
             Some (True, s)
           }
         }
       }
     }
   }"

definition outstream_thread_iteration ::
  "('j, 'z) alsa_env \<Rightarrow> (('j, 'z) jsio_scheme \<Rightarrow> ('j, 'z) jsio_scheme option) \<Rightarrow> nat \<Rightarrow> ('j, 'z) jsio_scheme \<Rightarrow>
   (bool \<times> ('j, 'z) jsio_scheme) option" where
  "outstream_thread_iteration e others p s = do {
     os \<leftarrow> outstreams s p;
     handle \<leftarrow> osa_handle (osa os);
     (case pcm_state (apcm e) handle (world s) of
        SND_PCM_STATE_SETUP \<Rightarrow>
          let (err, s) = in_world (snd_pcm_prepare (apcm e) handle) s
          in if err < 0 then outstream_thread_failed p SoundIoErrorStreaming s else Some (True, s)
      | SND_PCM_STATE_PREPARED \<Rightarrow> outstream_prepared e p handle s
      | SND_PCM_STATE_RUNNING \<Rightarrow> outstream_running e others p handle s
      | SND_PCM_STATE_PAUSED \<Rightarrow> outstream_running e others p handle s
      | SND_PCM_STATE_XRUN \<Rightarrow> outstream_recover e p (- EPIPE) s
      | SND_PCM_STATE_SUSPENDED \<Rightarrow> outstream_recover e p (- ESTRPIPE) s
      | SND_PCM_STATE_OPEN \<Rightarrow> outstream_thread_failed p SoundIoErrorStreaming s
      | SND_PCM_STATE_DRAINING \<Rightarrow> outstream_thread_failed p SoundIoErrorStreaming s
      | SND_PCM_STATE_DISCONNECTED \<Rightarrow> outstream_thread_failed p SoundIoErrorStreaming s)
   }"

subsection \<open>The thread of an input stream\<close>

definition instream_thread_failed ::
  "nat \<Rightarrow> ('j, 'z) jsio_scheme \<Rightarrow> (bool \<times> ('j, 'z) jsio_scheme) option" where
  "instream_thread_failed p s = do { s \<leftarrow> instream_error_callback p SoundIoErrorStreaming s; Some (False, s) }"

definition instream_recover ::
  "('j, 'z) alsa_env \<Rightarrow> nat \<Rightarrow> int \<Rightarrow> ('j, 'z) jsio_scheme \<Rightarrow> (bool \<times> ('j, 'z) jsio_scheme) option" where
  "instream_recover e p err s = do {
     (err, s) \<leftarrow> instream_xrun_recovery e p err s;
     if err < 0 then instream_thread_failed p s else Some (True, s)
   }"

definition instream_running ::
  "('j, 'z) alsa_env \<Rightarrow> (('j, 'z) jsio_scheme \<Rightarrow> ('j, 'z) jsio_scheme option) \<Rightarrow> nat \<Rightarrow> nat \<Rightarrow> ('j, 'z) jsio_scheme \<Rightarrow>
   (bool \<times> ('j, 'z) jsio_scheme) option" where
  "instream_running e others p handle s = do {
     (err, s) \<leftarrow> instream_wait_for_poll e others p s;
     is \<leftarrow> instreams s p;
     s \<leftarrow> upd_isa p (\<lambda>i. i\<lparr>isa_thread_exit_flag := True\<rparr>) s;
     if \<not> isa_thread_exit_flag (isa is) then Some (False, s)
     else if err < 0 then instream_thread_failed p s
     else do {
       let (avail, s) = in_world (snd_pcm_avail_update (apcm e) handle) s;
       if avail < 0 then instream_recover e p avail s
       else do {
         s \<leftarrow> (if avail > 0 then alsa_read_callback e p 0 (to_int32 avail) s else Some s);
         Some (True, s)
       }
     }
   }"

definition instream_thread_iteration ::
  "('j, 'z) alsa_env \<Rightarrow> (('j, 'z) jsio_scheme \<Rightarrow> ('j, 'z) jsio_scheme option) \<Rightarrow> nat \<Rightarrow> ('j, 'z) jsio_scheme \<Rightarrow>
   (bool \<times> ('j, 'z) jsio_scheme) option" where
  "instream_thread_iteration e others p s = do {
     is \<leftarrow> instreams s p;
     handle \<leftarrow> isa_handle (isa is);
     (case pcm_state (apcm e) handle (world s) of
        SND_PCM_STATE_SETUP \<Rightarrow>
          let (err, s) = in_world (snd_pcm_prepare (apcm e) handle) s
          in if err < 0 then instream_thread_failed p s else Some (True, s)
      | SND_PCM_STATE_PREPARED \<Rightarrow>
          let (err, s) = in_world (snd_pcm_start (apcm e) handle) s
          in if err < 0 then instream_thread_failed p s else Some (True, s)
      | SND_PCM_STATE_RUNNING \<Rightarrow> instream_running e others p handle s
      | SND_PCM_STATE_PAUSED \<Rightarrow> instream_running e others p handle s
      | SND_PCM_STATE_XRUN \<Rightarrow> instream_recover e p (- EPIPE) s
      | SND_PCM_STATE_SUSPENDED \<Rightarrow> instream_recover e p (- ESTRPIPE) s
      | SND_PCM_STATE_OPEN \<Rightarrow> instream_thread_failed p s
      | SND_PCM_STATE_DRAINING \<Rightarrow> instream_thread_failed p s
      | SND_PCM_STATE_DISCONNECTED \<Rightarrow> instream_thread_failed p s)
   }"

subsection \<open>Opening an output stream\<close>

definition outstream_alsa_failed ::
  "('j, 'z) alsa_env \<Rightarrow> nat \<Rightarrow> SoundIoError \<Rightarrow> ('j, 'z) jsio_scheme \<Rightarrow> (SoundIoError \<times> ('j, 'z) jsio_scheme) option" where
  "outstream_alsa_failed e p err s = do { s \<leftarrow> outstream_destroy_alsa e p s; Some (err, s) }"

definition refused_params :: "int \<Rightarrow> SoundIoError" where
  "refused_params err = (if err = - EINVAL then SoundIoErrorIncompatibleDevice else SoundIoErrorOpeningDevice)"

definition chmap_zero :: "int \<Rightarrow> snd_pcm_chmap" where
  "chmap_zero n = \<lparr>chmap_channels = 0, chmap_pos = replicate (nat n) SND_CHMAP_UNKNOWN\<rparr>"

text \<open>The channel map of a layout.\<close>

definition layout_chmap :: "SoundIoChannelLayout \<Rightarrow> snd_pcm_chmap \<Rightarrow> snd_pcm_chmap option" where
  "layout_chmap layout chmap =
     for_each (\<lambda>i chmap. do {
         channel \<leftarrow> arr_at (cl_channels layout) (int i);
         pos \<leftarrow> arr_set (chmap_pos chmap) (int i) (to_alsa_chmap_pos channel);
         Some (chmap\<lparr>chmap_pos := pos\<rparr>)
       }) [0..<nat (cl_channel_count layout)] (chmap\<lparr>chmap_channels := word_of_int (cl_channel_count layout)\<rparr>)"

definition is_rw :: "snd_pcm_access \<Rightarrow> bool" where
  "is_rw access \<longleftrightarrow> access = SND_PCM_ACCESS_RW_INTERLEAVED \<or> access = SND_PCM_ACCESS_RW_NONINTERLEAVED"

text \<open>The last part: the buffer of the application, the descriptors to wait on, the pipe.\<close>

definition outstream_open_poll ::
  "('j, 'z) alsa_env \<Rightarrow> nat \<Rightarrow> nat \<Rightarrow> ('j, 'z) jsio_scheme \<Rightarrow> (SoundIoError \<times> ('j, 'z) jsio_scheme) option" where
  "outstream_open_poll e p handle s = do {
     let count = snd_pcm_poll_descriptors_count (apar e) handle (world s);
     s \<leftarrow> upd_osa p (\<lambda>a. a\<lparr>osa_poll_fd_count := count\<rparr>) s;
     if count \<le> 0 then outstream_alsa_failed e p SoundIoErrorOpeningDevice s
     else do {
       with_extra \<leftarrow> c_int (count + 1);
       let (b, s) = alloc s;
       s \<leftarrow> upd_osa p (\<lambda>a. a\<lparr>osa_poll_fd_count_with_extra := with_extra, osa_poll_fds := b\<rparr>) s;
       if b = None then outstream_alsa_failed e p SoundIoErrorNoMem s
       else try_step (snd_pcm_poll_descriptors (apar e) handle count)
         (\<lambda>err. outstream_alsa_failed e p SoundIoErrorOpeningDevice)
         (\<lambda>s. let ((r, errno, fd0, fd1), s) = in_world (sys_pipe2 (asys e)) s
           in if r \<noteq> 0 then do {
                c_assert (errno = EMFILE \<or> errno = ENFILE);
                outstream_alsa_failed e p SoundIoErrorSystemResources s
              }
              else do {
                s \<leftarrow> upd_osa p (\<lambda>a. a\<lparr>osa_poll_exit_pipe_fd := (fd0, fd1)\<rparr>) s;
                Some (SoundIoErrorNone, s)
              }) s
     }
   }"

definition outstream_open_buffer ::
  "('j, 'z) alsa_env \<Rightarrow> nat \<Rightarrow> nat \<Rightarrow> int \<Rightarrow> ('j, 'z) jsio_scheme \<Rightarrow> (SoundIoError \<times> ('j, 'z) jsio_scheme) option" where
  "outstream_open_buffer e p handle phys_bytes_per_sample s = do {
     os \<leftarrow> outstreams s p;
     if is_rw (osa_access (osa os)) then do {
       let nbytes = to_int32 (uint (word_of_int (cl_channel_count (os_layout os)) * osa_period_size (osa os) *
         word_of_int phys_bytes_per_sample));
       let (b, s) = alloc s;
       s \<leftarrow> upd_osa p (\<lambda>a. a\<lparr>osa_sample_buffer_size := nbytes, osa_sample_buffer := b\<rparr>) s;
       if b = None then outstream_alsa_failed e p SoundIoErrorNoMem s
       else outstream_open_poll e p handle s
     }
     else outstream_open_poll e p handle s
   }"

text \<open>The channel map, which the device may refuse, and the software parameters.\<close>

definition outstream_open_sw ::
  "('j, 'z) alsa_env \<Rightarrow> nat \<Rightarrow> nat \<Rightarrow> int \<Rightarrow> ('j, 'z) jsio_scheme \<Rightarrow> (SoundIoError \<times> ('j, 'z) jsio_scheme) option" where
  "outstream_open_sw e p handle phys_bytes_per_sample s = do {
     os \<leftarrow> outstreams s p;
     let fail = (\<lambda>err. outstream_alsa_failed e p SoundIoErrorOpeningDevice);
     (b, chmap) \<leftarrow> osa_chmap (osa os);
     chmap \<leftarrow> layout_chmap (os_layout os) chmap;
     s \<leftarrow> upd_osa p (\<lambda>a. a\<lparr>osa_chmap := Some (b, chmap)\<rparr>) s;
     let (err, s) = in_world (snd_pcm_set_chmap (apar e) handle chmap) s;
     s \<leftarrow> (if err < 0 then upd_out p (\<lambda>x. x\<lparr>os_layout_error := SoundIoErrorIncompatibleDevice\<rparr>) s else Some s);
     try_step (sw_params_current (apar e) handle) fail
       (try_step (sw_params_set_start_threshold (apar e) handle 0) fail
         (try_step (sw_params_set_avail_min (apar e) handle (osa_period_size (osa os))) fail
           (try_step (sw_params (apar e) handle) (\<lambda>err. outstream_alsa_failed e p (refused_params err))
             (outstream_open_buffer e p handle phys_bytes_per_sample)))) s
   }"

text \<open>The size of the buffer, from the latency, and the hardware parameters.\<close>

definition outstream_open_hw ::
  "('j, 'z) alsa_env \<Rightarrow> nat \<Rightarrow> nat \<Rightarrow> int \<Rightarrow> ('j, 'z) jsio_scheme \<Rightarrow> (SoundIoError \<times> ('j, 'z) jsio_scheme) option" where
  "outstream_open_hw e p handle phys_bytes_per_sample s = do {
     os \<leftarrow> outstreams s p;
     want \<leftarrow> dbl_to_uframes (os_software_latency os * real_of_int (os_sample_rate os));
     let ((err, frames), s) = in_world (hw_params_set_buffer_size_near (apar e) handle want) s;
     s \<leftarrow> upd_osa p (\<lambda>a. a\<lparr>osa_buffer_size_frames := frames\<rparr>) s;
     if err < 0 then outstream_alsa_failed e p SoundIoErrorOpeningDevice s
     else do {
       latency \<leftarrow> dbl_div (real_of_int (uint frames)) (real_of_int (os_sample_rate os));
       s \<leftarrow> upd_out p (\<lambda>x. x\<lparr>os_software_latency := latency\<rparr>) s;
       try_step (hw_params (apar e) handle) (\<lambda>err. outstream_alsa_failed e p (refused_params err))
         (\<lambda>s. let (err, period) = hw_params_get_period_size (apar e) handle (world s)
           in if err < 0 then outstream_alsa_failed e p SoundIoErrorOpeningDevice s
              else do {
                s \<leftarrow> upd_osa p (\<lambda>a. a\<lparr>osa_period_size := period\<rparr>) s;
                outstream_open_sw e p handle phys_bytes_per_sample s
              }) s
     }
   }"

definition outstream_open_device ::
  "('j, 'z) alsa_env \<Rightarrow> nat \<Rightarrow> nat \<Rightarrow> SoundIoDevice \<Rightarrow> ('j, 'z) jsio_scheme \<Rightarrow> (SoundIoError \<times> ('j, 'z) jsio_scheme) option" where
  "outstream_open_device e p handle device s =
     (let fail = (\<lambda>err. outstream_alsa_failed e p SoundIoErrorOpeningDevice)
      in try_step (hw_params_any (apar e) handle) fail
        (try_step (hw_params_set_rate_resample (apar e) handle (\<not> is_raw device)) fail
          (\<lambda>s. let ((err, access), s) = set_access e handle s
            in case access of None \<Rightarrow> outstream_alsa_failed e p err s
            | Some access \<Rightarrow> do {
                s \<leftarrow> upd_osa p (\<lambda>a. a\<lparr>osa_access := access\<rparr>) s;
                os \<leftarrow> outstreams s p;
                try_step (hw_params_set_channels (apar e) handle (cl_channel_count (os_layout os))) fail
                  (try_step (hw_params_set_rate (apar e) handle (os_sample_rate os)) fail
                    (\<lambda>s. let format = to_alsa_fmt (os_format os);
                        bits = snd_pcm_format_physical_width (actl e) format
                      in if bits mod 8 \<noteq> 0 then outstream_alsa_failed e p SoundIoErrorIncompatibleDevice s
                         else try_step (hw_params_set_format (apar e) handle format) fail
                           (outstream_open_hw e p handle (bits div 8)) s)) s
              })) s)"

definition outstream_open_alsa ::
  "('j, 'z) alsa_env \<Rightarrow> nat \<Rightarrow> ('j, 'z) jsio_scheme \<Rightarrow> (SoundIoError \<times> ('j, 'z) jsio_scheme) option" where
  "outstream_open_alsa e p s = do {
     os \<leftarrow> outstreams s p;
     dv \<leftarrow> os_device os;
     device \<leftarrow> devices s dv;
     s \<leftarrow> upd_out p (\<lambda>x. x\<lparr>os_software_latency := soundio_double_clamp (software_latency_min device)
       (if os_software_latency x = 0 then 1 else os_software_latency x) (software_latency_max device),
       osa := (osa x)\<lparr>osa_clear_buffer_flag := True\<rparr>\<rparr>) s;
     let ch_count = cl_channel_count (os_layout os);
     nbytes \<leftarrow> c_int (4 + 4 * ch_count);
     let (b, s) = alloc s;
     s \<leftarrow> upd_osa p (\<lambda>a. a\<lparr>osa_chmap_size := nbytes, osa_chmap := map_option (\<lambda>b. (b, chmap_zero ch_count)) b\<rparr>) s;
     if b = None then outstream_alsa_failed e p SoundIoErrorNoMem s
     else do {
       let ((err, handle), s) = in_world (snd_pcm_open (actl e) (map_option snd (dev_id device)) (aim_to_stream (aim device))) s;
       if err < 0 then outstream_alsa_failed e p SoundIoErrorOpeningDevice s
       else do {
         s \<leftarrow> upd_osa p (\<lambda>a. a\<lparr>osa_handle := Some handle\<rparr>) s;
         outstream_open_device e p handle device s
       }
     }
   }"

subsection \<open>Using an output stream\<close>

definition outstream_start_alsa ::
  "nat \<Rightarrow> nat \<Rightarrow> ('j, 'z) jsio_scheme \<Rightarrow> (SoundIoError \<times> ('j, 'z) jsio_scheme) option" where
  "outstream_start_alsa si p s = do {
     x \<leftarrow> sios s si;
     os \<leftarrow> outstreams s p;
     c_assert (osa_thread (osa os) = None);
     s \<leftarrow> upd_osa p (\<lambda>a. a\<lparr>osa_thread_exit_flag := True\<rparr>) s;
     (err, thr, s) \<leftarrow> soundio_os_thread_create outstream_thread_run (emit_rtprio_warning_set x) s;
     s \<leftarrow> upd_osa p (\<lambda>a. a\<lparr>osa_thread := thr\<rparr>) s;
     Some (err, s)
   }"

text \<open>The areas of a buffer of the application, from its address on, and of a mapped buffer.\<close>

fun interleaved_areas :: "nat \<Rightarrow> int \<Rightarrow> int \<Rightarrow> nat list \<Rightarrow> SoundIoChannelArea list \<Rightarrow> SoundIoChannelArea list option" where
  "interleaved_areas buffer bytes_per_sample bytes_per_frame [] areas = Some areas"
| "interleaved_areas buffer bytes_per_sample bytes_per_frame (ch # chs) areas = do {
     areas \<leftarrow> arr_set areas (int ch)
       \<lparr>area_ptr = buffer + nat (int ch * bytes_per_sample), area_step = bytes_per_frame\<rparr>;
     interleaved_areas buffer bytes_per_sample bytes_per_frame chs areas
   }"

fun separate_areas :: "nat \<Rightarrow> (nat \<Rightarrow> nat) \<Rightarrow> int \<Rightarrow> nat list \<Rightarrow> SoundIoChannelArea list \<Rightarrow> SoundIoChannelArea list option" where
  "separate_areas buffer offset bytes_per_sample [] areas = Some areas"
| "separate_areas buffer offset bytes_per_sample (ch # chs) areas = do {
     areas \<leftarrow> arr_set areas (int ch) \<lparr>area_ptr = buffer + offset ch, area_step = bytes_per_sample\<rparr>;
     separate_areas buffer offset bytes_per_sample chs areas
   }"

text \<open>A channel of the device whose samples do not lie on byte boundaries cannot be used.\<close>

fun mmap_areas ::
  "snd_pcm_channel_area list \<Rightarrow> 64 word \<Rightarrow> nat list \<Rightarrow> SoundIoChannelArea list \<Rightarrow> (SoundIoError \<times> SoundIoChannelArea list) option" where
  "mmap_areas device_areas offset [] areas = Some (SoundIoErrorNone, areas)"
| "mmap_areas device_areas offset (ch # chs) areas = do {
     a \<leftarrow> arr_at device_areas (int ch);
     if ca_first a mod 8 \<noteq> 0 \<or> ca_step a mod 8 \<noteq> 0 then Some (SoundIoErrorIncompatibleDevice, areas)
     else do {
       let step = uint (ca_step a) div 8;
       areas \<leftarrow> arr_set areas (int ch)
         \<lparr>area_ptr = ca_addr a + unat (ca_first a) div 8 + unat (word_of_int step * offset), area_step = step\<rparr>;
       mmap_areas device_areas offset chs areas
     }
   }"

text \<open>The distance of a channel in a buffer with the channels one after the other.\<close>

definition write_offset :: "SoundIoOutStream \<Rightarrow> nat \<Rightarrow> nat" where
  "write_offset os ch = unat (word_of_int (int ch * os_bytes_per_sample os) * osa_period_size (osa os))"

definition outstream_begin_write_alsa ::
  "('j, 'z) alsa_env \<Rightarrow> nat \<Rightarrow> int \<Rightarrow> ('j, 'z) jsio_scheme \<Rightarrow>
   (SoundIoError \<times> SoundIoChannelArea list \<times> int \<times> ('j, 'z) jsio_scheme) option" where
  "outstream_begin_write_alsa e p frame_count s = do {
     os \<leftarrow> outstreams s p;
     let oa = osa os;
     let chs = [0..<nat (cl_channel_count (os_layout os))];
     if is_rw (osa_access oa) then do {
       b \<leftarrow> osa_sample_buffer oa;
       areas \<leftarrow> (if osa_access oa = SND_PCM_ACCESS_RW_INTERLEAVED
         then interleaved_areas (block_address e b) (os_bytes_per_sample os) (os_bytes_per_frame os) chs (osa_areas oa)
         else separate_areas (block_address e b) (write_offset os) (os_bytes_per_sample os) chs (osa_areas oa));
       let n = soundio_int_min frame_count (to_int32 (uint (osa_period_size oa)));
       s \<leftarrow> upd_osa p (\<lambda>a. a\<lparr>osa_areas := areas, osa_write_frame_count := n\<rparr>) s;
       Some (SoundIoErrorNone, areas, n, s)
     }
     else do {
       handle \<leftarrow> osa_handle oa;
       let ((err, device_areas, offset, frames), s) = in_world (snd_pcm_mmap_begin (apcm e) handle (word_of_int frame_count)) s;
       if err < 0 then Some (if err = - EPIPE \<or> err = - ESTRPIPE then SoundIoErrorUnderflow else SoundIoErrorStreaming,
         [], frame_count, s)
       else do {
         (err, areas) \<leftarrow> mmap_areas device_areas offset chs (osa_areas oa);
         s \<leftarrow> upd_osa p (\<lambda>a. a\<lparr>osa_offset := offset, osa_areas := areas\<rparr>) s;
         if err \<noteq> SoundIoErrorNone then Some (err, [], frame_count, s)
         else do {
           let n = to_int32 (uint frames);
           s \<leftarrow> upd_osa p (\<lambda>a. a\<lparr>osa_write_frame_count := n\<rparr>) s;
           Some (SoundIoErrorNone, areas, n, s)
         }
       }
     }
   }"

definition outstream_end_write_alsa ::
  "('j, 'z) alsa_env \<Rightarrow> nat \<Rightarrow> ('j, 'z) jsio_scheme \<Rightarrow> (SoundIoError \<times> ('j, 'z) jsio_scheme) option" where
  "outstream_end_write_alsa e p s = do {
     os \<leftarrow> outstreams s p;
     let oa = osa os;
     let n = osa_write_frame_count oa;
     handle \<leftarrow> osa_handle oa;
     (commitres, s) \<leftarrow>
       (if osa_access oa = SND_PCM_ACCESS_RW_INTERLEAVED then do {
          b \<leftarrow> osa_sample_buffer oa;
          Some (in_world (snd_pcm_writei (apcm e) handle (block_address e b) (word_of_int n)) s)
        }
        else if osa_access oa = SND_PCM_ACCESS_RW_NONINTERLEAVED then do {
          b \<leftarrow> osa_sample_buffer oa;
          c_assert (cl_channel_count (os_layout os) \<le> int SOUNDIO_MAX_CHANNELS);
          Some (in_world (snd_pcm_writen (apcm e) handle
            (map (\<lambda>ch. block_address e b + write_offset os ch) [0..<nat (cl_channel_count (os_layout os))]) (word_of_int n)) s)
        }
        else Some (in_world (snd_pcm_mmap_commit (apcm e) handle (osa_offset oa) (word_of_int n)) s));
     let err = (if commitres \<ge> 0 then - EPIPE else commitres);
     Some (if commitres = n \<and> commitres \<ge> 0 then SoundIoErrorNone
       else if err = - EPIPE \<or> err = - ESTRPIPE then SoundIoErrorUnderflow else SoundIoErrorStreaming, s)
   }"

definition outstream_clear_buffer_alsa :: "nat \<Rightarrow> 'z sio_scheme \<Rightarrow> (SoundIoError \<times> 'z sio_scheme) option" where
  "outstream_clear_buffer_alsa p s = do {
     s \<leftarrow> upd_osa p (\<lambda>a. a\<lparr>osa_clear_buffer_flag := False\<rparr>) s;
     Some (SoundIoErrorNone, s)
   }"

definition outstream_pause_alsa ::
  "('j, 'z) alsa_env \<Rightarrow> nat \<Rightarrow> bool \<Rightarrow> ('j, 'z) jsio_scheme \<Rightarrow> (SoundIoError \<times> ('j, 'z) jsio_scheme) option" where
  "outstream_pause_alsa e p pause s = do {
     os \<leftarrow> outstreams s p;
     case osa_handle (osa os) of None \<Rightarrow> Some (SoundIoErrorInvalid, s)
     | Some handle \<Rightarrow>
         if osa_is_paused (osa os) = pause then Some (SoundIoErrorNone, s)
         else try_step (snd_pcm_pause (apcm e) handle pause) (\<lambda>err s. Some (SoundIoErrorIncompatibleDevice, s))
           (\<lambda>s. do { s \<leftarrow> upd_osa p (\<lambda>a. a\<lparr>osa_is_paused := pause\<rparr>) s; Some (SoundIoErrorNone, s) }) s
   }"

definition outstream_get_latency_alsa ::
  "('j, 'z) alsa_env \<Rightarrow> nat \<Rightarrow> ('j, 'z) jsio_scheme \<Rightarrow> (SoundIoError \<times> real \<times> ('j, 'z) jsio_scheme) option" where
  "outstream_get_latency_alsa e p s = do {
     os \<leftarrow> outstreams s p;
     handle \<leftarrow> osa_handle (osa os);
     let ((err, delay), s) = in_world (snd_pcm_delay (apcm e) handle) s;
     if err < 0 then Some (SoundIoErrorStreaming, 0, s)
     else do {
       latency \<leftarrow> dbl_div (real_of_int delay) (real_of_int (os_sample_rate os));
       Some (SoundIoErrorNone, latency, s)
     }
   }"

subsection \<open>Opening an input stream\<close>

definition instream_alsa_failed ::
  "('j, 'z) alsa_env \<Rightarrow> nat \<Rightarrow> SoundIoError \<Rightarrow> ('j, 'z) jsio_scheme \<Rightarrow> (SoundIoError \<times> ('j, 'z) jsio_scheme) option" where
  "instream_alsa_failed e p err s = do { s \<leftarrow> instream_destroy_alsa e p s; Some (err, s) }"

definition instream_open_poll ::
  "('j, 'z) alsa_env \<Rightarrow> nat \<Rightarrow> nat \<Rightarrow> ('j, 'z) jsio_scheme \<Rightarrow> (SoundIoError \<times> ('j, 'z) jsio_scheme) option" where
  "instream_open_poll e p handle s = do {
     let count = snd_pcm_poll_descriptors_count (apar e) handle (world s);
     s \<leftarrow> upd_isa p (\<lambda>i. i\<lparr>isa_poll_fd_count := count\<rparr>) s;
     if count \<le> 0 then instream_alsa_failed e p SoundIoErrorOpeningDevice s
     else do {
       let (b, s) = alloc s;
       s \<leftarrow> upd_isa p (\<lambda>i. i\<lparr>isa_poll_fds := b\<rparr>) s;
       if b = None then instream_alsa_failed e p SoundIoErrorNoMem s
       else try_step (snd_pcm_poll_descriptors (apar e) handle count)
         (\<lambda>err. instream_alsa_failed e p SoundIoErrorOpeningDevice) (\<lambda>s. Some (SoundIoErrorNone, s)) s
     }
   }"

definition instream_open_buffer ::
  "('j, 'z) alsa_env \<Rightarrow> nat \<Rightarrow> nat \<Rightarrow> int \<Rightarrow> ('j, 'z) jsio_scheme \<Rightarrow> (SoundIoError \<times> ('j, 'z) jsio_scheme) option" where
  "instream_open_buffer e p handle phys_bytes_per_sample s = do {
     is \<leftarrow> instreams s p;
     if is_rw (isa_access (isa is)) then do {
       samples \<leftarrow> c_int (cl_channel_count (is_layout is) * isa_period_size (isa is));
       nbytes \<leftarrow> c_int (samples * phys_bytes_per_sample);
       let (b, s) = alloc s;
       s \<leftarrow> upd_isa p (\<lambda>i. i\<lparr>isa_sample_buffer_size := nbytes, isa_sample_buffer := b\<rparr>) s;
       if b = None then instream_alsa_failed e p SoundIoErrorNoMem s
       else instream_open_poll e p handle s
     }
     else instream_open_poll e p handle s
   }"

definition instream_open_sw ::
  "('j, 'z) alsa_env \<Rightarrow> nat \<Rightarrow> nat \<Rightarrow> int \<Rightarrow> ('j, 'z) jsio_scheme \<Rightarrow> (SoundIoError \<times> ('j, 'z) jsio_scheme) option" where
  "instream_open_sw e p handle phys_bytes_per_sample s = do {
     is \<leftarrow> instreams s p;
     (b, chmap) \<leftarrow> isa_chmap (isa is);
     chmap \<leftarrow> layout_chmap (is_layout is) chmap;
     s \<leftarrow> upd_isa p (\<lambda>i. i\<lparr>isa_chmap := Some (b, chmap)\<rparr>) s;
     let (err, s) = in_world (snd_pcm_set_chmap (apar e) handle chmap) s;
     s \<leftarrow> (if err < 0 then upd_in p (\<lambda>x. x\<lparr>is_layout_error := SoundIoErrorIncompatibleDevice\<rparr>) s else Some s);
     try_step (sw_params_current (apar e) handle) (\<lambda>err. instream_alsa_failed e p SoundIoErrorOpeningDevice)
       (try_step (sw_params (apar e) handle) (\<lambda>err. instream_alsa_failed e p (refused_params err))
         (instream_open_buffer e p handle phys_bytes_per_sample)) s
   }"

definition instream_open_hw ::
  "('j, 'z) alsa_env \<Rightarrow> nat \<Rightarrow> nat \<Rightarrow> int \<Rightarrow> ('j, 'z) jsio_scheme \<Rightarrow> (SoundIoError \<times> ('j, 'z) jsio_scheme) option" where
  "instream_open_hw e p handle phys_bytes_per_sample s = do {
     is \<leftarrow> instreams s p;
     let fail = (\<lambda>err. instream_alsa_failed e p SoundIoErrorOpeningDevice);
     want \<leftarrow> ceil_dbl_to_uframes (1 / 2 * is_software_latency is * real_of_int (is_sample_rate is));
     let ((err, frames), s) = in_world (hw_params_set_period_size_near (apar e) handle want) s;
     if err < 0 then fail err s
     else do {
       latency \<leftarrow> dbl_div (real_of_int (uint frames)) (real_of_int (is_sample_rate is));
       s \<leftarrow> upd_in p (\<lambda>x. x\<lparr>is_software_latency := latency,
         isa := (isa x)\<lparr>isa_period_size := to_int32 (uint frames)\<rparr>\<rparr>) s;
       try_step (hw_params_set_buffer_size_last (apar e) handle) fail
         (try_step (hw_params (apar e) handle) (\<lambda>err. instream_alsa_failed e p (refused_params err))
           (instream_open_sw e p handle phys_bytes_per_sample)) s
     }
   }"

definition instream_open_device ::
  "('j, 'z) alsa_env \<Rightarrow> nat \<Rightarrow> nat \<Rightarrow> SoundIoDevice \<Rightarrow> ('j, 'z) jsio_scheme \<Rightarrow> (SoundIoError \<times> ('j, 'z) jsio_scheme) option" where
  "instream_open_device e p handle device s =
     (let fail = (\<lambda>err. instream_alsa_failed e p SoundIoErrorOpeningDevice)
      in try_step (hw_params_any (apar e) handle) fail
        (try_step (hw_params_set_rate_resample (apar e) handle (\<not> is_raw device)) fail
          (\<lambda>s. let ((err, access), s) = set_access e handle s
            in case access of None \<Rightarrow> instream_alsa_failed e p err s
            | Some access \<Rightarrow> do {
                s \<leftarrow> upd_isa p (\<lambda>i. i\<lparr>isa_access := access\<rparr>) s;
                is \<leftarrow> instreams s p;
                try_step (hw_params_set_channels (apar e) handle (cl_channel_count (is_layout is))) fail
                  (try_step (hw_params_set_rate (apar e) handle (is_sample_rate is)) fail
                    (\<lambda>s. let format = to_alsa_fmt (is_format is);
                        bits = snd_pcm_format_physical_width (actl e) format
                      in if bits mod 8 \<noteq> 0 then instream_alsa_failed e p SoundIoErrorIncompatibleDevice s
                         else try_step (hw_params_set_format (apar e) handle format) fail
                           (instream_open_hw e p handle (bits div 8)) s)) s
              })) s)"

definition instream_open_alsa ::
  "('j, 'z) alsa_env \<Rightarrow> nat \<Rightarrow> ('j, 'z) jsio_scheme \<Rightarrow> (SoundIoError \<times> ('j, 'z) jsio_scheme) option" where
  "instream_open_alsa e p s = do {
     is \<leftarrow> instreams s p;
     dv \<leftarrow> is_device is;
     device \<leftarrow> devices s dv;
     s \<leftarrow> upd_in p (\<lambda>x. x\<lparr>is_software_latency := soundio_double_clamp (software_latency_min device)
       (if is_software_latency x = 0 then 1 else is_software_latency x) (software_latency_max device)\<rparr>) s;
     let ch_count = cl_channel_count (is_layout is);
     nbytes \<leftarrow> c_int (4 + 4 * ch_count);
     let (b, s) = alloc s;
     s \<leftarrow> upd_isa p (\<lambda>i. i\<lparr>isa_chmap_size := nbytes, isa_chmap := map_option (\<lambda>b. (b, chmap_zero ch_count)) b\<rparr>) s;
     if b = None then instream_alsa_failed e p SoundIoErrorNoMem s
     else do {
       let ((err, handle), s) = in_world (snd_pcm_open (actl e) (map_option snd (dev_id device)) (aim_to_stream (aim device))) s;
       if err < 0 then instream_alsa_failed e p SoundIoErrorOpeningDevice s
       else do {
         s \<leftarrow> upd_isa p (\<lambda>i. i\<lparr>isa_handle := Some handle\<rparr>) s;
         instream_open_device e p handle device s
       }
     }
   }"

subsection \<open>Using an input stream\<close>

definition instream_start_alsa ::
  "('j, 'z) alsa_env \<Rightarrow> nat \<Rightarrow> nat \<Rightarrow> ('j, 'z) jsio_scheme \<Rightarrow> (SoundIoError \<times> ('j, 'z) jsio_scheme) option" where
  "instream_start_alsa e si p s = do {
     x \<leftarrow> sios s si;
     is \<leftarrow> instreams s p;
     c_assert (isa_thread (isa is) = None);
     s \<leftarrow> upd_isa p (\<lambda>i. i\<lparr>isa_thread_exit_flag := True\<rparr>) s;
     (err, thr, s) \<leftarrow> soundio_os_thread_create instream_thread_run (emit_rtprio_warning_set x) s;
     s \<leftarrow> upd_isa p (\<lambda>i. i\<lparr>isa_thread := thr\<rparr>) s;
     if err \<noteq> SoundIoErrorNone then instream_alsa_failed e p err s else Some (SoundIoErrorNone, s)
   }"

text \<open>
  A transfer that was not complete counts as a broken pipe; the result says whether the
  recovery failed.
\<close>

definition check_transfer ::
  "('j, 'z) alsa_env \<Rightarrow> nat \<Rightarrow> int \<Rightarrow> int \<Rightarrow> ('j, 'z) jsio_scheme \<Rightarrow> (bool \<times> ('j, 'z) jsio_scheme) option" where
  "check_transfer e p n commitres s =
     (if commitres < 0 \<or> commitres \<noteq> n then do {
        (err, s) \<leftarrow> instream_xrun_recovery e p (if commitres \<ge> 0 then - EPIPE else commitres) s;
        Some (err < 0, s)
      }
      else Some (False, s))"

definition read_offset :: "SoundIoInStream \<Rightarrow> nat \<Rightarrow> nat" where
  "read_offset is ch = nat (int ch * is_bytes_per_sample is * isa_period_size (isa is))"

definition instream_begin_read_rw ::
  "('j, 'z) alsa_env \<Rightarrow> nat \<Rightarrow> int \<Rightarrow> ('j, 'z) jsio_scheme \<Rightarrow>
   (SoundIoError \<times> SoundIoChannelArea list \<times> int \<times> ('j, 'z) jsio_scheme) option" where
  "instream_begin_read_rw e p frame_count s = do {
     is \<leftarrow> instreams s p;
     let i = isa is;
     let interleaved = (isa_access i = SND_PCM_ACCESS_RW_INTERLEAVED);
     let chs = [0..<nat (cl_channel_count (is_layout is))];
     b \<leftarrow> isa_sample_buffer i;
     handle \<leftarrow> isa_handle i;
     areas \<leftarrow> (if interleaved
       then interleaved_areas (block_address e b) (is_bytes_per_sample is) (is_bytes_per_frame is) chs (isa_areas i)
       else separate_areas (block_address e b) (read_offset is) (is_bytes_per_sample is) chs (isa_areas i));
     let n = soundio_int_min frame_count (isa_period_size i);
     s \<leftarrow> upd_isa p (\<lambda>i. i\<lparr>isa_areas := areas, isa_read_frame_count := n\<rparr>) s;
     let (commitres, s) = in_world (if interleaved
       then snd_pcm_readi (apcm e) handle (block_address e b) (word_of_int n)
       else snd_pcm_readn (apcm e) handle (map (\<lambda>ch. block_address e b + read_offset is ch) chs) (word_of_int n)) s;
     (failed, s) \<leftarrow> check_transfer e p n commitres s;
     Some (if failed then (SoundIoErrorStreaming, [], n, s) else (SoundIoErrorNone, areas, n, s))
   }"

text \<open>After a recovery the areas of the device are read although the call that sets them failed.\<close>

definition instream_begin_read_alsa ::
  "('j, 'z) alsa_env \<Rightarrow> nat \<Rightarrow> int \<Rightarrow> ('j, 'z) jsio_scheme \<Rightarrow>
   (SoundIoError \<times> SoundIoChannelArea list \<times> int \<times> ('j, 'z) jsio_scheme) option" where
  "instream_begin_read_alsa e p frame_count s = do {
     is \<leftarrow> instreams s p;
     let i = isa is;
     if is_rw (isa_access i) then instream_begin_read_rw e p frame_count s
     else do {
       handle \<leftarrow> isa_handle i;
       let ((err, device_areas, offset, frames), s) = in_world (snd_pcm_mmap_begin (apcm e) handle (word_of_int frame_count)) s;
       (failed, device_areas, offset, frames, s) \<leftarrow>
         (if err < 0 then do {
            (err, s) \<leftarrow> instream_xrun_recovery e p err s;
            Some (err < 0, [], isa_offset i, word_of_int frame_count, s)
          }
          else Some (False, device_areas, offset, frames, s));
       if failed then Some (SoundIoErrorStreaming, [], frame_count, s)
       else do {
         (err, areas) \<leftarrow> mmap_areas device_areas offset [0..<nat (cl_channel_count (is_layout is))] (isa_areas i);
         s \<leftarrow> upd_isa p (\<lambda>i. i\<lparr>isa_offset := offset, isa_areas := areas\<rparr>) s;
         if err \<noteq> SoundIoErrorNone then Some (err, [], frame_count, s)
         else do {
           let n = to_int32 (uint frames);
           s \<leftarrow> upd_isa p (\<lambda>i. i\<lparr>isa_read_frame_count := n\<rparr>) s;
           Some (SoundIoErrorNone, areas, n, s)
         }
       }
     }
   }"

definition instream_end_read_alsa ::
  "('j, 'z) alsa_env \<Rightarrow> nat \<Rightarrow> ('j, 'z) jsio_scheme \<Rightarrow> (SoundIoError \<times> ('j, 'z) jsio_scheme) option" where
  "instream_end_read_alsa e p s = do {
     is \<leftarrow> instreams s p;
     let i = isa is;
     if is_rw (isa_access i) then Some (SoundIoErrorNone, s)
     else do {
       handle \<leftarrow> isa_handle i;
       let n = isa_read_frame_count i;
       let (commitres, s) = in_world (snd_pcm_mmap_commit (apcm e) handle (isa_offset i) (word_of_int n)) s;
       (failed, s) \<leftarrow> check_transfer e p n commitres s;
       Some (if failed then SoundIoErrorStreaming else SoundIoErrorNone, s)
     }
   }"

definition instream_pause_alsa ::
  "('j, 'z) alsa_env \<Rightarrow> nat \<Rightarrow> bool \<Rightarrow> ('j, 'z) jsio_scheme \<Rightarrow> (SoundIoError \<times> ('j, 'z) jsio_scheme) option" where
  "instream_pause_alsa e p pause s = do {
     is \<leftarrow> instreams s p;
     if isa_is_paused (isa is) = pause then Some (SoundIoErrorNone, s)
     else do {
       handle \<leftarrow> isa_handle (isa is);
       try_step (snd_pcm_pause (apcm e) handle pause) (\<lambda>err s. Some (SoundIoErrorIncompatibleDevice, s))
         (\<lambda>s. do { s \<leftarrow> upd_isa p (\<lambda>i. i\<lparr>isa_is_paused := pause\<rparr>) s; Some (SoundIoErrorNone, s) }) s
     }
   }"

definition instream_get_latency_alsa ::
  "('j, 'z) alsa_env \<Rightarrow> nat \<Rightarrow> ('j, 'z) jsio_scheme \<Rightarrow> (SoundIoError \<times> real \<times> ('j, 'z) jsio_scheme) option" where
  "instream_get_latency_alsa e p s = do {
     is \<leftarrow> instreams s p;
     handle \<leftarrow> isa_handle (isa is);
     let ((err, delay), s) = in_world (snd_pcm_delay (apcm e) handle) s;
     if err < 0 then Some (SoundIoErrorStreaming, 0, s)
     else do {
       latency \<leftarrow> dbl_div (real_of_int delay) (real_of_int (is_sample_rate is));
       Some (SoundIoErrorNone, latency, s)
     }
   }"

end
