(* ===== verification/CoreAudioApi.thy ===== *)
theory CoreAudioApi
  imports Jack
begin

section \<open>The interface of CoreAudio and the conversions of src/coreaudio.c\<close>

text \<open>
  CoreAudio and the audio units are not part of the sources: what the backend calls are the fields
  of two records of functions on the state of the external libraries, one for the objects of the
  hardware and their properties, one for audio units. A status of the library is a number that is
  zero when the call succeeded. A property is read by a function for the type of its value;
  strings are handles of the library. The theory also holds the conversions of the backend.
\<close>

subsection \<open>Objects and their properties\<close>

definition kAudioObjectSystemObject :: AudioObjectID where "kAudioObjectSystemObject = 1"

datatype ca_selector =
    kAudioHardwarePropertyDevices | kAudioHardwarePropertyDefaultInputDevice | kAudioHardwarePropertyDefaultOutputDevice
  | kAudioHardwarePropertyServiceRestarted | kAudioObjectPropertyName | kAudioDevicePropertyDeviceHasChanged
  | kAudioDevicePropertyDeviceUID | kAudioDevicePropertyStreamConfiguration | kAudioDevicePropertyPreferredChannelLayout
  | kAudioDevicePropertyNominalSampleRate | kAudioDevicePropertyAvailableNominalSampleRates
  | kAudioDevicePropertyBufferFrameSize | kAudioDevicePropertyBufferFrameSizeRange | kAudioDevicePropertyLatency
  | kAudioDeviceProcessorOverload

datatype ca_scope = kAudioObjectPropertyScopeGlobal | kAudioObjectPropertyScopeInput | kAudioObjectPropertyScopeOutput

definition kAudioObjectPropertyElementMaster :: int where "kAudioObjectPropertyElementMaster = 0"

definition OUTPUT_ELEMENT :: int where "OUTPUT_ELEMENT = 0"
definition INPUT_ELEMENT :: int where "INPUT_ELEMENT = 1"

lemmas element_defs = kAudioObjectPropertyElementMaster_def OUTPUT_ELEMENT_def INPUT_ELEMENT_def

record AudioObjectPropertyAddress =
  mSelector :: ca_selector
  mScope :: ca_scope
  mElement :: int

definition master_property :: "ca_selector \<Rightarrow> ca_scope \<Rightarrow> AudioObjectPropertyAddress" where
  "master_property selector scope =
     \<lparr>mSelector = selector, mScope = scope, mElement = kAudioObjectPropertyElementMaster\<rparr>"

definition system_property :: "ca_selector \<Rightarrow> AudioObjectPropertyAddress" where
  "system_property selector = master_property selector kAudioObjectPropertyScopeGlobal"

definition device_listen_props :: "AudioObjectPropertyAddress list" where
  "device_listen_props = [
     master_property kAudioDevicePropertyDeviceHasChanged kAudioObjectPropertyScopeGlobal,
     master_property kAudioObjectPropertyName kAudioObjectPropertyScopeGlobal,
     master_property kAudioDevicePropertyDeviceUID kAudioObjectPropertyScopeGlobal,
     master_property kAudioDevicePropertyStreamConfiguration kAudioObjectPropertyScopeInput,
     master_property kAudioDevicePropertyStreamConfiguration kAudioObjectPropertyScopeOutput,
     master_property kAudioDevicePropertyPreferredChannelLayout kAudioObjectPropertyScopeInput,
     master_property kAudioDevicePropertyPreferredChannelLayout kAudioObjectPropertyScopeOutput,
     master_property kAudioDevicePropertyNominalSampleRate kAudioObjectPropertyScopeInput,
     master_property kAudioDevicePropertyNominalSampleRate kAudioObjectPropertyScopeOutput,
     master_property kAudioDevicePropertyAvailableNominalSampleRates kAudioObjectPropertyScopeInput,
     master_property kAudioDevicePropertyAvailableNominalSampleRates kAudioObjectPropertyScopeOutput,
     master_property kAudioDevicePropertyBufferFrameSize kAudioObjectPropertyScopeInput,
     master_property kAudioDevicePropertyBufferFrameSize kAudioObjectPropertyScopeOutput,
     master_property kAudioDevicePropertyBufferFrameSizeRange kAudioObjectPropertyScopeInput,
     master_property kAudioDevicePropertyBufferFrameSizeRange kAudioObjectPropertyScopeOutput]"

definition aims :: "SoundIoDeviceAim list" where
  "aims = [SoundIoDeviceAimInput, SoundIoDeviceAimOutput]"

definition aim_to_scope :: "SoundIoDeviceAim \<Rightarrow> ca_scope" where
  "aim_to_scope a = (if a = SoundIoDeviceAimInput then kAudioObjectPropertyScopeInput else kAudioObjectPropertyScopeOutput)"

text \<open>The functions that the library calls when a property changes.\<close>

datatype ca_listener = on_devices_changed_fn | on_service_restarted_fn | on_outstream_device_overload_fn
  | on_instream_device_overload_fn

datatype (plugins only: code) AudioChannelLabel =
    kAudioChannelLabel_Left | kAudioChannelLabel_Right | kAudioChannelLabel_Center | kAudioChannelLabel_LFEScreen
  | kAudioChannelLabel_LeftSurround | kAudioChannelLabel_RightSurround | kAudioChannelLabel_LeftCenter
  | kAudioChannelLabel_RightCenter | kAudioChannelLabel_CenterSurround | kAudioChannelLabel_LeftSurroundDirect
  | kAudioChannelLabel_RightSurroundDirect | kAudioChannelLabel_TopCenterSurround
  | kAudioChannelLabel_VerticalHeightLeft | kAudioChannelLabel_VerticalHeightCenter
  | kAudioChannelLabel_VerticalHeightRight | kAudioChannelLabel_TopBackLeft | kAudioChannelLabel_TopBackCenter
  | kAudioChannelLabel_TopBackRight | kAudioChannelLabel_RearSurroundLeft | kAudioChannelLabel_RearSurroundRight
  | kAudioChannelLabel_LeftWide | kAudioChannelLabel_RightWide | kAudioChannelLabel_LFE2
  | kAudioChannelLabel_LeftTotal | kAudioChannelLabel_RightTotal | kAudioChannelLabel_HearingImpaired
  | kAudioChannelLabel_Narration | kAudioChannelLabel_Mono | kAudioChannelLabel_DialogCentricMix
  | kAudioChannelLabel_CenterSurroundDirect | kAudioChannelLabel_Haptic | kAudioChannelLabel_Ambisonic_W
  | kAudioChannelLabel_Ambisonic_X | kAudioChannelLabel_Ambisonic_Y | kAudioChannelLabel_Ambisonic_Z
  | kAudioChannelLabel_MS_Mid | kAudioChannelLabel_MS_Side | kAudioChannelLabel_XY_X | kAudioChannelLabel_XY_Y
  | kAudioChannelLabel_HeadphonesLeft | kAudioChannelLabel_HeadphonesRight | kAudioChannelLabel_ClickTrack
  | kAudioChannelLabel_ForeignLanguage | kAudioChannelLabel_Discrete | kAudioChannelLabel_Discrete_0
  | kAudioChannelLabel_Discrete_1 | kAudioChannelLabel_Discrete_2 | kAudioChannelLabel_Discrete_3
  | kAudioChannelLabel_Discrete_4 | kAudioChannelLabel_Discrete_5 | kAudioChannelLabel_Discrete_6
  | kAudioChannelLabel_Discrete_7 | kAudioChannelLabel_Discrete_8 | kAudioChannelLabel_Discrete_9
  | kAudioChannelLabel_Discrete_10 | kAudioChannelLabel_Discrete_11 | kAudioChannelLabel_Discrete_12
  | kAudioChannelLabel_Discrete_13 | kAudioChannelLabel_Discrete_14 | kAudioChannelLabel_Discrete_15
  | kAudioChannelLabel_OTHER nat

datatype (plugins only: code) AudioChannelLayoutTag =
    kAudioChannelLayoutTag_UseChannelDescriptions | kAudioChannelLayoutTag_UseChannelBitmap
  | kAudioChannelLayoutTag_Mono | kAudioChannelLayoutTag_Stereo | kAudioChannelLayoutTag_StereoHeadphones
  | kAudioChannelLayoutTag_MatrixStereo | kAudioChannelLayoutTag_Binaural | kAudioChannelLayoutTag_XY
  | kAudioChannelLayoutTag_MidSide | kAudioChannelLayoutTag_Ambisonic_B_Format | kAudioChannelLayoutTag_Quadraphonic
  | kAudioChannelLayoutTag_Pentagonal | kAudioChannelLayoutTag_Hexagonal | kAudioChannelLayoutTag_Octagonal
  | kAudioChannelLayoutTag_Cube | kAudioChannelLayoutTag_OTHER nat

text \<open>A layout has a tag, a count and as many descriptions as follow it in memory.\<close>

record AudioChannelLayout =
  mChannelLayoutTag :: AudioChannelLayoutTag
  mNumberChannelDescriptions :: "32 word"
  mChannelDescriptions :: "AudioChannelLabel list"

record AudioValueRange =
  mMinimum :: real
  mMaximum :: real

definition value_range_zero :: AudioValueRange where
  "value_range_zero = \<lparr>mMinimum = 0, mMaximum = 0\<rparr>"

text \<open>
  The hardware. A listener is added and removed with a client pointer, here the block it points to.
  The size of a property is in bytes.
\<close>

record 'j ca_hal =
  AudioObjectAddPropertyListener :: "AudioObjectID \<Rightarrow> AudioObjectPropertyAddress \<Rightarrow> ca_listener \<Rightarrow> nat \<Rightarrow> 'j \<Rightarrow> int \<times> 'j"
  AudioObjectRemovePropertyListener :: "AudioObjectID \<Rightarrow> AudioObjectPropertyAddress \<Rightarrow> ca_listener \<Rightarrow> nat \<Rightarrow> 'j \<Rightarrow> 'j"
  AudioObjectGetPropertyDataSize :: "AudioObjectID \<Rightarrow> AudioObjectPropertyAddress \<Rightarrow> 'j \<Rightarrow> (int \<times> 32 word) \<times> 'j"
  get_property_ids :: "AudioObjectID \<Rightarrow> AudioObjectPropertyAddress \<Rightarrow> 'j \<Rightarrow> (int \<times> AudioObjectID list) \<times> 'j"
  get_property_id :: "AudioObjectID \<Rightarrow> AudioObjectPropertyAddress \<Rightarrow> 'j \<Rightarrow> (int \<times> AudioObjectID) \<times> 'j"
  get_property_string :: "AudioObjectID \<Rightarrow> AudioObjectPropertyAddress \<Rightarrow> 'j \<Rightarrow> (int \<times> nat option) \<times> 'j"
  get_property_buffers :: "AudioObjectID \<Rightarrow> AudioObjectPropertyAddress \<Rightarrow> 'j \<Rightarrow> (int \<times> AudioBuffer list) \<times> 'j"
  get_property_layout :: "AudioObjectID \<Rightarrow> AudioObjectPropertyAddress \<Rightarrow> 'j \<Rightarrow> (int \<times> AudioChannelLayout) \<times> 'j"
  get_property_double :: "AudioObjectID \<Rightarrow> AudioObjectPropertyAddress \<Rightarrow> 'j \<Rightarrow> (int \<times> real) \<times> 'j"
  get_property_ranges :: "AudioObjectID \<Rightarrow> AudioObjectPropertyAddress \<Rightarrow> 'j \<Rightarrow> (int \<times> AudioValueRange list) \<times> 'j"
  get_property_range :: "AudioObjectID \<Rightarrow> AudioObjectPropertyAddress \<Rightarrow> 'j \<Rightarrow> (int \<times> AudioValueRange) \<times> 'j"
  get_property_uint32 :: "AudioObjectID \<Rightarrow> AudioObjectPropertyAddress \<Rightarrow> 'j \<Rightarrow> (int \<times> 32 word) \<times> 'j"
  set_property_uint32 :: "AudioObjectID \<Rightarrow> AudioObjectPropertyAddress \<Rightarrow> 32 word \<Rightarrow> 'j \<Rightarrow> int \<times> 'j"
  CFStringGetLength :: "nat \<Rightarrow> 'j \<Rightarrow> int"
  CFStringGetMaximumSizeForEncoding :: "int \<Rightarrow> int"
  CFStringGetCString :: "nat \<Rightarrow> int \<Rightarrow> 'j \<Rightarrow> string option"
  CFRelease :: "nat \<Rightarrow> 'j \<Rightarrow> 'j"

subsection \<open>Audio units\<close>

datatype ca_format_flags = NoFormatFlags | kAudioFormatFlagIsFloat | kAudioFormatFlagIsSignedInteger

text \<open>The format is always linear PCM. A fresh description is all zero.\<close>

record AudioStreamBasicDescription =
  mSampleRate :: real
  mFormatFlags :: ca_format_flags
  mBytesPerPacket :: "32 word"
  mFramesPerPacket :: "32 word"
  mBytesPerFrame :: "32 word"
  mChannelsPerFrame :: "32 word"
  mBitsPerChannel :: "32 word"

datatype ca_unit_scope = kAudioUnitScope_Global | kAudioUnitScope_Input | kAudioUnitScope_Output

text \<open>A property of a unit with its value; a callback comes with the stream that it is called for.\<close>

datatype ca_unit_property =
    kAudioOutputUnitProperty_CurrentDevice AudioObjectID
  | kAudioUnitProperty_StreamFormat AudioStreamBasicDescription
  | kAudioUnitProperty_SetRenderCallback nat
  | kAudioOutputUnitProperty_SetInputCallback nat
  | kAudioOutputUnitProperty_EnableIO "32 word"

text \<open>
  Rendering fills in the buffers that the caller describes. The only parameter of a unit that the
  code uses is the volume.
\<close>

record 'j ca_unit =
  AudioComponentFindNext :: "'j \<Rightarrow> nat option \<times> 'j"
  AudioComponentInstanceNew :: "nat \<Rightarrow> 'j \<Rightarrow> (int \<times> nat option) \<times> 'j"
  AudioComponentInstanceDispose :: "nat \<Rightarrow> 'j \<Rightarrow> 'j"
  AudioUnitInitialize :: "nat \<Rightarrow> 'j \<Rightarrow> int \<times> 'j"
  AudioUnitSetProperty :: "nat \<Rightarrow> ca_unit_property \<Rightarrow> ca_unit_scope \<Rightarrow> int \<Rightarrow> 'j \<Rightarrow> int \<times> 'j"
  AudioUnitGetParameter :: "nat \<Rightarrow> 'j \<Rightarrow> (int \<times> real) \<times> 'j"
  AudioUnitSetParameter :: "nat \<Rightarrow> real \<Rightarrow> 'j \<Rightarrow> int \<times> 'j"
  AudioOutputUnitStart :: "nat \<Rightarrow> 'j \<Rightarrow> int \<times> 'j"
  AudioOutputUnitStop :: "nat \<Rightarrow> 'j \<Rightarrow> int \<times> 'j"
  AudioUnitRender :: "nat \<Rightarrow> 32 word \<Rightarrow> AudioBuffer list \<Rightarrow> 'j \<Rightarrow> (int \<times> AudioBuffer list) \<times> 'j"

text \<open>The external world of the backend: the library and the callbacks of the application that carry data.\<close>

record ('j, 'z) ca_env =
  chal :: "'j ca_hal"
  cunit :: "'j ca_unit"
  ca_write_callback :: "('j, 'z) jsio_ext callback"
  ca_read_callback :: "('j, 'z) jsio_ext callback"

subsection \<open>Conversions\<close>

definition from_channel_descr :: "AudioChannelLabel \<Rightarrow> SoundIoChannelId" where
  "from_channel_descr descr =
     (case descr of
        kAudioChannelLabel_Left \<Rightarrow> SoundIoChannelIdFrontLeft
      | kAudioChannelLabel_Right \<Rightarrow> SoundIoChannelIdFrontRight
      | kAudioChannelLabel_Center \<Rightarrow> SoundIoChannelIdFrontCenter
      | kAudioChannelLabel_LFEScreen \<Rightarrow> SoundIoChannelIdLfe
      | kAudioChannelLabel_LeftSurround \<Rightarrow> SoundIoChannelIdBackLeft
      | kAudioChannelLabel_RightSurround \<Rightarrow> SoundIoChannelIdBackRight
      | kAudioChannelLabel_LeftCenter \<Rightarrow> SoundIoChannelIdFrontLeftCenter
      | kAudioChannelLabel_RightCenter \<Rightarrow> SoundIoChannelIdFrontRightCenter
      | kAudioChannelLabel_CenterSurround \<Rightarrow> SoundIoChannelIdBackCenter
      | kAudioChannelLabel_LeftSurroundDirect \<Rightarrow> SoundIoChannelIdSideLeft
      | kAudioChannelLabel_RightSurroundDirect \<Rightarrow> SoundIoChannelIdSideRight
      | kAudioChannelLabel_TopCenterSurround \<Rightarrow> SoundIoChannelIdTopCenter
      | kAudioChannelLabel_VerticalHeightLeft \<Rightarrow> SoundIoChannelIdTopFrontLeft
      | kAudioChannelLabel_VerticalHeightCenter \<Rightarrow> SoundIoChannelIdTopFrontCenter
      | kAudioChannelLabel_VerticalHeightRight \<Rightarrow> SoundIoChannelIdTopFrontRight
      | kAudioChannelLabel_TopBackLeft \<Rightarrow> SoundIoChannelIdTopBackLeft
      | kAudioChannelLabel_TopBackCenter \<Rightarrow> SoundIoChannelIdTopBackCenter
      | kAudioChannelLabel_TopBackRight \<Rightarrow> SoundIoChannelIdTopBackRight
      | kAudioChannelLabel_RearSurroundLeft \<Rightarrow> SoundIoChannelIdBackLeft
      | kAudioChannelLabel_RearSurroundRight \<Rightarrow> SoundIoChannelIdBackRight
      | kAudioChannelLabel_LeftWide \<Rightarrow> SoundIoChannelIdFrontLeftWide
      | kAudioChannelLabel_RightWide \<Rightarrow> SoundIoChannelIdFrontRightWide
      | kAudioChannelLabel_LFE2 \<Rightarrow> SoundIoChannelIdLfe2
      | kAudioChannelLabel_LeftTotal \<Rightarrow> SoundIoChannelIdFrontLeft
      | kAudioChannelLabel_RightTotal \<Rightarrow> SoundIoChannelIdFrontRight
      | kAudioChannelLabel_HearingImpaired \<Rightarrow> SoundIoChannelIdHearingImpaired
      | kAudioChannelLabel_Narration \<Rightarrow> SoundIoChannelIdNarration
      | kAudioChannelLabel_Mono \<Rightarrow> SoundIoChannelIdFrontCenter
      | kAudioChannelLabel_DialogCentricMix \<Rightarrow> SoundIoChannelIdDialogCentricMix
      | kAudioChannelLabel_CenterSurroundDirect \<Rightarrow> SoundIoChannelIdBackCenter
      | kAudioChannelLabel_Haptic \<Rightarrow> SoundIoChannelIdHaptic
      | kAudioChannelLabel_Ambisonic_W \<Rightarrow> SoundIoChannelIdAmbisonicW
      | kAudioChannelLabel_Ambisonic_X \<Rightarrow> SoundIoChannelIdAmbisonicX
      | kAudioChannelLabel_Ambisonic_Y \<Rightarrow> SoundIoChannelIdAmbisonicY
      | kAudioChannelLabel_Ambisonic_Z \<Rightarrow> SoundIoChannelIdAmbisonicZ
      | kAudioChannelLabel_MS_Mid \<Rightarrow> SoundIoChannelIdMsMid
      | kAudioChannelLabel_MS_Side \<Rightarrow> SoundIoChannelIdMsSide
      | kAudioChannelLabel_XY_X \<Rightarrow> SoundIoChannelIdXyX
      | kAudioChannelLabel_XY_Y \<Rightarrow> SoundIoChannelIdXyY
      | kAudioChannelLabel_HeadphonesLeft \<Rightarrow> SoundIoChannelIdHeadphonesLeft
      | kAudioChannelLabel_HeadphonesRight \<Rightarrow> SoundIoChannelIdHeadphonesRight
      | kAudioChannelLabel_ClickTrack \<Rightarrow> SoundIoChannelIdClickTrack
      | kAudioChannelLabel_ForeignLanguage \<Rightarrow> SoundIoChannelIdForeignLanguage
      | kAudioChannelLabel_Discrete \<Rightarrow> SoundIoChannelIdAux
      | kAudioChannelLabel_Discrete_0 \<Rightarrow> SoundIoChannelIdAux0
      | kAudioChannelLabel_Discrete_1 \<Rightarrow> SoundIoChannelIdAux1
      | kAudioChannelLabel_Discrete_2 \<Rightarrow> SoundIoChannelIdAux2
      | kAudioChannelLabel_Discrete_3 \<Rightarrow> SoundIoChannelIdAux3
      | kAudioChannelLabel_Discrete_4 \<Rightarrow> SoundIoChannelIdAux4
      | kAudioChannelLabel_Discrete_5 \<Rightarrow> SoundIoChannelIdAux5
      | kAudioChannelLabel_Discrete_6 \<Rightarrow> SoundIoChannelIdAux6
      | kAudioChannelLabel_Discrete_7 \<Rightarrow> SoundIoChannelIdAux7
      | kAudioChannelLabel_Discrete_8 \<Rightarrow> SoundIoChannelIdAux8
      | kAudioChannelLabel_Discrete_9 \<Rightarrow> SoundIoChannelIdAux9
      | kAudioChannelLabel_Discrete_10 \<Rightarrow> SoundIoChannelIdAux10
      | kAudioChannelLabel_Discrete_11 \<Rightarrow> SoundIoChannelIdAux11
      | kAudioChannelLabel_Discrete_12 \<Rightarrow> SoundIoChannelIdAux12
      | kAudioChannelLabel_Discrete_13 \<Rightarrow> SoundIoChannelIdAux13
      | kAudioChannelLabel_Discrete_14 \<Rightarrow> SoundIoChannelIdAux14
      | kAudioChannelLabel_Discrete_15 \<Rightarrow> SoundIoChannelIdAux15
      | kAudioChannelLabel_OTHER n \<Rightarrow> SoundIoChannelIdInvalid)"

text \<open>The assignments of a case: the count and the channels in order.\<close>

definition assign_channels :: "SoundIoChannelId list \<Rightarrow> SoundIoChannelLayout \<Rightarrow> SoundIoChannelLayout option" where
  "assign_channels ids layout =
     for_each (\<lambda>i layout. do {
         channels \<leftarrow> arr_set (cl_channels layout) (int i) (ids ! i);
         Some (layout\<lparr>cl_channels := channels\<rparr>)
       }) [0..<length ids] (layout\<lparr>cl_channel_count := int (length ids)\<rparr>)"

definition describe_channels :: "AudioChannelLayout \<Rightarrow> SoundIoChannelLayout \<Rightarrow> SoundIoChannelLayout option" where
  "describe_channels ca_layout layout = do {
     let n = soundio_int_min (int SOUNDIO_MAX_CHANNELS) (sint (mNumberChannelDescriptions ca_layout));
     for_each (\<lambda>i layout. do {
         descr \<leftarrow> arr_at (mChannelDescriptions ca_layout) (int i);
         channels \<leftarrow> arr_set (cl_channels layout) (int i) (from_channel_descr descr);
         Some (layout\<lparr>cl_channels := channels\<rparr>)
       }) [0..<nat n] (layout\<lparr>cl_channel_count := n\<rparr>)
   }"

text \<open>The channels of the tags that stand for fixed layouts.\<close>

definition tag_channels :: "AudioChannelLayoutTag \<Rightarrow> SoundIoChannelId list option" where
  "tag_channels tag =
     (case tag of
        kAudioChannelLayoutTag_UseChannelDescriptions \<Rightarrow> None
      | kAudioChannelLayoutTag_UseChannelBitmap \<Rightarrow> None
      | kAudioChannelLayoutTag_Mono \<Rightarrow> Some [SoundIoChannelIdFrontCenter]
      | kAudioChannelLayoutTag_Stereo \<Rightarrow> Some [SoundIoChannelIdFrontLeft, SoundIoChannelIdFrontRight]
      | kAudioChannelLayoutTag_StereoHeadphones \<Rightarrow> Some [SoundIoChannelIdFrontLeft, SoundIoChannelIdFrontRight]
      | kAudioChannelLayoutTag_MatrixStereo \<Rightarrow> Some [SoundIoChannelIdFrontLeft, SoundIoChannelIdFrontRight]
      | kAudioChannelLayoutTag_Binaural \<Rightarrow> Some [SoundIoChannelIdFrontLeft, SoundIoChannelIdFrontRight]
      | kAudioChannelLayoutTag_XY \<Rightarrow> Some [SoundIoChannelIdXyX, SoundIoChannelIdXyY]
      | kAudioChannelLayoutTag_MidSide \<Rightarrow> Some [SoundIoChannelIdMsMid, SoundIoChannelIdMsSide]
      | kAudioChannelLayoutTag_Ambisonic_B_Format \<Rightarrow> Some [SoundIoChannelIdAmbisonicW,
          SoundIoChannelIdAmbisonicX, SoundIoChannelIdAmbisonicY, SoundIoChannelIdAmbisonicZ]
      | kAudioChannelLayoutTag_Quadraphonic \<Rightarrow> Some [SoundIoChannelIdFrontLeft, SoundIoChannelIdFrontRight,
          SoundIoChannelIdBackLeft, SoundIoChannelIdBackRight]
      | kAudioChannelLayoutTag_Pentagonal \<Rightarrow> Some [SoundIoChannelIdSideLeft, SoundIoChannelIdSideRight,
          SoundIoChannelIdBackLeft, SoundIoChannelIdBackRight, SoundIoChannelIdFrontCenter]
      | kAudioChannelLayoutTag_Hexagonal \<Rightarrow> Some [SoundIoChannelIdFrontLeft, SoundIoChannelIdFrontRight,
          SoundIoChannelIdBackLeft, SoundIoChannelIdBackRight, SoundIoChannelIdFrontCenter, SoundIoChannelIdBackCenter]
      | kAudioChannelLayoutTag_Octagonal \<Rightarrow> Some [SoundIoChannelIdFrontLeft, SoundIoChannelIdFrontRight,
          SoundIoChannelIdBackLeft, SoundIoChannelIdBackRight, SoundIoChannelIdFrontCenter, SoundIoChannelIdBackCenter,
          SoundIoChannelIdSideLeft, SoundIoChannelIdSideRight]
      | kAudioChannelLayoutTag_Cube \<Rightarrow> Some [SoundIoChannelIdFrontLeft, SoundIoChannelIdFrontRight,
          SoundIoChannelIdBackLeft, SoundIoChannelIdBackRight, SoundIoChannelIdTopFrontLeft, SoundIoChannelIdTopFrontRight,
          SoundIoChannelIdTopBackLeft, SoundIoChannelIdTopBackRight]
      | kAudioChannelLayoutTag_OTHER n \<Rightarrow> None)"

definition from_coreaudio_layout ::
  "AudioChannelLayout \<Rightarrow> SoundIoChannelLayout \<Rightarrow> (SoundIoError \<times> SoundIoChannelLayout) option" where
  "from_coreaudio_layout ca_layout layout =
     (let named = (\<lambda>layout. do {
          (found, layout) \<leftarrow> soundio_channel_layout_detect_builtin layout;
          Some (SoundIoErrorNone, layout)
        })
      in if mChannelLayoutTag ca_layout = kAudioChannelLayoutTag_UseChannelDescriptions then
           Option.bind (describe_channels ca_layout layout) named
         else case tag_channels (mChannelLayoutTag ca_layout) of
           None \<Rightarrow> Some (SoundIoErrorIncompatibleDevice, layout)
         | Some ids \<Rightarrow> Option.bind (assign_channels ids layout) named)"

definition all_channels_invalid :: "SoundIoChannelLayout \<Rightarrow> bool option" where
  "all_channels_invalid layout = do {
     valid \<leftarrow> any_r (\<lambda>i. do { c \<leftarrow> arr_at (cl_channels layout) i; Some (c \<noteq> SoundIoChannelIdInvalid) })
       [0..cl_channel_count layout - 1];
     Some (\<not> valid)
   }"

definition stream_description :: AudioStreamBasicDescription where
  "stream_description = \<lparr>mSampleRate = 0, mFormatFlags = NoFormatFlags, mBytesPerPacket = 0, mFramesPerPacket = 0,
     mBytesPerFrame = 0, mChannelsPerFrame = 0, mBitsPerChannel = 0\<rparr>"

definition set_ca_desc ::
  "SoundIoFormat \<Rightarrow> AudioStreamBasicDescription \<Rightarrow> SoundIoError \<times> AudioStreamBasicDescription" where
  "set_ca_desc fmt desc =
     (case fmt of
        SoundIoFormatFloat32LE \<Rightarrow> (SoundIoErrorNone, desc\<lparr>mFormatFlags := kAudioFormatFlagIsFloat, mBitsPerChannel := 32\<rparr>)
      | SoundIoFormatFloat64LE \<Rightarrow> (SoundIoErrorNone, desc\<lparr>mFormatFlags := kAudioFormatFlagIsFloat, mBitsPerChannel := 64\<rparr>)
      | SoundIoFormatS32LE \<Rightarrow> (SoundIoErrorNone, desc\<lparr>mFormatFlags := kAudioFormatFlagIsSignedInteger, mBitsPerChannel := 32\<rparr>)
      | SoundIoFormatS16LE \<Rightarrow> (SoundIoErrorNone, desc\<lparr>mFormatFlags := kAudioFormatFlagIsSignedInteger, mBitsPerChannel := 16\<rparr>)
      | SoundIoFormatS24LE \<Rightarrow> (SoundIoErrorNone, desc\<lparr>mFormatFlags := kAudioFormatFlagIsSignedInteger, mBitsPerChannel := 24\<rparr>)
      | _ \<Rightarrow> (SoundIoErrorIncompatibleDevice, desc))"

text \<open>A conversion to \<open>UInt32\<close> that loses the value is undefined.\<close>

definition dbl_to_uint32 :: "real \<Rightarrow> 32 word option" where
  "dbl_to_uint32 x = do {
     c_assert (0 \<le> dbl_trunc x \<and> dbl_trunc x < 2 ^ 32);
     Some (word_of_int (dbl_trunc x))
   }"

end
