(* ===== verification/CoreAudio.thy ===== *)
theory CoreAudio
  imports CoreAudioApi Dummy
begin

section \<open>src/coreaudio.c: the scan of the devices\<close>

text \<open>
  The listeners for changes and \<open>refresh_devices\<close>. What the scan holds until it ends is the struct
  \<open>RefreshDevices\<close>; every error path hands it to \<open>deinit_refresh_devices\<close>, except one. A step of the
  scan gives an error, the struct and the state. The contents of the arrays that the struct points
  to are passed along.
\<close>

abbreviation upd_sica :: "nat \<Rightarrow> (SoundIoCoreAudio \<Rightarrow> SoundIoCoreAudio) \<Rightarrow> 'z sio_scheme \<Rightarrow> 'z sio_scheme option" where
  "upd_sica si f \<equiv> upd_sio si (\<lambda>x. x\<lparr>coreaudio := f (coreaudio x)\<rparr>)"

abbreviation upd_osca :: "nat \<Rightarrow> (SoundIoOutStreamCoreAudio \<Rightarrow> SoundIoOutStreamCoreAudio) \<Rightarrow> 'z sio_scheme \<Rightarrow> 'z sio_scheme option" where
  "upd_osca p f \<equiv> upd_out p (\<lambda>x. x\<lparr>osca := f (osca x)\<rparr>)"

abbreviation upd_isca :: "nat \<Rightarrow> (SoundIoInStreamCoreAudio \<Rightarrow> SoundIoInStreamCoreAudio) \<Rightarrow> 'z sio_scheme \<Rightarrow> 'z sio_scheme option" where
  "upd_isca p f \<equiv> upd_in p (\<lambda>x. x\<lparr>isca := f (isca x)\<rparr>)"

text \<open>A call of the library in the middle of a sequence: a status other than zero is an error.\<close>

definition hal_read :: "('j \<Rightarrow> (int \<times> 'a) \<times> 'j) \<Rightarrow> (('j, 'z) jsio_scheme \<Rightarrow> 'r option) \<Rightarrow>
    ('a \<Rightarrow> ('j, 'z) jsio_scheme \<Rightarrow> 'r option) \<Rightarrow> ('j, 'z) jsio_scheme \<Rightarrow> 'r option" where
  "hal_read call fail next s = (let ((os_err, v), s) = in_world call s in if os_err \<noteq> 0 then fail s else next v s)"

definition hal_do :: "('j \<Rightarrow> int \<times> 'j) \<Rightarrow> (('j, 'z) jsio_scheme \<Rightarrow> 'r option) \<Rightarrow>
    (('j, 'z) jsio_scheme \<Rightarrow> 'r option) \<Rightarrow> ('j, 'z) jsio_scheme \<Rightarrow> 'r option" where
  "hal_do call fail next s = (let (os_err, s) = in_world call s in if os_err \<noteq> 0 then fail s else next s)"

subsection \<open>Listeners\<close>

definition signal_device_scan :: "nat \<Rightarrow> 'z sio_scheme \<Rightarrow> 'z sio_scheme option" where
  "signal_device_scan si s = do { x \<leftarrow> sios s si; soundio_os_cond_signal (scan_devices_cond (coreaudio x)) None s }"

definition on_devices_changed :: "nat \<Rightarrow> 'z sio_scheme \<Rightarrow> 'z sio_scheme option" where
  "on_devices_changed si s = do {
     s \<leftarrow> upd_sica si (\<lambda>a. a\<lparr>ca_device_scan_queued := True\<rparr>) s;
     signal_device_scan si s
   }"

definition on_service_restarted :: "nat \<Rightarrow> 'z sio_scheme \<Rightarrow> 'z sio_scheme option" where
  "on_service_restarted si s = do {
     s \<leftarrow> upd_sica si (\<lambda>a. a\<lparr>service_restarted := True\<rparr>) s;
     signal_device_scan si s
   }"

definition remove_listeners ::
  "('j, 'z) ca_env \<Rightarrow> nat \<Rightarrow> AudioObjectID \<Rightarrow> ('j, 'z) jsio_scheme \<Rightarrow> ('j, 'z) jsio_scheme" where
  "remove_listeners e si device_id s =
     fold (\<lambda>prop. the_world (AudioObjectRemovePropertyListener (chal e) device_id prop on_devices_changed_fn si))
       device_listen_props s"

definition unsubscribe_device_listeners ::
  "('j, 'z) ca_env \<Rightarrow> nat \<Rightarrow> ('j, 'z) jsio_scheme \<Rightarrow> ('j, 'z) jsio_scheme option" where
  "unsubscribe_device_listeners e si s = do {
     x \<leftarrow> sios s si;
     let l = registered_listeners (coreaudio x);
     s \<leftarrow> for_each (\<lambda>device_index s. do {
         device_id \<leftarrow> list_val_at l (int device_index);
         Some (remove_listeners e si device_id s)
       }) [0..<nat (l_length l)] s;
     upd_sica si (\<lambda>a. a\<lparr>registered_listeners := list_clear (registered_listeners a)\<rparr>) s
   }"

subsection \<open>What the scan holds\<close>

record RefreshDevices =
  rd_devices_info :: "nat option"
  rd_devices :: "nat option"
  rd_string_ref :: "nat option"
  rd_device_name :: cstring
  rd_device_name_len :: int
  rd_buffer_list :: "nat option"
  rd_device :: "nat option"
  rd_audio_channel_layout :: "nat option"
  rd_device_uid :: cstring
  rd_device_uid_len :: int
  rd_avr_array :: "nat option"
  rd_ok :: bool

definition rd_zero :: RefreshDevices where
  "rd_zero = \<lparr>rd_devices_info = None, rd_devices = None, rd_string_ref = None, rd_device_name = None,
     rd_device_name_len = 0, rd_buffer_list = None, rd_device = None, rd_audio_channel_layout = None,
     rd_device_uid = None, rd_device_uid_len = 0, rd_avr_array = None, rd_ok = False\<rparr>"

definition release_string :: "('j, 'z) ca_env \<Rightarrow> RefreshDevices \<Rightarrow> ('j, 'z) jsio_scheme \<Rightarrow> ('j, 'z) jsio_scheme" where
  "release_string e rd s = (case rd_string_ref rd of None \<Rightarrow> s | Some ref \<Rightarrow> the_world (CFRelease (chal e) ref) s)"

definition deinit_refresh_devices ::
  "('j, 'z) ca_env \<Rightarrow> nat \<Rightarrow> RefreshDevices \<Rightarrow> ('j, 'z) jsio_scheme \<Rightarrow> ('j, 'z) jsio_scheme option" where
  "deinit_refresh_devices e si rd s = do {
     s \<leftarrow> (if rd_ok rd then Some s else unsubscribe_device_listeners e si s);
     s \<leftarrow> soundio_destroy_devices_info (rd_devices_info rd) s;
     s \<leftarrow> free_blk (rd_devices rd) s;
     let s = release_string e rd s;
     s \<leftarrow> free_blk (str_blk (rd_device_name rd)) s;
     s \<leftarrow> free_blk (rd_buffer_list rd) s;
     s \<leftarrow> soundio_device_unref (rd_device rd) s;
     s \<leftarrow> free_blk (rd_audio_channel_layout rd) s;
     s \<leftarrow> free_blk (str_blk (rd_device_uid rd)) s;
     free_blk (rd_avr_array rd) s
   }"

type_synonym ('j, 'z) scan_result = "(SoundIoError \<times> RefreshDevices \<times> ('j, 'z) jsio_scheme) option"

definition refresh_failed ::
  "('j, 'z) ca_env \<Rightarrow> nat \<Rightarrow> RefreshDevices \<Rightarrow> SoundIoError \<Rightarrow> ('j, 'z) jsio_scheme \<Rightarrow> ('j, 'z) scan_result" where
  "refresh_failed e si rd err s = do { s \<leftarrow> deinit_refresh_devices e si rd s; Some (err, rd, s) }"

text \<open>The next step of the scan, unless there was an error.\<close>

definition rd_then ::
  "('j, 'z) scan_result \<Rightarrow> (RefreshDevices \<Rightarrow> ('j, 'z) jsio_scheme \<Rightarrow> ('j, 'z) scan_result) \<Rightarrow> ('j, 'z) scan_result" where
  "rd_then m k = do { (err, rd, s) \<leftarrow> m; if err \<noteq> SoundIoErrorNone then Some (err, rd, s) else k rd s }"

text \<open>A new listener is counted before it is added, and its device is written down afterwards.\<close>

fun subscribe_device_listeners ::
  "('j, 'z) ca_env \<Rightarrow> nat \<Rightarrow> AudioObjectID \<Rightarrow> AudioObjectPropertyAddress list \<Rightarrow> RefreshDevices \<Rightarrow>
   ('j, 'z) jsio_scheme \<Rightarrow> ('j, 'z) scan_result" where
  "subscribe_device_listeners e si device_id [] rd s = Some (SoundIoErrorNone, rd, s)"
| "subscribe_device_listeners e si device_id (prop # props) rd s = do {
     x \<leftarrow> sios s si;
     (err, l, s) \<leftarrow> list_add_one (registered_listeners (coreaudio x)) s;
     s \<leftarrow> upd_sica si (\<lambda>a. a\<lparr>registered_listeners := l\<rparr>) s;
     if err \<noteq> SoundIoErrorNone then refresh_failed e si rd SoundIoErrorOpeningDevice s
     else hal_do (AudioObjectAddPropertyListener (chal e) device_id prop on_devices_changed_fn si)
       (refresh_failed e si rd SoundIoErrorOpeningDevice)
       (\<lambda>s. do {
         i \<leftarrow> list_last_ptr l;
         l \<leftarrow> list_store l i device_id;
         s \<leftarrow> upd_sica si (\<lambda>a. a\<lparr>registered_listeners := l\<rparr>) s;
         subscribe_device_listeners e si device_id props rd s
       }) s
   }"

subsection \<open>Names\<close>

text \<open>The string and its block, or an error.\<close>

definition from_cf_string ::
  "('j, 'z) ca_env \<Rightarrow> nat \<Rightarrow> ('j, 'z) jsio_scheme \<Rightarrow> (SoundIoError \<times> cstring \<times> ('j, 'z) jsio_scheme) option" where
  "from_cf_string e string_ref s =
     (let max_size = CFStringGetMaximumSizeForEncoding (chal e) (CFStringGetLength (chal e) string_ref (world s));
          (buf, s) = alloc s
      in case buf of None \<Rightarrow> Some (SoundIoErrorNoMem, None, s)
      | Some b \<Rightarrow>
          (case CFStringGetCString (chal e) string_ref max_size (world s) of
             None \<Rightarrow> do { s \<leftarrow> free_blk (Some b) s; Some (SoundIoErrorEncodingString, None, s) }
           | Some str \<Rightarrow> Some (SoundIoErrorNone, Some (b, str), s)))"

definition fetch_string ::
  "('j, 'z) ca_env \<Rightarrow> nat \<Rightarrow> AudioObjectID \<Rightarrow> ca_selector \<Rightarrow> RefreshDevices \<Rightarrow> ('j, 'z) jsio_scheme \<Rightarrow>
   ('j, 'z) scan_result" where
  "fetch_string e si device_id selector rd s =
     (let s = release_string e rd s;
          ((os_err, ref), s) = in_world (get_property_string (chal e) device_id (system_property selector)) s;
          rd = rd\<lparr>rd_string_ref := ref\<rparr>
      in if os_err \<noteq> 0 then refresh_failed e si rd SoundIoErrorOpeningDevice s else Some (SoundIoErrorNone, rd, s))"

definition scan_name ::
  "('j, 'z) ca_env \<Rightarrow> nat \<Rightarrow> AudioObjectID \<Rightarrow> RefreshDevices \<Rightarrow> ('j, 'z) jsio_scheme \<Rightarrow> ('j, 'z) scan_result" where
  "scan_name e si device_id rd s =
     rd_then (fetch_string e si device_id kAudioObjectPropertyName rd s) (\<lambda>rd s. do {
       s \<leftarrow> free_blk (str_blk (rd_device_name rd)) s;
       let rd = rd\<lparr>rd_device_name := None\<rparr>;
       ref \<leftarrow> rd_string_ref rd;
       (err, str, s) \<leftarrow> from_cf_string e ref s;
       if err \<noteq> SoundIoErrorNone then refresh_failed e si rd err s
       else do {
         (b, name) \<leftarrow> str;
         Some (SoundIoErrorNone, rd\<lparr>rd_device_name := str, rd_device_name_len := int (length name)\<rparr>, s)
       }
     })"

definition scan_uid ::
  "('j, 'z) ca_env \<Rightarrow> nat \<Rightarrow> AudioObjectID \<Rightarrow> RefreshDevices \<Rightarrow> ('j, 'z) jsio_scheme \<Rightarrow> ('j, 'z) scan_result" where
  "scan_uid e si device_id rd s =
     rd_then (fetch_string e si device_id kAudioDevicePropertyDeviceUID rd s) (\<lambda>rd s. do {
       s \<leftarrow> free_blk (str_blk (rd_device_uid rd)) s;
       let rd = rd\<lparr>rd_device_uid := None\<rparr>;
       ref \<leftarrow> rd_string_ref rd;
       (err, str, s) \<leftarrow> from_cf_string e ref s;
       if err \<noteq> SoundIoErrorNone then refresh_failed e si rd err s
       else do {
         (b, uid) \<leftarrow> str;
         Some (SoundIoErrorNone, rd\<lparr>rd_device_uid := str, rd_device_uid_len := int (length uid)\<rparr>, s)
       }
     })"

subsection \<open>A device in one direction\<close>

text \<open>The sum is unsigned and stored in an \<open>int\<close>.\<close>

definition count_channels :: "AudioBuffer list \<Rightarrow> int" where
  "count_channels buffers = foldl (\<lambda>n buffer. to_int32 (n + uint (mNumberChannels buffer))) 0 buffers"

definition new_ca_device ::
  "('j, 'z) ca_env \<Rightarrow> nat \<Rightarrow> AudioObjectID \<Rightarrow> SoundIoDeviceAim \<Rightarrow> RefreshDevices \<Rightarrow> ('j, 'z) jsio_scheme \<Rightarrow> ('j, 'z) scan_result" where
  "new_ca_device e si device_id a rd s =
     (let (dev, s) = alloc s
      in case dev of None \<Rightarrow> refresh_failed e si rd SoundIoErrorNoMem s
      | Some p \<Rightarrow> do {
          c_assert (rd_device rd = None);
          let rd = rd\<lparr>rd_device := Some p\<rparr>;
          let s = s\<lparr>devices := (devices s)(p \<mapsto> device_zero\<lparr>ref_count := 1, dev_soundio := Some si, is_raw := False,
            aim := a, dev_ca := \<lparr>dca_device_id = device_id, dca_latency_frames = 0\<rparr>\<rparr>)\<rparr>;
          (b, uid) \<leftarrow> rd_device_uid rd;
          (id, s) \<leftarrow> soundio_str_dupe uid (rd_device_uid_len rd) s;
          (b, name) \<leftarrow> rd_device_name rd;
          (nm, s) \<leftarrow> soundio_str_dupe name (rd_device_name_len rd) s;
          s \<leftarrow> upd_dev p (\<lambda>d. d\<lparr>dev_id := id, dev_name := nm\<rparr>) s;
          if id = None \<or> nm = None then refresh_failed e si rd SoundIoErrorNoMem s
          else Some (SoundIoErrorNone, rd, s)
        })"

text \<open>The layout that the library prefers; a layout that is not understood only gives the count.\<close>

definition preferred_layout ::
  "('j, 'z) ca_env \<Rightarrow> nat \<Rightarrow> AudioObjectID \<Rightarrow> SoundIoDeviceAim \<Rightarrow> int \<Rightarrow> nat \<Rightarrow> RefreshDevices \<Rightarrow> ('j, 'z) jsio_scheme \<Rightarrow>
   ('j, 'z) scan_result" where
  "preferred_layout e si device_id a channel_count p rd s =
     (let prop = master_property kAudioDevicePropertyPreferredChannelLayout (aim_to_scope a)
      in hal_read (AudioObjectGetPropertyDataSize (chal e) device_id prop)
        (\<lambda>s. Some (SoundIoErrorNone, rd, s))
        (\<lambda>io_size s. let (b, s) = alloc s; rd = rd\<lparr>rd_audio_channel_layout := b\<rparr>
          in if b = None then refresh_failed e si rd SoundIoErrorNoMem s
          else hal_read (get_property_layout (chal e) device_id prop)
            (refresh_failed e si rd SoundIoErrorOpeningDevice)
            (\<lambda>ca_layout s. do {
              d \<leftarrow> devices s p;
              (err, layout) \<leftarrow> from_coreaudio_layout ca_layout (current_layout d);
              s \<leftarrow> upd_dev p (\<lambda>d. d\<lparr>current_layout :=
                (if err \<noteq> SoundIoErrorNone then layout\<lparr>cl_channel_count := channel_count\<rparr> else layout)\<rparr>) s;
              Some (SoundIoErrorNone, rd, s)
            }) s) s)"

definition guess_layout :: "int \<Rightarrow> nat \<Rightarrow> 'z sio_scheme \<Rightarrow> 'z sio_scheme option" where
  "guess_layout channel_count p s = do {
     d \<leftarrow> devices s p;
     invalid \<leftarrow> all_channels_invalid (current_layout d);
     guessed \<leftarrow> (if invalid then soundio_channel_layout_get_default channel_count else Some None);
     upd_dev p (\<lambda>d. d\<lparr>current_layout := (case guessed of None \<Rightarrow> current_layout d | Some layout \<Rightarrow> layout),
       layout_count := 1, layouts := LayoutsCurrent\<rparr>) s
   }"

definition ca_formats :: "SoundIoFormat list" where
  "ca_formats = [SoundIoFormatS16LE, SoundIoFormatS32LE, SoundIoFormatFloat32LE, SoundIoFormatFloat64LE]"

text \<open>When there is no memory for the formats, the scan returns without giving back what it holds.\<close>

definition set_ca_formats :: "nat \<Rightarrow> RefreshDevices \<Rightarrow> ('j, 'z) jsio_scheme \<Rightarrow> ('j, 'z) scan_result" where
  "set_ca_formats p rd s = do {
     s \<leftarrow> upd_dev p (\<lambda>d. d\<lparr>format_count := 4\<rparr>) s;
     let (b, s) = alloc s;
     case b of None \<Rightarrow> Some (SoundIoErrorNoMem, rd, s)
     | Some b \<Rightarrow> do {
         s \<leftarrow> upd_dev p (\<lambda>d. d\<lparr>formats := FormatsBlock b ca_formats\<rparr>) s;
         Some (SoundIoErrorNone, rd, s)
       }
   }"

definition rate_range :: "AudioValueRange \<Rightarrow> SoundIoSampleRateRange option" where
  "rate_range avr = do {
     min_val \<leftarrow> ceil_dbl_to_int (mMinimum avr);
     max_val \<leftarrow> dbl_to_int (mMaximum avr);
     Some \<lparr>range_min = min_val, range_max = max_val\<rparr>
   }"

fun rate_ranges :: "AudioValueRange list \<Rightarrow> SoundIoSampleRateRange list option" where
  "rate_ranges [] = Some []"
| "rate_ranges (avr # avrs) = do { r \<leftarrow> rate_range avr; rs \<leftarrow> rate_ranges avrs; Some (r # rs) }"

text \<open>A zeroed array of \<open>n\<close> cells that the library has written \<open>xs\<close> to.\<close>

definition filled_array :: "nat \<Rightarrow> 'a \<Rightarrow> 'a list \<Rightarrow> 'a list" where
  "filled_array n z xs = take n (xs @ replicate n z)"

definition available_rates ::
  "('j, 'z) ca_env \<Rightarrow> nat \<Rightarrow> AudioObjectID \<Rightarrow> nat \<Rightarrow> RefreshDevices \<Rightarrow> ('j, 'z) jsio_scheme \<Rightarrow> ('j, 'z) scan_result" where
  "available_rates e si device_id p rd s =
     (let prop = master_property kAudioDevicePropertyAvailableNominalSampleRates kAudioObjectPropertyScopeOutput
      in hal_read (AudioObjectGetPropertyDataSize (chal e) device_id prop)
        (refresh_failed e si rd SoundIoErrorOpeningDevice)
        (\<lambda>io_size s. let n = unat io_size div 16; (b, s) = alloc s; rd = rd\<lparr>rd_avr_array := b\<rparr>
          in if b = None then refresh_failed e si rd SoundIoErrorNoMem s
          else hal_read (get_property_ranges (chal e) device_id prop)
            (refresh_failed e si rd SoundIoErrorOpeningDevice)
            (\<lambda>avrs s. let avr_array = filled_array n value_range_zero avrs
              in if n = 1 then do {
                r \<leftarrow> rate_range (hd avr_array);
                s \<leftarrow> upd_dev p (\<lambda>d. d\<lparr>sample_rate_count := 1, sample_rates := RatesPrealloc,
                  prealloc_sample_rate_range := r\<rparr>) s;
                Some (SoundIoErrorNone, rd, s)
              }
              else do {
                s \<leftarrow> upd_dev p (\<lambda>d. d\<lparr>sample_rate_count := int n\<rparr>) s;
                let (b, s) = alloc s;
                case b of None \<Rightarrow> refresh_failed e si rd SoundIoErrorNoMem s
                | Some b \<Rightarrow> do {
                    rs \<leftarrow> rate_ranges avr_array;
                    s \<leftarrow> upd_dev p (\<lambda>d. d\<lparr>sample_rates := RatesBlock b rs\<rparr>) s;
                    Some (SoundIoErrorNone, rd, s)
                  }
              }) s) s)"

definition set_ca_rates ::
  "('j, 'z) ca_env \<Rightarrow> nat \<Rightarrow> AudioObjectID \<Rightarrow> SoundIoDeviceAim \<Rightarrow> nat \<Rightarrow> RefreshDevices \<Rightarrow> ('j, 'z) jsio_scheme \<Rightarrow>
   ('j, 'z) scan_result" where
  "set_ca_rates e si device_id a p rd s =
     hal_read (get_property_double (chal e) device_id (master_property kAudioDevicePropertyNominalSampleRate (aim_to_scope a)))
       (refresh_failed e si rd SoundIoErrorOpeningDevice)
       (\<lambda>value s. let floored_value = real_of_int \<lfloor>value\<rfloor>
         in if value \<noteq> floored_value then refresh_failed e si rd SoundIoErrorIncompatibleDevice s
         else do {
           rate \<leftarrow> dbl_to_int floored_value;
           s \<leftarrow> upd_dev p (\<lambda>d. d\<lparr>sample_rate_current := rate\<rparr>) s;
           if a = SoundIoDeviceAimInput then do {
             s \<leftarrow> upd_dev p (\<lambda>d. d\<lparr>sample_rate_count := 1, sample_rates := RatesPrealloc,
               prealloc_sample_rate_range := \<lparr>range_min = rate, range_max = rate\<rparr>\<rparr>) s;
             Some (SoundIoErrorNone, rd, s)
           }
           else available_rates e si device_id p rd s
         }) s"

definition set_ca_latency ::
  "('j, 'z) ca_env \<Rightarrow> nat \<Rightarrow> AudioObjectID \<Rightarrow> SoundIoDeviceAim \<Rightarrow> nat \<Rightarrow> RefreshDevices \<Rightarrow> ('j, 'z) jsio_scheme \<Rightarrow>
   ('j, 'z) scan_result" where
  "set_ca_latency e si device_id a p rd s =
     (let scope = aim_to_scope a; fail = refresh_failed e si rd SoundIoErrorOpeningDevice
      in hal_read (get_property_uint32 (chal e) device_id (master_property kAudioDevicePropertyBufferFrameSize scope)) fail
        (\<lambda>buffer_frame_size s. do {
          d \<leftarrow> devices s p;
          let use_sample_rate = real_of_int (sample_rate_current d);
          current \<leftarrow> dbl_div (real_of_int (uint buffer_frame_size)) use_sample_rate;
          s \<leftarrow> upd_dev p (\<lambda>d. d\<lparr>software_latency_current := current\<rparr>) s;
          hal_read (get_property_range (chal e) device_id (master_property kAudioDevicePropertyBufferFrameSizeRange scope)) fail
            (\<lambda>avr s. do {
              lo \<leftarrow> dbl_div (mMinimum avr) use_sample_rate;
              hi \<leftarrow> dbl_div (mMaximum avr) use_sample_rate;
              s \<leftarrow> upd_dev p (\<lambda>d. d\<lparr>software_latency_min := lo, software_latency_max := hi\<rparr>) s;
              hal_read (get_property_uint32 (chal e) device_id (master_property kAudioDevicePropertyLatency scope)) fail
                (\<lambda>latency s. do {
                  s \<leftarrow> upd_dev p (\<lambda>d. d\<lparr>dev_ca := (dev_ca d)\<lparr>dca_latency_frames := latency\<rparr>\<rparr>) s;
                  Some (SoundIoErrorNone, rd, s)
                }) s
            }) s
        }) s)"

text \<open>The default device of a direction is noted when it is about to be appended.\<close>

definition list_ca_device ::
  "('j, 'z) ca_env \<Rightarrow> nat \<Rightarrow> AudioObjectID \<Rightarrow> SoundIoDeviceAim \<Rightarrow> AudioObjectID \<Rightarrow> nat \<Rightarrow> RefreshDevices \<Rightarrow>
   ('j, 'z) jsio_scheme \<Rightarrow> ('j, 'z) scan_result" where
  "list_ca_device e si device_id a default_id p rd s = do {
     s \<leftarrow> upd_info (rd_devices_info rd) (\<lambda>info.
       if device_id \<noteq> default_id then info
       else case a of SoundIoDeviceAimOutput \<Rightarrow> info\<lparr>default_output_index := l_length (output_devices info)\<rparr>
         | SoundIoDeviceAimInput \<Rightarrow> info\<lparr>default_input_index := l_length (input_devices info)\<rparr>) s;
     (err, s) \<leftarrow> append_device a (rd_devices_info rd) p s;
     if err \<noteq> SoundIoErrorNone then refresh_failed e si rd err s
     else Some (SoundIoErrorNone, rd\<lparr>rd_device := None\<rparr>, s)
   }"

definition scan_direction ::
  "('j, 'z) ca_env \<Rightarrow> nat \<Rightarrow> AudioObjectID \<times> AudioObjectID \<Rightarrow> AudioObjectID \<Rightarrow> SoundIoDeviceAim \<Rightarrow> RefreshDevices \<Rightarrow>
   ('j, 'z) jsio_scheme \<Rightarrow> ('j, 'z) scan_result" where
  "scan_direction e si defaults device_id a rd s =
     (let prop = master_property kAudioDevicePropertyStreamConfiguration (aim_to_scope a);
          default_id = (if a = SoundIoDeviceAimInput then fst defaults else snd defaults)
      in hal_read (AudioObjectGetPropertyDataSize (chal e) device_id prop)
        (refresh_failed e si rd SoundIoErrorOpeningDevice)
        (\<lambda>io_size s. do {
          s \<leftarrow> free_blk (rd_buffer_list rd) s;
          let (b, s) = alloc s;
          let rd = rd\<lparr>rd_buffer_list := b\<rparr>;
          if b = None then refresh_failed e si rd SoundIoErrorNoMem s
          else hal_read (get_property_buffers (chal e) device_id prop)
            (refresh_failed e si rd SoundIoErrorOpeningDevice)
            (\<lambda>buffers s. let channel_count = count_channels buffers
              in if channel_count \<le> 0 then Some (SoundIoErrorNone, rd, s)
              else rd_then (new_ca_device e si device_id a rd s) (\<lambda>rd s. do {
                p \<leftarrow> rd_device rd;
                rd_then (preferred_layout e si device_id a channel_count p rd s) (\<lambda>rd s. do {
                  s \<leftarrow> guess_layout channel_count p s;
                  rd_then (set_ca_formats p rd s) (\<lambda>rd s.
                    rd_then (set_ca_rates e si device_id a p rd s) (\<lambda>rd s.
                      rd_then (set_ca_latency e si device_id a p rd s)
                        (list_ca_device e si device_id a default_id p)))
                })
              })) s
        }) s)"

subsection \<open>All devices\<close>

fun scan_directions ::
  "('j, 'z) ca_env \<Rightarrow> nat \<Rightarrow> AudioObjectID \<times> AudioObjectID \<Rightarrow> AudioObjectID \<Rightarrow> SoundIoDeviceAim list \<Rightarrow> RefreshDevices \<Rightarrow>
   ('j, 'z) jsio_scheme \<Rightarrow> ('j, 'z) scan_result" where
  "scan_directions e si defaults device_id [] rd s = Some (SoundIoErrorNone, rd, s)"
| "scan_directions e si defaults device_id (a # as) rd s =
     rd_then (scan_direction e si defaults device_id a rd s) (scan_directions e si defaults device_id as)"

definition scan_ca_device ::
  "('j, 'z) ca_env \<Rightarrow> nat \<Rightarrow> AudioObjectID \<times> AudioObjectID \<Rightarrow> AudioObjectID \<Rightarrow> RefreshDevices \<Rightarrow> ('j, 'z) jsio_scheme \<Rightarrow>
   ('j, 'z) scan_result" where
  "scan_ca_device e si defaults device_id rd s =
     rd_then (subscribe_device_listeners e si device_id device_listen_props rd s) (\<lambda>rd s.
       rd_then (scan_name e si device_id rd s) (\<lambda>rd s.
         rd_then (scan_uid e si device_id rd s) (scan_directions e si defaults device_id aims)))"

fun scan_ca_devices ::
  "('j, 'z) ca_env \<Rightarrow> nat \<Rightarrow> AudioObjectID \<times> AudioObjectID \<Rightarrow> AudioObjectID list \<Rightarrow> RefreshDevices \<Rightarrow> ('j, 'z) jsio_scheme \<Rightarrow>
   ('j, 'z) scan_result" where
  "scan_ca_devices e si defaults [] rd s = Some (SoundIoErrorNone, rd, s)"
| "scan_ca_devices e si defaults (device_id # ids) rd s =
     rd_then (scan_ca_device e si defaults device_id rd s) (scan_ca_devices e si defaults ids)"

text \<open>The new lists replace those that the application has not taken yet.\<close>

definition publish_devices_ca :: "nat \<Rightarrow> nat option \<Rightarrow> 'z sio_scheme \<Rightarrow> 'z sio_scheme option" where
  "publish_devices_ca si q s = do {
     x \<leftarrow> sios s si;
     s \<leftarrow> soundio_os_mutex_lock (ca_mutex (coreaudio x)) s;
     s \<leftarrow> soundio_destroy_devices_info (ca_ready_devices_info (coreaudio x)) s;
     s \<leftarrow> upd_sica si (\<lambda>a. a\<lparr>ca_ready_devices_info := q\<rparr>) s;
     soundio_os_mutex_unlock (ca_mutex (coreaudio x)) s
   }"

text \<open>The end of a scan: what it still holds is given back, but not the listeners.\<close>

definition finish_refresh ::
  "('j, 'z) ca_env \<Rightarrow> nat \<Rightarrow> RefreshDevices \<Rightarrow> ('j, 'z) jsio_scheme \<Rightarrow> ('j, 'z) scan_result" where
  "finish_refresh e si rd s = do {
     s \<leftarrow> publish_devices_ca si (rd_devices_info rd) s;
     let rd = rd\<lparr>rd_devices_info := None, rd_ok := True\<rparr>;
     s \<leftarrow> deinit_refresh_devices e si rd s;
     Some (SoundIoErrorNone, rd, s)
   }"

text \<open>The identifiers of the devices and of the default devices, then the scan.\<close>

definition scan_listed_devices ::
  "('j, 'z) ca_env \<Rightarrow> nat \<Rightarrow> nat \<Rightarrow> RefreshDevices \<Rightarrow> ('j, 'z) jsio_scheme \<Rightarrow> ('j, 'z) scan_result" where
  "scan_listed_devices e si device_count rd s =
     (let (b, s) = alloc s; rd = rd\<lparr>rd_devices := b\<rparr>; fail = refresh_failed e si rd SoundIoErrorOpeningDevice
      in if b = None then refresh_failed e si rd SoundIoErrorNoMem s
      else hal_read (get_property_ids (chal e) kAudioObjectSystemObject (system_property kAudioHardwarePropertyDevices)) fail
        (\<lambda>ids. hal_read (get_property_id (chal e) kAudioObjectSystemObject
            (system_property kAudioHardwarePropertyDefaultInputDevice)) fail
          (\<lambda>default_input_id. hal_read (get_property_id (chal e) kAudioObjectSystemObject
              (system_property kAudioHardwarePropertyDefaultOutputDevice)) fail
            (\<lambda>default_output_id s.
              rd_then (scan_ca_devices e si (default_input_id, default_output_id) (filled_array device_count 0 ids) rd s)
                (finish_refresh e si)))) s)"

definition refresh_lists ::
  "('j, 'z) ca_env \<Rightarrow> nat \<Rightarrow> nat option \<Rightarrow> ('j, 'z) jsio_scheme \<Rightarrow> ('j, 'z) scan_result" where
  "refresh_lists e si q s =
     (let rd = rd_zero\<lparr>rd_devices_info := q\<rparr>
      in case q of None \<Rightarrow> refresh_failed e si rd SoundIoErrorNoMem s
      | Some q \<Rightarrow>
          hal_read (AudioObjectGetPropertyDataSize (chal e) kAudioObjectSystemObject (system_property kAudioHardwarePropertyDevices))
            (refresh_failed e si rd SoundIoErrorOpeningDevice)
            (\<lambda>io_size s. let device_count = unat io_size div 4
              in if device_count \<ge> 1 then scan_listed_devices e si device_count rd s else finish_refresh e si rd s)
            (s\<lparr>infos := (infos s)(q \<mapsto> devices_info_zero)\<rparr>))"

definition refresh_devices_ca ::
  "('j, 'z) ca_env \<Rightarrow> nat \<Rightarrow> ('j, 'z) jsio_scheme \<Rightarrow> (SoundIoError \<times> ('j, 'z) jsio_scheme) option" where
  "refresh_devices_ca e si s = do {
     s \<leftarrow> unsubscribe_device_listeners e si s;
     let (q, s) = alloc s;
     (err, rd, s) \<leftarrow> refresh_lists e si q s;
     Some (err, s)
   }"

end
