(* ===== verification/CoreAudioThread.thy ===== *)
theory CoreAudioThread
  imports CoreAudio
begin

section \<open>src/coreaudio.c: the device thread, events and initialisation\<close>

text \<open>
  The thread that scans the devices when it is told to, an operation per iteration of its loop; what
  the application calls to take the new lists; creating and destroying the backend. The conditions
  are waited for without a mutex of the caller, so the flags they stand for are tested with nothing
  held; what the other threads do during a wait is a parameter.
\<close>

subsection \<open>The thread\<close>

definition shutdown_backend_ca :: "nat \<Rightarrow> SoundIoError \<Rightarrow> 'z sio_scheme \<Rightarrow> 'z sio_scheme option" where
  "shutdown_backend_ca si err s = do {
     x \<leftarrow> sios s si;
     s \<leftarrow> soundio_os_mutex_lock (ca_mutex (coreaudio x)) s;
     s \<leftarrow> upd_sica si (\<lambda>a. a\<lparr>ca_shutdown_err := err, ca_have_devices_flag := True\<rparr>) s;
     s \<leftarrow> soundio_os_mutex_unlock (ca_mutex (coreaudio x)) s;
     s \<leftarrow> soundio_os_cond_signal (ca_cond (coreaudio x)) None s;
     s \<leftarrow> soundio_os_cond_signal (have_devices_cond (coreaudio x)) None s;
     Some (emit (EventsSignal si) s)
   }"

text \<open>A scan that was asked for. The result says whether the thread goes on.\<close>

definition rescan_ca ::
  "('j, 'z) ca_env \<Rightarrow> nat \<Rightarrow> ('j, 'z) jsio_scheme \<Rightarrow> (bool \<times> ('j, 'z) jsio_scheme) option" where
  "rescan_ca e si s = do {
     (err, s) \<leftarrow> refresh_devices_ca e si s;
     if err \<noteq> SoundIoErrorNone then do { s \<leftarrow> shutdown_backend_ca si err s; Some (False, s) }
     else do {
       x \<leftarrow> sios s si;
       s \<leftarrow> upd_sica si (\<lambda>a. a\<lparr>ca_have_devices_flag := True\<rparr>) s;
       s \<leftarrow> (if ca_have_devices_flag (coreaudio x) then Some s
         else soundio_os_cond_signal (have_devices_cond (coreaudio x)) None s);
       s \<leftarrow> soundio_os_cond_signal (ca_cond (coreaudio x)) None s;
       Some (True, emit (EventsSignal si) s)
     }
   }"

text \<open>
  One iteration of \<open>device_thread_run\<close>, up to the wait at its end; the result says whether the thread
  goes on. The test of the abort flag sets it; the flag that asks for a scan is exchanged for false.
\<close>

definition device_thread_iteration_ca ::
  "('j, 'z) ca_env \<Rightarrow> nat \<Rightarrow> ('j, 'z) jsio_scheme \<Rightarrow> (bool \<times> ('j, 'z) jsio_scheme) option" where
  "device_thread_iteration_ca e si s = do {
     x \<leftarrow> sios s si;
     s \<leftarrow> upd_sica si (\<lambda>a. a\<lparr>ca_abort_flag := True\<rparr>) s;
     if \<not> ca_abort_flag (coreaudio x) then Some (False, s)
     else if service_restarted (coreaudio x) then do {
       s \<leftarrow> shutdown_backend_ca si SoundIoErrorBackendDisconnected s;
       Some (False, s)
     }
     else do {
       s \<leftarrow> upd_sica si (\<lambda>a. a\<lparr>ca_device_scan_queued := False\<rparr>) s;
       (goes_on, s) \<leftarrow> (if ca_device_scan_queued (coreaudio x) then rescan_ca e si s else Some (True, s));
       if \<not> goes_on then Some (False, s)
       else do {
         s \<leftarrow> soundio_os_cond_wait (scan_devices_cond (coreaudio x)) None s;
         Some (True, s)
       }
     }
   }"

text \<open>The thread does nothing once it has left its loop.\<close>

definition device_thread_step_ca ::
  "('j, 'z) ca_env \<Rightarrow> nat \<Rightarrow> ('j, 'z) jsio_scheme \<Rightarrow> ('j, 'z) jsio_scheme option" where
  "device_thread_step_ca e si s = do {
     x \<leftarrow> sios s si;
     t \<leftarrow> ca_thread (coreaudio x);
     thr \<leftarrow> threads s t;
     if \<not> thread_running thr then Some s
     else do {
       (goes_on, s) \<leftarrow> device_thread_iteration_ca e si s;
       thr \<leftarrow> threads s t;
       Some (if goes_on then s else s\<lparr>threads := (threads s)(t \<mapsto> thr\<lparr>thread_running := False\<rparr>)\<rparr>)
     }
   }"

subsection \<open>Events\<close>

text \<open>Waiting on a condition with its own mutex; \<open>others\<close> runs meanwhile.\<close>

definition own_mutex_wait ::
  "(('j, 'z) jsio_scheme \<Rightarrow> ('j, 'z) jsio_scheme option) \<Rightarrow> nat option \<Rightarrow> ('j, 'z) jsio_scheme \<Rightarrow> ('j, 'z) jsio_scheme option" where
  "own_mutex_wait others cnd s = do { s \<leftarrow> soundio_os_cond_wait cnd None s; others s }"

definition ca_wait_step ::
  "(('j, 'z) jsio_scheme \<Rightarrow> ('j, 'z) jsio_scheme option) \<Rightarrow> nat \<Rightarrow> ('j, 'z) jsio_scheme \<Rightarrow>
   (('j, 'z) jsio_scheme + ('j, 'z) jsio_scheme) option" where
  "ca_wait_step others si s = do {
     x \<leftarrow> sios s si;
     if ca_have_devices_flag (coreaudio x) then Some (Inl s)
     else do { s \<leftarrow> own_mutex_wait others (have_devices_cond (coreaudio x)) s; Some (Inr s) }
   }"

text \<open>What a flush does once there are devices.\<close>

definition take_devices_ca :: "nat \<Rightarrow> ('j, 'z) jsio_scheme \<Rightarrow> ('j, 'z) jsio_scheme option" where
  "take_devices_ca si s = do {
     x \<leftarrow> sios s si;
     let sica = coreaudio x;
     s \<leftarrow> soundio_os_mutex_lock (ca_mutex sica) s;
     let cb_shutdown = (ca_shutdown_err sica \<noteq> SoundIoErrorNone \<and> \<not> ca_emitted_shutdown_cb sica);
     let change = (\<not> cb_shutdown \<and> ca_ready_devices_info sica \<noteq> None);
     let old_devices_info = (if change then safe_devices_info x else None);
     s \<leftarrow> (if cb_shutdown then upd_sica si (\<lambda>a. a\<lparr>ca_emitted_shutdown_cb := True\<rparr>) s
       else if change then upd_sio si (\<lambda>x. x\<lparr>safe_devices_info := ca_ready_devices_info sica,
         coreaudio := (coreaudio x)\<lparr>ca_ready_devices_info := None\<rparr>\<rparr>) s
       else Some s);
     s \<leftarrow> soundio_os_mutex_unlock (ca_mutex sica) s;
     s \<leftarrow> (if cb_shutdown then on_backend_disconnect si (ca_shutdown_err sica) s
       else if change then Some (emit (DevicesChange si) s)
       else Some s);
     soundio_destroy_devices_info old_devices_info s
   }"

definition flush_events_ca ::
  "(('j, 'z) jsio_scheme \<Rightarrow> ('j, 'z) jsio_scheme option) \<Rightarrow> nat \<Rightarrow> ('j, 'z) jsio_scheme \<Rightarrow> ('j, 'z) jsio_scheme option" where
  "flush_events_ca others si s = do {
     s \<leftarrow> repeat_until (ca_wait_step others si) s;
     take_devices_ca si s
   }"

definition wait_events_ca ::
  "(('j, 'z) jsio_scheme \<Rightarrow> ('j, 'z) jsio_scheme option) \<Rightarrow> nat \<Rightarrow> ('j, 'z) jsio_scheme \<Rightarrow> ('j, 'z) jsio_scheme option" where
  "wait_events_ca others si s = do {
     s \<leftarrow> flush_events_ca others si s;
     x \<leftarrow> sios s si;
     own_mutex_wait others (ca_cond (coreaudio x)) s
   }"

definition wakeup_ca :: "nat \<Rightarrow> 'z sio_scheme \<Rightarrow> 'z sio_scheme option" where
  "wakeup_ca si s = do { x \<leftarrow> sios s si; soundio_os_cond_signal (ca_cond (coreaudio x)) None s }"

definition force_device_scan_ca :: "nat \<Rightarrow> 'z sio_scheme \<Rightarrow> 'z sio_scheme option" where
  "force_device_scan_ca si s = do {
     s \<leftarrow> upd_sica si (\<lambda>a. a\<lparr>ca_device_scan_queued := True\<rparr>) s;
     signal_device_scan si s
   }"

subsection \<open>Creating and destroying\<close>

text \<open>
  The listeners are removed first, and the device thread is stopped afterwards: in between it may
  still make a round.
\<close>

definition destroy_listeners_ca :: "('j, 'z) ca_env \<Rightarrow> nat \<Rightarrow> ('j, 'z) jsio_scheme \<Rightarrow> ('j, 'z) jsio_scheme option" where
  "destroy_listeners_ca e si s = do {
     let s = the_world (AudioObjectRemovePropertyListener (chal e) kAudioObjectSystemObject
       (system_property kAudioHardwarePropertyDevices) on_devices_changed_fn si) s;
     let s = the_world (AudioObjectRemovePropertyListener (chal e) kAudioObjectSystemObject
       (system_property kAudioHardwarePropertyServiceRestarted) on_service_restarted_fn si) s;
     unsubscribe_device_listeners e si s
   }"

definition destroy_rest_ca :: "nat \<Rightarrow> 'z sio_scheme \<Rightarrow> 'z sio_scheme option" where
  "destroy_rest_ca si s = do {
     x \<leftarrow> sios s si;
     s \<leftarrow> list_deinit (registered_listeners (coreaudio x)) s;
     s \<leftarrow> (if ca_thread (coreaudio x) \<noteq> None then do {
         s \<leftarrow> upd_sica si (\<lambda>a. a\<lparr>ca_abort_flag := False\<rparr>) s;
         s \<leftarrow> signal_device_scan si s;
         soundio_os_thread_destroy (ca_thread (coreaudio x)) s
       } else Some s);
     let sica = coreaudio x;
     s \<leftarrow> (if ca_cond sica \<noteq> None then soundio_os_cond_destroy (ca_cond sica) s else Some s);
     s \<leftarrow> (if have_devices_cond sica \<noteq> None then soundio_os_cond_destroy (have_devices_cond sica) s else Some s);
     s \<leftarrow> (if scan_devices_cond sica \<noteq> None then soundio_os_cond_destroy (scan_devices_cond sica) s else Some s);
     s \<leftarrow> (if ca_mutex sica \<noteq> None then soundio_os_mutex_destroy (ca_mutex sica) s else Some s);
     soundio_destroy_devices_info (ca_ready_devices_info sica) s
   }"

definition destroy_ca :: "('j, 'z) ca_env \<Rightarrow> nat \<Rightarrow> ('j, 'z) jsio_scheme \<Rightarrow> ('j, 'z) jsio_scheme option" where
  "destroy_ca e si s = do { s \<leftarrow> destroy_listeners_ca e si s; destroy_rest_ca si s }"

definition ca_init_failed ::
  "('j, 'z) ca_env \<Rightarrow> nat \<Rightarrow> SoundIoError \<Rightarrow> ('j, 'z) jsio_scheme \<Rightarrow> (SoundIoError \<times> ('j, 'z) jsio_scheme) option" where
  "ca_init_failed e si err s = do { s \<leftarrow> destroy_ca e si s; Some (err, s) }"

definition ca_vtable :: "vfn \<Rightarrow> SoundIoBackend option" where
  "ca_vtable f = Some SoundIoBackendCoreAudio"

text \<open>From the listeners on: the two listeners, the thread, the table.\<close>

definition ca_init_listeners ::
  "('j, 'z) ca_env \<Rightarrow> nat \<Rightarrow> ('j, 'z) jsio_scheme \<Rightarrow> (SoundIoError \<times> ('j, 'z) jsio_scheme) option" where
  "ca_init_listeners e si s =
     hal_do (AudioObjectAddPropertyListener (chal e) kAudioObjectSystemObject
         (system_property kAudioHardwarePropertyDevices) on_devices_changed_fn si)
       (ca_init_failed e si SoundIoErrorSystemResources)
       (hal_do (AudioObjectAddPropertyListener (chal e) kAudioObjectSystemObject
           (system_property kAudioHardwarePropertyServiceRestarted) on_service_restarted_fn si)
         (ca_init_failed e si SoundIoErrorSystemResources)
         (\<lambda>s. do {
           (err, thr, s) \<leftarrow> soundio_os_thread_create device_thread_run_ca False s;
           s \<leftarrow> upd_sica si (\<lambda>a. a\<lparr>ca_thread := thr\<rparr>) s;
           if err \<noteq> SoundIoErrorNone then ca_init_failed e si err s
           else do {
             s \<leftarrow> upd_sio si (\<lambda>x. x\<lparr>vtable := ca_vtable\<rparr>) s;
             Some (SoundIoErrorNone, s)
           }
         })) s"

text \<open>A condition that is stored with \<open>store\<close>, or the failure of the initialisation.\<close>

definition ca_init_cond ::
  "('j, 'z) ca_env \<Rightarrow> nat \<Rightarrow> (nat option \<Rightarrow> SoundIoCoreAudio \<Rightarrow> SoundIoCoreAudio) \<Rightarrow>
   (('j, 'z) jsio_scheme \<Rightarrow> (SoundIoError \<times> ('j, 'z) jsio_scheme) option) \<Rightarrow> ('j, 'z) jsio_scheme \<Rightarrow>
   (SoundIoError \<times> ('j, 'z) jsio_scheme) option" where
  "ca_init_cond e si store next s = do {
     (c, s) \<leftarrow> soundio_os_cond_create s;
     s \<leftarrow> upd_sica si (store c) s;
     if c = None then ca_init_failed e si SoundIoErrorNoMem s else next s
   }"

definition soundio_coreaudio_init ::
  "('j, 'z) ca_env \<Rightarrow> nat \<Rightarrow> ('j, 'z) jsio_scheme \<Rightarrow> (SoundIoError \<times> ('j, 'z) jsio_scheme) option" where
  "soundio_coreaudio_init e si s = do {
     s \<leftarrow> upd_sica si (\<lambda>a. a\<lparr>ca_have_devices_flag := False, ca_device_scan_queued := True, service_restarted := False,
       ca_abort_flag := True\<rparr>) s;
     (m, s) \<leftarrow> soundio_os_mutex_create s;
     s \<leftarrow> upd_sica si (\<lambda>a. a\<lparr>ca_mutex := m\<rparr>) s;
     if m = None then ca_init_failed e si SoundIoErrorNoMem s
     else ca_init_cond e si (\<lambda>c a. a\<lparr>ca_cond := c\<rparr>)
       (ca_init_cond e si (\<lambda>c a. a\<lparr>have_devices_cond := c\<rparr>)
         (ca_init_cond e si (\<lambda>c a. a\<lparr>scan_devices_cond := c\<rparr>) (ca_init_listeners e si))) s
   }"

end
