(* ===== verification/CoreAudioStreams.thy ===== *)
theory CoreAudioStreams
  imports CoreAudioThread AlsaStreams
begin

section \<open>src/coreaudio.c: streams\<close>

text \<open>
  The streams of the CoreAudio backend. The library calls \<open>write_callback_ca\<close> and \<open>read_callback_ca\<close>
  from a thread of its own, with the buffers that it wants filled or has filled; between two calls
  the streams have no buffers. A channel lies in a buffer as it does in an interleaved buffer of the
  ALSA backend, so the same loop sets the areas.
\<close>

subsection \<open>Output streams\<close>

definition on_outstream_device_overload :: "nat \<Rightarrow> 'z sio_scheme \<Rightarrow> 'z sio_scheme option" where
  "on_outstream_device_overload p s = do { outstreams s p; Some (emit (UnderflowCb p) s) }"

definition on_instream_device_overload :: "nat \<Rightarrow> 'z sio_scheme \<Rightarrow> 'z sio_scheme option" where
  "on_instream_device_overload p s = do { instreams s p; Some (emit (OverflowCb p) s) }"

definition stop_instance :: "('j, 'z) ca_env \<Rightarrow> nat option \<Rightarrow> ('j, 'z) jsio_scheme \<Rightarrow> ('j, 'z) jsio_scheme" where
  "stop_instance e inst s =
     (case inst of None \<Rightarrow> s
      | Some i \<Rightarrow> the_world (AudioComponentInstanceDispose (cunit e) i) (snd (in_world (AudioOutputUnitStop (cunit e) i) s)))"

definition outstream_destroy_ca ::
  "('j, 'z) ca_env \<Rightarrow> nat \<Rightarrow> ('j, 'z) jsio_scheme \<Rightarrow> ('j, 'z) jsio_scheme option" where
  "outstream_destroy_ca e p s = do {
     os \<leftarrow> outstreams s p;
     dv \<leftarrow> os_device os;
     device \<leftarrow> devices s dv;
     let s = the_world (AudioObjectRemovePropertyListener (chal e) (dca_device_id (dev_ca device))
       (system_property kAudioDeviceProcessorOverload) on_outstream_device_overload_fn p) s;
     upd_osca p (\<lambda>a. a\<lparr>osca_instance := None\<rparr>) (stop_instance e (osca_instance (osca os)) s)
   }"

definition write_callback_ca ::
  "('j, 'z) ca_env \<Rightarrow> 32 word \<Rightarrow> AudioBuffer list \<Rightarrow> nat \<Rightarrow> ('j, 'z) jsio_scheme \<Rightarrow> ('j, 'z) jsio_scheme option" where
  "write_callback_ca e in_number_frames io_data p s = do {
     let frames = sint in_number_frames;
     s \<leftarrow> upd_osca p (\<lambda>a. a\<lparr>osca_io_data := Some io_data, osca_buffer_index := 0, osca_frames_left := frames\<rparr>) s;
     s \<leftarrow> ca_write_callback e p frames frames s;
     upd_osca p (\<lambda>a. a\<lparr>osca_io_data := None\<rparr>) s
   }"

definition outstream_ca_failed ::
  "('j, 'z) ca_env \<Rightarrow> nat \<Rightarrow> SoundIoError \<Rightarrow> ('j, 'z) jsio_scheme \<Rightarrow> (SoundIoError \<times> ('j, 'z) jsio_scheme) option" where
  "outstream_ca_failed e p err s = do { s \<leftarrow> outstream_destroy_ca e p s; Some (err, s) }"

text \<open>The latency that is used: the current one unless there is a wish, within the limits of the device.\<close>

definition clamped_latency :: "SoundIoDevice \<Rightarrow> real \<Rightarrow> real" where
  "clamped_latency device latency =
     soundio_double_clamp (software_latency_min device)
       (if latency = 0 then software_latency_current device else latency) (software_latency_max device)"

definition pcm_description :: "int \<Rightarrow> int \<Rightarrow> int \<Rightarrow> AudioStreamBasicDescription" where
  "pcm_description sample_rate bytes_per_frame channel_count =
     stream_description\<lparr>mSampleRate := real_of_int sample_rate, mBytesPerPacket := word_of_int bytes_per_frame,
       mFramesPerPacket := 1, mBytesPerFrame := word_of_int bytes_per_frame, mChannelsPerFrame := word_of_int channel_count\<rparr>"

text \<open>From the size of the device's buffer on: the listener, the volume, the latency.\<close>

definition outstream_open_buffer_ca ::
  "('j, 'z) ca_env \<Rightarrow> nat \<Rightarrow> SoundIoDeviceCoreAudio \<Rightarrow> nat \<Rightarrow> ('j, 'z) jsio_scheme \<Rightarrow> (SoundIoError \<times> ('j, 'z) jsio_scheme) option" where
  "outstream_open_buffer_ca e p dca inst s = do {
     os \<leftarrow> outstreams s p;
     let fail = outstream_ca_failed e p SoundIoErrorOpeningDevice;
     buffer_frame_size \<leftarrow> dbl_to_uint32 (os_software_latency os * real_of_int (os_sample_rate os));
     hal_do (set_property_uint32 (chal e) (dca_device_id dca)
         \<lparr>mSelector = kAudioDevicePropertyBufferFrameSize, mScope = kAudioObjectPropertyScopeInput, mElement = OUTPUT_ELEMENT\<rparr>
         buffer_frame_size) fail
       (hal_do (AudioObjectAddPropertyListener (chal e) (dca_device_id dca)
           \<lparr>mSelector = kAudioDeviceProcessorOverload, mScope = kAudioObjectPropertyScopeGlobal, mElement = OUTPUT_ELEMENT\<rparr>
           on_outstream_device_overload_fn p) fail
         (hal_read (AudioUnitGetParameter (cunit e) inst) fail
           (\<lambda>volume s. do {
             s \<leftarrow> upd_out p (\<lambda>x. x\<lparr>os_volume := volume\<rparr>) s;
             latency \<leftarrow> dbl_div (real_of_int (uint (dca_latency_frames dca))) (real_of_int (os_sample_rate os));
             s \<leftarrow> upd_osca p (\<lambda>a. a\<lparr>osca_hardware_latency := latency\<rparr>) s;
             Some (SoundIoErrorNone, s)
           }))) s
   }"

definition outstream_open_unit_ca ::
  "('j, 'z) ca_env \<Rightarrow> nat \<Rightarrow> SoundIoDeviceCoreAudio \<Rightarrow> nat \<Rightarrow> ('j, 'z) jsio_scheme \<Rightarrow> (SoundIoError \<times> ('j, 'z) jsio_scheme) option" where
  "outstream_open_unit_ca e p dca inst s = do {
     os \<leftarrow> outstreams s p;
     let fail = outstream_ca_failed e p SoundIoErrorOpeningDevice;
     let (err, format) = set_ca_desc (os_format os)
       (pcm_description (os_sample_rate os) (os_bytes_per_frame os) (cl_channel_count (os_layout os)));
     if err \<noteq> SoundIoErrorNone then outstream_ca_failed e p err s
     else hal_do (AudioUnitSetProperty (cunit e) inst (kAudioOutputUnitProperty_CurrentDevice (dca_device_id dca))
         kAudioUnitScope_Input OUTPUT_ELEMENT) fail
       (hal_do (AudioUnitSetProperty (cunit e) inst (kAudioUnitProperty_StreamFormat format)
           kAudioUnitScope_Input OUTPUT_ELEMENT) (outstream_ca_failed e p SoundIoErrorIncompatibleDevice)
         (hal_do (AudioUnitSetProperty (cunit e) inst (kAudioUnitProperty_SetRenderCallback p)
             kAudioUnitScope_Input OUTPUT_ELEMENT) fail
           (outstream_open_buffer_ca e p dca inst))) s
   }"

definition outstream_open_ca ::
  "('j, 'z) ca_env \<Rightarrow> nat \<Rightarrow> ('j, 'z) jsio_scheme \<Rightarrow> (SoundIoError \<times> ('j, 'z) jsio_scheme) option" where
  "outstream_open_ca e p s = do {
     os \<leftarrow> outstreams s p;
     dv \<leftarrow> os_device os;
     device \<leftarrow> devices s dv;
     s \<leftarrow> upd_out p (\<lambda>x. x\<lparr>os_software_latency := clamped_latency device (os_software_latency x)\<rparr>) s;
     let fail = outstream_ca_failed e p SoundIoErrorOpeningDevice;
     let (component, s) = in_world (AudioComponentFindNext (cunit e)) s;
     case component of None \<Rightarrow> fail s
     | Some component \<Rightarrow> do {
         let ((os_err, inst), s) = in_world (AudioComponentInstanceNew (cunit e) component) s;
         s \<leftarrow> upd_osca p (\<lambda>a. a\<lparr>osca_instance := inst\<rparr>) s;
         if os_err \<noteq> 0 then fail s
         else do {
           i \<leftarrow> inst;
           hal_do (AudioUnitInitialize (cunit e) i) fail (outstream_open_unit_ca e p (dev_ca device) i) s
         }
       }
   }"

definition outstream_pause_ca ::
  "('j, 'z) ca_env \<Rightarrow> nat \<Rightarrow> bool \<Rightarrow> ('j, 'z) jsio_scheme \<Rightarrow> (SoundIoError \<times> ('j, 'z) jsio_scheme) option" where
  "outstream_pause_ca e p pause s = do {
     os \<leftarrow> outstreams s p;
     inst \<leftarrow> osca_instance (osca os);
     let (os_err, s) = in_world ((if pause then AudioOutputUnitStop (cunit e) else AudioOutputUnitStart (cunit e)) inst) s;
     Some (if os_err \<noteq> 0 then SoundIoErrorStreaming else SoundIoErrorNone, s)
   }"

definition outstream_start_ca ::
  "('j, 'z) ca_env \<Rightarrow> nat \<Rightarrow> ('j, 'z) jsio_scheme \<Rightarrow> (SoundIoError \<times> ('j, 'z) jsio_scheme) option" where
  "outstream_start_ca e p s = outstream_pause_ca e p False s"

text \<open>The sizes are unsigned; the frame count of the stream becomes that of the buffer.\<close>

definition outstream_begin_write_ca ::
  "nat \<Rightarrow> int \<Rightarrow> ('j, 'z) jsio_scheme \<Rightarrow> (SoundIoError \<times> SoundIoChannelArea list \<times> int \<times> ('j, 'z) jsio_scheme) option" where
  "outstream_begin_write_ca p frame_count s = do {
     os \<leftarrow> outstreams s p;
     let oa = osca os;
     io_data \<leftarrow> osca_io_data oa;
     if osca_buffer_index oa \<ge> int (length io_data) then Some (SoundIoErrorInvalid, [], frame_count, s)
     else if frame_count \<noteq> osca_frames_left oa then Some (SoundIoErrorInvalid, [], frame_count, s)
     else do {
       audio_buffer \<leftarrow> arr_at io_data (osca_buffer_index oa);
       c_assert (mNumberChannels audio_buffer = word_of_int (cl_channel_count (os_layout os)));
       let bytes_per_frame = (word_of_int (os_bytes_per_frame os) :: 32 word);
       c_assert (bytes_per_frame \<noteq> 0);
       let n = sint (mDataByteSize audio_buffer div bytes_per_frame);
       c_assert (mDataByteSize audio_buffer mod bytes_per_frame = 0);
       areas \<leftarrow> interleaved_areas (mData audio_buffer) (os_bytes_per_sample os) (os_bytes_per_frame os)
         [0..<nat (cl_channel_count (os_layout os))] (osca_areas oa);
       s \<leftarrow> upd_osca p (\<lambda>a. a\<lparr>osca_write_frame_count := n, osca_areas := areas\<rparr>) s;
       Some (SoundIoErrorNone, areas, n, s)
     }
   }"

definition outstream_end_write_ca ::
  "nat \<Rightarrow> ('j, 'z) jsio_scheme \<Rightarrow> (SoundIoError \<times> ('j, 'z) jsio_scheme) option" where
  "outstream_end_write_ca p s = do {
     os \<leftarrow> outstreams s p;
     buffer_index \<leftarrow> c_int (osca_buffer_index (osca os) + 1);
     frames_left \<leftarrow> c_int (osca_frames_left (osca os) - osca_write_frame_count (osca os));
     c_assert (frames_left \<ge> 0);
     s \<leftarrow> upd_osca p (\<lambda>a. a\<lparr>osca_buffer_index := buffer_index, osca_frames_left := frames_left\<rparr>) s;
     Some (SoundIoErrorNone, s)
   }"

definition outstream_clear_buffer_ca ::
  "nat \<Rightarrow> ('j, 'z) jsio_scheme \<Rightarrow> (SoundIoError \<times> ('j, 'z) jsio_scheme) option" where
  "outstream_clear_buffer_ca p s = Some (SoundIoErrorIncompatibleBackend, s)"

definition outstream_get_latency_ca :: "nat \<Rightarrow> ('j, 'z) jsio_scheme \<Rightarrow> (SoundIoError \<times> real) option" where
  "outstream_get_latency_ca p s = do { os \<leftarrow> outstreams s p; Some (SoundIoErrorNone, osca_hardware_latency (osca os)) }"

definition outstream_set_volume_ca ::
  "('j, 'z) ca_env \<Rightarrow> nat \<Rightarrow> real \<Rightarrow> ('j, 'z) jsio_scheme \<Rightarrow> (SoundIoError \<times> ('j, 'z) jsio_scheme) option" where
  "outstream_set_volume_ca e p volume s = do {
     os \<leftarrow> outstreams s p;
     inst \<leftarrow> osca_instance (osca os);
     let (os_err, s) = in_world (AudioUnitSetParameter (cunit e) inst volume) s;
     if os_err \<noteq> 0 then Some (SoundIoErrorIncompatibleDevice, s)
     else do { s \<leftarrow> upd_out p (\<lambda>x. x\<lparr>os_volume := volume\<rparr>) s; Some (SoundIoErrorNone, s) }
   }"

subsection \<open>Input streams\<close>

definition instream_destroy_ca ::
  "('j, 'z) ca_env \<Rightarrow> nat \<Rightarrow> ('j, 'z) jsio_scheme \<Rightarrow> ('j, 'z) jsio_scheme option" where
  "instream_destroy_ca e p s = do {
     is \<leftarrow> instreams s p;
     dv \<leftarrow> is_device is;
     device \<leftarrow> devices s dv;
     let s = the_world (AudioObjectRemovePropertyListener (chal e) (dca_device_id (dev_ca device))
       (system_property kAudioDeviceProcessorOverload) on_instream_device_overload_fn p) s;
     let s = stop_instance e (isca_instance (isca is)) s;
     s \<leftarrow> free_blk (map_option fst (isca_buffer_list (isca is))) s;
     upd_isca p (\<lambda>i. i\<lparr>isca_instance := None, isca_buffer_list := None\<rparr>) s
   }"

text \<open>The areas of buffers that hold one channel each.\<close>

fun planar_areas :: "AudioBuffer list \<Rightarrow> 32 word \<Rightarrow> int \<Rightarrow> nat list \<Rightarrow> SoundIoChannelArea list \<Rightarrow> SoundIoChannelArea list option" where
  "planar_areas buffers nbytes bytes_per_sample [] areas = Some areas"
| "planar_areas buffers nbytes bytes_per_sample (ch # chs) areas = do {
     audio_buffer \<leftarrow> arr_at buffers (int ch);
     c_assert (mDataByteSize audio_buffer = nbytes);
     areas \<leftarrow> arr_set areas (int ch) \<lparr>area_ptr = mData audio_buffer, area_step = bytes_per_sample\<rparr>;
     planar_areas buffers nbytes bytes_per_sample chs areas
   }"

definition rendered_areas ::
  "SoundIoInStream \<Rightarrow> 32 word \<Rightarrow> AudioBuffer list \<Rightarrow> SoundIoChannelArea list option" where
  "rendered_areas is in_number_frames buffers =
     (let chs = [0..<nat (cl_channel_count (is_layout is))]
      in if length buffers = 1 then do {
           audio_buffer \<leftarrow> arr_at buffers 0;
           c_assert (mNumberChannels audio_buffer = word_of_int (cl_channel_count (is_layout is)));
           c_assert (mDataByteSize audio_buffer = in_number_frames * word_of_int (is_bytes_per_frame is));
           interleaved_areas (mData audio_buffer) (is_bytes_per_sample is) (is_bytes_per_frame is) chs (isca_areas (isca is))
         }
         else do {
           c_assert (word_of_nat (length buffers) = (word_of_int (cl_channel_count (is_layout is)) :: 32 word));
           planar_areas buffers (in_number_frames * word_of_int (is_bytes_per_sample is)) (is_bytes_per_sample is) chs
             (isca_areas (isca is))
         })"

text \<open>The library allocates the memory of a buffer whose address is NULL.\<close>

definition read_callback_ca ::
  "('j, 'z) ca_env \<Rightarrow> 32 word \<Rightarrow> nat \<Rightarrow> ('j, 'z) jsio_scheme \<Rightarrow> ('j, 'z) jsio_scheme option" where
  "read_callback_ca e in_number_frames p s = do {
     is \<leftarrow> instreams s p;
     (b, buffers) \<leftarrow> isca_buffer_list (isca is);
     inst \<leftarrow> isca_instance (isca is);
     let ((os_err, buffers), s) = in_world (AudioUnitRender (cunit e) inst in_number_frames
       (map (\<lambda>buffer. buffer\<lparr>mData := 0\<rparr>) buffers)) s;
     s \<leftarrow> upd_isca p (\<lambda>i. i\<lparr>isca_buffer_list := Some (b, buffers)\<rparr>) s;
     if os_err \<noteq> 0 then instream_error_callback p SoundIoErrorStreaming s
     else do {
       areas \<leftarrow> rendered_areas is in_number_frames buffers;
       let frames = sint in_number_frames;
       s \<leftarrow> upd_isca p (\<lambda>i. i\<lparr>isca_areas := areas, isca_frames_left := frames\<rparr>) s;
       ca_read_callback e p frames frames s
     }
   }"

definition instream_ca_failed ::
  "('j, 'z) ca_env \<Rightarrow> nat \<Rightarrow> SoundIoError \<Rightarrow> ('j, 'z) jsio_scheme \<Rightarrow> (SoundIoError \<times> ('j, 'z) jsio_scheme) option" where
  "instream_ca_failed e p err s = do { s \<leftarrow> instream_destroy_ca e p s; Some (err, s) }"

text \<open>The listener is added for the element of the address that was used before.\<close>

definition instream_open_buffer_ca ::
  "('j, 'z) ca_env \<Rightarrow> nat \<Rightarrow> SoundIoDeviceCoreAudio \<Rightarrow> ('j, 'z) jsio_scheme \<Rightarrow> (SoundIoError \<times> ('j, 'z) jsio_scheme) option" where
  "instream_open_buffer_ca e p dca s = do {
     is \<leftarrow> instreams s p;
     let fail = instream_ca_failed e p SoundIoErrorOpeningDevice;
     buffer_frame_size \<leftarrow> dbl_to_uint32 (is_software_latency is * real_of_int (is_sample_rate is));
     hal_do (set_property_uint32 (chal e) (dca_device_id dca)
         \<lparr>mSelector = kAudioDevicePropertyBufferFrameSize, mScope = kAudioObjectPropertyScopeOutput, mElement = INPUT_ELEMENT\<rparr>
         buffer_frame_size) fail
       (hal_do (AudioObjectAddPropertyListener (chal e) (dca_device_id dca)
           \<lparr>mSelector = kAudioDeviceProcessorOverload, mScope = kAudioObjectPropertyScopeGlobal, mElement = INPUT_ELEMENT\<rparr>
           on_instream_device_overload_fn p) fail
         (\<lambda>s. do {
           latency \<leftarrow> dbl_div (real_of_int (uint (dca_latency_frames dca))) (real_of_int (is_sample_rate is));
           s \<leftarrow> upd_isca p (\<lambda>i. i\<lparr>isca_hardware_latency := latency\<rparr>) s;
           Some (SoundIoErrorNone, s)
         })) s
   }"

definition instream_open_unit_ca ::
  "('j, 'z) ca_env \<Rightarrow> nat \<Rightarrow> SoundIoDeviceCoreAudio \<Rightarrow> nat \<Rightarrow> ('j, 'z) jsio_scheme \<Rightarrow> (SoundIoError \<times> ('j, 'z) jsio_scheme) option" where
  "instream_open_unit_ca e p dca inst s = do {
     is \<leftarrow> instreams s p;
     let fail = instream_ca_failed e p SoundIoErrorOpeningDevice;
     hal_do (AudioUnitSetProperty (cunit e) inst (kAudioOutputUnitProperty_EnableIO 1) kAudioUnitScope_Input INPUT_ELEMENT) fail
       (hal_do (AudioUnitSetProperty (cunit e) inst (kAudioOutputUnitProperty_EnableIO 0) kAudioUnitScope_Output OUTPUT_ELEMENT) fail
         (hal_do (AudioUnitSetProperty (cunit e) inst (kAudioOutputUnitProperty_CurrentDevice (dca_device_id dca))
             kAudioUnitScope_Output INPUT_ELEMENT) fail
           (\<lambda>s. let (err, format) = set_ca_desc (is_format is)
                (pcm_description (is_sample_rate is) (is_bytes_per_frame is) (cl_channel_count (is_layout is)))
             in if err \<noteq> SoundIoErrorNone then instream_ca_failed e p err s
             else hal_do (AudioUnitSetProperty (cunit e) inst (kAudioUnitProperty_StreamFormat format)
                 kAudioUnitScope_Output INPUT_ELEMENT) fail
               (hal_do (AudioUnitSetProperty (cunit e) inst (kAudioOutputUnitProperty_SetInputCallback p)
                   kAudioUnitScope_Output INPUT_ELEMENT) fail
                 (instream_open_buffer_ca e p dca)) s))) s
   }"

text \<open>The component, its instance and its initialisation.\<close>

definition instream_open_instance_ca ::
  "('j, 'z) ca_env \<Rightarrow> nat \<Rightarrow> SoundIoDeviceCoreAudio \<Rightarrow> ('j, 'z) jsio_scheme \<Rightarrow> (SoundIoError \<times> ('j, 'z) jsio_scheme) option" where
  "instream_open_instance_ca e p dca s =
     (let fail = instream_ca_failed e p SoundIoErrorOpeningDevice;
          (component, s) = in_world (AudioComponentFindNext (cunit e)) s
      in case component of None \<Rightarrow> fail s
      | Some component \<Rightarrow> do {
          let ((os_err, inst), s) = in_world (AudioComponentInstanceNew (cunit e) component) s;
          s \<leftarrow> upd_isca p (\<lambda>i. i\<lparr>isca_instance := inst\<rparr>) s;
          if os_err \<noteq> 0 then fail s
          else do {
            i \<leftarrow> inst;
            hal_do (AudioUnitInitialize (cunit e) i) fail (instream_open_unit_ca e p dca i) s
          }
        })"

text \<open>The list of buffers has the memory for as many as the device has.\<close>

definition instream_open_ca ::
  "('j, 'z) ca_env \<Rightarrow> nat \<Rightarrow> ('j, 'z) jsio_scheme \<Rightarrow> (SoundIoError \<times> ('j, 'z) jsio_scheme) option" where
  "instream_open_ca e p s = do {
     is \<leftarrow> instreams s p;
     dv \<leftarrow> is_device is;
     device \<leftarrow> devices s dv;
     s \<leftarrow> upd_in p (\<lambda>x. x\<lparr>is_software_latency := clamped_latency device (is_software_latency x)\<rparr>) s;
     let dca = dev_ca device;
     let fail = instream_ca_failed e p SoundIoErrorOpeningDevice;
     let prop = master_property kAudioDevicePropertyStreamConfiguration kAudioObjectPropertyScopeInput;
     hal_read (AudioObjectGetPropertyDataSize (chal e) (dca_device_id dca) prop) fail
       (\<lambda>io_size s. do {
         let (b, s) = alloc s;
         s \<leftarrow> upd_isca p (\<lambda>i. i\<lparr>isca_buffer_list := map_option (\<lambda>b. (b, [])) b\<rparr>) s;
         case b of None \<Rightarrow> instream_ca_failed e p SoundIoErrorNoMem s
         | Some b \<Rightarrow> hal_read (get_property_buffers (chal e) (dca_device_id dca) prop) fail
             (\<lambda>buffers s. do {
               s \<leftarrow> upd_isca p (\<lambda>i. i\<lparr>isca_buffer_list := Some (b, buffers)\<rparr>) s;
               instream_open_instance_ca e p dca s
             }) s
       }) s
   }"

definition instream_pause_ca ::
  "('j, 'z) ca_env \<Rightarrow> nat \<Rightarrow> bool \<Rightarrow> ('j, 'z) jsio_scheme \<Rightarrow> (SoundIoError \<times> ('j, 'z) jsio_scheme) option" where
  "instream_pause_ca e p pause s = do {
     is \<leftarrow> instreams s p;
     inst \<leftarrow> isca_instance (isca is);
     let (os_err, s) = in_world ((if pause then AudioOutputUnitStop (cunit e) else AudioOutputUnitStart (cunit e)) inst) s;
     Some (if os_err \<noteq> 0 then SoundIoErrorStreaming else SoundIoErrorNone, s)
   }"

definition instream_start_ca ::
  "('j, 'z) ca_env \<Rightarrow> nat \<Rightarrow> ('j, 'z) jsio_scheme \<Rightarrow> (SoundIoError \<times> ('j, 'z) jsio_scheme) option" where
  "instream_start_ca e p s = instream_pause_ca e p False s"

definition instream_begin_read_ca ::
  "nat \<Rightarrow> int \<Rightarrow> ('j, 'z) jsio_scheme \<Rightarrow> (SoundIoError \<times> SoundIoChannelArea list \<times> ('j, 'z) jsio_scheme) option" where
  "instream_begin_read_ca p frame_count s = do {
     is \<leftarrow> instreams s p;
     if frame_count \<noteq> isca_frames_left (isca is) then Some (SoundIoErrorInvalid, [], s)
     else Some (SoundIoErrorNone, isca_areas (isca is), s)
   }"

definition instream_end_read_ca ::
  "nat \<Rightarrow> ('j, 'z) jsio_scheme \<Rightarrow> (SoundIoError \<times> ('j, 'z) jsio_scheme) option" where
  "instream_end_read_ca p s = do {
     s \<leftarrow> upd_isca p (\<lambda>i. i\<lparr>isca_frames_left := 0\<rparr>) s;
     Some (SoundIoErrorNone, s)
   }"

definition instream_get_latency_ca :: "nat \<Rightarrow> ('j, 'z) jsio_scheme \<Rightarrow> (SoundIoError \<times> real) option" where
  "instream_get_latency_ca p s = do { is \<leftarrow> instreams s p; Some (SoundIoErrorNone, isca_hardware_latency (isca is)) }"

end
