(* ===== verification/SoundIo.thy ===== *)
theory SoundIo
  imports PulseStreams AlsaStreams CoreAudioStreams
begin

section \<open>src/soundio.c: the public interface\<close>

text \<open>
  The functions of \<open>soundio.c\<close> that create, connect and tear down the library, list devices
  and forward stream operations to the connected backend. A build of the library is the
  parameter \<open>b\<close>: whether JACK, PulseAudio, ALSA and CoreAudio are compiled in, the byte order, and
  these libraries with the data callbacks of the application. WASAPI is disabled in the builds that
  are modelled, as the build files allow, so its entries in the tables are NULL.
  A call through a slot of the function table runs the function of the backend that the slot
  holds; calling an empty slot is undefined.
\<close>

record ('j, 'z) build =
  have_jack :: bool
  have_pulseaudio :: bool
  have_alsa :: bool
  have_coreaudio :: bool
  BIG_ENDIAN :: bool
  libjack :: "'j jack_api"
  libpulse :: "('j, 'z) pulse_env"
  libalsa :: "('j, 'z) alsa_env"
  libcoreaudio :: "('j, 'z) ca_env"

subsection \<open>The backend tables\<close>

definition available_backends :: "('j, 'z) build \<Rightarrow> SoundIoBackend list" where
  "available_backends b = (if have_jack b then [SoundIoBackendJack] else []) @
     (if have_pulseaudio b then [SoundIoBackendPulseAudio] else []) @
     (if have_alsa b then [SoundIoBackendAlsa] else []) @
     (if have_coreaudio b then [SoundIoBackendCoreAudio] else []) @ [SoundIoBackendDummy]"

definition backend_init_fns ::
  "('j, 'z) build \<Rightarrow> SoundIoBackend \<Rightarrow> (nat \<Rightarrow> ('j, 'z) jsio_scheme \<Rightarrow> (SoundIoError \<times> ('j, 'z) jsio_scheme) option) option" where
  "backend_init_fns b backend =
     (case backend of
        SoundIoBackendJack \<Rightarrow> if have_jack b then Some (soundio_jack_init (libjack b) (BIG_ENDIAN b)) else None
      | SoundIoBackendPulseAudio \<Rightarrow> if have_pulseaudio b then Some (soundio_pulseaudio_init (libpulse b)) else None
      | SoundIoBackendAlsa \<Rightarrow> if have_alsa b then Some (soundio_alsa_init (libalsa b)) else None
      | SoundIoBackendCoreAudio \<Rightarrow> if have_coreaudio b then Some (soundio_coreaudio_init (libcoreaudio b)) else None
      | SoundIoBackendDummy \<Rightarrow> Some (soundio_dummy_init (BIG_ENDIAN b))
      | _ \<Rightarrow> None)"

text \<open>The function in a slot, called on each of the modelled backends.\<close>

definition dispatch ::
  "vfn \<Rightarrow> nat \<Rightarrow> (('j, 'z) jsio_scheme \<Rightarrow> 'r option) \<Rightarrow> (('j, 'z) jsio_scheme \<Rightarrow> 'r option) \<Rightarrow>
   (('j, 'z) jsio_scheme \<Rightarrow> 'r option) \<Rightarrow> (('j, 'z) jsio_scheme \<Rightarrow> 'r option) \<Rightarrow>
   (('j, 'z) jsio_scheme \<Rightarrow> 'r option) \<Rightarrow> ('j, 'z) jsio_scheme \<Rightarrow> 'r option" where
  "dispatch f si on_dummy on_jack on_pulse on_alsa on_coreaudio s = do {
     x \<leftarrow> sios s si;
     backend \<leftarrow> vtable x f;
     (case backend of SoundIoBackendDummy \<Rightarrow> on_dummy s | SoundIoBackendJack \<Rightarrow> on_jack s
        | SoundIoBackendPulseAudio \<Rightarrow> on_pulse s | SoundIoBackendAlsa \<Rightarrow> on_alsa s
        | SoundIoBackendCoreAudio \<Rightarrow> on_coreaudio s | _ \<Rightarrow> None)
   }"

text \<open>
  The dummy and the JACK backend leave the frame count as it is, and reading the latency there
  changes nothing.
\<close>

definition keeps_count ::
  "int \<Rightarrow> ('s \<Rightarrow> (SoundIoError \<times> SoundIoChannelArea list \<times> 's) option) \<Rightarrow> 's \<Rightarrow>
   (SoundIoError \<times> SoundIoChannelArea list \<times> int \<times> 's) option" where
  "keeps_count frame_count f s = do { (err, areas, s) \<leftarrow> f s; Some (err, areas, frame_count, s) }"

definition only_reads :: "('s \<Rightarrow> (SoundIoError \<times> real) option) \<Rightarrow> 's \<Rightarrow> (SoundIoError \<times> real \<times> 's) option" where
  "only_reads f s = do { (err, latency) \<leftarrow> f s; Some (err, latency, s) }"

definition set_slot :: "vfn \<Rightarrow> nat \<Rightarrow> 'z sio_scheme \<Rightarrow> bool option" where
  "set_slot f si s = do { x \<leftarrow> sios s si; Some (vtable x f \<noteq> None) }"

subsection \<open>Creating, connecting and destroying\<close>

definition sio_create :: SoundIoPrivate where
  "sio_create = \<lparr>current_backend = SoundIoBackendNone, app_name = ''SoundIo'', emit_rtprio_warning_set = True,
     on_backend_disconnect_default = True, jack_info_callback_set = True, jack_error_callback_set = True,
     safe_devices_info = None, vtable = (\<lambda>f. None), dummy = dummy_zero, jack = jack_zero,
     pulseaudio = pulse_zero, alsa = alsa_zero, coreaudio = ca_zero\<rparr>"

definition soundio_create :: "'z sio_scheme \<Rightarrow> (nat option \<times> 'z sio_scheme) option" where
  "soundio_create s = do {
     (err, s) \<leftarrow> soundio_os_init s;
     if err \<noteq> SoundIoErrorNone then Some (None, s)
     else
       let (si, s) = alloc s
       in case si of None \<Rightarrow> Some (None, s)
       | Some p \<Rightarrow> Some (Some p, s\<lparr>sios := (sios s)(p \<mapsto> sio_create)\<rparr>)
   }"

definition soundio_disconnect :: "('j, 'z) build \<Rightarrow> nat option \<Rightarrow> ('j, 'z) jsio_scheme \<Rightarrow> ('j, 'z) jsio_scheme option" where
  "soundio_disconnect b soundio s =
     (case soundio of None \<Rightarrow> Some s
      | Some si \<Rightarrow> do {
          has_destroy \<leftarrow> set_slot V_destroy si s;
          s \<leftarrow> (if has_destroy then dispatch V_destroy si (destroy_dummy si) (destroy_jack (libjack b) si)
            (destroy_pa (libpulse b) si) (destroy_alsa (libalsa b) si)
            (destroy_ca (libcoreaudio b) si) s else Some s);
          s \<leftarrow> upd_sio si (\<lambda>x. x\<lparr>dummy := dummy_zero, jack := jack_zero, pulseaudio := pulse_zero, alsa := alsa_zero, coreaudio := ca_zero,
            current_backend := SoundIoBackendNone\<rparr>) s;
          x \<leftarrow> sios s si;
          s \<leftarrow> soundio_destroy_devices_info (safe_devices_info x) s;
          upd_sio si (\<lambda>x. x\<lparr>safe_devices_info := None, vtable := (\<lambda>f. None)\<rparr>) s
        })"

definition soundio_destroy :: "('j, 'z) build \<Rightarrow> nat option \<Rightarrow> ('j, 'z) jsio_scheme \<Rightarrow> ('j, 'z) jsio_scheme option" where
  "soundio_destroy b soundio s = do {
     s \<leftarrow> soundio_disconnect b soundio s;
     case soundio of None \<Rightarrow> Some s
     | Some si \<Rightarrow> free_blk (Some si) (s\<lparr>sios := (sios s)(si := None)\<rparr>)
   }"

definition soundio_connect_backend ::
  "('j, 'z) build \<Rightarrow> nat \<Rightarrow> SoundIoBackend \<Rightarrow> ('j, 'z) jsio_scheme \<Rightarrow> (SoundIoError \<times> ('j, 'z) jsio_scheme) option" where
  "soundio_connect_backend b si backend s = do {
     x \<leftarrow> sios s si;
     if current_backend x \<noteq> SoundIoBackendNone then Some (SoundIoErrorInvalid, s)
     else if backend \<le> SoundIoBackendNone \<or> backend > SoundIoBackendDummy then Some (SoundIoErrorInvalid, s)
     else case backend_init_fns b backend of
       None \<Rightarrow> Some (SoundIoErrorBackendUnavailable, s)
     | Some fn \<Rightarrow> do {
         (err, s) \<leftarrow> fn si s;
         if err \<noteq> SoundIoErrorNone then do {
           s \<leftarrow> soundio_disconnect b (Some si) s;
           Some (err, s)
         }
         else do {
           s \<leftarrow> upd_sio si (\<lambda>x. x\<lparr>current_backend := backend\<rparr>) s;
           Some (SoundIoErrorNone, s)
         }
       }
   }"

text \<open>\<open>err\<close> is the value of the last attempt, none when there was none.\<close>

fun connect_loop ::
  "('j, 'z) build \<Rightarrow> nat \<Rightarrow> SoundIoBackend list \<Rightarrow> SoundIoError \<Rightarrow> ('j, 'z) jsio_scheme \<Rightarrow>
   (SoundIoError \<times> ('j, 'z) jsio_scheme) option" where
  "connect_loop b si [] err s = Some (err, s)"
| "connect_loop b si (backend # rest) err s = do {
     (err, s) \<leftarrow> soundio_connect_backend b si backend s;
     if err = SoundIoErrorNone then Some (SoundIoErrorNone, s)
     else if err \<noteq> SoundIoErrorInitAudioBackend then Some (err, s)
     else connect_loop b si rest err s
   }"

definition soundio_connect :: "('j, 'z) build \<Rightarrow> nat \<Rightarrow> ('j, 'z) jsio_scheme \<Rightarrow> (SoundIoError \<times> ('j, 'z) jsio_scheme) option" where
  "soundio_connect b si s = connect_loop b si (available_backends b) SoundIoErrorNone s"

definition soundio_have_backend :: "('j, 'z) build \<Rightarrow> SoundIoBackend \<Rightarrow> bool option" where
  "soundio_have_backend b backend = do {
     c_assert (backend > SoundIoBackendNone);
     c_assert (backend \<le> SoundIoBackendDummy);
     Some (backend_init_fns b backend \<noteq> None)
   }"

definition soundio_backend_count :: "('j, 'z) build \<Rightarrow> int" where
  "soundio_backend_count b = int (length (available_backends b))"

definition soundio_get_backend :: "('j, 'z) build \<Rightarrow> int \<Rightarrow> SoundIoBackend option" where
  "soundio_get_backend b index = arr_at (available_backends b) index"

subsection \<open>Events\<close>

text \<open>\<open>others\<close> is what other threads do while the call waits with the backend's mutex released.\<close>

definition soundio_flush_events ::
  "('j, 'z) build \<Rightarrow> (('j, 'z) jsio_scheme \<Rightarrow> ('j, 'z) jsio_scheme option) \<Rightarrow> nat \<Rightarrow> ('j, 'z) jsio_scheme \<Rightarrow> ('j, 'z) jsio_scheme option" where
  "soundio_flush_events b others si s = do {
     x \<leftarrow> sios s si;
     c_assert (current_backend x \<noteq> SoundIoBackendNone);
     dispatch V_flush_events si (flush_events_dummy si) (flush_events_jack (libjack b) (BIG_ENDIAN b) si)
       (flush_events_pa (libpulse b) si) (flush_events_alsa others si) (flush_events_ca others si) s
   }"

definition soundio_wait_events ::
  "('j, 'z) build \<Rightarrow> (('j, 'z) jsio_scheme \<Rightarrow> ('j, 'z) jsio_scheme option) \<Rightarrow> nat \<Rightarrow> ('j, 'z) jsio_scheme \<Rightarrow> ('j, 'z) jsio_scheme option" where
  "soundio_wait_events b others si s =
     dispatch V_wait_events si (wait_events_dummy si) (wait_events_jack (libjack b) (BIG_ENDIAN b) others si)
       (wait_events_pa (libpulse b) si) (wait_events_alsa others si) (wait_events_ca others si) s"

definition soundio_wakeup :: "('j, 'z) build \<Rightarrow> nat \<Rightarrow> ('j, 'z) jsio_scheme \<Rightarrow> ('j, 'z) jsio_scheme option" where
  "soundio_wakeup b si s =
     dispatch V_wakeup si (wakeup_dummy si) (wakeup_jack si)
       (wakeup_pa (libpulse b) si) (wakeup_alsa si) (wakeup_ca si) s"

definition soundio_force_device_scan :: "('j, 'z) build \<Rightarrow> nat \<Rightarrow> ('j, 'z) jsio_scheme \<Rightarrow> ('j, 'z) jsio_scheme option" where
  "soundio_force_device_scan b si s =
     dispatch V_force_device_scan si (force_device_scan_dummy si) (force_device_scan_jack si)
       (force_device_scan_pa (libpulse b) si) (force_device_scan_alsa (libalsa b) si)
       (force_device_scan_ca si) s"

subsection \<open>Devices\<close>

text \<open>The assertions that the device functions begin with, and the lists they read.\<close>

definition connected_info :: "nat \<Rightarrow> 'z sio_scheme \<Rightarrow> SoundIoDevicesInfo option" where
  "connected_info si s = do {
     x \<leftarrow> sios s si;
     c_assert (safe_devices_info x \<noteq> None);
     c_assert (current_backend x \<noteq> SoundIoBackendNone);
     q \<leftarrow> safe_devices_info x;
     infos s q
   }"

definition soundio_input_device_count :: "nat \<Rightarrow> 'z sio_scheme \<Rightarrow> int option" where
  "soundio_input_device_count si s = do { info \<leftarrow> connected_info si s; Some (l_length (input_devices info)) }"

definition soundio_output_device_count :: "nat \<Rightarrow> 'z sio_scheme \<Rightarrow> int option" where
  "soundio_output_device_count si s = do { info \<leftarrow> connected_info si s; Some (l_length (output_devices info)) }"

definition soundio_default_input_device_index :: "nat \<Rightarrow> 'z sio_scheme \<Rightarrow> int option" where
  "soundio_default_input_device_index si s = do { info \<leftarrow> connected_info si s; Some (default_input_index info) }"

definition soundio_default_output_device_index :: "nat \<Rightarrow> 'z sio_scheme \<Rightarrow> int option" where
  "soundio_default_output_device_index si s = do { info \<leftarrow> connected_info si s; Some (default_output_index info) }"

definition soundio_get_input_device :: "nat \<Rightarrow> int \<Rightarrow> 'z sio_scheme \<Rightarrow> (nat \<times> 'z sio_scheme) option" where
  "soundio_get_input_device si index s = do {
     info \<leftarrow> connected_info si s;
     c_assert (index \<ge> 0);
     c_assert (index < l_length (input_devices info));
     device \<leftarrow> list_val_at (input_devices info) index;
     s \<leftarrow> soundio_device_ref (Some device) s;
     Some (device, s)
   }"

definition soundio_get_output_device :: "nat \<Rightarrow> int \<Rightarrow> 'z sio_scheme \<Rightarrow> (nat \<times> 'z sio_scheme) option" where
  "soundio_get_output_device si index s = do {
     info \<leftarrow> connected_info si s;
     c_assert (index \<ge> 0);
     c_assert (index < l_length (output_devices info));
     device \<leftarrow> list_val_at (output_devices info) index;
     s \<leftarrow> soundio_device_ref (Some device) s;
     Some (device, s)
   }"

subsection \<open>Output streams\<close>

text \<open>The library object behind a stream: \<open>outstream->device->soundio\<close>.\<close>

definition outstream_soundio :: "nat \<Rightarrow> 'z sio_scheme \<Rightarrow> nat option" where
  "outstream_soundio p s = do {
     os \<leftarrow> outstreams s p;
     dv \<leftarrow> os_device os;
     device \<leftarrow> devices s dv;
     dev_soundio device
   }"

definition soundio_outstream_create :: "nat option \<Rightarrow> 'z sio_scheme \<Rightarrow> (nat option \<times> 'z sio_scheme) option" where
  "soundio_outstream_create device s =
     (let (os, s) = alloc s
      in case os of None \<Rightarrow> Some (None, s)
      | Some p \<Rightarrow>
          if device = None then Some (None, s)
          else do {
            s \<leftarrow> soundio_device_ref device (s\<lparr>outstreams := (outstreams s)(p \<mapsto>
              outstream_zero\<lparr>os_device := device, os_error_callback_default := True\<rparr>)\<rparr>);
            Some (Some p, s)
          })"

text \<open>The defaults that \<open>soundio_outstream_open\<close> fills in.\<close>

definition outstream_default_format :: "('j, 'z) build \<Rightarrow> SoundIoDevice \<Rightarrow> SoundIoFormat option" where
  "outstream_default_format b device = do {
     float \<leftarrow> soundio_device_supports_format device (SoundIoFormatFloat32NE (BIG_ENDIAN b));
     if float then Some (SoundIoFormatFloat32NE (BIG_ENDIAN b)) else arr_at (format_cells device) 0
   }"

definition outstream_default_layout :: "SoundIoDevice \<Rightarrow> SoundIoChannelLayout option" where
  "outstream_default_layout device = do {
     stereo \<leftarrow> soundio_channel_layout_get_builtin (SoundIoChannelLayoutId_val SoundIoChannelLayoutIdStereo);
     ok \<leftarrow> soundio_device_supports_layout device stereo;
     if ok then Some stereo else arr_at (layout_cells device) 0
   }"

definition soundio_outstream_open ::
  "('j, 'z) build \<Rightarrow> nat \<Rightarrow> ('j, 'z) jsio_scheme \<Rightarrow> (SoundIoError \<times> ('j, 'z) jsio_scheme) option" where
  "soundio_outstream_open b p s = do {
     os \<leftarrow> outstreams s p;
     dv \<leftarrow> os_device os;
     device \<leftarrow> devices s dv;
     if aim device \<noteq> SoundIoDeviceAimOutput then Some (SoundIoErrorInvalid, s)
     else if probe_error device \<noteq> SoundIoErrorNone then Some (probe_error device, s)
     else if cl_channel_count (os_layout os) > int SOUNDIO_MAX_CHANNELS then Some (SoundIoErrorInvalid, s)
     else do {
       format \<leftarrow> (if os_format os = SoundIoFormatInvalid then outstream_default_format b device else Some (os_format os));
       s \<leftarrow> upd_out p (\<lambda>x. x\<lparr>os_format := format\<rparr>) s;
       if format \<le> SoundIoFormatInvalid then Some (SoundIoErrorInvalid, s)
       else do {
         layout \<leftarrow> (if cl_channel_count (os_layout os) = 0 then outstream_default_layout device else Some (os_layout os));
         s \<leftarrow> upd_out p (\<lambda>x. x\<lparr>os_layout := layout\<rparr>) s;
         rate \<leftarrow> (if os_sample_rate os = 0 then soundio_device_nearest_sample_rate device 48000 else Some (os_sample_rate os));
         s \<leftarrow> upd_out p (\<lambda>x. x\<lparr>os_sample_rate := rate\<rparr>) s;
         bytes_per_frame \<leftarrow> soundio_get_bytes_per_frame format (cl_channel_count layout);
         s \<leftarrow> upd_out p (\<lambda>x. x\<lparr>os_bytes_per_frame := bytes_per_frame,
           os_bytes_per_sample := soundio_get_bytes_per_sample format\<rparr>) s;
         si \<leftarrow> dev_soundio device;
         dispatch V_outstream_open si (outstream_open_dummy p) (outstream_open_jack (libjack b) si p)
           (outstream_open_pa (libpulse b) si p) (outstream_open_alsa (libalsa b) p)
           (outstream_open_ca (libcoreaudio b) p) s
       }
     }
   }"

definition soundio_outstream_destroy ::
  "('j, 'z) build \<Rightarrow> nat option \<Rightarrow> ('j, 'z) jsio_scheme \<Rightarrow> ('j, 'z) jsio_scheme option" where
  "soundio_outstream_destroy b outstream s =
     (case outstream of None \<Rightarrow> Some s
      | Some p \<Rightarrow> do {
          os \<leftarrow> outstreams s p;
          si \<leftarrow> outstream_soundio p s;
          has_destroy \<leftarrow> set_slot V_outstream_destroy si s;
          s \<leftarrow> (if has_destroy
            then dispatch V_outstream_destroy si (outstream_destroy_dummy p) (outstream_destroy_jack (libjack b) p)
              (outstream_destroy_pa (libpulse b) si p) (outstream_destroy_alsa (libalsa b) p)
              (outstream_destroy_ca (libcoreaudio b) p) s else Some s);
          s \<leftarrow> soundio_device_unref (os_device os) s;
          free_blk (Some p) (s\<lparr>outstreams := (outstreams s)(p := None)\<rparr>)
        })"

definition soundio_outstream_start ::
  "('j, 'z) build \<Rightarrow> nat \<Rightarrow> ('j, 'z) jsio_scheme \<Rightarrow> (SoundIoError \<times> ('j, 'z) jsio_scheme) option" where
  "soundio_outstream_start b p s = do {
     si \<leftarrow> outstream_soundio p s;
     dispatch V_outstream_start si (outstream_start_dummy si p) (outstream_start_jack (libjack b) si p)
       (outstream_start_pa (libpulse b) si p) (outstream_start_alsa si p) (outstream_start_ca (libcoreaudio b) p) s
   }"

definition soundio_outstream_pause ::
  "('j, 'z) build \<Rightarrow> nat \<Rightarrow> bool \<Rightarrow> ('j, 'z) jsio_scheme \<Rightarrow> (SoundIoError \<times> ('j, 'z) jsio_scheme) option" where
  "soundio_outstream_pause b p pause s = do {
     si \<leftarrow> outstream_soundio p s;
     dispatch V_outstream_pause si (outstream_pause_dummy p pause) (outstream_pause_jack si p pause)
       (outstream_pause_pa (libpulse b) si p pause) (outstream_pause_alsa (libalsa b) p pause)
       (outstream_pause_ca (libcoreaudio b) p pause) s
   }"

definition soundio_outstream_begin_write ::
  "('j, 'z) build \<Rightarrow> nat \<Rightarrow> int \<Rightarrow> ('j, 'z) jsio_scheme \<Rightarrow>
   (SoundIoError \<times> SoundIoChannelArea list \<times> int \<times> ('j, 'z) jsio_scheme) option" where
  "soundio_outstream_begin_write b p frame_count s = do {
     si \<leftarrow> outstream_soundio p s;
     if frame_count \<le> 0 then Some (SoundIoErrorInvalid, [], frame_count, s)
     else dispatch V_outstream_begin_write si (keeps_count frame_count (outstream_begin_write_dummy p frame_count))
       (keeps_count frame_count (outstream_begin_write_jack p frame_count)) (outstream_begin_write_pa (libpulse b) p frame_count)
       (outstream_begin_write_alsa (libalsa b) p frame_count) (outstream_begin_write_ca p frame_count) s
   }"

definition soundio_outstream_end_write ::
  "('j, 'z) build \<Rightarrow> nat \<Rightarrow> ('j, 'z) jsio_scheme \<Rightarrow> (SoundIoError \<times> ('j, 'z) jsio_scheme) option" where
  "soundio_outstream_end_write b p s = do {
     si \<leftarrow> outstream_soundio p s;
     dispatch V_outstream_end_write si (outstream_end_write_dummy p) (outstream_end_write_jack p)
       (outstream_end_write_pa (libpulse b) p) (outstream_end_write_alsa (libalsa b) p) (outstream_end_write_ca p) s
   }"

definition soundio_outstream_get_latency ::
  "('j, 'z) build \<Rightarrow> nat \<Rightarrow> ('j, 'z) jsio_scheme \<Rightarrow> (SoundIoError \<times> real \<times> ('j, 'z) jsio_scheme) option" where
  "soundio_outstream_get_latency b p s = do {
     si \<leftarrow> outstream_soundio p s;
     dispatch V_outstream_get_latency si (only_reads (outstream_get_latency_dummy p)) (only_reads (outstream_get_latency_jack p))
       (outstream_get_latency_pa (libpulse b) p) (outstream_get_latency_alsa (libalsa b) p)
       (only_reads (outstream_get_latency_ca p)) s
   }"

definition soundio_outstream_clear_buffer ::
  "nat \<Rightarrow> ('j, 'z) jsio_scheme \<Rightarrow> (SoundIoError \<times> ('j, 'z) jsio_scheme) option" where
  "soundio_outstream_clear_buffer p s = do {
     si \<leftarrow> outstream_soundio p s;
     dispatch V_outstream_clear_buffer si (outstream_clear_buffer_dummy p) (outstream_clear_buffer_jack p)
       (outstream_clear_buffer_pa p) (outstream_clear_buffer_alsa p) (outstream_clear_buffer_ca p) s
   }"

text \<open>Only CoreAudio has a function for the volume; elsewhere the slot is empty.\<close>

definition soundio_outstream_set_volume ::
  "('j, 'z) build \<Rightarrow> nat \<Rightarrow> real \<Rightarrow> ('j, 'z) jsio_scheme \<Rightarrow> (SoundIoError \<times> ('j, 'z) jsio_scheme) option" where
  "soundio_outstream_set_volume b p volume s = do {
     si \<leftarrow> outstream_soundio p s;
     dispatch V_outstream_set_volume si (\<lambda>s. None) (\<lambda>s. None) (\<lambda>s. None) (\<lambda>s. None)
       (outstream_set_volume_ca (libcoreaudio b) p volume) s
   }"

subsection \<open>Input streams\<close>

text \<open>The library object behind a stream: \<open>instream->device->soundio\<close>.\<close>

definition instream_soundio :: "nat \<Rightarrow> 'z sio_scheme \<Rightarrow> nat option" where
  "instream_soundio p s = do {
     is \<leftarrow> instreams s p;
     dv \<leftarrow> is_device is;
     device \<leftarrow> devices s dv;
     dev_soundio device
   }"

definition soundio_instream_create :: "nat option \<Rightarrow> 'z sio_scheme \<Rightarrow> (nat option \<times> 'z sio_scheme) option" where
  "soundio_instream_create device s =
     (let (is, s) = alloc s
      in case is of None \<Rightarrow> Some (None, s)
      | Some p \<Rightarrow>
          if device = None then Some (None, s)
          else do {
            s \<leftarrow> soundio_device_ref device (s\<lparr>instreams := (instreams s)(p \<mapsto>
              instream_zero\<lparr>is_device := device, is_error_callback_default := True\<rparr>)\<rparr>);
            Some (Some p, s)
          })"

text \<open>The defaults that \<open>soundio_instream_open\<close> fills in.\<close>

definition instream_default_format :: "('j, 'z) build \<Rightarrow> SoundIoDevice \<Rightarrow> SoundIoFormat option" where
  "instream_default_format b device = do {
     float \<leftarrow> soundio_device_supports_format device (SoundIoFormatFloat32NE (BIG_ENDIAN b));
     if float then Some (SoundIoFormatFloat32NE (BIG_ENDIAN b)) else arr_at (format_cells device) 0
   }"

definition instream_default_layout :: "SoundIoDevice \<Rightarrow> SoundIoChannelLayout option" where
  "instream_default_layout device = do {
     stereo \<leftarrow> soundio_channel_layout_get_builtin (SoundIoChannelLayoutId_val SoundIoChannelLayoutIdStereo);
     ok \<leftarrow> soundio_device_supports_layout device stereo;
     if ok then Some stereo else arr_at (layout_cells device) 0
   }"

definition soundio_instream_open ::
  "('j, 'z) build \<Rightarrow> nat \<Rightarrow> ('j, 'z) jsio_scheme \<Rightarrow> (SoundIoError \<times> ('j, 'z) jsio_scheme) option" where
  "soundio_instream_open b p s = do {
     is \<leftarrow> instreams s p;
     dv \<leftarrow> is_device is;
     device \<leftarrow> devices s dv;
     if aim device \<noteq> SoundIoDeviceAimInput then Some (SoundIoErrorInvalid, s)
     else if is_format is \<le> SoundIoFormatInvalid then Some (SoundIoErrorInvalid, s)
     else if cl_channel_count (is_layout is) > int SOUNDIO_MAX_CHANNELS then Some (SoundIoErrorInvalid, s)
     else if probe_error device \<noteq> SoundIoErrorNone then Some (probe_error device, s)
     else do {
       format \<leftarrow> (if is_format is = SoundIoFormatInvalid then instream_default_format b device else Some (is_format is));
       s \<leftarrow> upd_in p (\<lambda>x. x\<lparr>is_format := format\<rparr>) s;
       do {
         layout \<leftarrow> (if cl_channel_count (is_layout is) = 0 then instream_default_layout device else Some (is_layout is));
         s \<leftarrow> upd_in p (\<lambda>x. x\<lparr>is_layout := layout\<rparr>) s;
         rate \<leftarrow> (if is_sample_rate is = 0 then soundio_device_nearest_sample_rate device 48000 else Some (is_sample_rate is));
         s \<leftarrow> upd_in p (\<lambda>x. x\<lparr>is_sample_rate := rate\<rparr>) s;
         bytes_per_frame \<leftarrow> soundio_get_bytes_per_frame format (cl_channel_count layout);
         s \<leftarrow> upd_in p (\<lambda>x. x\<lparr>is_bytes_per_frame := bytes_per_frame,
           is_bytes_per_sample := soundio_get_bytes_per_sample format\<rparr>) s;
         si \<leftarrow> dev_soundio device;
         dispatch V_instream_open si (instream_open_dummy p) (instream_open_jack (libjack b) si p)
           (instream_open_pa (libpulse b) si p) (instream_open_alsa (libalsa b) p)
           (instream_open_ca (libcoreaudio b) p) s
       }
     }
   }"

definition soundio_instream_destroy ::
  "('j, 'z) build \<Rightarrow> nat option \<Rightarrow> ('j, 'z) jsio_scheme \<Rightarrow> ('j, 'z) jsio_scheme option" where
  "soundio_instream_destroy b instream s =
     (case instream of None \<Rightarrow> Some s
      | Some p \<Rightarrow> do {
          is \<leftarrow> instreams s p;
          si \<leftarrow> instream_soundio p s;
          has_destroy \<leftarrow> set_slot V_instream_destroy si s;
          s \<leftarrow> (if has_destroy
            then dispatch V_instream_destroy si (instream_destroy_dummy p) (instream_destroy_jack (libjack b) p)
              (instream_destroy_pa (libpulse b) si p) (instream_destroy_alsa (libalsa b) p)
              (instream_destroy_ca (libcoreaudio b) p) s else Some s);
          s \<leftarrow> soundio_device_unref (is_device is) s;
          free_blk (Some p) (s\<lparr>instreams := (instreams s)(p := None)\<rparr>)
        })"

definition soundio_instream_start ::
  "('j, 'z) build \<Rightarrow> nat \<Rightarrow> ('j, 'z) jsio_scheme \<Rightarrow> (SoundIoError \<times> ('j, 'z) jsio_scheme) option" where
  "soundio_instream_start b p s = do {
     si \<leftarrow> instream_soundio p s;
     dispatch V_instream_start si (instream_start_dummy si p) (instream_start_jack (libjack b) si p)
       (instream_start_pa (libpulse b) si p) (instream_start_alsa (libalsa b) si p)
       (instream_start_ca (libcoreaudio b) p) s
   }"

definition soundio_instream_pause ::
  "('j, 'z) build \<Rightarrow> nat \<Rightarrow> bool \<Rightarrow> ('j, 'z) jsio_scheme \<Rightarrow> (SoundIoError \<times> ('j, 'z) jsio_scheme) option" where
  "soundio_instream_pause b p pause s = do {
     si \<leftarrow> instream_soundio p s;
     dispatch V_instream_pause si (instream_pause_dummy p pause) (instream_pause_jack si p pause)
       (instream_pause_pa (libpulse b) si p pause) (instream_pause_alsa (libalsa b) p pause)
       (instream_pause_ca (libcoreaudio b) p pause) s
   }"

definition soundio_instream_begin_read ::
  "('j, 'z) build \<Rightarrow> nat \<Rightarrow> int \<Rightarrow> ('j, 'z) jsio_scheme \<Rightarrow>
   (SoundIoError \<times> SoundIoChannelArea list \<times> int \<times> ('j, 'z) jsio_scheme) option" where
  "soundio_instream_begin_read b p frame_count s = do {
     si \<leftarrow> instream_soundio p s;
     dispatch V_instream_begin_read si (keeps_count frame_count (instream_begin_read_dummy p frame_count))
       (keeps_count frame_count (instream_begin_read_jack p frame_count)) (instream_begin_read_pa (libpulse b) p frame_count)
       (instream_begin_read_alsa (libalsa b) p frame_count)
       (keeps_count frame_count (instream_begin_read_ca p frame_count)) s
   }"

definition soundio_instream_end_read ::
  "('j, 'z) build \<Rightarrow> nat \<Rightarrow> ('j, 'z) jsio_scheme \<Rightarrow> (SoundIoError \<times> ('j, 'z) jsio_scheme) option" where
  "soundio_instream_end_read b p s = do {
     si \<leftarrow> instream_soundio p s;
     dispatch V_instream_end_read si (instream_end_read_dummy p) (instream_end_read_jack p)
       (instream_end_read_pa (libpulse b) p) (instream_end_read_alsa (libalsa b) p) (instream_end_read_ca p) s
   }"

definition soundio_instream_get_latency ::
  "('j, 'z) build \<Rightarrow> nat \<Rightarrow> ('j, 'z) jsio_scheme \<Rightarrow> (SoundIoError \<times> real \<times> ('j, 'z) jsio_scheme) option" where
  "soundio_instream_get_latency b p s = do {
     si \<leftarrow> instream_soundio p s;
     dispatch V_instream_get_latency si (only_reads (instream_get_latency_dummy p)) (only_reads (instream_get_latency_jack p))
       (instream_get_latency_pa (libpulse b) p) (instream_get_latency_alsa (libalsa b) p)
       (only_reads (instream_get_latency_ca p)) s
   }"

text \<open>A process before its first call into the library, for the examples: every request is answered by \<open>ans\<close>.\<close>

definition lib_start :: "bool list \<Rightarrow> 'j \<Rightarrow> 'j jsio" where
  "lib_start ans w = os.extend (os_start ans)
     \<lparr>devices = (\<lambda>_. None), infos = (\<lambda>_. None), sios = (\<lambda>_. None), outstreams = (\<lambda>_. None), instreams = (\<lambda>_. None),
      trace = [], world = w, global_msg_callback_flag = False, loop_locks = (\<lambda>_. 0)\<rparr>"

end
