(* ===== verification/Connect.thy ===== *)
theory Connect
  imports DummyInit SoundIo
begin

section \<open>Connecting and disconnecting the dummy backend\<close>

text \<open>
  The functions of the public interface composed with the initialisation of the dummy backend:
  a connection succeeds or changes nothing, disconnecting undoes it, and the life of a library
  object returns all it took. Everything is stated for all answers of the allocator.
\<close>

definition dummy_connected ::
  "bool \<Rightarrow> nat \<Rightarrow> SoundIoPrivate \<Rightarrow> bool list \<Rightarrow> 'z sio_scheme \<Rightarrow> 'z sio_scheme" where
  "dummy_connected be si x ans s =
     (half_built s si x True ans (next_id s + 15) {next_id s + 3..next_id s + 14}
        ((devices s)(next_id s + 3 \<mapsto> out_dev be si (next_id s + 3), next_id s + 9 \<mapsto> in_dev be si (next_id s + 9)))
        (info_both (next_id s)))
     \<lparr>sios := (sios s)(si \<mapsto> x\<lparr>dummy := \<lparr>dummy_mutex = Some (next_id s), dummy_cond = Some (next_id s + 1),
        devices_emitted = False\<rparr>, safe_devices_info := Some (next_id s + 2), vtable := dummy_vtable,
        current_backend := SoundIoBackendDummy\<rparr>)\<rparr>"

lemma dummy_vtable_volume: "dummy_vtable V_outstream_set_volume = None"
  by (simp add: dummy_vtable_def)

lemma idle_vtable:
  "idle x \<Longrightarrow> (\<lambda>f. if f = V_outstream_set_volume then vtable x f else dummy_vtable f) = dummy_vtable"
  by (auto simp: idle_def dummy_vtable_def)

lemma disconnect_no_backend:
  assumes "no_backend si x s t" and "sios s si = Some x" and "idle x"
  shows "\<exists>ans n. soundio_disconnect b (Some si) t = Some (bump ans n s)"
proof -
  obtain ans n y where t: "t = s\<lparr>answers := ans, next_id := n, sios := (sios s)(si \<mapsto> x\<lparr>dummy := y\<rparr>)\<rparr>"
    using assms(1) by (auto simp: no_backend_def)
  have "x\<lparr>dummy := dummy_zero, jack := jack_zero, pulseaudio := pulse_zero, alsa := alsa_zero, coreaudio := ca_zero, current_backend := SoundIoBackendNone, safe_devices_info := None,
      vtable := (\<lambda>f. None)\<rparr> = x"
    using assms(3) by (rule idle_reset)
  moreover have "(sios s)(si \<mapsto> x) = sios s" using assms(2) by (simp add: fun_upd_idem)
  moreover have "vtable x = (\<lambda>f. None)" "safe_devices_info x = None" using assms(3) by (simp_all add: idle_def)
  ultimately have "soundio_disconnect b (Some si) t = Some (bump ans n s)"
    by (simp add: t soundio_disconnect_def set_slot_def upd_sio_def soundio_destroy_devices_info_def)
  then show ?thesis by blast
qed

lemma disconnect_half_built:
  assumes ids: "ids_ok s" and x: "sios s si = Some x" and idle: "idle x" and l: "leftover be si s B D info"
  shows "soundio_disconnect b (Some si) (half_built s si x False ans n B D info) = Some (bump ans n s)"
proof -
  let ?k = "next_id s"
  let ?t = "half_built s si x False ans n B D info"
  let ?y = "x\<lparr>safe_devices_info := Some (?k + 2), dummy := dummy_zero, jack := jack_zero, pulseaudio := pulse_zero, alsa := alsa_zero, coreaudio := ca_zero, current_backend := SoundIoBackendNone\<rparr>"
  let ?u = "?t\<lparr>sios := (sios s)(si \<mapsto> ?y)\<rparr>"
  have fresh: "i \<notin> blocks s" "infos s i = None" "devices s i = None" if "?k \<le> i" for i
    using ids that by (auto simp: ids_ok_def)
  have none: "vtable x = (\<lambda>f. None)" using idle by (simp add: idle_def)
  have "soundio_destroy_devices_info (Some (?k + 2)) ?u = Some (s\<lparr>answers := ans, next_id := n, sios := (sios s)(si \<mapsto> ?y)\<rparr>)"
  proof (cases "B = {}")
    case True
    with l have D: "D = devices s" "info = info_start" by (auto simp: leftover_def)
    have "insert (?k + 2) (blocks s) - {?k + 2} = blocks s" using fresh [of "?k + 2"] by simp
    moreover have "(infos s)(?k + 2 := None) = infos s" using fresh [of "?k + 2"] by (simp add: fun_upd_idem)
    ultimately show ?thesis
      using destroy_info_start [of ?u "?k + 2"] by (simp add: half_built_def True D)
  next
    case False
    with l have D: "B = {?k + 3..?k + 8}" "info = info_out ?k" "D = (devices s)(?k + 3 \<mapsto> out_dev be si (?k + 3))"
      by (auto simp: leftover_def)
    have "blocks s \<union> {?k + 3..?k + 8} \<union> {?k + 2} - {?k + 2..?k + 8} = blocks s" using fresh(1) by force
    moreover have "(infos s)(?k + 2 := None) = infos s" "(devices s)(?k + 3 := None) = devices s"
      using fresh [of "?k + 2"] fresh [of "?k + 3"] by (simp_all add: fun_upd_idem)
    ultimately show ?thesis
      using destroy_info_out [of ?u ?k be si] by (force simp add: half_built_def D)
  qed
  moreover have "?y\<lparr>safe_devices_info := None, vtable := (\<lambda>f. None)\<rparr> = x"
    using idle by (cases x) (simp add: idle_def)
  moreover have "(sios s)(si \<mapsto> x) = sios s" using x by (simp add: fun_upd_idem)
  moreover have "soundio_disconnect b (Some si) ?t = do {
      s \<leftarrow> soundio_destroy_devices_info (Some (?k + 2)) ?u;
      upd_sio si (\<lambda>x. x\<lparr>safe_devices_info := None, vtable := (\<lambda>f. None)\<rparr>) s
    }"
    by (simp add: half_built_def soundio_disconnect_def set_slot_def upd_sio_def [abs_def] none)
  ultimately show ?thesis by (simp add: upd_sio_def)
qed

lemma disconnect_connected:
  assumes ids: "ids_ok s" and x: "sios s si = Some x" and idle: "idle x"
  shows "soundio_disconnect b (Some si) (dummy_connected be si x ans s) = Some (bump ans (next_id s + 15) s)"
proof -
  let ?k = "next_id s"
  let ?t = "dummy_connected be si x ans s"
  let ?D = "(devices s)(?k + 3 \<mapsto> out_dev be si (?k + 3), ?k + 9 \<mapsto> in_dev be si (?k + 9))"
  let ?y = "x\<lparr>safe_devices_info := Some (?k + 2), vtable := dummy_vtable, dummy := dummy_zero, jack := jack_zero, pulseaudio := pulse_zero, alsa := alsa_zero, coreaudio := ca_zero,
      current_backend := SoundIoBackendNone\<rparr>"
  let ?I = "blocks s \<union> {?k + 3..?k + 14}"
  let ?u = "s\<lparr>answers := ans, next_id := ?k + 15, devices := ?D, infos := (infos s)(?k + 2 \<mapsto> info_both ?k),
      blocks := insert (?k + 2) ?I, sios := (sios s)(si \<mapsto> ?y)\<rparr>"
  have fresh: "i \<notin> blocks s" "infos s i = None" "devices s i = None" "mutexes s i = None" "conds s i = None"
    if "?k \<le> i" for i
    using ids that by (auto simp: ids_ok_def)
  have "insert (Suc (Suc ?k)) (insert ?k (insert (Suc ?k) ?I)) - {Suc ?k} - {?k} = insert (Suc (Suc ?k)) ?I"
    using fresh(1) by force
  moreover have "(mutexes s)(?k := None) = mutexes s" "(conds s)(Suc ?k := None) = conds s"
    using fresh [of ?k] fresh [of "Suc ?k"] by (simp_all add: fun_upd_idem)
  ultimately have "soundio_disconnect b (Some si) ?t = do {
      s \<leftarrow> soundio_destroy_devices_info (Some (?k + 2)) ?u;
      upd_sio si (\<lambda>x. x\<lparr>safe_devices_info := None, vtable := (\<lambda>f. None)\<rparr>) s
    }"
    using x by (simp del: insert_Diff_if Un_insert_left add: dummy_connected_def half_built_def soundio_disconnect_def set_slot_def dispatch_def dummy_vtable_def
        destroy_dummy_def soundio_os_cond_destroy_def soundio_os_mutex_destroy_def free_blk_def upd_sio_def [abs_def])
  moreover have "soundio_destroy_devices_info (Some (?k + 2)) ?u =
      Some (s\<lparr>answers := ans, next_id := ?k + 15, sios := (sios s)(si \<mapsto> ?y)\<rparr>)"
  proof -
    have "insert (?k + 2) ?I - {?k + 2..?k + 14} = blocks s" using fresh(1) by force
    moreover have "(infos s)(?k + 2 := None) = infos s" "(devices s)(?k + 9 := None, ?k + 3 := None) = devices s"
      using fresh [of "?k + 2"] fresh [of "?k + 3"] fresh [of "?k + 9"] by (auto simp: fun_upd_idem)
    ultimately show ?thesis
      using destroy_info_both [of ?u ?k be si] by (force simp add: fun_upd_twist)
  qed
  moreover have "?y\<lparr>safe_devices_info := None, vtable := (\<lambda>f. None)\<rparr> = x"
    using idle by (cases x) (simp add: idle_def)
  moreover have "(sios s)(si \<mapsto> x) = sios s" using x by (simp add: fun_upd_idem)
  ultimately show ?thesis by (simp add: upd_sio_def)
qed

lemma connect_dummy_run:
  assumes ids: "ids_ok s" and x: "sios s si = Some x" and idle: "idle x"
  obtains (no_mem) ans n where "soundio_connect_backend b si SoundIoBackendDummy s = Some (SoundIoErrorNoMem, bump ans n s)"
    | (connected) ans where "soundio_connect_backend b si SoundIoBackendDummy s =
        Some (SoundIoErrorNone, dummy_connected (BIG_ENDIAN b) si x ans s)"
proof -
  have idle': "current_backend x = SoundIoBackendNone" "vtable x = (\<lambda>f. None)" using idle by (simp_all add: idle_def)
  have go: "soundio_connect_backend b si SoundIoBackendDummy s = do {
      (err, s) \<leftarrow> soundio_dummy_init (BIG_ENDIAN b) si s;
      if err \<noteq> SoundIoErrorNone then do { s \<leftarrow> soundio_disconnect b (Some si) s; Some (err, s) }
      else do { s \<leftarrow> upd_sio si (\<lambda>x. x\<lparr>current_backend := SoundIoBackendDummy\<rparr>) s; Some (SoundIoErrorNone, s) }
    }"
    using x idle' by (simp add: soundio_connect_backend_def backend_init_fns_def)
  show thesis
  proof (cases rule: dummy_init_start [OF assms, of "BIG_ENDIAN b"])
    case (1 t)
    with disconnect_no_backend [OF 1(2) x idle, of b] show thesis by (auto simp: go intro: no_mem)
  next
    case start: (2 a)
    show thesis
    proof (cases rule: dummy_init_devices_run [OF ids x, of "BIG_ENDIAN b" a])
      case (1 ans n B D info)
      with disconnect_half_built [OF ids x idle 1(2), of b] show thesis by (auto simp: go start intro: no_mem)
    next
      case (2 ans)
      with x show thesis
        by (intro connected [of ans]) (simp add: go start upd_sio_def half_built_sios dummy_connected_def idle'
            dummy_vtable_def [abs_def] half_built_def cong: if_cong)
    qed
  qed
qed

lemma connected_api:
  assumes ids: "ids_ok s" and x: "sios s si = Some x"
  shows "soundio_output_device_count si (dummy_connected be si x ans s) = Some 1"
    "soundio_input_device_count si (dummy_connected be si x ans s) = Some 1"
    "soundio_default_output_device_index si (dummy_connected be si x ans s) = Some 0"
    "soundio_default_input_device_index si (dummy_connected be si x ans s) = Some 0"
    "ids_ok (dummy_connected be si x ans s)"
proof -
  let ?t = "dummy_connected be si x ans s"
  have info: "connected_info si ?t = Some (info_both (next_id s))"
    by (simp add: connected_info_def dummy_connected_def half_built_def)
  show "soundio_output_device_count si ?t = Some 1" "soundio_input_device_count si ?t = Some 1"
    by (simp_all add: soundio_output_device_count_def soundio_input_device_count_def info info_both_sel list_one_def)
  show "soundio_default_output_device_index si ?t = Some 0" "soundio_default_input_device_index si ?t = Some 0"
    by (simp_all add: soundio_default_output_device_index_def soundio_default_input_device_index_def info
        info_both_def info_out_def with_device_def info_start_def)
  have "si < next_id s"
  proof (rule ccontr)
    assume "\<not> si < next_id s"
    with ids x show False by (simp add: ids_ok_def)
  qed
  with ids show "ids_ok ?t" by (auto simp: ids_ok_def dummy_connected_def half_built_def)
qed

text \<open>C5. Connecting the dummy backend to an idle library object either succeeds, with one output and one input
  device, both the default of their kind, or fails for lack of memory and changes nothing: whatever the
  allocator and the operating system answer, no block, mutex, condition, device or list is left over.\<close>

theorem connect_dummy_all_or_nothing:
  assumes "ids_ok s" and "sios s si = Some x" and "idle x"
  shows "\<exists>err t. soundio_connect_backend b si SoundIoBackendDummy s = Some (err, t) \<and>
    (if err = SoundIoErrorNone
     then ids_ok t \<and> blocks s \<subseteq> blocks t \<and> soundio_output_device_count si t = Some 1 \<and> soundio_input_device_count si t = Some 1 \<and>
       soundio_default_output_device_index si t = Some 0 \<and> soundio_default_input_device_index si t = Some 0
     else err = SoundIoErrorNoMem \<and> (\<exists>ans n. t = bump ans n s))"
proof (cases rule: connect_dummy_run [OF assms, of b])
  case (1 ans n)
  then show ?thesis by auto
next
  case (2 ans)
  moreover have "blocks s \<subseteq> blocks (dummy_connected (BIG_ENDIAN b) si x ans s)"
    by (auto simp: dummy_connected_def half_built_def)
  ultimately show ?thesis using connected_api [OF assms(1,2)] by auto
qed

text \<open>Disconnecting from the dummy backend undoes the connection: every part of the state is as it was before
  the connection, except for the identifiers and answers the allocator has used up.\<close>

theorem connect_disconnect_roundtrip:
  assumes "ids_ok s" and "sios s si = Some x" and "idle x"
    and "soundio_connect_backend b si SoundIoBackendDummy s = Some (SoundIoErrorNone, t)"
  shows "\<exists>ans n. soundio_disconnect b (Some si) t = Some (bump ans n s)"
  using connect_dummy_run [OF assms(1-3), of b]
proof cases
  case (1 ans n)
  with assms(4) show ?thesis by simp
next
  case (2 ans)
  with assms(4) have "t = dummy_connected (BIG_ENDIAN b) si x ans s" by simp
  then have "soundio_disconnect b (Some si) t = Some (bump ans (next_id s + 15) s)"
    by (simp only: disconnect_connected [OF assms(1-3)])
  then show ?thesis by blast
qed


lemma disconnect_idle:
  assumes "sios s si = Some x" and "idle x"
  shows "\<exists>ans n. soundio_disconnect b (Some si) s = Some (bump ans n s)"
proof (rule disconnect_no_backend [OF _ assms])
  have "s = s\<lparr>answers := answers s, next_id := next_id s, sios := (sios s)(si \<mapsto> x\<lparr>dummy := dummy x\<rparr>)\<rparr>"
    using assms(1) by (simp add: fun_upd_idem)
  then show "no_backend si x s s" unfolding no_backend_def by blast
qed

text \<open>What \<open>soundio_os_init\<close> leaves: the page size is known.\<close>

definition os_ready :: "'z os_scheme \<Rightarrow> 'z os_scheme" where
  "os_ready s = (if initialized s then s else s\<lparr>initialized := True, page_size := sysconf_pagesize s\<rparr>)"

lemma os_init_run: "\<not> init_mutex_locked s \<Longrightarrow> soundio_os_init s = Some (SoundIoErrorNone, os_ready s)"
  by (simp add: soundio_os_init_def internal_init_def os_ready_def)

lemma os_ready_frame [simp]:
  "next_id (os_ready s) = next_id s" "blocks (os_ready s) = blocks s" "ids_ok (os_ready u) = ids_ok u"
  "sios (os_ready u) = sios u"
  by (simp_all add: os_ready_def ids_ok_def)

lemma sio_create_idle: "idle sio_create"
  by (simp add: idle_def sio_create_def)

lemma soundio_create_run:
  assumes "\<not> init_mutex_locked s"
  obtains (no_mem) ans where "soundio_create s = Some (None, (os_ready s)\<lparr>answers := ans\<rparr>)"
    | (created) ans where "soundio_create s = Some (Some (next_id s), (os_ready s)\<lparr>answers := ans, next_id := Suc (next_id s),
        blocks := insert (next_id s) (blocks s), sios := (sios s)(next_id s \<mapsto> sio_create)\<rparr>)"
proof (cases rule: alloc_explicit [of "os_ready s"])
  case (fail ans)
  then show thesis by (intro no_mem [of ans]) (simp add: soundio_create_def os_init_run assms)
next
  case (ok ans)
  then show thesis by (intro created [of ans]) (simp add: soundio_create_def os_init_run assms)
qed

text \<open>C6. The life of a library object, from \<open>soundio_create\<close> over an attempt to connect the dummy backend to
  \<open>soundio_destroy\<close>, returns everything it has taken, whether the connection succeeded or not.\<close>

theorem create_connect_destroy_restores:
  assumes "ids_ok s" and "\<not> init_mutex_locked s"
    and "soundio_create s = Some (Some si, t)" and "soundio_connect_backend b si SoundIoBackendDummy t = Some (err, u)"
  shows "\<exists>ans n. soundio_destroy b (Some si) u = Some (bump ans n (os_ready s))"
proof -
  obtain ans where si: "si = next_id s" and t: "t = (os_ready s)\<lparr>answers := ans, next_id := Suc (next_id s),
        blocks := insert (next_id s) (blocks s), sios := (sios s)(next_id s \<mapsto> sio_create)\<rparr>"
    using assms(3) by (cases rule: soundio_create_run [OF assms(2)]) auto
  have fresh: "next_id s \<notin> blocks s" "sios s (next_id s) = None" using assms(1) by (auto simp: ids_ok_def)
  have "ids_ok (os_ready s)" using assms(1) by simp
  then have t_ok: "ids_ok t" unfolding t ids_ok_def by auto
  have x: "sios t si = Some sio_create" by (simp add: t si)
  have "\<exists>ans n. soundio_disconnect b (Some si) u = Some (bump ans n t)"
  proof (cases rule: connect_dummy_run [OF t_ok x sio_create_idle, of b])
    case (1 a n)
    then have u: "u = bump a n t" using assms(4) by simp
    with x have "sios u si = Some sio_create" by simp
    from disconnect_idle [OF this sio_create_idle, of b] show ?thesis by (auto simp: u)
  next
    case (2 a)
    then have "u = dummy_connected (BIG_ENDIAN b) si sio_create a t" using assms(4) by simp
    then have "soundio_disconnect b (Some si) u = Some (bump a (next_id t + 15) t)"
      by (simp only: disconnect_connected [OF t_ok x sio_create_idle])
    then show ?thesis by blast
  qed
  then obtain a n where "soundio_disconnect b (Some si) u = Some (bump a n t)" by blast
  moreover have "insert (next_id s) (blocks s) - {next_id s} = blocks (os_ready s)" using fresh by simp
  moreover have "(sios s)(next_id s := None) = sios (os_ready s)" using fresh by (simp add: fun_upd_idem)
  ultimately have "soundio_destroy b (Some si) u = Some (bump a n (os_ready s))"
    by (simp add: soundio_destroy_def free_blk_def t si)
  then show ?thesis by blast
qed


text \<open>A process that has no library object yet, and one with an idle object at block 0.\<close>

definition idle_lib :: "bool list \<Rightarrow> 'j \<Rightarrow> 'j jsio" where
  "idle_lib ans w = (lib_start ans w)\<lparr>next_id := 1, blocks := {0}, sios := [0 \<mapsto> sio_create]\<rparr>"


lemma idle_lib_connects:
  "\<exists>t. soundio_connect_backend b 0 SoundIoBackendDummy (idle_lib [] w) = Some (SoundIoErrorNone, t)"
  by (simp add: soundio_connect_backend_def backend_init_fns_def soundio_dummy_init_def soundio_os_mutex_create_def
      soundio_os_cond_create_def alloc_nil set_cond_def idle_lib_def lib_start_def os_start_def os.defs upd_defs sio_create_def
      dummy_zero_def dummy_init_devices_def create_dummy_device_def strdup_def set_all_device_channel_layouts_def
      builtin_count_26 copy_all_builtin set_all_device_formats_def set_all_device_sample_rates_def append_device_def
      list_append_first info_start_def devices_info_zero_def)


lemma idle_lib_ok: "ids_ok (idle_lib ans w)" "sios (idle_lib ans w) 0 = Some sio_create" "blocks (idle_lib ans w) = {0}"
  by (auto simp: ids_ok_def idle_lib_def lib_start_def os_start_def os.defs)

theorem connect_dummy_all_or_nothing_witness:
  "\<forall>b :: (unit, unit) build. \<exists>t. soundio_connect_backend b 0 SoundIoBackendDummy (idle_lib [] ()) = Some (SoundIoErrorNone, t) \<and>
     soundio_output_device_count 0 t = Some 1 \<and> soundio_input_device_count 0 t = Some 1"
proof
  fix b :: "(unit, unit) build"
  obtain t where "soundio_connect_backend b 0 SoundIoBackendDummy (idle_lib [] ()) = Some (SoundIoErrorNone, t)"
    using idle_lib_connects [of b "()"] by blast
  with connect_dummy_all_or_nothing [OF idle_lib_ok(1,2) sio_create_idle, of b "[]" "()"]
  show "\<exists>t. soundio_connect_backend b 0 SoundIoBackendDummy (idle_lib [] ()) = Some (SoundIoErrorNone, t) \<and>
     soundio_output_device_count 0 t = Some 1 \<and> soundio_input_device_count 0 t = Some 1"
    by simp
qed

theorem connect_disconnect_roundtrip_witness:
  "\<forall>b :: (unit, unit) build. \<exists>t u. soundio_connect_backend b 0 SoundIoBackendDummy (idle_lib [] ()) = Some (SoundIoErrorNone, t) \<and>
     soundio_disconnect b (Some 0) t = Some u \<and> blocks u = {0}"
proof
  fix b :: "(unit, unit) build"
  obtain t where t: "soundio_connect_backend b 0 SoundIoBackendDummy (idle_lib [] ()) = Some (SoundIoErrorNone, t)"
    using idle_lib_connects [of b "()"] by blast
  from connect_disconnect_roundtrip [OF idle_lib_ok(1,2) sio_create_idle t]
  obtain ans n where "soundio_disconnect b (Some 0) t = Some (bump ans n (idle_lib [] ()))" by blast
  with t show "\<exists>t u. soundio_connect_backend b 0 SoundIoBackendDummy (idle_lib [] ()) = Some (SoundIoErrorNone, t) \<and>
     soundio_disconnect b (Some 0) t = Some u \<and> blocks u = {0}"
    by (intro exI [of _ t] exI [of _ "bump ans n (idle_lib [] ())"]) (simp add: idle_lib_ok)
qed

theorem create_connect_destroy_restores_witness:
  "\<forall>b :: (unit, unit) build. \<exists>t u v. soundio_create (lib_start [] ()) = Some (Some 0, t) \<and>
     soundio_connect_backend b 0 SoundIoBackendDummy t = Some (SoundIoErrorNone, u) \<and>
     soundio_destroy b (Some 0) u = Some v \<and> blocks v = {}"
proof
  fix b :: "(unit, unit) build"
  have start: "ids_ok (lib_start [] ())" "\<not> init_mutex_locked (lib_start [] ())"
    by (auto simp: ids_ok_def lib_start_def os_start_def os.defs)
  have create: "soundio_create (lib_start [] ()) = Some (Some 0, idle_lib [] ())"
    by (simp add: soundio_create_def soundio_os_init_def alloc_nil idle_lib_def lib_start_def os_start_def os.defs)
  obtain u where u: "soundio_connect_backend b 0 SoundIoBackendDummy (idle_lib [] ()) = Some (SoundIoErrorNone, u)"
    using idle_lib_connects [of b "()"] by blast
  from create_connect_destroy_restores [OF start create u]
  obtain ans n where v: "soundio_destroy b (Some 0) u = Some (bump ans n (os_ready (lib_start [] ())))" by blast
  have "blocks (lib_start [] ()) = {}" by (simp add: lib_start_def os_start_def os.defs)
  with create u v show "\<exists>t u v. soundio_create (lib_start [] ()) = Some (Some 0, t) \<and>
     soundio_connect_backend b 0 SoundIoBackendDummy t = Some (SoundIoErrorNone, u) \<and>
     soundio_destroy b (Some 0) u = Some v \<and> blocks v = {}"
    by (intro exI [of _ "idle_lib [] ()"] exI [of _ u] exI [of _ "bump ans n (os_ready (lib_start [] ()))"]) simp
qed

end
