(* ===== verification/DummyStreams.thy ===== *)
theory DummyStreams
  imports Dummy
begin

section \<open>The dummy backend's streams keep playing\<close>

subsection \<open>A stream that may be played\<close>

text \<open>
  What the thread of an output stream relies on: the ring buffer is consistent and has room
  for the frames the callback may still write, the sizes are sensible, and the condition exists.
\<close>

definition cond_usable :: "nat option \<Rightarrow> 'z os_scheme \<Rightarrow> bool" where
  "cond_usable c s \<longleftrightarrow> (case c of None \<Rightarrow> False
     | Some c \<Rightarrow> (case conds s c of None \<Rightarrow> False | Some cd \<Rightarrow> cond_default_mutex_init cd))"

definition room_ok :: "'l::len word SoundIoRingBuffer \<Rightarrow> int \<Rightarrow> int \<Rightarrow> bool" where
  "room_ok rb bytes_per_frame frames \<longleftrightarrow> 0 \<le> frames \<and> int (ring_fill rb) + frames * bytes_per_frame \<le> int (ring_cap rb)"

definition layout_fits :: "SoundIoChannelLayout \<Rightarrow> SoundIoChannelArea list \<Rightarrow> bool" where
  "layout_fits l areas \<longleftrightarrow> length areas = SOUNDIO_MAX_CHANNELS \<and> cl_channel_count l \<le> int SOUNDIO_MAX_CHANNELS"

definition playable :: "SoundIoOutStream \<Rightarrow> bool" where
  "playable os \<longleftrightarrow> ring_inv (osd_ring_buffer (osd os)) \<and> 0 < os_bytes_per_frame os \<and> os_bytes_per_frame os \<le> int_max \<and>
     0 < os_sample_rate os \<and> 0 < osd_period_duration (osd os) \<and> layout_fits (os_layout os) (osd_areas (osd os)) \<and>
     room_ok (osd_ring_buffer (osd os)) (os_bytes_per_frame os) (osd_frames_left (osd os))"

definition out_ok :: "nat \<Rightarrow> 'z sio_scheme \<Rightarrow> bool" where
  "out_ok p s \<longleftrightarrow> (case outstreams s p of None \<Rightarrow> False | Some os \<Rightarrow> playable os \<and> cond_usable (osd_cond (osd os)) s)"

definition out_left :: "nat \<Rightarrow> 'z sio_scheme \<Rightarrow> int" where
  "out_left p s = osd_frames_left (osd (the (outstreams s p)))"

definition out_rate :: "nat \<Rightarrow> 'z sio_scheme \<Rightarrow> int" where
  "out_rate p s = os_sample_rate (the (outstreams s p))"

lemma out_okE:
  assumes "out_ok p s"
  obtains os c cd where "outstreams s p = Some os" "playable os" "osd_cond (osd os) = Some c" "conds s c = Some cd"
    "cond_default_mutex_init cd"
  using assms by (auto simp: out_ok_def cond_usable_def split: option.splits)

lemma out_okI:
  "outstreams s p = Some os \<Longrightarrow> playable os \<Longrightarrow> cond_usable (osd_cond (osd os)) s \<Longrightarrow> out_ok p s"
  by (simp add: out_ok_def)

lemma cond_usable_frame [simp]:
  "cond_usable c (s\<lparr>outstreams := f\<rparr>) = cond_usable c s" "cond_usable c (s\<lparr>instreams := g\<rparr>) = cond_usable c s"
  "cond_usable c (emit e s) = cond_usable c s"
  by (simp_all add: cond_usable_def emit_def split: option.split)

lemma emit_streams [simp]: "outstreams (emit e s) = outstreams s" "instreams (emit e s) = instreams s"
  by (simp_all add: emit_def)

lemma upd_out_run: "outstreams s p = Some os \<Longrightarrow> upd_out p f s = Some (s\<lparr>outstreams := (outstreams s)(p \<mapsto> f os)\<rparr>)"
  by (simp add: upd_out_def)

subsection \<open>The clock\<close>

lemma div_le_cap:
  assumes "0 < b" and "0 \<le> n"
  shows "n div b * b \<le> (n :: int)"
  using assms by (simp add: minus_mod_eq_div_mult [symmetric])

text \<open>The wait until the next period is not negative, so the deadline is a valid one.\<close>

definition wait_ok :: "real \<Rightarrow> real \<Rightarrow> real \<Rightarrow> bool" where
  "wait_ok start now period \<longleftrightarrow> 0 < period \<and> start \<le> now \<and> (now - start) / period < 2 ^ 63"

lemma dbl_trunc_less:
  assumes "0 \<le> x" and "x < real_of_int n"
  shows "0 \<le> dbl_trunc x" "dbl_trunc x < n"
  using assms by (simp_all add: dbl_trunc_def floor_less_iff)

lemma relative_wait_total:
  assumes "wait_ok start now period"
  shows "\<exists>r. relative_wait start now period = Some r \<and> 0 \<le> r \<and> r < period"
proof -
  let ?q = "(now - start) / period"
  have q: "0 \<le> ?q" "?q < real_of_int (2 ^ 63)" and pos: "0 < period" using assms by (auto simp: wait_ok_def)
  then have "in_llong (dbl_trunc ?q)" using dbl_trunc_less [OF q] by (simp add: in_llong_def)
  then have ceil: "ceil_dbl ?q = Some (of_int \<lceil>?q\<rceil>)" by (rule ceil_dbl_eq)
  let ?r = "start + of_int \<lceil>?q\<rceil> * period - now"
  have run: "relative_wait start now period = Some ?r"
    using pos ceil by (simp add: relative_wait_def dbl_div_def Let_def)
  have "now - start = ?q * period" using pos by simp
  moreover have "?q * period \<le> of_int \<lceil>?q\<rceil> * period" using pos by (intro mult_right_mono) simp_all
  moreover have "of_int \<lceil>?q\<rceil> * period < (?q + 1) * period" using pos ceiling_correct [of ?q] by (intro mult_strict_right_mono) linarith+
  ultimately have "0 \<le> ?r" "?r < period" by (simp_all add: algebra_simps)
  with run show ?thesis by blast
qed

lemma timed_wait_total:
  assumes "cond_usable c s" and "0 \<le> snd wall" and "0 \<le> r"
  shows "soundio_os_cond_timed_wait c None wall r s = Some s"
proof -
  define n where "n = dbl_trunc (real_of_int (snd wall) + r * 1000000000)"
  have "0 \<le> n" using assms(2,3) by (simp add: n_def dbl_trunc_nonneg_iff)
  then have "timed_wait_deadline wall r = Some (fst wall + n div 1000000000, n mod 1000000000)"
    by (simp add: timed_wait_deadline_def n_def [symmetric] c_div_pos Let_def minus_mult_div_eq_mod)
  with assms(1) show ?thesis
    by (auto simp: soundio_os_cond_timed_wait_def cond_usable_def cond_target_locked_def split: option.splits)
qed

text \<open>The frames that are due: those of the elapsed time that were not consumed yet.\<close>

lemma frames_due_total:
  assumes "0 \<le> spent" and "spent \<le> elapsed" and "0 < rate"
    and "elapsed * real_of_int rate < 2 ^ 63" and "(elapsed - spent) * real_of_int rate + 1 < 2 ^ 31"
  shows "frames_due elapsed rate (dbl_trunc (spent * real_of_int rate)) =
      Some (dbl_trunc (elapsed * real_of_int rate) - dbl_trunc (spent * real_of_int rate))"
    "0 \<le> dbl_trunc (elapsed * real_of_int rate) - dbl_trunc (spent * real_of_int rate)"
    "dbl_trunc (elapsed * real_of_int rate) - dbl_trunc (spent * real_of_int rate) < 2 ^ 31"
proof -
  let ?a = "spent * real_of_int rate" and ?b = "elapsed * real_of_int rate"
  have ab: "0 \<le> ?a" "?a \<le> ?b" using assms(1-3) by (simp_all add: mult_right_mono)
  then have nonneg: "0 \<le> dbl_trunc ?a" "dbl_trunc ?a \<le> dbl_trunc ?b" by (simp_all add: dbl_trunc_nonneg_iff dbl_trunc_mono)
  have "dbl_trunc ?b < 2 ^ 63" using dbl_trunc_less(2) [of ?b "2 ^ 63"] ab assms(4) by simp
  then have llong: "in_llong (dbl_trunc ?b)" using nonneg by (simp add: in_llong_def)
  have floor: "dbl_trunc ?b = \<lfloor>?b\<rfloor>" "dbl_trunc ?a = \<lfloor>?a\<rfloor>" using ab by (simp_all add: dbl_trunc_nonneg)
  have "?b - ?a + 1 < 2 ^ 31" using assms(5) by (simp add: algebra_simps)
  then have "real_of_int (dbl_trunc ?b - dbl_trunc ?a) < 2 ^ 31"
    unfolding floor of_int_diff using of_int_floor_le [of ?b] real_of_int_floor_gt_diff_one [of ?a] by linarith
  then show less: "dbl_trunc ?b - dbl_trunc ?a < 2 ^ 31"
    by (metis of_int_less_iff of_int_numeral of_int_power)
  show "0 \<le> dbl_trunc ?b - dbl_trunc ?a" using nonneg by simp
  with less have "in_int (dbl_trunc ?b - dbl_trunc ?a)" by (simp add: in_int_def int_max_def int_min_def)
  then show "frames_due elapsed rate (dbl_trunc ?a) = Some (dbl_trunc ?b - dbl_trunc ?a)"
    using llong by (simp add: frames_due_def Let_def to_int32_in_range)
qed

subsection \<open>What a callback promises\<close>

text \<open>
  A callback of the application: called when the stream is in order, with at least one frame,
  it returns with the stream in order. It works through the interface of the stream, so it
  leaves the sample rate alone.
\<close>

locale stream_client =
  fixes callback :: "'z callback"
    and stream_inv :: "nat \<Rightarrow> 'z sio_scheme \<Rightarrow> bool"
    and frames_left :: "nat \<Rightarrow> 'z sio_scheme \<Rightarrow> int"
    and rate :: "nat \<Rightarrow> 'z sio_scheme \<Rightarrow> int"
  assumes callback_keeps: "stream_inv p s \<Longrightarrow> frames_left p s = n \<Longrightarrow> 0 < n \<Longrightarrow>
    \<exists>t. callback p 0 n s = Some t \<and> stream_inv p t \<and> rate p t = rate p s"

locale write_client = stream_client callback out_ok out_left out_rate for callback :: "'z callback"
begin

lemma ask_keeps:
  assumes "outstreams s p = Some os" and "playable os" and "cond_usable (osd_cond (osd os)) s"
    and "room_ok (osd_ring_buffer (osd os)) (os_bytes_per_frame os) n"
  shows "\<exists>t. ask_to_write callback p n s = Some t \<and> out_ok p t \<and> out_rate p t = os_sample_rate os"
proof -
  let ?os = "os\<lparr>osd := (osd os)\<lparr>osd_frames_left := n\<rparr>\<rparr>"
  let ?t = "s\<lparr>outstreams := (outstreams s)(p \<mapsto> ?os)\<rparr>"
  have "playable ?os" using assms(2,4) by (simp add: playable_def)
  moreover have "cond_usable (osd_cond (osd ?os)) ?t" using assms(3) by simp
  ultimately have ok: "out_ok p ?t" by (intro out_okI [of _ _ ?os]) simp_all
  have run: "ask_to_write callback p n s = (if n > 0 then callback p 0 n ?t else Some ?t)"
    using assms(1) by (simp add: ask_to_write_def upd_out_run)
  show ?thesis
  proof (cases "n > 0")
    case True
    then show ?thesis using callback_keeps [OF ok, of n] run by (auto simp: out_left_def out_rate_def)
  qed (use ok run in \<open>simp add: out_rate_def\<close>)
qed

end

subsection \<open>The playback thread\<close>

text \<open>
  The readings of the clock in an iteration: \<open>wall\<close> for the deadline, \<open>now\<close>, \<open>t1\<close> and \<open>t2\<close>. The
  clock does not run backwards. \<open>prev\<close> is the reading \<open>now\<close> of the iteration before and \<open>cur\<close>
  its last reading: fewer than \<open>2^31 - 1\<close> frames may fall between two iterations.
\<close>

record ticks =
  wall :: "int \<times> int"
  now :: real
  t1 :: real
  t2 :: real

definition clock_ok :: "int \<Rightarrow> real \<Rightarrow> real \<Rightarrow> real \<Rightarrow> real \<Rightarrow> ticks \<Rightarrow> bool" where
  "clock_ok rate period start prev cur c \<longleftrightarrow> 0 \<le> snd (wall c) \<and> cur \<le> now c \<and> now c \<le> t1 c \<and> t1 c \<le> t2 c \<and>
     wait_ok start (now c) period \<and> (t1 c - start) * real_of_int rate < 2 ^ 63 \<and>
     (t1 c - prev) * real_of_int rate + 1 < 2 ^ 31"

text \<open>
  The book-keeping of the thread: what it has consumed is what the clock asked for up to a
  reading \<open>t\<close> of the last iteration. So no error adds up, however long the stream plays.
\<close>

definition in_step :: "int \<Rightarrow> real \<Rightarrow> real \<Rightarrow> thread_vars \<Rightarrow> bool" where
  "in_step rate prev cur v \<longleftrightarrow> (\<exists>t. start_time v \<le> t \<and> prev \<le> t \<and> t \<le> cur \<and>
     frames_consumed v = dbl_trunc ((t - start_time v) * real_of_int rate))"

lemma in_step_restart: "prev \<le> t \<Longrightarrow> t \<le> cur \<Longrightarrow> in_step rate prev cur \<lparr>start_time = t, frames_consumed = 0\<rparr>"
  unfolding in_step_def by (rule exI [of _ t]) (simp add: dbl_trunc_def)

lemma in_step_due:
  assumes "in_step rate prev cur v" and "clock_ok rate period (start_time v) prev cur c" and "0 < rate"
  shows "\<exists>k. frames_due (t1 c - start_time v) rate (frames_consumed v) = Some k \<and> 0 \<le> k \<and> k < 2 ^ 31 \<and>
    frames_consumed v + k = dbl_trunc ((t1 c - start_time v) * real_of_int rate)"
proof -
  obtain t where t: "start_time v \<le> t" "prev \<le> t" "t \<le> cur"
      "frames_consumed v = dbl_trunc ((t - start_time v) * real_of_int rate)"
    using assms(1) by (auto simp: in_step_def)
  let ?e = "t1 c - start_time v" and ?d = "t - start_time v"
  have "(?e - ?d) * real_of_int rate \<le> (t1 c - prev) * real_of_int rate"
    using t(2) assms(3) by (intro mult_right_mono) simp_all
  with assms(2) t have "0 \<le> ?d" "?d \<le> ?e" "?e * real_of_int rate < 2 ^ 63" "(?e - ?d) * real_of_int rate + 1 < 2 ^ 31"
    by (auto simp: clock_ok_def)
  from frames_due_total [OF this(1,2) assms(3) this(3,4)] t(4) show ?thesis by simp
qed

subsection \<open>One iteration\<close>

lemma clear_frame:
  assumes "ring_inv rb"
  shows "ring_inv (soundio_ring_buffer_clear rb)" "ring_fill (soundio_ring_buffer_clear rb) = 0"
    "ring_cap (soundio_ring_buffer_clear rb) = ring_cap rb"
  using assms by (simp_all add: soundio_ring_buffer_clear_def ring_inv_def ring_fill_def ring_cap_def)

text \<open>Whole frames that fit into a number of bytes.\<close>

lemma frames_fit:
  assumes "0 < b" and "0 \<le> n"
  shows "c_div n b = Some (n div b)" "0 \<le> n div b" "n div b * b \<le> (n :: int)"
  using assms by (simp_all add: c_div_pos pos_imp_zdiv_nonneg_iff div_le_cap)

lemma ring_numbers:
  assumes "ring_inv rb"
  shows "0 \<le> rb_capacity rb" "int (ring_fill rb) \<le> rb_capacity rb" "rb_capacity rb \<le> int_max" "rb_capacity rb = int (ring_cap rb)"
  using assms ring_cap_less(4) [OF assms] by (auto simp: ring_inv_def)

text \<open>Reading whole frames that are there.\<close>

lemma read_frames:
  assumes "ring_inv rb" and "0 < b" and "0 \<le> k" and "k \<le> int (ring_fill rb) div b"
  obtains rb' where "c_int (k * b) = Some (k * b)" "soundio_ring_buffer_advance_read_ptr rb (k * b) = Some rb'"
    "ring_inv rb'" "int (ring_fill rb') = int (ring_fill rb) - k * b" "ring_cap rb' = ring_cap rb"
proof -
  have "k * b \<le> int (ring_fill rb) div b * b" using assms(2,4) by (intro mult_right_mono) simp_all
  also have "\<dots> \<le> int (ring_fill rb)" using assms(2) by (intro div_le_cap) simp_all
  finally have le: "k * b \<le> int (ring_fill rb)" .
  have pos: "0 \<le> k * b" using assms(2,3) by simp
  then obtain n where n: "k * b = int n" by (metis nonneg_int_cases)
  then have "n \<le> ring_fill rb" using le by simp
  from advance_read_total [OF assms(1) this] obtain rb'
    where rb': "soundio_ring_buffer_advance_read_ptr rb (int n) = Some rb'" "ring_inv rb'"
      "rb' = rb\<lparr>read_offset := read_offset rb + of_nat n\<rparr>" "ring_fill rb' = ring_fill rb - n" by blast
  have "in_int (k * b)" using le pos ring_numbers [OF assms(1)] by (simp add: in_int_def int_min_def)
  then show thesis
    using rb' \<open>n \<le> ring_fill rb\<close> by (intro that [of rb']) (simp_all add: n ring_cap_def of_nat_diff)
qed

context write_client
begin

lemma iteration_cleared:
  assumes os: "outstreams s p = Some os" "playable os" "cond_usable (osd_cond (osd os)) s"
    and run: "osd_abort_flag (osd os)" "\<not> osd_clear_buffer_flag (osd os)"
    and clock: "clock_ok rate (osd_period_duration (osd os)) (start_time v) prev cur c"
  shows "\<exists>t. playback_thread_iteration callback p (wall c) (now c) (t1 c) (t2 c) v s =
      Some (True, \<lparr>start_time = t2 c, frames_consumed = 0\<rparr>, t) \<and> out_ok p t \<and> out_rate p t = os_sample_rate os"
proof -
  let ?d = "(osd os)\<lparr>osd_abort_flag := True, osd_clear_buffer_flag := True,
      osd_ring_buffer := soundio_ring_buffer_clear (osd_ring_buffer (osd os))\<rparr>"
  let ?t = "s\<lparr>outstreams := (outstreams s)(p \<mapsto> os\<lparr>osd := ?d\<rparr>)\<rparr>"
  let ?n = "rb_capacity (osd_ring_buffer (osd os)) div os_bytes_per_frame os"
  have inv: "ring_inv (osd_ring_buffer (osd os))" "0 < os_bytes_per_frame os" using os(2) by (simp_all add: playable_def)
  note fit = frames_fit [OF inv(2) ring_numbers(1) [OF inv(1)]]
  obtain r where r: "relative_wait (start_time v) (now c) (osd_period_duration (osd os)) = Some r" "0 \<le> r"
    using relative_wait_total [of "start_time v" "now c"] clock by (auto simp: clock_ok_def)
  have wait: "soundio_os_cond_timed_wait (osd_cond (osd os)) None (wall c) r s' = Some s'"
    if "cond_usable (osd_cond (osd os)) s'" for s' :: "'z sio_scheme"
    using timed_wait_total [OF that _ r(2), of "wall c"] clock by (simp add: clock_ok_def)
  have "playable (os\<lparr>osd := ?d\<rparr>)"
    using os(2) clear_frame [OF inv(1)] by (auto simp: playable_def room_ok_def)
  then obtain t where "ask_to_write callback p ?n ?t = Some t" "out_ok p t" "out_rate p t = os_sample_rate os"
    using ask_keeps [of ?t p "os\<lparr>osd := ?d\<rparr>" ?n] os(3) clear_frame [OF inv(1)] fit ring_numbers(4) [OF inv(1)]
    by (auto simp: room_ok_def)
  then show ?thesis
    using os run r wait fit
    by (simp add: playback_thread_iteration_def upd_out_run soundio_ring_buffer_capacity_def soundio_ring_buffer_clear_def)
qed

lemma iteration_paused:
  assumes os: "outstreams s p = Some os" "playable os" "cond_usable (osd_cond (osd os)) s"
    and run: "osd_abort_flag (osd os)" "osd_clear_buffer_flag (osd os)" "osd_pause_requested (osd os)"
    and clock: "clock_ok rate (osd_period_duration (osd os)) (start_time v) prev cur c"
  shows "\<exists>t. playback_thread_iteration callback p (wall c) (now c) (t1 c) (t2 c) v s =
      Some (True, \<lparr>start_time = now c, frames_consumed = 0\<rparr>, t) \<and> out_ok p t \<and> out_rate p t = os_sample_rate os"
proof -
  let ?d = "(osd os)\<lparr>osd_abort_flag := True, osd_clear_buffer_flag := True\<rparr>"
  let ?t = "s\<lparr>outstreams := (outstreams s)(p \<mapsto> os\<lparr>osd := ?d\<rparr>)\<rparr>"
  obtain r where r: "relative_wait (start_time v) (now c) (osd_period_duration (osd os)) = Some r" "0 \<le> r"
    using relative_wait_total [of "start_time v" "now c"] clock by (auto simp: clock_ok_def)
  have wait: "soundio_os_cond_timed_wait (osd_cond (osd os)) None (wall c) r s' = Some s'"
    if "cond_usable (osd_cond (osd os)) s'" for s' :: "'z sio_scheme"
    using timed_wait_total [OF that _ r(2), of "wall c"] clock by (simp add: clock_ok_def)
  have "out_ok p ?t" using os by (intro out_okI [of _ _ "os\<lparr>osd := ?d\<rparr>"]) (simp_all add: playable_def)
  moreover have "playback_thread_iteration callback p (wall c) (now c) (t1 c) (t2 c) v s =
      Some (True, \<lparr>start_time = now c, frames_consumed = 0\<rparr>, ?t)"
    using os run r wait by (simp add: playback_thread_iteration_def upd_out_run)
  ultimately show ?thesis by (auto simp: out_rate_def)
qed

text \<open>
  The normal iteration: the frames that are due are taken out of the buffer, as far as it has
  them. When it has too few, the application is told and the clock starts anew.
\<close>

lemma iteration_plays:
  assumes os: "outstreams s p = Some os" "playable os" "cond_usable (osd_cond (osd os)) s"
    and run: "osd_abort_flag (osd os)" "osd_clear_buffer_flag (osd os)" "\<not> osd_pause_requested (osd os)"
    and clock: "clock_ok rate (osd_period_duration (osd os)) (start_time v) prev cur c"
    and due: "frames_due (t1 c - start_time v) (os_sample_rate os) (frames_consumed v) = Some k" "0 \<le> k"
    and fill: "f = int (ring_fill (osd_ring_buffer (osd os))) div os_bytes_per_frame os"
  shows "\<exists>t. playback_thread_iteration callback p (wall c) (now c) (t1 c) (t2 c) v s =
      Some (True, if k > f then \<lparr>start_time = t2 c, frames_consumed = 0\<rparr> else v\<lparr>frames_consumed := frames_consumed v + k\<rparr>, t) \<and>
      out_ok p t \<and> out_rate p t = os_sample_rate os"
proof -
  let ?rb = "osd_ring_buffer (osd os)" and ?b = "os_bytes_per_frame os"
  have inv: "ring_inv ?rb" "0 < ?b" using os(2) by (simp_all add: playable_def)
  note num = ring_numbers [OF inv(1)]
  let ?free = "(rb_capacity ?rb - int (ring_fill ?rb)) div ?b"
  have free_int: "in_int (rb_capacity ?rb - int (ring_fill ?rb))"
    using num by (simp add: in_int_def int_min_def)
  have diff: "0 \<le> rb_capacity ?rb - int (ring_fill ?rb)" using num(2) by simp
  note fit = frames_fit [OF inv(2) diff]
  have filled: "c_div (int (ring_fill ?rb)) ?b = Some f" "0 \<le> f" "f * ?b \<le> int (ring_fill ?rb)"
    using frames_fit [OF inv(2), of "int (ring_fill ?rb)"] fill by simp_all
  have m: "0 \<le> min k f" "min k f \<le> int (ring_fill ?rb) div ?b" using due(2) filled(2) fill by simp_all
  obtain rb' where rb': "c_int (min k f * ?b) = Some (min k f * ?b)"
      "soundio_ring_buffer_advance_read_ptr ?rb (min k f * ?b) = Some rb'"
      "ring_inv rb'" "int (ring_fill rb') = int (ring_fill ?rb) - min k f * ?b" "ring_cap rb' = ring_cap ?rb"
    by (rule read_frames [OF inv m])
  obtain r where r: "relative_wait (start_time v) (now c) (osd_period_duration (osd os)) = Some r" "0 \<le> r"
    using relative_wait_total [of "start_time v" "now c"] clock by (auto simp: clock_ok_def)
  have wait: "soundio_os_cond_timed_wait (osd_cond (osd os)) None (wall c) r s' = Some s'"
    if "cond_usable (osd_cond (osd os)) s'" for s' :: "'z sio_scheme"
    using timed_wait_total [OF that _ r(2), of "wall c"] clock by (simp add: clock_ok_def)
  let ?d = "(osd os)\<lparr>osd_abort_flag := True, osd_clear_buffer_flag := True, osd_ring_buffer := rb'\<rparr>"
  let ?os = "os\<lparr>osd := ?d\<rparr>"
  let ?t = "s\<lparr>outstreams := (outstreams s)(p \<mapsto> ?os)\<rparr>"
  have less: "int (ring_fill rb') \<le> int (ring_fill ?rb)" using rb'(4) m(1) inv(2) by simp
  have play: "playable ?os"
    using os(2) rb'(3,5) less by (auto simp: playable_def room_ok_def)
  have room: "room_ok (osd_ring_buffer (osd ?os)) (os_bytes_per_frame ?os) ?free"
    using fit(2,3) less rb'(5) num(4) by (simp add: room_ok_def)
  have ask: "\<exists>t. ask_to_write callback p ?free u = Some t \<and> out_ok p t \<and> out_rate p t = os_sample_rate os"
    if "u = ?t \<or> u = emit e ?t" for u e
    using ask_keeps [of u p ?os ?free] that play room os(3) by auto
  have here: "out_ok p ?t" "out_rate p ?t = os_sample_rate os"
    using play os(3) by (auto intro!: out_okI [of _ _ ?os] simp: out_rate_def)
  have body: "playback_thread_iteration callback p (wall c) (now c) (t1 c) (t2 c) v s =
     (if k > f then do { s \<leftarrow> ask_to_write callback p ?free (emit (UnderflowCb p) ?t);
         Some (True, \<lparr>start_time = t2 c, frames_consumed = 0\<rparr>, s) }
      else if ?free > 0 then do { s \<leftarrow> ask_to_write callback p ?free ?t;
         Some (True, v\<lparr>frames_consumed := frames_consumed v + k\<rparr>, s) }
      else Some (True, v\<lparr>frames_consumed := frames_consumed v + k\<rparr>, ?t))"
    using os run r wait inv free_int fit filled rb' due
    by (simp add: playback_thread_iteration_def upd_out_run soundio_ring_buffer_capacity_def fill_count_total Let_def)
  from ask [of ?t] ask [of "emit (UnderflowCb p) ?t" "UnderflowCb p"] here show ?thesis
    unfolding body by (auto split: if_split)
qed

lemma iteration_ok:
  assumes ok: "out_ok p s" and os: "outstreams s p = Some os" "osd_abort_flag (osd os)"
    and step: "in_step (os_sample_rate os) prev cur v"
    and clock: "clock_ok (os_sample_rate os) (osd_period_duration (osd os)) (start_time v) prev cur c"
  shows "\<exists>v' t. playback_thread_iteration callback p (wall c) (now c) (t1 c) (t2 c) v s = Some (True, v', t) \<and>
    out_ok p t \<and> out_rate p t = os_sample_rate os \<and> in_step (os_sample_rate os) (now c) (t2 c) v'"
proof -
  have os': "playable os" "cond_usable (osd_cond (osd os)) s" using ok os(1) by (simp_all add: out_ok_def)
  have rate: "0 < os_sample_rate os" using os'(1) by (simp add: playable_def)
  have order: "now c \<le> t1 c" "t1 c \<le> t2 c" "start_time v \<le> t1 c"
    using clock by (auto simp: clock_ok_def wait_ok_def)
  show ?thesis
  proof (cases "osd_clear_buffer_flag (osd os)")
    case False
    with iteration_cleared [OF os(1) os' os(2) False clock] order show ?thesis
      by (auto intro!: in_step_restart)
  next
    case flag: True
    show ?thesis
    proof (cases "osd_pause_requested (osd os)")
      case True
      with iteration_paused [OF os(1) os' os(2) flag True clock] order show ?thesis
        by (auto intro!: in_step_restart)
    next
      case False
      obtain k where k: "frames_due (t1 c - start_time v) (os_sample_rate os) (frames_consumed v) = Some k" "0 \<le> k"
          "frames_consumed v + k = dbl_trunc ((t1 c - start_time v) * real_of_int (os_sample_rate os))"
        using in_step_due [OF step clock rate] by blast
      have "in_step (os_sample_rate os) (now c) (t2 c) (v\<lparr>frames_consumed := frames_consumed v + k\<rparr>)"
        unfolding in_step_def using order k(3) by (intro exI [of _ "t1 c"]) simp
      moreover have "in_step (os_sample_rate os) (now c) (t2 c) \<lparr>start_time = t2 c, frames_consumed = 0\<rparr>"
        using order by (intro in_step_restart) simp_all
      ultimately show ?thesis
        using iteration_plays [OF os(1) os' os(2) flag False clock k(1,2) refl] by (auto split: if_splits)
    qed
  qed
qed

end

subsection \<open>The stream as a state machine\<close>

text \<open>
  What can happen to a started stream: an iteration of its thread, or a call of the
  application that pauses it, resumes it or clears its buffer.
\<close>

record 'z playing =
  prev_now :: real
  last_time :: real
  vars :: thread_vars
  lib :: "'z sio_scheme"

definition next_clock_ok :: "nat \<Rightarrow> 'z playing \<Rightarrow> ticks \<Rightarrow> bool" where
  "next_clock_ok p x c \<longleftrightarrow> (case outstreams (lib x) p of None \<Rightarrow> False
     | Some os \<Rightarrow> clock_ok (os_sample_rate os) (osd_period_duration (osd os)) (start_time (vars x)) (prev_now x) (last_time x) c)"

inductive playback :: "'z callback \<Rightarrow> nat \<Rightarrow> 'z playing \<Rightarrow> 'z playing \<Rightarrow> bool" for callback p where
  iterate: "next_clock_ok p x c \<Longrightarrow>
    playback_thread_iteration callback p (wall c) (now c) (t1 c) (t2 c) (vars x) (lib x) = Some (True, v, s) \<Longrightarrow>
    playback callback p x \<lparr>prev_now = now c, last_time = t2 c, vars = v, lib = s\<rparr>"
| pause: "outstream_pause_dummy p b (lib x) = Some (e, s) \<Longrightarrow> playback callback p x (x\<lparr>lib := s\<rparr>)"
| clear: "outstream_clear_buffer_dummy p (lib x) = Some (e, s) \<Longrightarrow> playback callback p x (x\<lparr>lib := s\<rparr>)"

definition playing_ok :: "nat \<Rightarrow> 'z playing \<Rightarrow> bool" where
  "playing_ok p x \<longleftrightarrow> out_ok p (lib x) \<and> in_step (out_rate p (lib x)) (prev_now x) (last_time x) (vars x)"

inductive_cases playbackE: "playback callback p x y"

lemma pause_ok:
  assumes "outstream_pause_dummy p b s = Some (e, t)" and "out_ok p s"
  shows "out_ok p t \<and> out_rate p t = out_rate p s"
proof -
  obtain os where os: "outstreams s p = Some os" "playable os" "cond_usable (osd_cond (osd os)) s"
    using assms(2) by (auto simp: out_ok_def split: option.splits)
  let ?os = "os\<lparr>osd := (osd os)\<lparr>osd_pause_requested := b\<rparr>\<rparr>"
  have "t = s\<lparr>outstreams := (outstreams s)(p \<mapsto> ?os)\<rparr>"
    using assms(1) os(1) by (simp add: outstream_pause_dummy_def upd_out_run)
  moreover have "playable ?os" using os(2) by (simp add: playable_def)
  ultimately show ?thesis using os by (auto intro!: out_okI [of _ _ ?os] simp: out_rate_def)
qed

lemma cond_signal_frame:
  assumes "soundio_os_cond_signal c m s = Some t"
  shows "outstreams t = outstreams s" "instreams t = instreams s" "cond_usable d s \<Longrightarrow> cond_usable d t"
proof -
  obtain k cd where "c = Some k" "conds s k = Some cd"
      and t: "t = s\<lparr>conds := (conds s)(k \<mapsto> cd\<lparr>cond_signals := Suc (cond_signals cd)\<rparr>)\<rparr>"
    using assms by (auto simp: soundio_os_cond_signal_def Option.bind_eq_Some_conv)
  then show "outstreams t = outstreams s" "instreams t = instreams s" "cond_usable d s \<Longrightarrow> cond_usable d t"
    by (auto simp: cond_usable_def split: option.splits)
qed

lemma clear_ok:
  assumes "outstream_clear_buffer_dummy p s = Some (e, t)" and "out_ok p s"
  shows "out_ok p t \<and> out_rate p t = out_rate p s"
proof -
  obtain os where os: "outstreams s p = Some os" "playable os" "cond_usable (osd_cond (osd os)) s"
    using assms(2) by (auto simp: out_ok_def split: option.splits)
  let ?os = "os\<lparr>osd := (osd os)\<lparr>osd_clear_buffer_flag := False\<rparr>\<rparr>"
  let ?s = "s\<lparr>outstreams := (outstreams s)(p \<mapsto> ?os)\<rparr>"
  have "soundio_os_cond_signal (osd_cond (osd os)) None ?s = Some t"
    using assms(1) os(1) by (auto simp: outstream_clear_buffer_dummy_def upd_out_run Option.bind_eq_Some_conv)
  note frame = cond_signal_frame [OF this]
  have "playable ?os" using os(2) by (simp add: playable_def)
  moreover have "cond_usable (osd_cond (osd ?os)) t" using frame(3) [of "osd_cond (osd os)"] os(3) by simp
  ultimately show ?thesis using frame(1) os(1) by (auto intro!: out_okI [of _ _ ?os] simp: out_rate_def)
qed

context write_client
begin

lemma any_iteration:
  assumes ok: "playing_ok p x" and clock: "next_clock_ok p x c"
  shows "\<exists>go v s. playback_thread_iteration callback p (wall c) (now c) (t1 c) (t2 c) (vars x) (lib x) = Some (go, v, s) \<and>
    (go \<longrightarrow> playing_ok p \<lparr>prev_now = now c, last_time = t2 c, vars = v, lib = s\<rparr>)"
proof -
  obtain os where os: "outstreams (lib x) p = Some os"
      and clock': "clock_ok (os_sample_rate os) (osd_period_duration (osd os)) (start_time (vars x)) (prev_now x) (last_time x) c"
    using clock by (auto simp: next_clock_ok_def split: option.splits)
  show ?thesis
  proof (cases "osd_abort_flag (osd os)")
    case True
    have "in_step (os_sample_rate os) (prev_now x) (last_time x) (vars x)" "out_ok p (lib x)"
      using ok os by (simp_all add: playing_ok_def out_rate_def)
    from iteration_ok [OF this(2) os True this(1) clock'] show ?thesis
      by (fastforce simp: playing_ok_def)
  next
    case False
    then show ?thesis using os by (auto simp: playback_thread_iteration_def upd_out_run)
  qed
qed

lemma playback_keeps: "playback callback p x y \<Longrightarrow> playing_ok p x \<Longrightarrow> playing_ok p y"
proof (erule playbackE)
  fix c v s
  assume "playing_ok p x" "next_clock_ok p x c" "y = \<lparr>prev_now = now c, last_time = t2 c, vars = v, lib = s\<rparr>"
    "playback_thread_iteration callback p (wall c) (now c) (t1 c) (t2 c) (vars x) (lib x) = Some (True, v, s)"
  with any_iteration [of p x c] show "playing_ok p y" by auto
next
  fix b e s
  assume "playing_ok p x" "y = x\<lparr>lib := s\<rparr>" "outstream_pause_dummy p b (lib x) = Some (e, s)"
  with pause_ok show "playing_ok p y" by (fastforce simp: playing_ok_def)
next
  fix e s
  assume "playing_ok p x" "y = x\<lparr>lib := s\<rparr>" "outstream_clear_buffer_dummy p (lib x) = Some (e, s)"
  with clear_ok show "playing_ok p y" by (fastforce simp: playing_ok_def)
qed

lemma playback_reachable: "(playback callback p)\<^sup>*\<^sup>* x y \<Longrightarrow> playing_ok p x \<Longrightarrow> playing_ok p y"
  by (induction rule: rtranclp_induct) (auto dest: playback_keeps)

end


context write_client
begin

lemma start_ok:
  assumes "out_ok p s"
  shows "\<exists>v t. playback_thread_start callback p t0 s = Some (v, t) \<and>
    playing_ok p \<lparr>prev_now = t0, last_time = t0, vars = v, lib = t\<rparr>"
proof -
  obtain os where os: "outstreams s p = Some os" "playable os" "cond_usable (osd_cond (osd os)) s"
    using assms by (auto simp: out_ok_def split: option.splits)
  let ?rb = "osd_ring_buffer (osd os)"
  have inv: "ring_inv ?rb" "0 < os_bytes_per_frame os" using os(2) by (simp_all add: playable_def)
  note num = ring_numbers [OF inv(1)]
  have diff: "0 \<le> rb_capacity ?rb - int (ring_fill ?rb)" "in_int (rb_capacity ?rb - int (ring_fill ?rb))"
    using num by (simp_all add: in_int_def int_min_def)
  note fit = frames_fit [OF inv(2) diff(1)]
  have "room_ok ?rb (os_bytes_per_frame os) ((rb_capacity ?rb - int (ring_fill ?rb)) div os_bytes_per_frame os)"
    using fit num(4) by (simp add: room_ok_def)
  from ask_keeps [OF os this] obtain t
    where "ask_to_write callback p ((rb_capacity ?rb - int (ring_fill ?rb)) div os_bytes_per_frame os) s = Some t"
      "out_ok p t" by blast
  then show ?thesis
    using os(1) inv diff fit in_step_restart [of t0 t0 t0]
    by (auto simp: playback_thread_start_def fill_count_total soundio_ring_buffer_capacity_def playing_ok_def)
qed

end

subsection \<open>Writing between begin and end\<close>

text \<open>The area of channel \<open>ch\<close>: its samples are one frame apart.\<close>

lemma interleave_areas_total:
  assumes "channel_count \<le> int (length areas)"
  shows "\<exists>as. interleave_areas ptr bps bpf channel_count areas = Some as \<and> length as = length areas \<and>
    (\<forall>ch < nat channel_count. as ! ch = \<lparr>area_ptr = nat (int ptr + bps * int ch), area_step = bpf\<rparr>)"
proof -
  have "\<exists>as. for_each (\<lambda>ch areas. arr_set areas (int ch) \<lparr>area_ptr = nat (int ptr + bps * int ch), area_step = bpf\<rparr>)
        [0..<k] areas = Some as \<and> length as = length areas \<and>
      (\<forall>ch < k. as ! ch = \<lparr>area_ptr = nat (int ptr + bps * int ch), area_step = bpf\<rparr>)"
    if "k \<le> length areas" for k
    using that
  proof (induction k)
    case (Suc k)
    then obtain as where as: "for_each (\<lambda>ch areas. arr_set areas (int ch)
          \<lparr>area_ptr = nat (int ptr + bps * int ch), area_step = bpf\<rparr>) [0..<k] areas = Some as" "length as = length areas"
        "\<forall>ch < k. as ! ch = \<lparr>area_ptr = nat (int ptr + bps * int ch), area_step = bpf\<rparr>" by auto
    with Suc.prems show ?case by (auto simp: for_each_append arr_set_def nth_list_update less_Suc_eq)
  qed simp
  moreover have "nat channel_count \<le> length areas" using assms by linarith
  ultimately show ?thesis unfolding interleave_areas_def by blast
qed

lemma begin_write_run:
  assumes os: "outstreams s p = Some os" "playable os" and n: "n \<le> osd_frames_left (osd os)"
  obtains as where "outstream_begin_write_dummy p n s = Some (SoundIoErrorNone, as,
      s\<lparr>outstreams := (outstreams s)(p \<mapsto> os\<lparr>osd := (osd os)\<lparr>osd_areas := as, osd_write_frame_count := n\<rparr>\<rparr>)\<rparr>)"
    "length as = SOUNDIO_MAX_CHANNELS"
    "\<forall>ch < nat (cl_channel_count (os_layout os)). as ! ch =
      \<lparr>area_ptr = nat (int (mm_address (rb_mem (osd_ring_buffer (osd os))) +
           unat (write_offset (osd_ring_buffer (osd os))) mod ring_cap (osd_ring_buffer (osd os))) + os_bytes_per_sample os * int ch),
       area_step = os_bytes_per_frame os\<rparr>"
proof -
  let ?rb = "osd_ring_buffer (osd os)"
  have inv: "ring_inv ?rb" and fits: "layout_fits (os_layout os) (osd_areas (osd os))"
    using os(2) by (simp_all add: playable_def)
  let ?ptr = "mm_address (rb_mem ?rb) + unat (write_offset ?rb) mod ring_cap ?rb"
  have "soundio_ring_buffer_write_ptr ?rb = Some ?ptr"
    by (simp add: soundio_ring_buffer_write_ptr_def ring_position_total [OF inv])
  moreover have "cl_channel_count (os_layout os) \<le> int (length (osd_areas (osd os)))" using fits by (simp add: layout_fits_def)
  from interleave_areas_total [OF this, of ?ptr "os_bytes_per_sample os" "os_bytes_per_frame os"]
  obtain as where "interleave_areas ?ptr (os_bytes_per_sample os) (os_bytes_per_frame os)
        (cl_channel_count (os_layout os)) (osd_areas (osd os)) = Some as" "length as = length (osd_areas (osd os))"
      "\<forall>ch < nat (cl_channel_count (os_layout os)). as ! ch =
        \<lparr>area_ptr = nat (int ?ptr + os_bytes_per_sample os * int ch), area_step = os_bytes_per_frame os\<rparr>" by blast
  moreover have "length (osd_areas (osd os)) = SOUNDIO_MAX_CHANNELS" using fits by (simp add: layout_fits_def)
  ultimately show thesis
    using os(1) n by (intro that [of as]) (simp_all add: outstream_begin_write_dummy_def upd_out_run)
qed

lemma end_write_run:
  assumes os: "outstreams s p = Some os" "playable os" and n: "0 \<le> osd_write_frame_count (osd os)"
    "osd_write_frame_count (osd os) \<le> osd_frames_left (osd os)"
  obtains rb where "outstream_end_write_dummy p s = Some (SoundIoErrorNone, s\<lparr>outstreams := (outstreams s)(p \<mapsto>
      os\<lparr>osd := (osd os)\<lparr>osd_ring_buffer := rb, osd_frames_left := osd_frames_left (osd os) - osd_write_frame_count (osd os)\<rparr>\<rparr>)\<rparr>)"
    "ring_inv rb" "ring_cap rb = ring_cap (osd_ring_buffer (osd os))"
    "int (ring_fill rb) = int (ring_fill (osd_ring_buffer (osd os))) + osd_write_frame_count (osd os) * os_bytes_per_frame os"
proof -
  let ?rb = "osd_ring_buffer (osd os)" and ?n = "osd_write_frame_count (osd os)" and ?b = "os_bytes_per_frame os"
  have inv: "ring_inv ?rb" "0 < ?b" and room: "room_ok ?rb ?b (osd_frames_left (osd os))"
    using os(2) by (simp_all add: playable_def)
  have "?n * ?b \<le> osd_frames_left (osd os) * ?b" using n(2) inv(2) by (intro mult_right_mono) simp_all
  then have le: "int (ring_fill ?rb) + ?n * ?b \<le> int (ring_cap ?rb)" using room by (simp add: room_ok_def)
  have pos: "0 \<le> ?n * ?b" using n(1) inv(2) by simp
  then obtain m where m: "?n * ?b = int m" by (metis nonneg_int_cases)
  then have "ring_fill ?rb + m \<le> ring_cap ?rb" using le by linarith
  from advance_write_total [OF inv(1) this] obtain rb
    where rb: "soundio_ring_buffer_advance_write_ptr ?rb (int m) = Some rb" "ring_inv rb"
      "rb = ?rb\<lparr>write_offset := write_offset ?rb + of_nat m\<rparr>" "ring_fill rb = ring_fill ?rb + m" by blast
  have cap: "int (ring_cap ?rb) \<le> int_max" using ring_numbers [OF inv(1)] by simp
  then have "in_int (?n * ?b)" using le pos by (simp add: in_int_def int_min_def)
  moreover have "osd_frames_left (osd os) \<le> osd_frames_left (osd os) * ?b"
    using room inv(2) mult_left_mono [of 1 ?b "osd_frames_left (osd os)"] by (simp add: room_ok_def)
  then have "in_int (osd_frames_left (osd os) - ?n)"
    using room n cap by (simp add: in_int_def int_min_def room_ok_def)
  ultimately have "outstream_end_write_dummy p s = Some (SoundIoErrorNone, s\<lparr>outstreams := (outstreams s)(p \<mapsto>
      os\<lparr>osd := (osd os)\<lparr>osd_ring_buffer := rb, osd_frames_left := osd_frames_left (osd os) - ?n\<rparr>\<rparr>)\<rparr>)"
    using os(1) rb(1) by (simp add: outstream_end_write_dummy_def upd_out_run m)
  moreover have "ring_cap rb = ring_cap ?rb" by (simp add: rb(3) ring_cap_def)
  ultimately show thesis using rb(2,4) m by (intro that [of rb]) simp_all
qed

text \<open>Both calls together: \<open>n\<close> frames more are in the buffer, \<open>n\<close> fewer may be written.\<close>

lemma write_frames_run:
  assumes ok: "out_ok p s" and n: "0 \<le> n" "n \<le> out_left p s"
  obtains as u t where "outstream_begin_write_dummy p n s = Some (SoundIoErrorNone, as, u)"
    "outstream_end_write_dummy p u = Some (SoundIoErrorNone, t)" "out_ok p t" "out_left p t = out_left p s - n"
    "out_rate p t = out_rate p s"
    "int (ring_fill (osd_ring_buffer (osd (the (outstreams t p))))) =
       int (ring_fill (osd_ring_buffer (osd (the (outstreams s p))))) + n * os_bytes_per_frame (the (outstreams s p))"
proof -
  obtain os where os: "outstreams s p = Some os" "playable os" "cond_usable (osd_cond (osd os)) s"
    using ok by (auto simp: out_ok_def split: option.splits)
  have left: "n \<le> osd_frames_left (osd os)" using n(2) os(1) by (simp add: out_left_def)
  obtain as where begin_run: "outstream_begin_write_dummy p n s = Some (SoundIoErrorNone, as,
      s\<lparr>outstreams := (outstreams s)(p \<mapsto> os\<lparr>osd := (osd os)\<lparr>osd_areas := as, osd_write_frame_count := n\<rparr>\<rparr>)\<rparr>)"
    and as: "length as = SOUNDIO_MAX_CHANNELS"
    by (rule begin_write_run [OF os(1,2) left])
  let ?os = "os\<lparr>osd := (osd os)\<lparr>osd_areas := as, osd_write_frame_count := n\<rparr>\<rparr>"
  let ?u = "s\<lparr>outstreams := (outstreams s)(p \<mapsto> ?os)\<rparr>"
  have u: "outstreams ?u p = Some ?os" "playable ?os" using os(2) as by (simp_all add: playable_def layout_fits_def)
  obtain rb where end_run: "outstream_end_write_dummy p ?u = Some (SoundIoErrorNone, ?u\<lparr>outstreams := (outstreams ?u)(p \<mapsto>
      ?os\<lparr>osd := (osd ?os)\<lparr>osd_ring_buffer := rb, osd_frames_left := osd_frames_left (osd ?os) - osd_write_frame_count (osd ?os)\<rparr>\<rparr>)\<rparr>)"
    and rb: "ring_inv rb" "ring_cap rb = ring_cap (osd_ring_buffer (osd ?os))"
      "int (ring_fill rb) = int (ring_fill (osd_ring_buffer (osd ?os))) + osd_write_frame_count (osd ?os) * os_bytes_per_frame ?os"
    by (rule end_write_run [OF u]) (use n(1) left in simp_all)
  let ?v = "?os\<lparr>osd := (osd ?os)\<lparr>osd_ring_buffer := rb, osd_frames_left := osd_frames_left (osd os) - n\<rparr>\<rparr>"
  have "playable ?v"
    using u(2) rb left by (auto simp: playable_def room_ok_def algebra_simps)
  then have "out_ok p (s\<lparr>outstreams := (outstreams s)(p \<mapsto> ?v)\<rparr>)"
    using os(3) by (intro out_okI [of _ _ ?v]) simp_all
  with begin_run end_run rb os(1) show thesis
    by (intro that [of as ?u "s\<lparr>outstreams := (outstreams s)(p \<mapsto> ?v)\<rparr>"]) (simp_all add: out_left_def out_rate_def)
qed

text \<open>A callback that writes all it is asked for.\<close>

definition fill_callback :: "'z callback" where
  "fill_callback p frame_count_min frame_count_max s = do {
     (err, areas, s) \<leftarrow> outstream_begin_write_dummy p frame_count_max s;
     (err, s) \<leftarrow> outstream_end_write_dummy p s;
     Some s
   }"

interpretation filler: write_client fill_callback
proof unfold_locales
  fix p n and s :: "'z sio_scheme"
  assume "out_ok p s" "out_left p s = n" "0 < n"
  then obtain as u t where "outstream_begin_write_dummy p n s = Some (SoundIoErrorNone, as, u)"
    "outstream_end_write_dummy p u = Some (SoundIoErrorNone, t)" "out_ok p t" "out_rate p t = out_rate p s"
    by (elim write_frames_run [of p s n]) simp_all
  then show "\<exists>t. fill_callback p 0 n s = Some t \<and> out_ok p t \<and> out_rate p t = out_rate p s"
    by (simp add: fill_callback_def)
qed

subsection \<open>Properties of playback\<close>

text \<open>C2. The playback thread of the dummy backend never aborts. Take a stream in order and a callback that leaves it
  in order. After the first callback, whatever iterations of the thread and calls that pause,
  resume or clear the stream come in whatever order, with any clock that does not run backwards
  and is read often enough, the next iteration completes: no assertion of the ring buffer or of
  the timed wait fails and nothing overflows.\<close>

theorem playback_never_aborts:
  assumes "write_client callback" and "out_ok p s" and "playback_thread_start callback p t0 s = Some (v, t)"
    and "(playback callback p)\<^sup>*\<^sup>* \<lparr>prev_now = t0, last_time = t0, vars = v, lib = t\<rparr> x" and "next_clock_ok p x c"
  shows "\<exists>go v' s'. playback_thread_iteration callback p (wall c) (now c) (t1 c) (t2 c) (vars x) (lib x) = Some (go, v', s')"
proof -
  have "playing_ok p \<lparr>prev_now = t0, last_time = t0, vars = v, lib = t\<rparr>"
    using write_client.start_ok [OF assms(1,2), of t0] assms(3) by auto
  then have "playing_ok p x" by (rule write_client.playback_reachable [OF assms(1,4)])
  from write_client.any_iteration [OF assms(1) this assms(5)] show ?thesis by blast
qed

text \<open>A stream with room for four frames of two bytes, and the first reading of the clock.\<close>

definition tiny_stream :: SoundIoOutStream where
  "tiny_stream = outstream_zero\<lparr>os_bytes_per_frame := 2, os_bytes_per_sample := 2, os_sample_rate := 8000,
     os_layout := layout_zero\<lparr>cl_channel_count := 1\<rparr>,
     osd := osd_zero\<lparr>osd_cond := Some 5, osd_abort_flag := True, osd_clear_buffer_flag := True, osd_period_duration := 1,
       osd_ring_buffer := \<lparr>rb_mem = \<lparr>mm_capacity = 8, mm_address = 65536\<rparr>, write_offset = 0, read_offset = 0, rb_capacity = 8\<rparr>\<rparr>\<rparr>"

definition tiny_lib :: sio where
  "tiny_lib = os.extend (os_start [])
     \<lparr>devices = (\<lambda>_. None), infos = (\<lambda>_. None), sios = (\<lambda>_. None), outstreams = [9 \<mapsto> tiny_stream], instreams = (\<lambda>_. None),
      trace = []\<rparr>\<lparr>conds := [5 \<mapsto> cond_made]\<rparr>"

definition tick_one :: ticks where
  "tick_one = \<lparr>wall = (7, 0), now = 1, t1 = 1, t2 = 1\<rparr>"

lemma tiny_ok: "out_ok 9 tiny_lib" "outstreams tiny_lib 9 = Some tiny_stream"
proof -
  show "outstreams tiny_lib 9 = Some tiny_stream" by (simp add: tiny_lib_def os.defs)
  moreover have "playable tiny_stream"
    by (simp add: playable_def tiny_stream_def ring_inv_def ring_fill_def ring_cap_def int_max_def room_ok_def layout_fits_def
        osd_zero_def layout_zero_def outstream_zero_def SOUNDIO_MAX_CHANNELS_def)
  moreover have "cond_usable (osd_cond (osd tiny_stream)) tiny_lib"
    by (simp add: cond_usable_def tiny_lib_def tiny_stream_def cond_made_def os.defs)
  ultimately show "out_ok 9 tiny_lib" by (rule out_okI)
qed

lemma tiny_start:
  "\<exists>t. playback_thread_start fill_callback 9 0 tiny_lib = Some (\<lparr>start_time = 0, frames_consumed = 0\<rparr>, t) \<and>
      (\<exists>os. outstreams t 9 = Some os \<and> os_sample_rate os = 8000 \<and> osd_period_duration (osd os) = 1)"
  by (simp add: playback_thread_start_def tiny_ok ask_to_write_def upd_out_run fill_callback_def
      outstream_begin_write_dummy_def outstream_end_write_dummy_def tiny_stream_def outstream_zero_def osd_zero_def
      layout_zero_def soundio_ring_buffer_fill_count_def fill_of_def to_int32_def soundio_ring_buffer_capacity_def
      c_div_def soundio_ring_buffer_write_ptr_def ring_position_def interleave_areas_def arr_set_def SOUNDIO_MAX_CHANNELS_def
      soundio_ring_buffer_advance_write_ptr_def in_int_def int_max_def int_min_def)

theorem playback_never_aborts_witness:
  "\<exists>v t x go v' s'. playback_thread_start fill_callback 9 0 tiny_lib = Some (v, t) \<and>
     playback fill_callback 9 \<lparr>prev_now = 0, last_time = 0, vars = v, lib = t\<rparr> x \<and>
     playback_thread_iteration fill_callback 9 (7, 0) 1 1 1 (vars x) (lib x) = Some (go, v', s')"
proof -
  obtain t os where t: "playback_thread_start fill_callback 9 0 tiny_lib = Some (\<lparr>start_time = 0, frames_consumed = 0\<rparr>, t)"
      "outstreams t 9 = Some os" "os_sample_rate os = 8000" "osd_period_duration (osd os) = 1"
    using tiny_start by blast
  let ?x = "\<lparr>prev_now = 0, last_time = 0, vars = \<lparr>start_time = 0, frames_consumed = 0\<rparr>, lib = t\<rparr>"
  let ?os = "os\<lparr>osd := (osd os)\<lparr>osd_pause_requested := True\<rparr>\<rparr>"
  let ?y = "?x\<lparr>lib := t\<lparr>outstreams := (outstreams t)(9 \<mapsto> ?os)\<rparr>\<rparr>"
  have step: "playback fill_callback 9 ?x ?y"
    by (rule playback.pause [of 9 True _ SoundIoErrorNone]) (simp add: outstream_pause_dummy_def upd_out_run t(2))
  have "next_clock_ok 9 ?y tick_one"
    by (simp add: next_clock_ok_def t clock_ok_def wait_ok_def tick_one_def)
  from playback_never_aborts [OF filler.write_client_axioms tiny_ok(1) t(1) r_into_rtranclp [of "playback fill_callback 9", OF step] this]
  show ?thesis using t(1) step by (fastforce simp: tick_one_def)
qed

text \<open>C26. Playback keeps time: at every moment of such a run, the number of frames that the thread has counted as
  consumed since it last restarted its clock is the elapsed time multiplied by the sample rate,
  rounded down, for a reading of the clock within the last iteration. Rounding errors do not add
  up from period to period.\<close>

theorem playback_keeps_time:
  assumes "write_client callback" and "out_ok p s" and "playback_thread_start callback p t0 s = Some (v, t)"
    and "(playback callback p)\<^sup>*\<^sup>* \<lparr>prev_now = t0, last_time = t0, vars = v, lib = t\<rparr> x"
  shows "\<exists>u. start_time (vars x) \<le> u \<and> prev_now x \<le> u \<and> u \<le> last_time x \<and>
    frames_consumed (vars x) = \<lfloor>(u - start_time (vars x)) * real_of_int (out_rate p (lib x))\<rfloor>"
proof -
  have "playing_ok p \<lparr>prev_now = t0, last_time = t0, vars = v, lib = t\<rparr>"
    using write_client.start_ok [OF assms(1,2), of t0] assms(3) by auto
  then have ok: "playing_ok p x" by (rule write_client.playback_reachable [OF assms(1,4)])
  then have "0 < out_rate p (lib x)"
    by (auto simp: playing_ok_def out_ok_def playable_def out_rate_def split: option.splits)
  with ok show ?thesis by (auto simp: playing_ok_def in_step_def dbl_trunc_nonneg)
qed

text \<open>The stream after the first callback, with four frames in its buffer; after a quarter of a millisecond two are due.\<close>

definition tick_quarter :: ticks where
  "tick_quarter = \<lparr>wall = (7, 0), now = 1 / 4000, t1 = 1 / 4000, t2 = 1 / 4000\<rparr>"

lemma tiny_buffered:
  "\<exists>t os. playback_thread_start fill_callback 9 0 tiny_lib = Some (\<lparr>start_time = 0, frames_consumed = 0\<rparr>, t) \<and>
      outstreams t 9 = Some os \<and> os_sample_rate os = 8000 \<and> os_bytes_per_frame os = 2 \<and> osd_period_duration (osd os) = 1 \<and>
      osd_abort_flag (osd os) \<and> osd_clear_buffer_flag (osd os) \<and> \<not> osd_pause_requested (osd os) \<and> osd_cond (osd os) = Some 5 \<and>
      osd_ring_buffer (osd os) = \<lparr>rb_mem = \<lparr>mm_capacity = 8, mm_address = 65536\<rparr>, write_offset = 8, read_offset = 0, rb_capacity = 8\<rparr> \<and>
      cond_usable (Some 5) t"
  by (simp add: playback_thread_start_def tiny_ok ask_to_write_def upd_out_run fill_callback_def
      outstream_begin_write_dummy_def outstream_end_write_dummy_def tiny_stream_def outstream_zero_def osd_zero_def
      layout_zero_def soundio_ring_buffer_fill_count_def fill_of_def to_int32_def soundio_ring_buffer_capacity_def
      c_div_def soundio_ring_buffer_write_ptr_def ring_position_def interleave_areas_def arr_set_def SOUNDIO_MAX_CHANNELS_def
      soundio_ring_buffer_advance_write_ptr_def in_int_def int_max_def int_min_def)
    (simp add: cond_usable_def tiny_lib_def cond_made_def os.defs)

lemma tiny_iteration:
  assumes "outstreams t 9 = Some os" "os_sample_rate os = 8000" "os_bytes_per_frame os = 2" "osd_period_duration (osd os) = 1"
    "osd_abort_flag (osd os)" "osd_clear_buffer_flag (osd os)" "\<not> osd_pause_requested (osd os)" "osd_cond (osd os) = Some 5"
    "osd_ring_buffer (osd os) = \<lparr>rb_mem = \<lparr>mm_capacity = 8, mm_address = 65536\<rparr>, write_offset = 8, read_offset = 0, rb_capacity = 8\<rparr>"
    "cond_usable (Some 5) t"
  shows "\<exists>s. playback_thread_iteration callback 9 (7, 0) (1 / 4000) (1 / 4000) (1 / 4000) \<lparr>start_time = 0, frames_consumed = 0\<rparr> t
    = Some (True, \<lparr>start_time = 0, frames_consumed = 2\<rparr>, s) \<and> out_rate 9 s = 8000"
proof -
  have wait: "soundio_os_cond_timed_wait (Some 5) None (7, 0) d s = Some s" if "cond_usable (Some 5) s" "0 \<le> d" for d and s :: "'a sio_scheme"
    by (rule timed_wait_total [OF that(1) _ that(2)]) simp
  have passed: "relative_wait 0 (1 / 4000) 1 = Some (3999 / 4000)"
    by (simp add: relative_wait_def dbl_div_def ceil_dbl_def in_llong_def dbl_trunc_def)
  have due: "frames_due (1 / 4000) 8000 0 = Some 2"
    by (simp add: frames_due_def dbl_trunc_def in_llong_def to_int32_def)
  show ?thesis using assms wait passed due
    by (simp add: playback_thread_iteration_def upd_out_run out_rate_def
        soundio_ring_buffer_fill_count_def fill_of_def to_int32_def soundio_ring_buffer_capacity_def c_div_def
        soundio_ring_buffer_advance_read_ptr_def in_int_def int_max_def int_min_def soundio_int_min_def)
qed

theorem playback_keeps_time_witness:
  "\<exists>v t x. \<exists>u :: real. playback_thread_start fill_callback 9 0 tiny_lib = Some (v, t) \<and>
     playback fill_callback 9 \<lparr>prev_now = 0, last_time = 0, vars = v, lib = t\<rparr> x \<and>
     frames_consumed (vars x) = 2 \<and> u \<le> 1 / 4000 \<and> \<lfloor>u * 8000\<rfloor> = 2"
proof -
  obtain t os where t: "playback_thread_start fill_callback 9 0 tiny_lib = Some (\<lparr>start_time = 0, frames_consumed = 0\<rparr>, t)"
      and os: "outstreams t 9 = Some os" "os_sample_rate os = 8000" "os_bytes_per_frame os = 2" "osd_period_duration (osd os) = 1"
    "osd_abort_flag (osd os)" "osd_clear_buffer_flag (osd os)" "\<not> osd_pause_requested (osd os)" "osd_cond (osd os) = Some 5"
    "osd_ring_buffer (osd os) = \<lparr>rb_mem = \<lparr>mm_capacity = 8, mm_address = 65536\<rparr>, write_offset = 8, read_offset = 0, rb_capacity = 8\<rparr>"
    "cond_usable (Some 5) t"
    using tiny_buffered by blast
  let ?x = "\<lparr>prev_now = 0, last_time = 0, vars = \<lparr>start_time = 0, frames_consumed = 0\<rparr>, lib = t\<rparr>"
  obtain s where s: "playback_thread_iteration fill_callback 9 (7, 0) (1 / 4000) (1 / 4000) (1 / 4000) \<lparr>start_time = 0, frames_consumed = 0\<rparr> t
    = Some (True, \<lparr>start_time = 0, frames_consumed = 2\<rparr>, s)" "out_rate 9 s = 8000"
    using tiny_iteration [OF os] by blast
  let ?y = "\<lparr>prev_now = now tick_quarter, last_time = t2 tick_quarter, vars = \<lparr>start_time = 0, frames_consumed = 2\<rparr>, lib = s\<rparr>"
  have "relative_wait 0 (1 / 4000) 1 = Some (3999 / 4000)"
    by (simp add: relative_wait_def dbl_div_def ceil_dbl_def in_llong_def dbl_trunc_def)
  then have "next_clock_ok 9 ?x tick_quarter"
    by (simp add: next_clock_ok_def os clock_ok_def wait_ok_def tick_quarter_def)
  then have step: "playback fill_callback 9 ?x ?y"
    by (rule playback.iterate) (simp add: tick_quarter_def s(1))
  from playback_keeps_time [OF filler.write_client_axioms tiny_ok(1) t r_into_rtranclp [of "playback fill_callback 9", OF step]]
  obtain u :: real where "u \<le> 1 / 4000" "2 = \<lfloor>u * 8000\<rfloor>" by (auto simp: tick_quarter_def s(2))
  with t step show ?thesis by (intro exI [of _ "\<lparr>start_time = 0, frames_consumed = 0\<rparr>"] exI [of _ t] exI [of _ ?y] exI [of _ u]) simp
qed

text \<open>C27. Begin and end of a write: for any number of frames up to those the stream was asked for,
  \<open>outstream_begin_write_dummy\<close> gives one area per channel, the frames of a channel one frame
  apart, and \<open>outstream_end_write_dummy\<close> then adds exactly these frames to the buffer, takes them
  off the frames that may still be written, and leaves the stream in order.\<close>

theorem begin_end_write_adds_frames:
  assumes "out_ok p s" and "0 \<le> n" and "n \<le> out_left p s"
  shows "\<exists>areas u t. outstream_begin_write_dummy p n s = Some (SoundIoErrorNone, areas, u) \<and>
    outstream_end_write_dummy p u = Some (SoundIoErrorNone, t) \<and> out_ok p t \<and> out_left p t = out_left p s - n \<and>
    int (ring_fill (osd_ring_buffer (osd (the (outstreams t p))))) =
      int (ring_fill (osd_ring_buffer (osd (the (outstreams s p))))) + n * os_bytes_per_frame (the (outstreams s p)) \<and>
    (\<forall>ch. ch < nat (cl_channel_count (os_layout (the (outstreams s p)))) \<longrightarrow>
       area_step (areas ! ch) = os_bytes_per_frame (the (outstreams s p)))"
proof -
  obtain os where os: "outstreams s p = Some os" "playable os"
    using assms(1) by (auto simp: out_ok_def split: option.splits)
  have "n \<le> osd_frames_left (osd os)" using assms(3) os(1) by (simp add: out_left_def)
  from begin_write_run [OF os this] obtain areas' u' where
      a: "outstream_begin_write_dummy p n s = Some (SoundIoErrorNone, areas', u')"
      "\<forall>ch < nat (cl_channel_count (os_layout os)). area_step (areas' ! ch) = os_bytes_per_frame os"
    by (metis SoundIoChannelArea.select_convs(2))
  show ?thesis
    by (rule write_frames_run [OF assms]) (use a os(1) in auto)
qed

text \<open>The stream while its callback was asked for up to four frames, of which three are written.\<close>

definition asked_lib :: sio where
  "asked_lib = tiny_lib\<lparr>outstreams := [9 \<mapsto> tiny_stream\<lparr>osd := (osd tiny_stream)\<lparr>osd_frames_left := 4\<rparr>\<rparr>]\<rparr>"

lemma asked_ok: "out_ok 9 asked_lib"
  by (rule out_okI [of _ _ "tiny_stream\<lparr>osd := (osd tiny_stream)\<lparr>osd_frames_left := 4\<rparr>\<rparr>"])
    (simp_all add: asked_lib_def playable_def tiny_stream_def ring_inv_def ring_fill_def ring_cap_def int_max_def room_ok_def
      layout_fits_def osd_zero_def layout_zero_def outstream_zero_def SOUNDIO_MAX_CHANNELS_def cond_usable_def tiny_lib_def
      cond_made_def os.defs)

theorem begin_end_write_adds_frames_witness:
  "\<exists>areas u t. outstream_begin_write_dummy 9 3 asked_lib = Some (SoundIoErrorNone, areas, u) \<and>
     outstream_end_write_dummy 9 u = Some (SoundIoErrorNone, t) \<and> out_left 9 t = 1 \<and> area_step (areas ! 0) = 2 \<and>
     ring_fill (osd_ring_buffer (osd (the (outstreams t 9)))) = 6"
proof -
  have asked: "out_left 9 asked_lib = 4" "os_bytes_per_frame (the (outstreams asked_lib 9)) = 2"
      "cl_channel_count (os_layout (the (outstreams asked_lib 9))) = 1"
      "ring_fill (osd_ring_buffer (osd (the (outstreams asked_lib 9)))) = 0"
    by (simp_all add: out_left_def asked_lib_def tiny_stream_def ring_fill_def)
  have "0 \<le> (3::int)" "3 \<le> out_left 9 asked_lib" by (simp_all add: asked)
  from begin_end_write_adds_frames [OF asked_ok this] obtain areas u t where
      run: "outstream_begin_write_dummy 9 3 asked_lib = Some (SoundIoErrorNone, areas, u)"
        "outstream_end_write_dummy 9 u = Some (SoundIoErrorNone, t)" "out_left 9 t = 1" "area_step (areas ! 0) = 2"
      and fill: "int (ring_fill (osd_ring_buffer (osd (the (outstreams t 9))))) = 6"
    unfolding asked by auto
  from fill have "ring_fill (osd_ring_buffer (osd (the (outstreams t 9)))) = 6" by linarith
  with run show ?thesis by blast
qed

text \<open>The same stream at the highest sample rate, one byte per frame.\<close>

definition fast_lib :: sio where
  "fast_lib = tiny_lib\<lparr>outstreams := [9 \<mapsto> tiny_stream\<lparr>os_sample_rate := SOUNDIO_MAX_SAMPLE_RATE,
     os_bytes_per_frame := 1, os_bytes_per_sample := 1\<rparr>]\<rparr>"

text \<open>A thread that was held up for too long aborts: the number of frames to consume is computed as a \<open>long\<close> and
  stored in an \<open>int\<close>. At the highest sample rate a wait of 400 seconds between two iterations makes
  it negative, the read offset is moved backwards, and the assertion of the ring buffer fails,
  whatever the callback does.\<close>

theorem stalled_playback_aborts:
  fixes callback :: "unit callback"
  shows "frames_due 400 SOUNDIO_MAX_SAMPLE_RATE 0 = Some (- 2037047296) \<and>
    playback_thread_iteration callback 9 (7, 0) 400 400 400 \<lparr>start_time = 0, frames_consumed = 0\<rparr> fast_lib = None"
proof -
  have due: "frames_due 400 SOUNDIO_MAX_SAMPLE_RATE 0 = Some (- 2037047296)"
    by (simp add: frames_due_def SOUNDIO_MAX_SAMPLE_RATE_def dbl_trunc_def in_llong_def to_int32_def)
  let ?os = "tiny_stream\<lparr>os_sample_rate := SOUNDIO_MAX_SAMPLE_RATE, os_bytes_per_frame := 1, os_bytes_per_sample := 1\<rparr>"
  have os: "outstreams fast_lib 9 = Some ?os" by (simp add: fast_lib_def)
  have usable: "cond_usable (Some 5) fast_lib"
    by (simp add: cond_usable_def fast_lib_def tiny_lib_def cond_made_def os.defs)
  have wait: "soundio_os_cond_timed_wait (Some 5) None (7, 0) 0 s = Some s" if "cond_usable (Some 5) s" for s :: sio
    by (rule timed_wait_total [OF that]) simp_all
  have "relative_wait 0 400 1 = Some 0" by (simp add: relative_wait_def dbl_div_def ceil_dbl_def in_llong_def dbl_trunc_def)
  then have "playback_thread_iteration callback 9 (7, 0) 400 400 400 \<lparr>start_time = 0, frames_consumed = 0\<rparr> fast_lib = None"
    using os usable wait due
    by (simp add: playback_thread_iteration_def upd_out_run tiny_stream_def outstream_zero_def osd_zero_def
        soundio_ring_buffer_fill_count_def fill_of_def to_int32_def soundio_ring_buffer_capacity_def c_div_def
        soundio_ring_buffer_advance_read_ptr_def in_int_def int_max_def int_min_def)
  with due show ?thesis by simp
qed

end
