(* ===== verification/DummyCapture.thy ===== *)
theory DummyCapture
  imports DummyStreams
begin

section \<open>The dummy backend's input streams keep recording\<close>

text \<open>
  The capture thread, as \<open>DummyStreams\<close> treats the playback thread: the stream stays in order,
  every iteration completes, and the book-keeping follows the clock.
\<close>

definition filled_ok :: "'l::len word SoundIoRingBuffer \<Rightarrow> int \<Rightarrow> int \<Rightarrow> bool" where
  "filled_ok rb bytes_per_frame frames \<longleftrightarrow> 0 \<le> frames \<and> frames * bytes_per_frame \<le> int (ring_fill rb)"

definition recordable :: "SoundIoInStream \<Rightarrow> bool" where
  "recordable istrm \<longleftrightarrow> ring_inv (isd_ring_buffer (isd istrm)) \<and> 0 < is_bytes_per_frame istrm \<and> is_bytes_per_frame istrm \<le> int_max \<and>
     0 < is_sample_rate istrm \<and> 0 < isd_period_duration (isd istrm) \<and> layout_fits (is_layout istrm) (isd_areas (isd istrm)) \<and>
     filled_ok (isd_ring_buffer (isd istrm)) (is_bytes_per_frame istrm) (isd_frames_left (isd istrm))"

definition in_ok :: "nat \<Rightarrow> 'z sio_scheme \<Rightarrow> bool" where
  "in_ok p s \<longleftrightarrow> (case instreams s p of None \<Rightarrow> False | Some istrm \<Rightarrow> recordable istrm \<and> cond_usable (isd_cond (isd istrm)) s)"

definition in_left :: "nat \<Rightarrow> 'z sio_scheme \<Rightarrow> int" where
  "in_left p s = isd_frames_left (isd (the (instreams s p)))"

definition in_rate :: "nat \<Rightarrow> 'z sio_scheme \<Rightarrow> int" where
  "in_rate p s = is_sample_rate (the (instreams s p))"

lemma in_okI: "instreams s p = Some istrm \<Longrightarrow> recordable istrm \<Longrightarrow> cond_usable (isd_cond (isd istrm)) s \<Longrightarrow> in_ok p s"
  by (simp add: in_ok_def)

lemma upd_in_run: "instreams s p = Some istrm \<Longrightarrow> upd_in p f s = Some (s\<lparr>instreams := (instreams s)(p \<mapsto> f istrm)\<rparr>)"
  by (simp add: upd_in_def)

lemma emit_upd_in: "(emit e s)\<lparr>instreams := f\<rparr> = emit e (s\<lparr>instreams := f\<rparr>)"
  by (simp add: emit_def)

text \<open>Writing whole frames into free space.\<close>

lemma write_frames:
  assumes "ring_inv rb" and "0 < b" and "0 \<le> k" and "k \<le> (int (ring_cap rb) - int (ring_fill rb)) div b"
  obtains rb' where "c_int (k * b) = Some (k * b)" "soundio_ring_buffer_advance_write_ptr rb (k * b) = Some rb'"
    "ring_inv rb'" "int (ring_fill rb') = int (ring_fill rb) + k * b" "ring_cap rb' = ring_cap rb"
proof -
  have room: "0 \<le> int (ring_cap rb) - int (ring_fill rb)" using ring_numbers [OF assms(1)] by simp
  have "k * b \<le> (int (ring_cap rb) - int (ring_fill rb)) div b * b" using assms(2,4) by (intro mult_right_mono) simp_all
  also have "\<dots> \<le> int (ring_cap rb) - int (ring_fill rb)" using assms(2) room by (rule div_le_cap)
  finally have le: "k * b \<le> int (ring_cap rb) - int (ring_fill rb)" .
  have pos: "0 \<le> k * b" using assms(2,3) by simp
  then obtain n where n: "k * b = int n" by (metis nonneg_int_cases)
  then have "ring_fill rb + n \<le> ring_cap rb" using le by linarith
  from advance_write_total [OF assms(1) this] obtain rb'
    where rb': "soundio_ring_buffer_advance_write_ptr rb (int n) = Some rb'" "ring_inv rb'"
      "rb' = rb\<lparr>write_offset := write_offset rb + of_nat n\<rparr>" "ring_fill rb' = ring_fill rb + n" by blast
  have "in_int (k * b)" using le pos ring_numbers [OF assms(1)] by (simp add: in_int_def int_min_def)
  then show thesis using rb' by (intro that [of rb']) (simp_all add: n ring_cap_def)
qed

subsection \<open>One iteration\<close>

locale read_client = stream_client callback in_ok in_left in_rate for callback :: "'z callback"
begin

lemma capture_paused:
  assumes strm: "instreams s p = Some istrm" "recordable istrm" "cond_usable (isd_cond (isd istrm)) s"
    and run: "isd_abort_flag (isd istrm)" "isd_pause_requested (isd istrm)"
    and clock: "clock_ok rate (isd_period_duration (isd istrm)) (start_time v) prev cur c"
  shows "\<exists>t. capture_thread_iteration callback p (wall c) (now c) (t1 c) (t2 c) v s =
      Some (True, \<lparr>start_time = now c, frames_consumed = 0\<rparr>, t) \<and> in_ok p t \<and> in_rate p t = is_sample_rate istrm"
proof -
  let ?d = "(isd istrm)\<lparr>isd_abort_flag := True\<rparr>"
  let ?t = "s\<lparr>instreams := (instreams s)(p \<mapsto> istrm\<lparr>isd := ?d\<rparr>)\<rparr>"
  obtain r where r: "relative_wait (start_time v) (now c) (isd_period_duration (isd istrm)) = Some r" "0 \<le> r"
    using relative_wait_total [of "start_time v" "now c"] clock by (auto simp: clock_ok_def)
  have wait: "soundio_os_cond_timed_wait (isd_cond (isd istrm)) None (wall c) r s' = Some s'"
    if "cond_usable (isd_cond (isd istrm)) s'" for s' :: "'z sio_scheme"
    using timed_wait_total [OF that _ r(2), of "wall c"] clock by (simp add: clock_ok_def)
  have "in_ok p ?t" using strm by (intro in_okI [of _ _ "istrm\<lparr>isd := ?d\<rparr>"]) (simp_all add: recordable_def)
  moreover have "capture_thread_iteration callback p (wall c) (now c) (t1 c) (t2 c) v s =
      Some (True, \<lparr>start_time = now c, frames_consumed = 0\<rparr>, ?t)"
    using strm run r wait by (simp add: capture_thread_iteration_def upd_in_run)
  ultimately show ?thesis by (auto simp: in_rate_def)
qed

text \<open>
  The frames that are due are put into the buffer, as far as there is room. When there is not
  enough, the application is told and the clock starts anew.
\<close>

lemma capture_records:
  assumes strm: "instreams s p = Some istrm" "recordable istrm" "cond_usable (isd_cond (isd istrm)) s"
    and run: "isd_abort_flag (isd istrm)" "\<not> isd_pause_requested (isd istrm)"
    and clock: "clock_ok rate (isd_period_duration (isd istrm)) (start_time v) prev cur c"
    and due: "frames_due (t1 c - start_time v) (is_sample_rate istrm) (frames_consumed v) = Some k" "0 \<le> k"
    and free: "f = (int (ring_cap (isd_ring_buffer (isd istrm))) - int (ring_fill (isd_ring_buffer (isd istrm)))) div is_bytes_per_frame istrm"
  shows "\<exists>t. capture_thread_iteration callback p (wall c) (now c) (t1 c) (t2 c) v s =
      Some (True, if k > f then \<lparr>start_time = t2 c, frames_consumed = 0\<rparr> else v\<lparr>frames_consumed := frames_consumed v + k\<rparr>, t) \<and>
      in_ok p t \<and> in_rate p t = is_sample_rate istrm"
proof -
  let ?rb = "isd_ring_buffer (isd istrm)" and ?b = "is_bytes_per_frame istrm"
  have inv: "ring_inv ?rb" "0 < ?b" using strm(2) by (simp_all add: recordable_def)
  note num = ring_numbers [OF inv(1)]
  have diff: "0 \<le> int (ring_cap ?rb) - int (ring_fill ?rb)" "in_int (int (ring_cap ?rb) - int (ring_fill ?rb))"
    using num by (simp_all add: in_int_def int_min_def)
  let ?n = "int (ring_fill ?rb) div ?b"
  note fit = frames_fit [OF inv(2) diff(1)]
  note filled = frames_fit [OF inv(2), of "int (ring_fill ?rb)"]
  have m: "0 \<le> min k f" "min k f \<le> (int (ring_cap ?rb) - int (ring_fill ?rb)) div ?b" using due(2) fit(2) free by simp_all
  obtain rb' where rb': "c_int (min k f * ?b) = Some (min k f * ?b)"
      "soundio_ring_buffer_advance_write_ptr ?rb (min k f * ?b) = Some rb'"
      "ring_inv rb'" "int (ring_fill rb') = int (ring_fill ?rb) + min k f * ?b" "ring_cap rb' = ring_cap ?rb"
    by (rule write_frames [OF inv m])
  obtain r where r: "relative_wait (start_time v) (now c) (isd_period_duration (isd istrm)) = Some r" "0 \<le> r"
    using relative_wait_total [of "start_time v" "now c"] clock by (auto simp: clock_ok_def)
  have wait: "soundio_os_cond_timed_wait (isd_cond (isd istrm)) None (wall c) r s' = Some s'"
    if "cond_usable (isd_cond (isd istrm)) s'" for s' :: "'z sio_scheme"
    using timed_wait_total [OF that _ r(2), of "wall c"] clock by (simp add: clock_ok_def)
  let ?v = "if k > f then \<lparr>start_time = t2 c, frames_consumed = 0\<rparr> else v\<lparr>frames_consumed := frames_consumed v + k\<rparr>"
  let ?st = "\<lambda>n. istrm\<lparr>isd := (isd istrm)\<lparr>isd_abort_flag := True, isd_ring_buffer := rb', isd_frames_left := n\<rparr>\<rparr>"
  let ?t = "\<lambda>n. s\<lparr>instreams := (instreams s)(p \<mapsto> ?st n)\<rparr>"
  let ?e = "\<lambda>u. if k > f then emit (OverflowCb p) u else u"
  have more: "int (ring_fill ?rb) \<le> int (ring_fill rb')" using rb'(4) m(1) inv(2) by simp
  have rec: "recordable (?st n)" if "filled_ok ?rb ?b n" for n
    using strm(2) rb'(3,5) more that by (auto simp: recordable_def filled_ok_def)
  have ok: "in_ok p (?e (?t n))" "in_rate p (?e (?t n)) = is_sample_rate istrm" "in_left p (?e (?t n)) = n"
    if "filled_ok ?rb ?b n" for n
    using rec [OF that] strm(3) by (auto intro!: in_okI [of _ _ "?st n"] simp: in_rate_def in_left_def)
  have old: "filled_ok ?rb ?b (isd_frames_left (isd istrm))" using strm(2) by (simp add: recordable_def)
  have new: "filled_ok ?rb ?b ?n" using filled by (simp add: filled_ok_def)
  have body: "capture_thread_iteration callback p (wall c) (now c) (t1 c) (t2 c) v s =
     (if ?n > 0 then do { s \<leftarrow> callback p 0 ?n (?e (?t ?n)); Some (True, ?v, s) }
      else Some (True, ?v, ?e (?t (isd_frames_left (isd istrm)))))"
    using strm run r wait inv diff fit filled rb' due num
    by (cases "k > f") (simp_all add: capture_thread_iteration_def upd_in_run soundio_ring_buffer_capacity_def
        fill_count_total free Let_def emit_upd_in)
  show ?thesis
    using callback_keeps [OF ok(1) [OF new] ok(3) [OF new]] ok(1,2) [OF old] ok(2) [OF new]
    unfolding body by auto
qed

lemma capture_ok:
  assumes ok: "in_ok p s" and strm: "instreams s p = Some istrm" "isd_abort_flag (isd istrm)"
    and step: "in_step (is_sample_rate istrm) prev cur v"
    and clock: "clock_ok (is_sample_rate istrm) (isd_period_duration (isd istrm)) (start_time v) prev cur c"
  shows "\<exists>v' t. capture_thread_iteration callback p (wall c) (now c) (t1 c) (t2 c) v s = Some (True, v', t) \<and>
    in_ok p t \<and> in_rate p t = is_sample_rate istrm \<and> in_step (is_sample_rate istrm) (now c) (t2 c) v'"
proof -
  have strm': "recordable istrm" "cond_usable (isd_cond (isd istrm)) s" using ok strm(1) by (simp_all add: in_ok_def)
  have rate: "0 < is_sample_rate istrm" using strm'(1) by (simp add: recordable_def)
  have order: "now c \<le> t1 c" "t1 c \<le> t2 c" "start_time v \<le> t1 c"
    using clock by (auto simp: clock_ok_def wait_ok_def)
  show ?thesis
  proof (cases "isd_pause_requested (isd istrm)")
    case True
    with capture_paused [OF strm(1) strm' strm(2) True clock] order show ?thesis
      by (auto intro!: in_step_restart)
  next
    case False
    obtain k where k: "frames_due (t1 c - start_time v) (is_sample_rate istrm) (frames_consumed v) = Some k" "0 \<le> k"
        "frames_consumed v + k = dbl_trunc ((t1 c - start_time v) * real_of_int (is_sample_rate istrm))"
      using in_step_due [OF step clock rate] by blast
    have "in_step (is_sample_rate istrm) (now c) (t2 c) (v\<lparr>frames_consumed := frames_consumed v + k\<rparr>)"
      unfolding in_step_def using order k(3) by (intro exI [of _ "t1 c"]) simp
    moreover have "in_step (is_sample_rate istrm) (now c) (t2 c) \<lparr>start_time = t2 c, frames_consumed = 0\<rparr>"
      using order by (intro in_step_restart) simp_all
    ultimately show ?thesis
      using capture_records [OF strm(1) strm' strm(2) False clock k(1,2) refl] by (auto split: if_splits)
  qed
qed

end

subsection \<open>The stream as a state machine\<close>

definition next_in_clock_ok :: "nat \<Rightarrow> 'z playing \<Rightarrow> ticks \<Rightarrow> bool" where
  "next_in_clock_ok p x c \<longleftrightarrow> (case instreams (lib x) p of None \<Rightarrow> False
     | Some istrm \<Rightarrow> clock_ok (is_sample_rate istrm) (isd_period_duration (isd istrm)) (start_time (vars x)) (prev_now x) (last_time x) c)"

inductive capturing :: "'z callback \<Rightarrow> nat \<Rightarrow> 'z playing \<Rightarrow> 'z playing \<Rightarrow> bool" for callback p where
  iterate: "next_in_clock_ok p x c \<Longrightarrow>
    capture_thread_iteration callback p (wall c) (now c) (t1 c) (t2 c) (vars x) (lib x) = Some (True, v, s) \<Longrightarrow>
    capturing callback p x \<lparr>prev_now = now c, last_time = t2 c, vars = v, lib = s\<rparr>"
| pause: "instream_pause_dummy p b (lib x) = Some (e, s) \<Longrightarrow> capturing callback p x (x\<lparr>lib := s\<rparr>)"

definition recording_ok :: "nat \<Rightarrow> 'z playing \<Rightarrow> bool" where
  "recording_ok p x \<longleftrightarrow> in_ok p (lib x) \<and> in_step (in_rate p (lib x)) (prev_now x) (last_time x) (vars x)"

inductive_cases capturingE: "capturing callback p x y"

lemma in_pause_ok:
  assumes "instream_pause_dummy p b s = Some (e, t)" and "in_ok p s"
  shows "in_ok p t \<and> in_rate p t = in_rate p s"
proof -
  obtain istrm where strm: "instreams s p = Some istrm" "recordable istrm" "cond_usable (isd_cond (isd istrm)) s"
    using assms(2) by (auto simp: in_ok_def split: option.splits)
  let ?st = "istrm\<lparr>isd := (isd istrm)\<lparr>isd_pause_requested := b\<rparr>\<rparr>"
  have "t = s\<lparr>instreams := (instreams s)(p \<mapsto> ?st)\<rparr>"
    using assms(1) strm(1) by (simp add: instream_pause_dummy_def upd_in_run)
  moreover have "recordable ?st" using strm(2) by (simp add: recordable_def)
  ultimately show ?thesis using strm by (auto intro!: in_okI [of _ _ ?st] simp: in_rate_def)
qed

context read_client
begin

lemma any_capture:
  assumes ok: "recording_ok p x" and clock: "next_in_clock_ok p x c"
  shows "\<exists>go v s. capture_thread_iteration callback p (wall c) (now c) (t1 c) (t2 c) (vars x) (lib x) = Some (go, v, s) \<and>
    (go \<longrightarrow> recording_ok p \<lparr>prev_now = now c, last_time = t2 c, vars = v, lib = s\<rparr>)"
proof -
  obtain istrm where strm: "instreams (lib x) p = Some istrm"
      and clock': "clock_ok (is_sample_rate istrm) (isd_period_duration (isd istrm)) (start_time (vars x)) (prev_now x) (last_time x) c"
    using clock by (auto simp: next_in_clock_ok_def split: option.splits)
  show ?thesis
  proof (cases "isd_abort_flag (isd istrm)")
    case True
    have "in_step (is_sample_rate istrm) (prev_now x) (last_time x) (vars x)" "in_ok p (lib x)"
      using ok strm by (simp_all add: recording_ok_def in_rate_def)
    from capture_ok [OF this(2) strm True this(1) clock'] show ?thesis
      by (fastforce simp: recording_ok_def)
  next
    case False
    then show ?thesis using strm by (auto simp: capture_thread_iteration_def upd_in_run)
  qed
qed

lemma capturing_keeps: "capturing callback p x y \<Longrightarrow> recording_ok p x \<Longrightarrow> recording_ok p y"
proof (erule capturingE)
  fix c v s
  assume "recording_ok p x" "next_in_clock_ok p x c" "y = \<lparr>prev_now = now c, last_time = t2 c, vars = v, lib = s\<rparr>"
    "capture_thread_iteration callback p (wall c) (now c) (t1 c) (t2 c) (vars x) (lib x) = Some (True, v, s)"
  with any_capture [of p x c] show "recording_ok p y" by auto
next
  fix b e s
  assume "recording_ok p x" "y = x\<lparr>lib := s\<rparr>" "instream_pause_dummy p b (lib x) = Some (e, s)"
  with in_pause_ok show "recording_ok p y" by (fastforce simp: recording_ok_def)
qed

lemma capturing_reachable: "(capturing callback p)\<^sup>*\<^sup>* x y \<Longrightarrow> recording_ok p x \<Longrightarrow> recording_ok p y"
  by (induction rule: rtranclp_induct) (auto dest: capturing_keeps)

end

subsection \<open>Reading between begin and end\<close>

lemma read_frames_run:
  assumes ok: "in_ok p s" and n: "0 \<le> n" "n \<le> in_left p s"
  obtains as u t where "instream_begin_read_dummy p n s = Some (SoundIoErrorNone, as, u)"
    "instream_end_read_dummy p u = Some (SoundIoErrorNone, t)" "in_ok p t" "in_left p t = in_left p s - n"
    "in_rate p t = in_rate p s"
    "int (ring_fill (isd_ring_buffer (isd (the (instreams t p))))) =
       int (ring_fill (isd_ring_buffer (isd (the (instreams s p))))) - n * is_bytes_per_frame (the (instreams s p))"
proof -
  obtain istrm where strm: "instreams s p = Some istrm" "recordable istrm" "cond_usable (isd_cond (isd istrm)) s"
    using ok by (auto simp: in_ok_def split: option.splits)
  let ?rb = "isd_ring_buffer (isd istrm)" and ?b = "is_bytes_per_frame istrm"
  have inv: "ring_inv ?rb" "0 < ?b" and fits: "layout_fits (is_layout istrm) (isd_areas (isd istrm))"
    and left: "filled_ok ?rb ?b (isd_frames_left (isd istrm))"
    using strm(2) by (simp_all add: recordable_def)
  have n': "n \<le> isd_frames_left (isd istrm)" using n(2) strm(1) by (simp add: in_left_def)
  have "n * ?b \<le> isd_frames_left (isd istrm) * ?b" using n' inv(2) by (intro mult_right_mono) simp_all
  then have nb: "n * ?b \<le> int (ring_fill ?rb)" using left by (simp add: filled_ok_def)
  then have "n \<le> int (ring_fill ?rb) div ?b" using zdiv_mono1 [OF _ inv(2)] inv(2) by fastforce
  from inv n(1) this obtain rb where rb: "c_int (n * ?b) = Some (n * ?b)"
      "soundio_ring_buffer_advance_read_ptr ?rb (n * ?b) = Some rb" "ring_inv rb"
      "int (ring_fill rb) = int (ring_fill ?rb) - n * ?b" "ring_cap rb = ring_cap ?rb"
    by (rule read_frames)
  have "soundio_ring_buffer_read_ptr ?rb = Some (mm_address (rb_mem ?rb) + unat (read_offset ?rb) mod ring_cap ?rb)"
    by (simp add: soundio_ring_buffer_read_ptr_def ring_position_total [OF inv(1)])
  moreover have "cl_channel_count (is_layout istrm) \<le> int (length (isd_areas (isd istrm)))" using fits by (simp add: layout_fits_def)
  from interleave_areas_total [OF this, of "mm_address (rb_mem ?rb) + unat (read_offset ?rb) mod ring_cap ?rb"
      "is_bytes_per_sample istrm" ?b]
  obtain as where as: "interleave_areas (mm_address (rb_mem ?rb) + unat (read_offset ?rb) mod ring_cap ?rb)
        (is_bytes_per_sample istrm) ?b (cl_channel_count (is_layout istrm)) (isd_areas (isd istrm)) = Some as"
      "length as = length (isd_areas (isd istrm))" by blast
  let ?st = "istrm\<lparr>isd := (isd istrm)\<lparr>isd_areas := as, isd_read_frame_count := n\<rparr>\<rparr>"
  let ?u = "s\<lparr>instreams := (instreams s)(p \<mapsto> ?st)\<rparr>"
  have begin_run: "instream_begin_read_dummy p n s = Some (SoundIoErrorNone, as, ?u)"
    using strm(1) n' calculation as by (simp add: instream_begin_read_dummy_def upd_in_run)
  let ?w = "istrm\<lparr>isd := (isd istrm)\<lparr>isd_areas := as, isd_read_frame_count := n, isd_ring_buffer := rb,
      isd_frames_left := isd_frames_left (isd istrm) - n\<rparr>\<rparr>"
  have "isd_frames_left (isd istrm) \<le> isd_frames_left (isd istrm) * ?b"
    using left inv(2) mult_left_mono [of 1 ?b "isd_frames_left (isd istrm)"] by (simp add: filled_ok_def)
  then have "in_int (isd_frames_left (isd istrm) - n)"
    using left n n' ring_numbers [OF inv(1)] by (simp add: in_int_def int_min_def filled_ok_def)
  then have end_run: "instream_end_read_dummy p ?u = Some (SoundIoErrorNone, s\<lparr>instreams := (instreams s)(p \<mapsto> ?w)\<rparr>)"
    using rb by (simp add: instream_end_read_dummy_def upd_in_run)
  have "recordable ?w"
    using strm(2) rb as(2) n' left by (auto simp: recordable_def layout_fits_def filled_ok_def algebra_simps)
  then have "in_ok p (s\<lparr>instreams := (instreams s)(p \<mapsto> ?w)\<rparr>)" using strm(3) by (intro in_okI [of _ _ ?w]) simp_all
  with begin_run end_run rb strm(1) show thesis
    by (intro that [of as ?u "s\<lparr>instreams := (instreams s)(p \<mapsto> ?w)\<rparr>"]) (simp_all add: in_left_def in_rate_def)
qed

text \<open>A callback that reads all there is.\<close>

definition drain_callback :: "'z callback" where
  "drain_callback p frame_count_min frame_count_max s = do {
     (err, areas, s) \<leftarrow> instream_begin_read_dummy p frame_count_max s;
     (err, s) \<leftarrow> instream_end_read_dummy p s;
     Some s
   }"

interpretation drainer: read_client drain_callback
proof unfold_locales
  fix p n and s :: "'z sio_scheme"
  assume "in_ok p s" "in_left p s = n" "0 < n"
  then obtain as u t where "instream_begin_read_dummy p n s = Some (SoundIoErrorNone, as, u)"
    "instream_end_read_dummy p u = Some (SoundIoErrorNone, t)" "in_ok p t" "in_rate p t = in_rate p s"
    by (elim read_frames_run [of p s n]) simp_all
  then show "\<exists>t. drain_callback p 0 n s = Some t \<and> in_ok p t \<and> in_rate p t = in_rate p s"
    by (simp add: drain_callback_def)
qed

subsection \<open>Properties of capture\<close>

text \<open>C21. The capture thread of the dummy backend never aborts, under the same conditions as the playback
  thread: from a stream in order and a callback that leaves it in order, every iteration
  completes after any sequence of iterations and pauses.\<close>

theorem capture_never_aborts:
  assumes "read_client callback" and "in_ok p s"
    and "(capturing callback p)\<^sup>*\<^sup>* \<lparr>prev_now = t0, last_time = t0, vars = capture_thread_start t0, lib = s\<rparr> x"
    and "next_in_clock_ok p x c"
  shows "\<exists>go v' s'. capture_thread_iteration callback p (wall c) (now c) (t1 c) (t2 c) (vars x) (lib x) = Some (go, v', s') \<and>
    (go \<longrightarrow> in_ok p s')"
proof -
  have "recording_ok p \<lparr>prev_now = t0, last_time = t0, vars = capture_thread_start t0, lib = s\<rparr>"
    using assms(2) by (simp add: recording_ok_def capture_thread_start_def in_step_restart)
  then have "recording_ok p x" by (rule read_client.capturing_reachable [OF assms(1,3)])
  from read_client.any_capture [OF assms(1) this assms(4)] show ?thesis by (auto simp: recording_ok_def)
qed

definition tiny_in_lib :: sio where
  "tiny_in_lib = tiny_lib\<lparr>instreams := [9 \<mapsto> instream_zero\<lparr>is_bytes_per_frame := 2, is_bytes_per_sample := 2, is_sample_rate := 8000,
     is_layout := layout_zero\<lparr>cl_channel_count := 1\<rparr>,
     isd := isd_zero\<lparr>isd_cond := Some 5, isd_abort_flag := True, isd_period_duration := 1,
       isd_ring_buffer := \<lparr>rb_mem = \<lparr>mm_capacity = 8, mm_address = 65536\<rparr>, write_offset = 0, read_offset = 0, rb_capacity = 8\<rparr>\<rparr>\<rparr>]\<rparr>"

lemma tiny_in_ok: "in_ok 9 tiny_in_lib"
  by (simp add: in_ok_def tiny_in_lib_def tiny_lib_def recordable_def ring_inv_def ring_fill_def ring_cap_def int_max_def
      filled_ok_def layout_fits_def isd_zero_def layout_zero_def instream_zero_def SOUNDIO_MAX_CHANNELS_def
      cond_usable_def cond_made_def os.defs)

theorem capture_never_aborts_witness:
  "\<exists>go v' s'. capture_thread_iteration drain_callback 9 (7, 0) 1 1 1 (capture_thread_start 0) tiny_in_lib = Some (go, v', s')"
proof -
  have "next_in_clock_ok 9 \<lparr>prev_now = 0, last_time = 0, vars = capture_thread_start 0, lib = tiny_in_lib\<rparr> tick_one"
    by (simp add: next_in_clock_ok_def tiny_in_lib_def clock_ok_def wait_ok_def tick_one_def capture_thread_start_def
        instream_zero_def isd_zero_def)
  from capture_never_aborts [OF drainer.read_client_axioms tiny_in_ok rtranclp.rtrancl_refl this]
  show ?thesis by (fastforce simp: tick_one_def)
qed

text \<open>C28. Begin and end of a read: for any number of frames up to those the stream offers, the two calls take exactly
  these frames out of the buffer and leave the stream in order.\<close>

theorem begin_end_read_takes_frames:
  assumes "in_ok p s" and "0 \<le> n" and "n \<le> in_left p s"
  shows "\<exists>areas u t. instream_begin_read_dummy p n s = Some (SoundIoErrorNone, areas, u) \<and>
    instream_end_read_dummy p u = Some (SoundIoErrorNone, t) \<and> in_ok p t \<and> in_left p t = in_left p s - n \<and>
    int (ring_fill (isd_ring_buffer (isd (the (instreams t p))))) =
      int (ring_fill (isd_ring_buffer (isd (the (instreams s p))))) - n * is_bytes_per_frame (the (instreams s p))"
  by (rule read_frames_run [OF assms]) blast

text \<open>A stream with four frames in its buffer that offers them to its callback, which takes three.\<close>

definition offered_stream :: SoundIoInStream where
  "offered_stream = instream_zero\<lparr>is_bytes_per_frame := 2, is_bytes_per_sample := 2, is_sample_rate := 8000,
     is_layout := layout_zero\<lparr>cl_channel_count := 1\<rparr>,
     isd := isd_zero\<lparr>isd_cond := Some 5, isd_abort_flag := True, isd_period_duration := 1, isd_frames_left := 4,
       isd_ring_buffer := \<lparr>rb_mem = \<lparr>mm_capacity = 8, mm_address = 65536\<rparr>, write_offset = 8, read_offset = 0, rb_capacity = 8\<rparr>\<rparr>\<rparr>"

definition offered_lib :: sio where
  "offered_lib = tiny_lib\<lparr>instreams := [9 \<mapsto> offered_stream]\<rparr>"

lemma offered_ok: "in_ok 9 offered_lib"
  by (simp add: in_ok_def offered_lib_def offered_stream_def tiny_lib_def recordable_def ring_inv_def ring_fill_def ring_cap_def
      int_max_def filled_ok_def layout_fits_def isd_zero_def layout_zero_def instream_zero_def SOUNDIO_MAX_CHANNELS_def
      cond_usable_def cond_made_def os.defs)

theorem begin_end_read_takes_frames_witness:
  "\<exists>areas u t. instream_begin_read_dummy 9 3 offered_lib = Some (SoundIoErrorNone, areas, u) \<and>
     instream_end_read_dummy 9 u = Some (SoundIoErrorNone, t) \<and> in_left 9 t = 1 \<and>
     ring_fill (isd_ring_buffer (isd (the (instreams t 9)))) = 2"
proof -
  have offered: "in_left 9 offered_lib = 4" "is_bytes_per_frame (the (instreams offered_lib 9)) = 2"
      "ring_fill (isd_ring_buffer (isd (the (instreams offered_lib 9)))) = 8"
    by (simp_all add: in_left_def offered_lib_def offered_stream_def ring_fill_def)
  have "0 \<le> (3::int)" "3 \<le> in_left 9 offered_lib" by (simp_all add: offered)
  from begin_end_read_takes_frames [OF offered_ok this] obtain areas u t where
      run: "instream_begin_read_dummy 9 3 offered_lib = Some (SoundIoErrorNone, areas, u)"
        "instream_end_read_dummy 9 u = Some (SoundIoErrorNone, t)" "in_left 9 t = 1"
      and fill: "int (ring_fill (isd_ring_buffer (isd (the (instreams t 9))))) = 2"
    unfolding offered by auto
  from fill have "ring_fill (isd_ring_buffer (isd (the (instreams t 9)))) = 2" by linarith
  with run show ?thesis by blast
qed

end
