(* ===== verification/DummyOpen.thy ===== *)
theory DummyOpen
  imports SoundIo DummyInit DummyCapture
begin

section \<open>Opening a stream of the dummy backend\<close>

text \<open>
  An opened stream is in the order that \<open>DummyStreams\<close> and \<open>DummyCapture\<close> assume, so their
  properties hold of it from the start. Setting up the ring buffer touches nothing but the
  address space, the descriptors and the files.
\<close>

subsection \<open>What mapping memory leaves alone\<close>

definition heap_part :: "'z os_scheme \<Rightarrow> _" where
  "heap_part s = (next_id s, blocks s, mutexes s, conds s, threads s, os.more s)"

lemma heap_part_simps [simp]:
  "heap_part (s\<lparr>vm := a\<rparr>) = heap_part s" "heap_part (s\<lparr>vm_next := b\<rparr>) = heap_part s"
  "heap_part (s\<lparr>next_fd := n\<rparr>) = heap_part s" "heap_part (s\<lparr>open_fds := f\<rparr>) = heap_part s"
  "heap_part (s\<lparr>file_data := d\<rparr>) = heap_part s" "heap_part (s\<lparr>answers := as\<rparr>) = heap_part s"
  by (simp_all add: heap_part_def)

lemma heap_part_ask [simp]: "heap_part (snd (ask s)) = heap_part s"
  by (simp add: ask_def split: list.split)

lemma heap_part_calls [simp]:
  "heap_part (snd (mkstemp s)) = heap_part s" "heap_part (snd (mmap_anon n s)) = heap_part s"
  "heap_part (snd (mmap_fixed a n fd s)) = heap_part s" "heap_part (snd (munmap a n s)) = heap_part s"
  "heap_part (snd (close_fd fd s)) = heap_part s"
  by (simp_all add: mkstemp_def mmap_anon_def mmap_fixed_def munmap_def close_fd_def vm_set_def case_prod_unfold Let_def)

lemma heap_part_fail: "close_and_fail fd err m s = Some (e, m', t) \<Longrightarrow> heap_part t = heap_part s"
  by (auto simp: close_and_fail_def case_prod_unfold Let_def)

text \<open>The rules go through the code call by call.\<close>

definition keeps :: "'z os_scheme \<Rightarrow> ('e \<times> 'm \<times> 'z os_scheme) option \<Rightarrow> bool" where
  "keeps s0 r \<longleftrightarrow> (\<forall>e m t. r = Some (e, m, t) \<longrightarrow> heap_part t = heap_part s0)"

lemma keeps_Some: "heap_part t = heap_part s0 \<Longrightarrow> keeps s0 (Some (e, m, t))"
  by (simp add: keeps_def)

lemma keeps_fail: "heap_part t = heap_part s0 \<Longrightarrow> keeps s0 (close_and_fail fd err m t)"
  by (auto simp: keeps_def dest!: heap_part_fail)

lemma keeps_call:
  "heap_part (snd c) = heap_part s0 \<Longrightarrow> (\<And>r u. heap_part u = heap_part s0 \<Longrightarrow> keeps s0 (body r u)) \<Longrightarrow>
   keeps s0 (case c of (r, u) \<Rightarrow> body r u)"
  by (cases c) simp

lemma keeps_pure: "(\<And>x. c = Some x \<Longrightarrow> keeps s0 (body x)) \<Longrightarrow> keeps s0 (Option.bind c body)"
  by (cases c) (simp_all add: keeps_def)

lemma keeps_if: "(b \<Longrightarrow> keeps s0 x) \<Longrightarrow> (\<not> b \<Longrightarrow> keeps s0 y) \<Longrightarrow> keeps s0 (if b then x else y)"
  by simp

lemma keeps_option: "(keeps s0 x) \<Longrightarrow> (\<And>v. keeps s0 (f v)) \<Longrightarrow> keeps s0 (case r of None \<Rightarrow> x | Some v \<Rightarrow> f v)"
  by (cases r) simp_all

lemmas keeps_rules = keeps_fail keeps_Some keeps_pure keeps_if keeps_option keeps_call

lemma mirror_keeps: "keeps s (soundio_os_init_mirrored_memory m n s)"
  unfolding soundio_os_init_mirrored_memory_def Let_def
  by (intro keeps_rules) simp_all

lemma heap_part_mirror:
  "soundio_os_init_mirrored_memory m n s = Some (e, m', t) \<Longrightarrow> heap_part t = heap_part s"
  using mirror_keeps [of s m n] by (simp add: keeps_def)

lemma heap_part_ring:
  assumes "soundio_ring_buffer_init rb n s = Some (e, rb', t)"
  shows "heap_part t = heap_part s"
  using assms by (auto simp: soundio_ring_buffer_init_def Option.bind_eq_Some_conv Let_def split: if_splits dest!: heap_part_mirror)

text \<open>When every request is granted, the mapping succeeds and grants nothing away.\<close>

lemma ask_granted: "answers s = [] \<Longrightarrow> ask s = (True, s)"
  by (rule ask_nil)

lemma mirror_granted:
  assumes "answers s = []" and "page_size s = int page" and "0 < page" and "0 < n" and "n + page \<le> 2 ^ 62"
  shows "\<exists>m' t. soundio_os_init_mirrored_memory m n s = Some (SoundIoErrorNone, m', t) \<and> answers t = []"
proof -
  have cap: "0 < mirror_capacity page n" "mirror_capacity page n < 2 ^ 62"
    using mirror_capacity_bounds [OF assms(3), of n] assms(4,5) by simp_all
  have "real n / real page \<le> real n / 1" using assms(3) by (intro divide_left_mono) auto
  also have "\<dots> < 2 ^ 63" using assms(5) by simp
  finally have ceil: "ceil_dbl_to_size_t (real n / real page) = Some (nat \<lceil>real n / real page\<rceil>)"
    by (intro ceil_dbl_to_size_t_eq) simp_all
  have pages: "nat \<lceil>real n / real page\<rceil> * page = mirror_capacity page n" using mirror_capacity_eq [OF assms(3)] by simp
  have small: "mirror_capacity page n mod 2 ^ 64 = mirror_capacity page n"
      "mirror_capacity page n * 2 mod 2 ^ 64 = mirror_capacity page n * 2" using cap by simp_all
  show ?thesis
    using assms(1-3) cap ceil pages small
    by (simp add: soundio_os_init_mirrored_memory_def Let_def mkstemp_def mmap_anon_def mmap_fixed_def close_fd_def vm_set_def ask_granted)
qed

lemma ring_granted:
  assumes "answers s = []" and "page_size s = int page" and "0 < page" and "0 < n" and "n + int page \<le> 2 ^ 31"
  shows "\<exists>rb' t. soundio_ring_buffer_init rb n s = Some (SoundIoErrorNone, rb', t) \<and> answers t = []"
proof -
  have size: "to_size_t n = nat n" "0 < nat n" "nat n + page \<le> 2 ^ 62" using assms(4,5) by (simp_all add: to_size_t_def)
  from mirror_granted [OF assms(1-3) size(2,3), of "rb_mem rb"] show ?thesis
    by (auto simp: soundio_ring_buffer_init_def size(1))
qed

lemma heap_part_sio:
  assumes "heap_part t = heap_part s"
  shows "outstreams t = outstreams s" "instreams t = instreams s" "devices t = devices s" "sios t = sios s"
    "conds t = conds s" "next_id t = next_id s" "blocks t = blocks s"
  using assms by (cases s, cases t, simp add: heap_part_def)+

lemma cond_granted:
  fixes s :: "'z os_scheme"
  assumes "answers s = []"
  shows "\<exists>c t. soundio_os_cond_create s = Some (Some c, t)"
  using assms by (simp add: soundio_os_cond_create_def alloc_nil ask_nil set_cond_def)

subsection \<open>Output streams\<close>

text \<open>The latency that the stream is opened with.\<close>

definition open_latency :: "real \<Rightarrow> SoundIoDevice \<Rightarrow> real" where
  "open_latency latency device = (if latency = 0
     then soundio_double_clamp (software_latency_min device) 1 (software_latency_max device) else latency)"

text \<open>The size of the buffer in bytes is positive and an \<open>int\<close>, with a page to spare.\<close>

definition buffer_fits :: "nat \<Rightarrow> int \<Rightarrow> int \<Rightarrow> real \<Rightarrow> bool" where
  "buffer_fits page bytes_per_frame sample_rate duration \<longleftrightarrow> 0 < bytes_per_frame \<and> 0 < sample_rate \<and>
     bytes_per_frame * sample_rate \<le> int_max \<and> 1 \<le> real_of_int (bytes_per_frame * sample_rate) * duration \<and>
     real_of_int (bytes_per_frame * sample_rate) * duration + real page \<le> 2147483647"

lemma buffer_fits_size:
  assumes "buffer_fits page b r d"
  obtains n where "buffer_bytes b r d = Some n" "n = \<lfloor>real_of_int (b * r) * d\<rfloor>" "0 < n" "n + int page \<le> 2 ^ 31" "0 < d" "b \<le> int_max"
proof -
  let ?x = "real_of_int (b * r) * d"
  have x: "1 \<le> ?x" "?x + real page \<le> 2147483647" and br: "0 < b" "0 < r" "b * r \<le> int_max"
    using assms by (simp_all add: buffer_fits_def)
  have pos: "0 < b * r" using br by simp
  then have i: "in_int (b * r)" using br(3) by (simp add: in_int_def int_min_def)
  have "b * 1 \<le> b * r" using br by (intro mult_left_mono) simp_all
  then have b: "b \<le> int_max" using br(3) by simp
  have tr: "dbl_trunc ?x = \<lfloor>?x\<rfloor>" using x(1) by (intro dbl_trunc_nonneg) simp
  have le: "\<lfloor>?x\<rfloor> + int page \<le> 2147483647" and one: "1 \<le> \<lfloor>?x\<rfloor>" using x by linarith+
  then have "in_int \<lfloor>?x\<rfloor>" unfolding in_int_def int_min_def int_max_def by linarith
  then have "dbl_to_int ?x = Some \<lfloor>?x\<rfloor>" unfolding dbl_to_int_def tr by (rule c_int_in_range)
  then have "buffer_bytes b r d = Some \<lfloor>?x\<rfloor>" using i by (simp add: buffer_bytes_def)
  moreover have "0 < d"
  proof (rule ccontr)
    assume "\<not> 0 < d"
    then have "?x \<le> 0" using pos by (intro mult_nonneg_nonpos) (simp_all only: of_int_0_le_iff less_imp_le not_less)
    with x(1) show False by simp
  qed
  ultimately show thesis using le one b by (intro that [of "\<lfloor>?x\<rfloor>"]) simp_all
qed

definition fresh_out :: "SoundIoOutStream \<Rightarrow> bool" where
  "fresh_out os \<longleftrightarrow> osd_thread (osd os) = None \<and> osd_cond (osd os) = None \<and> osd_frames_left (osd os) = 0 \<and>
     mm_address (rb_mem (osd_ring_buffer (osd os))) = 0 \<and> layout_fits (os_layout os) (osd_areas (osd os))"

lemma open_dummy_run:
  assumes "outstreams s p = Some os" and "os_device os = Some dv" and "devices s dv = Some dev"
    and "fresh_out os" and "buffer_fits page (os_bytes_per_frame os) (os_sample_rate os) (open_latency (os_software_latency os) dev)"
    and "vm_ok s" and "page_size s = int page" and "0 < page" and "ids_ok s"
  shows "(outstream_open_dummy p s = Some (SoundIoErrorNone, t) \<longrightarrow> out_ok p t \<and> out_left p t = 0 \<and>
      out_rate p t = os_sample_rate os \<and> sios t = sios s \<and> devices t = devices s \<and>
      (\<exists>os'. outstreams t p = Some os' \<and> os_format os' = os_format os \<and> os_layout os' = os_layout os \<and>
        os_bytes_per_frame os' = os_bytes_per_frame os \<and> os_bytes_per_sample os' = os_bytes_per_sample os)) \<and>
    (answers s = [] \<longrightarrow> (\<exists>t. outstream_open_dummy p s = Some (SoundIoErrorNone, t)))"
proof -
  let ?L = "open_latency (os_software_latency os) dev"
  let ?b = "os_bytes_per_frame os" and ?r = "os_sample_rate os"
  obtain n where n: "buffer_bytes ?b ?r ?L = Some n" "0 < n" "n + int page \<le> 2 ^ 31" "0 < ?L" "?b \<le> int_max"
    by (rule buffer_fits_size [OF assms(5)])
  have pos: "0 < ?b" "0 < ?r" using assms(5) by (simp_all add: buffer_fits_def)
  let ?os1 = "os\<lparr>os_software_latency := ?L,
      osd := (osd os)\<lparr>osd_clear_buffer_flag := True, osd_pause_requested := False, osd_period_duration := ?L / 2\<rparr>\<rparr>"
  let ?s1 = "s\<lparr>outstreams := (outstreams s)(p \<mapsto> ?os1)\<rparr>"
  let ?rest = "\<lambda>err rb s. do {
     s \<leftarrow> upd_osd p (\<lambda>d. d\<lparr>osd_ring_buffer := rb\<rparr>) s;
     if err \<noteq> SoundIoErrorNone then do { s \<leftarrow> outstream_destroy_dummy p s; Some (err, s) }
     else do {
       let actual_capacity = soundio_ring_buffer_capacity rb;
       frame_count \<leftarrow> c_div actual_capacity ?b;
       s \<leftarrow> upd_osd p (\<lambda>d. d\<lparr>osd_buffer_frame_count := frame_count\<rparr>) s;
       latency \<leftarrow> dbl_div (real_of_int frame_count) (real_of_int ?r);
       s \<leftarrow> upd_out p (\<lambda>x. x\<lparr>os_software_latency := latency\<rparr>) s;
       (c, s) \<leftarrow> soundio_os_cond_create s;
       s \<leftarrow> upd_osd p (\<lambda>d. d\<lparr>osd_cond := c\<rparr>) s;
       if c = None then do { s \<leftarrow> outstream_destroy_dummy p s; Some (SoundIoErrorNoMem, s) }
       else Some (SoundIoErrorNone, s)
     }}"
  have body: "outstream_open_dummy p s = Option.bind (soundio_ring_buffer_init (osd_ring_buffer (osd os)) n ?s1)
      (\<lambda>(err, rb, s). ?rest err rb s)"
    using assms(1-3) n(1) by (simp add: outstream_open_dummy_def upd_out_run open_latency_def [symmetric] Let_def)
  have s1: "vm_ok ?s1" "page_size ?s1 = int page" "answers ?s1 = answers s" using assms(6,7) by (simp_all add: vm_ok_def)
  show ?thesis
  proof (cases "soundio_ring_buffer_init (osd_ring_buffer (osd os)) n ?s1")
    case None
    then have "answers s \<noteq> []" using ring_granted [OF _ s1(2) assms(8) n(2,3), of "osd_ring_buffer (osd os)"] by auto
    then show ?thesis using None body by simp
  next
    case (Some q)
    obtain err rb s2 where q: "q = (err, rb, s2)" by (cases q)
    note init = Some [unfolded q]
    note heap = heap_part_sio [OF heap_part_ring [OF init]]
    have os2: "outstreams s2 p = Some ?os1" using heap(1) by simp
    show ?thesis
    proof (cases "err = SoundIoErrorNone")
      case False
      then have "answers s \<noteq> []" using ring_granted [OF _ s1(2) assms(8) n(2,3), of "osd_ring_buffer (osd os)"] init by auto
      moreover have "outstream_open_dummy p s \<noteq> Some (SoundIoErrorNone, t)"
        using False os2 by (auto simp: body init upd_out_run Option.bind_eq_Some_conv)
      ultimately show ?thesis by simp
    next
      case True
      note ring = ring_init_spec [OF s1(1,2) assms(8) n(2,3) _ init [unfolded True]]
      have cap: "0 < rb_capacity rb" "ring_inv rb" using ring(3) n(2) ring(1) by (simp_all add: ring_ok_def)
      let ?k = "rb_capacity rb div ?b"
      let ?os3 = "os\<lparr>osd := (osd os)\<lparr>osd_clear_buffer_flag := True, osd_pause_requested := False, osd_period_duration := ?L / 2,
          osd_ring_buffer := rb, osd_buffer_frame_count := ?k\<rparr>, os_software_latency := real_of_int ?k / real_of_int ?r\<rparr>"
      let ?s3 = "s2\<lparr>outstreams := (outstreams s2)(p \<mapsto> ?os3)\<rparr>"
      have div: "c_div (rb_capacity rb) ?b = Some ?k" using cap(1) pos(1) by (intro c_div_pos) simp_all
      let ?fin = "\<lambda>c s. do {
         s \<leftarrow> upd_osd p (\<lambda>d. d\<lparr>osd_cond := c\<rparr>) s;
         if c = None then do { s \<leftarrow> outstream_destroy_dummy p s; Some (SoundIoErrorNoMem, s) }
         else Some (SoundIoErrorNone, s)
       }"
      have tail: "outstream_open_dummy p s = Option.bind (soundio_os_cond_create ?s3) (\<lambda>(c, s). ?fin c s)"
        using True os2 div pos(2)
        by (simp add: body init upd_out_run Let_def soundio_ring_buffer_capacity_def dbl_div_def)
      have fresh: "next_id ?s3 \<notin> blocks ?s3" "conds ?s3 (next_id ?s3) = None"
        using assms(9) heap by (simp_all add: ids_ok_def)
      show ?thesis
      proof (cases rule: cond_create_explicit [OF fresh])
        case (1 ans m)
        have "answers s \<noteq> []"
        proof
          assume "answers s = []"
          then have "answers s2 = []" using ring_granted [OF _ s1(2) assms(8) n(2,3), of "osd_ring_buffer (osd os)"] init by auto
          then show False using cond_granted [of ?s3] 1(1) by auto
        qed
        moreover have "outstream_open_dummy p s \<noteq> Some (SoundIoErrorNone, t)"
          by (auto simp: tail 1(1) upd_out_run Option.bind_eq_Some_conv)
        ultimately show ?thesis by simp
      next
        case (2 ans)
        let ?s4 = "?s3\<lparr>answers := ans, next_id := Suc (next_id ?s3), blocks := insert (next_id ?s3) (blocks ?s3),
            conds := (conds ?s3)(next_id ?s3 \<mapsto> cond_made)\<rparr>"
        let ?os4 = "?os3\<lparr>osd := (osd ?os3)\<lparr>osd_cond := Some (next_id ?s3)\<rparr>\<rparr>"
        let ?t = "?s4\<lparr>outstreams := (outstreams ?s4)(p \<mapsto> ?os4)\<rparr>"
        have "outstreams ?s4 p = Some ?os3" by simp
        then have run: "outstream_open_dummy p s = Some (SoundIoErrorNone, ?t)"
          unfolding tail 2 by (simp add: upd_out_run)
        have play: "playable ?os4"
          using assms(4) cap(2) pos n(4,5) ring(2,5)
          by (simp add: playable_def fresh_out_def room_ok_def ring_numbers ring_bytes_def)
        have ok: "out_ok p ?t"
          using play by (intro out_okI [of _ _ ?os4]) (simp_all add: cond_usable_def cond_made_def)
        show ?thesis
          using ok run assms(4) heap by (auto simp: out_left_def out_rate_def fresh_out_def)
      qed
    qed
  qed
qed

subsection \<open>A stream with the defaults\<close>

text \<open>The output device of the dummy backend, whoever holds it.\<close>

definition is_dummy_out :: "bool \<Rightarrow> nat \<Rightarrow> SoundIoDevice \<Rightarrow> bool" where
  "is_dummy_out be si d \<longleftrightarrow> (\<exists>q. d\<lparr>ref_count := 1\<rparr> = out_dev be si q)"

lemma dummy_out_sel:
  assumes "is_dummy_out be si d"
  shows "aim d = SoundIoDeviceAimOutput" "probe_error d = SoundIoErrorNone" "dev_soundio d = Some si"
    "format_count d = 18" "format_cells d = all_formats be" "layout_count d = 26" "layout_cells d = builtin_channel_layouts"
    "sample_rate_count d = 1" "rate_cell d 0 = Some \<lparr>range_min = 8000, range_max = 5644800\<rparr>"
    "software_latency_min d = 1 / 100" "software_latency_max d = 4"
proof -
  obtain q where q: "d\<lparr>ref_count := 1\<rparr> = out_dev be si q" using assms by (auto simp: is_dummy_out_def)
  define n where "n = ref_count d"
  have "d = (d\<lparr>ref_count := 1\<rparr>)\<lparr>ref_count := n\<rparr>" by (simp add: n_def)
  then have d: "d = (out_dev be si q)\<lparr>ref_count := n\<rparr>" by (simp only: q)
  show "aim d = SoundIoDeviceAimOutput" "probe_error d = SoundIoErrorNone" "dev_soundio d = Some si"
    "format_count d = 18" "format_cells d = all_formats be" "layout_count d = 26" "layout_cells d = builtin_channel_layouts"
    "sample_rate_count d = 1" "rate_cell d 0 = Some \<lparr>range_min = 8000, range_max = 5644800\<rparr>"
    "software_latency_min d = 1 / 100" "software_latency_max d = 4"
    by (simp_all add: d out_dev_def dummy_device_def device_zero_def format_cells_def layout_cells_def rate_cell_def arr_at_def
        SOUNDIO_MIN_SAMPLE_RATE_def SOUNDIO_MAX_SAMPLE_RATE_def)
qed

lemma dummy_supports_float: "is_dummy_out be si d \<Longrightarrow> soundio_device_supports_format d (SoundIoFormatFloat32NE be) = Some True"
  by (subst supports_format_iff) (auto simp: dummy_out_sel all_formats_def native_foreign_pairs_def SoundIoFormatFloat32NE_def)

lemma stereo_builtin: "soundio_channel_layout_get_builtin (SoundIoChannelLayoutId_val SoundIoChannelLayoutIdStereo) = Some (builtin_channel_layouts ! 1)"
  by (simp add: get_builtin_in_range)

lemma dummy_supports_stereo:
  assumes "is_dummy_out be si d"
  shows "soundio_device_supports_layout d (builtin_channel_layouts ! 1) = Some True"
proof -
  have "soundio_channel_layout_equal (builtin_channel_layouts ! i) (builtin_channel_layouts ! 1) =
      Some (layout_ids (builtin_channel_layouts ! i) = layout_ids (builtin_channel_layouts ! 1))" if "i < 26" for i
    using that by (intro layout_equal_spec builtin_wf) simp_all
  then have "soundio_device_supports_layout d (builtin_channel_layouts ! 1) =
      Some (\<exists>i \<in> set [0..<26]. layout_ids (builtin_channel_layouts ! i) = layout_ids (builtin_channel_layouts ! 1))"
    unfolding soundio_device_supports_layout_def dummy_out_sel [OF assms]
    by (subst any_r_total [where g = "\<lambda>i. layout_ids (builtin_channel_layouts ! i) = layout_ids (builtin_channel_layouts ! 1)"])
      (simp_all add: arr_at_in)
  then show ?thesis by (auto intro: bexI [of _ 1])
qed

lemma dummy_rate: "is_dummy_out be si d \<Longrightarrow> soundio_device_nearest_sample_rate d 48000 = Some 48000"
  by (simp add: soundio_device_nearest_sample_rate_def dummy_out_sel Let_def soundio_int_clamp_def)

text \<open>C19. A stream for the output device of the dummy backend can be opened with all its settings left to the library: when
  memory and descriptors suffice \<open>soundio_outstream_open\<close> succeeds, and whenever it
  succeeds the stream plays floating-point stereo at 48000 Hz, its sizes per sample and per
  frame are those of the format and the layout, and it is in the order from which the playback
  thread never aborts.
\<close>

theorem default_outstream_opens:
  assumes "sios s si = Some x" and "vtable x = dummy_vtable" and "devices s dv = Some dev" and "is_dummy_out (BIG_ENDIAN b) si dev"
    and "outstreams s p = Some (outstream_zero\<lparr>os_device := Some dv, os_error_callback_default := True\<rparr>)"
    and "ids_ok s" and "vm_ok s" and "page_size s = int page" and "0 < page" and "page \<le> 2 ^ 30"
  shows "(soundio_outstream_open b p s = Some (SoundIoErrorNone, t) \<longrightarrow> out_ok p t \<and> out_rate p t = 48000 \<and>
      (\<exists>os. outstreams t p = Some os \<and> os_format os = SoundIoFormatFloat32NE (BIG_ENDIAN b) \<and>
        os_layout os = builtin_channel_layouts ! 1 \<and> os_bytes_per_sample os = 4 \<and> os_bytes_per_frame os = 8)) \<and>
    (answers s = [] \<longrightarrow> (\<exists>t. soundio_outstream_open b p s = Some (SoundIoErrorNone, t)))"
proof -
  let ?os0 = "outstream_zero\<lparr>os_device := Some dv, os_error_callback_default := True\<rparr>"
  let ?f = "SoundIoFormatFloat32NE (BIG_ENDIAN b)" and ?l = "builtin_channel_layouts ! 1"
  let ?os = "?os0\<lparr>os_format := ?f, os_layout := ?l, os_sample_rate := 48000, os_bytes_per_frame := 8, os_bytes_per_sample := 4\<rparr>"
  let ?s = "s\<lparr>outstreams := (outstreams s)(p \<mapsto> ?os)\<rparr>"
  note dev = dummy_out_sel [OF assms(4)]
  have float: "\<not> ?f \<le> SoundIoFormatInvalid" "soundio_get_bytes_per_sample ?f = 4"
    by (simp_all add: SoundIoFormatFloat32NE_def ne_fmt_def)
  have count: "cl_channel_count ?l = 2" by (simp add: builtin_defs layout_init_def)
  have defaults: "outstream_default_format b dev = Some ?f" "outstream_default_layout dev = Some ?l"
      "soundio_device_nearest_sample_rate dev 48000 = Some 48000" "soundio_get_bytes_per_frame ?f 2 = Some 8"
    using dummy_supports_float [OF assms(4)] dummy_supports_stereo [OF assms(4)] dummy_rate [OF assms(4)] float(2)
    unfolding outstream_default_format_def outstream_default_layout_def stereo_builtin
    by (simp_all add: soundio_get_bytes_per_frame_def in_int_def int_min_def int_max_def)
  have api: "soundio_outstream_open b p s = outstream_open_dummy p ?s"
    using assms(1-3,5) dev float defaults count
    by (simp add: soundio_outstream_open_def upd_out_run outstream_zero_def layout_zero_def dispatch_def dummy_vtable_def)
  have latency: "open_latency 0 dev = 1" by (simp add: open_latency_def soundio_double_clamp_def dev(10,11))
  have "fresh_out ?os"
    using count by (simp add: fresh_out_def outstream_zero_def osd_zero_def ring_zero_def layout_fits_def SOUNDIO_MAX_CHANNELS_def)
  moreover have "buffer_fits page (os_bytes_per_frame ?os) (os_sample_rate ?os) (open_latency (os_software_latency ?os) dev)"
    using assms(10) latency by (simp add: buffer_fits_def outstream_zero_def int_max_def)
  moreover have "vm_ok ?s" "page_size ?s = int page" "ids_ok ?s"
    using assms(5-8) by (auto simp: vm_ok_def ids_ok_def)
  moreover have "outstreams ?s p = Some ?os" "os_device ?os = Some dv" "devices ?s dv = Some dev" using assms(3) by simp_all
  ultimately show ?thesis
    unfolding api using open_dummy_run [of ?s p ?os dv dev page t] assms(9) by fastforce
qed

text \<open>A library object connected to the dummy backend, with one output device and a new stream for it.\<close>

definition opening_lib :: "bool \<Rightarrow> unit jsio" where
  "opening_lib be = (lib_start [] ())\<lparr>next_id := 10, page_size := 4096, sios := [0 \<mapsto> sio_create\<lparr>vtable := dummy_vtable\<rparr>],
     devices := [1 \<mapsto> out_dev be 0 1],
     outstreams := [9 \<mapsto> outstream_zero\<lparr>os_device := Some 1, os_error_callback_default := True\<rparr>]\<rparr>"

theorem default_outstream_opens_witness:
  "\<forall>b :: (unit, unit) build. \<exists>t. soundio_outstream_open b 9 (opening_lib (BIG_ENDIAN b)) = Some (SoundIoErrorNone, t) \<and> out_ok 9 t"
proof
  fix b :: "(unit, unit) build"
  let ?s = "opening_lib (BIG_ENDIAN b)" and ?d = "out_dev (BIG_ENDIAN b) 0 1"
  have sio: "sios ?s 0 = Some (sio_create\<lparr>vtable := dummy_vtable\<rparr>)" "vtable (sio_create\<lparr>vtable := dummy_vtable\<rparr>) = dummy_vtable"
    and dev: "devices ?s 1 = Some ?d"
    and out: "outstreams ?s 9 = Some (outstream_zero\<lparr>os_device := Some 1, os_error_callback_default := True\<rparr>)"
    and ids: "ids_ok ?s" and vm: "vm_ok ?s" "page_size ?s = int 4096" "answers ?s = []"
    by (auto simp: opening_lib_def lib_start_def os_start_def os.defs ids_ok_def vm_ok_def)
  have "is_dummy_out (BIG_ENDIAN b) 0 ?d"
    unfolding is_dummy_out_def by (rule exI [of _ 1]) (simp add: out_dev_def dummy_device_def)
  note opens = default_outstream_opens [OF sio dev this out ids vm(1,2)]
  obtain t where t: "soundio_outstream_open b 9 ?s = Some (SoundIoErrorNone, t)" using opens vm(3) by auto
  with opens [of t] show "\<exists>t. soundio_outstream_open b 9 ?s = Some (SoundIoErrorNone, t) \<and> out_ok 9 t" by auto
qed

text \<open>An input stream cannot be opened with its format left to the library, although the code that picks a default format
  is there: \<open>soundio_instream_open\<close> rejects a stream that \<open>soundio_instream_create\<close> has just made
  with \<open>SoundIoErrorInvalid\<close> and changes nothing, whatever the device and the backend.
\<close>

theorem default_instream_rejected:
  assumes "soundio_instream_create (Some dv) s = Some (Some p, t)"
  shows "soundio_instream_open b p t = Some (SoundIoErrorInvalid, t)"
proof -
  obtain u where u: "alloc s = (Some p, u)" "soundio_device_ref (Some dv) (u\<lparr>instreams := (instreams u)(p \<mapsto>
      instream_zero\<lparr>is_device := Some dv, is_error_callback_default := True\<rparr>)\<rparr>) = Some t"
    using assms(1) by (auto simp: soundio_instream_create_def Option.bind_eq_Some_conv split: prod.splits option.splits if_splits)
  then obtain d where "devices t dv = Some d" "instreams t p = Some (instream_zero\<lparr>is_device := Some dv, is_error_callback_default := True\<rparr>)"
    by (auto simp: soundio_device_ref_def Option.bind_eq_Some_conv)
  then show ?thesis by (simp add: soundio_instream_open_def instream_zero_def)
qed

theorem default_instream_rejected_witness:
  "\<forall>b :: (unit, unit) build. \<exists>p t. soundio_instream_create (Some 1) (opening_lib (BIG_ENDIAN b)) = Some (Some p, t) \<and>
     soundio_instream_open b p t = Some (SoundIoErrorInvalid, t)"
proof
  fix b :: "(unit, unit) build"
  obtain t where t: "soundio_instream_create (Some 1) (opening_lib (BIG_ENDIAN b)) = Some (Some 10, t)"
    by (simp add: soundio_instream_create_def opening_lib_def lib_start_def os_start_def os.defs alloc_nil soundio_device_ref_def
        out_dev_def dummy_device_def in_int_def int_min_def int_max_def)
  from t default_instream_rejected [OF t]
  show "\<exists>p t. soundio_instream_create (Some 1) (opening_lib (BIG_ENDIAN b)) = Some (Some p, t) \<and>
     soundio_instream_open b p t = Some (SoundIoErrorInvalid, t)" by blast
qed

end
