(* ===== verification/JackScan.thy ===== *)
theory JackScan
  imports SoundIo
begin

section \<open>The device scan of the JACK backend groups the ports by client\<close>

text \<open>
  What the first loop of \<open>refresh_devices_bare\<close> computes. Its abstract counterpart is
  \<open>group_ports\<close>: the ports of the server in order, each added to the group of its client name,
  aim and physical flag. The loop over the growable array of clients refines it, never aborts,
  and its only other results are an interrupted scan and a lack of memory.
\<close>

subsection \<open>Splitting at the colon\<close>

lemma split_loop_takeWhile:
  "split_loop xs n c k =
     (if c \<in> set xs then Some (k + int (length (takeWhile (\<lambda>x. x \<noteq> c) xs)), tl (dropWhile (\<lambda>x. x \<noteq> c) xs),
        n - 1 - (k + int (length (takeWhile (\<lambda>x. x \<noteq> c) xs)))) else None)"
  by (induction xs arbitrary: k) (auto simp: algebra_simps)

lemma length_split: "c \<in> set xs \<Longrightarrow>
  length xs = Suc (length (takeWhile (\<lambda>x. x \<noteq> c) xs) + length (tl (dropWhile (\<lambda>x. x \<noteq> c) xs)))"
  by (induction xs) auto

lemma take_length_takeWhile: "take (length (takeWhile P xs)) xs = takeWhile P xs"
  by (metis takeWhile_eq_take)

lemma split_str_eq:
  "split_str str (int (length str)) c =
     (str, if c \<in> set str
        then Some (int (length (takeWhile (\<lambda>x. x \<noteq> c) str)), tl (dropWhile (\<lambda>x. x \<noteq> c) str),
                   int (length (tl (dropWhile (\<lambda>x. x \<noteq> c) str))))
        else None)"
  using length_split [of c str] by (simp add: split_str_def split_loop_takeWhile)

text \<open>Splitting a port name is splitting at the first colon: \<open>split_str\<close> computes the part before the
  first occurrence of the character, by its length, and the part after it with its exact
  length; without an occurrence it leaves the second part alone.\<close>

theorem split_str_first_occurrence:
  "split_str str (int (length str)) c =
     (str, if c \<in> set str
        then Some (int (length (takeWhile (\<lambda>x. x \<noteq> c) str)), tl (dropWhile (\<lambda>x. x \<noteq> c) str),
                   int (length (tl (dropWhile (\<lambda>x. x \<noteq> c) str))))
        else None)"
  by (rule split_str_eq)

subsection \<open>Groups of ports\<close>

type_synonym client_key = "string \<times> SoundIoDeviceAim \<times> bool"
type_synonym port_group = "client_key \<times> SoundIoJackPort list"

text \<open>A port joins the group of its client until the group is full.\<close>

fun add_to_group :: "client_key \<Rightarrow> SoundIoJackPort \<Rightarrow> port_group list \<Rightarrow> port_group list" where
  "add_to_group k p [] = [(k, [p])]"
| "add_to_group k p ((k', ps) # gs) =
     (if k' = k then (k', if length ps < SOUNDIO_MAX_CHANNELS then ps @ [p] else ps) # gs
      else (k', ps) # add_to_group k p gs)"

definition port_entry :: "'j jack_api \<Rightarrow> nat \<Rightarrow> string \<Rightarrow> 'j \<Rightarrow> (client_key \<times> SoundIoJackPort) option" where
  "port_entry api jport nm w =
     (if jack_port_type api jport w = JACK_DEFAULT_AUDIO_TYPE \<and> CHR '':'' \<in> set nm then
        let client = takeWhile (\<lambda>x. x \<noteq> CHR '':'') nm;
            port = tl (dropWhile (\<lambda>x. x \<noteq> CHR '':'') nm);
            flags = jack_port_flags api jport w;
            a = (if JackPortIsInput \<in> flags then SoundIoDeviceAimOutput else SoundIoDeviceAimInput);
            mode = (if JackPortIsInput \<in> flags then JackPlaybackLatency else JackCaptureLatency)
        in Some ((client, a, JackPortIsPhysical \<in> flags),
             \<lparr>jp_full_name = nm, jp_full_name_len = int (length nm), jp_name = port, jp_name_len = int (length port),
              jp_channel_id = the (soundio_parse_channel_id port (int (length port))),
              jp_latency_max = jack_port_latency_max api jport mode w\<rparr>)
      else None)"

text \<open>The groups of a list of ports; nothing when one of them has gone meanwhile.\<close>

fun group_ports ::
  "'j jack_api \<Rightarrow> nat \<Rightarrow> string list \<Rightarrow> port_group list \<Rightarrow> 'j \<Rightarrow> (port_group list \<times> 'j) option" where
  "group_ports api c [] gs w = Some (gs, w)"
| "group_ports api c (nm # nms) gs w =
     (let (jport, w) = jack_port_by_name api c nm w
      in case jport of None \<Rightarrow> None
      | Some jport \<Rightarrow> group_ports api c nms
          (case port_entry api jport nm w of None \<Rightarrow> gs | Some (k, p) \<Rightarrow> add_to_group k p gs) w)"

lemma add_to_group_old: "k \<in> fst ` set gs \<Longrightarrow> fst ` set (add_to_group k p gs) = fst ` set gs"
  by (induction gs rule: add_to_group.induct) auto

lemma add_to_group_keys:
  "map fst (add_to_group k p gs) = (if k \<in> fst ` set gs then map fst gs else map fst gs @ [k])"
  by (induction k p gs rule: add_to_group.induct) auto

lemma add_to_group_distinct: "distinct (map fst gs) \<Longrightarrow> distinct (map fst (add_to_group k p gs))"
  by (auto simp: add_to_group_keys)

lemma add_to_group_new: "k \<notin> fst ` set gs \<Longrightarrow> add_to_group k p gs = gs @ [(k, [p])]"
  by (induction k p gs rule: add_to_group.induct) auto

lemma add_to_group_at:
  "i < length gs \<Longrightarrow> fst (gs ! i) = k \<Longrightarrow> (\<forall>j < i. fst (gs ! j) \<noteq> k) \<Longrightarrow>
   add_to_group k p gs = gs[i := (k, if length (snd (gs ! i)) < SOUNDIO_MAX_CHANNELS then snd (gs ! i) @ [p] else snd (gs ! i))]"
proof (induction gs arbitrary: i)
  case (Cons g gs)
  obtain k' ps where g: "g = (k', ps)" by (cases g)
  show ?case
  proof (cases i)
    case 0
    with Cons.prems g show ?thesis by simp
  next
    case (Suc j)
    have "\<forall>l < j. fst (gs ! l) \<noteq> k" using Cons.prems(3) Suc by (metis Suc_less_eq nth_Cons_Suc)
    moreover have "k' \<noteq> k" using Cons.prems(3) Suc g by (metis fst_conv nth_Cons_0 zero_less_Suc)
    ultimately show ?thesis using Cons.IH [of j] Cons.prems(1,2) Suc g by simp
  qed
qed simp

lemma group_ports_distinct:
  "group_ports api c nms gs w = Some (gs', w') \<Longrightarrow> distinct (map fst gs) \<Longrightarrow> distinct (map fst gs')"
proof (induction api c nms gs w rule: group_ports.induct)
  case (2 api c nm nms gs w)
  then show ?case by (auto split: prod.splits option.splits simp: add_to_group_distinct)
qed simp

subsection \<open>The clients of the scan\<close>

definition client_ok :: "SoundIoJackClient \<Rightarrow> bool" where
  "client_ok cl \<longleftrightarrow> 0 \<le> jc_name_len cl \<and> jc_name_len cl \<le> int (length (jc_name cl)) \<and>
     0 \<le> jc_port_count cl \<and> jc_port_count cl \<le> int SOUNDIO_MAX_CHANNELS \<and>
     length (jc_ports cl) = SOUNDIO_MAX_CHANNELS \<and> (\<forall>i < nat (jc_port_count cl). jc_ports cl ! i \<noteq> None)"

definition client_key :: "SoundIoJackClient \<Rightarrow> client_key" where
  "client_key cl = (take (nat (jc_name_len cl)) (jc_name cl), jc_aim cl, jc_is_physical cl)"

definition client_abs :: "SoundIoJackClient \<Rightarrow> port_group" where
  "client_abs cl = (client_key cl, map the (take (nat (jc_port_count cl)) (jc_ports cl)))"

definition groups_of :: "SoundIoJackClient clist \<Rightarrow> port_group list" where
  "groups_of l = map client_abs (list_abs l)"

definition clients_ok :: "SoundIoJackClient clist \<Rightarrow> 'z mem_scheme \<Rightarrow> bool" where
  "clients_ok l s \<longleftrightarrow> list_ok l s \<and> mem_ok s \<and> (\<forall>cl \<in> set (list_abs l). client_ok cl)"

lemma fst_client_abs [simp]: "fst (client_abs cl) = client_key cl"
  by (simp add: client_abs_def)

lemma streql_take:
  assumes "0 \<le> m" "m \<le> int (length a)" "0 \<le> n" "n \<le> int (length b)"
  shows "soundio_streql a m b n = Some (take (nat m) a = take (nat n) b)"
proof (cases "m = n")
  case True
  with assms show ?thesis by (simp add: soundio_streql_def mem_read_def)
next
  case False
  with assms have "length (take (nat m) a) \<noteq> length (take (nat n) b)" by simp
  then have "take (nat m) a \<noteq> take (nat n) b" by metis
  with False show ?thesis by (simp add: soundio_streql_def)
qed

lemma list_store_spec:
  assumes "list_ok l s" and "p < length (list_abs l)"
  obtains l' where "list_store l p x = Some l'" "list_ok l' s" "list_abs l' = (list_abs l)[p := x]" "l_length l' = l_length l"
proof -
  have p: "p < length (l_items l)" "nat (l_length l) \<le> length (l_items l)"
    using assms by (auto simp: list_ok_def list_wf_def list_abs_def)
  let ?l = "l\<lparr>l_items := (l_items l)[p := Some x]\<rparr>"
  have "list_ok ?l s" using assms(1) p by (auto simp: list_ok_def list_wf_def nth_list_update)
  moreover have "list_abs ?l = (list_abs l)[p := x]" by (simp add: list_abs_def take_update_swap map_update)
  ultimately show thesis using p(1) by (intro that [of ?l]) (simp_all add: list_store_def arr_set_def)
qed

lemma list_store_length: "list_store l p x = Some l' \<Longrightarrow> l_length l' = l_length l"
  by (auto simp: list_store_def Option.bind_eq_Some_conv)

lemma clients_ok_store:
  assumes "clients_ok l s" and "p < length (list_abs l)" and "client_ok x"
  obtains l' where "list_store l p x = Some l'" "clients_ok l' s" "list_abs l' = (list_abs l)[p := x]"
proof -
  obtain l' where "list_store l p x = Some l'" "list_ok l' s" "list_abs l' = (list_abs l)[p := x]"
    using assms(1,2) by (auto simp: clients_ok_def elim: list_store_spec)
  with assms show thesis
    by (intro that [of l']) (auto simp: clients_ok_def dest: subsetD [OF set_update_subset_insert])
qed

lemma find_client:
  assumes "clients_ok l s" and "0 \<le> n" and "n \<le> int (length nm)"
  shows "\<exists>r. find_r (\<lambda>i. do {
         client \<leftarrow> list_val_at l (int i);
         if jc_is_physical client = phys \<and> jc_aim client = a
         then soundio_streql (jc_name client) (jc_name_len client) nm n
         else Some False
       }) [0..<nat (l_length l)] = Some r \<and>
     first_index (\<lambda>i. client_key (list_abs l ! i) = (take (nat n) nm, a, phys)) [0..<nat (l_length l)] r"
proof (rule find_r_first)
  fix i assume "i \<in> set [0..<nat (l_length l)]"
  then have i: "int i < l_length l" by simp
  have l: "list_wf l" "list_ok l s" using assms(1) by (simp_all add: clients_ok_def list_ok_def)
  have "i < length (list_abs l)" using length_list_abs [OF l(1)] i by linarith
  then have "client_ok (list_abs l ! i)" using assms(1) by (simp add: clients_ok_def)
  then have "soundio_streql (jc_name (list_abs l ! i)) (jc_name_len (list_abs l ! i)) nm n =
      Some (take (nat (jc_name_len (list_abs l ! i))) (jc_name (list_abs l ! i)) = take (nat n) nm)"
    using assms(2,3) by (intro streql_take) (simp_all add: client_ok_def)
  moreover have "list_val_at l (int i) = Some (list_abs l ! i)" using list_val_at_spec [OF l(1) _ i] by simp
  ultimately show "(do {
         client \<leftarrow> list_val_at l (int i);
         if jc_is_physical client = phys \<and> jc_aim client = a
         then soundio_streql (jc_name client) (jc_name_len client) nm n
         else Some False
       }) = Some (client_key (list_abs l ! i) = (take (nat n) nm, a, phys))"
    by (auto simp: client_key_def)
qed

lemma fresh_client_ok:
  "0 \<le> n \<Longrightarrow> n \<le> int (length nm) \<Longrightarrow> client_ok \<lparr>jc_name = nm, jc_name_len = n, jc_is_physical = phys, jc_aim = a,
     jc_port_count = 0, jc_ports = replicate SOUNDIO_MAX_CHANNELS None\<rparr>"
  by (simp add: client_ok_def)

lemma first_index_upt: "first_index g [0..<n] (Some i) \<longleftrightarrow> i < n \<and> g i \<and> (\<forall>j < i. \<not> g j)"
  by (auto simp: first_index_def)

text \<open>The client is found, or a new one without ports is added, or there is no memory.\<close>

lemma find_or_create_client_spec:
  assumes ok: "clients_ok l s" and n: "0 \<le> n" "n \<le> int (length nm)" and small: "l_length l < list_limit"
    and k: "k = (take (nat n) nm, a, phys)"
  shows "\<exists>p l' s'. find_or_create_client l a phys nm n s = Some (p, l', s') \<and> clients_ok l' s' \<and> mem.more s' = mem.more s \<and>
    l_length l' \<le> l_length l + 1 \<and>
    (case p of None \<Rightarrow> True
     | Some i \<Rightarrow> i < length (list_abs l') \<and> client_key (list_abs l' ! i) = k \<and> (\<forall>j < i. client_key (list_abs l' ! j) \<noteq> k) \<and>
         (groups_of l' = groups_of l \<or> k \<notin> fst ` set (groups_of l) \<and> groups_of l' = groups_of l @ [(k, [])]))"
proof -
  obtain r where r: "find_r (\<lambda>i. do {
         client \<leftarrow> list_val_at l (int i);
         if jc_is_physical client = phys \<and> jc_aim client = a
         then soundio_streql (jc_name client) (jc_name_len client) nm n
         else Some False
       }) [0..<nat (l_length l)] = Some r"
     "first_index (\<lambda>i. client_key (list_abs l ! i) = k) [0..<nat (l_length l)] r"
    using find_client [OF ok n] k by blast
  have l: "list_ok l s" "mem_ok s" "list_wf l" using ok by (simp_all add: clients_ok_def list_ok_def)
  have len: "nat (l_length l) = length (list_abs l)" using length_list_abs [OF l(3)] by simp
  show ?thesis
  proof (cases r)
    case (Some i)
    then have "find_or_create_client l a phys nm n s = Some (Some i, l, s)"
      using r(1) by (simp add: find_or_create_client_def)
    then show ?thesis using r(2) Some ok len
      by (intro exI [of _ "Some i"] exI [of _ l] exI [of _ s]) (simp add: first_index_upt)
  next
    case None
    let ?new = "\<lparr>jc_name = nm, jc_name_len = n, jc_is_physical = phys, jc_aim = a, jc_port_count = 0,
        jc_ports = replicate SOUNDIO_MAX_CHANNELS None\<rparr>"
    have absent: "k \<notin> fst ` set (groups_of l)"
    proof
      assume "k \<in> fst ` set (groups_of l)"
      then obtain cl where "cl \<in> set (list_abs l)" "client_key cl = k" by (auto simp: groups_of_def)
      then obtain i where "i < length (list_abs l)" "client_key (list_abs l ! i) = k" by (auto simp: in_set_conv_nth)
      with r(2) None len show False by (simp add: first_index_def)
    qed
    obtain e l1 s1 where e: "list_add_one l s = Some (e, l1, s1)" "mem_ok s1" "list_frame l s l1 s1"
        "e = SoundIoErrorNone \<and>
              (\<exists>p l''. list_last_ptr l1 = Some p \<and> list_store l1 p ?new = Some l'' \<and> list_ok l'' s1 \<and>
                list_abs l'' = list_abs l @ [?new] \<and> l_blk l'' = l_blk l1) \<or>
            e = SoundIoErrorNoMem \<and> list_ok l1 s1 \<and> list_abs l1 = list_abs l"
      using list_add_one_store [OF l(1,2) small, of ?new] by blast
    from e(4) show ?thesis
    proof
      assume nomem: "e = SoundIoErrorNoMem \<and> list_ok l1 s1 \<and> list_abs l1 = list_abs l"
      then have "find_or_create_client l a phys nm n s = Some (None, l1, s1)"
        using r(1) None e(1) by (simp add: find_or_create_client_def)
      moreover have "l_length l1 = l_length l"
        using nomem length_list_abs [of l1] length_list_abs [OF l(3)] by (simp add: list_ok_def)
      ultimately show ?thesis using nomem e ok by (simp add: clients_ok_def list_frame_def)
    next
      assume "e = SoundIoErrorNone \<and>
              (\<exists>p l''. list_last_ptr l1 = Some p \<and> list_store l1 p ?new = Some l'' \<and> list_ok l'' s1 \<and>
                list_abs l'' = list_abs l @ [?new] \<and> l_blk l'' = l_blk l1)"
      then obtain p l2 where new: "e = SoundIoErrorNone" "list_last_ptr l1 = Some p" "list_store l1 p ?new = Some l2"
          "list_ok l2 s1" "list_abs l2 = list_abs l @ [?new]" by blast
      have run: "find_or_create_client l a phys nm n s = Some (Some p, l2, s1)"
        using r(1) None e(1) new by (simp add: find_or_create_client_def)
      have "l_length l2 = l_length l1" using new(3) by (rule list_store_length)
      moreover have len2: "l_length l2 = l_length l + 1"
        using length_list_abs [of l2] length_list_abs [OF l(3)] new(4,5) by (simp add: list_ok_def)
      ultimately have p: "p = length (list_abs l)"
        using new(2) length_list_abs [OF l(3)] by (auto simp: list_last_ptr_def)
      have "clients_ok l2 s1" using ok new(4,5) e(2) fresh_client_ok [OF n] by (simp add: clients_ok_def)
      moreover have "\<forall>j < p. client_key (list_abs l ! j) \<noteq> k"
        using r(2) None len p by (auto simp: first_index_def)
      ultimately show ?thesis
        using run p len2 new(5) absent e(3) k
        by (intro exI [of _ "Some p"] exI [of _ l2] exI [of _ s1])
          (simp add: list_frame_def groups_of_def client_abs_def client_key_def nth_append)
    qed
  qed
qed

lemma add_to_group_empty: "k \<notin> fst ` set gs \<Longrightarrow> add_to_group k p (gs @ [(k, [])]) = add_to_group k p gs"
  by (induction k p gs rule: add_to_group.induct) (auto simp: SOUNDIO_MAX_CHANNELS_def)

text \<open>Putting a port into the next cell of a client with room.\<close>

lemma client_add_port:
  assumes "client_ok cl" and "jc_port_count cl < int SOUNDIO_MAX_CHANNELS"
  obtains ports where "arr_set (jc_ports cl) (jc_port_count cl) (Some port) = Some ports"
    "client_ok (cl\<lparr>jc_ports := ports, jc_port_count := jc_port_count cl + 1\<rparr>)"
    "client_abs (cl\<lparr>jc_ports := ports, jc_port_count := jc_port_count cl + 1\<rparr>) = (client_key cl, snd (client_abs cl) @ [port])"
proof -
  let ?n = "nat (jc_port_count cl)"
  let ?ports = "(jc_ports cl)[?n := Some port]"
  have n: "?n < length (jc_ports cl)" "0 \<le> jc_port_count cl" using assms by (auto simp: client_ok_def)
  have Suc: "nat (jc_port_count cl + 1) = Suc ?n" using n(2) by simp
  have "take (Suc ?n) ?ports = take ?n (jc_ports cl) @ [Some port]" using n(1) by (simp add: take_Suc_conv_app_nth)
  then have "client_abs (cl\<lparr>jc_ports := ?ports, jc_port_count := jc_port_count cl + 1\<rparr>) = (client_key cl, snd (client_abs cl) @ [port])"
    by (simp add: client_abs_def client_key_def Suc)
  moreover have "client_ok (cl\<lparr>jc_ports := ?ports, jc_port_count := jc_port_count cl + 1\<rparr>)"
    using assms n by (auto simp: client_ok_def Suc nth_list_update less_Suc_eq)
  ultimately show thesis using n by (intro that [of ?ports]) (simp_all add: arr_set_def)
qed

lemma length_client_ports: "client_ok cl \<Longrightarrow> int (length (snd (client_abs cl))) = jc_port_count cl"
  by (auto simp: client_abs_def client_ok_def)

lemma more_world: "mem.more s = mem.more t \<Longrightarrow> world s = world t"
  by (cases s, cases t) simp

lemma parse_channel_defined: "\<exists>c. soundio_parse_channel_id str (int (length str)) = Some c"
  by (simp add: parse_channel_id_lookup)

text \<open>One port, against its abstract entry.\<close>

lemma add_port_spec:
  assumes ok: "clients_ok l s" and len: "int (length nm) \<le> int_max" and small: "l_length l < list_limit"
  shows "\<exists>err l' s'. add_port api jport nm l s = Some (err, l', s') \<and> clients_ok l' s' \<and> mem.more s' = mem.more s \<and>
    l_length l' \<le> l_length l + 1 \<and>
    (err = SoundIoErrorNoMem \<or> err = SoundIoErrorNone \<and>
      groups_of l' = (case port_entry api jport nm (world s) of None \<Rightarrow> groups_of l | Some (k, p) \<Rightarrow> add_to_group k p (groups_of l)))"
proof -
  let ?w = "world s"
  have i32: "to_int32 (int (length nm)) = int (length nm)"
    using len by (intro to_int32_in_range) (simp add: in_int_def int_min_def)
  show ?thesis
  proof (cases "jack_port_type api jport ?w = JACK_DEFAULT_AUDIO_TYPE \<and> CHR '':'' \<in> set nm")
    case False
    then have "add_port api jport nm l s = Some (SoundIoErrorNone, l, s)" "port_entry api jport nm ?w = None"
      by (auto simp: add_port_def port_entry_def i32 split_str_eq Let_def)
    then show ?thesis using ok by simp
  next
    case True
    let ?client = "takeWhile (\<lambda>x. x \<noteq> CHR '':'') nm" and ?port = "tl (dropWhile (\<lambda>x. x \<noteq> CHR '':'') nm)"
    let ?phys = "JackPortIsPhysical \<in> jack_port_flags api jport ?w"
    let ?in = "JackPortIsInput \<in> jack_port_flags api jport ?w"
    let ?a = "if ?in then SoundIoDeviceAimOutput else SoundIoDeviceAimInput"
    let ?k = "(?client, ?a, ?phys)"
    obtain p where p: "port_entry api jport nm ?w = Some (?k, p)"
        "p = \<lparr>jp_full_name = nm, jp_full_name_len = int (length nm), jp_name = ?port, jp_name_len = int (length ?port),
              jp_channel_id = the (soundio_parse_channel_id ?port (int (length ?port))),
              jp_latency_max = jack_port_latency_max api jport (if ?in then JackPlaybackLatency else JackCaptureLatency) ?w\<rparr>"
      using True by (simp add: port_entry_def Let_def)
    obtain c where c: "soundio_parse_channel_id ?port (int (length ?port)) = Some c" using parse_channel_defined by blast
    have client: "take (length ?client) nm = ?client" by (rule take_length_takeWhile)
    have bound: "0 \<le> int (length ?client)" "int (length ?client) \<le> int (length nm)" by (simp_all add: length_takeWhile_le)
    have key: "?k = (take (nat (int (length ?client))) nm, ?a, ?phys)" by (simp add: client)
    obtain q l1 s1 where q: "find_or_create_client l ?a ?phys nm (int (length ?client)) s = Some (q, l1, s1)"
        "clients_ok l1 s1" "mem.more s1 = mem.more s" "l_length l1 \<le> l_length l + 1"
        "case q of None \<Rightarrow> True
         | Some i \<Rightarrow> i < length (list_abs l1) \<and> client_key (list_abs l1 ! i) = ?k \<and> (\<forall>j < i. client_key (list_abs l1 ! j) \<noteq> ?k) \<and>
           (groups_of l1 = groups_of l \<or> ?k \<notin> fst ` set (groups_of l) \<and> groups_of l1 = groups_of l @ [(?k, [])])"
      using find_or_create_client_spec [OF ok bound small key] by blast
    have w: "world s1 = ?w" using more_world [OF q(3)] .
    show ?thesis
    proof (cases q)
      case None
      then have "add_port api jport nm l s = Some (SoundIoErrorNoMem, l1, s1)"
        using True q(1) by (simp add: add_port_def i32 split_str_eq Let_def)
      then show ?thesis using q by simp
    next
      case (Some i)
      let ?cl = "list_abs l1 ! i"
      have i: "i < length (list_abs l1)" "client_key ?cl = ?k" "\<forall>j < i. client_key (list_abs l1 ! j) \<noteq> ?k"
        and gs: "groups_of l1 = groups_of l \<or> ?k \<notin> fst ` set (groups_of l) \<and> groups_of l1 = groups_of l @ [(?k, [])]"
        using q(5) Some by simp_all
      have cl: "client_ok ?cl" using q(2) i(1) by (simp add: clients_ok_def)
      have wf: "list_wf l1" "list_ok l1 s1" using q(2) by (simp_all add: clients_ok_def list_ok_def)
      have at: "list_val_at l1 (int i) = Some ?cl"
        using list_val_at_spec [OF wf(1), of "int i"] i(1) length_list_abs [OF wf(1)] by simp
      have same: "add_to_group ?k p (groups_of l1) = add_to_group ?k p (groups_of l)"
        using gs add_to_group_empty by metis
      have add: "add_to_group ?k p (groups_of l1) =
          (groups_of l1)[i := (?k, if jc_port_count ?cl < int SOUNDIO_MAX_CHANNELS then snd (client_abs ?cl) @ [p] else snd (client_abs ?cl))]"
        using i length_client_ports [OF cl] by (subst add_to_group_at [of i]) (auto simp: groups_of_def)
      show ?thesis
      proof (cases "jc_port_count ?cl \<ge> int SOUNDIO_MAX_CHANNELS")
        case full: True
        then have run: "add_port api jport nm l s = Some (SoundIoErrorNone, l1, s1)"
          using True q(1) Some at by (simp add: add_port_def i32 split_str_eq Let_def)
        have "(groups_of l1)[i := (?k, snd (client_abs ?cl))] = groups_of l1"
          using i by (intro list_update_same_conv [THEN iffD2]) (auto simp: groups_of_def prod_eq_iff)
        then show ?thesis using run q(2-4) p(1) add same full by simp
      next
        case room: False
        let ?cl' = "\<lambda>ports. ?cl\<lparr>jc_ports := ports, jc_port_count := jc_port_count ?cl + 1\<rparr>"
        obtain ports where ports: "arr_set (jc_ports ?cl) (jc_port_count ?cl) (Some p) = Some ports"
            "client_ok (?cl' ports)" "client_abs (?cl' ports) = (?k, snd (client_abs ?cl) @ [p])"
          using client_add_port [OF cl, of p] room i(2) by auto
        obtain l2 where l2: "list_store l1 i (?cl' ports) = Some l2" "clients_ok l2 s1" "list_abs l2 = (list_abs l1)[i := ?cl' ports]"
          by (rule clients_ok_store [OF q(2) i(1) ports(2)])
        have run: "add_port api jport nm l s = Some (SoundIoErrorNone, l2, s1)"
          using True q(1) Some at room ports(1) l2(1) c w p(2) by (cases ?in) (simp_all add: add_port_def i32 split_str_eq Let_def)
        have "groups_of l2 = add_to_group ?k p (groups_of l1)"
          using add room ports(3) by (simp add: groups_of_def l2(3) map_update)
        moreover have "l_length l2 = l_length l1" using l2(1) by (rule list_store_length)
        ultimately show ?thesis using run l2(2) q(3,4) p(1) same by simp
      qed
    qed
  qed
qed

subsection \<open>The loop over the ports\<close>

lemma clients_ok_world: "clients_ok l s \<Longrightarrow> clients_ok l (s\<lparr>world := w\<rparr>)"
  by (cases "l_blk l") (simp_all add: clients_ok_def list_ok_def mem_ok_def ptr_ok_def)

lemma scan_ports_spec:
  assumes "clients_ok l s" and "\<forall>nm \<in> set nms. int (length nm) \<le> int_max"
    and "l_length l + int (length nms) \<le> list_limit"
  shows "\<exists>err l' s'. scan_ports api c nms l s = Some (err, l', s') \<and> clients_ok l' s' \<and>
    (err = SoundIoErrorNoMem \<or>
     err = SoundIoErrorInterrupted \<and> group_ports api c nms (groups_of l) (world s) = None \<or>
     err = SoundIoErrorNone \<and> group_ports api c nms (groups_of l) (world s) = Some (groups_of l', world s'))"
  using assms
proof (induction nms arbitrary: l s)
  case Nil
  then show ?case by simp
next
  case (Cons nm nms)
  obtain jport w where by_name: "jack_port_by_name api c nm (world s) = (jport, w)" by fastforce
  let ?s = "s\<lparr>world := w\<rparr>"
  show ?case
  proof (cases jport)
    case None
    then show ?thesis using by_name clients_ok_world [OF Cons.prems(1)] by (simp add: in_world_def)
  next
    case (Some j)
    have "clients_ok l ?s" by (rule clients_ok_world [OF Cons.prems(1)])
    moreover have "int (length nm) \<le> int_max" "l_length l < list_limit" using Cons.prems(2,3) by simp_all
    ultimately obtain err l1 s1 where one: "add_port api j nm l ?s = Some (err, l1, s1)" "clients_ok l1 s1"
        "mem.more s1 = mem.more ?s" "l_length l1 \<le> l_length l + 1"
        "err = SoundIoErrorNoMem \<or> err = SoundIoErrorNone \<and>
          groups_of l1 = (case port_entry api j nm (world ?s) of None \<Rightarrow> groups_of l | Some (k, p) \<Rightarrow> add_to_group k p (groups_of l))"
      using add_port_spec [of l ?s nm api j] by blast
    have w: "world s1 = w" using more_world [OF one(3)] by simp
    from one(5) show ?thesis
    proof
      assume "err = SoundIoErrorNoMem"
      then show ?thesis using by_name Some one(1,2) by (simp add: in_world_def)
    next
      assume none: "err = SoundIoErrorNone \<and>
          groups_of l1 = (case port_entry api j nm (world ?s) of None \<Rightarrow> groups_of l | Some (k, p) \<Rightarrow> add_to_group k p (groups_of l))"
      have step: "group_ports api c (nm # nms) (groups_of l) (world s) = group_ports api c nms (groups_of l1) (world s1)"
        using by_name Some none w by simp
      have "scan_ports api c (nm # nms) l s = scan_ports api c nms l1 s1"
        using by_name Some none one(1) by (simp add: in_world_def)
      moreover have "\<forall>nm \<in> set nms. int (length nm) \<le> int_max" "l_length l1 + int (length nms) \<le> list_limit"
        using Cons.prems(2,3) one(4) by simp_all
      ultimately show ?thesis using Cons.IH [OF one(2)] step by metis
    qed
  qed
qed

text \<open>C4. The scan of the ports refines the abstract grouping: it never aborts; when it succeeds, the clients it
  collected are exactly the groups of the ports by client name, aim and physical flag, in the
  order in which they first appear and with at most 24 ports each, no two for the same key; it
  is interrupted only when a port has gone, and fails otherwise only for lack of memory.\<close>

theorem scan_ports_groups_by_client:
  assumes "mem_ok s" and "\<forall>nm \<in> set nms. int (length nm) \<le> int_max" and "int (length nms) \<le> list_limit"
  shows "\<exists>err l' s'. scan_ports api c nms clist_zero s = Some (err, l', s') \<and>
    (err = SoundIoErrorNoMem \<or>
     err = SoundIoErrorInterrupted \<and> group_ports api c nms [] (world s) = None \<or>
     err = SoundIoErrorNone \<and> group_ports api c nms [] (world s) = Some (groups_of l', world s') \<and>
       distinct (map fst (groups_of l')) \<and> (\<forall>g \<in> set (groups_of l'). length (snd g) \<le> SOUNDIO_MAX_CHANNELS))"
proof -
  have empty: "groups_of clist_zero = []" by (simp add: groups_of_def)
  have ok: "clients_ok clist_zero s" using assms(1) by (simp add: clients_ok_def)
  have len: "l_length (clist_zero :: SoundIoJackClient clist) + int (length nms) \<le> list_limit"
    using assms(3) by (simp add: clist_zero_def)
  obtain err l' s' where run: "scan_ports api c nms clist_zero s = Some (err, l', s')" "clients_ok l' s'"
    "err = SoundIoErrorNoMem \<or>
     err = SoundIoErrorInterrupted \<and> group_ports api c nms [] (world s) = None \<or>
     err = SoundIoErrorNone \<and> group_ports api c nms [] (world s) = Some (groups_of l', world s')"
    using scan_ports_spec [OF ok assms(2) len, of api c] empty by auto
  have "length (snd (client_abs cl)) \<le> SOUNDIO_MAX_CHANNELS" if "client_ok cl" for cl
    using length_client_ports [OF that] that by (simp add: client_ok_def)
  then have "\<forall>g \<in> set (groups_of l'). length (snd g) \<le> SOUNDIO_MAX_CHANNELS"
    using run(2) by (auto simp: groups_of_def clients_ok_def)
  moreover have "distinct (map fst (groups_of l'))" if "group_ports api c nms [] (world s) = Some (groups_of l', world s')"
    using group_ports_distinct [OF that] by simp
  ultimately show ?thesis using run by blast
qed

text \<open>A JACK server with a fixed set of ports, for the witnesses; its state is not used.\<close>

definition steady_jack :: "string list \<Rightarrow> unit jack_api" where
  "steady_jack nms = \<lparr>jack_set_error_function = id, jack_set_info_function = id,
     jack_client_open = (\<lambda>nm w. ((Some 1, {}), w)), jack_client_close = (\<lambda>c w. Some w), jack_activate = (\<lambda>c w. (0, w)),
     jack_set_callback = (\<lambda>cb c arg w. (0, w)), jack_on_shutdown = (\<lambda>c arg w. w), jack_get_buffer_size = (\<lambda>c w. 256),
     jack_get_sample_rate = (\<lambda>c w. 48000), jack_get_ports = (\<lambda>c w. (Some (2, nms), w)), jack_free = (\<lambda>n w. Some w),
     jack_port_by_name = (\<lambda>c nm w. (if nm \<in> set nms then Some 3 else None, w)), jack_port_flags = (\<lambda>p w. {JackPortIsInput, JackPortIsPhysical}),
     jack_port_type = (\<lambda>p w. JACK_DEFAULT_AUDIO_TYPE), jack_port_latency_max = (\<lambda>p m w. 512),
     jack_port_register = (\<lambda>c nm f w. (Some 4, w)), jack_port_name = (\<lambda>p w. ''own''), jack_port_get_buffer = (\<lambda>p n w. 4096),
     jack_connect = (\<lambda>c a b w. (0, w))\<rparr>"

theorem scan_ports_groups_by_client_witness:
  "\<exists>err l' s'. scan_ports (steady_jack [''a:left'', ''a:right'', ''b:left'']) 1 [''a:left'', ''a:right'', ''b:left''] clist_zero (lib_start [] ())
      = Some (err, l', s') \<and>
    map fst (fst (the (group_ports (steady_jack [''a:left'', ''a:right'', ''b:left'']) 1 [''a:left'', ''a:right'', ''b:left''] [] ()))) =
      [(''a'', SoundIoDeviceAimOutput, True), (''b'', SoundIoDeviceAimOutput, True)]"
proof -
  have "mem_ok (lib_start [] ())" by (simp add: lib_start_def os_start_def mem_ok_def os.defs)
  moreover have "\<forall>nm \<in> set [''a:left'', ''a:right'', ''b:left'']. int (length nm) \<le> int_max" by (simp add: int_max_def)
  moreover have "int (length [''a:left'', ''a:right'', ''b:left'']) \<le> list_limit" by (simp add: list_limit_def)
  ultimately have "\<exists>err l' s'. scan_ports (steady_jack [''a:left'', ''a:right'', ''b:left'']) 1 [''a:left'', ''a:right'', ''b:left'']
      clist_zero (lib_start [] ()) = Some (err, l', s')"
    using scan_ports_groups_by_client [of "lib_start [] ()"] by blast
  moreover have "map fst (fst (the (group_ports (steady_jack [''a:left'', ''a:right'', ''b:left'']) 1
      [''a:left'', ''a:right'', ''b:left''] [] ()))) = [(''a'', SoundIoDeviceAimOutput, True), (''b'', SoundIoDeviceAimOutput, True)]"
    by (simp add: steady_jack_def port_entry_def Let_def)
  ultimately show ?thesis by (elim exE) (intro exI conjI)
qed

end
