(* ===== verification/JackDevice.thy ===== *)
theory JackDevice
  imports JackScan
begin

section \<open>The devices of the JACK backend\<close>

text \<open>
  The name and the layout that \<open>refresh_devices_bare\<close> gives the device of a client, and what happens
  when there is no memory for its ports.
\<close>

subsection \<open>The description\<close>

fun join_names :: "string list \<Rightarrow> string" where
  "join_names [] = []"
| "join_names [x] = x"
| "join_names (x # xs) = x @ '', '' @ join_names xs"

text \<open>The ports of a client, with names that are C strings of the recorded length.\<close>

definition named_port :: "SoundIoJackPort \<Rightarrow> bool" where
  "named_port p \<longleftrightarrow> jp_name_len p = int (length (jp_name p)) \<and> CHR 0x00 \<notin> set (jp_name p)"

abbreviation ports_of :: "SoundIoJackClient \<Rightarrow> SoundIoJackPort list" where
  "ports_of cl \<equiv> snd (client_abs cl)"

definition named_client :: "SoundIoJackClient \<Rightarrow> bool" where
  "named_client cl \<longleftrightarrow> client_ok cl \<and> (\<forall>p \<in> set (ports_of cl). named_port p) \<and>
     CHR 0x00 \<notin> set (fst (client_key cl))"

definition description_size :: "SoundIoJackClient \<Rightarrow> int" where
  "description_size cl = jc_name_len cl + 3 + 2 * jc_port_count cl + sum_list (map jp_name_len (ports_of cl))"

lemma client_port_nth:
  assumes "client_ok cl" and "i < nat (jc_port_count cl)"
  shows "client_port cl i = Some (ports_of cl ! i)"
proof -
  have "i < length (jc_ports cl)" "jc_ports cl ! i \<noteq> None" using assms by (auto simp: client_ok_def)
  with assms(2) show ?thesis by (auto simp: client_port_def client_abs_def arr_at_def)
qed

lemma length_ports_of: "client_ok cl \<Longrightarrow> length (ports_of cl) = nat (jc_port_count cl)"
  using length_client_ports [of cl] by linarith

lemma add_name_lens_sum:
  assumes "client_ok cl" and "\<forall>p \<in> set (ports_of cl). 0 \<le> jp_name_len p"
    and "i \<le> nat (jc_port_count cl)" and "0 \<le> n" and "n + sum_list (map jp_name_len (drop i (ports_of cl))) \<le> int_max"
  shows "add_name_lens cl [i..<nat (jc_port_count cl)] n = Some (n + sum_list (map jp_name_len (drop i (ports_of cl))))"
  using assms(3-5)
proof (induction "nat (jc_port_count cl) - i" arbitrary: i n)
  case 0
  then show ?case using length_ports_of [OF assms(1)] by simp
next
  case (Suc k)
  then have i: "i < nat (jc_port_count cl)" by simp
  then have i': "i < length (ports_of cl)" using length_ports_of [OF assms(1)] by simp
  let ?p = "ports_of cl ! i" and ?rest = "drop (Suc i) (ports_of cl)"
  have drop: "drop i (ports_of cl) = ?p # ?rest" using i' by (simp add: Cons_nth_drop_Suc)
  have pos: "0 \<le> jp_name_len ?p" using assms(2) i' by simp
  have "0 \<le> sum_list (map jp_name_len ?rest)"
    using assms(2) by (intro sum_list_nonneg) (auto dest: in_set_dropD)
  then have "in_int (n + jp_name_len ?p)" using Suc.prems pos drop by (simp add: in_int_def int_min_def)
  moreover have "add_name_lens cl [Suc i..<nat (jc_port_count cl)] (n + jp_name_len ?p) =
      Some (n + jp_name_len ?p + sum_list (map jp_name_len ?rest))"
    using Suc.hyps(2) Suc.prems pos drop i by (intro Suc.hyps(1)) simp_all
  ultimately show ?case using i client_port_nth [OF assms(1) i] drop by (simp add: upt_conv_Cons)
qed

lemma description_len_spec:
  assumes "named_client cl" and "description_size cl \<le> int_max"
  shows "description_len cl = Some (description_size cl)"
proof -
  have ok: "client_ok cl" and pos: "\<forall>p \<in> set (ports_of cl). 0 \<le> jp_name_len p"
    using assms(1) by (auto simp: named_client_def named_port_def)
  have "0 \<le> sum_list (map jp_name_len (ports_of cl))" using pos by (intro sum_list_nonneg) auto
  then have "in_int (jc_name_len cl + 3 + 2 * jc_port_count cl)" "0 \<le> jc_name_len cl + 3 + 2 * jc_port_count cl"
    using assms(2) ok by (simp_all add: in_int_def int_min_def description_size_def client_ok_def)
  with add_name_lens_sum [OF ok pos, of 0] assms(2) show ?thesis
    by (simp add: description_len_def description_size_def)
qed

lemma mem_write_next:
  "length src \<le> m \<Longrightarrow> mem_write (pre @ replicate m z) (int (length pre)) src = Some (pre @ src @ replicate (m - length src) z)"
  by (simp add: mem_write_def)

lemma join_names_length: "length (join_names xs) \<le> sum_list (map length xs) + 2 * length xs"
  by (induction xs rule: join_names.induct) auto

lemma write_port_names_spec:
  assumes "named_client cl" and "i \<le> nat (jc_port_count cl)"
    and "length (join_names (map jp_name (drop i (ports_of cl)))) \<le> m"
  shows "write_port_names cl [i..<nat (jc_port_count cl)] (int (length pre)) (pre @ replicate m z) =
    Some (pre @ join_names (map jp_name (drop i (ports_of cl))) @
      replicate (m - length (join_names (map jp_name (drop i (ports_of cl))))) z)"
  using assms(2,3)
proof (induction "nat (jc_port_count cl) - i" arbitrary: i pre m)
  have ok: "client_ok cl" using assms(1) by (simp add: named_client_def)
  note len = length_ports_of [OF ok]
  case 0
  then show ?case using len by simp
next
  have ok: "client_ok cl" using assms(1) by (simp add: named_client_def)
  note len = length_ports_of [OF ok]
  case (Suc k)
  then have i: "i < nat (jc_port_count cl)" by simp
  let ?p = "ports_of cl ! i" and ?rest = "drop (Suc i) (ports_of cl)"
  have drop: "drop i (ports_of cl) = ?p # ?rest" using i len by (simp add: Cons_nth_drop_Suc)
  have "named_port ?p" using assms(1) i len by (simp add: named_client_def)
  then have read: "mem_read (jp_name ?p) (jp_name_len ?p) = Some (jp_name ?p)" and plen: "jp_name_len ?p = int (length (jp_name ?p))"
    by (simp_all add: named_port_def)
  have upt: "[i..<nat (jc_port_count cl)] = i # [Suc i..<nat (jc_port_count cl)]" using i by (simp add: upt_conv_Cons)
  show ?case
  proof (cases "int i + 1 < jc_port_count cl")
    case True
    then have "?rest \<noteq> []" using len by simp
    then have join: "join_names (map jp_name (drop i (ports_of cl))) = jp_name ?p @ '', '' @ join_names (map jp_name ?rest)"
      unfolding drop by (cases ?rest) simp_all
    then have room: "length (jp_name ?p) + 2 + length (join_names (map jp_name ?rest)) \<le> m" using Suc.prems(2) by simp
    let ?pre = "pre @ jp_name ?p @ '', ''" and ?m = "m - length (jp_name ?p) - 2"
    have w1: "mem_write (pre @ replicate m z) (int (length pre)) (jp_name ?p) =
        Some (pre @ jp_name ?p @ replicate (m - length (jp_name ?p)) z)"
      using room by (intro mem_write_next) simp
    have w2: "mem_write (pre @ jp_name ?p @ replicate (m - length (jp_name ?p)) z) (int (length pre) + int (length (jp_name ?p))) '', '' =
        Some (?pre @ replicate ?m z)"
      using room mem_write_next [of "'', ''" "m - length (jp_name ?p)" "pre @ jp_name ?p" z] by simp
    have IH: "write_port_names cl [Suc i..<nat (jc_port_count cl)] (int (length ?pre)) (?pre @ replicate ?m z) =
        Some (?pre @ join_names (map jp_name ?rest) @ replicate (?m - length (join_names (map jp_name ?rest))) z)"
      using Suc.hyps(2) i room by (intro Suc.hyps(1)) simp_all
    have idx: "int (length pre) + int (length (jp_name ?p)) + 2 = int (length ?pre)" by simp
    have "write_port_names cl [i..<nat (jc_port_count cl)] (int (length pre)) (pre @ replicate m z) =
        write_port_names cl [Suc i..<nat (jc_port_count cl)] (int (length ?pre)) (?pre @ replicate ?m z)"
      using w1 w2 True client_port_nth [OF ok i] read plen
      by (simp only: upt write_port_names.simps Option.bind.simps Let_def if_True idx)
    then show ?thesis unfolding IH join by simp
  next
    case False
    then have last: "?rest = []" "[Suc i..<nat (jc_port_count cl)] = []" using len i by simp_all
    then show ?thesis using False client_port_nth [OF ok i] read plen Suc.prems(2)
      by (simp add: upt drop mem_write_next)
  qed
qed

lemma takeWhile_append_nul: "CHR 0x00 \<notin> set xs \<Longrightarrow> takeWhile (\<lambda>c. c \<noteq> CHR 0x00) (xs @ CHR 0x00 # ys) = xs"
  by (induction xs) auto

lemma join_names_set: "c \<in> set (join_names xs) \<Longrightarrow> c \<in> set ('', '' @ concat xs)"
  by (induction xs rule: join_names.induct) auto

lemma sum_list_int: "(\<Sum>x \<leftarrow> xs. int (f x)) = int (\<Sum>x \<leftarrow> xs. f x)"
  by (induction xs) simp_all

text \<open>The description of a JACK device fits into the buffer that is allocated for it: the computed size does
  not overflow, no byte is written outside the buffer, and what a reader sees up to the NUL
  is the name of the client, a colon, and the names of the ports separated by commas.\<close>

theorem description_fits:
  assumes "named_client cl" and "description_size cl \<le> int_max"
  shows "\<exists>n buf. description_len cl = Some n \<and> write_description cl (replicate (nat n) (CHR 0x00)) = Some buf \<and>
    int (length buf) = n \<and> c_string buf = Some (fst (client_key cl) @ '': '' @ join_names (map jp_name (ports_of cl)))"
proof -
  have ok: "client_ok cl" and named: "\<forall>p \<in> set (ports_of cl). named_port p" and nul: "CHR 0x00 \<notin> set (fst (client_key cl))"
    using assms(1) by (simp_all add: named_client_def)
  let ?nm = "fst (client_key cl)" and ?join = "join_names (map jp_name (ports_of cl))"
  have nm: "mem_read (jc_name cl) (jc_name_len cl) = Some ?nm" "jc_name_len cl = int (length ?nm)"
    using ok by (auto simp: client_ok_def mem_read_def client_key_def min_def nat_le_iff)
  have lens: "map jp_name_len (ports_of cl) = map (\<lambda>p. int (length (jp_name p))) (ports_of cl)"
    using named by (simp add: named_port_def)
  have sum: "sum_list (map jp_name_len (ports_of cl)) = int (sum_list (map length (map jp_name (ports_of cl))))"
    unfolding lens by (simp add: sum_list_int o_def)
  define r where "r = nat (description_size cl) - (length ?nm + 2 + length ?join)"
  have count: "jc_port_count cl = int (length (ports_of cl))" using length_client_ports [OF ok] by simp
  have size: "description_size cl = int (length ?nm + 3 + 2 * length (ports_of cl) + sum_list (map length (map jp_name (ports_of cl))))"
    unfolding description_size_def sum nm(2) count by simp
  have r: "nat (description_size cl) = length ?nm + 2 + length ?join + r" "0 < r"
    using join_names_length [of "map jp_name (ports_of cl)"] by (simp_all add: r_def size)
  let ?pre = "?nm @ '': ''"
  have "mem_write (replicate (nat (description_size cl)) (CHR 0x00)) 0 ?nm =
      Some (?nm @ replicate (2 + length ?join + r) (CHR 0x00))"
    using mem_write_next [of ?nm "nat (description_size cl)" "[]" "CHR 0x00"] by (simp add: r(1))
  moreover have "mem_write (?nm @ replicate (2 + length ?join + r) (CHR 0x00)) (jc_name_len cl) '': '' =
      Some (?pre @ replicate (length ?join + r) (CHR 0x00))"
    using mem_write_next [of "'': ''" "2 + length ?join + r" ?nm "CHR 0x00"] by (simp add: nm(2))
  moreover have "write_port_names cl [0..<nat (jc_port_count cl)] (jc_name_len cl + 2) (?pre @ replicate (length ?join + r) (CHR 0x00)) =
      Some (?pre @ ?join @ replicate r (CHR 0x00))"
    using write_port_names_spec [OF assms(1), of 0 "length ?join + r" ?pre "CHR 0x00"] by (simp add: nm(2) add.commute)
  ultimately have run: "write_description cl (replicate (nat (description_size cl)) (CHR 0x00)) = Some (?pre @ ?join @ replicate r (CHR 0x00))"
    using nm(1) by (simp add: write_description_def)
  have "CHR 0x00 \<notin> set ?join" using named join_names_set by (fastforce simp: named_port_def)
  then have "CHR 0x00 \<notin> set (?pre @ ?join)" using nul by simp
  from takeWhile_append_nul [OF this] have "c_string (?pre @ ?join @ replicate r (CHR 0x00)) = Some (?pre @ ?join)"
    using r(2) by (cases r) (simp_all add: c_string_def)
  then show ?thesis
    using run description_len_spec [OF assms] r(1) size by (intro exI [of _ "description_size cl"] exI [of _ "?pre @ ?join @ replicate r (CHR 0x00)"]) simp
qed

subsection \<open>The layout\<close>

lemma set_channels_spec:
  assumes "client_ok cl" and "i \<le> nat (jc_port_count cl)" and "length (cl_channels l) = SOUNDIO_MAX_CHANNELS"
  shows "\<exists>l' any'. set_channels cl [i..<nat (jc_port_count cl)] l any = Some (l', any') \<and>
    cl_channel_count l' = cl_channel_count l \<and> length (cl_channels l') = SOUNDIO_MAX_CHANNELS \<and>
    take (nat (jc_port_count cl)) (cl_channels l') = take i (cl_channels l) @ map jp_channel_id (drop i (ports_of cl)) \<and>
    (any' \<longleftrightarrow> any \<or> (\<exists>p \<in> set (drop i (ports_of cl)). jp_channel_id p = SoundIoChannelIdInvalid))"
  using assms(2,3)
proof (induction "nat (jc_port_count cl) - i" arbitrary: i l any)
  case 0
  then show ?case using length_ports_of [OF assms(1)] by simp
next
  case (Suc k)
  then have i: "i < nat (jc_port_count cl)" by simp
  let ?p = "ports_of cl ! i"
  let ?l = "l\<lparr>cl_channels := (cl_channels l)[i := jp_channel_id ?p]\<rparr>"
  have "jc_port_count cl \<le> int SOUNDIO_MAX_CHANNELS" using assms(1) by (simp add: client_ok_def)
  then have i24: "i < length (cl_channels l)" using i Suc.prems(2) by linarith
  have drop: "drop i (ports_of cl) = ?p # drop (Suc i) (ports_of cl)"
    using i length_ports_of [OF assms(1)] by (simp add: Cons_nth_drop_Suc)
  have "set_channels cl [i..<nat (jc_port_count cl)] l any =
      set_channels cl [Suc i..<nat (jc_port_count cl)] ?l (any \<or> jp_channel_id ?p = SoundIoChannelIdInvalid)"
    using i i24 client_port_nth [OF assms(1) i] by (simp add: upt_conv_Cons arr_set_def)
  moreover have "take (Suc i) (cl_channels ?l) = take i (cl_channels l) @ [jp_channel_id ?p]"
    using i24 by (simp add: take_Suc_conv_app_nth)
  ultimately show ?case
    using Suc.hyps(1) [of "Suc i" ?l "any \<or> jp_channel_id ?p = SoundIoChannelIdInvalid"] Suc.hyps(2) Suc.prems i
    by (auto simp: drop)
qed

lemma detect_builtin_keeps:
  assumes "layout_wf l"
  shows "\<exists>b nm. soundio_channel_layout_detect_builtin l = Some (b, l\<lparr>cl_name := nm\<rparr>)"
proof -
  have "soundio_channel_layout_equal x l = Some (layout_ids x = layout_ids l)" if "x \<in> set builtin_channel_layouts" for x
    using that assms by (simp add: layout_equal_spec builtin_wf)
  from find_r_first [of builtin_channel_layouts "\<lambda>x. soundio_channel_layout_equal x l", OF this]
  show ?thesis by (auto simp: soundio_channel_layout_detect_builtin_def split: option.splits)
qed

text \<open>The layout of a JACK device is well-formed and has as many channels as the client has ports. When every port
  name denotes a channel, the layout lists these channels in the order of the ports; when
  some name is unknown, it is the default layout of that many channels, if there is one.\<close>

theorem client_layout_well_formed:
  assumes "client_ok cl"
  shows "\<exists>l. client_layout cl = Some l \<and> layout_wf l \<and> cl_channel_count l = int (length (ports_of cl)) \<and>
    (if SoundIoChannelIdInvalid \<in> jp_channel_id ` set (ports_of cl) \<and> 1 \<le> length (ports_of cl) \<and> length (ports_of cl) \<le> 8
     then l \<in> set builtin_channel_layouts else layout_ids l = map jp_channel_id (ports_of cl))"
proof -
  let ?l0 = "layout_zero\<lparr>cl_channel_count := jc_port_count cl\<rparr>"
  have "length (cl_channels ?l0) = SOUNDIO_MAX_CHANNELS" by (simp add: layout_zero_def)
  then obtain l any where l: "set_channels cl [0..<nat (jc_port_count cl)] ?l0 False = Some (l, any)"
      "cl_channel_count l = jc_port_count cl" "length (cl_channels l) = SOUNDIO_MAX_CHANNELS"
      "take (nat (jc_port_count cl)) (cl_channels l) = map jp_channel_id (ports_of cl)"
      "any \<longleftrightarrow> SoundIoChannelIdInvalid \<in> jp_channel_id ` set (ports_of cl)"
    using set_channels_spec [OF assms, of 0 ?l0 False] by (auto simp: image_iff eq_commute [of SoundIoChannelIdInvalid])
  have count: "jc_port_count cl = int (length (ports_of cl))" using length_client_ports [OF assms] by simp
  have wf: "layout_wf l" "layout_ids l = map jp_channel_id (ports_of cl)"
    using l assms by (simp_all add: layout_wf_def layout_ids_def client_ok_def)
  show ?thesis
  proof (cases any)
    case False
    obtain b nm where "soundio_channel_layout_detect_builtin l = Some (b, l\<lparr>cl_name := nm\<rparr>)"
      using detect_builtin_keeps [OF wf(1)] by blast
    then have "client_layout cl = Some (l\<lparr>cl_name := nm\<rparr>)" using l(1) False by (simp add: client_layout_def)
    moreover have "layout_wf (l\<lparr>cl_name := nm\<rparr>)" "layout_ids (l\<lparr>cl_name := nm\<rparr>) = layout_ids l"
      using wf(1) by (simp_all add: layout_wf_def layout_ids_def)
    ultimately show ?thesis using False l(2,5) count wf(2) by simp
  next
    case True
    obtain r where r: "soundio_channel_layout_get_default (jc_port_count cl) = Some r"
        "case r of Some l \<Rightarrow> l \<in> set builtin_channel_layouts \<and> cl_channel_count l = jc_port_count cl \<and>
           1 \<le> jc_port_count cl \<and> jc_port_count cl \<le> 8 | None \<Rightarrow> jc_port_count cl < 1 \<or> 8 < jc_port_count cl"
      using default_layout_spec [of "jc_port_count cl"] by blast
    have "client_layout cl = Some (case r of Some l \<Rightarrow> l | None \<Rightarrow> l)" using l(1) True r(1) by (simp add: client_layout_def)
    then show ?thesis using r(2) True l(2,5) wf count by (cases r) (auto dest: builtin_wf)
  qed
qed

text \<open>A client with two ports, for the witnesses.\<close>

definition stereo_client :: SoundIoJackClient where
  "stereo_client = (let port = (\<lambda>nm c. \<lparr>jp_full_name = ''sys:'' @ nm, jp_full_name_len = int (length nm + 4), jp_name = nm,
       jp_name_len = int (length nm), jp_channel_id = c, jp_latency_max = 0\<rparr>)
     in \<lparr>jc_name = ''sys:left'', jc_name_len = 3, jc_is_physical = True, jc_aim = SoundIoDeviceAimOutput, jc_port_count = 2,
       jc_ports = Some (port ''left'' SoundIoChannelIdFrontLeft) # Some (port ''right'' SoundIoChannelIdFrontRight) # replicate 22 None\<rparr>)"

lemma stereo_client_ok: "client_ok stereo_client"
  by (auto simp: client_ok_def stereo_client_def Let_def SOUNDIO_MAX_CHANNELS_def less_Suc_eq numeral_2_eq_2)

lemma stereo_client_ports: "map jp_name (ports_of stereo_client) = [''left'', ''right'']"
  "map jp_channel_id (ports_of stereo_client) = [SoundIoChannelIdFrontLeft, SoundIoChannelIdFrontRight]"
  "map jp_name_len (ports_of stereo_client) = [4, 5]" "\<forall>p \<in> set (ports_of stereo_client). named_port p"
  "fst (client_key stereo_client) = ''sys''"
  by (simp_all add: client_abs_def client_key_def stereo_client_def named_port_def Let_def)

theorem description_fits_witness:
  "\<exists>n buf. description_len stereo_client = Some n \<and> write_description stereo_client (replicate (nat n) (CHR 0x00)) = Some buf \<and>
     c_string buf = Some ''sys: left, right''"
proof -
  have "named_client stereo_client" using stereo_client_ok stereo_client_ports by (simp add: named_client_def)
  moreover have "description_size stereo_client \<le> int_max"
    by (simp add: description_size_def stereo_client_ports int_max_def) (simp add: stereo_client_def Let_def)
  ultimately show ?thesis using description_fits [of stereo_client] by (auto simp: stereo_client_ports)
qed

theorem client_layout_well_formed_witness:
  "\<exists>l. client_layout stereo_client = Some l \<and> layout_ids l = [SoundIoChannelIdFrontLeft, SoundIoChannelIdFrontRight]"
proof -
  have "SoundIoChannelIdInvalid \<notin> jp_channel_id ` set (ports_of stereo_client)"
    unfolding set_map [symmetric] stereo_client_ports by simp
  with client_layout_well_formed [OF stereo_client_ok] show ?thesis by (auto simp: stereo_client_ports)
qed

subsection \<open>A lack of memory for the ports\<close>

lemma alloc_granted:
  "answers s = True # bs \<Longrightarrow>
   alloc s = (Some (next_id s), s\<lparr>answers := bs, next_id := Suc (next_id s), blocks := insert (next_id s) (blocks s)\<rparr>)"
  by (simp add: alloc_def ask_def)

lemma alloc_refused: "answers s = False # bs \<Longrightarrow> alloc s = (None, s\<lparr>answers := bs\<rparr>)"
  by (simp add: alloc_def ask_def)

lemma unref_without_ports:
  assumes "devices s p = Some d" and "ref_count d = 1" and "destruct d = Some jack_destruct_device"
    and "dev_jack d = \<lparr>dj_port_count = n, dj_ports = None\<rparr>" and "0 < n"
  shows "soundio_device_unref (Some p) s = None"
proof -
  have "[0..<nat n] = 0 # [1..<nat n]" using assms(5) by (simp add: upt_conv_Cons)
  then show ?thesis using assms
    by (simp add: soundio_device_unref_def run_destruct_def destruct_device_def in_int_def int_min_def int_max_def)
qed

text \<open>Running out of memory for the array of ports is not survived: \<open>refresh_devices_bare\<close> has set the port
  count when it asks for the array, so that the destructor it then runs to clean up reads the
  ports of a NULL array. This happens for every client with a port.\<close>

theorem no_memory_for_ports_crashes:
  assumes "sios s si = Some x" and "jack_sample_rate (jack x) \<noteq> 0" and "named_client cl" and "description_size cl \<le> int_max"
    and "0 < jc_port_count cl" and "answers s = [True, True, True, False]"
  shows "create_jack_device api be si names q cl s = None"
proof -
  have len: "description_len cl = Some (description_size cl)" by (rule description_len_spec [OF assms(3,4)])
  have nm: "0 \<le> jc_name_len cl" "jc_name_len cl \<le> int (length (jc_name cl))"
    using assms(3) by (simp_all add: named_client_def client_ok_def)
  have give_up: "refresh_give_up api (Some names) (Some p) q err t = None"
    if "devices t p = Some d" "ref_count d = 1" "destruct d = Some jack_destruct_device"
      "dev_jack d = \<lparr>dj_port_count = jc_port_count cl, dj_ports = None\<rparr>" for p err d and t :: "('a, 'b) jsio_scheme"
  proof -
    have "soundio_device_unref (Some p) (t\<lparr>world := w\<rparr>) = None" for w
      using that assms(5) by (intro unref_without_ports) simp_all
    then show ?thesis by (cases "jack_free api names (world t)") (simp_all add: refresh_give_up_def world_do_def)
  qed
  show ?thesis
    using assms(1,2,6) len
    by (simp add: soundio_str_dupe_total [OF nm] create_jack_device_def alloc_granted alloc_refused Let_def dbl_div_def give_up device_zero_def)
qed

theorem no_memory_for_ports_crashes_witness:
  "create_jack_device (steady_jack []) False 0 2 1 stereo_client
     ((lib_start [True, True, True, False] ())\<lparr>sios := [0 \<mapsto> sio_create\<lparr>jack := jack_zero\<lparr>jack_sample_rate := 48000\<rparr>\<rparr>]\<rparr>) = None"
proof (rule no_memory_for_ports_crashes [where x = "sio_create\<lparr>jack := jack_zero\<lparr>jack_sample_rate := 48000\<rparr>\<rparr>"])
  show "named_client stereo_client" using stereo_client_ok stereo_client_ports by (simp add: named_client_def)
  show "description_size stereo_client \<le> int_max"
    by (simp add: description_size_def stereo_client_ports int_max_def) (simp add: stereo_client_def Let_def)
qed (simp_all add: lib_start_def os_start_def os.defs stereo_client_def Let_def)

end
