(* ===== verification/JackEvents.thy ===== *)
theory JackEvents
  imports JackDevice
begin

section \<open>What the application hears from the JACK backend\<close>

text \<open>
  A scan of the devices tells the application nothing and leaves the state of the backend
  alone; \<open>notified\<close> is what it could change. With it the events of the backend are a state
  machine: however the callbacks of JACK and the calls of the application follow one another,
  the loss of the server is reported exactly once.
\<close>

subsection \<open>A scan is silent\<close>

definition notified :: "'z sio_scheme \<Rightarrow> event list \<times> (nat \<rightharpoonup> SoundIoPrivate)" where
  "notified s = (trace s, \<lambda>si. map_option (\<lambda>x. x\<lparr>safe_devices_info := None\<rparr>) (sios s si))"

lemma notified_devs: "devs.more t = devs.more s \<Longrightarrow> notified t = notified s"
  by (cases s, cases t) (simp add: notified_def)

lemma mem_devs: "mem.more t = mem.more s \<Longrightarrow> devs.more t = devs.more s"
  by (cases s, cases t) simp

lemma notified_mem: "mem.more t = mem.more s \<Longrightarrow> notified t = notified s"
  by (rule notified_devs) (rule mem_devs)

lemma alloc_silent: "alloc s = (p, t) \<Longrightarrow> mem.more t = mem.more s"
  by (rule alloc_cases [of s]) auto

lemma free_silent: "free_blk p s = Some t \<Longrightarrow> mem.more t = mem.more s"
  by (auto simp: free_blk_eq_Some)

lemma str_dupe_silent: "soundio_str_dupe str n s = Some (p, t) \<Longrightarrow> mem.more t = mem.more s"
  using alloc_silent [of s] by (fastforce simp: soundio_str_dupe_def Option.bind_eq_Some_conv split: prod.splits option.splits)

lemma realloc_silent: "realloc_blk p s = Some (q, t) \<Longrightarrow> mem.more t = mem.more s"
  using alloc_silent [of s] free_silent
  by (fastforce simp: realloc_blk_def Option.bind_eq_Some_conv split: prod.splits if_splits)

lemma ensure_capacity_silent: "list_ensure_capacity l n s = Some (e, l', t) \<Longrightarrow> mem.more t = mem.more s"
  by (auto simp: list_ensure_capacity_def Option.bind_eq_Some_conv split: if_splits option.splits dest!: realloc_silent)

lemma list_append_silent: "list_append x l s = Some (e, l', t) \<Longrightarrow> mem.more t = mem.more s"
  by (auto simp: list_append_def Option.bind_eq_Some_conv split: if_splits dest!: ensure_capacity_silent)

lemma list_add_one_silent: "list_add_one l s = Some (e, l', t) \<Longrightarrow> mem.more t = mem.more s"
  by (auto simp: list_add_one_def list_resize_def Option.bind_eq_Some_conv split: if_splits dest!: ensure_capacity_silent)

lemma list_deinit_silent: "list_deinit l s = Some t \<Longrightarrow> mem.more t = mem.more s"
  by (auto simp: list_deinit_def dest: free_silent)

lemma free_silent_devs: "free_blk p s = Some t \<Longrightarrow> devs.more t = devs.more s"
  by (rule mem_devs) (rule free_silent)

lemma destruct_silent: "run_destruct d s = Some t \<Longrightarrow> devs.more t = devs.more s"
proof -
  have each: "devs.more t = devs.more s" if "for_each (\<lambda>i s. do {
         (b, ports) \<leftarrow> dj_ports dj;
         djp \<leftarrow> arr_at ports (int i);
         free_blk (str_blk (djp_full_name djp)) s
       }) idx s = Some t" for dj idx s t
    using that
    by (rule for_each_inv [where I = "\<lambda>t. devs.more t = devs.more s"])
      (auto simp: Option.bind_eq_Some_conv dest!: free_silent_devs)
  show "run_destruct d s = Some t \<Longrightarrow> devs.more t = devs.more s"
    by (auto simp: run_destruct_def destruct_device_def Option.bind_eq_Some_conv
        split: option.splits dev_destruct.splits dest!: each free_silent_devs)
qed

lemma deinit_silent_devs: "list_deinit l s = Some t \<Longrightarrow> devs.more t = devs.more s"
  by (rule mem_devs) (rule list_deinit_silent)

lemma free_parts_silent:
  "free_sample_rates d s = Some t \<Longrightarrow> devs.more t = devs.more s"
  "free_formats d s = Some t \<Longrightarrow> devs.more t = devs.more s"
  "free_layouts d s = Some t \<Longrightarrow> devs.more t = devs.more s"
  by (auto simp: free_sample_rates_def free_formats_def free_layouts_def
      split: rates_ptr.splits formats_ptr.splits layouts_ptr.splits dest: free_silent_devs)

lemma unref_silent: "soundio_device_unref p s = Some t \<Longrightarrow> devs.more t = devs.more s"
  by (auto simp: soundio_device_unref_def Option.bind_eq_Some_conv Let_def split: option.splits if_splits
      dest!: free_silent_devs destruct_silent free_parts_silent deinit_silent_devs)

lemma unref_list_silent: "unref_list l s = Some t \<Longrightarrow> devs.more t = devs.more s"
  unfolding unref_list_def
  by (rule for_each_inv [where I = "\<lambda>t. devs.more t = devs.more s"])
    (auto simp: Option.bind_eq_Some_conv dest!: unref_silent)

lemma destroy_info_silent: "soundio_destroy_devices_info q s = Some t \<Longrightarrow> devs.more t = devs.more s"
  by (auto simp: soundio_destroy_devices_info_def Option.bind_eq_Some_conv split: option.splits
      dest!: unref_list_silent deinit_silent_devs free_silent_devs)

lemmas heap_silent = alloc_silent [THEN notified_mem] free_silent [THEN notified_mem] str_dupe_silent [THEN notified_mem]
  list_append_silent [THEN notified_mem] list_add_one_silent [THEN notified_mem] unref_silent [THEN notified_devs]
  destroy_info_silent [THEN notified_devs]

lemma update_silent:
  "upd_dev p f s = Some t \<Longrightarrow> notified t = notified s"
  "upd_info q g s = Some t \<Longrightarrow> notified t = notified s"
  by (auto simp: upd_defs Option.bind_eq_Some_conv notified_def)

lemma notified_upd [simp]:
  "notified (s\<lparr>devices := d\<rparr>) = notified s" "notified (s\<lparr>infos := i\<rparr>) = notified s"
  by (simp_all add: notified_def)

lemma world_silent:
  fixes s t :: "('j, 'z) jsio_scheme"
  shows "in_world f s = (r, t) \<Longrightarrow> notified t = notified s" "world_do g s = Some t \<Longrightarrow> notified t = notified s"
  by (auto simp: in_world_def world_do_def Option.bind_eq_Some_conv notified_def split: prod.splits)

lemma notified_pair [simp]:
  "notified (snd (alloc s)) = notified s" "notified (snd (in_world f r)) = notified r"
  by (metis heap_silent(1) prod.collapse) (metis world_silent(1) prod.collapse)

lemma append_device_silent: "append_device a q p s = Some (e, t) \<Longrightarrow> notified t = notified s"
  by (auto simp: append_device_def Option.bind_eq_Some_conv dest!: heap_silent update_silent)

lemma give_up_silent: "refresh_give_up api n d q err s = Some (e, t) \<Longrightarrow> notified t = notified s"
  by (auto simp: refresh_give_up_def Option.bind_eq_Some_conv split: option.splits dest!: heap_silent world_silent)

lemma find_or_create_silent: "find_or_create_client l a phys nm n s = Some (p, l', t) \<Longrightarrow> mem.more t = mem.more s"
  by (auto simp: find_or_create_client_def Option.bind_eq_Some_conv split: option.splits if_splits dest!: list_add_one_silent)

lemma add_port_silent: "add_port api j nm l s = Some (e, l', t) \<Longrightarrow> mem.more t = mem.more s"
  by (auto simp: add_port_def Option.bind_eq_Some_conv Let_def split: option.splits if_splits prod.splits
      dest!: find_or_create_silent)

lemma scan_ports_silent: "scan_ports api c nms l s = Some (e, l', t) \<Longrightarrow> notified t = notified s"
proof (induction nms arbitrary: l s)
  case (Cons nm nms)
  obtain j s1 where j: "in_world (jack_port_by_name api c nm) s = (j, s1)" by fastforce
  show ?case
  proof (cases j)
    case None
    with Cons.prems j show ?thesis by (auto dest: world_silent)
  next
    case (Some jport)
    with Cons.prems j obtain e1 l1 s2 where "add_port api jport nm l s1 = Some (e1, l1, s2)"
        "(if e1 \<noteq> SoundIoErrorNone then Some (e1, l1, s2) else scan_ports api c nms l1 s2) = Some (e, l', t)"
      by (auto simp: Option.bind_eq_Some_conv)
    with Cons.IH [of l1 s2] world_silent(1) [OF j] notified_mem [OF add_port_silent] show ?thesis
      by (metis option.inject prod.inject)
  qed
qed simp

lemma set_dj_port_silent: "set_dj_port p i d s = Some t \<Longrightarrow> notified t = notified s"
  by (auto simp: set_dj_port_def Option.bind_eq_Some_conv dest!: update_silent)

lemma copy_ports_silent: "copy_ports cl p idx s = Some (ok, t) \<Longrightarrow> notified t = notified s"
proof (induction idx arbitrary: s)
  case (Cons i idx)
  then show ?case
    by (auto simp: Option.bind_eq_Some_conv split: if_splits dest!: heap_silent set_dj_port_silent)
qed simp

lemma create_jack_device_silent: "create_jack_device api be si n q cl s = Some (e, t) \<Longrightarrow> notified t = notified s"
  by (auto simp: create_jack_device_def Option.bind_eq_Some_conv Let_def case_prod_unfold split: option.splits if_splits
      dest!: heap_silent give_up_silent copy_ports_silent update_silent append_device_silent)

lemma create_jack_devices_silent: "create_jack_devices api be si n q l idx s = Some (e, t) \<Longrightarrow> notified t = notified s"
proof (induction idx arbitrary: s)
  case (Cons i idx)
  then show ?case
    by (auto simp: Option.bind_eq_Some_conv split: if_splits dest!: create_jack_device_silent)
qed simp

lemma safe_info_silent: "upd_sio si (\<lambda>x. x\<lparr>safe_devices_info := q\<rparr>) s = Some t \<Longrightarrow> notified t = notified s"
  by (auto simp: upd_defs Option.bind_eq_Some_conv notified_def)

text \<open>The scan proper, with the new lists at block \<open>q\<close> and the server's list of ports.\<close>

lemma refresh_scan_silent:
  assumes "(do {
       (err, clients, s) \<leftarrow> scan_ports api c port_list clist_zero s;
       if err \<noteq> SoundIoErrorNone then refresh_give_up api (Some ns) None q err s
       else do {
         (err, s) \<leftarrow> create_jack_devices api be si ns q clients [0..<nat (l_length clients)] s;
         if err \<noteq> SoundIoErrorNone then Some (err, s)
         else do {
           s \<leftarrow> world_do (jack_free api ns) s;
           s \<leftarrow> soundio_destroy_devices_info (safe_devices_info x) s;
           s \<leftarrow> upd_sio si (\<lambda>x. x\<lparr>safe_devices_info := Some q\<rparr>) s;
           Some (SoundIoErrorNone, s)
         }
       }
     }) = Some (e, t)"
  shows "notified t = notified s"
proof -
  obtain err clients s1 where scan: "scan_ports api c port_list clist_zero s = Some (err, clients, s1)"
    using assms by (auto simp: Option.bind_eq_Some_conv)
  note s1 = scan_ports_silent [OF scan]
  show ?thesis
  proof (cases "err = SoundIoErrorNone")
    case False
    with assms scan have "refresh_give_up api (Some ns) None q err s1 = Some (e, t)" by simp
    from give_up_silent [OF this] s1 show ?thesis by simp
  next
    case True
    with assms scan obtain err2 s2 where devs: "create_jack_devices api be si ns q clients [0..<nat (l_length clients)] s1 = Some (err2, s2)"
        "(if err2 \<noteq> SoundIoErrorNone then Some (err2, s2)
         else do {
           s \<leftarrow> world_do (jack_free api ns) s2;
           s \<leftarrow> soundio_destroy_devices_info (safe_devices_info x) s;
           s \<leftarrow> upd_sio si (\<lambda>x. x\<lparr>safe_devices_info := Some q\<rparr>) s;
           Some (SoundIoErrorNone, s)
         }) = Some (e, t)"
      by (auto simp: Option.bind_eq_Some_conv)
    note s2 = create_jack_devices_silent [OF devs(1)]
    show ?thesis
    proof (cases "err2 = SoundIoErrorNone")
      case False
      with devs(2) s1 s2 show ?thesis by simp
    next
      case True
      with devs(2) obtain s3 s4 where "world_do (jack_free api ns) s2 = Some s3"
          "soundio_destroy_devices_info (safe_devices_info x) s3 = Some s4"
          "upd_sio si (\<lambda>x. x\<lparr>safe_devices_info := Some q\<rparr>) s4 = Some t"
        by (auto simp: Option.bind_eq_Some_conv)
      from world_silent(2) [OF this(1)] heap_silent(7) [OF this(2)] safe_info_silent [OF this(3)] s1 s2
      show ?thesis by simp
    qed
  qed
qed

lemma refresh_bare_silent:
  assumes run: "refresh_devices_bare api be si s = Some (e, t)"
  shows "notified t = notified s"
proof -
  obtain x where x: "sios s si = Some x" using run by (auto simp: refresh_devices_bare_def Option.bind_eq_Some_conv)
  obtain q s1 where q: "alloc s = (q, s1)" by fastforce
  note s1 = heap_silent(1) [OF q]
  show ?thesis
  proof (cases "is_shutdown (jack x) \<or> q = None")
    case True
    with run x q s1 show ?thesis by (auto simp: refresh_devices_bare_def split: if_splits)
  next
    case False
    then obtain q' where q': "q = Some q'" by auto
    let ?s2 = "s1\<lparr>infos := (infos s1)(q' \<mapsto> devices_info_zero\<lparr>default_output_index := - 1, default_input_index := - 1\<rparr>)\<rparr>"
    obtain c where c: "jack_client (jack x) = Some c"
      using run x q q' False by (auto simp: refresh_devices_bare_def Option.bind_eq_Some_conv)
    obtain names s3 where names: "in_world (jack_get_ports api c) ?s2 = (names, s3)" by fastforce
    have s3: "notified s3 = notified s" using world_silent(1) [OF names] s1 by simp
    show ?thesis
    proof (cases names)
      case None
      then have "refresh_give_up api None None q' SoundIoErrorNoMem s3 = Some (e, t)"
        using run x q q' False c names by (simp add: refresh_devices_bare_def)
      from give_up_silent [OF this] s3 show ?thesis by simp
    next
      case (Some n)
      obtain ns port_list where n: "n = (ns, port_list)" by (cases n)
      show ?thesis
        using run x q q' False c names Some n s3 refresh_scan_silent [of api c port_list s3 ns q' be si x e t]
        by (simp add: refresh_devices_bare_def)
    qed
  qed
qed

lemma refresh_silent:
  assumes "refresh_devices api be si s = Some (e, t)"
  shows "notified t = notified s"
proof -
  have "notified (snd (e, t)) = notified s"
  proof (rule refresh_devices.raw_induct [of "\<lambda>api be si s r. notified (snd r) = notified s", OF _ assms], goal_cases)
    case (1 f api be si s r)
    from 1(2) obtain q where q: "refresh_devices_bare api be si s = Some q"
        "(if fst q = SoundIoErrorInterrupted then f api be si (snd q) else Some q) = Some r"
      by (auto simp: Option.bind_eq_Some_conv)
    have "notified (snd q) = notified s" using q(1) refresh_bare_silent by (cases q) auto
    with q(2) 1(1) [of api be si "snd q" r] show ?case by (auto split: if_splits)
  qed
  then show ?thesis by simp
qed

subsection \<open>The events of the backend\<close>

text \<open>What JACK does from its threads, and what the application does.\<close>

inductive jack_callback :: "nat \<Rightarrow> ('j, 'z) jsio_scheme \<Rightarrow> ('j, 'z) jsio_scheme \<Rightarrow> bool" for si where
  shutdown: "shutdown_callback si s = Some t \<Longrightarrow> jack_callback si s t"
| buffer_size: "buffer_size_callback n si s = Some (r, t) \<Longrightarrow> jack_callback si s t"
| sample_rate: "sample_rate_callback n si s = Some (r, t) \<Longrightarrow> jack_callback si s t"
| registration: "port_registration_callback si s = Some t \<Longrightarrow> jack_callback si s t"
| rename: "port_rename_calllback si s = Some t \<Longrightarrow> jack_callback si s t"

inductive jack_event :: "'j jack_api \<Rightarrow> bool \<Rightarrow> nat \<Rightarrow> ('j, 'z) jsio_scheme \<Rightarrow> ('j, 'z) jsio_scheme \<Rightarrow> bool" for api be si where
  callback: "jack_callback si s t \<Longrightarrow> jack_event api be si s t"
| flush: "flush_events_jack api be si s = Some t \<Longrightarrow> jack_event api be si s t"
| wait: "wait_events_jack api be others si s = Some t \<Longrightarrow> (\<And>u v. others u = Some v \<Longrightarrow> (jack_callback si)\<^sup>*\<^sup>* u v) \<Longrightarrow>
    jack_event api be si s t"
| wakeup: "wakeup_jack si s = Some t \<Longrightarrow> jack_event api be si s t"
| scan: "force_device_scan_jack si s = Some t \<Longrightarrow> jack_event api be si s t"

inductive_cases jack_callbackE: "jack_callback si s t"
inductive_cases jack_eventE: "jack_event api be si s t"

definition losses :: "nat \<Rightarrow> event list \<Rightarrow> nat" where
  "losses si es = length (filter (\<lambda>e. \<exists>err. e = BackendDisconnect si err) es)"

lemma losses_simps [simp]:
  "losses si [] = 0" "losses si (es @ [e]) = losses si es + (if \<exists>err. e = BackendDisconnect si err then 1 else 0)"
  by (simp_all add: losses_def)

text \<open>The loss of the server was reported as often as the flag says, and never without a loss.\<close>

definition report_ok :: "nat \<Rightarrow> event list \<times> (nat \<rightharpoonup> SoundIoPrivate) \<Rightarrow> bool" where
  "report_ok si n \<longleftrightarrow> (case snd n si of None \<Rightarrow> False
     | Some x \<Rightarrow> losses si (fst n) = (if emitted_shutdown_cb (jack x) then 1 else 0) \<and>
         (emitted_shutdown_cb (jack x) \<longrightarrow> is_shutdown (jack x)))"

lemma report_ok_notified:
  "report_ok si (notified s) \<longleftrightarrow> (case sios s si of None \<Rightarrow> False
     | Some x \<Rightarrow> losses si (trace s) = (if emitted_shutdown_cb (jack x) then 1 else 0) \<and>
         (emitted_shutdown_cb (jack x) \<longrightarrow> is_shutdown (jack x)))"
  by (simp add: report_ok_def notified_def split: option.split)

lemma notified_same:
  assumes "notified t = notified s" and "sios s si = Some x"
  shows "trace t = trace s \<and> (\<exists>z. sios t si = Some z \<and> jack z = jack x \<and> on_backend_disconnect_default z = on_backend_disconnect_default x)"
proof -
  have eq: "map_option (\<lambda>x. x\<lparr>safe_devices_info := None\<rparr>) (sios t si) = map_option (\<lambda>x. x\<lparr>safe_devices_info := None\<rparr>) (sios s si)"
    and tr: "trace t = trace s"
    using assms(1) by (auto simp: notified_def dest: fun_cong [of _ _ si])
  from eq assms(2) obtain z where z: "sios t si = Some z" "z\<lparr>safe_devices_info := None\<rparr> = x\<lparr>safe_devices_info := None\<rparr>" by auto
  from z(2) have "jack z = jack x" "on_backend_disconnect_default z = on_backend_disconnect_default x"
    by (cases z, cases x, simp)+
  with z(1) tr show ?thesis by simp
qed

lemma os_silent: "os.more t = os.more s \<Longrightarrow> notified t = notified s"
  by (cases s, cases t) (simp add: notified_def)

lemma sync_silent:
  "soundio_os_mutex_lock m s = Some t \<Longrightarrow> notified t = notified s"
  "soundio_os_mutex_unlock m s = Some t \<Longrightarrow> notified t = notified s"
  "soundio_os_cond_signal c m s = Some t \<Longrightarrow> notified t = notified s"
  "soundio_os_cond_wait c m s = Some t \<Longrightarrow> notified t = notified s"
  by (rule os_silent, auto simp: soundio_os_mutex_lock_def soundio_os_mutex_unlock_def soundio_os_cond_signal_def
      soundio_os_cond_wait_def Option.bind_eq_Some_conv)+

text \<open>Changes that cannot break the invariant.\<close>

lemma upd_sij_report:
  assumes "upd_sij si f s = Some t" and "report_ok si (notified s)"
    and "\<And>j. emitted_shutdown_cb (f j) = emitted_shutdown_cb j" and "\<And>j. is_shutdown j \<Longrightarrow> is_shutdown (f j)"
  shows "report_ok si (notified t)"
  using assms by (auto simp: report_ok_notified upd_sio_def Option.bind_eq_Some_conv)

lemma emit_report:
  "\<forall>err. e \<noteq> BackendDisconnect si err \<Longrightarrow> report_ok si (notified (emit e s)) = report_ok si (notified s)"
  by (auto simp: report_ok_notified emit_def split: option.split)

lemma notify_report:
  assumes "notify_devices_change si s = Some t" and "report_ok si (notified s)"
  shows "report_ok si (notified t)"
proof -
  obtain s1 x s2 s3 where run: "upd_sij si (\<lambda>j. j\<lparr>refresh_devices_flag := False\<rparr>) s = Some s1" "sios s1 si = Some x"
      "soundio_os_mutex_lock (jack_mutex (jack x)) s1 = Some s2"
      "soundio_os_cond_signal (jack_cond (jack x)) (jack_mutex (jack x)) s2 = Some s3"
      "soundio_os_mutex_unlock (jack_mutex (jack x)) (emit (EventsSignal si) s3) = Some t"
    using assms(1) by (auto simp: notify_devices_change_def Option.bind_eq_Some_conv)
  have "report_ok si (notified s1)" using upd_sij_report [OF run(1) assms(2)] by simp
  then show ?thesis
    using sync_silent(1) [OF run(3)] sync_silent(3) [OF run(4)] sync_silent(2) [OF run(5)] emit_report [of "EventsSignal si" si s3]
    by simp
qed

lemma force_scan_report: "force_device_scan_jack si s = Some t \<Longrightarrow> report_ok si (notified s) \<Longrightarrow> report_ok si (notified t)"
  using notify_report [of si s t] by (simp add: force_device_scan_jack_def notify_devices_change_def)

lemma shutdown_report:
  assumes "shutdown_callback si s = Some t" and "report_ok si (notified s)"
  shows "report_ok si (notified t)"
proof -
  obtain x where x: "sios s si = Some x" using assms(1) by (auto simp: shutdown_callback_def Option.bind_eq_Some_conv)
  with assms(1) obtain s1 s2 s3 where run: "soundio_os_mutex_lock (jack_mutex (jack x)) s = Some s1"
      "upd_sij si (\<lambda>j. j\<lparr>is_shutdown := True\<rparr>) s1 = Some s2"
      "soundio_os_cond_signal (jack_cond (jack x)) (jack_mutex (jack x)) s2 = Some s3"
      "soundio_os_mutex_unlock (jack_mutex (jack x)) (emit (EventsSignal si) s3) = Some t"
    by (auto simp: shutdown_callback_def Option.bind_eq_Some_conv)
  have "report_ok si (notified s1)" using sync_silent(1) [OF run(1)] assms(2) by simp
  then have "report_ok si (notified s2)" using upd_sij_report [OF run(2)] by simp
  then show ?thesis
    using sync_silent(3) [OF run(3)] sync_silent(2) [OF run(4)] emit_report [of "EventsSignal si" si s3] by simp
qed

lemma callback_report:
  assumes "jack_callback si s t" and "report_ok si (notified s)"
  shows "report_ok si (notified t)"
  using assms(1)
proof cases
  case shutdown
  with assms(2) show ?thesis by (rule shutdown_report [rotated])
next
  case (buffer_size n r)
  then obtain s1 where s1: "upd_sij si (\<lambda>j. j\<lparr>jack_period_size := to_int32 (int n)\<rparr>) s = Some s1"
      "notify_devices_change si s1 = Some t"
    by (auto simp: buffer_size_callback_def Option.bind_eq_Some_conv)
  have "report_ok si (notified s1)" using upd_sij_report [OF s1(1) assms(2)] by simp
  with s1(2) show ?thesis by (rule notify_report)
next
  case (sample_rate n r)
  then obtain s1 where s1: "upd_sij si (\<lambda>j. j\<lparr>jack_sample_rate := to_int32 (int n)\<rparr>) s = Some s1"
      "notify_devices_change si s1 = Some t"
    by (auto simp: sample_rate_callback_def Option.bind_eq_Some_conv)
  have "report_ok si (notified s1)" using upd_sij_report [OF s1(1) assms(2)] by simp
  with s1(2) show ?thesis by (rule notify_report)
next
  case registration
  with assms(2) show ?thesis by (simp add: port_registration_callback_def notify_report)
next
  case rename
  with assms(2) show ?thesis by (simp add: port_rename_calllback_def notify_report)
qed

lemma callbacks_report: "(jack_callback si)\<^sup>*\<^sup>* s t \<Longrightarrow> report_ok si (notified s) \<Longrightarrow> report_ok si (notified t)"
  by (induction rule: rtranclp_induct) (auto dest: callback_report)

lemma released_wait_report:
  assumes "released_wait others c m s = Some t" and "\<And>u v. others u = Some v \<Longrightarrow> (jack_callback si)\<^sup>*\<^sup>* u v"
    and "report_ok si (notified s)"
  shows "report_ok si (notified t)"
proof -
  obtain s1 s2 s3 where run: "soundio_os_cond_wait c m s = Some s1" "soundio_os_mutex_unlock m s1 = Some s2"
      "others s2 = Some s3" "soundio_os_mutex_lock m s3 = Some t"
    using assms(1) by (auto simp: released_wait_def Option.bind_eq_Some_conv)
  have "report_ok si (notified s2)" using sync_silent(4) [OF run(1)] sync_silent(2) [OF run(2)] assms(3) by simp
  with callbacks_report [OF assms(2) [OF run(3)]] have "report_ok si (notified s3)" .
  with sync_silent(1) [OF run(4)] show ?thesis by simp
qed

text \<open>The part of \<open>my_flush_events\<close> after the wait.\<close>

definition flush_tail :: "'j jack_api \<Rightarrow> bool \<Rightarrow> nat \<Rightarrow> nat option \<Rightarrow> ('j, 'z) jsio_scheme \<Rightarrow> ('j, 'z) jsio_scheme option" where
  "flush_tail api be si mutex s = do {
     x \<leftarrow> sios s si;
     let cb_shutdown = (is_shutdown (jack x) \<and> \<not> emitted_shutdown_cb (jack x));
     s \<leftarrow> (if cb_shutdown then upd_sij si (\<lambda>j. j\<lparr>emitted_shutdown_cb := True\<rparr>) s else Some s);
     s \<leftarrow> soundio_os_mutex_unlock mutex s;
     if cb_shutdown then on_backend_disconnect si SoundIoErrorBackendDisconnected s
     else do {
       x \<leftarrow> sios s si;
       s \<leftarrow> upd_sij si (\<lambda>j. j\<lparr>refresh_devices_flag := True\<rparr>) s;
       if refresh_devices_flag (jack x) then Some s
       else do {
         (err, s) \<leftarrow> refresh_devices api be si s;
         if err \<noteq> SoundIoErrorNone then upd_sij si (\<lambda>j. j\<lparr>refresh_devices_flag := False\<rparr>) s
         else Some (emit (DevicesChange si) s)
       }
     }
   }"

lemma flush_tail_report:
  assumes run: "flush_tail api be si mutex s = Some t" and ok: "report_ok si (notified s)"
  shows "report_ok si (notified t)"
proof -
  obtain x where x: "sios s si = Some x" using run by (auto simp: flush_tail_def Option.bind_eq_Some_conv)
  show ?thesis
  proof (cases "is_shutdown (jack x) \<and> \<not> emitted_shutdown_cb (jack x)")
    case True
    then obtain s1 s2 where s2: "upd_sij si (\<lambda>j. j\<lparr>emitted_shutdown_cb := True\<rparr>) s = Some s1"
        "soundio_os_mutex_unlock mutex s1 = Some s2" "on_backend_disconnect si SoundIoErrorBackendDisconnected s2 = Some t"
      using run x by (auto simp: flush_tail_def Option.bind_eq_Some_conv)
    have t: "t = emit (BackendDisconnect si SoundIoErrorBackendDisconnected) s2"
      using s2(3) by (auto simp: on_backend_disconnect_def Option.bind_eq_Some_conv)
    have "sios s1 si = Some (x\<lparr>jack := (jack x)\<lparr>emitted_shutdown_cb := True\<rparr>\<rparr>)" "trace s1 = trace s"
      using s2(1) x by (auto simp: upd_sio_def)
    moreover have "notified s2 = notified s1" using sync_silent(2) [OF s2(2)] .
    ultimately obtain z where "sios s2 si = Some z" "jack z = (jack x)\<lparr>emitted_shutdown_cb := True\<rparr>" "trace s2 = trace s"
      using notified_same by fastforce
    then show ?thesis using ok x True by (simp add: t report_ok_notified emit_def)
  next
    case False
    then obtain s1 y s2 where s2: "soundio_os_mutex_unlock mutex s = Some s1" "sios s1 si = Some y"
        "upd_sij si (\<lambda>j. j\<lparr>refresh_devices_flag := True\<rparr>) s1 = Some s2"
        "(if refresh_devices_flag (jack y) then Some s2
         else do {
           (err, s) \<leftarrow> refresh_devices api be si s2;
           if err \<noteq> SoundIoErrorNone then upd_sij si (\<lambda>j. j\<lparr>refresh_devices_flag := False\<rparr>) s
           else Some (emit (DevicesChange si) s)
         }) = Some t"
      using run x by (auto simp: flush_tail_def Option.bind_eq_Some_conv)
    have "report_ok si (notified s1)" using sync_silent(2) [OF s2(1)] ok by simp
    then have r2: "report_ok si (notified s2)" using upd_sij_report [OF s2(3)] by simp
    show ?thesis
    proof (cases "refresh_devices_flag (jack y)")
      case True
      with s2(4) r2 show ?thesis by simp
    next
      case False
      then obtain err s3 where s3: "refresh_devices api be si s2 = Some (err, s3)"
          "(if err \<noteq> SoundIoErrorNone then upd_sij si (\<lambda>j. j\<lparr>refresh_devices_flag := False\<rparr>) s3
           else Some (emit (DevicesChange si) s3)) = Some t"
        using s2(4) by (auto simp: Option.bind_eq_Some_conv)
      have r3: "report_ok si (notified s3)" using refresh_silent [OF s3(1)] r2 by simp
      show ?thesis
      proof (cases "err = SoundIoErrorNone")
        case True
        then have "t = emit (DevicesChange si) s3" using s3(2) by simp
        with r3 show ?thesis by (simp add: emit_report)
      next
        case False
        then have "upd_sij si (\<lambda>j. j\<lparr>refresh_devices_flag := False\<rparr>) s3 = Some t" using s3(2) by simp
        from upd_sij_report [OF this r3] show ?thesis by simp
      qed
    qed
  qed
qed

lemma my_flush_events_tail:
  "my_flush_events api be others si wait s = do {
     x \<leftarrow> sios s si;
     s \<leftarrow> soundio_os_mutex_lock (jack_mutex (jack x)) s;
     s \<leftarrow> (if wait then released_wait others (jack_cond (jack x)) (jack_mutex (jack x)) s else Some s);
     flush_tail api be si (jack_mutex (jack x)) s
   }"
  by (simp add: my_flush_events_def flush_tail_def Let_def)

lemma flush_report:
  assumes "my_flush_events api be others si wait s = Some t"
    and "wait \<Longrightarrow> (\<And>u v. others u = Some v \<Longrightarrow> (jack_callback si)\<^sup>*\<^sup>* u v)" and "report_ok si (notified s)"
  shows "report_ok si (notified t)"
proof -
  obtain x where x: "sios s si = Some x" using assms(1) by (auto simp: my_flush_events_tail Option.bind_eq_Some_conv)
  with assms(1) obtain s1 s2 where run: "soundio_os_mutex_lock (jack_mutex (jack x)) s = Some s1"
      "(if wait then released_wait others (jack_cond (jack x)) (jack_mutex (jack x)) s1 else Some s1) = Some s2"
      "flush_tail api be si (jack_mutex (jack x)) s2 = Some t"
    by (auto simp: my_flush_events_tail Option.bind_eq_Some_conv)
  have "report_ok si (notified s1)" using sync_silent(1) [OF run(1)] assms(3) by simp
  with run(2) released_wait_report [OF _ assms(2)] have "report_ok si (notified s2)" by (auto split: if_splits)
  with run(3) show ?thesis by (rule flush_tail_report)
qed

lemma event_report:
  assumes "jack_event api be si s t" and "report_ok si (notified s)"
  shows "report_ok si (notified t)"
  using assms(1)
proof cases
  case callback
  with assms(2) show ?thesis by (rule callback_report [rotated])
next
  case flush
  then show ?thesis unfolding flush_events_jack_def by (rule flush_report) (use assms(2) in simp_all)
next
  case (wait others)
  then obtain s1 where s1: "my_flush_events api be Some si False s = Some s1" "my_flush_events api be others si True s1 = Some t"
    by (auto simp: wait_events_jack_def Option.bind_eq_Some_conv)
  have "report_ok si (notified s1)" using s1(1) by (rule flush_report) (use assms(2) in simp_all)
  with s1(2) wait(2) show ?thesis by (rule flush_report)
next
  case wakeup
  then show ?thesis using assms(2)
    by (auto simp: wakeup_jack_def Option.bind_eq_Some_conv dest!: sync_silent)
next
  case scan
  with assms(2) show ?thesis by (rule force_scan_report [rotated])
qed

lemma events_report: "(jack_event api be si)\<^sup>*\<^sup>* s t \<Longrightarrow> report_ok si (notified s) \<Longrightarrow> report_ok si (notified t)"
  by (induction rule: rtranclp_induct) (auto dest: event_report)

subsection \<open>Properties of the events\<close>

text \<open>C10. The loss of the JACK server is reported at most once: in every sequence of callbacks of JACK and of flushes,
  waits (during which callbacks arrive), wake-ups and scans by the application, there is at
  most one \<open>on_backend_disconnect\<close>, and only after the server was lost.\<close>

theorem shutdown_reported_at_most_once:
  assumes "sios s si = Some x" and "\<not> emitted_shutdown_cb (jack x)" and "losses si (trace s) = 0"
    and "(jack_event api be si)\<^sup>*\<^sup>* s t"
  shows "losses si (trace t) \<le> 1 \<and>
    (losses si (trace t) = 1 \<longrightarrow> (\<exists>y. sios t si = Some y \<and> is_shutdown (jack y) \<and> emitted_shutdown_cb (jack y)))"
proof -
  have "report_ok si (notified s)" using assms(1-3) by (simp add: report_ok_notified)
  with events_report [OF assms(4)] have "report_ok si (notified t)" .
  then show ?thesis by (auto simp: report_ok_notified split: option.splits if_splits)
qed

lemma refresh_after_shutdown:
  assumes "sios s si = Some x" and "is_shutdown (jack x)"
  shows "refresh_devices api be si s = Some (SoundIoErrorBackendDisconnected, s)"
  by (subst refresh_devices.simps) (simp add: refresh_devices_bare_def assms)

text \<open>A connected library object whose mutex is free.\<close>

definition jack_ready :: "nat \<Rightarrow> 'z sio_scheme \<Rightarrow> bool" where
  "jack_ready si s \<longleftrightarrow> (\<exists>x m mt c cd. sios s si = Some x \<and> jack_mutex (jack x) = Some m \<and> mutexes s m = Some mt \<and> \<not> mutex_locked mt \<and>
     jack_cond (jack x) = Some c \<and> conds s c = Some cd \<and> \<not> on_backend_disconnect_default x \<and> \<not> emitted_shutdown_cb (jack x))"

text \<open>C31. The loss of the server reaches the application: after the shutdown callback the next flush succeeds and calls
  \<open>on_backend_disconnect\<close>, and the flush after it tells the application nothing more.\<close>

theorem shutdown_reaches_application:
  assumes "jack_ready si s"
  shows "\<exists>s1 s2 s3. shutdown_callback si s = Some s1 \<and> flush_events_jack api be si s1 = Some s2 \<and>
    trace s2 = trace s @ [EventsSignal si, BackendDisconnect si SoundIoErrorBackendDisconnected] \<and>
    flush_events_jack api be si s2 = Some s3 \<and> trace s3 = trace s2"
proof -
  obtain x m mt c cd where x: "sios s si = Some x" "jack_mutex (jack x) = Some m" "mutexes s m = Some mt" "\<not> mutex_locked mt"
      "jack_cond (jack x) = Some c" "conds s c = Some cd" "\<not> on_backend_disconnect_default x" "\<not> emitted_shutdown_cb (jack x)"
    using assms by (auto simp: jack_ready_def)
  let ?ms = "(mutexes s)(m \<mapsto> mt\<lparr>mutex_locked := False\<rparr>)"
  obtain s1 where s1: "shutdown_callback si s = Some s1" "sios s1 si = Some (x\<lparr>jack := (jack x)\<lparr>is_shutdown := True\<rparr>\<rparr>)"
      "mutexes s1 m = Some (mt\<lparr>mutex_locked := False\<rparr>)" "trace s1 = trace s @ [EventsSignal si]"
    using x by (simp add: shutdown_callback_def soundio_os_mutex_lock_def upd_sio_def soundio_os_cond_signal_def
        soundio_os_mutex_unlock_def emit_def)
  let ?y = "x\<lparr>jack := (jack x)\<lparr>is_shutdown := True, emitted_shutdown_cb := True\<rparr>\<rparr>"
  obtain s2 where s2: "flush_events_jack api be si s1 = Some s2" "sios s2 si = Some ?y"
      "mutexes s2 m = Some (mt\<lparr>mutex_locked := False\<rparr>)"
      "trace s2 = trace s1 @ [BackendDisconnect si SoundIoErrorBackendDisconnected]"
    using x s1 by (simp add: flush_events_jack_def my_flush_events_tail flush_tail_def soundio_os_mutex_lock_def upd_sio_def
        soundio_os_mutex_unlock_def emit_def on_backend_disconnect_def)
  have "\<exists>s3. flush_events_jack api be si s2 = Some s3 \<and> trace s3 = trace s2"
    using x s2 by (simp add: flush_events_jack_def my_flush_events_tail flush_tail_def soundio_os_mutex_lock_def upd_sio_def
        soundio_os_mutex_unlock_def refresh_after_shutdown)
  with s1 s2 show ?thesis by auto
qed

text \<open>A library object connected to JACK, for the witnesses.\<close>

definition ready_lib :: "(unit, unit) jsio_scheme" where
  "ready_lib = (lib_start [] ())\<lparr>mutexes := [1 \<mapsto> \<lparr>mutex_id_init = True, mutex_locked = False\<rparr>], conds := [2 \<mapsto> cond_made],
     sios := [0 \<mapsto> sio_create\<lparr>on_backend_disconnect_default := False,
       jack := jack_zero\<lparr>jack_mutex := Some 1, jack_cond := Some 2\<rparr>\<rparr>]\<rparr>"

lemma ready_lib_ready: "jack_ready 0 ready_lib"
  by (simp add: jack_ready_def ready_lib_def sio_create_def jack_zero_def)

theorem shutdown_reaches_application_witness:
  "\<exists>s1 s2. shutdown_callback 0 ready_lib = Some s1 \<and> flush_events_jack (steady_jack []) False 0 s1 = Some s2 \<and>
     losses 0 (trace s2) = 1"
proof -
  have "trace ready_lib = []" by (simp add: ready_lib_def lib_start_def os.defs)
  with shutdown_reaches_application [OF ready_lib_ready, of "steady_jack []" False] show ?thesis
    by (auto simp: losses_def)
qed

theorem shutdown_reported_at_most_once_witness:
  "\<exists>t. jack_event (steady_jack []) False 0 ready_lib t \<and> losses 0 (trace t) \<le> 1"
proof -
  obtain t where t: "shutdown_callback 0 ready_lib = Some t"
    by (simp add: ready_lib_def shutdown_callback_def soundio_os_mutex_lock_def upd_sio_def soundio_os_cond_signal_def
        soundio_os_mutex_unlock_def emit_def sio_create_def jack_zero_def cond_made_def)
  have step: "jack_event (steady_jack []) False 0 ready_lib t"
    by (rule jack_event.callback) (rule jack_callback.shutdown [OF t])
  have start: "sios ready_lib 0 = Some (the (sios ready_lib 0))" "\<not> emitted_shutdown_cb (jack (the (sios ready_lib 0)))"
      "losses 0 (trace ready_lib) = 0"
    by (simp_all add: ready_lib_def lib_start_def os.defs sio_create_def jack_zero_def)
  from shutdown_reported_at_most_once [where t = t, OF start r_into_rtranclp [of "jack_event (steady_jack []) False 0", OF step]] step
  show ?thesis by blast
qed

end
