(* ===== verification/PulseConvert.thy ===== *)
theory PulseConvert
  imports SoundIo
begin

section \<open>Conversions between libsoundio and PulseAudio\<close>

text \<open>
  The conversions of sample formats, channel positions and channel maps undo each other as far
  as both sides have names for a thing, a channel map of more channels than a layout holds
  overruns the layout.
\<close>

subsection \<open>Formats\<close>

lemma pulse_formats_iff: "f \<in> set pulse_formats \<longleftrightarrow> to_pulseaudio_format f \<noteq> PA_SAMPLE_INVALID"
  by (cases f) (simp_all add: pulse_formats_def to_pulseaudio_format_def)

lemma format_there: "from_pulseaudio_format (sp\<lparr>ss_format := to_pulseaudio_format f\<rparr>) =
    (if f \<in> set pulse_formats then f else SoundIoFormatInvalid)"
  by (cases f) (simp_all add: pulse_formats_def to_pulseaudio_format_def from_pulseaudio_format_def)

lemma format_back:
  "from_pulseaudio_format sp \<noteq> SoundIoFormatInvalid \<Longrightarrow> to_pulseaudio_format (from_pulseaudio_format sp) = ss_format sp"
  by (cases "ss_format sp") (simp_all add: to_pulseaudio_format_def from_pulseaudio_format_def)

subsection \<open>Channels\<close>

text \<open>The channels that have a position.\<close>

definition has_position :: "SoundIoChannelId \<Rightarrow> bool" where
  "has_position c \<longleftrightarrow> to_pulseaudio_channel_pos c \<noteq> PA_CHANNEL_POSITION_INVALID"

lemma channel_there: "has_position c \<Longrightarrow> from_pulseaudio_channel_pos (to_pulseaudio_channel_pos c) = c"
  by (cases c) (simp_all add: has_position_def to_pulseaudio_channel_pos_def from_pulseaudio_channel_pos_def)

lemma channel_back:
  "from_pulseaudio_channel_pos pos \<noteq> SoundIoChannelIdInvalid \<Longrightarrow> pos \<noteq> PA_CHANNEL_POSITION_MONO \<Longrightarrow>
   to_pulseaudio_channel_pos (from_pulseaudio_channel_pos pos) = pos"
  by (cases pos) (simp_all add: to_pulseaudio_channel_pos_def from_pulseaudio_channel_pos_def)

subsection \<open>Channel maps\<close>

text \<open>Loops that fill the cells of an array one after the other.\<close>

lemma fill_cells:
  assumes "n \<le> length xs"
    and "\<And>i s. i < n \<Longrightarrow> length (get s) = length xs \<Longrightarrow>
      f i s = do { ys \<leftarrow> arr_set (get s) (int i) (g i); Some (put ys s) }"
    and "\<And>ys s. get (put ys s) = ys" "\<And>ys zs s. put ys (put zs s) = put ys s" "get s0 = xs" "put xs s0 = s0"
  shows "for_each f [0..<n] s0 = Some (put (map g [0..<n] @ drop n xs) s0)"
  using assms(1,2)
proof (induction n)
  case 0
  then show ?case using assms(6) by simp
next
  case (Suc n)
  then have "for_each f [0..<n] s0 = Some (put (map g [0..<n] @ drop n xs) s0)" by simp
  moreover have "(map g [0..<n] @ drop n xs)[n := g n] = map g [0..<Suc n] @ drop (Suc n) xs"
    using Suc.prems(1) by (auto simp: list_update_append Cons_nth_drop_Suc [symmetric])
  ultimately show ?case using Suc.prems
    by (simp add: for_each_append arr_set_def assms(3,4))
qed

definition map_ok :: "pa_channel_map \<Rightarrow> pa_channel_position list \<Rightarrow> bool" where
  "map_ok m ps \<longleftrightarrow> unat (cm_channels m) = length ps \<and> length ps \<le> length (cm_map m) \<and>
     (\<forall>i < length ps. cm_map m ! i = Some (ps ! i))"

lemma set_positions_run:
  assumes "map_ok m ps" and "length ps \<le> length (cl_channels l)"
  shows "set_positions m l = Some (l\<lparr>cl_channels := map from_pulseaudio_channel_pos ps @ drop (length ps) (cl_channels l)\<rparr>)"
proof -
  have cells: "arr_at (cm_map m) (int i) = Some (Some (ps ! i))" if "i < length ps" for i
    using assms(1) that by (simp add: map_ok_def arr_at_def)
  have count: "unat (cm_channels m) = length ps" using assms(1) by (simp add: map_ok_def)
  have "set_positions m l =
      Some (l\<lparr>cl_channels := map (\<lambda>i. from_pulseaudio_channel_pos (ps ! i)) [0..<length ps] @ drop (length ps) (cl_channels l)\<rparr>)"
    unfolding set_positions_def count
    by (rule fill_cells [where get = cl_channels and put = "\<lambda>ys l. l\<lparr>cl_channels := ys\<rparr>"])
      (simp_all add: cells assms(2))
  moreover have "map (\<lambda>i. from_pulseaudio_channel_pos (ps ! i)) [0..<length ps] = map from_pulseaudio_channel_pos ps"
    by (rule nth_equalityI) simp_all
  ultimately show ?thesis by simp
qed

text \<open>The name is that of the built-in layout with the same channels.\<close>

definition builtin_name :: "SoundIoChannelId list \<Rightarrow> string option" where
  "builtin_name ids =
     Option.bind (List.find (\<lambda>l. layout_ids l = ids) builtin_channel_layouts) cl_name"

lemma first_index_find:
  assumes "first_index (\<lambda>i. P (xs ! i)) [0..<length xs] r"
  shows "List.find P xs = map_option ((!) xs) r"
proof (cases r)
  case None
  with assms show ?thesis by (auto simp: first_index_def find_None_iff in_set_conv_nth)
next
  case (Some i)
  with assms have "i < length xs" "P (xs ! i)" "\<forall>j<i. \<not> P (xs ! j)" by (auto simp: first_index_def)
  then show ?thesis using Some by (simp add: find_Some_iff) blast
qed

lemma set_from_map_run:
  assumes m: "map_ok m ps" and n: "length ps \<le> SOUNDIO_MAX_CHANNELS" and l: "length (cl_channels l) = SOUNDIO_MAX_CHANNELS"
  shows "\<exists>l'. set_from_pulseaudio_channel_map m l = Some l' \<and> layout_wf l' \<and>
    layout_ids l' = map from_pulseaudio_channel_pos ps \<and> cl_name l' = builtin_name (layout_ids l')"
proof -
  let ?ids = "map from_pulseaudio_channel_pos ps"
  let ?l = "l\<lparr>cl_channel_count := uint (cm_channels m), cl_channels := ?ids @ drop (length ps) (cl_channels l), cl_name := None\<rparr>"
  have count: "uint (cm_channels m) = int (length ps)" using m by (simp add: map_ok_def uint_nat)
  have wf: "layout_wf ?l" using n l by (simp add: layout_wf_def count)
  have ids: "layout_ids (l\<lparr>cl_channel_count := uint (cm_channels m), cl_channels := ?ids @ drop (length ps) (cl_channels l)\<rparr>) = ?ids"
    by (simp add: layout_ids_def count)
  have "\<exists>r. find_r (\<lambda>i. do { b \<leftarrow> soundio_channel_layout_get_builtin (int i); soundio_channel_layout_equal b ?l })
        [0..<length builtin_channel_layouts] = Some r \<and>
      first_index (\<lambda>i. layout_ids (builtin_channel_layouts ! i) = ?ids) [0..<length builtin_channel_layouts] r"
    by (rule find_r_first) (auto simp: get_builtin_in_range layout_equal_spec [OF builtin_wf wf] ids)
  then obtain r where r: "find_r (\<lambda>i. do { b \<leftarrow> soundio_channel_layout_get_builtin (int i); soundio_channel_layout_equal b ?l })
        [0..<length builtin_channel_layouts] = Some r"
      and first: "first_index (\<lambda>i. layout_ids (builtin_channel_layouts ! i) = ?ids) [0..<length builtin_channel_layouts] r"
    by blast
  have bound: "i < length builtin_channel_layouts" if "r = Some i" for i
    using first that by (simp add: first_index_def)
  have name: "builtin_name ?ids = Option.bind r (\<lambda>i. cl_name (builtin_channel_layouts ! i))"
    unfolding builtin_name_def first_index_find [OF first [folded id_def]] by (cases r) simp_all
  have run: "set_from_pulseaudio_channel_map m l =
      Some (case r of None \<Rightarrow> ?l | Some i \<Rightarrow> ?l\<lparr>cl_name := cl_name (builtin_channel_layouts ! i)\<rparr>)"
  proof -
    have "set_positions m (l\<lparr>cl_channel_count := uint (cm_channels m)\<rparr>) =
        Some (l\<lparr>cl_channel_count := uint (cm_channels m), cl_channels := ?ids @ drop (length ps) (cl_channels l)\<rparr>)"
      using set_positions_run [OF m, of "l\<lparr>cl_channel_count := uint (cm_channels m)\<rparr>"] n l by simp
    then show ?thesis using r bound
      by (cases r) (simp_all add: set_from_pulseaudio_channel_map_def soundio_channel_layout_builtin_count_def
          get_builtin_in_range)
  qed
  show ?thesis
  proof (cases r)
    case None
    with run wf ids name show ?thesis by (intro exI [of _ ?l]) simp
  next
    case (Some i)
    with run wf ids name show ?thesis
      by (intro exI [of _ "?l\<lparr>cl_name := cl_name (builtin_channel_layouts ! i)\<rparr>"])
        (simp add: layout_wf_def layout_ids_def)
  qed
qed

lemma to_map_run:
  assumes wf: "layout_wf l"
  shows "\<exists>m. to_pulseaudio_channel_map l = Some m \<and> map_ok m (map to_pulseaudio_channel_pos (layout_ids l))"
proof -
  let ?n = "nat (cl_channel_count l)"
  let ?m = "\<lparr>cm_channels = word_of_int (cl_channel_count l) :: 8 word, cm_map = replicate PA_CHANNELS_MAX None\<rparr>"
  let ?cells = "map (\<lambda>i. Some (to_pulseaudio_channel_pos (cl_channels l ! i))) [0..<?n]"
  have n: "0 \<le> cl_channel_count l" "cl_channel_count l \<le> 24" "length (cl_channels l) = 24"
    using wf by (simp_all add: layout_wf_def SOUNDIO_MAX_CHANNELS_def)
  have word: "uint (word_of_int (cl_channel_count l) :: 32 word) = cl_channel_count l"
    "uint (word_of_int (cl_channel_count l) :: 8 word) = cl_channel_count l"
    using n by (simp_all add: unsigned_of_int take_bit_int_eq_self)
  have cells: "arr_at (cl_channels l) (int i) = Some (cl_channels l ! i)" if "i < ?n" for i
    using n that by (simp add: arr_at_def)
  have "for_each (\<lambda>i channel_map. do {
         c \<leftarrow> arr_at (cl_channels l) (int i);
         cells \<leftarrow> arr_set (cm_map channel_map) (int i) (Some (to_pulseaudio_channel_pos c));
         Some (channel_map\<lparr>cm_map := cells\<rparr>)
       }) [0..<?n] ?m = Some (?m\<lparr>cm_map := ?cells @ drop ?n (replicate PA_CHANNELS_MAX None)\<rparr>)"
    by (rule fill_cells [where get = cm_map and put = "\<lambda>ys m. m\<lparr>cm_map := ys\<rparr>"])
      (use n in \<open>simp_all add: cells PA_CHANNELS_MAX_def\<close>)
  then have "to_pulseaudio_channel_map l = Some (?m\<lparr>cm_map := ?cells @ drop ?n (replicate PA_CHANNELS_MAX None)\<rparr>)"
    unfolding to_pulseaudio_channel_map_def using n by (simp add: word PA_CHANNELS_MAX_def)
  moreover have "length (layout_ids l) = ?n" using n by (simp add: layout_ids_def)
  moreover have "unat (word_of_int (cl_channel_count l) :: 8 word) = ?n"
    using word(2) by (simp add: unat_eq_nat_uint)
  ultimately show ?thesis using n
    by (intro exI [of _ "?m\<lparr>cm_map := ?cells @ drop ?n (replicate PA_CHANNELS_MAX None)\<rparr>"])
      (auto simp: map_ok_def PA_CHANNELS_MAX_def layout_ids_def nth_append)
qed


subsection \<open>Too many channels\<close>

lemma positions_overrun:
  assumes n: "SOUNDIO_MAX_CHANNELS < unat (cm_channels m)" and l: "length (cl_channels l) = SOUNDIO_MAX_CHANNELS"
  shows "set_positions m l = None"
proof -
  let ?f = "\<lambda>i channel_layout. do {
         cell \<leftarrow> arr_at (cm_map m) (int i);
         pos \<leftarrow> cell;
         channels \<leftarrow> arr_set (cl_channels channel_layout) (int i) (from_pulseaudio_channel_pos pos);
         Some (channel_layout\<lparr>cl_channels := channels\<rparr>)
       } :: SoundIoChannelLayout option"
  have split: "[0..<unat (cm_channels m)] = [0..<SOUNDIO_MAX_CHANNELS] @ SOUNDIO_MAX_CHANNELS # [Suc SOUNDIO_MAX_CHANNELS..<unat (cm_channels m)]"
    using n upt_add_eq_append [of 0 SOUNDIO_MAX_CHANNELS "unat (cm_channels m) - SOUNDIO_MAX_CHANNELS"] by (simp add: upt_conv_Cons)
  have "?f SOUNDIO_MAX_CHANNELS k = None" if "for_each ?f [0..<SOUNDIO_MAX_CHANNELS] l = Some k" for k
  proof -
    have "length (cl_channels k) = SOUNDIO_MAX_CHANNELS"
      using that l by (rule for_each_inv) (auto simp: arr_set_def Option.bind_eq_Some_conv split: if_splits)
    then show ?thesis by (simp add: arr_set_def Option.bind_eq_None_conv)
  qed
  then show ?thesis
    by (cases "for_each ?f [0..<SOUNDIO_MAX_CHANNELS] l") (simp_all add: set_positions_def split for_each_append)
qed

lemma channel_map_overrun:
  "SOUNDIO_MAX_CHANNELS < unat (cm_channels m) \<Longrightarrow> length (cl_channels l) = SOUNDIO_MAX_CHANNELS \<Longrightarrow>
   set_from_pulseaudio_channel_map m l = None"
  by (simp add: set_from_pulseaudio_channel_map_def positions_overrun)

lemma zero_layout_cells: "length (cl_channels (current_layout device_zero)) = SOUNDIO_MAX_CHANNELS"
  by (simp add: device_zero_def layout_zero_def)

subsection \<open>Properties\<close>

text \<open>C29. A layout whose channels all have a position in PulseAudio comes back with the same channels when it is
  turned into a channel map and the map into a layout, and it gets the name of the built-in layout with these
  channels, if there is one.\<close>

theorem channel_map_roundtrip:
  assumes "layout_wf l" and "\<forall>c \<in> set (layout_ids l). has_position c"
    and "length (cl_channels l0) = SOUNDIO_MAX_CHANNELS"
  shows "\<exists>m l'. to_pulseaudio_channel_map l = Some m \<and> set_from_pulseaudio_channel_map m l0 = Some l' \<and>
    soundio_channel_layout_equal l l' = Some True \<and> cl_name l' = builtin_name (layout_ids l)"
proof -
  obtain m where m: "to_pulseaudio_channel_map l = Some m" "map_ok m (map to_pulseaudio_channel_pos (layout_ids l))"
    using to_map_run [OF assms(1)] by blast
  have "length (layout_ids l) \<le> SOUNDIO_MAX_CHANNELS"
    using length_layout_ids [OF assms(1)] assms(1) by (simp add: layout_wf_def)
  then obtain l' where l': "set_from_pulseaudio_channel_map m l0 = Some l'" "layout_wf l'"
      "layout_ids l' = map from_pulseaudio_channel_pos (map to_pulseaudio_channel_pos (layout_ids l))"
      "cl_name l' = builtin_name (layout_ids l')"
    using set_from_map_run [OF m(2) _ assms(3)] by auto
  have "layout_ids l' = layout_ids l" using l'(3) assms(2) by (simp add: channel_there map_idI)
  with m(1) l' show ?thesis by (auto simp: layout_equal_spec [OF assms(1) l'(2)])
qed

text \<open>PulseAudio streams may have up to 32 channels, a layout has room for 24: when the server reports a sink
  whose channel map has more channels than that, the callback writes outside the layout.\<close>

theorem wide_sink_overruns_layout:
  assumes "SOUNDIO_MAX_CHANNELS < unat (cm_channels (info_channel_map info))"
    and "sios s si = Some x" and "device_query_err (pulseaudio x) = SoundIoErrorNone" and "answers s = []"
  shows "sink_info_callback e (Some info) si s = None"
proof (cases "info_name info = None \<or> info_description info = None")
  case True
  then show ?thesis using assms
    by (auto simp: sink_info_callback_def device_info_callback_def device_of_info_def alloc_nil strdup_def)
next
  case False
  then obtain n d where "info_name info = Some n" "info_description info = Some d" by auto
  then show ?thesis using assms zero_layout_cells
    by (simp add: sink_info_callback_def device_info_callback_def device_of_info_def alloc_nil strdup_def
        upd_dev_def rates_of_info_def Let_def set_all_device_formats_pa_def channel_map_overrun)
qed

text \<open>A sample format survives the way to PulseAudio and back exactly when it is one of the nine formats that the
  backend lists for its devices; every other format becomes the invalid one.\<close>

theorem pulse_format_roundtrip:
  "from_pulseaudio_format (pulse_spec\<lparr>ss_format := to_pulseaudio_format format\<rparr>) =
     (if format \<in> set pulse_formats then format else SoundIoFormatInvalid)"
  by (rule format_there)

definition stereo_layout :: SoundIoChannelLayout where
  "stereo_layout = layout_zero\<lparr>cl_channel_count := 2,
     cl_channels := [SoundIoChannelIdFrontLeft, SoundIoChannelIdFrontRight] @ replicate 22 SoundIoChannelIdInvalid\<rparr>"

lemma stereo_layout_wf: "layout_wf stereo_layout"
  by (simp add: stereo_layout_def layout_wf_def SOUNDIO_MAX_CHANNELS_def)

theorem channel_map_roundtrip_witness:
  "\<exists>m l'. to_pulseaudio_channel_map stereo_layout = Some m \<and> set_from_pulseaudio_channel_map m layout_zero = Some l' \<and>
    cl_name l' = Some ''Stereo''"
proof -
  have ids: "layout_ids stereo_layout = [SoundIoChannelIdFrontLeft, SoundIoChannelIdFrontRight]"
    by (simp add: stereo_layout_def layout_ids_def)
  have "\<forall>c \<in> set (layout_ids stereo_layout). has_position c"
    by (simp add: ids has_position_def to_pulseaudio_channel_pos_def)
  moreover have "length (cl_channels layout_zero) = SOUNDIO_MAX_CHANNELS" by (simp add: layout_zero_def)
  moreover have "builtin_name [SoundIoChannelIdFrontLeft, SoundIoChannelIdFrontRight] = Some ''Stereo''"
    by code_simp
  ultimately show ?thesis using channel_map_roundtrip [OF stereo_layout_wf, of layout_zero] by (auto simp: ids)
qed

definition wide_sink :: pa_device_info where
  "wide_sink = \<lparr>info_name = Some ''usb'', info_description = Some ''USB interface'',
     info_sample_spec = \<lparr>ss_format = PA_SAMPLE_S32LE, ss_rate = 48000, ss_channels = 26\<rparr>,
     info_channel_map = \<lparr>cm_channels = 26, cm_map = replicate 32 (Some (PA_CHANNEL_POSITION_OTHER 0))\<rparr>\<rparr>"

theorem wide_sink_overruns_layout_witness:
  "\<forall>e :: (unit, unit) pulse_env. sink_info_callback e (Some wide_sink) 0 ((lib_start [] ())\<lparr>sios := [0 \<mapsto> sio_create]\<rparr>) = None"
proof
  fix e :: "(unit, unit) pulse_env"
  show "sink_info_callback e (Some wide_sink) 0 ((lib_start [] ())\<lparr>sios := [0 \<mapsto> sio_create]\<rparr>) = None"
    by (rule wide_sink_overruns_layout [where x = sio_create])
      (simp_all add: wide_sink_def SOUNDIO_MAX_CHANNELS_def sio_create_def pulse_zero_def lib_start_def os_start_def os.defs)
qed

end
