(* ===== verification/PulseWait.thy ===== *)
theory PulseWait
  imports SoundIo JackEvents
begin

section \<open>What a wait for PulseAudio can change\<close>

text \<open>
  While the backend waits, callbacks run. A relation between states that every elementary change
  of the callbacks obeys is obeyed by all the waiting code: the locale \<open>wait_frame\<close> names
  these changes, and its lemmas lift the relation to callbacks, waits, operations and the scan
  of the devices. It is used with three relations: the locks of the main loops are held as often
  afterwards as before, nothing that tells the application about the loss of the server happens,
  and a connection whose state is known stays so.
\<close>

subsection \<open>Runs that obey a relation\<close>

text \<open>\<open>leads\<close>: the state in the result of a run, if it has one, is related to the first state.\<close>

definition leads :: "('s \<Rightarrow> 's \<Rightarrow> bool) \<Rightarrow> 's \<Rightarrow> 'r option \<Rightarrow> ('r \<Rightarrow> 's) \<Rightarrow> bool" where
  "leads R s m st \<longleftrightarrow> (\<forall>r. m = Some r \<longrightarrow> R s (st r))"

definition obeys :: "('s \<Rightarrow> 's \<Rightarrow> bool) \<Rightarrow> ('s \<Rightarrow> 's option) \<Rightarrow> bool" where
  "obeys R act \<longleftrightarrow> (\<forall>s. leads R s (act s) (\<lambda>t. t))"

definition obeys_result :: "('s \<Rightarrow> 's \<Rightarrow> bool) \<Rightarrow> ('s \<Rightarrow> ('a \<times> 's) option) \<Rightarrow> bool" where
  "obeys_result R act \<longleftrightarrow> (\<forall>s. leads R s (act s) snd)"

definition obeys_pair :: "('s \<Rightarrow> 's \<Rightarrow> bool) \<Rightarrow> ('s \<Rightarrow> 'a \<times> 's) \<Rightarrow> bool" where
  "obeys_pair R act \<longleftrightarrow> (\<forall>s. R s (snd (act s)))"

lemma obeysI: "(\<And>s. leads R s (act s) (\<lambda>t. t)) \<Longrightarrow> obeys R act"
  by (simp add: obeys_def)

lemma obeys_resultI: "(\<And>s. leads R s (act s) snd) \<Longrightarrow> obeys_result R act"
  by (simp add: obeys_result_def)

lemma obeysD: "obeys R act \<Longrightarrow> act s = Some t \<Longrightarrow> R s t"
  by (simp add: obeys_def leads_def)

lemma obeys_resultD: "obeys_result R act \<Longrightarrow> act s = Some (a, t) \<Longrightarrow> R s t"
  by (fastforce simp: obeys_result_def leads_def)

lemma obeys_pairD: "obeys_pair R act \<Longrightarrow> act s = (a, t) \<Longrightarrow> R s t"
  by (metis obeys_pair_def snd_conv)

text \<open>
  Following a run step by step: each call leads on from the state before it, each value that is
  only read leaves the state alone. A relation \<open>Q\<close> may be followed through steps that obey \<open>R\<close> when
  steps of \<open>R\<close> can be put in front of it.
\<close>

definition prefix_of :: "('s \<Rightarrow> 's \<Rightarrow> bool) \<Rightarrow> ('s \<Rightarrow> 's \<Rightarrow> bool) \<Rightarrow> bool" where
  "prefix_of R Q \<longleftrightarrow> (\<forall>s t u. R s t \<longrightarrow> Q t u \<longrightarrow> Q s u)"

lemma lead_done: "Q s (st r) \<Longrightarrow> leads Q s (Some r) st"
  by (simp add: leads_def)

lemma lead_fail: "leads Q s None st"
  by (simp add: leads_def)

lemma lead_read: "(\<And>x. m = Some x \<Longrightarrow> leads Q s (k x) st) \<Longrightarrow> leads Q s (Option.bind m k) st"
  by (auto simp: leads_def Option.bind_eq_Some_conv)

lemma lead_call:
  "prefix_of R Q \<Longrightarrow> obeys R act \<Longrightarrow> R s u \<Longrightarrow> (\<And>v. leads Q v (k v) st) \<Longrightarrow> leads Q s (Option.bind (act u) k) st"
  by (auto simp: leads_def Option.bind_eq_Some_conv prefix_of_def dest!: obeysD)

lemma lead_result:
  "prefix_of R Q \<Longrightarrow> obeys_result R act \<Longrightarrow> R s u \<Longrightarrow> (\<And>a v. leads Q v (f a v) st) \<Longrightarrow>
   leads Q s (Option.bind (act u) (\<lambda>r. case r of (a, v) \<Rightarrow> f a v)) st"
  by (auto simp: leads_def Option.bind_eq_Some_conv prefix_of_def dest!: obeys_resultD)

lemma lead_pair:
  "prefix_of R Q \<Longrightarrow> obeys_pair R act \<Longrightarrow> R s u \<Longrightarrow> (\<And>a v. leads Q v (f a v) st) \<Longrightarrow>
   leads Q s (case act u of (a, v) \<Rightarrow> f a v) st"
  by (auto simp: leads_def prefix_of_def dest!: obeys_pairD split: prod.splits)

text \<open>A choice between two runs in the middle of a run.\<close>

lemma lead_choice:
  "prefix_of R Q \<Longrightarrow> leads R s (if b then m else n) (\<lambda>v. v) \<Longrightarrow> (\<And>v. leads Q v (k v) st) \<Longrightarrow>
   leads Q s (Option.bind (if b then m else n) k) st"
  by (auto simp: leads_def Option.bind_eq_Some_conv prefix_of_def split: if_splits)

lemma lead_if: "(b \<Longrightarrow> leads Q s m st) \<Longrightarrow> (\<not> b \<Longrightarrow> leads Q s n st) \<Longrightarrow> leads Q s (if b then m else n) st"
  by simp

lemma lead_option:
  "leads Q s m st \<Longrightarrow> (\<And>x. leads Q s (f x) st) \<Longrightarrow> leads Q s (case q of None \<Rightarrow> m | Some x \<Rightarrow> f x) st"
  by (cases q) simp_all

lemmas lead_reads =
  lead_read [where m = "sios u si" for si u]
  lead_read [where m = "devices u p" for p u]
  lead_read [where m = "infos u q" for q u]
  lead_read [where m = "outstreams u p" for p u]
  lead_read [where m = "instreams u p" for p u]
  lead_read [where m = "c_assert b" for b]
  lead_read [where m = "info_name i" for i]
  lead_read [where m = "info_description i" for i]
  lead_read [where m = "info_default_sink_name i" for i]
  lead_read [where m = "info_default_source_name i" for i]
  lead_read [where m = "set_from_pulseaudio_channel_map m l" for l m]
  lead_read [where m = "copy_builtin_layouts xs" for xs]
  lead_read [where m = "pulse_context a" for a]
  lead_read [where m = "main_loop a" for a]
  lead_read [where m = "current_devices_info a" for a]
  lead_read [where m = "os_device a" for a]
  lead_read [where m = "is_device a" for a]
  lead_read [where m = "dev_soundio a" for a]
  lead_read [where m = "default_device_index a l n u" for a l n u]
  lead_read [where m = "size_div n d" for d n]
  lead_read [where m = "pulse_loop si u" for si u]
  lead_read [where m = "ospa_stream a" for a]
  lead_read [where m = "ispa_stream a" for a]
  lead_read [where m = "to_pulseaudio_channel_map l" for l]
  lead_read [where m = "c_int n" for n]
  lead_read [where m = "pulse_buffer_length a b r" for a b r]
  lead_read [where m = "dbl_div r q" for q r]
  lead_read [where m = "instream_attr a" for a]

subsection \<open>The elementary changes\<close>

text \<open>Changes of the backend's struct that a callback or a scan may make.\<close>

definition quiet_change :: "(SoundIoPulseAudio \<Rightarrow> SoundIoPulseAudio) \<Rightarrow> bool" where
  "quiet_change f \<longleftrightarrow> (\<forall>a. pulse_emitted_shutdown_cb (f a) = pulse_emitted_shutdown_cb a \<and>
     main_loop (f a) = main_loop a \<and> pulse_context (f a) = pulse_context a \<and> (ready_flag a \<longrightarrow> ready_flag (f a)))"

locale wait_frame =
  fixes e :: "('j, 'z) pulse_env"
    and R :: "('j, 'z) jsio_scheme \<Rightarrow> ('j, 'z) jsio_scheme \<Rightarrow> bool"
  assumes refl: "R s s"
    and trans: "R s t \<Longrightarrow> R t u \<Longrightarrow> R s u"
    and heap: "devs.more t = devs.more s \<Longrightarrow> R s t"
    and worlds: "R s (s\<lparr>world := w\<rparr>)"
    and sipa: "quiet_change f \<Longrightarrow> upd_sipa si f s = Some t \<Longrightarrow> R s t"
    and outs: "upd_out p g s = Some t \<Longrightarrow> R s t"
    and ins: "upd_in p h s = Some t \<Longrightarrow> R s t"
    and emits: "\<forall>si err. ev \<noteq> BackendDisconnect si err \<Longrightarrow> R s (emit ev s)"
    and app_write: "write_callback e p n m s = Some t \<Longrightarrow> R s t"
    and app_read: "read_callback e p n m s = Some t \<Longrightarrow> R s t"
begin

lemma mem: "mem.more t = mem.more s \<Longrightarrow> R s t"
  by (rule heap) (rule mem_devs)

lemma state_rules:
  "R s t \<Longrightarrow> R s (the_world f t)" "R s t \<Longrightarrow> R s (t\<lparr>devices := d\<rparr>)" "R s t \<Longrightarrow> R s (t\<lparr>infos := i\<rparr>)"
  "\<forall>si err. ev \<noteq> BackendDisconnect si err \<Longrightarrow> R s t \<Longrightarrow> R s (emit ev t)"
proof -
  have "R t (t\<lparr>devices := d\<rparr>)" "R t (t\<lparr>infos := i\<rparr>)" by (rule heap, simp)+
  then show "R s t \<Longrightarrow> R s (t\<lparr>devices := d\<rparr>)" "R s t \<Longrightarrow> R s (t\<lparr>infos := i\<rparr>)" by (blast intro: trans)+
  show "R s t \<Longrightarrow> R s (the_world f t)" unfolding the_world_def by (blast intro: trans worlds)
  show "\<forall>si err. ev \<noteq> BackendDisconnect si err \<Longrightarrow> R s t \<Longrightarrow> R s (emit ev t)" by (blast intro: trans emits)
qed

lemma elementary:
  "obeys R (upd_dev p f)" "obeys R (upd_info q g)" "obeys R (soundio_device_unref d)"
  "obeys R (soundio_destroy_devices_info i)" "obeys R (free_blk b)" "obeys R (upd_out o' h)" "obeys R (upd_in i' k)"
  "quiet_change c \<Longrightarrow> obeys R (upd_sipa si c)" "obeys R (write_callback e a n m)" "obeys R (read_callback e a n m)"
proof -
  have "upd_dev p f s = Some t \<Longrightarrow> devs.more t = devs.more s" "upd_info q g s = Some t \<Longrightarrow> devs.more t = devs.more s"
    for s t :: "('j, 'z) jsio_scheme"
    by (auto simp: upd_defs Option.bind_eq_Some_conv)
  then show "obeys R (upd_dev p f)" "obeys R (upd_info q g)"
    by (auto simp: obeys_def leads_def intro: heap)
  show "obeys R (soundio_device_unref d)" "obeys R (soundio_destroy_devices_info i)" "obeys R (free_blk b)"
    "obeys R (upd_out o' h)" "obeys R (upd_in i' k)" "obeys R (write_callback e a n m)" "obeys R (read_callback e a n m)"
    by (auto simp: obeys_def leads_def outs ins app_write app_read
        dest!: unref_silent [THEN heap] destroy_info_silent [THEN heap] free_silent [THEN mem])
  show "quiet_change c \<Longrightarrow> obeys R (upd_sipa si c)" by (simp add: obeys_def leads_def sipa)
qed

lemma elementary_pairs: "obeys_pair R alloc" "obeys_pair R (strdup str)" "obeys_pair R (in_world f)"
proof -
  have alloc: "R s (snd (alloc s))" for s by (rule mem) (metis alloc_silent prod.collapse)
  then show "obeys_pair R alloc" "obeys_pair R (strdup str)"
    by (auto simp: obeys_pair_def strdup_def case_prod_unfold Let_def)
  show "obeys_pair R (in_world f)" by (simp add: obeys_pair_def in_world_def case_prod_unfold Let_def worlds)
qed

text \<open>The rules for following a run, for this relation.\<close>

lemma self: "prefix_of R R"
  by (auto simp: prefix_of_def intro: trans)

lemma last_rule: "obeys R act \<Longrightarrow> R s u \<Longrightarrow> leads R s (act u) (\<lambda>v. v)"
  by (auto simp: leads_def dest: obeysD intro: trans)

lemma last_result_rule: "obeys_result R act \<Longrightarrow> R s u \<Longrightarrow> leads R s (act u) snd"
  by (auto simp: leads_def dest!: obeys_resultD intro: trans)

lemmas call_rule = lead_call [OF self]
lemmas result_rule = lead_result [OF self]
lemmas pair_rule = lead_pair [OF self]

lemmas calls = elementary(1-7) [THEN call_rule] elementary(9,10) [THEN call_rule] call_rule [OF elementary(8)]
  elementary_pairs [THEN pair_rule]

lemmas walk = lead_done lead_fail calls last_rule [OF elementary(8)] elementary(1-7) [THEN last_rule]
  elementary(9,10) [THEN last_rule] lead_reads lead_if lead_option lead_choice [OF self]

subsection \<open>Callbacks\<close>

lemma signal: "obeys R (pulse_signal e si)"
  unfolding pulse_signal_def by (intro obeysI walk; simp add: refl state_rules)

lemma layouts: "obeys_result R (set_all_device_channel_layouts_pa p)"
  unfolding set_all_device_channel_layouts_pa_def set_all_device_channel_layouts_def Let_def
  by (intro obeys_resultI walk; simp add: refl state_rules)

lemma formats: "obeys_result R (set_all_device_formats_pa p)"
  unfolding set_all_device_formats_pa_def Let_def by (intro obeys_resultI walk; simp add: refl state_rules)

lemma failed: "obeys R (query_failed d si)"
  unfolding query_failed_def by (intro obeysI walk; simp add: refl quiet_change_def)

lemma append: "obeys_result R (append_device a q p)"
proof (rule obeys_resultI)
  fix s :: "('j, 'z) jsio_scheme"
  have "R s t" if "list_append p l s = Some (err, l', t)" for l err l' t
    by (rule mem) (rule list_append_silent [OF that])
  then show "leads R s (append_device a q p s) snd"
    by (fastforce simp: append_device_def leads_def Option.bind_eq_Some_conv dest!: obeysD [OF elementary(2)] intro: trans)
qed

lemma device: "obeys R (device_of_info a info si)"
  unfolding device_of_info_def Let_def
  by (intro obeysI walk result_rule [OF formats] result_rule [OF layouts] result_rule [OF append] last_rule [OF failed];
      simp add: refl state_rules)

lemma info: "obeys R (device_info_callback e a info si)"
  unfolding device_info_callback_def
  by (intro obeysI walk last_rule [OF signal] last_rule [OF device]; simp add: refl)

lemma server: "obeys R (server_info_callback e info si)"
  unfolding server_info_callback_def Let_def
  by (intro obeysI walk last_rule [OF signal]; simp add: refl quiet_change_def)

lemma subscribe: "obeys R (subscribe_callback e si)"
  unfolding subscribe_callback_def
  by (intro obeysI walk call_rule [OF signal]; simp add: refl quiet_change_def state_rules)

lemma stream_error:
  "obeys R (outstream_error_callback p err)" "obeys R (instream_error_callback p err)"
  unfolding outstream_error_callback_def instream_error_callback_def
  by (intro obeysI walk; simp add: refl state_rules)+

lemma context_state: "obeys R (context_state_callback e c si)"
proof (rule obeysI)
  fix s :: "('j, 'z) jsio_scheme"
  show "leads R s (context_state_callback e c si s) (\<lambda>t. t)"
    unfolding context_state_callback_def
    by (rule lead_reads(1), cases "pa_context_get_state (pa e) c (world s)"; simp only: pa_context_state.case;
      intro walk call_rule [OF signal] last_rule [OF signal]; simp add: refl quiet_change_def state_rules)
qed

lemma playback_state: "obeys R (playback_stream_state_callback e st p)"
proof (rule obeysI)
  fix s :: "('j, 'z) jsio_scheme"
  show "leads R s (playback_stream_state_callback e st p s) (\<lambda>t. t)"
    unfolding playback_stream_state_callback_def
    by (intro lead_reads, cases "pa_stream_get_state (pa e) st (world s)"; simp only: pa_stream_state.case;
      intro walk last_rule [OF signal] last_rule [OF stream_error(1)]; simp add: refl)
qed

lemma recording_state: "obeys R (recording_stream_state_callback e st p)"
proof (rule obeysI)
  fix s :: "('j, 'z) jsio_scheme"
  show "leads R s (recording_stream_state_callback e st p s) (\<lambda>t. t)"
    unfolding recording_stream_state_callback_def
    by (intro lead_reads, cases "pa_stream_get_state (pa e) st (world s)"; simp only: pa_stream_state.case;
      intro walk last_rule [OF signal] last_rule [OF stream_error(2)]; simp add: refl)
qed

lemma stream_data:
  "obeys R (playback_stream_write_callback e n p)" "obeys R (recording_stream_read_callback e n p)"
  "obeys R (playback_stream_underflow_callback p)"
  unfolding playback_stream_write_callback_def recording_stream_read_callback_def playback_stream_underflow_callback_def
  by (intro obeysI walk; simp add: refl state_rules)+

lemma call_back: "obeys R (call_back e cb)"
  by (cases cb) (simp_all add: call_back_def sink_info_callback_def source_info_callback_def timing_update_callback_def
      [abs_def] subscribe context_state info server signal playback_state recording_state stream_data)

subsection \<open>Waits\<close>

lemma run_callbacks: "obeys R (run_callbacks e l n)"
proof (induction n)
  case 0
  then show ?case by (simp add: obeys_def leads_def refl)
next
  case (Suc n)
  have eq: "run_callbacks e l (Suc n) = (\<lambda>s. case in_world (pa_next_callback (pa e) l) s of
      (cb, s) \<Rightarrow> Option.bind (call_back e cb s) (run_callbacks e l n))"
    by (rule ext) simp
  show ?case unfolding eq
    by (intro obeysI elementary_pairs(3) [THEN pair_rule] call_rule [OF call_back] last_rule [OF Suc.IH] refl)
qed

lemma wait: "obeys R (pa_threaded_mainloop_wait e l)"
proof (rule obeysI)
  fix s :: "('j, 'z) jsio_scheme"
  show "leads R s (pa_threaded_mainloop_wait e l s) (\<lambda>t. t)"
    unfolding pa_threaded_mainloop_wait_def by (intro walk last_rule [OF run_callbacks] refl)
qed

lemma operation_loop: "obeys_result R (operation_loop e si act)"
proof (rule obeys_resultI)
  fix s :: "('j, 'z) jsio_scheme"
  have "R s (snd r)" if "operation_loop e si act s = Some r" for r
    by (rule operation_loop.raw_induct [of "\<lambda>e' si act s r. e' = e \<longrightarrow> R s (snd r)", rule_format, OF _ that HOL.refl])
      (auto simp: Option.bind_eq_Some_conv refl state_rules dest!: obeysD [OF wait] intro: trans split: if_splits)
  then show "leads R s (operation_loop e si act s) snd" by (simp add: leads_def)
qed

lemma operation: "obeys_result R (perform_operation e si act)"
  unfolding perform_operation_def by (intro obeys_resultI walk last_result_rule [OF operation_loop]; simp add: refl)

lemma until_ready: "obeys R (wait_until_ready e l si)"
proof (rule obeysI)
  fix s :: "('j, 'z) jsio_scheme"
  have "R s t" if "wait_until_ready e l si s = Some t" for t
    by (rule wait_until_ready.raw_induct [of "\<lambda>e' l si s t. e' = e \<longrightarrow> R s t", rule_format, OF _ that HOL.refl])
      (auto simp: Option.bind_eq_Some_conv refl dest!: obeysD [OF wait] intro: trans split: if_splits)
  then show "leads R s (wait_until_ready e l si s) (\<lambda>t. t)" by (simp add: leads_def)
qed

lemma playback_ready: "obeys R (wait_playback_ready e l p)"
proof (rule obeysI)
  fix s :: "('j, 'z) jsio_scheme"
  have "R s t" if "wait_playback_ready e l p s = Some t" for t
    by (rule wait_playback_ready.raw_induct [of "\<lambda>e' l p s t. e' = e \<longrightarrow> R s t", rule_format, OF _ that HOL.refl])
      (auto simp: Option.bind_eq_Some_conv refl dest!: obeysD [OF wait] intro: trans split: if_splits)
  then show "leads R s (wait_playback_ready e l p s) (\<lambda>t. t)" by (simp add: leads_def)
qed

lemma recording_ready: "obeys R (wait_recording_ready e l p)"
proof (rule obeysI)
  fix s :: "('j, 'z) jsio_scheme"
  have "R s t" if "wait_recording_ready e l p s = Some t" for t
    by (rule wait_recording_ready.raw_induct [of "\<lambda>e' l p s t. e' = e \<longrightarrow> R s t", rule_format, OF _ that HOL.refl])
      (auto simp: Option.bind_eq_Some_conv refl dest!: obeysD [OF wait] intro: trans split: if_splits)
  then show "leads R s (wait_recording_ready e l p s) (\<lambda>t. t)" by (simp add: leads_def)
qed

subsection \<open>The scan\<close>

lemma cleanup: "obeys R (cleanup_refresh_devices si)"
  unfolding cleanup_refresh_devices_def by (intro obeysI walk; simp add: refl quiet_change_def)

lemma publish: "obeys_result R (publish_devices e si)"
  unfolding publish_devices_def Let_def
  by (intro obeys_resultI walk call_rule [OF signal]; simp add: refl quiet_change_def state_rules)

lemma refresh: "obeys_result R (refresh_devices_pa e si)"
  unfolding refresh_devices_pa_def Let_def
  by (intro obeys_resultI walk result_rule [OF operation] last_result_rule [OF publish];
      simp add: refl quiet_change_def state_rules)

lemma queued: "obeys R (queued_scan e si)"
  unfolding queued_scan_def
  by (intro obeysI walk result_rule [OF refresh] last_rule [OF cleanup]; simp add: refl quiet_change_def)

end

end
