(* ===== verification/PulseLock.thy ===== *)
theory PulseLock
  imports PulseWait
begin

section \<open>The lock of the main loop\<close>

text \<open>
  Every operation of the backend that takes the lock of the main loop gives it back, on every
  path and whatever happens while it waits, except one: the error path of the function that pauses
  an input stream (theory PulseErrors says what that one leaves).
\<close>

definition same_locks :: "('j, 'z) jsio_scheme \<Rightarrow> ('j, 'z) jsio_scheme \<Rightarrow> bool" where
  "same_locks s t \<longleftrightarrow> loop_locks t = loop_locks s"

text \<open>A run that gives back one lock on \<open>l\<close>.\<close>

definition gives_back :: "nat \<Rightarrow> ('j, 'z) jsio_scheme \<Rightarrow> ('j, 'z) jsio_scheme \<Rightarrow> bool" where
  "gives_back l s t \<longleftrightarrow> loop_locks s = (loop_locks t)(l := Suc (loop_locks t l))"

lemma gives_back_prefix: "prefix_of same_locks (gives_back l)"
  by (simp add: prefix_of_def same_locks_def gives_back_def)

lemma taken_inj: "f(l := Suc (f l)) = g(l := Suc (g l)) \<Longrightarrow> g = f" for f g :: "nat \<Rightarrow> nat"
proof
  fix x
  assume eq: "f(l := Suc (f l)) = g(l := Suc (g l))"
  show "g x = f x" using fun_cong [OF eq, of x] by (auto split: if_splits)
qed

lemma lead_lock:
  assumes "same_locks s u" and "\<And>v. leads (gives_back l) v (k v) st"
  shows "leads same_locks s (Option.bind (pa_threaded_mainloop_lock e l u) k) st"
proof -
  let ?v = "u\<lparr>loop_locks := (loop_locks s)(l := Suc (loop_locks s l))\<rparr>"
  have "loop_locks (st r) = loop_locks s" if "k ?v = Some r" for r
    using assms(2) [of ?v] that by (auto simp: leads_def gives_back_def dest: taken_inj)
  then show ?thesis using assms(1)
    by (auto simp: leads_def Option.bind_eq_Some_conv pa_threaded_mainloop_lock_def same_locks_def)
qed

lemma unlock_gives_back: "pa_threaded_mainloop_unlock e l s = Some t \<Longrightarrow> gives_back l s t"
  by (auto simp: pa_threaded_mainloop_unlock_def Option.bind_eq_Some_conv gives_back_def)

lemma lead_unlock:
  assumes "same_locks s u" and "\<And>v. leads same_locks v (k v) st"
  shows "leads (gives_back l) s (Option.bind (pa_threaded_mainloop_unlock e l u) k) st"
  using assms by (auto simp: leads_def Option.bind_eq_Some_conv same_locks_def gives_back_def dest!: unlock_gives_back)

lemma lead_unlock_last:
  "same_locks s u \<Longrightarrow> leads (gives_back l) s (pa_threaded_mainloop_unlock e l u) (\<lambda>v. v)"
  by (auto simp: leads_def same_locks_def gives_back_def dest!: unlock_gives_back)

locale lock_frame = wait_frame e same_locks for e :: "('j, 'z) pulse_env"
begin

lemmas locked_call = lead_call [OF gives_back_prefix]
lemmas locked_result = lead_result [OF gives_back_prefix]

lemmas locked = lead_unlock lead_unlock_last elementary(1-7) [THEN locked_call] elementary(9,10) [THEN locked_call]
  elementary_pairs [THEN lead_pair [OF gives_back_prefix]]
  locked_call [OF signal] locked_call [OF queued] locked_call [OF until_ready] locked_call [OF playback_ready]
  locked_call [OF recording_ready] locked_result [OF operation] lead_choice [OF gives_back_prefix]
  lead_done lead_reads lead_if lead_option

lemma upd_sio: "obeys same_locks (upd_sio si f)"
  by (auto simp: obeys_def leads_def same_locks_def upd_sio_def Option.bind_eq_Some_conv)

lemma disconnect: "obeys same_locks (on_backend_disconnect si err)"
  unfolding on_backend_disconnect_def
  by (intro obeysI lead_reads; auto simp: leads_def same_locks_def emit_def)

lemmas run = obeysI lead_lock locked locked_call [OF upd_sio] elementary(1-7) [THEN call_rule] elementary(9,10) [THEN call_rule]
  elementary_pairs [THEN pair_rule] call_rule [OF signal] call_rule [OF upd_sio] elementary(1-7) [THEN last_rule]
  last_rule [OF upd_sio] last_rule [OF wait] last_rule [OF disconnect] lead_choice [OF self]

lemma flush: "obeys same_locks (my_flush_events_pa e si wait)"
  unfolding my_flush_events_pa_def Let_def by (intro run; simp add: refl state_rules)

lemma wakeup: "obeys same_locks (wakeup_pa e si)"
  unfolding wakeup_pa_def by (intro run; simp add: refl)

lemma force_scan: "obeys same_locks (force_device_scan_pa e si)"
  unfolding force_device_scan_pa_def Let_def by (intro run; simp add: refl state_rules quiet_change_def)

subsection \<open>Streams\<close>

lemma destroy_out: "obeys same_locks (outstream_destroy_pa e si p)"
  unfolding outstream_destroy_pa_def Let_def by (intro run; simp add: refl state_rules)

lemma destroy_in: "obeys same_locks (instream_destroy_pa e si p)"
  unfolding instream_destroy_pa_def Let_def by (intro run; simp add: refl state_rules)

lemma cork: "obeys_pair same_locks (cork_if_needed e st pause)"
  by (auto simp: obeys_pair_def cork_if_needed_def in_world_def the_world_def same_locks_def split: prod.splits option.splits)

lemma connect_out: "leads (gives_back l) s (outstream_connect_pa e si l p st s) snd"
  unfolding outstream_connect_pa_def Let_def
  by (intro run lead_read [where m = "(if b then m else n) :: pa_buffer_attr option" for b m n]; simp add: refl state_rules)

lemma open_out: "obeys_result same_locks (outstream_open_pa e si p)"
  unfolding outstream_open_pa_def Let_def
  by (intro obeys_resultI run connect_out call_rule [OF destroy_out]; simp add: refl state_rules)

lemma start_out: "obeys_result same_locks (outstream_start_pa e si p)"
  unfolding outstream_start_pa_def Let_def by (intro obeys_resultI run; simp add: refl state_rules)

lemma open_in: "obeys_result same_locks (instream_open_pa e si p)"
  unfolding instream_open_pa_def Let_def
  by (intro obeys_resultI run call_rule [OF destroy_in]; simp add: refl state_rules)

lemma start_in: "obeys_result same_locks (instream_start_pa e si p)"
  unfolding instream_start_pa_def Let_def
  by (intro obeys_resultI run; simp add: refl state_rules)

subsection \<open>Connecting\<close>

lemma subscribe_op: "obeys_result same_locks (subscribe_to_events e si)"
  unfolding subscribe_to_events_def Let_def by (intro obeys_resultI run; simp add: refl state_rules)

lemma worlds_do: "obeys same_locks (world_do f)"
  by (auto simp: obeys_def leads_def world_do_def same_locks_def Option.bind_eq_Some_conv)

lemma destroy: "obeys same_locks (destroy_pa e si)"
proof -
  have "same_locks s (case q of None \<Rightarrow> u | Some x \<Rightarrow> the_world (f x) u)" if "same_locks s u" for s u :: "('j, 'z) jsio_scheme" and q f
    using that by (cases q) (simp_all add: state_rules)
  note keeps = this
  show ?thesis
    unfolding destroy_pa_def Let_def
    by (intro run call_rule [OF worlds_do]; simp add: refl keeps)
qed

lemma init_failed: "obeys_result same_locks (pulse_init_failed e si err)"
  unfolding pulse_init_failed_def by (intro obeys_resultI run call_rule [OF destroy]; simp add: refl)

lemma init_connected: "obeys_result same_locks (pulse_init_connected e si l)"
  unfolding pulse_init_connected_def Let_def
  by (intro obeys_resultI run call_rule [OF destroy] locked_result [OF subscribe_op] last_result_rule [OF init_failed];
      simp add: refl)

lemma init: "obeys_result same_locks (soundio_pulseaudio_init e si)"
  unfolding soundio_pulseaudio_init_def pulse_init_context_def Let_def
  by (intro obeys_resultI run last_result_rule [OF init_failed] last_result_rule [OF init_connected];
      simp add: refl state_rules)

end

subsection \<open>Applications\<close>

text \<open>What an application must not do in its data callbacks: a relation that both callbacks obey.\<close>

definition callbacks_obey ::
  "(('j, 'z) jsio_scheme \<Rightarrow> ('j, 'z) jsio_scheme \<Rightarrow> bool) \<Rightarrow> ('j, 'z) pulse_env \<Rightarrow> bool" where
  "callbacks_obey R e \<longleftrightarrow> (\<forall>p n m. obeys R (write_callback e p n m) \<and> obeys R (read_callback e p n m))"

lemma callbacks_obeyD:
  "callbacks_obey R e \<Longrightarrow> write_callback e p n m s = Some t \<Longrightarrow> R s t"
  "callbacks_obey R e \<Longrightarrow> read_callback e p n m s = Some t \<Longrightarrow> R s t"
  by (blast dest: callbacks_obey_def [THEN iffD1] obeysD)+

lemma lock_frameI: "callbacks_obey same_locks e \<Longrightarrow> lock_frame e"
proof unfold_locales
  fix s t :: "('j, 'z) jsio_scheme"
  show "devs.more t = devs.more s \<Longrightarrow> same_locks s t" by (cases s, cases t) (simp add: same_locks_def)
qed (auto simp: same_locks_def upd_defs emit_def Option.bind_eq_Some_conv dest: callbacks_obeyD)

text \<open>
  An application that plays and records: its callbacks transfer as much as they are offered, with
  the functions of the backend.
\<close>

definition bare_env :: "'j pa_api \<Rightarrow> ('j, 'z) pulse_env" where
  "bare_env api = \<lparr>pa = api, write_callback = (\<lambda>p n m s. Some s), read_callback = (\<lambda>p n m s. Some s)\<rparr>"

definition play_all :: "'j pa_api \<Rightarrow> ('j, 'z) jsio_ext callback" where
  "play_all api p n m s = do {
     (err, areas, frame_count, s) \<leftarrow> outstream_begin_write_pa (bare_env api) p m s;
     if err \<noteq> SoundIoErrorNone then Some s
     else do {
       (err, s) \<leftarrow> outstream_end_write_pa (bare_env api) p s;
       Some s
     }
   }"

definition record_all :: "'j pa_api \<Rightarrow> ('j, 'z) jsio_ext callback" where
  "record_all api p n m s = do {
     (err, areas, frame_count, s) \<leftarrow> instream_begin_read_pa (bare_env api) p m s;
     if err \<noteq> SoundIoErrorNone then Some s
     else do {
       (err, s) \<leftarrow> instream_end_read_pa (bare_env api) p s;
       Some s
     }
   }"

definition player :: "'j pa_api \<Rightarrow> ('j, 'z) pulse_env" where
  "player api = \<lparr>pa = api, write_callback = play_all api, read_callback = record_all api\<rparr>"

text \<open>Such an application changes its streams and the libraries, nothing else.\<close>

definition streams_only :: "('j, 'z) jsio_scheme \<Rightarrow> ('j, 'z) jsio_scheme \<Rightarrow> bool" where
  "streams_only s t \<longleftrightarrow> (\<exists>o1 i1 w. t = s\<lparr>outstreams := o1, instreams := i1, world := w\<rparr>)"

lemma streams_only_refl: "streams_only s s"
proof -
  have "s = s\<lparr>outstreams := outstreams s, instreams := instreams s, world := world s\<rparr>" by simp
  then show ?thesis unfolding streams_only_def by blast
qed

lemma streams_only_trans: "streams_only s t \<Longrightarrow> streams_only t u \<Longrightarrow> streams_only s u"
proof -
  assume "streams_only s t" and "streams_only t u"
  then obtain o1 i1 w o2 i2 v where "t = s\<lparr>outstreams := o1, instreams := i1, world := w\<rparr>"
      "u = t\<lparr>outstreams := o2, instreams := i2, world := v\<rparr>"
    by (auto simp: streams_only_def)
  then have "u = s\<lparr>outstreams := o2, instreams := i2, world := v\<rparr>" by simp
  then show "streams_only s u" unfolding streams_only_def by blast
qed

lemma streams_only_prefix: "prefix_of streams_only streams_only"
  by (auto simp: prefix_of_def intro: streams_only_trans)

lemma streams_only_upd:
  "streams_only s (s\<lparr>outstreams := o1\<rparr>)" "streams_only s (s\<lparr>instreams := i1\<rparr>)" "streams_only s (s\<lparr>world := w\<rparr>)"
proof -
  have "s\<lparr>outstreams := o1\<rparr> = s\<lparr>outstreams := o1, instreams := instreams s, world := world s\<rparr>"
    "s\<lparr>instreams := i1\<rparr> = s\<lparr>outstreams := outstreams s, instreams := i1, world := world s\<rparr>"
    "s\<lparr>world := w\<rparr> = s\<lparr>outstreams := outstreams s, instreams := instreams s, world := w\<rparr>"
    by simp_all
  then show "streams_only s (s\<lparr>outstreams := o1\<rparr>)" "streams_only s (s\<lparr>instreams := i1\<rparr>)" "streams_only s (s\<lparr>world := w\<rparr>)"
    unfolding streams_only_def by blast+
qed

lemma streams_only_steps:
  "obeys streams_only (upd_out p g)" "obeys streams_only (upd_in p h)" "obeys_pair streams_only (in_world f)"
  by (auto simp: obeys_def obeys_pair_def leads_def upd_defs in_world_def Option.bind_eq_Some_conv streams_only_upd
      split: prod.split)

lemma lead_split: "(\<And>x y. leads Q s (f x y v) st) \<Longrightarrow> leads Q s ((case a of (x, y) \<Rightarrow> f x y) v) st"
  by (cases a) simp

lemma lead_last_result: "obeys_result R act \<Longrightarrow> leads R s (act s) snd"
  by (simp add: obeys_result_def)

lemmas transfer_rules = lead_split streams_only_steps(1,2) [THEN lead_call [OF streams_only_prefix]]
  streams_only_steps(3) [THEN lead_pair [OF streams_only_prefix]] lead_if lead_done lead_reads
  lead_read [where m = "interleave_areas q a b c xs" for q a b c xs] lead_read [where m = "ispa_peek_buf a" for a]

lemma peek_streams_only: "leads streams_only s (read_peeked p n s) (\<lambda>r. snd (snd (snd r)))"
  unfolding read_peeked_def Let_def by (intro transfer_rules; simp add: streams_only_refl)

lemma drop_streams_only: "obeys_result streams_only (drop_peeked e p)"
  unfolding drop_peeked_def Let_def by (intro obeys_resultI transfer_rules; simp add: streams_only_refl)

lemma transfer_streams_only:
  "leads streams_only s (outstream_begin_write_pa e p n s) (\<lambda>r. snd (snd (snd r)))"
  "obeys_result streams_only (outstream_end_write_pa e p)"
  "leads streams_only s (instream_begin_read_pa e p n s) (\<lambda>r. snd (snd (snd r)))"
  "obeys_result streams_only (instream_end_read_pa e p)"
proof -
  show "leads streams_only s (outstream_begin_write_pa e p n s) (\<lambda>r. snd (snd (snd r)))"
    unfolding outstream_begin_write_pa_def Let_def by (intro transfer_rules; simp add: streams_only_refl)
  show "obeys_result streams_only (outstream_end_write_pa e p)"
    unfolding outstream_end_write_pa_def Let_def by (intro obeys_resultI transfer_rules; simp add: streams_only_refl)
  show "leads streams_only s (instream_begin_read_pa e p n s) (\<lambda>r. snd (snd (snd r)))"
    unfolding instream_begin_read_pa_def Let_def
    by (intro transfer_rules peek_streams_only; simp add: streams_only_refl)
  show "obeys_result streams_only (instream_end_read_pa e p)"
    unfolding instream_end_read_pa_def Let_def
    by (intro obeys_resultI transfer_rules lead_result [OF streams_only_prefix drop_streams_only]
      lead_last_result [OF drop_streams_only]; simp add: streams_only_refl)
qed

lemma lead_tuple:
  "leads streams_only s m (\<lambda>r. snd (snd (snd r))) \<Longrightarrow> (\<And>x y z v. leads streams_only v (f x y z v) st) \<Longrightarrow>
   leads streams_only s (Option.bind m (\<lambda>r. case r of (x, y, z, v) \<Rightarrow> f x y z v)) st"
  using streams_only_prefix
  by (fastforce simp: leads_def Option.bind_eq_Some_conv prefix_of_def)

lemma player_streams_only: "obeys streams_only (play_all api p n m)" "obeys streams_only (record_all api p n m)"
  unfolding play_all_def record_all_def
  by (intro obeysI lead_tuple transfer_streams_only(1,3) transfer_rules
    lead_result [OF streams_only_prefix transfer_streams_only(2)] lead_result [OF streams_only_prefix transfer_streams_only(4)];
    simp add: streams_only_refl)+

lemma player_obeys: "(\<And>s t. streams_only s t \<Longrightarrow> R s t) \<Longrightarrow> callbacks_obey R (player api)"
  using player_streams_only by (fastforce simp: callbacks_obey_def obeys_def leads_def player_def)

lemma streams_only_locks: "streams_only s t \<Longrightarrow> same_locks s t"
  by (auto simp: streams_only_def same_locks_def)

interpretation player_locks: lock_frame "player api" for api
  by (rule lock_frameI) (rule player_obeys, rule streams_only_locks)

subsection \<open>A library for examples\<close>

text \<open>
  A library that follows a script: each wait delivers the next batch of callbacks, and an operation
  is done once the batch after its start has been delivered. The context 0 is ready, every other
  context has failed, and so with streams. A NULL context is rejected.
\<close>

fun next_in_script :: "pa_callback list list \<Rightarrow> pa_callback \<times> pa_callback list list" where
  "next_in_script ((c # cs) # bs) = (c, if cs = [] then bs else cs # bs)"
| "next_in_script w = (SubscribeCb 0, w)"

definition script_api :: "pa_callback list list pa_api" where
  "script_api = \<lparr>
     pa_threaded_mainloop_new = (\<lambda>w. (Some 0, w)),
     pa_threaded_mainloop_start = (\<lambda>l w. (0, w)),
     pa_threaded_mainloop_stop = (\<lambda>l w. w),
     pa_threaded_mainloop_free = (\<lambda>l w. w),
     pa_threaded_mainloop_signal = (\<lambda>l w. w),
     pa_threaded_mainloop_in_thread = (\<lambda>l w. False),
     pa_callback_count = (\<lambda>l w. case w of [] \<Rightarrow> 0 | b # bs \<Rightarrow> length b),
     pa_next_callback = (\<lambda>l w. next_in_script w),
     pa_proplist_new = (\<lambda>w. (Some 0, w)),
     pa_proplist_free = (\<lambda>p w. w),
     pa_context_new_with_proplist = (\<lambda>l nm p w. (Some 0, w)),
     pa_context_set_subscribe_callback = (\<lambda>c si w. w),
     pa_context_set_state_callback = (\<lambda>c si w. w),
     pa_context_connect = (\<lambda>c w. (0, w)),
     pa_context_disconnect = (\<lambda>c w. if c = None then None else Some w),
     pa_context_unref = (\<lambda>c w. if c = None then None else Some w),
     pa_context_get_state = (\<lambda>c w. if c = 0 then PA_CONTEXT_READY else PA_CONTEXT_FAILED),
     pa_context_subscribe = (\<lambda>c m w. (Some 0, w)),
     pa_context_get_sink_info_list = (\<lambda>c si w. (Some (length w - 1), w)),
     pa_context_get_source_info_list = (\<lambda>c si w. (Some (length w - 1), w)),
     pa_context_get_server_info = (\<lambda>c si w. (Some (length w - 1), w)),
     pa_operation_get_state = (\<lambda>q w. if length w > q then PA_OPERATION_RUNNING else PA_OPERATION_DONE),
     pa_operation_unref = (\<lambda>q w. w),
     pa_stream_new = (\<lambda>c nm sp m w. (Some 0, w)),
     pa_stream_set_callback = (\<lambda>k st p w. w),
     pa_stream_connect_playback = (\<lambda>st d a f w. (0, w)),
     pa_stream_connect_record = (\<lambda>st d a f w. (0, w)),
     pa_stream_disconnect = (\<lambda>st w. w),
     pa_stream_unref = (\<lambda>st w. w),
     pa_stream_get_state = (\<lambda>st w. if st = 0 then PA_STREAM_READY else PA_STREAM_FAILED),
     pa_stream_update_timing_info = (\<lambda>st si w. (Some (length w - 1), w)),
     pa_stream_writable_size = (\<lambda>st w. 0),
     pa_stream_cork = (\<lambda>st b w. (Some 0, w)),
     pa_stream_is_corked = (\<lambda>st w. 0),
     pa_stream_begin_write = (\<lambda>st n w. ((0, 0, n), w)),
     pa_stream_write = (\<lambda>st p n m w. (0, w)),
     pa_stream_peek = (\<lambda>st w. ((0, None, 0), w)),
     pa_stream_drop = (\<lambda>st w. (0, w)),
     pa_stream_get_latency = (\<lambda>st w. ((0, 0), w))\<rparr>"

text \<open>A library object that is connected to it; \<open>queued\<close> says whether a scan is due.\<close>

definition pulse_lib :: "bool \<Rightarrow> pa_callback list list \<Rightarrow> (pa_callback list list, unit) jsio_scheme" where
  "pulse_lib queued w = (lib_start [] w)\<lparr>next_id := 1, sios := [0 \<mapsto> sio_create\<lparr>on_backend_disconnect_default := False,
     current_backend := SoundIoBackendPulseAudio, vtable := pulse_vtable,
     pulseaudio := pulse_zero\<lparr>main_loop := Some 0, pulse_context := Some 0, pulse_props := Some 0, ready_flag := True,
       device_scan_queued := queued\<rparr>\<rparr>]\<rparr>"

lemmas script_simps = player_def script_api_def pulse_lib_def lib_start_def os_start_def os.defs sio_create_def pulse_zero_def

subsection \<open>The property\<close>

text \<open>
  Corking a stream and giving up an operation do not move the caller to another thread: the answer of
  the library to the question whether the caller is the thread of the main loop stays the same.
\<close>

definition same_thread :: "('j, 'z) pulse_env \<Rightarrow> bool" where
  "same_thread e \<longleftrightarrow> (\<forall>l st b w. pa_threaded_mainloop_in_thread (pa e) l (snd (pa_stream_cork (pa e) st b w)) =
       pa_threaded_mainloop_in_thread (pa e) l w) \<and>
     (\<forall>l op w. pa_threaded_mainloop_in_thread (pa e) l (pa_operation_unref (pa e) op w) =
       pa_threaded_mainloop_in_thread (pa e) l w)"

lemma cork_locks: "loop_locks (snd (cork_if_needed e st pause s)) = loop_locks s"
  by (auto simp: cork_if_needed_def in_world_def the_world_def split: prod.splits option.splits if_splits)

lemma cork_thread:
  "same_thread e \<Longrightarrow> pa_threaded_mainloop_in_thread (pa e) l (world (snd (cork_if_needed e st pause s))) =
     pa_threaded_mainloop_in_thread (pa e) l (world s)"
  by (auto simp: cork_if_needed_def in_world_def the_world_def same_thread_def case_prod_unfold Let_def split: option.splits)

text \<open>Both functions that pause a stream, whatever the thread they are called in.\<close>

lemma pause_out_locks:
  assumes "outstream_pause_pa e si p pause s = Some (err, t)" and "same_thread e"
  shows "same_locks s t"
  using assms cork_thread [OF assms(2)]
  by (auto simp: outstream_pause_pa_def lock_outside_def unlock_outside_def pa_threaded_mainloop_lock_def
      pa_threaded_mainloop_unlock_def same_locks_def Option.bind_eq_Some_conv case_prod_unfold cork_locks Let_def split: if_splits)

lemma pause_in_locks:
  assumes "instream_pause_pa e si p pause s = Some (SoundIoErrorNone, t)" and "same_thread e"
  shows "same_locks s t"
  using assms cork_thread [OF assms(2)]
  by (auto simp: instream_pause_pa_def lock_outside_def unlock_outside_def pa_threaded_mainloop_lock_def
      pa_threaded_mainloop_unlock_def same_locks_def Option.bind_eq_Some_conv case_prod_unfold cork_locks Let_def split: if_splits)

text \<open>
  The operations that hold the lock while they work: all of them, with pausing an input stream only
  where it succeeds. \<open>wait_events_pa\<close> is two flushes.
\<close>

inductive pulse_call ::
  "('j, 'z) pulse_env \<Rightarrow> nat \<Rightarrow> ('j, 'z) jsio_scheme \<Rightarrow> ('j, 'z) jsio_scheme \<Rightarrow> bool"
  for e si where
  connect: "soundio_pulseaudio_init e si s = Some (err, t) \<Longrightarrow> pulse_call e si s t"
| flush: "my_flush_events_pa e si wait s = Some t \<Longrightarrow> pulse_call e si s t"
| wakeup: "wakeup_pa e si s = Some t \<Longrightarrow> pulse_call e si s t"
| scan: "force_device_scan_pa e si s = Some t \<Longrightarrow> pulse_call e si s t"
| open_out: "outstream_open_pa e si p s = Some (err, t) \<Longrightarrow> pulse_call e si s t"
| start_out: "outstream_start_pa e si p s = Some (err, t) \<Longrightarrow> pulse_call e si s t"
| destroy_out: "outstream_destroy_pa e si p s = Some t \<Longrightarrow> pulse_call e si s t"
| open_in: "instream_open_pa e si p s = Some (err, t) \<Longrightarrow> pulse_call e si s t"
| start_in: "instream_start_pa e si p s = Some (err, t) \<Longrightarrow> pulse_call e si s t"
| destroy_in: "instream_destroy_pa e si p s = Some t \<Longrightarrow> pulse_call e si s t"
| pause_out: "outstream_pause_pa e si p pause s = Some (err, t) \<Longrightarrow> pulse_call e si s t"
| pause_in: "instream_pause_pa e si p pause s = Some (SoundIoErrorNone, t) \<Longrightarrow> pulse_call e si s t"

context lock_frame
begin

lemma call_keeps_locks: "pulse_call e si s t \<Longrightarrow> same_thread e \<Longrightarrow> same_locks s t"
  by (induction rule: pulse_call.induct)
    (auto dest: obeysD [OF flush] obeysD [OF wakeup] obeysD [OF force_scan] obeysD [OF destroy_out] obeysD [OF destroy_in]
      obeys_resultD [OF init] obeys_resultD [OF open_out] obeys_resultD [OF start_out] obeys_resultD [OF open_in]
      obeys_resultD [OF start_in] pause_out_locks pause_in_locks)

end

lemma player_thread: "same_thread (player script_api)"
  by (simp add: same_thread_def player_def script_api_def)

text \<open>C3. Whatever happens while they wait, the operations that take the lock of the main loop hold it as often when they
  return as when they were called: connecting, flushing, waking up, forcing a scan, and opening, starting,
  pausing and destroying streams of both kinds, on success and on every error path but one, pausing an input
  stream, for which only success is covered here (C36 says what its error path leaves). The callbacks of the
  application must hold the lock as often when they return as when they were called, and which thread asks must
  not change while a stream is corked.\<close>

theorem operations_release_lock:
  assumes "callbacks_obey same_locks e" and "same_thread e" and "pulse_call e si s t"
  shows "loop_locks t = loop_locks s"
  using lock_frame.call_keeps_locks [OF lock_frameI [OF assms(1)] assms(3,2)] by (simp add: same_locks_def)

text \<open>A library in which a stream plays, which is then paused: the lock is taken for it.\<close>

theorem operations_release_lock_witness:
  "\<exists>t. outstream_pause_pa (player script_api) 0 9 True
       ((pulse_lib False [])\<lparr>outstreams := [9 \<mapsto> outstream_zero\<lparr>ospa := ospa_zero\<lparr>ospa_stream := Some 0\<rparr>\<rparr>]\<rparr>) =
     Some (SoundIoErrorNone, t) \<and> loop_locks t = (\<lambda>_. 0)"
proof -
  let ?s = "(pulse_lib False [])\<lparr>outstreams := [9 \<mapsto> outstream_zero\<lparr>ospa := ospa_zero\<lparr>ospa_stream := Some 0\<rparr>\<rparr>]\<rparr>"
  obtain t where t: "outstream_pause_pa (player script_api) 0 9 True ?s = Some (SoundIoErrorNone, t)"
    by (simp add: outstream_pause_pa_def pulse_loop_def lock_outside_def unlock_outside_def cork_if_needed_def in_world_def
        the_world_def pa_threaded_mainloop_lock_def pa_threaded_mainloop_unlock_def outstream_zero_def ospa_zero_def script_simps)
  have "callbacks_obey same_locks (player script_api)" by (rule player_obeys) (rule streams_only_locks)
  from operations_release_lock [OF this player_thread pulse_call.pause_out [OF t]]
  have "loop_locks t = loop_locks ?s" .
  with t show ?thesis by (simp add: script_simps)
qed

end
