(* ===== verification/PulseEvents.thy ===== *)
theory PulseEvents
  imports PulseLock
begin

section \<open>What the application hears from the PulseAudio backend\<close>

text \<open>
  The loss of the connection is reported to the application at most once, whatever the server and
  the application do. It is not always reported: when the connection is lost during a scan that
  succeeds, the result of the scan overwrites the error.
\<close>

subsection \<open>Waits report nothing\<close>

text \<open>What a wait leaves alone: the reports so far and the note that one was made.\<close>

definition silent :: "nat \<Rightarrow> ('j, 'z) jsio_scheme \<Rightarrow> ('j, 'z) jsio_scheme \<Rightarrow> bool" where
  "silent si s t \<longleftrightarrow> losses si (trace t) = losses si (trace s) \<and>
     map_option (\<lambda>x. pulse_emitted_shutdown_cb (pulseaudio x)) (sios t si) =
     map_option (\<lambda>x. pulse_emitted_shutdown_cb (pulseaudio x)) (sios s si)"

lemma streams_only_silent: "streams_only s t \<Longrightarrow> silent si s t"
  by (auto simp: streams_only_def silent_def)

text \<open>Everything that changes the lock as well.\<close>

locale silent_frame = wait_frame e "silent si" for e :: "('j, 'z) pulse_env" and si :: nat
begin

lemma locks: "obeys (silent si) (pa_threaded_mainloop_lock e l)" "obeys (silent si) (pa_threaded_mainloop_unlock e l)"
  by (auto simp: obeys_def leads_def silent_def pa_threaded_mainloop_lock_def pa_threaded_mainloop_unlock_def
      Option.bind_eq_Some_conv)

lemma upd_other: "(\<And>x. pulse_emitted_shutdown_cb (pulseaudio (f x)) = pulse_emitted_shutdown_cb (pulseaudio x)) \<Longrightarrow>
    obeys (silent si) (upd_sio si' f)"
  by (auto simp: obeys_def leads_def silent_def upd_sio_def Option.bind_eq_Some_conv)

lemmas run = obeysI walk call_rule [OF locks(1)] call_rule [OF locks(2)] last_rule [OF locks(2)] call_rule [OF signal]
  call_rule [OF upd_other]
  last_rule [OF wait] call_rule [OF queued] call_rule [OF until_ready] call_rule [OF playback_ready]
  call_rule [OF recording_ready] result_rule [OF operation]

lemma wakeup: "obeys (silent si) (wakeup_pa e si')"
  unfolding wakeup_pa_def by (intro run; simp add: refl)

lemma force_scan: "obeys (silent si) (force_device_scan_pa e si')"
  unfolding force_device_scan_pa_def Let_def by (intro run; simp add: refl state_rules quiet_change_def)

lemma destroy_out: "obeys (silent si) (outstream_destroy_pa e si' p)"
  unfolding outstream_destroy_pa_def Let_def by (intro run; simp add: refl state_rules)

lemma destroy_in: "obeys (silent si) (instream_destroy_pa e si' p)"
  unfolding instream_destroy_pa_def Let_def by (intro run; simp add: refl state_rules)

lemma connect_out: "obeys_result (silent si) (outstream_connect_pa e si' l p st)"
  unfolding outstream_connect_pa_def Let_def
  by (intro obeys_resultI run lead_read [where m = "(if b then m else n) :: pa_buffer_attr option" for b m n];
      simp add: refl state_rules)

lemma open_out: "obeys_result (silent si) (outstream_open_pa e si' p)"
  unfolding outstream_open_pa_def Let_def
  by (intro obeys_resultI run last_result_rule [OF connect_out] call_rule [OF destroy_out]; simp add: refl state_rules)

lemma start_out: "obeys_result (silent si) (outstream_start_pa e si' p)"
  unfolding outstream_start_pa_def Let_def by (intro obeys_resultI run; simp add: refl state_rules)

lemma open_in: "obeys_result (silent si) (instream_open_pa e si' p)"
  unfolding instream_open_pa_def Let_def
  by (intro obeys_resultI run call_rule [OF destroy_in]; simp add: refl state_rules)

lemma start_in: "obeys_result (silent si) (instream_start_pa e si' p)"
  unfolding instream_start_pa_def Let_def by (intro obeys_resultI run; simp add: refl state_rules)

lemma worlds_do: "obeys (silent si) (world_do f)"
  by (auto simp: obeys_def leads_def world_do_def silent_def Option.bind_eq_Some_conv)

lemma destroy: "obeys (silent si) (destroy_pa e si')"
proof -
  have "silent si s (case q of None \<Rightarrow> u | Some x \<Rightarrow> the_world (f x) u)" if "silent si s u"
    for s u :: "('j, 'z) jsio_scheme" and q f
    using that by (cases q) (simp_all add: state_rules)
  note keeps = this
  show ?thesis
    unfolding destroy_pa_def Let_def by (intro run call_rule [OF worlds_do]; simp add: refl keeps)
qed

lemma init_failed: "obeys_result (silent si) (pulse_init_failed e si' err)"
  unfolding pulse_init_failed_def by (intro obeys_resultI run call_rule [OF destroy]; simp add: refl)

lemma subscribe_op: "obeys_result (silent si) (subscribe_to_events e si')"
  unfolding subscribe_to_events_def Let_def by (intro obeys_resultI run; simp add: refl state_rules)

lemma init_connected: "obeys_result (silent si) (pulse_init_connected e si' l)"
  unfolding pulse_init_connected_def Let_def
  by (intro obeys_resultI run call_rule [OF destroy] result_rule [OF subscribe_op] last_result_rule [OF init_failed];
      simp add: refl)

lemma main_loop_upd: "obeys (silent si) (upd_sipa si' (\<lambda>a. a\<lparr>main_loop := q\<rparr>))"
  "obeys (silent si) (upd_sipa si' (\<lambda>a. a\<lparr>pulse_context := r\<rparr>))"
  by (rule upd_other, simp)+

lemma init: "obeys_result (silent si) (soundio_pulseaudio_init e si')"
  unfolding soundio_pulseaudio_init_def pulse_init_context_def Let_def
  by (intro obeys_resultI call_rule [OF main_loop_upd(1)] call_rule [OF main_loop_upd(2)] run
      last_result_rule [OF init_failed] last_result_rule [OF init_connected];
      simp add: refl state_rules quiet_change_def)

lemma cork: "obeys_pair (silent si) (cork_if_needed e st pause)"
  by (auto simp: obeys_pair_def cork_if_needed_def in_world_def the_world_def silent_def split: prod.splits option.splits)

lemma lock_maybe: "obeys (silent si) (lock_outside e l)" "obeys (silent si) (unlock_outside e l)"
  using locks refl by (auto simp: obeys_def leads_def lock_outside_def unlock_outside_def)

lemma pauses: "obeys_result (silent si) (outstream_pause_pa e si' p pause)" "obeys_result (silent si) (instream_pause_pa e si' p pause)"
  unfolding outstream_pause_pa_def instream_pause_pa_def Let_def
  by (intro obeys_resultI run call_rule [OF lock_maybe(1)] call_rule [OF lock_maybe(2)] pair_rule [OF cork]; simp add: refl)+

end

lemma silent_frameI: "callbacks_obey (silent si) e \<Longrightarrow> silent_frame e si"
proof unfold_locales
  fix s t :: "('j, 'z) jsio_scheme"
  show "devs.more t = devs.more s \<Longrightarrow> silent si s t" by (cases s, cases t) (simp add: silent_def)
  show "silent si s (s\<lparr>world := w\<rparr>)" for w by (simp add: silent_def)
  show "quiet_change f \<Longrightarrow> upd_sipa si' f s = Some t \<Longrightarrow> silent si s t" for f si'
    by (auto simp: quiet_change_def silent_def upd_sio_def Option.bind_eq_Some_conv)
  show "\<forall>si err. ev \<noteq> BackendDisconnect si err \<Longrightarrow> silent si s (emit ev s)" for ev
    by (simp add: silent_def emit_def losses_def)
qed (auto simp: silent_def upd_out_def upd_in_def Option.bind_eq_Some_conv dest: callbacks_obeyD)

interpretation player_silent: silent_frame "player api" si for api si
  by (rule silent_frameI) (rule player_obeys, rule streams_only_silent)

subsection \<open>At most one report\<close>

definition report_noted :: "nat \<Rightarrow> 'z sio_scheme \<Rightarrow> bool" where
  "report_noted si s \<longleftrightarrow> (case sios s si of None \<Rightarrow> losses si (trace s) = 0
     | Some x \<Rightarrow> losses si (trace s) = of_bool (pulse_emitted_shutdown_cb (pulseaudio x)))"

lemma silent_noted: "silent si s t \<Longrightarrow> report_noted si s \<Longrightarrow> report_noted si t"
  by (cases "sios s si"; cases "sios t si") (auto simp: silent_def report_noted_def)

text \<open>All that can happen: calls of the application, callbacks between them, and transfers of samples.\<close>

inductive pulse_event ::
  "('j, 'z) pulse_env \<Rightarrow> nat \<Rightarrow> ('j, 'z) jsio_scheme \<Rightarrow> ('j, 'z) jsio_scheme \<Rightarrow> bool"
  for e si where
  call: "pulse_call e si s t \<Longrightarrow> pulse_event e si s t"
| callback: "call_back e cb s = Some t \<Longrightarrow> pulse_event e si s t"
| pause_out: "outstream_pause_pa e si p pause s = Some (err, t) \<Longrightarrow> pulse_event e si s t"
| pause_in: "instream_pause_pa e si p pause s = Some (err, t) \<Longrightarrow> pulse_event e si s t"
| transfer: "streams_only s t \<Longrightarrow> pulse_event e si s t"

text \<open>The part of a flush after the scan.\<close>

definition flush_rest ::
  "('j, 'z) pulse_env \<Rightarrow> nat \<Rightarrow> nat \<Rightarrow> ('j, 'z) jsio_scheme \<Rightarrow> ('j, 'z) jsio_scheme option" where
  "flush_rest e si l s = do {
     x \<leftarrow> sios s si;
     let sipa = pulseaudio x;
     let cb_shutdown = (connection_err sipa \<noteq> SoundIoErrorNone \<and> \<not> pulse_emitted_shutdown_cb sipa);
     let change = (\<not> cb_shutdown \<and> ready_devices_info sipa \<noteq> None);
     let old_devices_info = (if change then safe_devices_info x else None);
     s \<leftarrow> (if cb_shutdown then upd_sipa si (\<lambda>a. a\<lparr>pulse_emitted_shutdown_cb := True\<rparr>) s
       else if change then upd_sio si (\<lambda>x. x\<lparr>safe_devices_info := ready_devices_info (pulseaudio x),
         pulseaudio := (pulseaudio x)\<lparr>ready_devices_info := None\<rparr>\<rparr>) s
       else Some s);
     s \<leftarrow> pa_threaded_mainloop_unlock e l s;
     s \<leftarrow> (if cb_shutdown then on_backend_disconnect si (connection_err sipa) s
       else if change then Some (emit (DevicesChange si) s)
       else Some s);
     soundio_destroy_devices_info old_devices_info s
   }"

lemma my_flush_events_rest:
  "my_flush_events_pa e si wait s = do {
     l \<leftarrow> pulse_loop si s;
     s \<leftarrow> pa_threaded_mainloop_lock e l s;
     s \<leftarrow> (if wait then pa_threaded_mainloop_wait e l s else Some s);
     s \<leftarrow> queued_scan e si s;
     flush_rest e si l s
   }"
  by (simp add: my_flush_events_pa_def flush_rest_def)

lemma flush_rest_report:
  assumes "sios s si = Some x" and "connection_err (pulseaudio x) \<noteq> SoundIoErrorNone" "\<not> pulse_emitted_shutdown_cb (pulseaudio x)"
  shows "flush_rest e si l s = do {
      s \<leftarrow> pa_threaded_mainloop_unlock e l (s\<lparr>sios := (sios s)(si \<mapsto> x\<lparr>pulseaudio := (pulseaudio x)\<lparr>pulse_emitted_shutdown_cb := True\<rparr>\<rparr>)\<rparr>);
      on_backend_disconnect si (connection_err (pulseaudio x)) s
    }"
  using assms by (simp add: flush_rest_def upd_sio_def soundio_destroy_devices_info_def Let_def)

lemma unlock_run:
  "pa_threaded_mainloop_unlock e l s = Some t \<Longrightarrow> t = s\<lparr>loop_locks := (loop_locks s)(l := loop_locks s l - 1)\<rparr>"
  by (auto simp: pa_threaded_mainloop_unlock_def Option.bind_eq_Some_conv)

context silent_frame
begin

lemma flush_rest_quiet:
  assumes x: "sios s si = Some x" and no: "\<not> (connection_err (pulseaudio x) \<noteq> SoundIoErrorNone \<and> \<not> pulse_emitted_shutdown_cb (pulseaudio x))"
    and flush: "flush_rest e si l s = Some t"
  shows "silent si s t"
proof -
  have eq: "flush_rest e si l s = do {
      s \<leftarrow> (if ready_devices_info (pulseaudio x) \<noteq> None then upd_sio si (\<lambda>x. x\<lparr>safe_devices_info := ready_devices_info (pulseaudio x),
         pulseaudio := (pulseaudio x)\<lparr>ready_devices_info := None\<rparr>\<rparr>) s else Some s);
      s \<leftarrow> pa_threaded_mainloop_unlock e l s;
      soundio_destroy_devices_info (if ready_devices_info (pulseaudio x) \<noteq> None then safe_devices_info x else None)
        (if ready_devices_info (pulseaudio x) \<noteq> None then emit (DevicesChange si) s else s)
    }"
    unfolding flush_rest_def x Let_def Option.bind.simps eq_False [THEN iffD2, OF no] if_False not_False_eq_True simp_thms
    by (simp del: not_None_eq)
  have "leads (silent si) s (flush_rest e si l s) (\<lambda>v. v)"
    unfolding eq by (intro run last_rule [OF upd_other]; simp add: refl state_rules)
  with flush show ?thesis by (simp add: leads_def)
qed

lemma flush_noted:
  assumes run: "my_flush_events_pa e si wait s = Some t" and ok: "report_noted si s"
  shows "report_noted si t"
proof -
  obtain l s1 s2 s3 where start: "pa_threaded_mainloop_lock e l s = Some s1"
      "(if wait then pa_threaded_mainloop_wait e l s1 else Some s1) = Some s2" "queued_scan e si s2 = Some s3"
      "flush_rest e si l s3 = Some t"
    using run by (auto simp: my_flush_events_rest Option.bind_eq_Some_conv)
  have "silent si s1 s2" using start(2) by (auto simp: refl split: if_splits dest: obeysD [OF wait])
  with start(1,3) have "silent si s s3" by (blast intro: trans obeysD [OF locks(1)] obeysD [OF queued])
  then have ok3: "report_noted si s3" using ok by (rule silent_noted)
  obtain x where x: "sios s3 si = Some x" using start(4) by (auto simp: flush_rest_def Option.bind_eq_Some_conv)
  show ?thesis
  proof (cases "connection_err (pulseaudio x) \<noteq> SoundIoErrorNone \<and> \<not> pulse_emitted_shutdown_cb (pulseaudio x)")
    case True
    then show ?thesis using start(4) ok3 x
      by (auto simp: flush_rest_report [OF x] on_backend_disconnect_def Option.bind_eq_Some_conv report_noted_def emit_def losses_def
          dest!: unlock_run)
  next
    case False
    from silent_noted [OF flush_rest_quiet [OF x this start(4)] ok3] show ?thesis .
  qed
qed

lemma event_noted: "pulse_event e si s t \<Longrightarrow> report_noted si s \<Longrightarrow> report_noted si t"
proof (induction rule: pulse_event.induct)
  case (call s t)
  then show ?case
    by (induction rule: pulse_call.induct)
      (auto dest: flush_noted obeysD [OF wakeup] obeysD [OF force_scan] obeysD [OF destroy_out] obeysD [OF destroy_in]
        obeys_resultD [OF init] obeys_resultD [OF open_out] obeys_resultD [OF start_out] obeys_resultD [OF open_in]
        obeys_resultD [OF start_in] obeys_resultD [OF pauses(1)] obeys_resultD [OF pauses(2)] intro: silent_noted)
qed (auto dest: obeysD [OF call_back] obeys_resultD [OF pauses(1)] obeys_resultD [OF pauses(2)] streams_only_silent
    intro: silent_noted)

lemma events_noted: "(pulse_event e si)\<^sup>*\<^sup>* s t \<Longrightarrow> report_noted si s \<Longrightarrow> report_noted si t"
  by (induction rule: rtranclp_induct) (auto dest: event_noted)

end

text \<open>C9. The application is told at most once that the connection to PulseAudio is gone: in every sequence of calls of the
  application, callbacks of the library (during waits and between calls) and transfers of samples there is at
  most one \<open>on_backend_disconnect\<close>, and one exactly when the backend has noted that it was made.\<close>

theorem pulse_loss_reported_at_most_once:
  assumes "callbacks_obey (silent si) e" and "sios s si = Some x" and "\<not> pulse_emitted_shutdown_cb (pulseaudio x)"
    and "losses si (trace s) = 0" and "(pulse_event e si)\<^sup>*\<^sup>* s t" and "sios t si = Some y"
  shows "losses si (trace t) = of_bool (pulse_emitted_shutdown_cb (pulseaudio y))"
proof -
  have "report_noted si s" using assms(2-4) by (simp add: report_noted_def)
  from silent_frame.events_noted [OF silent_frameI [OF assms(1)] assms(5) this] assms(6)
  show ?thesis by (simp add: report_noted_def)
qed

theorem pulse_loss_reported_at_most_once_witness:
  "\<exists>s t. call_back (player script_api) (ContextStateCb 1 0) (pulse_lib False []) = Some s \<and>
     my_flush_events_pa (player script_api) 0 False s = Some t \<and> losses 0 (trace t) = 1"
proof -
  obtain s where s: "call_back (player script_api) (ContextStateCb 1 0) (pulse_lib False []) = Some s"
      and lost: "sios s 0 = Some ((the (sios (pulse_lib False []) 0))\<lparr>pulseaudio :=
        (pulseaudio (the (sios (pulse_lib False []) 0)))\<lparr>connection_err := SoundIoErrorBackendDisconnected\<rparr>\<rparr>)"
      "loop_locks s = (\<lambda>_. 0)"
    by (simp add: call_back_def context_state_callback_def pulse_signal_def pulse_loop_def upd_sio_def the_world_def emit_def
        script_simps)
  obtain t where t: "my_flush_events_pa (player script_api) 0 False s = Some t"
      and y: "\<exists>y. sios t 0 = Some y \<and> pulse_emitted_shutdown_cb (pulseaudio y)"
    by (simp add: my_flush_events_rest pulse_loop_def lost script_simps pa_threaded_mainloop_lock_def queued_scan_def
        flush_rest_report pa_threaded_mainloop_unlock_def on_backend_disconnect_def emit_def)
  have "(pulse_event (player script_api) 0)\<^sup>*\<^sup>* (pulse_lib False []) t"
    using r_into_rtranclp [of "pulse_event _ _", OF pulse_event.callback [OF s]]
      pulse_event.call [OF pulse_call.flush [OF t]] by (rule rtranclp.rtrancl_into_rtrancl)
  with y s t show ?thesis
    using pulse_loss_reported_at_most_once [of 0 "player script_api" "pulse_lib False []" _ t]
      player_obeys [OF streams_only_silent]
    by (fastforce simp: script_simps losses_def)
qed

subsection \<open>A loss that is not reported\<close>

lemma operation_loop_done:
  "pa_operation_get_state (pa e) q (world s) = PA_OPERATION_DONE \<Longrightarrow>
   operation_loop e si q s = Some (SoundIoErrorNone, the_world (pa_operation_unref (pa e) q) s)"
  by (simp add: operation_loop.simps)

lemma operation_loop_wait:
  "pa_operation_get_state (pa e) q (world s) = PA_OPERATION_RUNNING \<Longrightarrow> pulse_loop si s = Some l \<Longrightarrow>
   pa_threaded_mainloop_wait e l s = Some t \<Longrightarrow> operation_loop e si q s = operation_loop e si q t"
  by (simp add: operation_loop.simps [of e si q s])

text \<open>The answer of the server and the loss of the connection arrive during one wait.\<close>

definition lost_script :: "pa_callback list list" where
  "lost_script = [[ServerInfoCb 0 \<lparr>info_default_sink_name = Some [], info_default_source_name = Some []\<rparr>, ContextStateCb 1 0]]"

lemmas script_run = operation_loop_done operation_loop_wait pa_threaded_mainloop_wait_def call_back_def
  server_info_callback_def context_state_callback_def pulse_signal_def pulse_loop_def upd_sio_def upd_info_def
  the_world_def in_world_def emit_def strdup_def alloc_def ask_def free_blk_def
  pa_threaded_mainloop_lock_def pa_threaded_mainloop_unlock_def numeral_2_eq_2

text \<open>What the backend knows about the connection: the error, whether it was told, and whether a scan is due.\<close>

definition loss_state :: "nat \<Rightarrow> 'z sio_scheme \<Rightarrow> (SoundIoError \<times> bool \<times> bool) option" where
  "loss_state si s = map_option (\<lambda>x. (connection_err (pulseaudio x), pulse_emitted_shutdown_cb (pulseaudio x),
     device_scan_queued (pulseaudio x))) (sios s si)"

lemma loss_state_devs: "devs.more t = devs.more s \<Longrightarrow> loss_state si t = loss_state si s \<and> trace t = trace s"
  by (cases s; cases t) (simp add: loss_state_def)

lemma loss_state_upd:
  assumes "upd_sio si f s = Some t" and "\<And>x. connection_err (pulseaudio (f x)) = connection_err (pulseaudio x) \<and>
     pulse_emitted_shutdown_cb (pulseaudio (f x)) = pulse_emitted_shutdown_cb (pulseaudio x) \<and>
     device_scan_queued (pulseaudio (f x)) = device_scan_queued (pulseaudio x)"
  shows "loss_state si t = loss_state si s \<and> trace t = trace s"
  using assms by (auto simp: upd_sio_def loss_state_def Option.bind_eq_Some_conv)

lemma loss_state_runs:
  "soundio_destroy_devices_info q s = Some t \<Longrightarrow> loss_state si t = loss_state si s \<and> trace t = trace s"
  "free_blk b s' = Some t' \<Longrightarrow> loss_state si t' = loss_state si s' \<and> trace t' = trace s'"
  by (rule loss_state_devs, erule destroy_info_silent) (rule loss_state_devs, erule free_silent_devs)

lemma cleanup_loss_state:
  assumes "cleanup_refresh_devices si s = Some t"
  shows "loss_state si t = loss_state si s \<and> trace t = trace s"
proof -
  obtain x s1 s2 s3 s4 s5 where "sios s si = Some x"
      and run: "soundio_destroy_devices_info (current_devices_info (pulseaudio x)) s = Some s1"
      "upd_sipa si (\<lambda>a. a\<lparr>current_devices_info := None\<rparr>) s1 = Some s2"
      "free_blk (str_blk (default_sink_name (pulseaudio x))) s2 = Some s3"
      "upd_sipa si (\<lambda>a. a\<lparr>default_sink_name := None\<rparr>) s3 = Some s4"
      "free_blk (str_blk (default_source_name (pulseaudio x))) s4 = Some s5"
      "upd_sipa si (\<lambda>a. a\<lparr>default_source_name := None\<rparr>) s5 = Some t"
    using assms unfolding cleanup_refresh_devices_def Option.bind_eq_Some_conv by blast
  show ?thesis
    using loss_state_runs(1) [where si = si, OF run(1)] loss_state_upd [OF run(2)] loss_state_runs(2) [where si = si, OF run(3)]
      loss_state_upd [OF run(4)] loss_state_runs(2) [where si = si, OF run(5)] loss_state_upd [OF run(6)] by simp
qed

lemma flush_rest_calm:
  fixes s t :: "('j, 'z) jsio_scheme"
  assumes calm: "loss_state si s = Some (SoundIoErrorNone, told, due)" and rest: "flush_rest e si l s = Some t"
  shows "loss_state si t = loss_state si s \<and> losses si (trace t) = losses si (trace s)"
proof -
  obtain x where x: "sios s si = Some x" "connection_err (pulseaudio x) = SoundIoErrorNone"
    using calm by (auto simp: loss_state_def)
  have emit: "loss_state si (emit ev u) = loss_state si u" "losses si (trace (emit (DevicesChange si) u)) = losses si (trace u)"
    for ev and u :: "('j, 'z) jsio_scheme" by (simp_all add: loss_state_def emit_def losses_def)
  have lock: "loss_state si (u\<lparr>loop_locks := f\<rparr>) = loss_state si u" for f and u :: "('j, 'z) jsio_scheme"
    by (simp add: loss_state_def)
  show ?thesis using rest x
    by (auto simp: flush_rest_def Let_def Option.bind_eq_Some_conv emit lock split: if_splits
      dest!: loss_state_runs [where si = si] loss_state_upd unlock_run)
qed

lemma flush_idle:
  assumes idle: "loss_state si s = Some (SoundIoErrorNone, told, False)" and flush: "flush_events_pa e si s = Some t"
  shows "losses si (trace t) = losses si (trace s)"
proof -
  obtain l s1 where run: "pa_threaded_mainloop_lock e l s = Some s1" "flush_rest e si l s1 = Some t"
    using assms by (auto simp: flush_events_pa_def my_flush_events_rest queued_scan_def Option.bind_eq_Some_conv loss_state_def
        pa_threaded_mainloop_lock_def)
  then have "loss_state si s1 = loss_state si s" "trace s1 = trace s"
    by (auto simp: pa_threaded_mainloop_lock_def Option.bind_eq_Some_conv loss_state_def)
  with flush_rest_calm [of si s1 told False e l t] idle run(2) show ?thesis by simp
qed

text \<open>C37. A connection that is lost while a flush scans the devices: when the scan succeeds, its success overwrites the error
  that the callback had noted (whatever it was), this flush makes no report, and neither does the next one, unless
  another scan was asked for in the meantime.\<close>

theorem loss_during_scan_unreported:
  assumes "callbacks_obey (silent si) e" and "pulse_loop si s = Some l" and "pa_threaded_mainloop_lock e l s = Some s1"
    and "sios s1 si = Some x" and "device_scan_queued (pulseaudio x)" and "connection_err (pulseaudio x) = SoundIoErrorNone"
    and scan: "refresh_devices_pa e si (s1\<lparr>sios := (sios s1)(si \<mapsto> x\<lparr>pulseaudio := (pulseaudio x)\<lparr>device_scan_queued := False\<rparr>\<rparr>)\<rparr>)
       = Some (SoundIoErrorNone, u)"
    and lost: "loss_state si u = Some (err, told, again)" and flush: "flush_events_pa e si s = Some t"
  shows "loss_state si t = Some (SoundIoErrorNone, told, again) \<and> losses si (trace t) = losses si (trace s) \<and>
     (\<forall>v. \<not> again \<longrightarrow> flush_events_pa e si t = Some v \<longrightarrow> losses si (trace v) = losses si (trace s))"
proof -
  let ?s2 = "s1\<lparr>sios := (sios s1)(si \<mapsto> x\<lparr>pulseaudio := (pulseaudio x)\<lparr>device_scan_queued := False\<rparr>\<rparr>)\<rparr>"
  have frame: "silent_frame e si" by (rule silent_frameI [OF assms(1)])
  have queued: "queued_scan e si s1 = do {
      s \<leftarrow> upd_sipa si (\<lambda>a. a\<lparr>connection_err := SoundIoErrorNone\<rparr>) u; cleanup_refresh_devices si s }"
    using assms(4-6) scan by (simp add: queued_scan_def upd_sio_def)
  from flush assms(2,3) obtain u1 u2 where rest: "upd_sipa si (\<lambda>a. a\<lparr>connection_err := SoundIoErrorNone\<rparr>) u = Some u1"
      "cleanup_refresh_devices si u1 = Some u2" "flush_rest e si l u2 = Some t"
    unfolding flush_events_pa_def my_flush_events_rest
    by (auto simp: queued Option.bind_eq_Some_conv)
  have u1: "loss_state si u1 = Some (SoundIoErrorNone, told, again)" "trace u1 = trace u"
    using rest(1) lost by (auto simp: upd_sio_def loss_state_def Option.bind_eq_Some_conv)
  have u: "losses si (trace u) = losses si (trace s)"
  proof -
    have "losses si (trace s1) = losses si (trace s)" using obeysD [OF silent_frame.locks(1) [OF frame] assms(3)]
      by (simp add: silent_def)
    moreover have "losses si (trace u) = losses si (trace ?s2)"
      using obeys_resultD [OF wait_frame.refresh [OF frame [unfolded silent_frame_def]] scan] by (simp add: silent_def)
    ultimately show ?thesis by simp
  qed
  have calm: "loss_state si u2 = Some (SoundIoErrorNone, told, again)" "trace u2 = trace u"
    using cleanup_loss_state [OF rest(2)] u1 by auto
  have t: "loss_state si t = Some (SoundIoErrorNone, told, again)" "losses si (trace t) = losses si (trace s)"
    using flush_rest_calm [OF calm(1) rest(3)] calm u by auto
  have "losses si (trace v) = losses si (trace s)" if "\<not> again" "flush_events_pa e si t = Some v" for v
    using flush_idle [of si t told e v] that t by simp
  with t show ?thesis by blast
qed

theorem loss_during_scan_unreported_witness:
  "\<exists>t. flush_events_pa (player script_api) 0 (pulse_lib True lost_script) = Some t \<and>
     loss_state 0 t = Some (SoundIoErrorNone, False, False) \<and> losses 0 (trace t) = 0"
proof -
  let ?e = "player script_api :: (_, unit) pulse_env" and ?s = "pulse_lib True lost_script"
  let ?x = "the (sios ?s 0)"
  let ?s1 = "?s\<lparr>loop_locks := (loop_locks ?s)(0 := 1)\<rparr>"
  let ?s2 = "?s1\<lparr>sios := (sios ?s1)(0 \<mapsto> ?x\<lparr>pulseaudio := (pulseaudio ?x)\<lparr>device_scan_queued := False\<rparr>\<rparr>)\<rparr>"
  have start: "pulse_loop 0 ?s = Some 0" "pa_threaded_mainloop_lock ?e 0 ?s = Some ?s1" "sios ?s1 0 = Some ?x"
      "device_scan_queued (pulseaudio ?x)" "connection_err (pulseaudio ?x) = SoundIoErrorNone"
    by (simp_all add: pulse_loop_def pa_threaded_mainloop_lock_def script_simps)
  obtain u where u: "refresh_devices_pa ?e 0 ?s2 = Some (SoundIoErrorNone, u)"
      "loss_state 0 u = Some (SoundIoErrorBackendDisconnected, False, False)"
    by (simp add: refresh_devices_pa_def perform_operation_def script_run script_simps lost_script_def publish_devices_def
        default_device_index_def devices_info_zero_def clist_zero_def soundio_destroy_devices_info_def unref_list_def
        list_deinit_def loss_state_def)
  obtain t where t: "flush_events_pa ?e 0 ?s = Some t"
    by (simp add: flush_events_pa_def my_flush_events_rest queued_scan_def refresh_devices_pa_def
       perform_operation_def script_run script_simps lost_script_def publish_devices_def default_device_index_def
       devices_info_zero_def clist_zero_def cleanup_refresh_devices_def flush_rest_def
       soundio_destroy_devices_info_def unref_list_def list_deinit_def)
  have "callbacks_obey (silent 0) ?e" by (rule player_obeys) (rule streams_only_silent)
  from loss_during_scan_unreported [OF this start u t] t
  show ?thesis by (auto simp: script_simps losses_def)
qed

end
