(* ===== verification/PulseErrors.thy ===== *)
theory PulseErrors
  imports PulseLock
begin

section \<open>Waits that do not end and error paths of the PulseAudio backend\<close>

text \<open>
  The loops that wait for a flag, measured by the number of waits: connecting returns once the
  server has answered, and opening an output stream that the server refuses never does.
  The error paths of the functions that pause a stream, and of connecting when memory runs out.
\<close>

subsection \<open>Counting waits\<close>

primrec waits :: "('j, 'z) pulse_env \<Rightarrow> nat \<Rightarrow> nat \<Rightarrow> ('j, 'z) jsio_scheme \<Rightarrow> ('j, 'z) jsio_scheme option" where
  "waits e l 0 s = Some s"
| "waits e l (Suc n) s = Option.bind (pa_threaded_mainloop_wait e l s) (waits e l n)"

subsection \<open>Connecting\<close>

text \<open>Whether the state of the connection is known does not change back.\<close>

definition keeps_ready :: "nat \<Rightarrow> ('j, 'z) jsio_scheme \<Rightarrow> ('j, 'z) jsio_scheme \<Rightarrow> bool" where
  "keeps_ready si s t \<longleftrightarrow> (\<forall>x. sios s si = Some x \<longrightarrow>
     (\<exists>y. sios t si = Some y \<and> (ready_flag (pulseaudio x) \<longrightarrow> ready_flag (pulseaudio y))))"

lemma keeps_readyI: "callbacks_obey (keeps_ready si) e \<Longrightarrow> wait_frame e (keeps_ready si)"
proof unfold_locales
  fix s t :: "('j, 'z) jsio_scheme"
  show "devs.more t = devs.more s \<Longrightarrow> keeps_ready si s t" by (cases s, cases t) (simp add: keeps_ready_def)
  show "quiet_change f \<Longrightarrow> upd_sipa si' f s = Some t \<Longrightarrow> keeps_ready si s t" for f si'
    by (auto simp: quiet_change_def keeps_ready_def upd_sio_def Option.bind_eq_Some_conv)
  show "keeps_ready si s t \<Longrightarrow> keeps_ready si t u \<Longrightarrow> keeps_ready si s u" for u
    unfolding keeps_ready_def by blast
qed (auto simp: keeps_ready_def upd_defs emit_def Option.bind_eq_Some_conv dest: callbacks_obeyD)

lemma run_callbacks_split:
  "run_callbacks e l (k + m) s = Option.bind (run_callbacks e l k s) (run_callbacks e l m)"
  by (induction k arbitrary: s) (simp_all add: case_prod_unfold Let_def)

text \<open>The answer of the server: during the wait the callback for the state of the connection is called, and the library
  says that it is ready or has failed.\<close>

definition answered_during ::
  "('j, 'z) pulse_env \<Rightarrow> nat \<Rightarrow> nat \<Rightarrow> ('j, 'z) jsio_scheme \<Rightarrow> bool" where
  "answered_during e l si s \<longleftrightarrow> (\<exists>k < pa_callback_count (pa e) l (world s). \<exists>u c w. run_callbacks e l k s = Some u \<and>
     pa_next_callback (pa e) l (world u) = (ContextStateCb c si, w) \<and>
     pa_context_get_state (pa e) c w \<in> {PA_CONTEXT_READY, PA_CONTEXT_FAILED})"

lemma answer_sets_ready:
  assumes "context_state_callback e c si s = Some t" and "pa_context_get_state (pa e) c (world s) \<in> {PA_CONTEXT_READY, PA_CONTEXT_FAILED}"
  shows "\<exists>y. sios t si = Some y \<and> ready_flag (pulseaudio y)"
  using assms
  by (auto simp: context_state_callback_def pulse_signal_def the_world_def emit_def upd_sio_def Option.bind_eq_Some_conv split: if_splits)

lemma answered_wait:
  assumes frame: "wait_frame e (keeps_ready si)" and "answered_during e l si s" and "pa_threaded_mainloop_wait e l s = Some t"
  shows "\<exists>y. sios t si = Some y \<and> ready_flag (pulseaudio y)"
proof -
  obtain k m u c w where k: "pa_callback_count (pa e) l (world s) = k + Suc m" "run_callbacks e l k s = Some u"
      "pa_next_callback (pa e) l (world u) = (ContextStateCb c si, w)"
      "pa_context_get_state (pa e) c w \<in> {PA_CONTEXT_READY, PA_CONTEXT_FAILED}"
    using assms(2) unfolding answered_during_def by (metis less_imp_Suc_add add_Suc_right)
  from assms(3) have "run_callbacks e l (k + Suc m) s = Some t"
    by (auto simp: pa_threaded_mainloop_wait_def k(1) Option.bind_eq_Some_conv simp del: add_Suc_right)
  then have "Option.bind (run_callbacks e l k s) (run_callbacks e l (Suc m)) = Some t" unfolding run_callbacks_split .
  then obtain v where v: "context_state_callback e c si (u\<lparr>world := w\<rparr>) = Some v" "run_callbacks e l m v = Some t"
    using k(2,3) by (auto simp: in_world_def call_back_def Option.bind_eq_Some_conv)
  from answer_sets_ready [OF v(1)] k(4) obtain y where "sios v si = Some y" "ready_flag (pulseaudio y)" by auto
  with obeysD [OF wait_frame.run_callbacks [OF frame] v(2)] show ?thesis by (auto simp: keeps_ready_def)
qed

text \<open>C32. Connecting ends once the server has answered: if after some number of waits there is one during which the library
  reports that the connection is ready or has failed, whatever else happens in these waits, then the loop of
  \<open>soundio_pulseaudio_init\<close> that waits for the connection returns, and then the state of the connection is known.\<close>

theorem connection_answer_ends_wait:
  assumes "callbacks_obey (keeps_ready si) e" and "sios s si = Some x"
    and "waits e l n s = Some u" and "answered_during e l si u" and "pa_threaded_mainloop_wait e l u = Some v"
  shows "\<exists>t y. wait_until_ready e l si s = Some t \<and> sios t si = Some y \<and> ready_flag (pulseaudio y)"
  using assms(2-)
proof (induction n arbitrary: s x)
  case 0
  from answered_wait [OF keeps_readyI [OF assms(1)] 0(3,4)] obtain y where y: "sios v si = Some y" "ready_flag (pulseaudio y)" by blast
  then have "wait_until_ready e l si v = Some v" by (simp add: wait_until_ready.simps)
  with 0 y show ?case by (cases "ready_flag (pulseaudio x)") (auto simp: wait_until_ready.simps [of e l si u])
next
  case (Suc n)
  from Suc.prems(2) obtain s' where s': "pa_threaded_mainloop_wait e l s = Some s'" "waits e l n s' = Some u"
    by (auto simp: Option.bind_eq_Some_conv)
  from obeysD [OF wait_frame.wait [OF keeps_readyI [OF assms(1)]] s'(1)] Suc.prems(1) obtain x' where x': "sios s' si = Some x'"
    by (auto simp: keeps_ready_def)
  from Suc.IH [OF x' s'(2) Suc.prems(3,4)] s'(1) Suc.prems(1) show ?case
    by (cases "ready_flag (pulseaudio x)") (auto simp: wait_until_ready.simps [of e l si s])
qed

text \<open>A server that first reports something else, and then fails the connection.\<close>

theorem connection_answer_ends_wait_witness:
  "\<exists>s t y. s = pulse_lib False [[SubscribeCb 0], [SubscribeCb 0, ContextStateCb 1 0]]\<lparr>sios := [0 \<mapsto> (the (sios (pulse_lib False []) 0))
       \<lparr>pulseaudio := (pulseaudio (the (sios (pulse_lib False []) 0)))\<lparr>ready_flag := False\<rparr>\<rparr>],
       loop_locks := (\<lambda>_. 1)\<rparr> \<and>
     wait_until_ready (player script_api) 0 0 s = Some t \<and> sios t 0 = Some y \<and> ready_flag (pulseaudio y)"
proof -
  let ?e = "player script_api :: (_, unit) pulse_env"
  define s where "s = pulse_lib False [[SubscribeCb 0], [SubscribeCb 0, ContextStateCb 1 0]]\<lparr>sios := [0 \<mapsto> (the (sios (pulse_lib False []) 0))
       \<lparr>pulseaudio := (pulseaudio (the (sios (pulse_lib False []) 0)))\<lparr>ready_flag := False\<rparr>\<rparr>],
       loop_locks := (\<lambda>_. 1)\<rparr>"
  note run = s_def pa_threaded_mainloop_wait_def call_back_def subscribe_callback_def context_state_callback_def
        pulse_signal_def pulse_loop_def upd_sio_def the_world_def in_world_def emit_def script_simps
  obtain u where u: "waits ?e 0 1 s = Some u" "pa_callback_count (pa ?e) 0 (world u) = 2"
      and k: "\<exists>u'. run_callbacks ?e 0 1 u = Some u' \<and> (\<exists>w. pa_next_callback (pa ?e) 0 (world u') = (ContextStateCb 1 0, w))"
      and v: "\<exists>v. pa_threaded_mainloop_wait ?e 0 u = Some v"
    by (simp add: run numeral_2_eq_2)
  have "pa_context_get_state (pa ?e) 1 w = PA_CONTEXT_FAILED" for w by (simp add: script_simps)
  with k have "answered_during ?e 0 0 u" using u(2) unfolding answered_during_def by (intro exI [of _ 1]) auto
  moreover have "callbacks_obey (keeps_ready 0) ?e"
    by (rule player_obeys) (auto simp: streams_only_def keeps_ready_def)
  moreover have "\<exists>x. sios s 0 = Some x" by (simp add: s_def)
  ultimately show ?thesis using connection_answer_ends_wait [of 0 ?e s _ 0 1 u] u(1) v s_def by blast
qed

subsection \<open>A stream that the server refuses\<close>

text \<open>A server that fails the stream and says nothing else.\<close>

definition refuses :: "('j, 'z) pulse_env \<Rightarrow> nat \<Rightarrow> nat \<Rightarrow> nat \<Rightarrow> bool" where
  "refuses e l st p \<longleftrightarrow> (\<forall>w. fst (pa_next_callback (pa e) l w) = PlaybackStateCb st p) \<and>
     (\<forall>w. pa_stream_get_state (pa e) st w = PA_STREAM_FAILED) \<and> (\<forall>w. \<not> pa_threaded_mainloop_in_thread (pa e) l w)"

text \<open>The stream is being opened: the lock is held, and the application has its own error callback.\<close>

definition in_opening :: "nat \<Rightarrow> nat \<Rightarrow> ('j, 'z) jsio_scheme \<Rightarrow> bool" where
  "in_opening l p s \<longleftrightarrow> loop_locks s l > 0 \<and> (\<exists>os dv d si. outstreams s p = Some os \<and> \<not> ospa_stream_ready (ospa os) \<and>
     \<not> os_error_callback_default os \<and> os_device os = Some dv \<and> devices s dv = Some d \<and> dev_soundio d = Some si)"

lemma refused_callback: "refuses e l st p \<Longrightarrow> in_opening l p s \<Longrightarrow>
    \<exists>u. playback_stream_state_callback e st p s = Some u \<and> in_opening l p u"
  by (auto simp: playback_stream_state_callback_def refuses_def in_opening_def outstream_error_callback_def emit_def)

lemma refused_callbacks: "refuses e l st p \<Longrightarrow> in_opening l p s \<Longrightarrow> \<exists>u. run_callbacks e l n s = Some u \<and> in_opening l p u"
proof (induction n arbitrary: s)
  case (Suc n)
  obtain w where w: "pa_next_callback (pa e) l (world s) = (PlaybackStateCb st p, w)"
    using Suc.prems(1) by (metis refuses_def prod.collapse)
  have "in_opening l p (s\<lparr>world := w\<rparr>)" using Suc.prems(2) by (simp add: in_opening_def)
  from refused_callback [OF Suc.prems(1) this] Suc.IH [OF Suc.prems(1)] w show ?case
    by (fastforce simp: in_world_def call_back_def)
qed simp

lemma refused_wait: "refuses e l st p \<Longrightarrow> in_opening l p s \<Longrightarrow>
    \<exists>u. pa_threaded_mainloop_wait e l s = Some u \<and> in_opening l p u"
  using refused_callbacks [of e l st p s]
  by (simp add: pa_threaded_mainloop_wait_def refuses_def in_opening_def c_assert_def)

lemma refused_waits: "refuses e l st p \<Longrightarrow> in_opening l p s \<Longrightarrow> \<exists>u. waits e l n s = Some u \<and> in_opening l p u"
proof (induction n arbitrary: s)
  case (Suc n)
  from refused_wait [OF Suc.prems] obtain v where "pa_threaded_mainloop_wait e l s = Some v" "in_opening l p v" by blast
  with Suc.IH [OF Suc.prems(1)] show ?case by simp
qed simp

lemma refused_never_ready:
  assumes refused: "refuses e l st p" and "in_opening l p s"
  shows "wait_playback_ready e l p s = None"
proof -
  have False if "wait_playback_ready e l p s = Some t" for t
  proof (rule wait_playback_ready.raw_induct [of "\<lambda>e' l' p' s t. e' = e \<and> l' = l \<and> p' = p \<longrightarrow> in_opening l p s \<longrightarrow> False",
      rule_format, OF _ that conjI [OF refl conjI [OF refl refl]] assms(2)], goal_cases)
    case (1 f e' l' p' s t)
    from 1(4) obtain os where os: "outstreams s p = Some os" "\<not> ospa_stream_ready (ospa os)" by (auto simp: in_opening_def)
    from refused_wait [OF refused 1(4)] obtain u where u: "pa_threaded_mainloop_wait e l s = Some u" "in_opening l p u" by blast
    from 1(2,3) os u(1) have "f e l p u = Some t" by simp
    from 1(1) [OF this] u(2) show ?case by simp
  qed
  then show ?thesis by (cases "wait_playback_ready e l p s") auto
qed

lemma none_rules:
  "(\<And>x. m = Some x \<Longrightarrow> k x = None) \<Longrightarrow> Option.bind m k = None"
  "(\<And>x y. q = (x, y) \<Longrightarrow> g x y = None) \<Longrightarrow> (case q of (x, y) \<Rightarrow> g x y) = None"
  by (cases m, auto split: prod.split)

text \<open>C39. When the server refuses an output stream after the request to connect it, the application hears of the error
  through its callback, but the function that opens the stream waits for ever: however often the wait
  returns, the stream is not ready, and the open never ends.\<close>

theorem refused_stream_blocks_open:
  assumes "refuses e l st p" and "in_opening l p s"
    and "\<And>d a f w. fst (pa_stream_connect_playback (pa e) st d a f w) = 0"
  shows "outstream_connect_pa e si l p st s = None \<and> (\<forall>n. \<exists>u. waits e l n s = Some u \<and> in_opening l p u)"
proof -
  have stuck: "err = 0 \<and> wait_playback_ready e l p v = None"
    if "upd_ospa p (\<lambda>o'. o'\<lparr>ospa_buffer_attr := attr\<rparr>) (the_world f s) = Some u"
      and connect: "in_world (pa_stream_connect_playback (pa e) st d a flags) u = (err, v)" for attr f u v d a flags err
  proof -
    have "in_opening l p u" using that(1) assms(2) by (auto simp: upd_defs the_world_def in_opening_def Option.bind_eq_Some_conv)
    moreover obtain w where "v = u\<lparr>world := w\<rparr>" "err = 0"
      using connect assms(3) [of d a flags "world u"] by (auto simp: in_world_def split: prod.splits)
    ultimately show ?thesis using refused_never_ready [OF assms(1)] by (simp add: in_opening_def)
  qed
  have "outstream_connect_pa e si l p st s = None"
    unfolding outstream_connect_pa_def Let_def by (intro none_rules) (drule (1) stuck, simp)
  with refused_waits [OF assms(1,2)] show ?thesis by simp
qed

text \<open>A server that fails the stream 1 of the client.\<close>

definition refusing_api :: "pa_callback list list pa_api" where
  "refusing_api = script_api\<lparr>pa_callback_count := (\<lambda>l w. 1), pa_next_callback := (\<lambda>l w. (PlaybackStateCb 1 9, w))\<rparr>"

definition pulse_stream_lib :: "(pa_callback list list, unit) jsio_scheme" where
  "pulse_stream_lib = (pulse_lib False [])\<lparr>devices := [1 \<mapsto> device_zero\<lparr>dev_soundio := Some 0\<rparr>],
     outstreams := [9 \<mapsto> outstream_zero\<lparr>os_device := Some 1, os_bytes_per_frame := 4, os_sample_rate := 48000,
       ospa := ospa_zero\<lparr>ospa_stream := Some 1\<rparr>\<rparr>],
     instreams := [9 \<mapsto> instream_zero\<lparr>is_device := Some 1, is_bytes_per_frame := 4, is_sample_rate := 48000,
       ispa := ispa_zero\<lparr>ispa_stream := Some 1\<rparr>\<rparr>], loop_locks := (\<lambda>_. 1)\<rparr>"

theorem refused_stream_blocks_open_witness:
  "outstream_connect_pa (bare_env refusing_api) 0 0 9 1 pulse_stream_lib = None"
proof -
  have refused: "refuses (bare_env refusing_api) 0 1 9"
    by (simp add: refuses_def bare_env_def refusing_api_def script_api_def)
  have opens: "in_opening 0 9 pulse_stream_lib"
    by (simp add: in_opening_def pulse_stream_lib_def device_zero_def outstream_zero_def ospa_zero_def)
  have "fst (pa_stream_connect_playback (pa (bare_env refusing_api)) 1 d a f w) = 0" for d a f w
    by (simp add: bare_env_def refusing_api_def script_api_def)
  from refused_stream_blocks_open [OF refused opens this] show ?thesis by blast
qed

subsection \<open>Pausing\<close>

text \<open>Which thread asks does not change while a function pauses a stream.\<close>

definition asks_from :: "bool \<Rightarrow> ('j, 'z) pulse_env \<Rightarrow> nat \<Rightarrow> bool" where
  "asks_from own e l \<longleftrightarrow> (\<forall>w. pa_threaded_mainloop_in_thread (pa e) l w = own)"

text \<open>C36. Pausing an input stream: called from outside the thread of the main loop, an error leaves the lock of the loop taken;
  on success, and in the thread of the loop, the lock is as it was.\<close>

theorem failed_pause_keeps_lock:
  assumes "instream_pause_pa e si p pause s = Some (err, t)" and "pulse_loop si s = Some l" and "asks_from own e l"
  shows "loop_locks t = (loop_locks s)(l := loop_locks s l + of_bool (err \<noteq> SoundIoErrorNone \<and> \<not> own))"
  using assms
  by (auto simp: instream_pause_pa_def asks_from_def lock_outside_def unlock_outside_def pa_threaded_mainloop_lock_def
      pa_threaded_mainloop_unlock_def Option.bind_eq_Some_conv case_prod_unfold cork_locks Let_def split: if_splits)

definition no_cork_api :: "bool \<Rightarrow> pa_callback list list pa_api" where
  "no_cork_api own = script_api\<lparr>pa_stream_cork := (\<lambda>st b w. (None, w)), pa_threaded_mainloop_in_thread := (\<lambda>l w. own)\<rparr>"

theorem failed_pause_keeps_lock_witness:
  "\<exists>t. instream_pause_pa (bare_env (no_cork_api False)) 0 9 True pulse_stream_lib = Some (SoundIoErrorStreaming, t) \<and>
     loop_locks t 0 = 2"
proof -
  obtain t where t: "instream_pause_pa (bare_env (no_cork_api False)) 0 9 True pulse_stream_lib = Some (SoundIoErrorStreaming, t)"
    by (simp add: instream_pause_pa_def pulse_stream_lib_def pulse_loop_def lock_outside_def pa_threaded_mainloop_lock_def
        cork_if_needed_def in_world_def bare_env_def no_cork_api_def script_simps instream_zero_def ispa_zero_def)
  have "pulse_loop 0 pulse_stream_lib = Some 0" "asks_from False (bare_env (no_cork_api False)) 0"
    by (simp_all add: pulse_loop_def pulse_stream_lib_def script_simps asks_from_def bare_env_def no_cork_api_def)
  from failed_pause_keeps_lock [OF t this] t show ?thesis by (simp add: pulse_stream_lib_def)
qed

text \<open>Pausing an output stream from its own callback, in the thread of the main loop, is undefined when the request fails:
  the error path gives back a lock that was not taken.\<close>

theorem failed_pause_in_thread_undefined:
  assumes "pulse_loop si s = Some l" and "asks_from True e l" and "outstreams s p = Some os" and "ospa_stream (ospa os) = Some st"
    and "fst (cork_if_needed e st pause s) = False"
  shows "outstream_pause_pa e si p pause s = None"
  using assms
  by (cases "cork_if_needed e st pause s")
    (simp add: outstream_pause_pa_def asks_from_def lock_outside_def pa_threaded_mainloop_unlock_def)

theorem failed_pause_in_thread_undefined_witness:
  "outstream_pause_pa (bare_env (no_cork_api True)) 0 9 True pulse_stream_lib = None"
proof (rule failed_pause_in_thread_undefined [of 0 _ 0 _ 9 "the (outstreams pulse_stream_lib 9)" 1])
  show "pulse_loop 0 pulse_stream_lib = Some 0" "asks_from True (bare_env (no_cork_api True)) 0"
    by (simp_all add: pulse_loop_def pulse_stream_lib_def script_simps asks_from_def bare_env_def no_cork_api_def)
  show "fst (cork_if_needed (bare_env (no_cork_api True)) 1 True pulse_stream_lib) = False"
    by (simp add: cork_if_needed_def in_world_def bare_env_def no_cork_api_def script_simps)
qed (simp_all add: pulse_stream_lib_def outstream_zero_def ospa_zero_def)

subsection \<open>Connecting without memory\<close>

lemma upd_sipa_keeps:
  "upd_sipa si f s = Some t \<Longrightarrow> sios s si = Some x \<Longrightarrow> sios t si = Some (x\<lparr>pulseaudio := f (pulseaudio x)\<rparr>)"
  by (auto simp: upd_sio_def)

text \<open>When memory runs out before there is a context, connecting is undefined instead of returning an error: the error path
  disconnects a context that is NULL, which the library does not allow.\<close>

theorem connect_without_memory_undefined:
  assumes "\<And>w. pa_context_disconnect (pa e) None w = None"
    and "sios s si = Some x" and "pulse_context (pulseaudio x) = None"
    and "(\<forall>w. fst (pa_threaded_mainloop_new (pa e) w) = None) \<or> (\<forall>w. fst (pa_proplist_new (pa e) w) = None) \<or>
      (\<forall>l n pr w. fst (pa_context_new_with_proplist (pa e) l n pr w) = None)"
  shows "soundio_pulseaudio_init e si s = None"
proof -
  have failed: "pulse_init_failed e si err t = None" if "sios t si = Some y" "pulse_context (pulseaudio y) = None" for t y err
    using that assms(1) by (auto simp: pulse_init_failed_def destroy_pa_def world_do_def Let_def the_world_def split: option.split)
  show ?thesis
    using assms(2-4)
    by (auto simp: soundio_pulseaudio_init_def in_world_def upd_sio_def failed split: prod.splits option.splits)
      (metis fst_conv option.distinct(1))+
qed

theorem connect_without_memory_undefined_witness:
  "soundio_pulseaudio_init (bare_env (script_api\<lparr>pa_threaded_mainloop_new := (\<lambda>w. (None, w))\<rparr>)) 0
     ((lib_start [] [])\<lparr>next_id := 1, sios := [0 \<mapsto> sio_create]\<rparr>) = None"
  by (rule connect_without_memory_undefined [of _ _ _ sio_create])
    (simp_all add: script_simps bare_env_def)

end
