(* ===== verification/PulseScan.thy ===== *)
theory PulseScan
  imports PulseErrors
begin

section \<open>What a PulseAudio scan publishes\<close>

text \<open>
  The end of a successful scan: the default devices are found by name and the list becomes the
  one that the next flush shows to the application.
\<close>

text \<open>The identifiers of the devices in a list, in order.\<close>

definition ids_are :: "SoundIoDeviceAim \<Rightarrow> nat clist \<Rightarrow> 'z devs_scheme \<Rightarrow> string list \<Rightarrow> bool" where
  "ids_are a l s ids \<longleftrightarrow> l_length l = int (length ids) \<and> (\<forall>i < length ids. \<exists>dev d b. list_val_at l (int i) = Some dev \<and>
     devices s dev = Some d \<and> aim d = a \<and> dev_id d = Some (b, ids ! i))"

text \<open>The last device with the name; the first one if there is none; \<open>-1\<close> for no devices.\<close>

definition default_index :: "string \<Rightarrow> string list \<Rightarrow> int" where
  "default_index nm ids =
     (if ids = [] then - 1
      else let found = filter (\<lambda>i. ids ! i = nm) [0..<length ids] in if found = [] then 0 else int (last found))"

lemma default_device_index_spec:
  assumes ids: "ids_are a l s ids"
  shows "default_device_index a l (Some (c, nm)) s = Some (default_index nm ids)"
proof -
  define step where "step = (\<lambda>i index. do {
          device \<leftarrow> list_val_at l (int i);
          d \<leftarrow> devices s device;
          c_assert (aim d = a);
          id \<leftarrow> dev_id d;
          Some (if snd id = nm then int i else index)
        })"
  have "for_each step [0..<k] 0 = Some (let found = filter (\<lambda>i. ids ! i = nm) [0..<k] in if found = [] then 0 else int (last found))"
    if "k \<le> length ids" for k
    using that
  proof (induction k)
    case (Suc k)
    then obtain dev d b where "list_val_at l (int k) = Some dev" "devices s dev = Some d" "aim d = a" "dev_id d = Some (b, ids ! k)"
      using ids unfolding ids_are_def by (metis Suc_le_lessD)
    then have "step k i = Some (if ids ! k = nm then int k else i)" for i by (simp add: step_def)
    with Suc show ?case by (simp add: for_each_append)
  qed simp
  then show ?thesis using ids
    by (simp add: default_device_index_def ids_are_def default_index_def step_def [symmetric])
qed

text \<open>C23. A scan that found all devices publishes them: the new list is the one of the scan with the defaults of the server,
  the last device whose identifier is the default name, the first device if there is none, and \<open>-1\<close> if there
  is no device.\<close>

theorem scan_publishes_defaults:
  assumes "sios s si = Some x" and "current_devices_info (pulseaudio x) = Some q" and "infos s q = Some info"
    and "ready_devices_info (pulseaudio x) = None"
    and "ids_are SoundIoDeviceAimInput (input_devices info) s sources" and "default_source_name (pulseaudio x) = Some (b, source)"
    and "ids_are SoundIoDeviceAimOutput (output_devices info) s sinks" and "default_sink_name (pulseaudio x) = Some (c, sink)"
    and "publish_devices e si s = Some (err, t)"
  shows "err = SoundIoErrorNone \<and>
    infos t q = Some (info\<lparr>default_input_index := default_index source sources, default_output_index := default_index sink sinks\<rparr>) \<and>
    sios t si = Some (x\<lparr>pulseaudio := (pulseaudio x)\<lparr>ready_devices_info := Some q, current_devices_info := None\<rparr>\<rparr>)"
  using assms
  by (auto simp: publish_devices_def default_device_index_spec [OF assms(5)] default_device_index_spec [OF assms(7)]
      soundio_destroy_devices_info_def upd_defs pulse_signal_def pulse_loop_def the_world_def emit_def Let_def
      Option.bind_eq_Some_conv)

definition scanned_lib :: "(pa_callback list list, unit) jsio_scheme" where
  "scanned_lib = (pulse_lib False [])\<lparr>
     devices := [1 \<mapsto> device_zero\<lparr>aim := SoundIoDeviceAimOutput, dev_id := Some (2, ''a'')\<rparr>,
       3 \<mapsto> device_zero\<lparr>aim := SoundIoDeviceAimOutput, dev_id := Some (4, ''b'')\<rparr>],
     infos := [5 \<mapsto> devices_info_zero\<lparr>output_devices := \<lparr>l_items = [Some 1, Some 3], l_blk = Some 6, l_length = 2, l_capacity = 2\<rparr>\<rparr>],
     sios := [0 \<mapsto> (the (sios (pulse_lib False []) 0))\<lparr>pulseaudio := (pulseaudio (the (sios (pulse_lib False []) 0)))
       \<lparr>current_devices_info := Some 5, default_sink_name := Some (7, ''b''), default_source_name := Some (8, ''c'')\<rparr>\<rparr>]\<rparr>"

theorem scan_publishes_defaults_witness:
  "\<exists>t info. publish_devices (player script_api) 0 scanned_lib = Some (SoundIoErrorNone, t) \<and>
     infos t 5 = Some info \<and> default_output_index info = 1 \<and> default_input_index info = - 1"
proof -
  let ?s = "scanned_lib"
  note lib = scanned_lib_def script_simps devices_info_zero_def clist_zero_def
  obtain t where t: "publish_devices (player script_api) 0 ?s = Some (SoundIoErrorNone, t)"
    by (simp add: publish_devices_def default_device_index_def list_val_at_def arr_at_def c_assert_def device_zero_def upd_defs
        pulse_signal_def pulse_loop_def the_world_def soundio_destroy_devices_info_def Let_def lib numeral_2_eq_2)
  let ?info = "the (infos ?s 5)"
  have ids: "ids_are SoundIoDeviceAimInput (input_devices ?info) ?s []"
      "ids_are SoundIoDeviceAimOutput (output_devices ?info) ?s [''a'', ''b'']"
    by (auto simp: ids_are_def list_val_at_def arr_at_def c_assert_def lib device_zero_def less_Suc_eq numeral_2_eq_2)
  have "default_index ''b'' [''a'', ''b''] = 1" "default_index ''c'' [] = - 1" by (simp_all add: default_index_def numeral_2_eq_2)
  moreover have "infos t 5 = Some (?info\<lparr>default_input_index := default_index ''c'' [],
      default_output_index := default_index ''b'' [''a'', ''b'']\<rparr>)"
    using scan_publishes_defaults [where x = "the (sios ?s 0)" and q = 5 and b = 8 and c = 7 and source = "''c''" and sink = "''b''",
        OF _ _ _ _ ids(1) _ ids(2) _ t]
    by (simp add: lib)
  ultimately show ?thesis using t by simp
qed

end
