(* ===== verification/PulseRead.thy ===== *)
theory PulseRead
  imports PulseErrors DummyStreams
begin

section \<open>Reading the buffer that PulseAudio lends\<close>

text \<open>
  PulseAudio lends a recorded fragment (\<open>pa_stream_peek\<close>) until it is dropped. The application may
  read it in pieces; the model of this is a list of frame addresses from which each pair of
  \<open>instream_begin_read\<close> and \<open>instream_end_read\<close> takes the first ones.
\<close>

subsection \<open>The frames that are left\<close>

definition pending :: "SoundIoInStream \<Rightarrow> nat list" where
  "pending i = (case ispa_peek_buf (ispa i) of None \<Rightarrow> []
     | Some b \<Rightarrow> map (\<lambda>k. b + unat (ispa_peek_buf_index (ispa i)) + k * nat (is_bytes_per_frame i))
         [0..<nat (ispa_peek_buf_frames_left (ispa i))])"

text \<open>The position and the frames that are left add up to the size of the fragment.\<close>

definition peek_inv :: "SoundIoInStream \<Rightarrow> bool" where
  "peek_inv i \<longleftrightarrow> is_bytes_per_frame i > 0 \<and> ispa_peek_buf_frames_left (ispa i) \<ge> 0 \<and>
     (ispa_peek_buf (ispa i) \<noteq> None \<longrightarrow> int (unat (ispa_peek_buf_index (ispa i))) +
       ispa_peek_buf_frames_left (ispa i) * is_bytes_per_frame i = int (unat (ispa_peek_buf_size (ispa i))))"

text \<open>The frames that an area shows.\<close>

definition frames_of :: "SoundIoChannelArea \<Rightarrow> int \<Rightarrow> nat list" where
  "frames_of a n = map (\<lambda>k. area_ptr a + k * nat (area_step a)) [0..<nat n]"

lemma advance_index:
  fixes i size :: "64 word"
  assumes "int (unat i) + left * b = int (unat size)" and "0 \<le> k" "k \<le> left" "0 < b"
  shows "unat (i + word_of_int (k * b)) = unat i + nat k * nat b"
    and "i + word_of_int (k * b) \<ge> size \<longleftrightarrow> k = left"
proof -
  have le: "k * b \<le> left * b" and pos: "0 \<le> k * b" using assms by (simp_all add: mult_right_mono)
  have "int (unat size) < 2 ^ 64" using uint_lt2p [of size] by simp
  then have bound: "int (unat i) + k * b < 2 ^ 64" using assms(1) le by linarith
  have "i + word_of_int (k * b) = word_of_int (uint i + k * b)" by (simp del: of_int_mult)
  then have "uint (i + word_of_int (k * b)) = (uint i + k * b) mod 2 ^ 64"
    by (simp only: uint_word_of_int) simp
  also have "\<dots> = uint i + k * b" using bound pos by (simp add: mod_pos_pos_trivial)
  finally have eq: "uint (i + word_of_int (k * b)) = uint i + k * b" .
  have "nat (k * b) = nat k * nat b" using assms(2) by (simp add: nat_mult_distrib)
  then show "unat (i + word_of_int (k * b)) = unat i + nat k * nat b"
    unfolding unat_eq_nat_uint eq using pos by (simp only: nat_add_distrib uint_ge_0)
  have "left * b \<le> k * b \<longleftrightarrow> left \<le> k" using assms(4) by simp
  then show "i + word_of_int (k * b) \<ge> size \<longleftrightarrow> k = left"
    using eq assms(1,3) by (auto simp: word_le_def)
qed

subsection \<open>One read\<close>

lemma begin_peeked:
  assumes i: "instreams s p = Some i" "ispa_peek_buf (ispa i) = Some b" "ispa_stream_ready (ispa i)"
    and fits: "0 < cl_channel_count (is_layout i)" "cl_channel_count (is_layout i) \<le> int (length (ispa_areas (ispa i)))"
    and run: "instream_begin_read_pa e p n s = Some (err, areas, k, t)"
  shows "err = SoundIoErrorNone \<and> k = min n (ispa_peek_buf_frames_left (ispa i)) \<and>
     areas ! 0 = \<lparr>area_ptr = b + unat (ispa_peek_buf_index (ispa i)), area_step = is_bytes_per_frame i\<rparr> \<and>
     upd_ispa p (\<lambda>x. x\<lparr>ispa_read_frame_count := k, ispa_areas := areas\<rparr>) s = Some t"
proof -
  obtain as where as: "interleave_areas (b + unat (ispa_peek_buf_index (ispa i))) (is_bytes_per_sample i)
      (is_bytes_per_frame i) (cl_channel_count (is_layout i)) (ispa_areas (ispa i)) = Some as"
      "\<forall>ch < nat (cl_channel_count (is_layout i)). as ! ch = \<lparr>area_ptr = nat (int (b + unat (ispa_peek_buf_index (ispa i))) +
        is_bytes_per_sample i * int ch), area_step = is_bytes_per_frame i\<rparr>"
    using interleave_areas_total [OF fits(2)] by blast
  from as(2) fits(1) have "as ! 0 = \<lparr>area_ptr = b + unat (ispa_peek_buf_index (ispa i)), area_step = is_bytes_per_frame i\<rparr>"
    by (simp add: nat_add_distrib)
  with run i as(1) show ?thesis
    by (auto simp: instream_begin_read_pa_def read_peeked_def Let_def Option.bind_eq_Some_conv)
qed

lemma end_peeked:
  assumes i: "instreams s p = Some i" "ispa_peek_buf (ispa i) = Some b" "ispa_stream (ispa i) = Some st"
    and inv: "peek_inv i" and k: "0 \<le> k" "k \<le> ispa_peek_buf_frames_left (ispa i)"
    and t: "upd_ispa p (\<lambda>x. x\<lparr>ispa_read_frame_count := k, ispa_areas := areas\<rparr>) s = Some t"
    and run: "instream_end_read_pa e p t = Some (err, u)"
  shows "\<exists>j. instreams u p = Some j \<and> peek_inv j \<and>
     (if k < ispa_peek_buf_frames_left (ispa i)
      then err = SoundIoErrorNone \<and> world u = world s \<and> pending j = drop (nat k) (pending i)
      else world u = snd (pa_stream_drop (pa e) st (world s)) \<and> pending j = [])"
proof -
  define x where "x = (ispa i)\<lparr>ispa_read_frame_count := k, ispa_areas := areas\<rparr>"
  define index left where "index = ispa_peek_buf_index (ispa i) + word_of_int (k * is_bytes_per_frame i)"
    and "left = ispa_peek_buf_frames_left (ispa i) - k"
  define y where "y = x\<lparr>ispa_peek_buf_index := index, ispa_peek_buf_frames_left := left\<rparr>"
  have inv': "0 < is_bytes_per_frame i" "int (unat (ispa_peek_buf_index (ispa i))) +
      ispa_peek_buf_frames_left (ispa i) * is_bytes_per_frame i = int (unat (ispa_peek_buf_size (ispa i)))"
    using inv i(2) by (simp_all add: peek_inv_def)
  note adv = advance_index [OF inv'(2) k inv'(1), folded index_def]
  let ?s = "s\<lparr>instreams := (instreams s)(p \<mapsto> i\<lparr>ispa := y\<rparr>)\<rparr>"
  have run': "(if k = ispa_peek_buf_frames_left (ispa i) then do {
          (err, s) \<leftarrow> drop_peeked e p ?s;
          if err \<noteq> SoundIoErrorNone then Some (err, s)
          else do { s \<leftarrow> upd_ispa p (\<lambda>i. i\<lparr>ispa_peek_buf := None\<rparr>) s; Some (SoundIoErrorNone, s) }
        } else Some (SoundIoErrorNone, ?s)) = Some (err, u)"
  proof -
    have t': "t = s\<lparr>instreams := (instreams s)(p \<mapsto> i\<lparr>ispa := x\<rparr>)\<rparr>" using t i(1) by (simp add: upd_in_def x_def)
    have x: "ispa_peek_buf x = Some b" "ispa_peek_buf_index x = ispa_peek_buf_index (ispa i)" "ispa_read_frame_count x = k"
        "ispa_peek_buf_frames_left x = ispa_peek_buf_frames_left (ispa i)" "ispa_peek_buf_size x = ispa_peek_buf_size (ispa i)"
      by (simp_all add: x_def i(2))
    have ints: "in_int (k * is_bytes_per_frame i)" "in_int left"
      using run unfolding t'
      by (auto simp: instream_end_read_pa_def c_int_def x left_def Let_def Option.bind_eq_Some_conv split: if_splits)
    show ?thesis
      using run unfolding t'
      by (simp add: instream_end_read_pa_def upd_in_def c_int_def ints x Let_def y_def adv(2) [unfolded index_def]
          index_def left_def [symmetric] del: of_int_mult split: if_split_asm)
  qed
  have inv_y: "peek_inv (i\<lparr>ispa := y\<rparr>)" 
    using inv' k adv(1) by (simp add: peek_inv_def y_def x_def left_def left_diff_distrib)
  have "nat left = nat (ispa_peek_buf_frames_left (ispa i)) - nat k" using k by (simp add: left_def nat_diff_distrib)
  moreover have "drop (nat k) (map f [0..<n]) = map (\<lambda>j. f (j + nat k)) [0..<n - nat k]" for f :: "nat \<Rightarrow> nat" and n
    by (rule nth_equalityI) (simp_all add: add.commute)
  ultimately have pend: "pending (i\<lparr>ispa := y\<rparr>) = drop (nat k) (pending i)"
    by (simp add: pending_def y_def x_def i(2) adv(1) algebra_simps)
  show ?thesis
  proof (cases "k < ispa_peek_buf_frames_left (ispa i)")
    case True
    with run' inv_y pend show ?thesis by (intro exI [of _ "i\<lparr>ispa := y\<rparr>"]) auto
  next
    case False
    with k have all: "k = ispa_peek_buf_frames_left (ispa i)" by simp
    obtain r w where drop: "pa_stream_drop (pa e) st (world s) = (r, w)" by fastforce
    have "ispa_stream y = Some st" using i(3) by (simp add: y_def x_def)
    with run' all drop have u: "u = ?s\<lparr>world := w\<rparr> \<or> u = ?s\<lparr>world := w, instreams := (instreams s)(p \<mapsto> i\<lparr>ispa := y\<lparr>ispa_peek_buf := None\<rparr>\<rparr>)\<rparr>"
      by (auto simp: drop_peeked_def in_world_def upd_in_def split: if_splits)
    have "pending (i\<lparr>ispa := y\<rparr>) = []" unfolding pend by (simp add: all pending_def i(2))
    moreover have "peek_inv (i\<lparr>ispa := y\<lparr>ispa_peek_buf := None\<rparr>\<rparr>)" "pending (i\<lparr>ispa := y\<lparr>ispa_peek_buf := None\<rparr>\<rparr>) = []"
      using inv_y by (simp_all add: peek_inv_def pending_def)
    ultimately show ?thesis using u inv_y False drop by auto
  qed
qed

text \<open>C18. Reading takes the frames of the lent fragment in order: a pair of begin and end shows the first frames that are
  left, as many as asked for and present, and leaves the others for the next pair; the fragment is given back
  exactly when none are left.\<close>

theorem read_takes_pending_frames:
  assumes "instreams s p = Some i" and "ispa_peek_buf (ispa i) = Some b" and "ispa_stream_ready (ispa i)"
    and "ispa_stream (ispa i) = Some st" and "peek_inv i" and "0 \<le> n"
    and "0 < cl_channel_count (is_layout i)" and "cl_channel_count (is_layout i) \<le> int (length (ispa_areas (ispa i)))"
    and "instream_begin_read_pa e p n s = Some (err, areas, k, t)" and "instream_end_read_pa e p t = Some (err', u)"
  shows "err = SoundIoErrorNone \<and> k = min n (int (length (pending i))) \<and> frames_of (areas ! 0) k = take (nat k) (pending i) \<and>
    (\<exists>j. instreams u p = Some j \<and> peek_inv j \<and> pending j = drop (nat k) (pending i) \<and>
      world u = (if pending j = [] then snd (pa_stream_drop (pa e) st (world s)) else world s))"
proof -
  note began = begin_peeked [OF assms(1-3,7-9)]
  have left: "0 \<le> ispa_peek_buf_frames_left (ispa i)" "int (length (pending i)) = ispa_peek_buf_frames_left (ispa i)"
    using assms(2,5) by (simp_all add: peek_inv_def pending_def)
  have k: "0 \<le> k" "k \<le> ispa_peek_buf_frames_left (ispa i)" using began left assms(6) by auto
  have frames: "frames_of (areas ! 0) k = take (nat k) (pending i)"
    using began k by (simp add: frames_of_def pending_def assms(2) take_map)
  from end_peeked [OF assms(1,2,4,5) k _ assms(10)] began obtain j where
    "instreams u p = Some j" "peek_inv j" "if k < ispa_peek_buf_frames_left (ispa i)
      then err' = SoundIoErrorNone \<and> world u = world s \<and> pending j = drop (nat k) (pending i)
      else world u = snd (pa_stream_drop (pa e) st (world s)) \<and> pending j = []" by blast
  with began left k frames show ?thesis by (auto split: if_splits)
qed

definition lent_stream :: SoundIoInStream where
  "lent_stream = instream_zero\<lparr>is_device := Some 1, is_bytes_per_frame := 4, is_bytes_per_sample := 4, is_sample_rate := 48000,
     is_layout := layout_zero\<lparr>cl_channel_count := 1\<rparr>,
     ispa := ispa_zero\<lparr>ispa_stream := Some 0, ispa_stream_ready := True, ispa_peek_buf := Some 1000, ispa_peek_buf_size := 8,
       ispa_peek_buf_frames_left := 2\<rparr>\<rparr>"

theorem read_takes_pending_frames_witness:
  "\<exists>areas t err' u j. instream_begin_read_pa (bare_env script_api) 9 1 (pulse_stream_lib\<lparr>instreams := [9 \<mapsto> lent_stream]\<rparr>) =
       Some (SoundIoErrorNone, areas, 1, t) \<and>
     instream_end_read_pa (bare_env script_api) 9 t = Some (err', u) \<and> frames_of (areas ! 0) 1 = [1000] \<and>
     instreams u 9 = Some j \<and> pending j = [1004]"
proof -
  let ?s = "pulse_stream_lib\<lparr>instreams := [9 \<mapsto> lent_stream]\<rparr>"
  note stream = lent_stream_def instream_zero_def ispa_zero_def layout_zero_def
  obtain areas t where t: "instream_begin_read_pa (bare_env script_api) 9 1 ?s = Some (SoundIoErrorNone, areas, 1, t)"
      "\<exists>err' u. instream_end_read_pa (bare_env script_api) 9 t = Some (err', u)"
    by (simp add: instream_begin_read_pa_def instream_end_read_pa_def read_peeked_def interleave_areas_def arr_set_def upd_in_def
        c_int_def in_int_def int_max_def int_min_def stream SOUNDIO_MAX_CHANNELS_def)
  from t(2) obtain err' u where u: "instream_end_read_pa (bare_env script_api) 9 t = Some (err', u)" by blast
  have "pending lent_stream = [1000, 1004]" by (simp add: pending_def stream numeral_2_eq_2)
  with read_takes_pending_frames [of ?s 9 lent_stream 1000 0 1, OF _ _ _ _ _ _ _ _ t(1) u] t u show ?thesis
    by (auto simp: peek_inv_def stream SOUNDIO_MAX_CHANNELS_def)
qed

subsection \<open>Where the invariant comes from\<close>

text \<open>A fragment of whole frames satisfies it when it is lent, and all of its frames are pending.\<close>

lemma peek_establishes_inv:
  assumes "instreams s p = Some i" and "ispa_peek_buf (ispa i) = None" and "ispa_stream (ispa i) = Some st"
    and "pa_stream_peek (pa e) st (world s) = ((0, Some b, nbytes), w)"
    and "0 < is_bytes_per_frame i" "is_bytes_per_frame i \<le> int_max" and "uint nbytes = n * is_bytes_per_frame i" "0 \<le> n" "n \<le> int_max"
    and "instream_begin_read_pa e p m s = Some (err, areas, k, t)"
  shows "\<exists>j. instreams t p = Some j \<and> peek_inv j \<and> int (length (pending j)) = n"
proof -
  have bpf: "uint (word_of_int (is_bytes_per_frame i) :: 64 word) = is_bytes_per_frame i"
    using assms(5,6) by (simp add: uint_word_of_int mod_pos_pos_trivial int_max_def)
  then have "uint (nbytes div word_of_int (is_bytes_per_frame i)) = n" and "(word_of_int (is_bytes_per_frame i) :: 64 word) \<noteq> 0"
    using assms(5,7) by (auto simp: uint_div)
  then have frames: "size_div nbytes (is_bytes_per_frame i) = Some (nbytes div word_of_int (is_bytes_per_frame i))"
      "to_int32 (uint (nbytes div word_of_int (is_bytes_per_frame i))) = n"
    using assms(8,9) by (simp_all add: size_div_def to_int32_in_range in_int_def int_min_def)
  show ?thesis
    using assms(1-4,5,7,8,10) frames
    by (auto simp: instream_begin_read_pa_def read_peeked_def in_world_def upd_in_def Let_def Option.bind_eq_Some_conv
        peek_inv_def pending_def)
qed

end
