(* ===== verification/AlsaQuiet.thy ===== *)
theory AlsaQuiet
  imports SoundIo
begin

section \<open>A sound system for the examples\<close>

text \<open>
  A concrete ALSA library: every call succeeds, there are no cards and no named devices, an
  open device has two channels and accepts whatever is asked for, and nothing ever happens on
  the descriptors except that the pipe is readable. Its state is the list of the descriptors
  that were closed. The examples change single answers of it.
\<close>

definition quiet_sys :: "int list alsa_sys" where
  "quiet_sys = \<lparr>sys_write = (\<lambda>fd w. ((1, 0), w)), sys_close = (\<lambda>fd w. w @ [fd]),
     sys_inotify_init = (\<lambda>w. ((3, 0), w)), sys_inotify_add_watch = (\<lambda>fd w. ((1, 0), w)),
     sys_pipe2 = (\<lambda>w. ((0, 0, 4, 5), w)), sys_poll_devices = (\<lambda>a b w. ((1, 0, False, True), w)),
     sys_read_events = (\<lambda>fd w. ((- 1, EAGAIN, []), w)), sys_read_pipe = (\<lambda>fd w. ((- 1, EAGAIN), w)),
     sys_poll_stream = (\<lambda>fds n w. (1, w)), sys_sleep_1ms = (\<lambda>w. w)\<rparr>"

definition quiet_ctl :: "int list alsa_ctl" where
  "quiet_ctl = \<lparr>snd_config_update_free_global = (\<lambda>w. (0, w)), snd_config_update = (\<lambda>w. (0, w)),
     snd_device_name_hint = (\<lambda>w. ((0, []), w)), snd_device_name_get_hint = (\<lambda>h key w. None),
     snd_device_name_free_hint = (\<lambda>w. w), snd_card_next = (\<lambda>i w. ((0, - 1), w)),
     snd_ctl_open = (\<lambda>n w. ((0, 0), w)), snd_ctl_close = (\<lambda>c w. w), snd_ctl_card_info = (\<lambda>c w. ((0, ''card''), w)),
     snd_ctl_pcm_next_device = (\<lambda>c i w. ((0, - 1), w)), snd_ctl_pcm_info = (\<lambda>c i t w. ((0, ''device''), w)),
     snd_pcm_query_chmaps_from_hw = (\<lambda>c i t w. (None, w)), snd_pcm_query_chmaps = (\<lambda>h w. (None, w)),
     snd_pcm_free_chmaps = (\<lambda>m w. w), snd_pcm_get_chmap = (\<lambda>h w. None),
     snd_pcm_open = (\<lambda>n t w. ((0, 7), w)), snd_pcm_close = (\<lambda>h w. w), snd_pcm_format_physical_width = (\<lambda>f. 32)\<rparr>"

definition quiet_params :: "int list alsa_params" where
  "quiet_params = \<lparr>hw_params_any = (\<lambda>h w. (0, w)), hw_params_set_rate_resample = (\<lambda>h r w. (0, w)),
     hw_params_set_access = (\<lambda>h a w. (0, w)), hw_params_get_channels_min = (\<lambda>h w. (0, 2)),
     hw_params_set_channels_last = (\<lambda>h w. ((0, 2), w)), hw_params_get_rate_min = (\<lambda>h w. (0, 44100)),
     hw_params_set_rate_last = (\<lambda>h w. ((0, 48000), w)), hw_params_get_buffer_size_min = (\<lambda>h w. (0, 64)),
     hw_params_get_buffer_size_max = (\<lambda>h w. (0, 4096)), hw_params_set_buffer_size_first = (\<lambda>h w. (0, w)),
     hw_params_set_format_mask = (\<lambda>h m w. (0, w)),
     hw_params_get_format_mask = (\<lambda>h w. {SND_PCM_FORMAT_S16_LE, SND_PCM_FORMAT_FLOAT_LE}),
     hw_params_set_channels = (\<lambda>h n w. (0, w)), hw_params_set_rate = (\<lambda>h n w. (0, w)), hw_params_set_format = (\<lambda>h f w. (0, w)),
     hw_params_set_buffer_size_near = (\<lambda>h n w. ((0, n), w)), hw_params_set_buffer_size_last = (\<lambda>h w. (0, w)),
     hw_params_set_period_size_near = (\<lambda>h n w. ((0, n), w)), hw_params_get_period_size = (\<lambda>h w. (0, 512)),
     hw_params = (\<lambda>h w. (0, w)), sw_params_current = (\<lambda>h w. (0, w)), sw_params_set_start_threshold = (\<lambda>h n w. (0, w)),
     sw_params_set_avail_min = (\<lambda>h n w. (0, w)), sw_params = (\<lambda>h w. (0, w)), snd_pcm_set_chmap = (\<lambda>h m w. (0, w)),
     snd_pcm_poll_descriptors_count = (\<lambda>h w. 1), snd_pcm_poll_descriptors = (\<lambda>h n w. (1, w))\<rparr>"

definition quiet_pcm :: "int list alsa_pcm" where
  "quiet_pcm = \<lparr>pcm_state = (\<lambda>h w. SND_PCM_STATE_RUNNING), snd_pcm_prepare = (\<lambda>h w. (0, w)), snd_pcm_start = (\<lambda>h w. (0, w)),
     snd_pcm_drop = (\<lambda>h w. (0, w)), snd_pcm_reset = (\<lambda>h w. (0, w)), snd_pcm_resume = (\<lambda>h w. (0, w)),
     snd_pcm_pause = (\<lambda>h b w. (0, w)), snd_pcm_avail_sync = (\<lambda>h w. (0, w)), snd_pcm_avail_update = (\<lambda>h w. (0, w)),
     snd_pcm_delay = (\<lambda>h w. ((0, 0), w)), snd_pcm_revents = (\<lambda>h n w. ((0, {POLLOUT, POLLIN}), w)),
     snd_pcm_mmap_begin = (\<lambda>h n w. ((0, [\<lparr>ca_addr = 1000, ca_first = 0, ca_step = 64\<rparr>, \<lparr>ca_addr = 1000, ca_first = 32, ca_step = 64\<rparr>], 8, n), w)),
     snd_pcm_mmap_commit = (\<lambda>h f n w. (uint n, w)), snd_pcm_writei = (\<lambda>h b n w. (uint n, w)), snd_pcm_writen = (\<lambda>h bs n w. (uint n, w)),
     snd_pcm_readi = (\<lambda>h b n w. (uint n, w)), snd_pcm_readn = (\<lambda>h bs n w. (uint n, w))\<rparr>"

definition quiet_alsa :: "(int list, unit) alsa_env" where
  "quiet_alsa = \<lparr>asys = quiet_sys, actl = quiet_ctl, apar = quiet_params, apcm = quiet_pcm,
     block_address = (\<lambda>b. 65536 * b), alsa_write_callback = (\<lambda>p lo hi s. Some s), alsa_read_callback = (\<lambda>p lo hi s. Some s)\<rparr>"

lemmas quiet_defs = quiet_alsa_def quiet_sys_def quiet_ctl_def quiet_params_def quiet_pcm_def

text \<open>A library object at 0, connected to nothing, and a stream and a device at other blocks.\<close>

definition alsa_lib :: "bool list \<Rightarrow> int list jsio" where
  "alsa_lib ans = (lib_start ans [])\<lparr>next_id := 10, blocks := {0, 1, 2}, sios := [0 \<mapsto> sio_create]\<rparr>"

lemma alsa_lib_simps [simp]:
  "answers (alsa_lib ans) = ans" "next_id (alsa_lib ans) = 10" "blocks (alsa_lib ans) = {0, 1, 2}"
  "sios (alsa_lib ans) = [0 \<mapsto> sio_create]" "world (alsa_lib ans) = []" "devices (alsa_lib ans) = (\<lambda>_. None)"
  "infos (alsa_lib ans) = (\<lambda>_. None)" "outstreams (alsa_lib ans) = (\<lambda>_. None)" "instreams (alsa_lib ans) = (\<lambda>_. None)"
  "mutexes (alsa_lib ans) = (\<lambda>_. None)" "conds (alsa_lib ans) = (\<lambda>_. None)" "threads (alsa_lib ans) = (\<lambda>_. None)"
  "trace (alsa_lib ans) = []"
  by (simp_all add: alsa_lib_def lib_start_def os_start_def os.extend_def)

lemma alsa_lib_mem_ok [simp]: "mem_ok (alsa_lib ans)"
  by (simp add: mem_ok_def)

end
