(* ===== verification/AlsaConvert.thy ===== *)
theory AlsaConvert
  imports PulseConvert AlsaQuiet
begin

section \<open>Formats, channel maps and pending files of the ALSA backend\<close>

text \<open>
  The formats that a device gets are those that the library offers for it; a layout comes back
  from its channel map; the list of files that were created but not closed yet implements a
  multiset of names, and its events ask for a scan when the multiset becomes empty.
\<close>

subsection \<open>Formats\<close>

lemma alsa_format_inj: "to_alsa_fmt f = to_alsa_fmt g \<longleftrightarrow> f = g"
  by (cases f; cases g) (simp_all add: to_alsa_fmt_def)

lemma probed_formats_set: "f \<in> set probed_formats \<longleftrightarrow> f \<noteq> SoundIoFormatInvalid"
  by (cases f) (simp_all add: probed_formats_def)

lemma length_probed_formats [simp]: "length probed_formats = 18"
  by (simp add: probed_formats_def)

definition supported_formats :: "snd_pcm_format set \<Rightarrow> SoundIoFormat list" where
  "supported_formats ms = filter (\<lambda>f. to_alsa_fmt f \<in> ms) probed_formats"

text \<open>The loop fills the cells from the front, with room for all that is still to come.\<close>

lemma test_fmt_mask_loop:
  assumes "devices s p = Some d" and "formats d = FormatsBlock b (filled @ rest)" and "format_count d = int (length filled)"
    and "length fs \<le> length rest"
  shows "for_each (test_fmt_mask p ms) fs s =
    (let new = filter (\<lambda>f. to_alsa_fmt f \<in> ms) fs
     in if new = [] then Some s else Some (s\<lparr>devices := (devices s)(p \<mapsto> d\<lparr>formats := FormatsBlock b (filled @ new @ drop (length new) rest),
          format_count := int (length (filled @ new))\<rparr>)\<rparr>))"
  using assms
proof (induction fs arbitrary: s d filled rest)
  case Nil
  then show ?case by simp
next
  case (Cons f fs)
  show ?case
  proof (cases "to_alsa_fmt f \<in> ms")
    case False
    with Cons.prems(4) Cons.IH [OF Cons.prems(1-3)] show ?thesis
      by (simp add: test_fmt_mask_def)
  next
    case True
    obtain r rest' where rest: "rest = r # rest'" using Cons.prems(4) by (cases rest) auto
    let ?d = "d\<lparr>formats := FormatsBlock b ((filled @ [f]) @ rest'), format_count := int (length (filled @ [f]))\<rparr>"
    let ?s = "s\<lparr>devices := (devices s)(p \<mapsto> ?d)\<rparr>"
    have step: "test_fmt_mask p ms f s = Some ?s"
      using True Cons.prems(1-3) rest by (simp add: test_fmt_mask_def arr_set_def upd_dev_def list_update_append add.commute)
    have "for_each (test_fmt_mask p ms) fs ?s =
      (let new = filter (\<lambda>f. to_alsa_fmt f \<in> ms) fs
       in if new = [] then Some ?s else Some (?s\<lparr>devices := (devices ?s)(p \<mapsto> ?d\<lparr>formats := FormatsBlock b ((filled @ [f]) @ new @ drop (length new) rest'),
            format_count := int (length ((filled @ [f]) @ new))\<rparr>)\<rparr>))"
      by (rule Cons.IH) (use Cons.prems(4) rest in simp_all)
    with True step rest show ?thesis by (simp add: Let_def)
  qed
qed

subsection \<open>Channel maps\<close>

definition alsa_has_position :: "SoundIoChannelId \<Rightarrow> bool" where
  "alsa_has_position c \<longleftrightarrow> to_alsa_chmap_pos c \<noteq> SND_CHMAP_UNKNOWN"

lemma alsa_channel_there: "alsa_has_position c \<Longrightarrow> from_alsa_chmap_pos (to_alsa_chmap_pos c) = c"
  by (cases c) (simp_all add: alsa_has_position_def to_alsa_chmap_pos_def from_alsa_chmap_pos_def)

lemma alsa_channel_back:
  "from_alsa_chmap_pos pos \<noteq> SoundIoChannelIdInvalid \<Longrightarrow> pos \<noteq> SND_CHMAP_MONO \<Longrightarrow>
   to_alsa_chmap_pos (from_alsa_chmap_pos pos) = pos"
  by (cases pos) (simp_all add: to_alsa_chmap_pos_def from_alsa_chmap_pos_def)

lemma detect_builtin_run:
  assumes wf: "layout_wf l"
  shows "\<exists>known. soundio_channel_layout_detect_builtin l = Some (known, l\<lparr>cl_name := builtin_name (layout_ids l)\<rparr>)"
proof -
  let ?g = "\<lambda>x. layout_ids x = layout_ids l"
  have "soundio_channel_layout_equal x l = Some (?g x)" if "x \<in> set builtin_channel_layouts" for x
    using that wf by (simp add: layout_equal_spec builtin_wf)
  then obtain r where r: "find_r (\<lambda>x. soundio_channel_layout_equal x l) builtin_channel_layouts = Some r"
      and first: "first_index ?g builtin_channel_layouts r"
    using find_r_first [where f = "\<lambda>x. soundio_channel_layout_equal x l" and g = ?g] by blast
  have "first_index (\<lambda>i. ?g (builtin_channel_layouts ! i)) [0..<length builtin_channel_layouts] r"
    using first by (auto simp: first_index_def split: option.splits dest: nth_mem)
  from first_index_find [OF this] have "builtin_name (layout_ids l) = Option.bind r (\<lambda>i. cl_name (builtin_channel_layouts ! i))"
    by (cases r) (simp_all add: builtin_name_def)
  with r show ?thesis by (cases r) (auto simp: soundio_channel_layout_detect_builtin_def)
qed

lemma layout_chmap_run:
  assumes wf: "layout_wf l"
  shows "layout_chmap l (chmap_zero (cl_channel_count l)) = Some \<lparr>chmap_channels = word_of_int (cl_channel_count l),
    chmap_pos = map to_alsa_chmap_pos (layout_ids l)\<rparr>"
proof -
  let ?n = "nat (cl_channel_count l)"
  have n: "?n \<le> length (cl_channels l)" using wf by (auto simp: layout_wf_def)
  have "layout_chmap l (chmap_zero (cl_channel_count l)) =
      Some ((chmap_zero (cl_channel_count l))\<lparr>chmap_channels := word_of_int (cl_channel_count l),
        chmap_pos := map (\<lambda>i. to_alsa_chmap_pos (cl_channels l ! i)) [0..<?n] @ drop ?n (replicate ?n SND_CHMAP_UNKNOWN)\<rparr>)"
    unfolding layout_chmap_def
    by (rule fill_cells [where get = chmap_pos and put = "\<lambda>ys m. m\<lparr>chmap_pos := ys\<rparr>"])
      (use n in \<open>auto simp: arr_at_def chmap_zero_def\<close>)
  moreover have "map (\<lambda>i. to_alsa_chmap_pos (cl_channels l ! i)) [0..<?n] = map to_alsa_chmap_pos (layout_ids l)"
    by (rule nth_equalityI) (use n in \<open>simp_all add: layout_ids_def\<close>)
  ultimately show ?thesis by (simp add: chmap_zero_def)
qed

lemma get_channel_layout_run:
  assumes n: "length ps \<le> SOUNDIO_MAX_CHANNELS" and l: "length (cl_channels l) = SOUNDIO_MAX_CHANNELS"
  shows "\<exists>l'. get_channel_layout l \<lparr>chmap_channels = word_of_int (int (length ps)), chmap_pos = ps\<rparr> = Some l' \<and> layout_wf l' \<and>
    layout_ids l' = map from_alsa_chmap_pos ps \<and> cl_name l' = builtin_name (layout_ids l')"
proof -
  let ?m = "\<lparr>chmap_channels = word_of_int (int (length ps)), chmap_pos = ps\<rparr>"
  let ?ids = "map from_alsa_chmap_pos ps"
  let ?l = "l\<lparr>cl_channel_count := int (length ps), cl_channels := ?ids @ drop (length ps) (cl_channels l)\<rparr>"
  have "sint (word_of_int (int (length ps)) :: 32 word) = int (length ps)"
    using n unfolding signed_of_int SOUNDIO_MAX_CHANNELS_def by (subst signed_take_bit_int_eq_self) simp_all
  then have count: "soundio_int_min (int SOUNDIO_MAX_CHANNELS) (sint (chmap_channels ?m)) = int (length ps)"
    using n by (simp add: soundio_int_min_def)
  have "for_each (\<lambda>i dest. do {
         pos \<leftarrow> arr_at (chmap_pos ?m) (int i);
         channels \<leftarrow> arr_set (cl_channels dest) (int i) (from_alsa_chmap_pos pos);
         Some (dest\<lparr>cl_channels := channels\<rparr>)
       }) [0..<length ps] (l\<lparr>cl_channel_count := int (length ps)\<rparr>) =
      Some (l\<lparr>cl_channel_count := int (length ps),
        cl_channels := map (\<lambda>i. from_alsa_chmap_pos (ps ! i)) [0..<length ps] @ drop (length ps) (cl_channels l)\<rparr>)"
    by (rule fill_cells [where get = cl_channels and put = "\<lambda>ys l. l\<lparr>cl_channels := ys\<rparr>"])
      (use n l in \<open>simp_all add: arr_at_def\<close>)
  moreover have "map (\<lambda>i. from_alsa_chmap_pos (ps ! i)) [0..<length ps] = ?ids"
    by (rule nth_equalityI) simp_all
  moreover have wf: "layout_wf ?l" using n l by (simp add: layout_wf_def)
  moreover have ids: "layout_ids ?l = ?ids" by (simp add: layout_ids_def)
  moreover obtain known where "soundio_channel_layout_detect_builtin ?l = Some (known, ?l\<lparr>cl_name := builtin_name (layout_ids ?l)\<rparr>)"
    using detect_builtin_run [OF wf] by blast
  ultimately have "get_channel_layout l ?m = Some (?l\<lparr>cl_name := builtin_name ?ids\<rparr>)"
    unfolding get_channel_layout_def count by simp
  with wf ids show ?thesis
    by (intro exI [of _ "?l\<lparr>cl_name := builtin_name ?ids\<rparr>"]) (simp add: layout_wf_def layout_ids_def)
qed

subsection \<open>Properties\<close>

text \<open>C30. A layout whose channels all have a position in ALSA comes back with the same channels when it is turned
  into the channel map of a stream and such a map is read as the layout of a device, and it gets the name of the
  built-in layout with these channels, if there is one.\<close>

theorem alsa_chmap_roundtrip:
  assumes "layout_wf l" and "\<forall>c \<in> set (layout_ids l). alsa_has_position c"
    and "length (cl_channels l0) = SOUNDIO_MAX_CHANNELS"
  shows "\<exists>m l'. layout_chmap l (chmap_zero (cl_channel_count l)) = Some m \<and> get_channel_layout l0 m = Some l' \<and>
    soundio_channel_layout_equal l l' = Some True \<and> cl_name l' = builtin_name (layout_ids l)"
proof -
  let ?ps = "map to_alsa_chmap_pos (layout_ids l)"
  have len: "int (length ?ps) = cl_channel_count l" "length ?ps \<le> SOUNDIO_MAX_CHANNELS"
    using length_layout_ids [OF assms(1)] assms(1) by (simp_all add: layout_wf_def)
  obtain l' where l': "get_channel_layout l0 \<lparr>chmap_channels = word_of_int (int (length ?ps)), chmap_pos = ?ps\<rparr> = Some l'"
      "layout_wf l'" "layout_ids l' = map from_alsa_chmap_pos ?ps" "cl_name l' = builtin_name (layout_ids l')"
    using get_channel_layout_run [OF len(2) assms(3)] by blast
  have "layout_ids l' = layout_ids l" using l'(3) assms(2) by (simp add: alsa_channel_there map_idI)
  then have "soundio_channel_layout_equal l l' = Some True" "cl_name l' = builtin_name (layout_ids l)"
    using l'(4) by (simp_all add: layout_equal_spec [OF assms(1) l'(2)])
  with layout_chmap_run [OF assms(1)] l'(1) show ?thesis unfolding len(1) by blast
qed

theorem alsa_chmap_roundtrip_witness:
  "\<exists>m l'. layout_chmap (builtin_channel_layouts ! 1) (chmap_zero 2) = Some m \<and> get_channel_layout layout_zero m = Some l' \<and>
    soundio_channel_layout_equal (builtin_channel_layouts ! 1) l' = Some True \<and>
    cl_name l' = builtin_name (layout_ids (builtin_channel_layouts ! 1))"
  using alsa_chmap_roundtrip [of "builtin_channel_layouts ! 1" layout_zero]
  by (simp add: builtin_wf builtin_defs layout_ids_def layout_init_def layout_zero_def layout_wf_def SOUNDIO_MAX_CHANNELS_def
      alsa_has_position_def to_alsa_chmap_pos_def)

text \<open>After the formats of a device were probed, the device supports exactly the formats that are in the mask of
  the library, and the probe stays inside its array of eighteen formats. (The memory for the array is there.)\<close>

theorem probe_lists_supported_formats:
  assumes "devices s p = Some d" and "formats d = FormatsNull" and "answers s = []"
  shows "\<exists>t d'. probe_formats e p handle s = Some (SoundIoErrorNone, t) \<and> devices t p = Some d' \<and>
    (\<forall>f. soundio_device_supports_format d' f =
       Some (f \<noteq> SoundIoFormatInvalid \<and> to_alsa_fmt f \<in> hw_params_get_format_mask (apar e) handle (world s)))"
proof -
  let ?mask = "hw_params_get_format_mask (apar e) handle (world s)"
  let ?new = "supported_formats ?mask"
  let ?s = "s\<lparr>next_id := Suc (next_id s), blocks := insert (next_id s) (blocks s)\<rparr>"
  let ?d = "d\<lparr>formats := FormatsBlock (next_id s) (replicate 18 SoundIoFormatInvalid), format_count := 0\<rparr>"
  let ?t = "?s\<lparr>devices := (devices ?s)(p \<mapsto> ?d)\<rparr>"
  let ?d' = "if ?new = [] then ?d else ?d\<lparr>formats := FormatsBlock (next_id s) (?new @ drop (length ?new) (replicate 18 SoundIoFormatInvalid)),
    format_count := int (length ?new)\<rparr>"
  have "for_each (test_fmt_mask p ?mask) probed_formats ?t = Some (?t\<lparr>devices := (devices ?t)(p \<mapsto> ?d')\<rparr>)"
    by (subst test_fmt_mask_loop [where d = ?d and b = "next_id s" and filled = "[]" and rest = "replicate 18 SoundIoFormatInvalid"])
      (auto simp: Let_def supported_formats_def fun_upd_idem)
  then have "probe_formats e p handle s = Some (SoundIoErrorNone, ?t\<lparr>devices := (devices ?t)(p \<mapsto> ?d')\<rparr>)"
    using assms by (simp add: probe_formats_def upd_dev_def alloc_nil)
  moreover have "soundio_device_supports_format ?d' f = Some (f \<noteq> SoundIoFormatInvalid \<and> to_alsa_fmt f \<in> ?mask)" for f
  proof -
    have "nat (format_count ?d') \<le> length (format_cells ?d')" by (auto simp: format_cells_def)
    then have "soundio_device_supports_format ?d' f = Some (f \<in> set (take (nat (format_count ?d')) (format_cells ?d')))"
      by (rule supports_format_iff)
    moreover have "take (nat (format_count ?d')) (format_cells ?d') = ?new" by (auto simp: format_cells_def)
    ultimately show ?thesis by (auto simp: supported_formats_def probed_formats_set)
  qed
  ultimately show ?thesis by (intro exI [of _ "?t\<lparr>devices := (devices ?t)(p \<mapsto> ?d')\<rparr>"] exI [of _ ?d']) simp
qed

theorem probe_lists_supported_formats_witness:
  "\<exists>t d'. probe_formats quiet_alsa 1 7 ((alsa_lib [])\<lparr>devices := [1 \<mapsto> device_zero]\<rparr>) = Some (SoundIoErrorNone, t) \<and>
    devices t 1 = Some d' \<and>
    (\<forall>f. soundio_device_supports_format d' f = Some (f \<noteq> SoundIoFormatInvalid \<and>
      to_alsa_fmt f \<in> hw_params_get_format_mask (apar quiet_alsa) 7 (world ((alsa_lib [])\<lparr>devices := [1 \<mapsto> device_zero]\<rparr>))))"
  by (rule probe_lists_supported_formats [where d = device_zero]) (simp_all add: device_zero_def)

end
