(* ===== verification/AlsaPending.thy ===== *)
theory AlsaPending
  imports AlsaQuiet "HOL-Library.Multiset"
begin

section \<open>The files that the device thread waits for\<close>

text \<open>
  When a sound card appears, its control file is created, written and closed; the devices are
  listed when no such file is open any more. The list of pending files of the device thread
  implements a multiset of names, and a scan is due when the multiset becomes empty, or when a
  file is deleted while it is empty.
\<close>

subsection \<open>The specification\<close>

text \<open>One event: the names that are pending, and whether a scan is due.\<close>

definition pending_step :: "inotify_event \<Rightarrow> string multiset \<times> bool \<Rightarrow> string multiset \<times> bool" where
  "pending_step event state =
     (let (files, scan) = state; name = ev_name event
      in if \<not> control_event event then state
         else if IN_CREATE \<in> ev_mask event then (if length name < 16 then (add_mset name files, scan) else state)
         else if files = {#} then (files, scan \<or> IN_DELETE \<in> ev_mask event)
         else if IN_CLOSE_WRITE \<in> ev_mask event \<and> name \<in># files
         then (files - {#name#}, scan \<or> files = {#name#})
         else state)"

definition pending_abs :: "nat \<Rightarrow> 'z sio_scheme \<Rightarrow> string multiset" where
  "pending_abs si s = (case sios s si of None \<Rightarrow> {#} | Some x \<Rightarrow> mset (list_abs (pending_files (alsa x))))"

text \<open>The list is consistent and requests for memory succeed.\<close>

definition pending_ok :: "nat \<Rightarrow> 'z sio_scheme \<Rightarrow> bool" where
  "pending_ok si s \<longleftrightarrow> mem_ok s \<and> answers s = [] \<and>
     (case sios s si of None \<Rightarrow> False | Some x \<Rightarrow> list_ok (pending_files (alsa x)) s)"

subsection \<open>Copying a name\<close>

declare copy_str.simps [simp del]

lemma copy_str_run:
  assumes "name \<noteq> []" and "0 < n"
  shows "copy_str name n = Some (take (nat (n - 1)) name, int (length name) < n)"
  using assms
proof (induction name arbitrary: n)
  case (Cons x xs)
  show ?case
  proof (cases "n = 1")
    case True
    then show ?thesis by (simp add: copy_str.simps)
  next
    case False
    then have n: "0 < n - 1" "nat (n - 1) = Suc (nat (n - 1 - 1))" using Cons.prems by simp_all
    show ?thesis
    proof (cases "xs = []")
      case True
      with n show ?thesis by (simp add: copy_str.simps [of "[x]"])
    next
      case False
      from Cons.IH [OF False n(1)] n False show ?thesis
        by (cases xs) (simp_all add: copy_str.simps [of "x # _"])
    qed
  qed
qed simp

subsection \<open>The implementation\<close>

lemma add_one_no_failure:
  assumes "answers s = []" and "list_add_one l s = Some (err, l', t)"
  shows "err = SoundIoErrorNone \<and> answers t = []"
  using assms
  by (auto simp: list_add_one_def list_resize_def list_ensure_capacity_def realloc_blk_def alloc_nil free_blk_def
      Option.bind_eq_Some_conv split: if_splits option.splits)

lemma mem_more_sios: "mem.more t = mem.more s \<Longrightarrow> sios t = sios s"
  by (cases s, cases t) simp

lemma pending_ok_upd [simp]:
  "pending_ok si (s\<lparr>sios := (sios s)(si \<mapsto> x)\<rparr>) \<longleftrightarrow> mem_ok s \<and> answers s = [] \<and> list_ok (pending_files (alsa x)) s"
  by (cases "l_blk (pending_files (alsa x))") (simp_all add: pending_ok_def mem_ok_def list_ok_def)

lemma add_pending_run:
  assumes ok: "pending_ok si s" and small: "size (pending_abs si s) < nat list_limit" and name: "name \<noteq> []"
  shows "\<exists>t. add_pending si name s = Some (SoundIoErrorNone, t) \<and> pending_ok si t \<and>
    pending_abs si t = (if length name < 16 then add_mset name (pending_abs si s) else pending_abs si s)"
proof -
  obtain x where x: "sios s si = Some x" and mem: "mem_ok s" "answers s = []" "list_ok (pending_files (alsa x)) s"
    using ok by (auto simp: pending_ok_def split: option.splits)
  let ?l = "pending_files (alsa x)"
  have wf: "list_wf ?l" using mem(3) by (simp add: list_ok_def)
  have limit: "l_length ?l < list_limit"
    using small length_list_abs [OF wf] by (simp add: pending_abs_def x list_limit_def)
  obtain w where w: "copy_str name 16 = Some (w, length name < 16)" and w': "length name < 16 \<Longrightarrow> w = name"
    using copy_str_run [OF name, of 16] by simp
  obtain err l' t where add: "list_add_one ?l s = Some (err, l', t)" "mem_ok t" "list_frame ?l s l' t"
      "err = SoundIoErrorNone \<and> (\<exists>p l''. list_last_ptr l' = Some p \<and> list_store l' p w = Some l'' \<and> list_ok l'' t \<and>
         list_abs l'' = list_abs ?l @ [w] \<and> l_blk l'' = l_blk l') \<or> err = SoundIoErrorNoMem \<and> list_ok l' t \<and> list_abs l' = list_abs ?l"
    using list_add_one_store [OF mem(3,1) limit, of w] by blast
  have err: "err = SoundIoErrorNone" "answers t = []" using add_one_no_failure [OF mem(2) add(1)] by simp_all
  have "\<exists>p l''. list_last_ptr l' = Some p \<and> list_store l' p w = Some l'' \<and> list_ok l'' t \<and>
      list_abs l'' = list_abs ?l @ [w] \<and> l_blk l'' = l_blk l'"
    using add(4) by (simp add: err(1))
  then obtain p l'' where store: "list_last_ptr l' = Some p" "list_store l' p w = Some l''" "list_ok l'' t"
      "list_abs l'' = list_abs ?l @ [w]" by blast
  have "mem.more t = mem.more s" using add(3) by (simp add: list_frame_def)
  then have sios: "sios t si = Some x" using x mem_more_sios by metis
  show ?thesis
  proof (cases "length name < 16")
    case True
    let ?t = "t\<lparr>sios := (sios t)(si \<mapsto> x\<lparr>alsa := (alsa x)\<lparr>pending_files := l''\<rparr>\<rparr>)\<rparr>"
    have "add_pending si name s = Some (SoundIoErrorNone, ?t)"
      using True x add(1) err store w sios by (simp add: add_pending_def upd_sio_def)
    moreover have "pending_ok si ?t" using add(2) err store(3) by simp
    moreover have "pending_abs si ?t = add_mset name (pending_abs si s)"
      using True w' store(4) x by (simp add: pending_abs_def)
    ultimately show ?thesis using True by auto
  next
    case False
    have ne: "list_abs l'' \<noteq> []" and wf'': "list_wf l''" using store(3,4) by (simp_all add: list_ok_def)
    note pop = list_pop_spec [OF wf'' ne]
    let ?l2 = "l''\<lparr>l_length := l_length l'' - 1\<rparr>"
    let ?t = "t\<lparr>sios := (sios t)(si \<mapsto> x\<lparr>alsa := (alsa x)\<lparr>pending_files := ?l2\<rparr>\<rparr>)\<rparr>"
    have "add_pending si name s = Some (SoundIoErrorNone, ?t)"
      using False x add(1) err store w sios pop(1) by (simp add: add_pending_def upd_sio_def)
    moreover have "pending_ok si ?t" using add(2) err store(3) pop(2) by (simp add: list_ok_def)
    moreover have "pending_abs si ?t = pending_abs si s" using pop(3) store(4) x by (simp add: pending_abs_def)
    ultimately show ?thesis using False by auto
  qed
qed

lemma swap_removed_mset:
  assumes "i < length xs"
  shows "mset (butlast (xs[i := last xs])) = mset xs - {#xs ! i#}"
proof -
  have ne: "xs \<noteq> []" using assms by auto
  let ?ys = "xs[i := last xs]"
  have "?ys \<noteq> []" "last ?ys = last xs" using ne assms by (simp_all add: last_list_update)
  then have "mset ?ys = add_mset (last xs) (mset (butlast ?ys))"
    by (metis add_mset_add_single append_butlast_last_id mset.simps(2) mset_append mset_single_iff union_commute union_mset_add_mset_left mset.simps(1) add_0)
  moreover have "mset ?ys = add_mset (last xs) (mset xs - {#xs ! i#})" using assms by (simp add: mset_update)
  ultimately show ?thesis by simp
qed

lemma close_pending_run:
  assumes ok: "pending_ok si s"
  shows "\<exists>t. close_pending si name s = Some (name \<in># pending_abs si s \<and> pending_abs si s = {#name#}, t) \<and> pending_ok si t \<and>
    pending_abs si t = pending_abs si s - {#name#}"
proof -
  obtain x where x: "sios s si = Some x" and mem: "mem_ok s" "answers s = []" "list_ok (pending_files (alsa x)) s"
    using ok by (auto simp: pending_ok_def split: option.splits)
  let ?l = "pending_files (alsa x)"
  have wf: "list_wf ?l" using mem(3) by (simp add: list_ok_def)
  have len: "nat (l_length ?l) = length (list_abs ?l)" using length_list_abs [OF wf] by linarith
  have abs: "pending_abs si s = mset (list_abs ?l)" using x by (simp add: pending_abs_def)
  have cell: "list_val_at ?l (int i) = Some (list_abs ?l ! i)" if "i < length (list_abs ?l)" for i
    using that length_list_abs [OF wf] by (subst list_val_at_spec [OF wf]) simp_all
  have "\<exists>r. find_r (\<lambda>i. do { file \<leftarrow> list_val_at ?l (int i); Some (file = name) }) [0..<length (list_abs ?l)] = Some r \<and>
      first_index (\<lambda>i. list_abs ?l ! i = name) [0..<length (list_abs ?l)] r"
    by (rule find_r_first) (simp add: cell)
  then obtain r where r: "find_r (\<lambda>i. do { file \<leftarrow> list_val_at ?l (int i); Some (file = name) }) [0..<nat (l_length ?l)] = Some r"
      "first_index (\<lambda>i. list_abs ?l ! i = name) [0..<length (list_abs ?l)] r"
    unfolding len by blast
  show ?thesis
  proof (cases r)
    case None
    then have "name \<notin> set (list_abs ?l)" using r(2) by (auto simp: first_index_def in_set_conv_nth)
    moreover have "close_pending si name s = Some (False, s)" using x r(1) None by (simp add: close_pending_def)
    ultimately show ?thesis using ok abs by auto
  next
    case (Some i)
    then have i: "i < length (list_abs ?l)" "list_abs ?l ! i = name" using r(2) by (auto simp: first_index_def)
    obtain l' where l': "list_swap_remove ?l (int i) = Some (name, l')" "list_wf l'" "l_blk l' = l_blk ?l"
        "list_abs l' = butlast ((list_abs ?l)[i := last (list_abs ?l)])"
      using list_swap_remove_spec [OF wf i(1)] i(2) by auto
    let ?t = "s\<lparr>sios := (sios s)(si \<mapsto> x\<lparr>alsa := (alsa x)\<lparr>pending_files := l'\<rparr>\<rparr>)\<rparr>"
    have rest: "mset (list_abs l') = mset (list_abs ?l) - {#name#}" using swap_removed_mset [OF i(1)] i(2) l'(4) by simp
    have "l_length l' = 0 \<longleftrightarrow> list_abs l' = []" using length_list_abs [OF l'(2)] by (cases "list_abs l'") auto
    also have "\<dots> \<longleftrightarrow> mset (list_abs ?l) - {#name#} = {#}" using rest by (metis mset_zero_iff)
    also have "\<dots> \<longleftrightarrow> mset (list_abs ?l) = {#name#}" using i by (metis add_mset_eq_single insert_DiffM nth_mem set_mset_mset)
    finally have last: "l_length l' = 0 \<longleftrightarrow> pending_abs si s = {#name#}" using abs by simp
    have "name \<in># pending_abs si s" using i abs by auto
    moreover have "close_pending si name s = Some (l_length l' = 0, ?t)"
      using x r(1) Some l'(1) by (simp add: close_pending_def upd_sio_def)
    moreover have "pending_ok si ?t" using mem l'(2,3) by (simp add: list_ok_def)
    moreover have "pending_abs si ?t = pending_abs si s - {#name#}" using rest abs by (simp add: pending_abs_def)
    ultimately show ?thesis using last by auto
  qed
qed

lemma handle_event_run:
  assumes ok: "pending_ok si s" and small: "size (pending_abs si s) < nat list_limit"
  shows "\<exists>t. handle_event si event got s = Some (Inr (snd (pending_step event (pending_abs si s, got)), t)) \<and>
    pending_ok si t \<and> pending_abs si t = fst (pending_step event (pending_abs si s, got))"
proof -
  consider "\<not> control_event event" | "control_event event" "IN_CREATE \<in> ev_mask event"
    | "control_event event" "IN_CREATE \<notin> ev_mask event" by blast
  then show ?thesis
  proof cases
    case 1
    then show ?thesis using ok by (simp add: handle_event_def pending_step_def Let_def)
  next
    case 2
    then have "ev_name event \<noteq> []" by (auto simp: control_event_def)
    from add_pending_run [OF ok small this] 2 show ?thesis
      by (auto simp: handle_event_def pending_step_def Let_def)
  next
    case 3
    obtain x where x: "sios s si = Some x" "list_wf (pending_files (alsa x))"
      using ok by (auto simp: pending_ok_def list_ok_def split: option.splits)
    have pos: "0 < l_length (pending_files (alsa x)) \<longleftrightarrow> pending_abs si s \<noteq> {#}"
      using length_list_abs [OF x(2)] by (cases "list_abs (pending_files (alsa x))") (auto simp: pending_abs_def x)
    from close_pending_run [OF ok, of "ev_name event"] obtain t where t: "close_pending si (ev_name event) s =
        Some (ev_name event \<in># pending_abs si s \<and> pending_abs si s = {#ev_name event#}, t)"
        "pending_ok si t" "pending_abs si t = pending_abs si s - {#ev_name event#}" by blast
    show ?thesis
    proof (cases "pending_abs si s = {#} \<or> IN_CLOSE_WRITE \<notin> ev_mask event")
      case True
      with 3 pos x ok show ?thesis by (auto simp: handle_event_def pending_step_def Let_def)
    next
      case False
      with 3 pos x t show ?thesis by (auto simp: handle_event_def pending_step_def Let_def)
    qed
  qed
qed

lemma pending_step_size: "size (fst (pending_step event (files, scan))) \<le> Suc (size files)"
  by (simp add: pending_step_def Let_def le_SucI size_Diff1_le)

text \<open>C7. The device thread implements the multiset of pending files: for every sequence of events of the
  notification, the names in its list are those that were created and not closed since, and a scan is due afterwards
  exactly when the specification says so, that is, when the last pending file was closed or when a file was deleted
  while none was pending. (Requests for memory succeed, and there are fewer than \<open>2^30\<close> events and files.)\<close>

theorem pending_files_refine:
  assumes "pending_ok si s" and "size (pending_abs si s) + length events < nat list_limit"
  shows "\<exists>t. handle_events si events got s = Some (Inr (snd (fold pending_step events (pending_abs si s, got)), t)) \<and>
    pending_ok si t \<and> pending_abs si t = fst (fold pending_step events (pending_abs si s, got))"
  using assms
proof (induction events arbitrary: s got)
  case Nil
  then show ?case by simp
next
  case (Cons event events)
  have "size (pending_abs si s) < nat list_limit" using Cons.prems(2) by simp
  from handle_event_run [OF Cons.prems(1) this] obtain t where
    t: "handle_event si event got s = Some (Inr (snd (pending_step event (pending_abs si s, got)), t))"
      "pending_ok si t" "pending_abs si t = fst (pending_step event (pending_abs si s, got))"
    by blast
  have "size (pending_abs si t) + length events < nat list_limit"
    using t(3) pending_step_size [of event "pending_abs si s" got] Cons.prems(2) by simp
  from Cons.IH [OF t(2) this, of "snd (pending_step event (pending_abs si s, got))"] t show ?case by simp
qed

definition created :: inotify_event where
  "created = \<lparr>ev_mask = {IN_CREATE}, ev_len = 16, ev_name = ''controlC0''\<rparr>"

definition closed :: inotify_event where
  "closed = \<lparr>ev_mask = {IN_CLOSE_WRITE}, ev_len = 16, ev_name = ''controlC0''\<rparr>"

theorem pending_files_refine_witness:
  "\<exists>t. handle_events 0 [created, closed] False (alsa_lib []) = Some (Inr (True, t)) \<and> pending_ok 0 t \<and> pending_abs 0 t = {#}"
proof -
  have abs: "pending_abs 0 (alsa_lib []) = {#}" by (simp add: pending_abs_def sio_create_def alsa_zero_def)
  have "pending_ok 0 (alsa_lib [])" by (simp add: pending_ok_def sio_create_def alsa_zero_def)
  moreover have "size (pending_abs 0 (alsa_lib [])) + length [created, closed] < nat list_limit"
    by (simp add: abs list_limit_def)
  moreover have "fold pending_step [created, closed] ({#}, False) = ({#}, True)"
    by (simp add: pending_step_def control_event_def created_def closed_def)
  ultimately show ?thesis using pending_files_refine [of 0 "alsa_lib []" "[created, closed]" False] by (simp add: abs)
qed

text \<open>C34. \<open>copy_str\<close> is a bounded copy: for a name that is not empty it writes the name up to one character less than
  the buffer holds, and it reports success exactly when the whole name fits in front of the terminator.\<close>

theorem copy_str_bounded_copy:
  assumes "name \<noteq> []" and "0 < n"
  shows "copy_str name n = Some (take (nat (n - 1)) name, int (length name) < n)"
  using assms by (rule copy_str_run)

theorem copy_str_bounded_copy_witness:
  "copy_str ''controlC0'' 16 = Some (''controlC0'', True) \<and> copy_str ''controlC0'' 5 = Some (''cont'', False)"
  using copy_str_bounded_copy [of "''controlC0''" 16] copy_str_bounded_copy [of "''controlC0''" 5] by simp

end
