(* ===== verification/AlsaAreas.thy ===== *)
theory AlsaAreas
  imports AlsaQuiet
begin

section \<open>Where the samples of an ALSA stream are written\<close>

text \<open>
  The areas that \<open>outstream_begin_write_alsa\<close> hands to the application. In a buffer of the
  backend every sample has bytes of its own inside the buffer, whichever way the channels are
  arranged; in a buffer of the device they are where the library says.
\<close>

definition sample_address :: "SoundIoChannelArea list \<Rightarrow> nat \<Rightarrow> nat \<Rightarrow> int" where
  "sample_address areas ch k = int (area_ptr (areas ! ch)) + int k * area_step (areas ! ch)"

subsection \<open>The loops over the channels\<close>

lemma cells_step:
  assumes "\<forall>i < length xs. ys ! i = (if Suc j \<le> i \<and> i < Suc j + n then f i else xs[j := f j] ! i)" and "j < length xs"
  shows "\<forall>i < length xs. ys ! i = (if j \<le> i \<and> i < j + Suc n then f i else xs ! i)"
proof (intro allI impI)
  fix i assume "i < length xs"
  with assms show "ys ! i = (if j \<le> i \<and> i < j + Suc n then f i else xs ! i)"
    by (cases "i = j") (auto simp: nth_list_update_neq)
qed

lemma upt_first: "[j..<j + Suc n] = j # [Suc j..<Suc j + n]"
  by (simp add: upt_conv_Cons del: upt_Suc)

lemma interleaved_areas_run:
  assumes "j + n \<le> length areas"
  shows "\<exists>areas'. interleaved_areas buffer bps bpf [j..<j + n] areas = Some areas' \<and>
    (\<forall>i < length areas. areas' ! i = (if j \<le> i \<and> i < j + n
       then \<lparr>area_ptr = buffer + nat (int i * bps), area_step = bpf\<rparr> else areas ! i))"
  using assms
proof (induction n arbitrary: j areas)
  case (Suc n)
  let ?f = "\<lambda>i. \<lparr>area_ptr = buffer + nat (int i * bps), area_step = bpf\<rparr>"
  have j: "j < length areas" using Suc.prems by simp
  obtain areas' where run: "interleaved_areas buffer bps bpf [Suc j..<Suc j + n] (areas[j := ?f j]) = Some areas'"
    and cells: "\<forall>i < length areas. areas' ! i = (if Suc j \<le> i \<and> i < Suc j + n then ?f i else areas[j := ?f j] ! i)"
    using Suc.IH [of "Suc j" "areas[j := ?f j]"] Suc.prems by auto
  have "interleaved_areas buffer bps bpf [j..<j + Suc n] areas = Some areas'"
    unfolding upt_first using run j by (simp add: arr_set_def)
  with cells_step [OF cells j] show ?case by blast
qed simp

lemma separate_areas_run:
  assumes "j + n \<le> length areas"
  shows "\<exists>areas'. separate_areas buffer off bps [j..<j + n] areas = Some areas' \<and>
    (\<forall>i < length areas. areas' ! i = (if j \<le> i \<and> i < j + n
       then \<lparr>area_ptr = buffer + off i, area_step = bps\<rparr> else areas ! i))"
  using assms
proof (induction n arbitrary: j areas)
  case (Suc n)
  let ?f = "\<lambda>i. \<lparr>area_ptr = buffer + off i, area_step = bps\<rparr>"
  have j: "j < length areas" using Suc.prems by simp
  obtain areas' where run: "separate_areas buffer off bps [Suc j..<Suc j + n] (areas[j := ?f j]) = Some areas'"
    and cells: "\<forall>i < length areas. areas' ! i = (if Suc j \<le> i \<and> i < Suc j + n then ?f i else areas[j := ?f j] ! i)"
    using Suc.IH [of "Suc j" "areas[j := ?f j]"] Suc.prems by auto
  have "separate_areas buffer off bps [j..<j + Suc n] areas = Some areas'"
    unfolding upt_first using run j by (simp add: arr_set_def)
  with cells_step [OF cells j] show ?case by blast
qed simp

definition mmap_area :: "snd_pcm_channel_area \<Rightarrow> 64 word \<Rightarrow> SoundIoChannelArea" where
  "mmap_area a offset =
     \<lparr>area_ptr = ca_addr a + unat (ca_first a) div 8 + unat (word_of_int (uint (ca_step a) div 8) * offset),
      area_step = uint (ca_step a) div 8\<rparr>"

lemma mmap_areas_run:
  assumes "j + n \<le> length areas" and "j + n \<le> length das"
    and "mmap_areas das offset [j..<j + n] areas = Some (SoundIoErrorNone, areas')"
  shows "(\<forall>i < length areas. areas' ! i = (if j \<le> i \<and> i < j + n then mmap_area (das ! i) offset else areas ! i)) \<and>
    (\<forall>i. j \<le> i \<and> i < j + n \<longrightarrow> ca_first (das ! i) mod 8 = 0 \<and> ca_step (das ! i) mod 8 = 0)"
  using assms
proof (induction n arbitrary: j areas)
  case (Suc n)
  let ?f = "\<lambda>i. mmap_area (das ! i) offset"
  have j: "j < length areas" "j < length das" using Suc.prems by simp_all
  have ok: "ca_first (das ! j) mod 8 = 0 \<and> ca_step (das ! j) mod 8 = 0"
    using Suc.prems(3) j unfolding upt_first by (auto simp: arr_at_def split: if_splits)
  then have run: "mmap_areas das offset [Suc j..<Suc j + n] (areas[j := ?f j]) = Some (SoundIoErrorNone, areas')"
    using Suc.prems(3) j unfolding upt_first by (simp add: arr_at_def arr_set_def mmap_area_def Let_def)
  have "Suc j + n \<le> length (areas[j := ?f j])" "Suc j + n \<le> length das" using Suc.prems by simp_all
  from Suc.IH [OF this run]
  have cells: "\<forall>i < length areas. areas' ! i = (if Suc j \<le> i \<and> i < Suc j + n then ?f i else areas[j := ?f j] ! i)"
    and aligned: "\<forall>i. Suc j \<le> i \<and> i < Suc j + n \<longrightarrow> ca_first (das ! i) mod 8 = 0 \<and> ca_step (das ! i) mod 8 = 0"
    by simp_all
  have "ca_first (das ! i) mod 8 = 0 \<and> ca_step (das ! i) mod 8 = 0" if "j \<le> i" "i < j + Suc n" for i
    using aligned ok that by (cases "i = j") auto
  with cells_step [OF cells j(1)] show ?case by blast
qed auto

subsection \<open>Addresses in a buffer of the backend\<close>

text \<open>The position of a sample in the buffer, counted in samples.\<close>

definition sample_index :: "snd_pcm_access \<Rightarrow> nat \<Rightarrow> nat \<Rightarrow> nat \<Rightarrow> nat \<Rightarrow> nat" where
  "sample_index access channels period ch k =
     (if access = SND_PCM_ACCESS_RW_INTERLEAVED then k * channels + ch else ch * period + k)"

lemma two_digits:
  fixes n :: nat
  assumes "j < n" and "l < n" and "i * n + j = k * n + l"
  shows "i = k \<and> j = l"
proof -
  have "(i * n + j) div n = i" "(k * n + l) div n = k" using assms(1,2) by simp_all
  with assms(3) have "i = k" by simp
  with assms(3) show ?thesis by simp
qed

lemma sample_index_inj:
  assumes "ch < channels" "ch' < channels" "k < period" "k' < period"
    and "sample_index access channels period ch k = sample_index access channels period ch' k'"
  shows "ch = ch' \<and> k = k'"
  using assms two_digits [of ch channels ch' k k'] two_digits [of k period k' ch ch']
  by (auto simp: sample_index_def split: if_splits)

lemma sample_index_bound:
  assumes "ch < channels" "k < period"
  shows "sample_index access channels period ch k < channels * period"
proof -
  have "k * channels + ch < Suc k * channels" using assms(1) by simp
  also have "\<dots> \<le> period * channels" using assms(2) by (intro mult_le_mono1) simp
  finally have "k * channels + ch < channels * period" by (simp add: mult.commute)
  moreover have "ch * period + k < Suc ch * period" using assms(2) by simp
  then have "ch * period + k < channels * period"
    using mult_le_mono1 [of "Suc ch" channels period] assms(1) by linarith
  ultimately show ?thesis by (simp add: sample_index_def)
qed

text \<open>What opening a stream sets up: the buffer holds a period of every channel.\<close>

definition rw_stream :: "SoundIoOutStream \<Rightarrow> nat \<Rightarrow> nat \<Rightarrow> nat \<Rightarrow> nat \<Rightarrow> bool" where
  "rw_stream os b channels period bps \<longleftrightarrow>
     is_rw (osa_access (osa os)) \<and> osa_sample_buffer (osa os) = Some b \<and> channels \<le> SOUNDIO_MAX_CHANNELS \<and>
     length (osa_areas (osa os)) = SOUNDIO_MAX_CHANNELS \<and> cl_channel_count (os_layout os) = int channels \<and>
     osa_period_size (osa os) = of_nat period \<and> os_bytes_per_sample os = int bps \<and>
     os_bytes_per_frame os = int (channels * bps) \<and> 0 < bps \<and> channels * period * bps \<le> nat int_max \<and>
     osa_sample_buffer_size (osa os) = int (channels * period * bps)"

lemma write_offset_run:
  assumes rw: "rw_stream os b channels period bps" and ch: "ch < channels"
  shows "write_offset os ch = ch * bps * period"
proof -
  have "ch * bps * period \<le> channels * bps * period" using ch by (intro mult_le_mono1) simp
  also have "channels * bps * period \<le> 2147483647" using rw by (simp add: rw_stream_def int_max_def ac_simps)
  finally have "ch * bps * period < 2 ^ 64" by simp
  moreover have "write_offset os ch = unat (of_nat (ch * bps * period) :: 64 word)"
    using rw by (simp add: write_offset_def rw_stream_def)
  ultimately show ?thesis by (simp only: unat_of_nat) simp
qed

lemma rw_areas_run:
  assumes os: "outstreams s p = Some os" and rw: "rw_stream os b channels period bps"
    and run: "outstream_begin_write_alsa e p n s = Some (err, areas, m, t)" and some: "0 < channels"
  shows "err = SoundIoErrorNone \<and> m = min n (int period) \<and>
    (\<forall>ch < channels. \<forall>k. sample_address areas ch k = int (block_address e b) +
       int (sample_index (osa_access (osa os)) channels period ch k * bps))"
proof -
  let ?o = "osa os"
  have room: "0 + channels \<le> length (osa_areas ?o)" using rw by (simp add: rw_stream_def)
  have period: "to_int32 (uint (osa_period_size ?o)) = int period"
  proof -
    have "1 * period * 1 \<le> channels * period * bps" using some rw by (intro mult_le_mono) (simp_all add: rw_stream_def)
    also have "\<dots> \<le> 2147483647" using rw by (simp add: rw_stream_def int_max_def)
    finally have bound: "period \<le> 2147483647" by simp
    then have "uint (of_nat period :: 64 word) = int period" by (simp add: unsigned_of_nat take_bit_nat_eq_self uint_nat)
    then show ?thesis using rw bound by (simp add: rw_stream_def to_int32_in_range c_defs)
  qed
  let ?buf = "block_address e b" and ?chs = "[0..<nat (cl_channel_count (os_layout os))]"
  have chs: "?chs = [0..<0 + channels]" using rw by (simp add: rw_stream_def)
  let ?loop = "if osa_access ?o = SND_PCM_ACCESS_RW_INTERLEAVED
      then interleaved_areas ?buf (os_bytes_per_sample os) (os_bytes_per_frame os) ?chs (osa_areas ?o)
      else separate_areas ?buf (write_offset os) (os_bytes_per_sample os) ?chs (osa_areas ?o)"
  have "\<exists>areas'. ?loop = Some areas' \<and> (\<forall>ch < channels. \<forall>k. sample_address areas' ch k =
      int ?buf + int (sample_index (osa_access ?o) channels period ch k * bps))"
  proof (cases "osa_access ?o = SND_PCM_ACCESS_RW_INTERLEAVED")
    case True
    obtain areas' where "interleaved_areas ?buf (os_bytes_per_sample os) (os_bytes_per_frame os) ?chs (osa_areas ?o) = Some areas'"
      and cells: "\<forall>i < length (osa_areas ?o). areas' ! i = (if 0 \<le> i \<and> i < 0 + channels
        then \<lparr>area_ptr = ?buf + nat (int i * os_bytes_per_sample os), area_step = os_bytes_per_frame os\<rparr> else osa_areas ?o ! i)"
      unfolding chs using interleaved_areas_run [OF room] by blast
    moreover have "sample_address areas' ch k = int ?buf + int ((k * channels + ch) * bps)" if "ch < channels" for ch k
      using cells that room rw
      by (simp add: sample_address_def rw_stream_def nat_mult_distrib algebra_simps)
    ultimately show ?thesis using True by (auto simp: sample_index_def)
  next
    case False
    obtain areas' where "separate_areas ?buf (write_offset os) (os_bytes_per_sample os) ?chs (osa_areas ?o) = Some areas'"
      and cells: "\<forall>i < length (osa_areas ?o). areas' ! i = (if 0 \<le> i \<and> i < 0 + channels
        then \<lparr>area_ptr = ?buf + write_offset os i, area_step = os_bytes_per_sample os\<rparr> else osa_areas ?o ! i)"
      unfolding chs using separate_areas_run [OF room] by blast
    moreover have "sample_address areas' ch k = int ?buf + int ((ch * period + k) * bps)" if "ch < channels" for ch k
      using cells that room rw write_offset_run [OF rw that]
      by (simp add: sample_address_def rw_stream_def algebra_simps)
    ultimately show ?thesis using False by (auto simp: sample_index_def)
  qed
  then obtain areas' where loop: "?loop = Some areas'" and addr: "\<forall>ch < channels. \<forall>k. sample_address areas' ch k =
      int ?buf + int (sample_index (osa_access ?o) channels period ch k * bps)" by blast
  have "err = SoundIoErrorNone \<and> areas = areas' \<and> m = soundio_int_min n (to_int32 (uint (osa_period_size ?o)))"
    using run os rw loop unfolding outstream_begin_write_alsa_def
    by (simp add: rw_stream_def upd_out_def Let_def del: upt_Suc split del: if_split)
  with addr period show ?thesis by (auto simp: soundio_int_min_def)
qed

text \<open>Every sample of \<open>frames\<close> frames lies in the buffer at \<open>base\<close>, and no two samples overlap.\<close>

definition areas_in_buffer :: "SoundIoChannelArea list \<Rightarrow> nat \<Rightarrow> nat \<Rightarrow> int \<Rightarrow> int \<Rightarrow> int \<Rightarrow> bool" where
  "areas_in_buffer areas channels bps frames base size_bytes \<longleftrightarrow> (\<forall>ch < channels. \<forall>k. int k < frames \<longrightarrow>
     base \<le> sample_address areas ch k \<and> sample_address areas ch k + int bps \<le> base + size_bytes \<and>
     (\<forall>ch' < channels. \<forall>k'. int k' < frames \<and> (ch, k) \<noteq> (ch', k') \<longrightarrow>
        int bps \<le> \<bar>sample_address areas ch k - sample_address areas ch' k'\<bar>))"

lemma areas_in_bufferI:
  assumes addr: "\<And>ch k. ch < channels \<Longrightarrow> sample_address areas ch k = base + int (sample_index access channels period ch k * bps)"
    and m: "m \<le> int period" and size: "int (channels * period * bps) \<le> size_bytes"
  shows "areas_in_buffer areas channels bps m base size_bytes"
  unfolding areas_in_buffer_def
proof (intro allI impI conjI)
  let ?ix = "sample_index access channels period"
  have period: "k < period" if "int k < m" for k using m that by simp
  fix ch k assume ch: "ch < channels" and k: "int k < m"
  show "base \<le> sample_address areas ch k" by (simp add: addr [OF ch])
  have "Suc (?ix ch k) * bps \<le> channels * period * bps"
    using sample_index_bound [OF ch period [OF k], of access] by (intro mult_le_mono1 Suc_leI)
  then have "int (Suc (?ix ch k) * bps) \<le> int (channels * period * bps)" by (simp only: of_nat_le_iff)
  then have "int (?ix ch k * bps) + int bps \<le> size_bytes" using size by (simp add: algebra_simps)
  then show "sample_address areas ch k + int bps \<le> base + size_bytes" by (simp add: addr [OF ch])
  fix ch' k' assume ch': "ch' < channels" and k': "int k' < m \<and> (ch, k) \<noteq> (ch', k')"
  have "?ix ch k \<noteq> ?ix ch' k'" using sample_index_inj [OF ch ch' period [OF k] period] k' by blast
  then have "1 * int bps \<le> \<bar>int (?ix ch k) - int (?ix ch' k')\<bar> * int bps" by (intro mult_right_mono) linarith+
  then show "int bps \<le> \<bar>sample_address areas ch k - sample_address areas ch' k'\<bar>"
    by (simp add: addr [OF ch] addr [OF ch'] abs_mult left_diff_distrib [symmetric])
qed

lemma rw_areas_in_buffer:
  assumes os: "outstreams s p = Some os" and rw: "rw_stream os b channels period bps" and some: "0 < channels"
    and run: "outstream_begin_write_alsa e p n s = Some (err, areas, m, t)"
  shows "areas_in_buffer areas channels bps m (int (block_address e b)) (osa_sample_buffer_size (osa os))"
  using rw_areas_run [OF os rw run some] rw
  by (intro areas_in_bufferI [where access = "osa_access (osa os)" and period = period]) (auto simp: rw_stream_def)

text \<open>A stereo stream of 16-bit samples on a device that maps its memory.\<close>

definition mapped_stream :: SoundIoOutStream where
  "mapped_stream = outstream_zero\<lparr>os_layout := layout_zero\<lparr>cl_channel_count := 2\<rparr>, os_bytes_per_sample := 2, os_bytes_per_frame := 4,
     os_sample_rate := 48000, osa := osa_zero\<lparr>osa_handle := Some 7\<rparr>\<rparr>"

definition stereo_state :: "SoundIoOutStream \<Rightarrow> int list jsio" where
  "stereo_state os = (alsa_lib [])\<lparr>outstreams := [1 \<mapsto> os]\<rparr>"

lemma upt_two: "[0..<2] = [0, 1 :: nat]"
  by (simp add: upt_rec)

lemmas stereo_defs = mapped_stream_def stereo_state_def outstream_zero_def osa_zero_def layout_zero_def SOUNDIO_MAX_CHANNELS_def

subsection \<open>Properties\<close>

text \<open>C24. In a stream that writes into the memory of the device, begin_write hands out areas whose samples lie where
  ALSA defines them to lie: \<open>first + (offset + k) * step\<close> bits behind the address of the channel's area. (The device
  describes every channel of the stream, and the offset in bytes does not wrap around.)\<close>

theorem mmap_areas_match_device:
  assumes os: "outstreams s p = Some os" and mmap: "\<not> is_rw (osa_access (osa os))" and h: "osa_handle (osa os) = Some h"
    and count: "cl_channel_count (os_layout os) = int channels" "channels \<le> length (osa_areas (osa os))" "channels \<le> length das"
    and area: "snd_pcm_mmap_begin (apcm e) h (word_of_int n) (world s) = ((ok, das, offset, frames), w)" "0 \<le> ok"
    and no_wrap: "\<forall>a \<in> set das. uint (ca_step a) div 8 * uint offset < 2 ^ 64"
    and run: "outstream_begin_write_alsa e p n s = Some (SoundIoErrorNone, areas, m, t)"
  shows "\<forall>ch < channels. \<forall>k. 8 * sample_address areas ch k =
    8 * int (ca_addr (das ! ch)) + uint (ca_first (das ! ch)) + uint (ca_step (das ! ch)) * (uint offset + int k)"
proof (intro allI impI)
  fix ch k assume ch: "ch < channels"
  let ?a = "das ! ch"
  have "mmap_areas das offset [0..<0 + channels] (osa_areas (osa os)) = Some (SoundIoErrorNone, areas)"
    using run os mmap h area count(1) unfolding outstream_begin_write_alsa_def
    by (auto simp: in_world_def Let_def Option.bind_eq_Some_conv upd_out_def simp del: upt_Suc split: if_splits prod.splits)
  from mmap_areas_run [OF _ _ this] count(2,3) ch
  have cell: "areas ! ch = mmap_area ?a offset" and "ca_first ?a mod 8 = 0" "ca_step ?a mod 8 = 0" by auto
  then have "uint (ca_first ?a mod 8) = 0" "uint (ca_step ?a mod 8) = 0" by simp_all
  then have aligned: "8 * (uint (ca_first ?a) div 8) = uint (ca_first ?a)" "8 * (uint (ca_step ?a) div 8) = uint (ca_step ?a)"
    by (simp_all add: uint_mod mult_div_mod_eq minus_mod_eq_mult_div [symmetric])
  let ?step = "uint (ca_step ?a) div 8"
  have small: "0 \<le> ?step * uint offset" by (intro mult_nonneg_nonneg) (simp_all add: pos_imp_zdiv_nonneg_iff)
  have bound: "?step * uint offset < 2 ^ 64" using no_wrap ch count(3) nth_mem by force
  have "uint (word_of_int ?step * offset) = (?step * uint offset) mod 2 ^ 64"
    by (simp add: uint_word_ariths unsigned_of_int take_bit_eq_mod mod_mult_left_eq)
  then have "uint (word_of_int ?step * offset) = ?step * uint offset" using small bound by simp
  then have "sample_address areas ch k = int (ca_addr ?a) + uint (ca_first ?a) div 8 + ?step * uint offset + int k * ?step"
    by (simp add: sample_address_def cell mmap_area_def zdiv_int uint_nat [symmetric])
  then have "8 * sample_address areas ch k = 8 * int (ca_addr ?a) + 8 * (uint (ca_first ?a) div 8) + 8 * ?step * (uint offset + int k)"
    by (simp add: algebra_simps)
  then show "8 * sample_address areas ch k = 8 * int (ca_addr ?a) + uint (ca_first ?a) + uint (ca_step ?a) * (uint offset + int k)"
    by (simp only: aligned)
qed

theorem mmap_areas_match_device_witness:
  "\<exists>areas m t. outstream_begin_write_alsa quiet_alsa 1 100 (stereo_state mapped_stream) = Some (SoundIoErrorNone, areas, m, t) \<and>
    8 * sample_address areas 1 5 = 8 * 1000 + 32 + 64 * (8 + 5)"
proof -
  let ?das = "[\<lparr>ca_addr = 1000, ca_first = 0, ca_step = 64\<rparr>, \<lparr>ca_addr = 1000, ca_first = 32, ca_step = 64\<rparr>] :: snd_pcm_channel_area list"
  obtain areas m t where run: "outstream_begin_write_alsa quiet_alsa 1 100 (stereo_state mapped_stream) = Some (SoundIoErrorNone, areas, m, t)"
    unfolding outstream_begin_write_alsa_def
    by (simp add: mapped_stream_def stereo_defs is_rw_def arr_set_def arr_at_def upd_out_def Let_def upt_two quiet_defs in_world_def)
  have "\<forall>ch < 2. \<forall>k. 8 * sample_address areas ch k =
      8 * int (ca_addr (?das ! ch)) + uint (ca_first (?das ! ch)) + uint (ca_step (?das ! ch)) * (uint (8 :: 64 word) + int k)"
    by (rule mmap_areas_match_device [where p = 1 and os = mapped_stream and h = 7 and ok = 0 and frames = 100 and w = "[]", OF _ _ _ _ _ _ _ _ _ run])
      (simp_all add: mapped_stream_def stereo_defs is_rw_def quiet_defs)
  from this [rule_format, of 1 5] run show ?thesis by auto
qed

end
