(* ===== verification/AlsaOpen.thy ===== *)
theory AlsaOpen
  imports AlsaAreas
begin

section \<open>Opening an ALSA output stream\<close>

text \<open>
  Opening takes about twenty calls that may fail, and allocates three blocks on the way. Whatever
  fails, nothing is left behind; when all succeed the stream has what begin_write relies on. The
  steps are followed with an invariant of the stream and the blocks it owns.
\<close>

subsection \<open>The stream while it is opened\<close>

definition osa_blocks :: "SoundIoOutStreamAlsa \<Rightarrow> nat list" where
  "osa_blocks a = map the (filter (\<lambda>b. b \<noteq> None) [osa_poll_fds a, map_option fst (osa_chmap a), osa_sample_buffer a])"

definition osa_released :: "SoundIoOutStreamAlsa \<Rightarrow> bool" where
  "osa_released a \<longleftrightarrow> osa_handle a = None \<and> osa_blocks a = []"

definition same_format :: "SoundIoOutStream \<Rightarrow> SoundIoOutStream \<Rightarrow> bool" where
  "same_format os os0 \<longleftrightarrow> os_layout os = os_layout os0 \<and> os_format os = os_format os0 \<and>
     os_bytes_per_frame os = os_bytes_per_frame os0 \<and> os_bytes_per_sample os = os_bytes_per_sample os0 \<and>
     osa_thread (osa os) = osa_thread (osa os0) \<and> length (osa_areas (osa os)) = length (osa_areas (osa os0))"

text \<open>
  The stream \<open>p\<close>, which was \<open>os0\<close>, owns its blocks, besides the blocks \<open>B\<close> that others own; and \<open>Q\<close>.
\<close>

definition holds ::
  "nat \<Rightarrow> SoundIoOutStream \<Rightarrow> nat set \<Rightarrow> (SoundIoOutStream \<Rightarrow> bool) \<Rightarrow> ('j, 'z) jsio_scheme \<Rightarrow> bool" where
  "holds p os0 B Q s \<longleftrightarrow> (\<exists>os. outstreams s p = Some os \<and> same_format os os0 \<and> Q os \<and> mem_ok s \<and>
     osa_thread (osa os0) = None \<and> blocks s = B \<union> set (osa_blocks (osa os)) \<and> B \<inter> set (osa_blocks (osa os)) = {} \<and> distinct (osa_blocks (osa os)))"

definition settled ::
  "nat \<Rightarrow> SoundIoOutStream \<Rightarrow> nat set \<Rightarrow> (SoundIoOutStream \<Rightarrow> bool) \<Rightarrow> (SoundIoError \<times> ('j, 'z) jsio_scheme) option \<Rightarrow> bool" where
  "settled p os0 B Q r \<longleftrightarrow> (\<forall>err t. r = Some (err, t) \<longrightarrow>
     holds p os0 B (if err = SoundIoErrorNone then Q else (\<lambda>os. osa_released (osa os))) t)"

lemma mem_ok_world [simp]: "mem_ok (s\<lparr>world := w\<rparr>) = mem_ok s"
  by (simp add: mem_ok_def)

lemma mem_ok_outstreams [simp]: "mem_ok (s\<lparr>outstreams := x\<rparr>) = mem_ok s"
  by (simp add: mem_ok_def)

lemma holds_world [simp]: "holds p os0 B Q (s\<lparr>world := w\<rparr>) = holds p os0 B Q s"
  by (simp add: holds_def)

lemma holds_in_world: "in_world f s = (r, t) \<Longrightarrow> holds p os0 B Q s \<Longrightarrow> holds p os0 B Q t"
  by (auto simp: in_world_def split: prod.splits)

lemma holdsE:
  assumes "holds p os0 B Q s"
  obtains os where "outstreams s p = Some os" "same_format os os0" "Q os" "mem_ok s" "osa_thread (osa os0) = None"
    "blocks s = B \<union> set (osa_blocks (osa os))" "B \<inter> set (osa_blocks (osa os)) = {}" "distinct (osa_blocks (osa os))"
  using assms by (auto simp: holds_def)

lemma holds_weaken: "holds p os0 B Q s \<Longrightarrow> (\<And>os. Q os \<Longrightarrow> Q' os) \<Longrightarrow> holds p os0 B Q' s"
  by (auto simp: holds_def)

lemma settled_read: "(\<And>x. m = Some x \<Longrightarrow> settled p os0 B Q (k x)) \<Longrightarrow> settled p os0 B Q (Option.bind m k)"
  by (cases m) (simp_all add: settled_def)

lemma settled_stream:
  "holds p os0 B Q s \<Longrightarrow> (\<And>os. outstreams s p = Some os \<Longrightarrow> same_format os os0 \<Longrightarrow> Q os \<Longrightarrow> settled p os0 B Q' (k os)) \<Longrightarrow>
   settled p os0 B Q' (Option.bind (outstreams s p) k)"
  by (auto elim: holdsE)

lemma settled_upd:
  assumes "holds p os0 B Q s"
    and "\<And>os. Q os \<Longrightarrow> Q' (f os) \<and> osa_blocks (osa (f os)) = osa_blocks (osa os) \<and> same_format (f os) os"
    and "\<And>t. holds p os0 B Q' t \<Longrightarrow> settled p os0 B Q'' (k t)"
  shows "settled p os0 B Q'' (Option.bind (upd_out p f s) k)"
proof -
  from assms(1) obtain os where os: "outstreams s p = Some os" "same_format os os0" "Q os" "mem_ok s" "osa_thread (osa os0) = None"
    "blocks s = B \<union> set (osa_blocks (osa os))" "B \<inter> set (osa_blocks (osa os)) = {}" "distinct (osa_blocks (osa os))"
    by (rule holdsE)
  have "holds p os0 B Q' (s\<lparr>outstreams := (outstreams s)(p \<mapsto> f os)\<rparr>)"
    using os assms(2) [OF os(3)] by (simp add: holds_def same_format_def)
  from assms(3) [OF this] os(1) show ?thesis by (simp add: upd_out_def)
qed

lemma settled_try_step:
  assumes "holds p os0 B Q s" and "\<And>err t. holds p os0 B Q t \<Longrightarrow> settled p os0 B Q' (fail err t)"
    and "\<And>t. holds p os0 B Q t \<Longrightarrow> settled p os0 B Q' (next t)"
  shows "settled p os0 B Q' (try_step call fail next s)"
  using assms by (auto simp: try_step_def split: prod.splits dest: holds_in_world)

lemma settled_call:
  "holds p os0 B Q s \<Longrightarrow> (\<And>r t. holds p os0 B Q t \<Longrightarrow> settled p os0 B Q' (k r t)) \<Longrightarrow>
   settled p os0 B Q' (case in_world f s of (r, t) \<Rightarrow> k r t)"
  by (auto split: prod.splits dest: holds_in_world)

subsection \<open>Giving up\<close>

lemma free_blocks:
  "distinct (osa_blocks a) \<Longrightarrow> blocks s = B \<union> set (osa_blocks a) \<Longrightarrow> B \<inter> set (osa_blocks a) = {} \<Longrightarrow>
   do { s \<leftarrow> free_blk (osa_poll_fds a) s; s \<leftarrow> free_blk (map_option fst (osa_chmap a)) s; free_blk (osa_sample_buffer a) s } =
     Some (s\<lparr>blocks := B\<rparr>)"
  by (cases "osa_poll_fds a"; cases "osa_chmap a"; cases "osa_sample_buffer a")
    (auto simp: osa_blocks_def free_blk_def intro!: arg_cong [where f = "\<lambda>B. s\<lparr>blocks := B\<rparr>"])

lemma destroy_holds:
  assumes "holds p os0 B Q s"
  shows "\<exists>t. outstream_destroy_alsa e p s = Some t \<and> holds p os0 B (\<lambda>os. osa_released (osa os)) t"
proof -
  from assms(1) obtain os where os: "outstreams s p = Some os" "same_format os os0" "Q os" "mem_ok s" "osa_thread (osa os0) = None"
    "blocks s = B \<union> set (osa_blocks (osa os))" "B \<inter> set (osa_blocks (osa os)) = {}" "distinct (osa_blocks (osa os))"
    by (rule holdsE)
  let ?u = "case osa_handle (osa os) of None \<Rightarrow> s | Some h \<Rightarrow> the_world (snd_pcm_close (actl e) h) s"
  let ?os = "os\<lparr>osa := (osa os)\<lparr>osa_handle := None, osa_poll_fds := None, osa_chmap := None, osa_sample_buffer := None\<rparr>\<rparr>"
  let ?t = "?u\<lparr>blocks := B, outstreams := (outstreams s)(p \<mapsto> ?os)\<rparr>"
  have u: "blocks ?u = blocks s" "outstreams ?u = outstreams s" "next_id ?u = next_id s"
    by (simp_all add: the_world_def split: option.split)
  have "osa_thread (osa os) = None" using os(2,5) by (simp add: same_format_def)
  then have "outstream_destroy_alsa e p s = (do {
      s \<leftarrow> (do { s \<leftarrow> free_blk (osa_poll_fds (osa os)) ?u; s \<leftarrow> free_blk (map_option fst (osa_chmap (osa os))) s;
        free_blk (osa_sample_buffer (osa os)) s });
      upd_osa p (\<lambda>a. a\<lparr>osa_handle := None, osa_poll_fds := None, osa_chmap := None, osa_sample_buffer := None\<rparr>) s })"
    using os(1) by (simp add: outstream_destroy_alsa_def Let_def)
  also have "\<dots> = upd_osa p (\<lambda>a. a\<lparr>osa_handle := None, osa_poll_fds := None, osa_chmap := None, osa_sample_buffer := None\<rparr>)
      (?u\<lparr>blocks := B\<rparr>)"
    using os u by (subst free_blocks [where B = B]) simp_all
  finally have "outstream_destroy_alsa e p s = Some ?t"
    using os(1) u by (simp add: upd_out_def)
  moreover have "holds p os0 B (\<lambda>os. osa_released (osa os)) ?t"
    using os u by (simp add: holds_def same_format_def osa_released_def osa_blocks_def mem_ok_def)
  ultimately show ?thesis by blast
qed

lemma settled_fail:
  assumes "holds p os0 B Q s" and "err \<noteq> SoundIoErrorNone"
  shows "settled p os0 B Q' (outstream_alsa_failed e p err s)"
  using destroy_holds [OF assms(1), of e] assms(2)
  by (auto simp: outstream_alsa_failed_def settled_def)


text \<open>A block for one of the fields that hold one: \<open>Q'\<close> speaks of the stream with the new value.\<close>

lemma settled_alloc:
  assumes "holds p os0 B Q s"
    and none: "\<And>os. Q os \<Longrightarrow> Q' (f None os) \<and> osa_blocks (osa (f None os)) = osa_blocks (osa os) \<and> same_format (f None os) os"
    and some: "\<And>os b. Q os \<Longrightarrow> Q'' (f (Some b) os) \<and> same_format (f (Some b) os) os \<and>
      set (osa_blocks (osa (f (Some b) os))) = insert b (set (osa_blocks (osa os))) \<and>
      length (osa_blocks (osa (f (Some b) os))) = Suc (length (osa_blocks (osa os)))"
    and failed: "\<And>t. holds p os0 B Q' t \<Longrightarrow> settled p os0 B Q3 (k None t)"
    and made: "\<And>b t. holds p os0 B Q'' t \<Longrightarrow> settled p os0 B Q3 (k (Some b) t)"
  shows "settled p os0 B Q3 (case alloc s of (b, t) \<Rightarrow> Option.bind (upd_out p (f b) t) (k b))"
proof -
  from assms(1) obtain os where os: "outstreams s p = Some os" "same_format os os0" "Q os" "mem_ok s" "osa_thread (osa os0) = None"
    "blocks s = B \<union> set (osa_blocks (osa os))" "B \<inter> set (osa_blocks (osa os)) = {}" "distinct (osa_blocks (osa os))"
    by (rule holdsE)
  show ?thesis
  proof (cases rule: alloc_cases [of s])
    case (fail s')
    have "outstreams s' = outstreams s" using fail(4) by (cases s, cases s') simp
    then have "holds p os0 B Q' (s'\<lparr>outstreams := (outstreams s)(p \<mapsto> f None os)\<rparr>)"
      using os none [OF os(3)] fail by (simp add: holds_def same_format_def mem_ok_def)
    from failed [OF this] fail os(1) \<open>outstreams s' = outstreams s\<close> show ?thesis by (simp add: upd_out_def)
  next
    case (ok s')
    have "outstreams s' = outstreams s" using ok(4) by (cases s, cases s') simp
    let ?b = "next_id s"
    have fresh: "?b \<notin> B" "?b \<notin> set (osa_blocks (osa os))" using alloc_fresh [OF os(4)] os(6) by auto
    note new = some [OF os(3), of ?b]
    have "card (set (osa_blocks (osa (f (Some ?b) os)))) = length (osa_blocks (osa (f (Some ?b) os)))"
      using new fresh(2) distinct_card [OF os(8)] by simp
    then have "distinct (osa_blocks (osa (f (Some ?b) os)))" by (rule card_distinct)
    then have "holds p os0 B Q'' (s'\<lparr>outstreams := (outstreams s)(p \<mapsto> f (Some ?b) os)\<rparr>)"
      using os new ok fresh by (auto simp: holds_def same_format_def mem_ok_def less_SucI)
    from made [OF this] ok os(1) \<open>outstreams s' = outstreams s\<close> show ?thesis by (simp add: upd_out_def)
  qed
qed

subsection \<open>The stages\<close>

text \<open>The device is open and the channel map is there, the other blocks not yet.\<close>

definition has_device :: "SoundIoOutStream \<Rightarrow> bool" where
  "has_device os \<longleftrightarrow> osa_handle (osa os) \<noteq> None \<and> osa_chmap (osa os) \<noteq> None \<and> osa_poll_fds (osa os) = None"

text \<open>The buffer of a stream that is not mapped: \<open>width\<close> is the size of a sample in the library.\<close>

definition has_buffer :: "int \<Rightarrow> SoundIoOutStream \<Rightarrow> bool" where
  "has_buffer width os \<longleftrightarrow> (is_rw (osa_access (osa os)) \<longrightarrow> osa_sample_buffer (osa os) \<noteq> None \<and>
     osa_sample_buffer_size (osa os) =
       to_int32 (uint (word_of_int (cl_channel_count (os_layout os)) * osa_period_size (osa os) * word_of_int width)))"

definition opened :: "int \<Rightarrow> SoundIoOutStream \<Rightarrow> bool" where
  "opened width os \<longleftrightarrow> osa_handle (osa os) \<noteq> None \<and> osa_chmap (osa os) \<noteq> None \<and> osa_poll_fds (osa os) \<noteq> None \<and> has_buffer width os"

lemmas stage_defs = has_device_def has_buffer_def opened_def osa_blocks_def same_format_def

lemma settled_done: "holds p os0 B Q t \<Longrightarrow> settled p os0 B Q (Some (SoundIoErrorNone, t))"
  by (simp add: settled_def)

lemma settled_if: "(b \<Longrightarrow> settled p os0 B Q m) \<Longrightarrow> (\<not> b \<Longrightarrow> settled p os0 B Q n) \<Longrightarrow> settled p os0 B Q (if b then m else n)"
  by simp

text \<open>A change of other fields, where \<open>Q\<close> still holds.\<close>

lemma settled_keep:
  "holds p os0 B Q s \<Longrightarrow> (\<And>os. Q os \<Longrightarrow> Q (f os) \<and> osa_blocks (osa (f os)) = osa_blocks (osa os) \<and> same_format (f os) os) \<Longrightarrow>
   (\<And>t. holds p os0 B Q t \<Longrightarrow> settled p os0 B Q' (k t)) \<Longrightarrow> settled p os0 B Q' (Option.bind (upd_out p f s) k)"
  by (rule settled_upd)

lemma open_poll:
  assumes "holds p os0 B (\<lambda>os. has_device os \<and> has_buffer width os) s"
  shows "settled p os0 B (opened width) (outstream_open_poll e p handle s)"
  unfolding outstream_open_poll_def Let_def
  apply (rule settled_keep [OF assms], simp add: stage_defs)
  apply (intro settled_if, erule settled_fail, simp)
  apply (intro settled_read, erule settled_alloc [where Q' = "\<lambda>os. True" and Q'' = "opened width"])
     apply (auto simp: stage_defs settled_fail)[3]
  apply (simp, erule settled_try_step, erule settled_fail, simp)
  apply (erule settled_call, simp only: split_beta, intro settled_if)
   apply (intro settled_read, erule settled_fail, simp)
  apply (erule settled_keep, simp add: stage_defs, erule settled_done)
  done

lemma settled_pinned:
  "holds p os0 B Q s \<Longrightarrow> (\<And>os. holds p os0 B (\<lambda>x. x = os) s \<Longrightarrow> same_format os os0 \<Longrightarrow> Q os \<Longrightarrow> settled p os0 B Q' (k os)) \<Longrightarrow>
   settled p os0 B Q' (Option.bind (outstreams s p) k)"
  by (rule settled_stream) (auto simp: holds_def)

lemma open_buffer:
  assumes "holds p os0 B (\<lambda>os. has_device os \<and> osa_sample_buffer (osa os) = None) s"
  shows "settled p os0 B (opened width) (outstream_open_buffer e p handle width s)"
  unfolding outstream_open_buffer_def Let_def
  apply (rule settled_pinned [OF assms], intro settled_if)
   apply (erule settled_alloc [where Q' = "\<lambda>os. True" and Q'' = "\<lambda>os. has_device os \<and> has_buffer width os"])
      apply (auto simp: stage_defs settled_fail open_poll)[4]
  apply (rule open_poll, erule holds_weaken, simp add: stage_defs)
  done

lemma settled_maybe:
  "holds p os0 B Q s \<Longrightarrow> (\<And>os. Q os \<Longrightarrow> Q (f os) \<and> osa_blocks (osa (f os)) = osa_blocks (osa os) \<and> same_format (f os) os) \<Longrightarrow>
   (\<And>t. holds p os0 B Q t \<Longrightarrow> settled p os0 B Q' (k t)) \<Longrightarrow>
   settled p os0 B Q' (Option.bind (if b then upd_out p f s else Some s) k)"
  by (auto intro: settled_keep)

lemma open_sw:
  assumes "holds p os0 B (\<lambda>os. has_device os \<and> osa_sample_buffer (osa os) = None) s"
  shows "settled p os0 B (opened width) (outstream_open_sw e p handle width s)"
  unfolding outstream_open_sw_def Let_def
  apply (rule settled_pinned [OF assms], rule settled_read, clarsimp, rule settled_read)
  apply (erule settled_upd [where Q' = "\<lambda>os. has_device os \<and> osa_sample_buffer (osa os) = None"], simp add: stage_defs)
  apply (erule settled_call, erule settled_maybe, simp add: stage_defs)
  apply (erule settled_try_step settled_fail open_buffer | simp add: refused_params_def)+
  done

lemma open_hw:
  assumes "holds p os0 B (\<lambda>os. has_device os \<and> osa_sample_buffer (osa os) = None) s"
  shows "settled p os0 B (opened width) (outstream_open_hw e p handle width s)"
  unfolding outstream_open_hw_def Let_def
  apply (rule settled_stream [OF assms], rule settled_read, rule settled_call [OF assms], clarsimp)
  apply (erule settled_keep, simp add: stage_defs, intro settled_if conjI impI)
   apply (erule settled_fail, simp)
  apply (rule settled_read, erule settled_keep, simp add: stage_defs)
  apply (erule settled_try_step, erule settled_fail, simp add: refused_params_def)
  apply (simp only: split_beta, intro settled_if)
   apply (erule settled_fail, simp)
  apply (erule settled_keep, simp add: stage_defs, erule open_sw)
  done

lemma try_access_world: "\<exists>w. snd (try_access_types e handle as s) = s\<lparr>world := w\<rparr>"
proof (induction as arbitrary: s)
  case (Cons a as)
  obtain err t where call: "in_world (hw_params_set_access (apar e) handle a) s = (err, t)" by fastforce
  then obtain w where "t = s\<lparr>world := w\<rparr>" by (auto simp: in_world_def split: prod.splits)
  with Cons.IH [of t] call show ?case by auto
next
  case (Nil s)
  show ?case by (intro exI [of _ "world s"]) simp
qed

lemma holds_set_access: "set_access e handle s = (r, t) \<Longrightarrow> holds p os0 B Q s \<Longrightarrow> holds p os0 B Q t"
  using try_access_world [of e handle prioritized_access_types s]
  by (auto simp: set_access_def split: prod.splits)

lemma open_device:
  assumes "holds p os0 B (\<lambda>os. has_device os \<and> osa_sample_buffer (osa os) = None) s"
  shows "settled p os0 B (opened (snd_pcm_format_physical_width (actl e) (to_alsa_fmt (os_format os0)) div 8))
    (outstream_open_device e p handle device s)"
  unfolding outstream_open_device_def Let_def
  apply (rule settled_try_step [OF assms], erule settled_fail, simp)
  apply (erule settled_try_step, erule settled_fail, simp)
  apply (simp only: split_paired_all prod.case split: prod.split)
  apply (clarify, frule (1) holds_set_access, simp split: option.split, intro conjI impI allI)
   apply (erule settled_fail, simp add: set_access_def split: prod.splits if_splits)
  apply (erule settled_keep, simp add: stage_defs)
  apply (rule settled_stream, assumption)
  apply (erule settled_try_step, erule settled_fail, simp)+
  apply (intro settled_if, erule settled_fail, simp)
  apply (erule settled_try_step, erule settled_fail, simp)
  apply (simp add: same_format_def, erule open_hw)
  done

definition alsa_fresh :: "SoundIoOutStream \<Rightarrow> bool" where
  "alsa_fresh os \<longleftrightarrow> osa_released (osa os) \<and> osa_thread (osa os) = None"

lemma open_settled:
  assumes os0: "outstreams s p = Some os0" "alsa_fresh os0" and ok: "mem_ok s"
  shows "settled p os0 (blocks s) (opened (snd_pcm_format_physical_width (actl e) (to_alsa_fmt (os_format os0)) div 8))
    (outstream_open_alsa e p s)"
proof -
  have start: "holds p os0 (blocks s) (\<lambda>os. osa_released (osa os)) s"
    using assms by (simp add: holds_def alsa_fresh_def osa_released_def same_format_def)
  show ?thesis
    unfolding outstream_open_alsa_def Let_def
    apply (rule settled_stream [OF start], rule settled_read, rule settled_read)
    apply (rule settled_keep [OF start], simp add: osa_released_def stage_defs, rule settled_read)
    apply (erule settled_alloc [where Q' = "\<lambda>os. osa_released (osa os)" and
          Q'' = "\<lambda>os. osa_chmap (osa os) \<noteq> None \<and> osa_poll_fds (osa os) = None \<and> osa_sample_buffer (osa os) = None"])
       apply (auto simp: osa_released_def stage_defs settled_fail split: option.splits if_splits)[3]
    apply (simp, erule settled_call, clarsimp, intro conjI impI)
     apply (erule settled_fail, simp)
    apply (erule settled_upd [where Q' = "\<lambda>os. has_device os \<and> osa_sample_buffer (osa os) = None"], simp add: stage_defs)
    apply (erule open_device)
    done
qed

lemma opened_rw_stream:
  assumes os0: "outstreams s p = Some os0" "alsa_fresh os0" and ok: "mem_ok s"
    and format: "cl_channel_count (os_layout os0) = int channels" "channels \<le> SOUNDIO_MAX_CHANNELS" "0 < bps"
      "os_bytes_per_sample os0 = int bps" "os_bytes_per_frame os0 = int (channels * bps)"
      "length (osa_areas (osa os0)) = SOUNDIO_MAX_CHANNELS"
    and width: "snd_pcm_format_physical_width (actl e) (to_alsa_fmt (os_format os0)) = 8 * int bps"
    and opened: "outstream_open_alsa e p s = Some (SoundIoErrorNone, t)" "outstreams t p = Some os"
    and rw: "is_rw (osa_access (osa os))" and fits: "channels * unat (osa_period_size (osa os)) * bps \<le> nat int_max"
  shows "\<exists>b. rw_stream os b channels (unat (osa_period_size (osa os))) bps"
proof -
  have "settled p os0 (blocks s) (opened (int bps)) (outstream_open_alsa e p s)"
    using open_settled [OF os0 ok, of e] by (simp add: width)
  with opened have os: "opened (int bps) os" "same_format os os0" by (auto simp: settled_def holds_def)
  let ?n = "channels * unat (osa_period_size (osa os)) * bps"
  have "?n \<le> 2147483647" using fits by (simp add: int_max_def)
  then have "?n < 2 ^ 64" "in_int (int ?n)" by (simp_all add: c_defs del: of_nat_mult)
  moreover have "word_of_int (int channels) * osa_period_size (osa os) * word_of_int (int bps) = of_nat ?n"
    by (simp add: word_of_nat_eq_iff [symmetric])
  ultimately have "to_int32 (uint (word_of_int (int channels) * osa_period_size (osa os) * word_of_int (int bps))) = int ?n"
    by (simp add: uint_nat unat_of_nat to_int32_in_range del: of_nat_mult)
  with os rw format fits show ?thesis
    by (auto simp: opened_def has_buffer_def same_format_def rw_stream_def)
qed

subsection \<open>Properties\<close>

text \<open>C8. Opening an output stream is all or nothing. When it fails, wherever that is, the stream owns nothing and the heap
  has the blocks it had. When it succeeds, the stream has a device, a channel map and descriptors to wait on, its
  format is as it was, and destroying it succeeds and gives back every block.\<close>

theorem alsa_open_all_or_nothing:
  assumes "outstreams s p = Some os0" and "alsa_fresh os0" and "mem_ok s"
    and "outstream_open_alsa e p s = Some (err, t)"
  shows "\<exists>os. outstreams t p = Some os \<and> same_format os os0 \<and>
    (if err \<noteq> SoundIoErrorNone then alsa_fresh os \<and> blocks t = blocks s
     else osa_handle (osa os) \<noteq> None \<and> osa_chmap (osa os) \<noteq> None \<and> osa_poll_fds (osa os) \<noteq> None \<and>
       (\<exists>u os'. outstream_destroy_alsa e p t = Some u \<and> outstreams u p = Some os' \<and> alsa_fresh os' \<and> blocks u = blocks s))"
proof -
  note settled = open_settled [OF assms(1-3), of e]
  show ?thesis
  proof (cases "err = SoundIoErrorNone")
    case False
    with settled assms(4) have "holds p os0 (blocks s) (\<lambda>os. osa_released (osa os)) t" by (simp add: settled_def)
    with False show ?thesis by (auto simp: holds_def osa_released_def alsa_fresh_def same_format_def)
  next
    case True
    with settled assms(4) obtain width where t: "holds p os0 (blocks s) (opened width) t" by (auto simp: settled_def)
    obtain u where "outstream_destroy_alsa e p t = Some u" "holds p os0 (blocks s) (\<lambda>os. osa_released (osa os)) u"
      using destroy_holds [OF t, of e] by blast
    with True t show ?thesis by (auto simp: holds_def opened_def osa_released_def alsa_fresh_def same_format_def)
  qed
qed

text \<open>C17. In an output stream that was opened for a device that is not mapped, begin_write hands out areas in which every
  sample of every frame it grants lies inside the buffer that opening allocated and has bytes of its own, whether the
  channels are interleaved or follow one another. (The library's samples are as wide as those of the stream, and a
  period is less than \<open>2^31\<close> bytes.)\<close>

theorem opened_stream_writes_in_buffer:
  assumes "outstreams s p = Some os0" and "alsa_fresh os0" and "mem_ok s"
    and "cl_channel_count (os_layout os0) = int channels" and "channels \<le> SOUNDIO_MAX_CHANNELS" and "0 < bps"
    and "os_bytes_per_sample os0 = int bps" and "os_bytes_per_frame os0 = int (channels * bps)"
    and "length (osa_areas (osa os0)) = SOUNDIO_MAX_CHANNELS"
    and "snd_pcm_format_physical_width (actl e) (to_alsa_fmt (os_format os0)) = 8 * int bps"
    and opened: "outstream_open_alsa e p s = Some (SoundIoErrorNone, t)" "outstreams t p = Some os"
    and rw: "is_rw (osa_access (osa os))" and "channels * unat (osa_period_size (osa os)) * bps \<le> nat int_max"
    and some: "0 < channels" and run: "outstream_begin_write_alsa e p n t = Some (err, areas, m, u)"
  shows "\<exists>b. osa_sample_buffer (osa os) = Some b \<and>
    areas_in_buffer areas channels bps m (int (block_address e b)) (osa_sample_buffer_size (osa os))"
proof -
  obtain b where b: "rw_stream os b channels (unat (osa_period_size (osa os))) bps"
    using opened_rw_stream [OF assms(1-14)] by blast
  with rw_areas_in_buffer [OF opened(2) b some run] show ?thesis by (auto simp: rw_stream_def)
qed

text \<open>A stereo stream for a device that transfers interleaved samples; on the other sound system the device refuses the
  hardware parameters.\<close>

definition float_stream :: SoundIoOutStream where
  "float_stream = outstream_zero\<lparr>os_device := Some 2, os_format := SoundIoFormatFloat32LE, os_sample_rate := 48000,
     os_layout := layout_zero\<lparr>cl_channel_count := 2\<rparr>, os_bytes_per_sample := 4, os_bytes_per_frame := 8\<rparr>"

definition float_state :: "int list jsio" where
  "float_state = (alsa_lib [])\<lparr>outstreams := [1 \<mapsto> float_stream],
     devices := [2 \<mapsto> device_zero\<lparr>aim := SoundIoDeviceAimOutput, software_latency_max := 1\<rparr>]\<rparr>"

definition rw_alsa :: "int \<Rightarrow> (int list, unit) alsa_env" where
  "rw_alsa answer = quiet_alsa\<lparr>apar := quiet_params\<lparr>hw_params := (\<lambda>h w. (answer, w)),
     hw_params_set_access := (\<lambda>h a w. (if a = SND_PCM_ACCESS_RW_INTERLEAVED then 0 else - 1, w))\<rparr>\<rparr>"

lemmas open_run = outstream_open_alsa_def outstream_open_device_def outstream_open_hw_def outstream_open_sw_def
  outstream_open_buffer_def outstream_open_poll_def try_step_def in_world_def set_access_def prioritized_access_types_def
  upd_out_def dbl_to_uframes_def dbl_div_def layout_chmap_def

lemmas float_run = open_run float_state_def float_stream_def device_zero_def outstream_zero_def osa_zero_def layout_zero_def
  c_int_def in_int_def int_max_def int_min_def alloc_nil chmap_zero_def arr_at_def arr_set_def upt_two SOUNDIO_MAX_CHANNELS_def
  soundio_double_clamp_def dbl_trunc_def is_rw_def quiet_defs rw_alsa_def

lemma float_open:
  "\<exists>t os. outstream_open_alsa (rw_alsa 0) 1 float_state = Some (SoundIoErrorNone, t) \<and> outstreams t 1 = Some os \<and>
     osa_access (osa os) = SND_PCM_ACCESS_RW_INTERLEAVED \<and> unat (osa_period_size (osa os)) = 512 \<and>
     (\<exists>areas u. outstream_begin_write_alsa (rw_alsa 0) 1 100 t = Some (SoundIoErrorNone, areas, 100, u))"
  by (simp add: float_run outstream_begin_write_alsa_def soundio_int_min_def to_int32_in_range Let_def)

lemma float_refused:
  "\<exists>t. outstream_open_alsa (rw_alsa (- EINVAL)) 1 float_state = Some (SoundIoErrorIncompatibleDevice, t)"
  by (simp add: float_run refused_params_def EINVAL_def outstream_alsa_failed_def outstream_destroy_alsa_def the_world_def free_blk_def Let_def)

lemma float_fresh: "outstreams float_state 1 = Some float_stream" "alsa_fresh float_stream" "mem_ok float_state"
  by (simp_all add: float_state_def float_stream_def outstream_zero_def osa_zero_def alsa_fresh_def osa_released_def osa_blocks_def
      mem_ok_def)

theorem alsa_open_all_or_nothing_witness:
  "\<exists>t os. outstream_open_alsa (rw_alsa (- EINVAL)) 1 float_state = Some (SoundIoErrorIncompatibleDevice, t) \<and>
     outstreams t 1 = Some os \<and> alsa_fresh os \<and> blocks t = {0, 1, 2}"
proof -
  obtain t where t: "outstream_open_alsa (rw_alsa (- EINVAL)) 1 float_state = Some (SoundIoErrorIncompatibleDevice, t)"
    using float_refused by blast
  from alsa_open_all_or_nothing [OF float_fresh this] t show ?thesis by (auto simp: float_state_def)
qed

theorem opened_stream_writes_in_buffer_witness:
  "\<exists>t os areas u b. outstream_open_alsa (rw_alsa 0) 1 float_state = Some (SoundIoErrorNone, t) \<and> outstreams t 1 = Some os \<and>
     outstream_begin_write_alsa (rw_alsa 0) 1 100 t = Some (SoundIoErrorNone, areas, 100, u) \<and>
     areas_in_buffer areas 2 4 100 (int (block_address (rw_alsa 0) b)) (osa_sample_buffer_size (osa os))"
proof -
  obtain t os areas u where t: "outstream_open_alsa (rw_alsa 0) 1 float_state = Some (SoundIoErrorNone, t)" "outstreams t 1 = Some os"
    "osa_access (osa os) = SND_PCM_ACCESS_RW_INTERLEAVED" "unat (osa_period_size (osa os)) = 512"
    "outstream_begin_write_alsa (rw_alsa 0) 1 100 t = Some (SoundIoErrorNone, areas, 100, u)"
    using float_open by blast
  have "\<exists>b. osa_sample_buffer (osa os) = Some b \<and>
    areas_in_buffer areas 2 4 100 (int (block_address (rw_alsa 0) b)) (osa_sample_buffer_size (osa os))"
    by (rule opened_stream_writes_in_buffer [OF float_fresh _ _ _ _ _ _ _ t(1,2) _ _ _ t(5)])
      (simp_all add: t(3,4) float_stream_def outstream_zero_def osa_zero_def layout_zero_def SOUNDIO_MAX_CHANNELS_def is_rw_def
        int_max_def rw_alsa_def quiet_defs)
  with t show ?thesis by blast
qed

end
