(* ===== verification/Observer.thy ===== *)
theory Observer
  imports PulseLock SoundIo
begin

section \<open>Runs that an observer does not notice\<close>

text \<open>
  A backend's scan is followed step by step with rules for what each step does to the state. The
  locale \<open>frame\<close> has the rules for a relation that a change of the heap, the devices and the mutexes
  respects; \<open>world_frame\<close> adds the calls of the external libraries. An \<open>observer\<close> looks at parts of the
  state that these steps leave alone, and sees the same before and after.
\<close>

definition obeys_triple :: "('s \<Rightarrow> 's \<Rightarrow> bool) \<Rightarrow> ('s \<Rightarrow> ('a \<times> 'b \<times> 's) option) \<Rightarrow> bool" where
  "obeys_triple R act \<longleftrightarrow> (\<forall>s. leads R s (act s) (\<lambda>r. snd (snd r)))"

lemma obeys_tripleI: "(\<And>s. leads R s (act s) (\<lambda>r. snd (snd r))) \<Longrightarrow> obeys_triple R act"
  by (simp add: obeys_triple_def)

lemma obeys_tripleD: "obeys_triple R act \<Longrightarrow> act s = Some (a, b, t) \<Longrightarrow> R s t"
  by (fastforce simp: obeys_triple_def leads_def)

lemma lead_case: "(\<And>a b. leads R s (g a b) st) \<Longrightarrow> leads R s (case q of (a, b) \<Rightarrow> g a b) st"
  by (cases q) simp

locale frame =
  fixes R :: "('j, 'z) jsio_scheme \<Rightarrow> ('j, 'z) jsio_scheme \<Rightarrow> bool"
  assumes refl: "R s s"
    and trans: "R s t \<Longrightarrow> R t u \<Longrightarrow> R s u"
    and heap: "devs.more t = devs.more s \<Longrightarrow> R s t"
begin

lemma self: "prefix_of R R"
  by (auto simp: prefix_of_def intro: trans)

lemma mem: "mem.more t = mem.more s \<Longrightarrow> R s t"
  by (rule heap) (rule mem_devs)

lemmas call = lead_call [OF self]
lemmas result = lead_result [OF self]
lemmas pair = lead_pair [OF self]

lemma triple:
  "obeys_triple R act \<Longrightarrow> R s u \<Longrightarrow> (\<And>a b v. leads R v (f a b v) st) \<Longrightarrow>
   leads R s (Option.bind (act u) (\<lambda>r. case r of (a, b, v) \<Rightarrow> f a b v)) st"
  by (auto simp: leads_def Option.bind_eq_Some_conv dest!: obeys_tripleD intro: trans)

lemma last_call: "obeys R act \<Longrightarrow> R s u \<Longrightarrow> leads R s (act u) (\<lambda>v. v)"
  by (auto simp: leads_def dest: obeysD intro: trans)

lemma last_result: "obeys_result R act \<Longrightarrow> R s u \<Longrightarrow> leads R s (act u) snd"
  by (auto simp: leads_def dest!: obeys_resultD intro: trans)

lemma last_triple: "obeys_triple R act \<Longrightarrow> R s u \<Longrightarrow> leads R s (act u) (\<lambda>r. snd (snd r))"
  by (auto simp: leads_def dest!: obeys_tripleD intro: trans)

lemma states:
  "R s u \<Longrightarrow> R s (u\<lparr>devices := d\<rparr>)" "R s u \<Longrightarrow> R s (u\<lparr>infos := i\<rparr>)" "R s u \<Longrightarrow> R s (u\<lparr>threads := th\<rparr>)"
proof -
  have same: "devs.more (u\<lparr>devices := d\<rparr>) = devs.more u" "devs.more (u\<lparr>infos := i\<rparr>) = devs.more u"
    "devs.more (u\<lparr>threads := th\<rparr>) = devs.more u" by (cases u; simp)+
  show "R s u \<Longrightarrow> R s (u\<lparr>devices := d\<rparr>)" "R s u \<Longrightarrow> R s (u\<lparr>infos := i\<rparr>)" "R s u \<Longrightarrow> R s (u\<lparr>threads := th\<rparr>)"
    by (auto intro: trans heap [OF same(1)] heap [OF same(2)] heap [OF same(3)])
qed

lemma elementary:
  "obeys R (upd_dev p f)" "obeys R (upd_info q g)" "obeys R (free_blk b)"
  "obeys R (soundio_device_unref d)" "obeys R (soundio_destroy_devices_info i)"
  by (auto simp: obeys_def leads_def upd_dev_def upd_info_def Option.bind_eq_Some_conv intro!: states refl
      dest: free_silent [THEN mem] unref_silent [THEN heap] destroy_info_silent [THEN heap])

lemma append: "obeys_result R (append_device a q p)" "obeys_result R (soundio_str_dupe str n)"
proof -
  show "obeys_result R (append_device a q p)"
    by (auto simp: append_device_def obeys_result_def leads_def Option.bind_eq_Some_conv
        dest!: list_append_silent [THEN mem] elementary(2) [THEN obeysD] intro: trans)
  show "obeys_result R (soundio_str_dupe str n)"
    by (auto simp: obeys_result_def leads_def dest: str_dupe_silent [THEN mem])
qed

lemma alloc: "R s (snd (alloc s))"
  by (rule mem) (metis alloc_silent prod.collapse)

lemma pairs: "obeys_pair R alloc" "obeys_pair R (strdup str)" "obeys_pair R (soundio_alloc_sprintf str)"
  using alloc by (auto simp: obeys_pair_def strdup_def soundio_alloc_sprintf_def case_prod_unfold Let_def split: option.split)

lemma sync:
  "obeys R (soundio_os_mutex_lock m)" "obeys R (soundio_os_mutex_unlock m)" "obeys R (soundio_os_cond_signal c m)"
  "obeys R (soundio_os_cond_wait c m)"
  by (auto simp: obeys_def leads_def soundio_os_mutex_lock_def soundio_os_mutex_unlock_def soundio_os_cond_signal_def
      soundio_os_cond_wait_def Option.bind_eq_Some_conv intro!: heap)

lemma add_one: "obeys_triple R (list_add_one l)"
  by (auto simp: obeys_triple_def leads_def dest: list_add_one_silent [THEN mem])

lemmas walk_frame = obeysI obeys_resultI obeys_tripleI lead_done lead_fail
  elementary [THEN call] append [THEN result] pairs [THEN pair] lead_split elementary [THEN last_call]
  lead_if lead_option lead_case lead_choice [OF self] sync [THEN call] sync [THEN last_call]
  lead_read [where m = "sios u si" for si u] lead_read [where m = "devices u p" for p u] lead_read [where m = "infos u q" for q u]
  lead_read [where m = "rate_cell d i" for d i] lead_read [where m = "dbl_div r q" for q r]
  lead_read [where m = "get_channel_layout l m" for l m] lead_read [where m = "c_assert b" for b]
  lead_read [where m = "for_each f xs ls" for f xs and ls :: "SoundIoChannelLayout list"]

text \<open>A choice between two runs in the middle of a run.\<close>

lemma choice:
  "leads R s (if b then m else n) snd \<Longrightarrow> (\<And>a v. leads R v (f a v) st) \<Longrightarrow>
   leads R s (Option.bind (if b then m else n) (\<lambda>r. case r of (a, v) \<Rightarrow> f a v)) st"
  by (fastforce simp: leads_def Option.bind_eq_Some_conv split: if_splits intro: trans)

lemma choice_pair:
  "R s (snd (if b then m else n)) \<Longrightarrow> (\<And>a v. leads R v (f a v) st) \<Longrightarrow>
   leads R s (case if b then m else n of (a, v) \<Rightarrow> f a v) st"
  by (auto simp: leads_def split: prod.splits if_splits intro: trans)

lemma maybe:
  "obeys R act \<Longrightarrow> R s u \<Longrightarrow> (\<And>v. leads R v (k v) st) \<Longrightarrow> leads R s (Option.bind (if b then act u else Some u) k) st"
  by (cases b) (auto simp: leads_def Option.bind_eq_Some_conv dest!: obeysD intro: trans)

lemma loop:
  assumes step: "\<And>x. leads R (st x) (step x) (\<lambda>z. case z of Inl r \<Rightarrow> out r | Inr y \<Rightarrow> st y)"
  shows "leads R (st x) (repeat_until step x) out"
proof -
  have "R (st x) (out r)" if "repeat_until step x = Some r" for r
    using that
  proof (rule repeat_until_inv [where P = "\<lambda>y. R (st x) (st y)"])
    show "R (st x) (st z)" if "step y = Some (Inr z)" "R (st x) (st y)" for y z
      using that(2) by (rule trans) (use that(1) step [of y] in \<open>simp add: leads_def\<close>)
    show "R (st x) (out z)" if "step y = Some (Inl z)" "R (st x) (st y)" for y z
      using that(2) by (rule trans) (use that(1) step [of y] in \<open>simp add: leads_def\<close>)
  qed (rule refl)
  then show ?thesis by (simp add: leads_def)
qed

lemma repeated:
  assumes "\<And>x s. leads R s (step (x, s)) (\<lambda>r. case r of Inl r \<Rightarrow> snd r | Inr r \<Rightarrow> snd r)"
  shows "obeys_result R (\<lambda>s. repeat_until step (x, s))"
  using loop [of snd step snd] assms by (fastforce simp: obeys_result_def)

lemma for_each_obeys:
  assumes "\<And>x. obeys R (f x)"
  shows "obeys R (for_each f xs)"
proof -
  have "R s t" if "for_each f xs s = Some t" for s t
    using that by (rule for_each_inv [where I = "R s"]) (auto intro: refl trans dest!: assms [THEN obeysD])
  then show ?thesis by (simp add: obeys_def leads_def)
qed

end

locale world_frame = frame R for R :: "('j, 'z) jsio_scheme \<Rightarrow> ('j, 'z) jsio_scheme \<Rightarrow> bool" +
  assumes world: "R s (s\<lparr>world := w\<rparr>)"
begin

lemma in_world: "in_world f s = (r, t) \<Longrightarrow> R s t"
  by (auto simp: in_world_def world split: prod.splits)

lemma the_world: "R s u \<Longrightarrow> R s (the_world f u)"
  by (erule trans) (simp add: the_world_def world)

lemma world_pairs: "obeys_pair R (in_world f)" "obeys_pair R (get_hint e hint key)"
proof -
  show "obeys_pair R (in_world f)" by (simp add: obeys_pair_def in_world_def case_prod_unfold Let_def world)
  show "obeys_pair R (get_hint e hint key)"
    using pairs(2) by (auto simp: obeys_pair_def get_hint_def refl split: option.split)
qed

lemma try_call:
  "R s u \<Longrightarrow> (\<And>err v. leads R v (fail err v) st) \<Longrightarrow> (\<And>v. leads R v (next v) st) \<Longrightarrow>
   leads R s (try_step call fail next u) st"
  by (auto simp: try_step_def leads_def dest!: in_world split: prod.splits intro: trans)

lemma hal_calls:
  "R s u \<Longrightarrow> (\<And>v. leads R v (fail v) st) \<Longrightarrow> (\<And>v. leads R v (next v) st) \<Longrightarrow> leads R s (hal_do get fail next u) st"
  "R s u \<Longrightarrow> (\<And>v. leads R v (fail v) st) \<Longrightarrow> (\<And>x v. leads R v (step x v) st) \<Longrightarrow> leads R s (hal_read read fail step u) st"
  by (auto simp: hal_do_def hal_read_def leads_def dest!: in_world split: prod.splits intro: trans)

lemmas walk = walk_frame world_pairs [THEN pair] try_call hal_calls
lemmas run = refl states the_world

end

locale observer =
  fixes view :: "('j, 'z) jsio_scheme \<Rightarrow> 'v"
  assumes silent: "notified t = notified s \<Longrightarrow> view t = view s"
begin

definition hushed :: "('j, 'z) jsio_scheme \<Rightarrow> ('j, 'z) jsio_scheme \<Rightarrow> bool" where
  "hushed s t \<longleftrightarrow> view t = view s"

lemma view_simps:
  "view (the_world f s) = view s" "view (s\<lparr>devices := d\<rparr>) = view s" "view (s\<lparr>infos := i\<rparr>) = view s"
  "view (snd (alloc s)) = view s" "view (snd (in_world g s)) = view s" "view (s\<lparr>threads := th\<rparr>) = view s"
proof -
  show "view (the_world f s) = view s" "view (s\<lparr>devices := d\<rparr>) = view s" "view (s\<lparr>infos := i\<rparr>) = view s"
    "view (s\<lparr>threads := th\<rparr>) = view s"
    by (rule silent, simp add: the_world_def notified_def)+
qed (rule silent, simp)+

end

sublocale observer \<subseteq> world_frame hushed
proof unfold_locales
  show "devs.more t = devs.more s \<Longrightarrow> hushed s t" for s t
    unfolding hushed_def by (rule silent) (rule notified_devs)
  show "hushed s (s\<lparr>world := w\<rparr>)" for s w
    unfolding hushed_def by (rule silent) (simp add: notified_def)
qed (simp_all add: hushed_def)

subsection \<open>Reports\<close>

text \<open>How often the application was told that the backend is gone, with a note that the backend keeps.\<close>

definition noted :: "nat \<times> bool option \<Rightarrow> bool" where
  "noted h \<longleftrightarrow> fst h = (case snd h of None \<Rightarrow> 0 | Some b \<Rightarrow> of_bool b)"

definition heard_with :: "(SoundIoPrivate \<Rightarrow> bool) \<Rightarrow> 'z sio_scheme \<Rightarrow> nat \<Rightarrow> nat \<times> bool option" where
  "heard_with note s = (\<lambda>si. (losses si (trace s), map_option note (sios s si)))"

lemma heard_silent:
  assumes "notified t = notified s" and flag: "\<And>x. note (x\<lparr>safe_devices_info := None\<rparr>) = note x"
  shows "heard_with note t = heard_with note s"
proof
  fix si
  have eq: "map_option (\<lambda>x. x\<lparr>safe_devices_info := None\<rparr>) (sios t si) = map_option (\<lambda>x. x\<lparr>safe_devices_info := None\<rparr>) (sios s si)"
    and "trace t = trace s"
    using assms(1) by (auto simp: notified_def dest: fun_cong [of _ _ si])
  moreover have "map_option note (sios t si) = map_option note (sios s si)"
    using arg_cong [OF eq, of "map_option note"] by (simp add: option.map_comp comp_def flag)
  ultimately show "heard_with note t si = heard_with note s si" by (simp add: heard_with_def)
qed

end
