(* ===== verification/AlsaSilent.thy ===== *)
theory AlsaSilent
  imports Observer
begin

section \<open>The device thread of ALSA tells the application nothing\<close>

text \<open>
  The scan of the devices, and all else the device thread does, changes the heap, the devices and
  the lists that wait for the application. The calls of the application, and the note that the loss
  was reported, are left alone. What ALSA's observer sees is the number of reports with that note.
\<close>

subsection \<open>The scan is silent\<close>

text \<open>What the application heard of the loss of each backend, and whether the backend noted that.\<close>

definition alsa_heard :: "'z sio_scheme \<Rightarrow> nat \<Rightarrow> nat \<times> bool option" where
  "alsa_heard s = heard_with (\<lambda>x. alsa_emitted_shutdown_cb (alsa x)) s"

lemma heardI:
  assumes "notified t = notified s"
  shows "alsa_heard t = alsa_heard s"
  unfolding alsa_heard_def by (rule heard_silent [OF assms]) simp

interpretation alsa_view: observer alsa_heard
  by unfold_locales (rule heardI)

abbreviation hushed :: "('j, 'z) jsio_scheme \<Rightarrow> ('j, 'z) jsio_scheme \<Rightarrow> bool" where
  "hushed \<equiv> observer.hushed alsa_heard"

lemmas hushed_def = alsa_view.hushed_def
lemmas heard_simps [simp] = alsa_view.view_simps

lemma hushed_set_access: "obeys_pair hushed (set_access e handle)"
proof -
  have "alsa_heard (snd (try_access_types e handle as s)) = alsa_heard s" for as s
    by (induction as arbitrary: s) (auto simp: case_prod_unfold Let_def)
  then show ?thesis by (simp add: obeys_pair_def hushed_def set_access_def case_prod_unfold Let_def)
qed

lemmas hushed_walk = alsa_view.walk hushed_set_access [THEN alsa_view.pair]
lemmas hushed_run = alsa_view.run

lemma hushed_maps: "obeys_result hushed (handle_channel_maps e device maps)"
  unfolding handle_channel_maps_def Let_def
  by (intro hushed_walk; simp add: hushed_run)

lemma test_mask_silent: "test_fmt_mask p m f s = Some t \<Longrightarrow> notified t = notified s"
  by (cases "devices s p"; cases "formats (the (devices s p))")
    (auto simp: test_fmt_mask_def Option.bind_eq_Some_conv split: if_splits dest!: update_silent)

lemma hushed_test_mask: "obeys hushed (for_each (test_fmt_mask p m) fs)"
proof -
  have "hushed s t" if "for_each (test_fmt_mask p m) fs s = Some t" for s t :: "('j, 'z) jsio_scheme"
    using that by (rule for_each_inv [where I = "hushed s"]) (auto simp: hushed_def dest: test_mask_silent [THEN heardI])
  then show ?thesis by (auto simp: obeys_def leads_def)
qed

lemma hushed_formats: "obeys_result hushed (probe_formats e device handle)"
  unfolding probe_formats_def Let_def by (intro hushed_walk hushed_test_mask [THEN alsa_view.call]; simp add: hushed_run)


lemma hushed_limits: "obeys_triple hushed (probe_limits e device handle)"
  unfolding probe_limits_def Let_def by (intro hushed_walk; simp add: hushed_run)

lemma hushed_open: "obeys_triple hushed (probe_open_device e device handle resample)"
  unfolding probe_open_device_def Let_def
  by (intro hushed_walk hushed_limits [THEN alsa_view.triple] hushed_formats [THEN alsa_view.result]; simp add: hushed_run)

lemma hushed_guess: "obeys_result hushed (guess_layouts device channels)"
  unfolding guess_layouts_def Let_def by (intro hushed_walk; simp add: hushed_run)

lemma hushed_current: "obeys hushed (read_current_layout e device handle)"
  unfolding read_current_layout_def Let_def by (intro hushed_walk; simp add: hushed_run)

lemma hushed_resampled: "obeys_result hushed (probe_resampled e device handle)"
  unfolding probe_resampled_def Let_def by (intro hushed_walk hushed_open [THEN alsa_view.triple]; simp add: hushed_run)

lemma hushed_probe: "obeys_result hushed (probe_device (e :: ('j, 'z) alsa_env) device maps)"
proof (rule obeys_resultI)
  fix s :: "('j, 'z) jsio_scheme"
  note run = hushed_walk hushed_open [THEN alsa_view.triple] hushed_maps [THEN alsa_view.result] hushed_guess [THEN alsa_view.last_result]
    hushed_current [THEN alsa_view.call] hushed_resampled [THEN alsa_view.last_result] alsa_view.choice
  show "leads hushed s (probe_device e device maps s) snd"
  proof (cases "maps = None")
    case True
    show ?thesis
      unfolding probe_device_def Let_def True simp_thms if_True by (intro run; simp add: hushed_run hushed_def)
  next
    case False
    show ?thesis
      unfolding probe_device_def Let_def eq_False [THEN iffD2, OF False] if_False prod.case Option.bind.simps simp_thms
      by (intro run; simp add: hushed_run hushed_def)
  qed
qed

lemma hushed_drop: "obeys_triple hushed (drop_device p err h)"
  unfolding drop_device_def by (intro hushed_walk; simp add: hushed_run)

lemma hushed_names:
  "obeys_pair hushed (\<lambda>s. case descr of None \<Rightarrow> strdup name s
     | Some d \<Rightarrow> (case descr1 of None \<Rightarrow> strdup d s
         | Some d1 \<Rightarrow> let ((str, len), s) = soundio_alloc_sprintf (d @ '': '' @ d1) s in (str, s)))"
  using alsa_view.pairs(2,3) by (auto simp: obeys_pair_def case_prod_unfold Let_def split: option.split)

lemma hushed_hint_device: "obeys_triple hushed (hint_device e si q name descr descr1 stream h)"
  unfolding hint_device_def Let_def
  by (intro hushed_walk hushed_names [unfolded Let_def, THEN alsa_view.pair] hushed_probe [THEN alsa_view.result]
      hushed_drop [THEN alsa_view.last_triple]; simp add: hushed_run hushed_def)

lemma hushed_hint_streams: "obeys_triple hushed (hint_streams e si q name descr descr1 plays records streams h)"
proof (induction streams arbitrary: h)
  case (Cons stream streams)
  show ?case
    unfolding hint_streams.simps
    by (intro hushed_walk hushed_hint_device [THEN alsa_view.triple] Cons.IH [THEN alsa_view.last_triple]; simp add: hushed_run)
qed (simp add: obeys_triple_def leads_def alsa_view.refl)

lemma hushed_direction: "obeys_triple hushed (hint_direction descr descr1 io)"
proof -
  have silent: "hint_direction descr descr1 io s = Some (a, b, t) \<Longrightarrow> notified t = notified s"
    for a b and s t :: "('j, 'z) jsio_scheme"
    by (cases io) (auto simp: hint_direction_def Option.bind_eq_Some_conv dest!: heap_silent(2) split: if_splits)
  show ?thesis by (auto simp: obeys_triple_def leads_def hushed_def dest!: silent [THEN heardI])
qed

lemma hushed_take_hint: "obeys_triple hushed (take_hint e si q hint h)"
  unfolding take_hint_def Let_def
  by (intro hushed_walk hushed_direction [THEN alsa_view.triple] hushed_hint_streams [THEN alsa_view.triple] lead_read [where m = nm for nm :: cstring];
      simp add: hushed_run)

lemma hushed_hint_loop: "obeys_triple hushed (hint_loop e si q hints h)"
proof (induction hints arbitrary: h)
  case (Cons hint hints)
  show ?case
    unfolding hint_loop.simps
    by (intro hushed_walk hushed_take_hint [THEN alsa_view.triple] Cons.IH [THEN alsa_view.last_triple]; simp add: hushed_run)
qed (simp add: obeys_triple_def leads_def alsa_view.refl)

lemma hushed_close_maybe:
  "hushed s u \<Longrightarrow> hushed s (case ctl of None \<Rightarrow> u | Some c \<Rightarrow> the_world (f c) u)"
  by (simp add: alsa_view.run split: option.split)

lemma hushed_give_up: "obeys_result hushed (hw_give_up e device ctl q err)"
  unfolding hw_give_up_def Let_def by (intro hushed_walk; simp add: hushed_run hushed_close_maybe)

lemma hushed_hw_device:
  "obeys_result hushed (hw_device e si q ctl card_index device_index card_name device_name stream)"
  unfolding hw_device_def Let_def
  by (intro hushed_walk hushed_give_up [THEN alsa_view.last_result] hushed_probe [THEN alsa_view.result]; simp add: hushed_run)

lemma hushed_hw_streams: "obeys_result hushed (hw_streams e si q ctl card_index device_index card_name streams)"
proof (induction streams)
  case (Cons stream streams)
  show ?case
    unfolding hw_streams.simps Let_def
    by (intro hushed_walk hushed_give_up [THEN alsa_view.last_result] hushed_hw_device [THEN alsa_view.result]
        Cons.IH [THEN alsa_view.last_result]; simp add: hushed_run)
qed (simp add: obeys_result_def leads_def alsa_view.refl)

text \<open>A round of a loop that ends with the result of a run.\<close>

lemma lead_map_Inl: "leads R s m snd \<Longrightarrow> leads R s (map_option Inl m) (\<lambda>r. case r of Inl r \<Rightarrow> snd r | Inr r \<Rightarrow> snd r)"
  by (auto simp: leads_def)

lemma hushed_device_loop: "obeys_result hushed (\<lambda>s. repeat_until (hw_device_step e si q ctl card_index card_name) (i, s))"
proof (rule alsa_view.repeated)
  show "leads hushed s (hw_device_step e si q ctl card_index card_name (i, s))
      (\<lambda>r. case r of Inl r \<Rightarrow> snd r | Inr r \<Rightarrow> snd r)" for i s
    unfolding hw_device_step_def Let_def prod.case
    by (intro hushed_walk lead_map_Inl hushed_give_up [THEN alsa_view.last_result] hushed_hw_streams [THEN alsa_view.result];
        simp add: hushed_run)
qed

lemma hushed_card_loop: "obeys_result hushed (\<lambda>s. repeat_until (hw_card_step e si q) (i, s))"
proof (rule alsa_view.repeated)
  show "leads hushed s (hw_card_step e si q (i, s)) (\<lambda>r. case r of Inl r \<Rightarrow> snd r | Inr r \<Rightarrow> snd r)" for i s
    unfolding hw_card_step_def Let_def prod.case
    by (intro hushed_walk lead_map_Inl hushed_give_up [THEN alsa_view.last_result] hushed_device_loop [THEN alsa_view.result];
        simp add: hushed_run)
qed

lemma hushed_sia: "(\<And>a. alsa_emitted_shutdown_cb (f a) = alsa_emitted_shutdown_cb a) \<Longrightarrow> obeys hushed (upd_sia si f)"
  by (auto simp: obeys_def leads_def hushed_def alsa_heard_def heard_with_def upd_sio_def Option.bind_eq_Some_conv)

lemma hushed_emit: "\<forall>si err. ev \<noteq> BackendDisconnect si err \<Longrightarrow> hushed s u \<Longrightarrow> hushed s (emit ev u)"
  by (simp add: hushed_def fun_eq_iff alsa_heard_def heard_with_def emit_def)

lemma hushed_publish: "obeys hushed (publish_devices_alsa si q)"
  unfolding publish_devices_alsa_def Let_def
  by (intro hushed_walk alsa_view.sync [THEN alsa_view.call] alsa_view.sync [THEN alsa_view.last_call] hushed_sia [THEN alsa_view.call];
      simp add: hushed_run hushed_emit)

lemma hushed_refresh: "obeys_result hushed (refresh_devices_alsa e si)"
  unfolding refresh_devices_alsa_def Let_def
  by (intro hushed_walk hushed_hint_loop [THEN alsa_view.triple] hushed_card_loop [THEN alsa_view.result] hushed_publish [THEN alsa_view.call];
      simp add: hushed_run)

lemma hushed_shutdown: "obeys hushed (shutdown_backend si err)"
  unfolding shutdown_backend_def Let_def
  by (intro hushed_walk alsa_view.sync [THEN alsa_view.call] alsa_view.sync [THEN alsa_view.last_call] hushed_sia [THEN alsa_view.call];
      simp add: hushed_run hushed_emit)


subsection \<open>The device thread\<close>

lemma hushed_update: "obeys hushed (upd_out p g)" "obeys hushed (upd_in p h)"
  by (auto simp: obeys_def leads_def hushed_def alsa_heard_def heard_with_def fun_eq_iff upd_out_def upd_in_def Option.bind_eq_Some_conv)

lemma hushed_lists:
  "list_add_one l s = Some (err, l', t) \<Longrightarrow> hushed s t"
  by (auto simp: hushed_def dest: list_add_one_silent [THEN notified_mem, THEN heardI])

lemmas hushed_sia_call = hushed_sia [THEN alsa_view.call] hushed_sia [THEN alsa_view.last_call]

lemma hushed_add_pending: "obeys_result hushed (add_pending si name)"
proof (rule obeys_resultI)
  fix s :: "('j, 'z) jsio_scheme"
  have "obeys_triple hushed (\<lambda>s. case list_add_one l s of None \<Rightarrow> None | Some (err, l, s) \<Rightarrow> Some (err, l, s))" for l :: "string clist"
    by (auto simp: obeys_triple_def leads_def dest: hushed_lists split: option.splits)
  then have add: "obeys_triple hushed (list_add_one l :: ('j, 'z) jsio_scheme \<Rightarrow> _)" for l :: "string clist"
    by (auto simp: obeys_triple_def leads_def dest: hushed_lists)
  show "leads hushed s (add_pending si name s) snd"
    unfolding add_pending_def
    by (intro hushed_walk add [THEN alsa_view.triple] hushed_sia_call lead_read [where m = "list_last_ptr l" for l]
        lead_read [where m = "copy_str x n" for x n] lead_read [where m = "list_store l i x" for l i and x :: string]
        lead_read [where m = "if b then Some l else m" for b m and l :: "string clist"] lead_split; simp add: hushed_run)
qed

lemma hushed_close_pending: "obeys_result hushed (close_pending si name)"
  unfolding close_pending_def Let_def
  by (intro hushed_walk hushed_sia_call lead_read [where m = "find_r f xs" for f xs]
      lead_read [where m = "list_swap_remove l i" for i and l :: "string clist"] lead_split; simp add: hushed_run)

text \<open>The state after a part of the thread, whether the thread has returned in it or not.\<close>

definition part_state :: "'s + 'a \<times> 's \<Rightarrow> 's" where
  "part_state r = (case r of Inl t \<Rightarrow> t | Inr (got, t) \<Rightarrow> t)"

lemma part_state_simps [simp]: "part_state (Inl t) = t" "part_state (Inr (got, t)) = t"
  by (simp_all add: part_state_def)

lemma lead_returned: "leads R s m (\<lambda>t. t) \<Longrightarrow> leads R s (map_option Inl m) part_state"
  by (auto simp: leads_def)

lemma hushed_handle_event: "leads hushed s (handle_event si event got s) part_state"
  unfolding handle_event_def
  by (intro hushed_walk lead_returned hushed_shutdown [THEN alsa_view.last_call] hushed_add_pending [THEN alsa_view.result]
      hushed_close_pending [THEN alsa_view.result]; simp add: hushed_run)

lemma lead_part:
  "leads hushed s m part_state \<Longrightarrow> (\<And>t. leads hushed t (f t) st) \<Longrightarrow> (\<And>got t. leads hushed t (g (got, t)) st) \<Longrightarrow>
   leads hushed s (Option.bind m (\<lambda>r. case r of Inl t \<Rightarrow> f t | Inr gt \<Rightarrow> g gt)) st"
  by (cases m; cases "the m") (auto simp: leads_def hushed_def)

lemma hushed_handle_events: "leads hushed s (handle_events si events got s) part_state"
proof (induction events arbitrary: got s)
  case (Cons event events)
  show ?case unfolding handle_events.simps
    by (intro lead_part hushed_handle_event) (simp_all add: Cons.IH lead_done alsa_view.refl)
qed (simp add: leads_def alsa_view.refl)

lemma hushed_read_step:
  "leads hushed s (read_events_step e si fd (got, s)) (\<lambda>z. case z of Inl r \<Rightarrow> part_state r | Inr t \<Rightarrow> snd t)"
proof -
  have split: "Some (case r of Inl s \<Rightarrow> Inl (Inl s) | Inr state \<Rightarrow> Inr state) =
      (case r of Inl s \<Rightarrow> Some (Inl (Inl s)) | Inr state \<Rightarrow> Some (Inr state))" for r :: "'c + 'd"
    by (cases r) simp_all
  show ?thesis
    unfolding read_events_step_def Let_def prod.case split
    by (intro hushed_walk lead_split lead_read [where m = "read_checked n i" for n i] lead_part hushed_handle_events;
        simp add: hushed_run)
qed

lemma hushed_read_events: "leads hushed s (repeat_until (read_events_step e si fd) (got, s)) part_state"
proof -
  have "leads hushed (snd x) (read_events_step e si fd x) (\<lambda>z. case z of Inl r \<Rightarrow> part_state r | Inr t \<Rightarrow> snd t)" for x
    using hushed_read_step [of "snd x" e si fd "fst x"] by simp
  from alsa_view.loop [of snd, OF this, of "(got, s)"] show ?thesis by simp
qed

lemma hushed_drain: "obeys hushed (repeat_until (drain_pipe_step e fd))"
proof (intro obeysI alsa_view.loop [where st = "\<lambda>s. s"])
  show "leads hushed s (drain_pipe_step e fd s) (\<lambda>z. case z of Inl t \<Rightarrow> t | Inr t \<Rightarrow> t)" for s
    unfolding drain_pipe_step_def Let_def
    by (intro hushed_walk lead_split lead_read [where m = "read_checked n i" for n i]; simp add: hushed_run)
qed

lemma hushed_rescan: "obeys_result hushed (rescan e si got)"
  unfolding rescan_def
  by (intro hushed_walk hushed_refresh [THEN alsa_view.result] hushed_shutdown [THEN alsa_view.call]; simp add: hushed_run)

lemma lead_part_choice:
  assumes "hushed s u" and part: "\<And>v. leads hushed v (m v) part_state" and "\<And>t. leads hushed t (f t) st"
    and "\<And>got t. leads hushed t (g got t) st"
  shows "leads hushed s (Option.bind (if b then m u else Some (Inr (got, u)))
    (\<lambda>r. case r of Inl t \<Rightarrow> f t | Inr (got, t) \<Rightarrow> g got t)) st"
  using assms(1,3,4) part [of u] by (cases "m u"; cases "the (m u)") (auto simp: leads_def hushed_def split: if_splits)

lemma hushed_iteration: "obeys_result hushed (device_thread_iteration e si)"
  unfolding device_thread_iteration_def Let_def
  by (intro hushed_walk lead_split hushed_sia_call lead_part_choice hushed_read_events alsa_view.maybe hushed_drain
      hushed_shutdown [THEN alsa_view.call] hushed_rescan [THEN alsa_view.last_result]; simp add: hushed_run)

lemma hushed_thread_step: "obeys hushed (device_thread_step e si)"
  unfolding device_thread_step_def
  by (intro hushed_walk hushed_iteration [THEN alsa_view.result] lead_read [where m = "alsa_thread a" for a] lead_read [where m = "threads s t" for s t];
      simp add: hushed_def)

end
