(* ===== verification/AlsaEvents.thy ===== *)
theory AlsaEvents
  imports AlsaSilent AlsaQuiet
begin

section \<open>What the application hears from the ALSA backend\<close>

text \<open>
  The device thread and the calls of the application are a state machine. A failure of the thread
  ends it with a report, the next flush passes the report on, and that happens once.
\<close>

subsection \<open>The report\<close>

text \<open>What happens while the application waits, or between its calls: the device thread works, the threads of the streams
  transfer samples.\<close>

inductive alsa_background :: "('j, 'z) alsa_env \<Rightarrow> nat \<Rightarrow> ('j, 'z) jsio_scheme \<Rightarrow> ('j, 'z) jsio_scheme \<Rightarrow> bool"
  for e si where
  thread: "device_thread_step e si s = Some t \<Longrightarrow> alsa_background e si s t"
| transfer: "streams_only s t \<Longrightarrow> alsa_background e si s t"

inductive alsa_event :: "('j, 'z) alsa_env \<Rightarrow> nat \<Rightarrow> ('j, 'z) jsio_scheme \<Rightarrow> ('j, 'z) jsio_scheme \<Rightarrow> bool"
  for e si where
  background: "alsa_background e si s t \<Longrightarrow> alsa_event e si s t"
| flush: "my_flush_events_alsa others si wait s = Some t \<Longrightarrow> (\<And>u v. others u = Some v \<Longrightarrow> (alsa_background e si)\<^sup>*\<^sup>* u v) \<Longrightarrow>
    alsa_event e si s t"
| wakeup: "wakeup_alsa si s = Some t \<Longrightarrow> alsa_event e si s t"
| scan: "force_device_scan_alsa e si s = Some t \<Longrightarrow> alsa_event e si s t"

lemma background_hushed: "alsa_background e si s t \<Longrightarrow> hushed s t"
proof (induction rule: alsa_background.induct)
  case (transfer s t)
  then have "notified t = notified s" by (auto simp: streams_only_def notified_def)
  then show ?case unfolding hushed_def by (rule heardI)
qed (rule obeysD [OF hushed_thread_step])

lemma backgrounds_hushed: "(alsa_background e si)\<^sup>*\<^sup>* s t \<Longrightarrow> hushed s t"
  by (induction rule: rtranclp_induct) (auto simp: hushed_def dest: background_hushed)

text \<open>The part of a flush after the wait.\<close>

definition alsa_flush_rest :: "nat \<Rightarrow> ('j, 'z) jsio_scheme \<Rightarrow> ('j, 'z) jsio_scheme option" where
  "alsa_flush_rest si s = do {
     x \<leftarrow> sios s si;
     let sia = alsa x;
     let cb_shutdown = (shutdown_err sia \<noteq> SoundIoErrorNone \<and> \<not> alsa_emitted_shutdown_cb sia);
     let change = (\<not> cb_shutdown \<and> alsa_ready_devices_info sia \<noteq> None);
     let old_devices_info = (if change then safe_devices_info x else None);
     s \<leftarrow> (if cb_shutdown then upd_sia si (\<lambda>a. a\<lparr>alsa_emitted_shutdown_cb := True\<rparr>) s
       else if change then upd_sio si (\<lambda>x. x\<lparr>safe_devices_info := alsa_ready_devices_info sia,
         alsa := (alsa x)\<lparr>alsa_ready_devices_info := None\<rparr>\<rparr>) s
       else Some s);
     s \<leftarrow> soundio_os_mutex_unlock (alsa_mutex sia) s;
     s \<leftarrow> (if cb_shutdown then on_backend_disconnect si (shutdown_err sia) s
       else if change then Some (emit (DevicesChange si) s)
       else Some s);
     soundio_destroy_devices_info old_devices_info s
   }"

lemma my_flush_alsa_rest:
  "my_flush_events_alsa others si wait s = do {
     x \<leftarrow> sios s si;
     s \<leftarrow> soundio_os_mutex_lock (alsa_mutex (alsa x)) s;
     s \<leftarrow> repeat_until (alsa_wait_step others si) (wait, s);
     alsa_flush_rest si s
   }"
  by (simp only: my_flush_events_alsa_def alsa_flush_rest_def)

lemma hushed_waiting:
  assumes others: "\<And>u v. others u = Some v \<Longrightarrow> hushed u v"
  shows "leads hushed s (repeat_until (alsa_wait_step others si) (wait, s)) (\<lambda>t. t)"
proof -
  have ob: "obeys hushed others" using others by (simp add: obeys_def leads_def)
  have wait: "obeys hushed (released_wait others c m)" for c m
    unfolding released_wait_def
    by (intro hushed_walk alsa_view.sync [THEN alsa_view.call] alsa_view.sync [THEN alsa_view.last_call] ob [THEN alsa_view.call]; simp add: hushed_run)
  have "leads hushed s (alsa_wait_step others si (b, s)) (\<lambda>z. case z of Inl t \<Rightarrow> t | Inr y \<Rightarrow> snd y)" for b s
    unfolding alsa_wait_step_def Let_def prod.case by (intro hushed_walk wait [THEN alsa_view.call]; simp add: hushed_run)
  then have "leads hushed (snd x) (alsa_wait_step others si x) (\<lambda>z. case z of Inl t \<Rightarrow> t | Inr y \<Rightarrow> snd y)" for x
    by (cases x) simp
  from alsa_view.loop [of snd, OF this, of "(wait, s)"] show ?thesis by simp
qed

lemma alsa_flush_rest_report:
  assumes "sios s si = Some x" and "shutdown_err (alsa x) \<noteq> SoundIoErrorNone" "\<not> alsa_emitted_shutdown_cb (alsa x)"
  shows "alsa_flush_rest si s = do {
      s \<leftarrow> soundio_os_mutex_unlock (alsa_mutex (alsa x))
        (s\<lparr>sios := (sios s)(si \<mapsto> x\<lparr>alsa := (alsa x)\<lparr>alsa_emitted_shutdown_cb := True\<rparr>\<rparr>)\<rparr>);
      on_backend_disconnect si (shutdown_err (alsa x)) s
    }"
  using assms by (simp add: alsa_flush_rest_def upd_sio_def soundio_destroy_devices_info_def Let_def)

lemma alsa_flush_rest_quiet:
  assumes x: "sios s si = Some x" and no: "\<not> (shutdown_err (alsa x) \<noteq> SoundIoErrorNone \<and> \<not> alsa_emitted_shutdown_cb (alsa x))"
    and flush: "alsa_flush_rest si s = Some t"
  shows "hushed s t"
proof -
  have eq: "alsa_flush_rest si s = do {
      s \<leftarrow> (if alsa_ready_devices_info (alsa x) \<noteq> None then upd_sio si (\<lambda>y. y\<lparr>safe_devices_info := alsa_ready_devices_info (alsa x),
         alsa := (alsa y)\<lparr>alsa_ready_devices_info := None\<rparr>\<rparr>) s else Some s);
      s \<leftarrow> soundio_os_mutex_unlock (alsa_mutex (alsa x)) s;
      soundio_destroy_devices_info (if alsa_ready_devices_info (alsa x) \<noteq> None then safe_devices_info x else None)
        (if alsa_ready_devices_info (alsa x) \<noteq> None then emit (DevicesChange si) s else s)
    }"
    unfolding alsa_flush_rest_def x Let_def Option.bind.simps eq_False [THEN iffD2, OF no] if_False not_False_eq_True simp_thms
    by (simp del: not_None_eq)
  have swap: "obeys hushed (upd_sio si (\<lambda>y. y\<lparr>safe_devices_info := q, alsa := (alsa y)\<lparr>alsa_ready_devices_info := None\<rparr>\<rparr>))" for q
    by (auto simp: obeys_def leads_def hushed_def alsa_heard_def heard_with_def fun_eq_iff upd_sio_def Option.bind_eq_Some_conv)
  have "leads hushed s (alsa_flush_rest si s) (\<lambda>v. v)"
    unfolding eq by (intro alsa_view.maybe swap hushed_walk alsa_view.sync [THEN alsa_view.call]; simp add: hushed_run hushed_emit)
  with flush show ?thesis by (simp add: leads_def)
qed

lemma alsa_flush_rest_noted:
  assumes run: "alsa_flush_rest si s = Some t" and ok: "noted (alsa_heard s si)"
  shows "noted (alsa_heard t si)"
proof -
  obtain x where x: "sios s si = Some x" using run by (auto simp: alsa_flush_rest_def Option.bind_eq_Some_conv)
  show ?thesis
  proof (cases "shutdown_err (alsa x) \<noteq> SoundIoErrorNone \<and> \<not> alsa_emitted_shutdown_cb (alsa x)")
    case True
    let ?s = "s\<lparr>sios := (sios s)(si \<mapsto> x\<lparr>alsa := (alsa x)\<lparr>alsa_emitted_shutdown_cb := True\<rparr>\<rparr>)\<rparr>"
    obtain u where u: "soundio_os_mutex_unlock (alsa_mutex (alsa x)) ?s = Some u" "on_backend_disconnect si (shutdown_err (alsa x)) u = Some t"
      using run True by (auto simp: alsa_flush_rest_report [OF x] Option.bind_eq_Some_conv)
    have "hushed ?s u" by (rule obeysD [OF alsa_view.sync(2) u(1)])
    with ok x True u(2) show ?thesis
      by (auto simp: hushed_def alsa_heard_def heard_with_def noted_def fun_eq_iff on_backend_disconnect_def Option.bind_eq_Some_conv emit_def
          dest!: spec [of _ si])
  next
    case False
    from alsa_flush_rest_quiet [OF x this run] ok show ?thesis by (simp add: hushed_def)
  qed
qed

lemma alsa_flush_noted:
  assumes run: "my_flush_events_alsa others si wait s = Some t" and others: "\<And>u v. others u = Some v \<Longrightarrow> hushed u v"
    and ok: "noted (alsa_heard s si)"
  shows "noted (alsa_heard t si)"
proof -
  obtain m s1 s2 where start: "soundio_os_mutex_lock m s = Some s1" "repeat_until (alsa_wait_step others si) (wait, s1) = Some s2"
      "alsa_flush_rest si s2 = Some t"
    using run by (auto simp: my_flush_alsa_rest Option.bind_eq_Some_conv)
  have "hushed s s1" by (rule obeysD [OF alsa_view.sync(1) start(1)])
  moreover have "hushed s1 s2" using hushed_waiting [of others s1 si wait] others start(2) by (simp add: leads_def)
  ultimately have "noted (alsa_heard s2 si)" using ok by (simp add: hushed_def)
  with start(3) show ?thesis by (rule alsa_flush_rest_noted)
qed

lemma hushed_wakeup: "obeys hushed (wakeup_alsa si)"
  unfolding wakeup_alsa_def
  by (intro hushed_walk alsa_view.sync [THEN alsa_view.call] alsa_view.sync [THEN alsa_view.last_call]; simp add: hushed_run)

lemma hushed_force_scan: "obeys hushed (force_device_scan_alsa e si)"
  unfolding force_device_scan_alsa_def wakeup_device_poll_def wakeup_fd_def Let_def
  by (intro hushed_walk lead_split; simp add: hushed_run)

lemma alsa_event_noted: "alsa_event e si s t \<Longrightarrow> noted (alsa_heard s si) \<Longrightarrow> noted (alsa_heard t si)"
proof (induction rule: alsa_event.induct)
  case (flush others wait s t)
  then show ?case by (auto intro: alsa_flush_noted dest: backgrounds_hushed)
qed (auto simp: hushed_def dest: background_hushed obeysD [OF hushed_wakeup] obeysD [OF hushed_force_scan])

lemma alsa_events_noted: "(alsa_event e si)\<^sup>*\<^sup>* s t \<Longrightarrow> noted (alsa_heard s si) \<Longrightarrow> noted (alsa_heard t si)"
  by (induction rule: rtranclp_induct) (auto dest: alsa_event_noted)

subsection \<open>The end of the device thread\<close>

lemma shutdown_backend_run:
  assumes "shutdown_backend si err s = Some t"
  shows "\<exists>x m mt c cd. sios t si = Some x \<and> shutdown_err (alsa x) = err \<and> alsa_mutex (alsa x) = Some m \<and>
    mutexes t m = Some mt \<and> \<not> mutex_locked mt"
  using assms
  by (auto simp: shutdown_backend_def upd_sio_def soundio_os_mutex_lock_def soundio_os_mutex_unlock_def soundio_os_cond_signal_def
      emit_def Let_def Option.bind_eq_Some_conv)

lemma handle_event_stops:
  "handle_event si event got s = Some (Inl t) \<Longrightarrow> \<exists>u. shutdown_backend si SoundIoErrorNoMem u = Some t"
  by (auto simp: handle_event_def Option.bind_eq_Some_conv split: if_splits)

lemma handle_events_stop:
  "handle_events si events got s = Some (Inl t) \<Longrightarrow> \<exists>u. shutdown_backend si SoundIoErrorNoMem u = Some t"
  by (induction events arbitrary: got s) (auto simp: bind_sums dest: handle_event_stops)

lemma read_events_stop:
  assumes "repeat_until (read_events_step e si fd) (got, s) = Some (Inl t)"
  shows "\<exists>u. shutdown_backend si SoundIoErrorNoMem u = Some t"
proof -
  have step: "\<exists>u. shutdown_backend si SoundIoErrorNoMem u = Some t" if "read_events_step e si fd x = Some (Inl (Inl t))" for x t
    using that by (auto simp: read_events_step_def Let_def case_prod_unfold Option.bind_eq_Some_conv [of "read_checked _ _"] bind_sums
        split: if_splits dest: handle_events_stop)
  have "r = Inl t \<longrightarrow> (\<exists>u. shutdown_backend si SoundIoErrorNoMem u = Some t)"
    if "repeat_until (read_events_step e si fd) (got, s) = Some r" for r
    using that by (rule repeat_until_inv [where P = "\<lambda>x. True"]) (auto dest: step)
  with assms show ?thesis by blast
qed

lemma rescan_stops:
  "rescan e si got s = Some (False, t) \<Longrightarrow> \<exists>err u. err \<noteq> SoundIoErrorNone \<and> shutdown_backend si err u = Some t"
  by (auto simp: rescan_def Option.bind_eq_Some_conv split: if_splits)

lemma iteration_stops:
  assumes run: "device_thread_iteration e si s = Some (False, t)" and x: "sios s si = Some x" "alsa_abort_flag (alsa x)"
  shows "\<exists>err u. err \<noteq> SoundIoErrorNone \<and> shutdown_backend si err u = Some t"
  using run x
  by (auto simp: device_thread_iteration_def Let_def Option.bind_eq_Some_conv [of "upd_sio _ _ _"] Option.bind_eq_Some_conv [of "c_assert _"] 
      Option.bind_eq_Some_conv [of "shutdown_backend _ _ _"] Option.bind_eq_Some_conv [of "repeat_until (drain_pipe_step _ _) _"]
      bind_sums split: prod.split_asm if_splits dest!: read_events_stop rescan_stops)

subsection \<open>Properties\<close>

text \<open>C11. The application is told at most once that the ALSA backend is gone: in every sequence of rounds of the device
  thread, transfers of the streams, and flushes (during which the others go on), wake-ups and scans by the
  application there is at most one \<open>on_backend_disconnect\<close>, and one exactly when the backend has noted that.\<close>

theorem alsa_loss_reported_at_most_once:
  assumes "sios s si = Some x" and "\<not> alsa_emitted_shutdown_cb (alsa x)" and "losses si (trace s) = 0"
    and "(alsa_event e si)\<^sup>*\<^sup>* s t" and "sios t si = Some y"
  shows "losses si (trace t) = of_bool (alsa_emitted_shutdown_cb (alsa y))"
  using alsa_events_noted [OF assms(4)] assms by (simp add: noted_def alsa_heard_def heard_with_def)

text \<open>C12. The device thread does not end in silence: whatever makes it leave its loop (no memory to poll or for a pending
  file, a failed scan), except the end of the backend itself, the next flush returns at once and tells the
  application the error, even if there never were any devices.\<close>

theorem alsa_failure_reaches_application:
  assumes run: "device_thread_iteration e si s = Some (False, t)" and x: "sios s si = Some x" "alsa_abort_flag (alsa x)"
    and y: "sios t si = Some y" "\<not> alsa_emitted_shutdown_cb (alsa y)" "\<not> on_backend_disconnect_default y"
  shows "\<exists>u. flush_events_alsa others si t = Some u \<and> shutdown_err (alsa y) \<noteq> SoundIoErrorNone \<and>
    trace u = trace t @ [BackendDisconnect si (shutdown_err (alsa y))]"
proof -
  obtain err u where err: "err \<noteq> SoundIoErrorNone" "shutdown_backend si err u = Some t" using iteration_stops [OF run x] by blast
  from shutdown_backend_run [OF err(2)] y(1) obtain m mt where m: "shutdown_err (alsa y) = err" "alsa_mutex (alsa y) = Some m"
      "mutexes t m = Some mt" "\<not> mutex_locked mt" by auto
  let ?s = "t\<lparr>mutexes := (mutexes t)(m \<mapsto> mt\<lparr>mutex_locked := True\<rparr>)\<rparr>"
  have "repeat_until (alsa_wait_step others si) (False, ?s) = Some ?s"
    by (subst repeat_until.simps) (simp add: alsa_wait_step_def y(1) m(1) err(1))
  then have "flush_events_alsa others si t = alsa_flush_rest si ?s"
    by (simp add: flush_events_alsa_def my_flush_alsa_rest y(1) m soundio_os_mutex_lock_def)
  also have "\<dots> = Option.bind (soundio_os_mutex_unlock (alsa_mutex (alsa y))
      (?s\<lparr>sios := (sios ?s)(si \<mapsto> y\<lparr>alsa := (alsa y)\<lparr>alsa_emitted_shutdown_cb := True\<rparr>\<rparr>)\<rparr>)) (on_backend_disconnect si err)"
    using y m(1) err(1) by (subst alsa_flush_rest_report [of _ _ y]) simp_all
  finally show ?thesis
    using y(3) m err(1) by (simp add: soundio_os_mutex_unlock_def on_backend_disconnect_def emit_def)
qed

text \<open>A library object that is connected, and a kernel without memory to poll.\<close>

definition alsa_running :: "int list jsio" where
  "alsa_running = (alsa_lib [])\<lparr>mutexes := [1 \<mapsto> \<lparr>mutex_id_init = True, mutex_locked = False\<rparr>], conds := [2 \<mapsto> cond_made],
     threads := [3 \<mapsto> \<lparr>thread_attr_init = True, thread_running = True, thread_run = device_thread_run\<rparr>],
     sios := [0 \<mapsto> sio_create\<lparr>on_backend_disconnect_default := False,
       alsa := alsa_zero\<lparr>alsa_mutex := Some 1, alsa_cond := Some 2, alsa_thread := Some 3, alsa_abort_flag := True\<rparr>\<rparr>]\<rparr>"

definition poor_alsa :: "(int list, unit) alsa_env" where
  "poor_alsa = quiet_alsa\<lparr>asys := quiet_sys\<lparr>sys_poll_devices := (\<lambda>a b w. ((- 1, ENOMEM, False, False), w))\<rparr>\<rparr>"

lemmas poor_run = device_thread_iteration_def shutdown_backend_def in_world_def upd_sio_def soundio_os_mutex_lock_def
  soundio_os_mutex_unlock_def soundio_os_cond_signal_def emit_def poor_alsa_def quiet_defs alsa_running_def ENOMEM_def EINTR_def
  alsa_zero_def sio_create_def cond_made_def

lemma poor_iteration:
  "\<exists>t y. device_thread_iteration poor_alsa 0 alsa_running = Some (False, t) \<and> sios t 0 = Some y \<and>
     \<not> alsa_emitted_shutdown_cb (alsa y) \<and> \<not> on_backend_disconnect_default y \<and> trace t = [EventsSignal 0] \<and>
     threads t 3 = Some \<lparr>thread_attr_init = True, thread_running = True, thread_run = device_thread_run\<rparr>"
  by (simp add: poor_run Let_def)

theorem alsa_failure_reaches_application_witness:
  "\<exists>t u err. device_thread_iteration poor_alsa 0 alsa_running = Some (False, t) \<and> flush_events_alsa Some 0 t = Some u \<and>
     trace u = [EventsSignal 0, BackendDisconnect 0 err] \<and> err \<noteq> SoundIoErrorNone"
proof -
  obtain t y where t: "device_thread_iteration poor_alsa 0 alsa_running = Some (False, t)" "sios t 0 = Some y"
     "\<not> alsa_emitted_shutdown_cb (alsa y)" "\<not> on_backend_disconnect_default y" "trace t = [EventsSignal 0]"
    using poor_iteration by blast
  have "\<exists>x. sios alsa_running 0 = Some x \<and> alsa_abort_flag (alsa x)" by (simp add: alsa_running_def)
  then obtain x where x: "sios alsa_running 0 = Some x" "alsa_abort_flag (alsa x)" by blast
  from alsa_failure_reaches_application [OF t(1) x t(2-4), of Some] t show ?thesis by auto
qed

theorem alsa_loss_reported_at_most_once_witness:
  "\<exists>t u. device_thread_step poor_alsa 0 alsa_running = Some t \<and> flush_events_alsa Some 0 t = Some u \<and> losses 0 (trace u) = 1"
proof -
  have "\<exists>t l u z y. device_thread_step poor_alsa 0 alsa_running = Some t \<and> sios t 0 = Some z \<and>
      soundio_os_mutex_lock (alsa_mutex (alsa z)) t = Some l \<and> sios l 0 = Some z \<and> shutdown_err (alsa z) \<noteq> SoundIoErrorNone \<and>
      alsa_flush_rest 0 l = Some u \<and> sios u 0 = Some y \<and> alsa_emitted_shutdown_cb (alsa y)"
    by (simp add: device_thread_step_def poor_run Let_def alsa_flush_rest_def on_backend_disconnect_def soundio_destroy_devices_info_def)
  then obtain t l u z y where t: "device_thread_step poor_alsa 0 alsa_running = Some t" "sios t 0 = Some z"
      "soundio_os_mutex_lock (alsa_mutex (alsa z)) t = Some l" "sios l 0 = Some z" "shutdown_err (alsa z) \<noteq> SoundIoErrorNone"
      "alsa_flush_rest 0 l = Some u" "sios u 0 = Some y" "alsa_emitted_shutdown_cb (alsa y)" by blast
  have "repeat_until (alsa_wait_step Some 0) (False, l) = Some l"
    by (subst repeat_until.simps) (simp add: alsa_wait_step_def t(4,5))
  then have flush: "flush_events_alsa Some 0 t = Some u"
    by (simp add: flush_events_alsa_def my_flush_alsa_rest t)
  have "(alsa_event poor_alsa 0)\<^sup>*\<^sup>* alsa_running t"
    using t(1) by (intro r_into_rtranclp alsa_event.background alsa_background.thread)
  moreover have "alsa_event poor_alsa 0 t u" using flush unfolding flush_events_alsa_def by (rule alsa_event.flush) simp
  ultimately have events: "(alsa_event poor_alsa 0)\<^sup>*\<^sup>* alsa_running u" by simp
  have start: "\<exists>x. sios alsa_running 0 = Some x \<and> \<not> alsa_emitted_shutdown_cb (alsa x)" "losses 0 (trace alsa_running) = 0"
    by (simp_all add: alsa_running_def alsa_zero_def)
  from start(1) obtain x where "sios alsa_running 0 = Some x" "\<not> alsa_emitted_shutdown_cb (alsa x)" by blast
  from alsa_loss_reported_at_most_once [OF this start(2) events t(7)] t(1,8) flush show ?thesis by auto
qed

end
