(* ===== verification/CoreAudioQuiet.thy ===== *)
theory CoreAudioQuiet
  imports CoreAudioStreams SoundIo
begin

section \<open>A CoreAudio library for the examples\<close>

text \<open>
  A concrete library whose state is the list of the listeners that are registered. Every call of the
  hardware succeeds, but there is no device. Audio units do whatever is asked for.
\<close>

type_synonym listener = "AudioObjectID \<times> AudioObjectPropertyAddress \<times> ca_listener \<times> nat"

definition quiet_hal :: "listener list ca_hal" where
  "quiet_hal = \<lparr>AudioObjectAddPropertyListener = (\<lambda>d a f c w. (0, (d, a, f, c) # w)),
     AudioObjectRemovePropertyListener = (\<lambda>d a f c w. removeAll (d, a, f, c) w),
     AudioObjectGetPropertyDataSize = (\<lambda>d a w. ((0, 0), w)), get_property_ids = (\<lambda>d a w. ((0, []), w)),
     get_property_id = (\<lambda>d a w. ((0, 7), w)), get_property_string = (\<lambda>d a w. ((1, None), w)),
     get_property_buffers = (\<lambda>d a w. ((0, []), w)),
     get_property_layout = (\<lambda>d a w. ((1, \<lparr>mChannelLayoutTag = kAudioChannelLayoutTag_Stereo, mNumberChannelDescriptions = 0,
       mChannelDescriptions = []\<rparr>), w)),
     get_property_double = (\<lambda>d a w. ((0, 48000), w)), get_property_ranges = (\<lambda>d a w. ((0, []), w)),
     get_property_range = (\<lambda>d a w. ((0, value_range_zero), w)), get_property_uint32 = (\<lambda>d a w. ((0, 512), w)),
     set_property_uint32 = (\<lambda>d a v w. (0, w)), CFStringGetLength = (\<lambda>ref w. 0), CFStringGetMaximumSizeForEncoding = (\<lambda>n. n),
     CFStringGetCString = (\<lambda>ref n w. None), CFRelease = (\<lambda>ref w. w)\<rparr>"

definition quiet_unit :: "listener list ca_unit" where
  "quiet_unit = \<lparr>AudioComponentFindNext = (\<lambda>w. (Some 1, w)), AudioComponentInstanceNew = (\<lambda>c w. ((0, Some 2), w)),
     AudioComponentInstanceDispose = (\<lambda>i w. w), AudioUnitInitialize = (\<lambda>i w. (0, w)),
     AudioUnitSetProperty = (\<lambda>i p sc el w. (0, w)), AudioUnitGetParameter = (\<lambda>i w. ((0, 1), w)),
     AudioUnitSetParameter = (\<lambda>i v w. (0, w)), AudioOutputUnitStart = (\<lambda>i w. (0, w)), AudioOutputUnitStop = (\<lambda>i w. (0, w)),
     AudioUnitRender = (\<lambda>i n bufs w. ((0, bufs), w))\<rparr>"

definition quiet_ca :: "(listener list, unit) ca_env" where
  "quiet_ca = \<lparr>chal = quiet_hal, cunit = quiet_unit, ca_write_callback = (\<lambda>p lo hi s. Some s), ca_read_callback = (\<lambda>p lo hi s. Some s)\<rparr>"

lemmas quiet_ca_defs = quiet_ca_def quiet_hal_def quiet_unit_def

text \<open>A library object that is not connected, and one whose backend runs and learns that the service was restarted.\<close>

definition ca_lib :: "listener list jsio" where
  "ca_lib = (lib_start [] [])\<lparr>next_id := 10, blocks := {0}, sios := [0 \<mapsto> sio_create]\<rparr>"

lemma ca_lib_simps [simp]:
  "answers ca_lib = []" "next_id ca_lib = 10" "blocks ca_lib = {0}" "sios ca_lib = [0 \<mapsto> sio_create]" "world ca_lib = []"
  "devices ca_lib = (\<lambda>_. None)" "infos ca_lib = (\<lambda>_. None)" "mutexes ca_lib = (\<lambda>_. None)" "conds ca_lib = (\<lambda>_. None)"
  "threads ca_lib = (\<lambda>_. None)" "trace ca_lib = []" "outstreams ca_lib = (\<lambda>_. None)" "instreams ca_lib = (\<lambda>_. None)"
  by (simp_all add: ca_lib_def lib_start_def os_start_def os.extend_def)

definition ca_restarted :: "listener list jsio" where
  "ca_restarted = ca_lib\<lparr>mutexes := [1 \<mapsto> \<lparr>mutex_id_init = True, mutex_locked = False\<rparr>],
     conds := [2 \<mapsto> cond_made, 3 \<mapsto> cond_made, 4 \<mapsto> cond_made],
     threads := [5 \<mapsto> \<lparr>thread_attr_init = True, thread_running = True, thread_run = device_thread_run_ca\<rparr>],
     sios := [0 \<mapsto> sio_create\<lparr>on_backend_disconnect_default := False,
       coreaudio := ca_zero\<lparr>ca_mutex := Some 1, ca_cond := Some 2, have_devices_cond := Some 3, scan_devices_cond := Some 4,
         ca_thread := Some 5, ca_abort_flag := True, service_restarted := True\<rparr>\<rparr>]\<rparr>"

lemmas ca_run = device_thread_iteration_ca_def shutdown_backend_ca_def in_world_def upd_sio_def soundio_os_mutex_lock_def
  soundio_os_mutex_unlock_def soundio_os_cond_signal_def emit_def ca_restarted_def ca_zero_def sio_create_def cond_made_def

lemma restarted_iteration:
  "\<exists>t y. device_thread_iteration_ca e 0 ca_restarted = Some (False, t) \<and> sios t 0 = Some y \<and>
     \<not> ca_emitted_shutdown_cb (coreaudio y) \<and> \<not> on_backend_disconnect_default y \<and> trace t = [EventsSignal 0]"
  by (simp add: ca_run Let_def)

end
