(* ===== verification/CoreAudioAreas.thy ===== *)
theory CoreAudioAreas
  imports AlsaAreas CoreAudioQuiet
begin

section \<open>Writing to the buffers of CoreAudio\<close>

text \<open>
  The library calls the backend with buffers to fill. A begin_write for all the frames that are left
  hands out the next buffer, an end_write goes on to the one after it.
\<close>

text \<open>A stream in the middle of a call of the library, before its buffer \<open>i\<close> of \<open>frames\<close> frames.\<close>

definition at_buffer :: "SoundIoOutStream \<Rightarrow> nat \<Rightarrow> nat \<Rightarrow> AudioBuffer \<Rightarrow> nat \<Rightarrow> bool" where
  "at_buffer os channels bps buffer frames \<longleftrightarrow>
     (\<exists>io_data i. osca_io_data (osca os) = Some io_data \<and> osca_buffer_index (osca os) = int i \<and> i < length io_data \<and>
        buffer = io_data ! i \<and> int i < int_max) \<and>
     cl_channel_count (os_layout os) = int channels \<and> 0 < channels \<and> channels \<le> SOUNDIO_MAX_CHANNELS \<and>
     os_bytes_per_sample os = int bps \<and> 0 < bps \<and> os_bytes_per_frame os = int (channels * bps) \<and>
     length (osca_areas (osca os)) = SOUNDIO_MAX_CHANNELS \<and> mNumberChannels buffer = of_nat channels \<and>
     mDataByteSize buffer = of_nat (channels * frames * bps) \<and> channels * frames * bps \<le> nat int_max \<and> channels * bps \<le> nat int_max \<and>
     int frames \<le> osca_frames_left (osca os) \<and> osca_frames_left (osca os) \<le> int_max"

lemma small_word:
  assumes "n \<le> nat int_max"
  shows "unat (of_nat n :: 32 word) = n" and "sint (of_nat n :: 32 word) = int n"
proof -
  have n: "n < 2 ^ 31" using assms by (simp add: int_max_def)
  then show u: "unat (of_nat n :: 32 word) = n" by (simp add: unat_of_nat take_bit_nat_eq_self)
  have "to_int32 (int n) = int n" using n by (intro to_int32_in_range) (simp_all add: c_defs)
  then show "sint (of_nat n :: 32 word) = int n" by (simp add: to_int32_def)
qed

lemma buffer_frames:
  assumes "at_buffer os channels bps buffer frames"
  shows "(word_of_int (os_bytes_per_frame os) :: 32 word) \<noteq> 0"
    and "sint (mDataByteSize buffer div word_of_int (os_bytes_per_frame os)) = int frames"
    and "mDataByteSize buffer mod word_of_int (os_bytes_per_frame os) = 0"
    and "uint (mDataByteSize buffer) = int (channels * frames * bps)"
proof -
  let ?bpf = "channels * bps"
  have small: "channels * frames * bps \<le> nat int_max" "?bpf \<le> nat int_max" and pos: "0 < ?bpf"
    and size: "mDataByteSize buffer = of_nat (channels * frames * bps)" and bpf: "os_bytes_per_frame os = int ?bpf"
    using assms by (auto simp: at_buffer_def)
  have word: "(word_of_int (os_bytes_per_frame os) :: 32 word) = of_nat ?bpf" by (simp add: bpf)
  note u = small_word(1) [OF small(1)] small_word(1) [OF small(2)]
  have prod: "channels * frames * bps = frames * ?bpf" by simp
  have frames: "frames * ?bpf div ?bpf = frames" "frames * ?bpf mod ?bpf = 0" using pos by simp_all
  show "(word_of_int (os_bytes_per_frame os) :: 32 word) \<noteq> 0" unfolding word unat_eq_0 [symmetric] u(2) using pos by simp
  have "unat (mDataByteSize buffer div word_of_int (os_bytes_per_frame os)) = frames"
    unfolding word size unat_div u unfolding prod by (rule frames)
  then have div: "mDataByteSize buffer div word_of_int (os_bytes_per_frame os) = of_nat frames" by (metis of_nat_unat ucast_id)
  have "frames * 1 \<le> frames * ?bpf" using pos by (intro mult_le_mono2) simp
  then have "frames * 1 \<le> nat int_max" using small(1) unfolding prod by (rule le_trans)
  then have "frames \<le> nat int_max" unfolding mult_1_right .
  then show "sint (mDataByteSize buffer div word_of_int (os_bytes_per_frame os)) = int frames" unfolding div by (rule small_word(2))
  have "unat (mDataByteSize buffer mod word_of_int (os_bytes_per_frame os)) = 0"
    unfolding word size unat_mod u unfolding prod by (rule frames)
  then show "mDataByteSize buffer mod word_of_int (os_bytes_per_frame os) = 0" by (simp add: unat_eq_0)
  show "uint (mDataByteSize buffer) = int (channels * frames * bps)" unfolding size uint_nat u ..
qed

text \<open>C16. Writing to the buffers of CoreAudio: in a call of the library, begin_write for all frames that are left hands out areas
  in which every sample of every frame of the current buffer lies inside that buffer and has bytes of its own, and
  end_write goes on to the next buffer with the remaining frames.\<close>

theorem coreaudio_write_stays_in_buffer:
  assumes os: "outstreams s p = Some os" and at: "at_buffer os channels bps buffer frames"
  shows "\<exists>areas t u. outstream_begin_write_ca p (osca_frames_left (osca os)) s = Some (SoundIoErrorNone, areas, int frames, t) \<and>
    areas_in_buffer areas channels bps (int frames) (int (mData buffer)) (uint (mDataByteSize buffer)) \<and>
    outstream_end_write_ca p t = Some (SoundIoErrorNone, u) \<and>
    (\<exists>os'. outstreams u p = Some os' \<and> osca_buffer_index (osca os') = osca_buffer_index (osca os) + 1 \<and>
      osca_frames_left (osca os') = osca_frames_left (osca os) - int frames)"
proof -
  obtain io_data i where i: "osca_io_data (osca os) = Some io_data" "osca_buffer_index (osca os) = int i" "i < length io_data"
      "buffer = io_data ! i" "int i < int_max" using at by (auto simp: at_buffer_def)
  note word = buffer_frames [OF at]
  have room: "0 + channels \<le> length (osca_areas (osca os))" and count: "[0..<nat (cl_channel_count (os_layout os))] = [0..<0 + channels]"
    and bytes: "os_bytes_per_sample os = int bps" "os_bytes_per_frame os = int (channels * bps)"
    and fields: "mNumberChannels buffer = word_of_int (cl_channel_count (os_layout os))"
    and left: "int frames \<le> osca_frames_left (osca os)" "osca_frames_left (osca os) \<le> int_max"
    using at by (auto simp: at_buffer_def)
  obtain areas where areas: "interleaved_areas (mData buffer) (os_bytes_per_sample os) (os_bytes_per_frame os)
        [0..<nat (cl_channel_count (os_layout os))] (osca_areas (osca os)) = Some areas"
    and cells: "\<forall>j < length (osca_areas (osca os)). areas ! j = (if 0 \<le> j \<and> j < 0 + channels
        then \<lparr>area_ptr = mData buffer + nat (int j * os_bytes_per_sample os), area_step = os_bytes_per_frame os\<rparr> else osca_areas (osca os) ! j)"
    unfolding count using interleaved_areas_run [OF room] by blast
  let ?t = "s\<lparr>outstreams := (outstreams s)(p \<mapsto> os\<lparr>osca := (osca os)\<lparr>osca_write_frame_count := int frames, osca_areas := areas\<rparr>\<rparr>)\<rparr>"
  have wrote: "outstream_begin_write_ca p (osca_frames_left (osca os)) s = Some (SoundIoErrorNone, areas, int frames, ?t)"
    using os i fields word areas
    by (simp add: outstream_begin_write_ca_def upd_out_def Let_def arr_at_def del: upt_Suc)
  have "sample_address areas ch k = int (mData buffer) + int (sample_index SND_PCM_ACCESS_RW_INTERLEAVED channels frames ch k * bps)"
    if "ch < channels" for ch k
    using cells that room bytes by (simp add: sample_address_def sample_index_def nat_mult_distrib algebra_simps)
  then have inside: "areas_in_buffer areas channels bps (int frames) (int (mData buffer)) (uint (mDataByteSize buffer))"
    by (intro areas_in_bufferI [where access = SND_PCM_ACCESS_RW_INTERLEAVED and period = frames]) (auto simp: word(4))
  have "\<exists>u os'. outstream_end_write_ca p ?t = Some (SoundIoErrorNone, u) \<and> outstreams u p = Some os' \<and>
      osca_buffer_index (osca os') = osca_buffer_index (osca os) + 1 \<and>
      osca_frames_left (osca os') = osca_frames_left (osca os) - int frames"
    using i(2,5) left by (simp add: outstream_end_write_ca_def upd_out_def c_int_def in_int_def c_defs)
  with wrote inside show ?thesis by blast
qed

definition ca_stereo :: SoundIoOutStream where
  "ca_stereo = outstream_zero\<lparr>os_device := Some 2, os_format := SoundIoFormatFloat32LE, os_sample_rate := 48000,
     os_layout := layout_zero\<lparr>cl_channel_count := 2\<rparr>, os_bytes_per_sample := 4, os_bytes_per_frame := 8,
     osca := osca_zero\<lparr>osca_io_data := Some [\<lparr>mNumberChannels = 2, mDataByteSize = 4096, mData = 5000\<rparr>], osca_frames_left := 512\<rparr>\<rparr>"

theorem coreaudio_write_stays_in_buffer_witness:
  "\<exists>areas t. outstream_begin_write_ca 1 512 (ca_lib\<lparr>outstreams := [1 \<mapsto> ca_stereo]\<rparr>) = Some (SoundIoErrorNone, areas, 512, t) \<and>
     areas_in_buffer areas 2 4 512 5000 4096"
proof -
  let ?b = "\<lparr>mNumberChannels = 2, mDataByteSize = 4096, mData = 5000\<rparr>"
  have "at_buffer ca_stereo 2 4 ?b 512"
    by (simp add: at_buffer_def ca_stereo_def outstream_zero_def osca_zero_def layout_zero_def SOUNDIO_MAX_CHANNELS_def int_max_def)
  from coreaudio_write_stays_in_buffer [OF _ this, of "ca_lib\<lparr>outstreams := [1 \<mapsto> ca_stereo]\<rparr>" 1]
  show ?thesis by (auto simp: ca_stereo_def osca_zero_def)
qed

end
