(* ===== verification/CoreAudioScan.thy ===== *)
theory CoreAudioScan
  imports Observer
begin

section \<open>The steps of the CoreAudio scan\<close>

text \<open>
  The scan, the device thread and the listeners are followed once, for every relation that the library's
  own calls respect. A relation that may look at the library's state has to allow for the calls that the
  scan makes: it reads properties, releases strings, and adds and removes listeners.
\<close>

text \<open>What the scan does when it fails, and the calls that only read.\<close>

locale ca_calls = frame R for R :: "('j, 'z) jsio_scheme \<Rightarrow> ('j, 'z) jsio_scheme \<Rightarrow> bool" +
  fixes e :: "('j, 'z) ca_env" and si :: nat
  assumes unsubscribe: "obeys R (unsubscribe_device_listeners e si)"
    and release: "R s (the_world (CFRelease (chal e) ref) s)"
    and sizes: "obeys_pair R (in_world (AudioObjectGetPropertyDataSize (chal e) d a))"
    and ids: "obeys_pair R (in_world (get_property_ids (chal e) d a))" "obeys_pair R (in_world (get_property_id (chal e) d a))"
    and strings: "obeys_pair R (in_world (get_property_string (chal e) d a))"
    and shapes: "obeys_pair R (in_world (get_property_buffers (chal e) d a))" "obeys_pair R (in_world (get_property_layout (chal e) d a))"
    and numbers: "obeys_pair R (in_world (get_property_double (chal e) d a))" "obeys_pair R (in_world (get_property_uint32 (chal e) d a))"
    and ranges: "obeys_pair R (in_world (get_property_ranges (chal e) d a))" "obeys_pair R (in_world (get_property_range (chal e) d a))"
    and cells: "(\<And>x. registered_listeners (f x) = registered_listeners x \<and> ca_emitted_shutdown_cb (f x) = ca_emitted_shutdown_cb x) \<Longrightarrow>
      obeys R (upd_sica si f)"
    and event: "\<forall>sj err. ev \<noteq> BackendDisconnect sj err \<Longrightarrow> R s (emit ev s)"
begin

lemma read:
  "obeys_pair R (in_world f) \<Longrightarrow> R s u \<Longrightarrow> (\<And>v. leads R v (fail v) st) \<Longrightarrow> (\<And>x v. leads R v (step x v) st) \<Longrightarrow>
   leads R s (hal_read f fail step u) st"
  by (fastforce simp: hal_read_def leads_def obeys_pair_def dest: trans split: prod.splits intro: trans)

lemmas reads = sizes [THEN read] ids [THEN read] strings [THEN pair] shapes [THEN read] numbers [THEN read] ranges [THEN read]

lemma ca_then:
  "leads R s m (\<lambda>r. snd (snd r)) \<Longrightarrow> (\<And>rd v. leads R v (k rd v) (\<lambda>r. snd (snd r))) \<Longrightarrow>
   leads R s (rd_then m k) (\<lambda>r. snd (snd r))"
  by (fastforce simp: rd_then_def leads_def Option.bind_eq_Some_conv split: if_splits intro: trans)

lemma emitted: "\<forall>sj err. ev \<noteq> BackendDisconnect sj err \<Longrightarrow> R s u \<Longrightarrow> R s (emit ev u)"
  by (blast intro: trans event)

lemmas cell_calls = cells [THEN call] cells [THEN last_call]
lemmas ca_walk = walk_frame reads ca_then
lemmas run = refl states

lemma ca_release: "R s u \<Longrightarrow> R s (release_string e rd u)"
  by (auto simp: release_string_def split: option.split intro: trans release)

lemma ca_deinit: "obeys R (deinit_refresh_devices e si rd)"
proof -
  note start = unsubscribe [THEN last_call]
  show ?thesis
    unfolding deinit_refresh_devices_def Let_def
    by (intro ca_walk start; simp add: run ca_release)
qed

lemma ca_failed: "obeys_triple R (refresh_failed e si rd err)"
  unfolding refresh_failed_def by (intro ca_walk ca_deinit [THEN call]; simp add: run)

lemmas ca_fails = ca_failed [THEN last_triple]

end

text \<open>With the step that adds the listeners of a device.\<close>

locale ca_scan = ca_calls R e si for R :: "('j, 'z) jsio_scheme \<Rightarrow> ('j, 'z) jsio_scheme \<Rightarrow> bool" and e si +
  assumes ca_subscribe: "obeys_triple R (subscribe_device_listeners e si d device_listen_props rd)"
begin

lemma ca_from_string: "obeys_triple R (from_cf_string e ref)"
  unfolding from_cf_string_def Let_def by (intro ca_walk; simp add: run)

lemma ca_fetch: "obeys_triple R (fetch_string e si d selector rd)"
  unfolding fetch_string_def Let_def by (intro ca_walk ca_fails; simp add: run ca_release)

lemmas ca_names = ca_fails ca_fetch [THEN last_triple] ca_from_string [THEN triple]
  lead_read [where m = "rd_string_ref rd" for rd] lead_read [where m = str for str :: cstring]

lemma ca_scan_name: "obeys_triple R (scan_name e si d rd)"
  unfolding scan_name_def Let_def by (intro ca_walk ca_names; simp add: run)

lemma ca_scan_uid: "obeys_triple R (scan_uid e si d rd)"
  unfolding scan_uid_def Let_def by (intro ca_walk ca_names; simp add: run)

lemma ca_new_device: "obeys_triple R (new_ca_device e si d a rd)"
  unfolding new_ca_device_def Let_def
  by (intro ca_walk ca_fails lead_read [where m = "rd_device_uid rd" for rd] lead_read [where m = "rd_device_name rd" for rd];
      simp add: run)

lemma ca_layout: "obeys_triple R (preferred_layout e si d a n p rd)"
  unfolding preferred_layout_def Let_def
  by (intro ca_walk ca_fails lead_read [where m = "from_coreaudio_layout x l" for x l]; simp add: run)

lemma ca_guess: "obeys R (guess_layout n p)"
  unfolding guess_layout_def
  by (intro ca_walk lead_read [where m = "all_channels_invalid l" for l]
      lead_read [where m = "if b then m else Some None" for b and m :: "SoundIoChannelLayout option option"]; simp add: run)

lemma ca_set_formats: "obeys_triple R (set_ca_formats p rd)"
  unfolding set_ca_formats_def Let_def by (intro ca_walk; simp add: run)

lemma ca_available: "obeys_triple R (available_rates e si d p rd)"
  unfolding available_rates_def Let_def
  by (intro ca_walk ca_fails lead_read [where m = "rate_range r" for r] lead_read [where m = "rate_ranges rs" for rs];
      simp add: run)

lemma ca_rates: "obeys_triple R (set_ca_rates e si d a p rd)"
  unfolding set_ca_rates_def Let_def
  by (intro ca_walk ca_fails ca_available [THEN last_triple] lead_read [where m = "dbl_to_int r" for r];
      simp add: run)

lemma ca_latency: "obeys_triple R (set_ca_latency e si d a p rd)"
  unfolding set_ca_latency_def Let_def by (intro ca_walk ca_fails; simp add: run)

lemma ca_list: "obeys_triple R (list_ca_device e si d a i p rd)"
  unfolding list_ca_device_def by (intro ca_walk ca_fails; simp add: run)

lemma ca_direction: "obeys_triple R (scan_direction e si defaults d a rd)"
  unfolding scan_direction_def Let_def
  by (intro ca_walk ca_fails ca_new_device [THEN last_triple] ca_layout [THEN last_triple]
      ca_guess [THEN call] ca_set_formats [THEN last_triple] ca_rates [THEN last_triple]
      ca_latency [THEN last_triple] ca_list [THEN last_triple] lead_read [where m = "rd_device rd" for rd];
      simp add: run)

lemma ca_directions: "obeys_triple R (scan_directions e si defaults d as rd)"
proof (induction as arbitrary: rd)
  case (Cons a as)
  show ?case
    unfolding scan_directions.simps
    by (intro ca_walk ca_direction [THEN last_triple] Cons.IH [THEN last_triple]; simp add: run)
qed (simp add: obeys_triple_def leads_def refl)

lemma ca_device: "obeys_triple R (scan_ca_device e si defaults d rd)"
  unfolding scan_ca_device_def
  by (intro ca_walk ca_subscribe [THEN last_triple] ca_scan_name [THEN last_triple]
      ca_scan_uid [THEN last_triple] ca_directions [THEN last_triple]; simp add: run)

lemma ca_devices: "obeys_triple R (scan_ca_devices e si defaults ids rd)"
proof (induction ids arbitrary: rd)
  case (Cons d ids)
  show ?case
    unfolding scan_ca_devices.simps
    by (intro ca_walk ca_device [THEN last_triple] Cons.IH [THEN last_triple]; simp add: run)
qed (simp add: obeys_triple_def leads_def refl)

lemma ca_publish: "obeys R (publish_devices_ca si q)"
  unfolding publish_devices_ca_def by (intro ca_walk cell_calls; simp add: run)

lemma ca_finish: "obeys_triple R (finish_refresh e si rd)"
  unfolding finish_refresh_def Let_def
  by (intro ca_walk ca_publish [THEN call] ca_deinit [THEN call]; simp add: run)

lemma ca_listed: "obeys_triple R (scan_listed_devices e si n rd)"
  unfolding scan_listed_devices_def Let_def
  by (intro ca_walk ca_fails ca_then ca_devices [THEN last_triple] ca_finish [THEN last_triple];
      simp add: run)

lemma ca_lists: "obeys_triple R (refresh_lists e si q)"
  unfolding refresh_lists_def Let_def
  by (intro ca_walk ca_fails ca_listed [THEN last_triple] ca_finish [THEN last_triple]; simp add: run)

lemma ca_refresh: "obeys_result R (refresh_devices_ca e si)"
  unfolding refresh_devices_ca_def Let_def
  by (intro ca_walk unsubscribe [THEN call] ca_lists [THEN triple]; simp add: run)

lemma ca_shutdown: "obeys R (shutdown_backend_ca si err)"
  unfolding shutdown_backend_ca_def by (intro ca_walk cell_calls; simp add: run emitted)

subsection \<open>The device thread and the listeners\<close>

lemma ca_rescan: "obeys_result R (rescan_ca e si)"
  unfolding rescan_ca_def
  by (intro ca_walk ca_refresh [THEN result] ca_shutdown [THEN call] cell_calls;
      simp add: run emitted)

lemma ca_iteration: "obeys_result R (device_thread_iteration_ca e si)"
  unfolding device_thread_iteration_ca_def
  by (intro ca_walk choice ca_rescan [THEN last_result] ca_shutdown [THEN call] cell_calls;
      simp add: run)

lemma ca_thread_step: "obeys R (device_thread_step_ca e si)"
  unfolding device_thread_step_ca_def
  by (intro ca_walk ca_iteration [THEN result] lead_read [where m = "ca_thread a" for a]
      lead_read [where m = "threads s t" for s t]; simp add: run)

lemma ca_signal_scan: "obeys R (signal_device_scan si)"
  unfolding signal_device_scan_def by (intro ca_walk; simp add: run)

lemma ca_listeners: "obeys R (on_devices_changed si)" "obeys R (on_service_restarted si)"
  "obeys R (force_device_scan_ca si)" "obeys R (wakeup_ca si)"
  unfolding on_devices_changed_def on_service_restarted_def force_device_scan_ca_def wakeup_ca_def
  by (intro ca_walk cell_calls ca_signal_scan [THEN last_call]; simp add: run)+

lemma ca_own_wait:
  assumes "\<And>u v. others u = Some v \<Longrightarrow> R u v"
  shows "obeys R (own_mutex_wait others c)"
proof -
  have "obeys R others" using assms by (simp add: obeys_def leads_def)
  then show ?thesis
    unfolding own_mutex_wait_def by (intro ca_walk; auto intro: last_call refl)
qed

lemma ca_waiting:
  assumes "\<And>u v. others u = Some v \<Longrightarrow> R u v"
  shows "obeys R (repeat_until (ca_wait_step others si))"
proof (intro obeysI loop [where st = "\<lambda>s. s"])
  have wait: "obeys R (own_mutex_wait others c)" for c by (rule ca_own_wait) (rule assms)
  show "leads R s (ca_wait_step others si s) (\<lambda>z. case z of Inl t \<Rightarrow> t | Inr t \<Rightarrow> t)" for s
    unfolding ca_wait_step_def by (intro ca_walk wait [THEN call]; simp add: run)
qed

end

end
