(* ===== verification/CoreAudioEvents.thy ===== *)
theory CoreAudioEvents
  imports CoreAudioScan CoreAudioQuiet
begin

section \<open>What the application hears from the CoreAudio backend\<close>

text \<open>
  The device thread, the listeners of the library and the calls of the application are a state
  machine. A failure of the thread, or a restart of the service, ends the thread with a report; the
  next flush passes the report on, and that happens once.
\<close>

subsection \<open>The scan is silent\<close>

definition ca_heard :: "'z sio_scheme \<Rightarrow> nat \<Rightarrow> nat \<times> bool option" where
  "ca_heard s = heard_with (\<lambda>x. ca_emitted_shutdown_cb (coreaudio x)) s"

interpretation ca_view: observer ca_heard
proof
  show "notified t = notified s \<Longrightarrow> ca_heard t = ca_heard s" for s t :: "('j, 'z) jsio_scheme"
    unfolding ca_heard_def by (rule heard_silent) simp_all
qed

abbreviation ca_hushed :: "('j, 'z) jsio_scheme \<Rightarrow> ('j, 'z) jsio_scheme \<Rightarrow> bool" where
  "ca_hushed \<equiv> observer.hushed ca_heard"

lemma ca_sica:
  assumes "\<And>a. ca_emitted_shutdown_cb (f a) = ca_emitted_shutdown_cb a"
  shows "obeys ca_hushed (upd_sica si f)"
  using assms
  by (auto simp: obeys_def leads_def ca_view.hushed_def ca_heard_def heard_with_def fun_eq_iff upd_sio_def Option.bind_eq_Some_conv)

lemma ca_emit: "\<forall>si err. ev \<noteq> BackendDisconnect si err \<Longrightarrow> ca_hushed s u \<Longrightarrow> ca_hushed s (emit ev u)"
  by (simp add: ca_view.hushed_def fun_eq_iff ca_heard_def heard_with_def emit_def)

lemma ca_remove: "ca_hushed s u \<Longrightarrow> ca_hushed s (remove_listeners e si d u)"
proof -
  have "ca_hushed s u \<Longrightarrow> ca_hushed s (fold (\<lambda>prop. the_world (g prop)) props u)" for g props
    by (induction props arbitrary: u) (simp_all add: ca_view.run)
  then show "ca_hushed s u \<Longrightarrow> ca_hushed s (remove_listeners e si d u)" unfolding remove_listeners_def .
qed

lemma ca_unsubscribe: "obeys ca_hushed (unsubscribe_device_listeners e si)"
proof -
  have "obeys ca_hushed (\<lambda>s. do { device_id \<leftarrow> list_val_at l (int i); Some (remove_listeners e si device_id s) })"
    for l and i :: nat
    by (intro ca_view.walk lead_read [where m = "list_val_at l i" for l i]) (rule ca_remove [OF ca_view.refl])
  note each = ca_view.for_each_obeys [OF this]
  show ?thesis
    unfolding unsubscribe_device_listeners_def Let_def
    by (intro ca_view.walk each [THEN ca_view.call] ca_sica [THEN ca_view.last_call]; simp add: ca_view.run)
qed

interpretation ca_quiet_calls: ca_calls ca_hushed e si for e :: "('j, 'z) ca_env" and si
  by unfold_locales (simp_all add: ca_unsubscribe ca_view.run ca_view.world_pairs ca_sica ca_emit)

lemma ca_subscribe_silent: "obeys_triple ca_hushed (subscribe_device_listeners e si d as rd)"
proof (induction as)
  case (Cons a as)
  show ?case
    unfolding subscribe_device_listeners.simps
    by (intro ca_view.walk ca_quiet_calls.ca_fails ca_view.add_one [THEN ca_view.triple] ca_sica [THEN ca_view.call]
        Cons.IH [THEN ca_view.last_triple]
        lead_read [where m = "list_last_ptr l" for l] lead_read [where m = "list_store l i x" for l i and x :: AudioObjectID];
        simp add: ca_view.run)
qed (simp add: obeys_triple_def leads_def ca_view.refl)

interpretation ca_quiet: ca_scan ca_hushed e si for e :: "('j, 'z) ca_env" and si
  by unfold_locales (rule ca_subscribe_silent)

subsection \<open>The events\<close>

text \<open>What happens while the application waits, or between its calls: the device thread works, the library calls the
  listeners, the streams do what \<open>T\<close> says.\<close>

inductive ca_background ::
  "('j, 'z) ca_env \<Rightarrow> nat \<Rightarrow> (('j, 'z) jsio_scheme \<Rightarrow> ('j, 'z) jsio_scheme \<Rightarrow> bool) \<Rightarrow> ('j, 'z) jsio_scheme \<Rightarrow> ('j, 'z) jsio_scheme \<Rightarrow> bool"
  for e si T where
  thread: "device_thread_step_ca e si s = Some t \<Longrightarrow> ca_background e si T s t"
| changed: "on_devices_changed si s = Some t \<Longrightarrow> ca_background e si T s t"
| restarted: "on_service_restarted si s = Some t \<Longrightarrow> ca_background e si T s t"
| transfer: "T s t \<Longrightarrow> ca_background e si T s t"

inductive ca_event ::
  "('j, 'z) ca_env \<Rightarrow> nat \<Rightarrow> (('j, 'z) jsio_scheme \<Rightarrow> ('j, 'z) jsio_scheme \<Rightarrow> bool) \<Rightarrow> ('j, 'z) jsio_scheme \<Rightarrow> ('j, 'z) jsio_scheme \<Rightarrow> bool"
  for e si T where
  background: "ca_background e si T s t \<Longrightarrow> ca_event e si T s t"
| flush: "flush_events_ca others si s = Some t \<Longrightarrow> (\<And>u v. others u = Some v \<Longrightarrow> (ca_background e si T)\<^sup>*\<^sup>* u v) \<Longrightarrow>
    ca_event e si T s t"
| wait: "wait_events_ca others si s = Some t \<Longrightarrow> (\<And>u v. others u = Some v \<Longrightarrow> (ca_background e si T)\<^sup>*\<^sup>* u v) \<Longrightarrow>
    ca_event e si T s t"
| wakeup: "wakeup_ca si s = Some t \<Longrightarrow> ca_event e si T s t"
| scan: "force_device_scan_ca si s = Some t \<Longrightarrow> ca_event e si T s t"

lemma ca_background_hushed:
  assumes "ca_background e si T s t" and streams: "\<And>s t. T s t \<Longrightarrow> streams_only s t"
  shows "ca_hushed s t"
  using assms(1)
proof (induction rule: ca_background.induct)
  case (transfer s t)
  then have "streams_only s t" by (rule streams)
  then have "notified t = notified s" by (auto simp: streams_only_def notified_def)
  then show ?case unfolding ca_view.hushed_def by (rule ca_view.silent)
qed (auto dest: obeysD [OF ca_quiet.ca_thread_step] obeysD [OF ca_quiet.ca_listeners(1)] obeysD [OF ca_quiet.ca_listeners(2)])

lemma ca_backgrounds_hushed:
  "(ca_background e si T)\<^sup>*\<^sup>* s t \<Longrightarrow> (\<And>s t. T s t \<Longrightarrow> streams_only s t) \<Longrightarrow> ca_hushed s t"
  by (induction rule: rtranclp_induct) (blast intro: ca_view.refl ca_view.trans ca_background_hushed)+

subsection \<open>Taking the devices\<close>

lemma take_devices_report:
  assumes "sios s si = Some x" and "ca_shutdown_err (coreaudio x) \<noteq> SoundIoErrorNone" "\<not> ca_emitted_shutdown_cb (coreaudio x)"
  shows "take_devices_ca si s = do {
      s \<leftarrow> soundio_os_mutex_lock (ca_mutex (coreaudio x)) s;
      s \<leftarrow> upd_sica si (\<lambda>a. a\<lparr>ca_emitted_shutdown_cb := True\<rparr>) s;
      s \<leftarrow> soundio_os_mutex_unlock (ca_mutex (coreaudio x)) s;
      on_backend_disconnect si (ca_shutdown_err (coreaudio x)) s
    }"
  using assms by (simp add: take_devices_ca_def soundio_destroy_devices_info_def Let_def)

lemma take_devices_no_report:
  assumes x: "sios s si = Some x"
    and no: "\<not> (ca_shutdown_err (coreaudio x) \<noteq> SoundIoErrorNone \<and> \<not> ca_emitted_shutdown_cb (coreaudio x))"
    and new: "new = ca_ready_devices_info (coreaudio x)"
  shows "take_devices_ca si s = do {
      s \<leftarrow> soundio_os_mutex_lock (ca_mutex (coreaudio x)) s;
      s \<leftarrow> (if new \<noteq> None then upd_sio si (\<lambda>y. y\<lparr>safe_devices_info := new,
         coreaudio := (coreaudio y)\<lparr>ca_ready_devices_info := None\<rparr>\<rparr>) s else Some s);
      s \<leftarrow> soundio_os_mutex_unlock (ca_mutex (coreaudio x)) s;
      soundio_destroy_devices_info (if new \<noteq> None then safe_devices_info x else None)
        (if new \<noteq> None then emit (DevicesChange si) s else s)
    }"
  unfolding take_devices_ca_def x new Let_def Option.bind.simps eq_False [THEN iffD2, OF no] if_False not_False_eq_True simp_thms
  by (simp del: not_None_eq)

lemma take_devices_quiet:
  assumes x: "sios s si = Some x"
    and no: "\<not> (ca_shutdown_err (coreaudio x) \<noteq> SoundIoErrorNone \<and> \<not> ca_emitted_shutdown_cb (coreaudio x))"
    and run: "take_devices_ca si s = Some t"
  shows "ca_hushed s t"
proof -
  have swap: "obeys ca_hushed (upd_sio si (\<lambda>y. y\<lparr>safe_devices_info := q, coreaudio := (coreaudio y)\<lparr>ca_ready_devices_info := None\<rparr>\<rparr>))" for q
    by (auto simp: obeys_def leads_def ca_view.hushed_def ca_heard_def heard_with_def fun_eq_iff upd_sio_def Option.bind_eq_Some_conv)
  have "leads ca_hushed s (take_devices_ca si s) (\<lambda>v. v)"
    unfolding take_devices_no_report [OF x no HOL.refl]
    by (intro ca_view.maybe swap ca_view.walk; simp add: ca_view.run ca_emit)
  with run show ?thesis by (simp add: leads_def)
qed

lemma take_devices_noted:
  assumes run: "take_devices_ca si s = Some t" and ok: "noted (ca_heard s si)"
  shows "noted (ca_heard t si)"
proof -
  obtain x where x: "sios s si = Some x" using run by (auto simp: take_devices_ca_def Option.bind_eq_Some_conv)
  show ?thesis
  proof (cases "ca_shutdown_err (coreaudio x) \<noteq> SoundIoErrorNone \<and> \<not> ca_emitted_shutdown_cb (coreaudio x)")
    case True
    obtain s1 s2 s3 where steps: "soundio_os_mutex_lock (ca_mutex (coreaudio x)) s = Some s1"
        "upd_sica si (\<lambda>a. a\<lparr>ca_emitted_shutdown_cb := True\<rparr>) s1 = Some s2"
        "soundio_os_mutex_unlock (ca_mutex (coreaudio x)) s2 = Some s3"
        "on_backend_disconnect si (ca_shutdown_err (coreaudio x)) s3 = Some t"
      using run True by (auto simp: take_devices_report [OF x] Option.bind_eq_Some_conv)
    have "ca_heard s1 = ca_heard s" "ca_heard s3 = ca_heard s2"
      using obeysD [OF ca_view.sync(1) steps(1)] obeysD [OF ca_view.sync(2) steps(3)] by (simp_all add: ca_view.hushed_def)
    with ok x True steps(2,4) show ?thesis
      by (auto simp: ca_heard_def heard_with_def noted_def fun_eq_iff on_backend_disconnect_def upd_sio_def Option.bind_eq_Some_conv emit_def
          dest!: spec [of _ si])
  next
    case False
    from take_devices_quiet [OF x this run] ok show ?thesis by (simp add: ca_view.hushed_def)
  qed
qed

lemma flush_ca_noted:
  assumes run: "flush_events_ca others si s = Some t" and others: "\<And>u v. others u = Some v \<Longrightarrow> ca_hushed u v"
    and ok: "noted (ca_heard s si)"
  shows "noted (ca_heard t si)"
proof -
  obtain u where u: "repeat_until (ca_wait_step others si) s = Some u" "take_devices_ca si u = Some t"
    using run by (auto simp: flush_events_ca_def Option.bind_eq_Some_conv)
  have "ca_hushed s u" by (rule obeysD [OF ca_quiet.ca_waiting u(1)]) (rule others)
  with ok have "noted (ca_heard u si)" by (simp add: ca_view.hushed_def)
  with u(2) show ?thesis by (rule take_devices_noted)
qed

lemma ca_event_noted:
  assumes "ca_event e si T s t" and streams: "\<And>s t. T s t \<Longrightarrow> streams_only s t" and ok: "noted (ca_heard s si)"
  shows "noted (ca_heard t si)"
  using assms(1) ok
proof (induction rule: ca_event.induct)
  case (background s t)
  then have "ca_hushed s t" by (blast intro: ca_background_hushed streams)
  with background show ?case by (simp add: ca_view.hushed_def)
next
  case (flush others s t)
  then show ?case by (blast intro: flush_ca_noted ca_backgrounds_hushed streams)
next
  case (wait others s t)
  then obtain u c where u: "flush_events_ca others si s = Some u" "own_mutex_wait others c u = Some t"
    by (auto simp: wait_events_ca_def Option.bind_eq_Some_conv)
  from wait have quiet: "others u = Some v \<Longrightarrow> ca_hushed u v" for u v by (blast intro: ca_backgrounds_hushed streams)
  have "ca_hushed u t" by (rule obeysD [OF ca_quiet.ca_own_wait u(2)]) (rule quiet)
  with flush_ca_noted [OF u(1) quiet wait(3)] show ?case by (simp add: ca_view.hushed_def)
qed (auto simp: ca_view.hushed_def dest: obeysD [OF ca_quiet.ca_listeners(3)] obeysD [OF ca_quiet.ca_listeners(4)])

lemma ca_events_noted:
  "(ca_event e si T)\<^sup>*\<^sup>* s t \<Longrightarrow> (\<And>s t. T s t \<Longrightarrow> streams_only s t) \<Longrightarrow> noted (ca_heard s si) \<Longrightarrow> noted (ca_heard t si)"
  by (induction rule: rtranclp_induct) (blast intro: ca_event_noted)+

subsection \<open>The end of the device thread\<close>

lemma shutdown_ca_run:
  assumes "shutdown_backend_ca si err s = Some t"
  shows "\<exists>x m mt. sios t si = Some x \<and> ca_shutdown_err (coreaudio x) = err \<and> ca_have_devices_flag (coreaudio x) \<and>
    ca_mutex (coreaudio x) = Some m \<and> mutexes t m = Some mt \<and> \<not> mutex_locked mt"
  using assms
  by (auto simp: shutdown_backend_ca_def upd_sio_def soundio_os_mutex_lock_def soundio_os_mutex_unlock_def soundio_os_cond_signal_def
      emit_def Let_def Option.bind_eq_Some_conv)

lemma rescan_ca_stops:
  "rescan_ca e si s = Some (False, t) \<Longrightarrow> \<exists>err u. err \<noteq> SoundIoErrorNone \<and> shutdown_backend_ca si err u = Some t"
  by (auto simp: rescan_ca_def Option.bind_eq_Some_conv split: if_splits)

lemma iteration_ca_stops:
  assumes run: "device_thread_iteration_ca e si s = Some (False, t)" and x: "sios s si = Some x" "ca_abort_flag (coreaudio x)"
  shows "\<exists>err u. err \<noteq> SoundIoErrorNone \<and> shutdown_backend_ca si err u = Some t"
  using run x
  by (auto simp: device_thread_iteration_ca_def Option.bind_eq_Some_conv split: if_splits dest!: rescan_ca_stops) blast+

subsection \<open>Properties\<close>

text \<open>C14. The application is told at most once that the CoreAudio backend is gone: in every sequence of rounds of the device
  thread, calls of the listeners, transfers of the streams, and flushes, waits (during which the others go on), wake-ups
  and scans by the application there is at most one \<open>on_backend_disconnect\<close>, and one exactly when that was noted.\<close>

theorem coreaudio_loss_reported_at_most_once:
  assumes "sios s si = Some x" and "\<not> ca_emitted_shutdown_cb (coreaudio x)" and "losses si (trace s) = 0"
    and "(ca_event e si streams_only)\<^sup>*\<^sup>* s t" and "sios t si = Some y"
  shows "losses si (trace t) = of_bool (ca_emitted_shutdown_cb (coreaudio y))"
  using ca_events_noted [OF assms(4)] assms by (simp add: noted_def ca_heard_def heard_with_def)

text \<open>C15. The device thread of CoreAudio does not end in silence: when it leaves its loop because the service was restarted or a
  scan failed, the next flush returns at once and tells the application the error, even if there never were any
  devices.\<close>

theorem coreaudio_failure_reaches_application:
  assumes run: "device_thread_iteration_ca e si s = Some (False, t)" and x: "sios s si = Some x" "ca_abort_flag (coreaudio x)"
    and y: "sios t si = Some y" "\<not> ca_emitted_shutdown_cb (coreaudio y)" "\<not> on_backend_disconnect_default y"
  shows "\<exists>u. flush_events_ca others si t = Some u \<and> ca_shutdown_err (coreaudio y) \<noteq> SoundIoErrorNone \<and>
    trace u = trace t @ [BackendDisconnect si (ca_shutdown_err (coreaudio y))]"
proof -
  obtain err u where err: "err \<noteq> SoundIoErrorNone" "shutdown_backend_ca si err u = Some t" using iteration_ca_stops [OF run x] by blast
  from shutdown_ca_run [OF err(2)] y(1) obtain m mt where m: "ca_shutdown_err (coreaudio y) = err" "ca_have_devices_flag (coreaudio y)"
      "ca_mutex (coreaudio y) = Some m" "mutexes t m = Some mt" "\<not> mutex_locked mt" by auto
  have "repeat_until (ca_wait_step others si) t = Some t"
    by (subst repeat_until.simps) (simp add: ca_wait_step_def y(1) m(2))
  then have "flush_events_ca others si t = take_devices_ca si t" by (simp add: flush_events_ca_def)
  then show ?thesis
    using y m err(1)
    by (simp add: take_devices_report [of t si y] soundio_os_mutex_lock_def soundio_os_mutex_unlock_def upd_sio_def
        on_backend_disconnect_def emit_def)
qed

theorem coreaudio_loss_reported_at_most_once_witness:
  "\<exists>t u. device_thread_step_ca quiet_ca 0 ca_restarted = Some t \<and> flush_events_ca Some 0 t = Some u \<and> losses 0 (trace u) = 1"
proof -
  have "\<exists>t u y. device_thread_step_ca quiet_ca 0 ca_restarted = Some t \<and> take_devices_ca 0 t = Some u \<and>
      (\<exists>z. sios t 0 = Some z \<and> ca_have_devices_flag (coreaudio z)) \<and> sios u 0 = Some y \<and> ca_emitted_shutdown_cb (coreaudio y)"
    by (simp add: device_thread_step_ca_def ca_run Let_def take_devices_ca_def on_backend_disconnect_def soundio_destroy_devices_info_def)
  then obtain t u y z where t: "device_thread_step_ca quiet_ca 0 ca_restarted = Some t" "take_devices_ca 0 t = Some u"
      "sios t 0 = Some z" "ca_have_devices_flag (coreaudio z)" "sios u 0 = Some y" "ca_emitted_shutdown_cb (coreaudio y)" by blast
  have "repeat_until (ca_wait_step Some 0) t = Some t" by (subst repeat_until.simps) (simp add: ca_wait_step_def t)
  then have flush: "flush_events_ca Some 0 t = Some u" by (simp add: flush_events_ca_def t)
  have "(ca_event quiet_ca 0 streams_only)\<^sup>*\<^sup>* ca_restarted t"
    using t(1) by (intro r_into_rtranclp ca_event.background ca_background.thread)
  moreover have "ca_event quiet_ca 0 streams_only t u" using flush by (rule ca_event.flush) simp
  ultimately have events: "(ca_event quiet_ca 0 streams_only)\<^sup>*\<^sup>* ca_restarted u" by simp
  have start: "\<exists>x. sios ca_restarted 0 = Some x \<and> \<not> ca_emitted_shutdown_cb (coreaudio x)" "losses 0 (trace ca_restarted) = 0"
    by (simp_all add: ca_restarted_def ca_zero_def)
  from start(1) obtain x where "sios ca_restarted 0 = Some x" "\<not> ca_emitted_shutdown_cb (coreaudio x)" by blast
  from coreaudio_loss_reported_at_most_once [OF this start(2) events t(5)] t(1,6) flush show ?thesis by auto
qed

theorem coreaudio_failure_reaches_application_witness:
  "\<exists>t u err. device_thread_iteration_ca quiet_ca 0 ca_restarted = Some (False, t) \<and> flush_events_ca Some 0 t = Some u \<and>
     trace u = [EventsSignal 0, BackendDisconnect 0 err] \<and> err \<noteq> SoundIoErrorNone"
proof -
  obtain t y where t: "device_thread_iteration_ca quiet_ca 0 ca_restarted = Some (False, t)" "sios t 0 = Some y"
     "\<not> ca_emitted_shutdown_cb (coreaudio y)" "\<not> on_backend_disconnect_default y" "trace t = [EventsSignal 0]"
    using restarted_iteration by blast
  obtain x where x: "sios ca_restarted 0 = Some x" "ca_abort_flag (coreaudio x)" by (simp add: ca_restarted_def)
  from coreaudio_failure_reaches_application [OF t(1) x t(2-4), of Some] t show ?thesis by auto
qed

end
