(* ===== verification/CoreAudioListeners.thy ===== *)
theory CoreAudioListeners
  imports CoreAudioEvents
begin

section \<open>The listeners of the CoreAudio backend\<close>

text \<open>
  The library keeps a listener until it is removed with the same object, address, function and
  client pointer. The backend writes down the device of every listener that it adds for a device, so
  that it can remove them all. The theory shows that it never loses one: after the backend is
  destroyed between two rounds of its thread the library calls none of its functions. A round that
  comes between the removal of the listeners and the end of the thread leaves its listeners behind.
\<close>

subsection \<open>What the library documents\<close>

definition keeps :: "('j \<Rightarrow> 'l) \<Rightarrow> ('j \<Rightarrow> 'a \<times> 'j) \<Rightarrow> bool" where
  "keeps L call \<longleftrightarrow> (\<forall>w. L (snd (call w)) = L w)"

definition listener_laws :: "('j, 'z) ca_env \<Rightarrow> ('j \<Rightarrow> listener set) \<Rightarrow> bool" where
  "listener_laws e L \<longleftrightarrow>
     (\<forall>d a f c w. L (snd (AudioObjectAddPropertyListener (chal e) d a f c w)) =
        (if fst (AudioObjectAddPropertyListener (chal e) d a f c w) = 0 then insert (d, a, f, c) (L w) else L w)) \<and>
     (\<forall>d a f c w. L (AudioObjectRemovePropertyListener (chal e) d a f c w) = L w - {(d, a, f, c)}) \<and>
     (\<forall>d a. keeps L (AudioObjectGetPropertyDataSize (chal e) d a) \<and> keeps L (get_property_ids (chal e) d a) \<and>
        keeps L (get_property_id (chal e) d a) \<and> keeps L (get_property_string (chal e) d a) \<and>
        keeps L (get_property_buffers (chal e) d a) \<and> keeps L (get_property_layout (chal e) d a) \<and>
        keeps L (get_property_double (chal e) d a) \<and> keeps L (get_property_ranges (chal e) d a) \<and>
        keeps L (get_property_range (chal e) d a) \<and> keeps L (get_property_uint32 (chal e) d a)) \<and>
     (\<forall>ref w. L (CFRelease (chal e) ref w) = L w)"

subsection \<open>The listeners that are written down\<close>

definition device_props :: "AudioObjectPropertyAddress set" where
  "device_props = set device_listen_props"

definition listed_ids :: "AudioObjectID clist \<Rightarrow> AudioObjectID set" where
  "listed_ids l = {d. \<exists>i. list_val_at l i = Some d}"

text \<open>A listener of the backend for a device, so not the one for the list of all devices.\<close>

definition device_listener :: "nat \<Rightarrow> listener set \<Rightarrow> AudioObjectID \<Rightarrow> AudioObjectPropertyAddress \<Rightarrow> bool" where
  "device_listener si ls d a \<longleftrightarrow>
     (d, a, on_devices_changed_fn, si) \<in> ls \<and>
     (d, a) \<noteq> (kAudioObjectSystemObject, system_property kAudioHardwarePropertyDevices)"

definition tracked :: "('j \<Rightarrow> listener set) \<Rightarrow> nat \<Rightarrow> ('j, 'z) jsio_scheme \<Rightarrow> bool" where
  "tracked L si s \<longleftrightarrow>
     (\<exists>x. sios s si = Some x \<and> (\<forall>d a. device_listener si (L (world s)) d a \<longrightarrow>
        d \<in> listed_ids (registered_listeners (coreaudio x)) \<and> a \<in> device_props))"

text \<open>No listener of a device is left.\<close>

definition unheard :: "('j \<Rightarrow> listener set) \<Rightarrow> nat \<Rightarrow> ('j, 'z) jsio_scheme \<Rightarrow> bool" where
  "unheard L si s \<longleftrightarrow> (\<forall>d a. \<not> device_listener si (L (world s)) d a)"

definition tracks :: "('j \<Rightarrow> listener set) \<Rightarrow> nat \<Rightarrow> ('j, 'z) jsio_scheme \<Rightarrow> ('j, 'z) jsio_scheme \<Rightarrow> bool" where
  "tracks L si s t \<longleftrightarrow> tracked L si s \<longrightarrow> tracked L si t"

lemma tracked_same:
  "world t = world s \<Longrightarrow> sios t = sios s \<Longrightarrow> tracked L si t = tracked L si s"
  by (simp add: tracked_def)

interpretation tracking: frame "tracks L si" for L :: "'j \<Rightarrow> listener set" and si
proof
  show "devs.more t = devs.more s \<Longrightarrow> tracks L si s t" for s t :: "('j, 'z) jsio_scheme"
    by (cases s, cases t) (simp add: tracks_def tracked_def)
qed (auto simp: tracks_def)

lemma tracks_world: "L w = L (world s) \<Longrightarrow> tracks L si s (s\<lparr>world := w\<rparr>)"
  by (simp add: tracks_def tracked_def)

lemma tracks_pair: "keeps L f \<Longrightarrow> obeys_pair (tracks L si) (in_world f)"
  by (simp add: obeys_pair_def in_world_def case_prod_unfold Let_def keeps_def tracks_world)

lemma tracks_sica:
  "(\<And>a. registered_listeners (f a) = registered_listeners a) \<Longrightarrow> obeys (tracks L si) (upd_sica sj f)"
  by (auto simp: obeys_def leads_def tracks_def tracked_def upd_sio_def Option.bind_eq_Some_conv split: if_splits)

lemma tracks_emit: "tracks L si s u \<Longrightarrow> tracks L si s (emit ev u)"
  by (simp add: tracks_def tracked_def emit_def)

subsection \<open>Removing the listeners\<close>

lemma remove_run:
  assumes "listener_laws e L"
  shows "\<exists>w. fold (\<lambda>a. the_world (AudioObjectRemovePropertyListener (chal e) d a f c)) as s = s\<lparr>world := w\<rparr> \<and>
    L w = {l \<in> L (world s). \<forall>a \<in> set as. l \<noteq> (d, a, f, c)}"
proof (induction as arbitrary: s)
  case Nil
  show ?case by (intro exI [of _ "world s"]) simp
next
  case (Cons a as)
  let ?w = "AudioObjectRemovePropertyListener (chal e) d a f c (world s)"
  have rm: "L ?w = L (world s) - {(d, a, f, c)}" using assms by (simp add: listener_laws_def)
  obtain w where w: "fold (\<lambda>a. the_world (AudioObjectRemovePropertyListener (chal e) d a f c)) as (s\<lparr>world := ?w\<rparr>) = s\<lparr>world := w\<rparr>"
      "L w = {l \<in> L ?w. \<forall>a \<in> set as. l \<noteq> (d, a, f, c)}"
    using Cons.IH [of "s\<lparr>world := ?w\<rparr>"] by auto
  have "L w = {l \<in> L (world s). \<forall>b \<in> set (a # as). l \<noteq> (d, b, f, c)}" unfolding w(2) rm by auto
  with w(1) show ?case by (intro exI [of _ w]) (simp add: the_world_def [of _ s])
qed

lemma remove_all_run:
  assumes laws: "listener_laws e L"
    and run: "for_each (\<lambda>i s. do { d \<leftarrow> list_val_at l (int i); Some (remove_listeners e si d s) }) is s = Some t"
  shows "\<exists>w. t = s\<lparr>world := w\<rparr> \<and> L w = {x \<in> L (world s).
    \<forall>i \<in> set is. \<forall>d a. list_val_at l (int i) = Some d \<longrightarrow> a \<in> device_props \<longrightarrow> x \<noteq> (d, a, on_devices_changed_fn, si)}"
  using run
proof (induction "is" arbitrary: s)
  case Nil
  then show ?case by (intro exI [of _ "world s"]) simp
next
  case (Cons i "is")
  then obtain d where d: "list_val_at l (int i) = Some d"
      "for_each (\<lambda>i s. do { d \<leftarrow> list_val_at l (int i); Some (remove_listeners e si d s) }) is (remove_listeners e si d s) = Some t"
    by (auto simp: Option.bind_eq_Some_conv)
  obtain w where w: "remove_listeners e si d s = s\<lparr>world := w\<rparr>"
      "L w = {x \<in> L (world s). \<forall>a \<in> device_props. x \<noteq> (d, a, on_devices_changed_fn, si)}"
    using remove_run [OF laws, of d on_devices_changed_fn si device_listen_props s]
    unfolding remove_listeners_def device_props_def by blast
  from Cons.IH [OF d(2)] obtain v where v: "t = s\<lparr>world := v\<rparr>" "L v = {x \<in> L w.
      \<forall>i \<in> set is. \<forall>d a. list_val_at l (int i) = Some d \<longrightarrow> a \<in> device_props \<longrightarrow> x \<noteq> (d, a, on_devices_changed_fn, si)}"
    by (auto simp: w(1))
  have "L v = {x \<in> L (world s). \<forall>j \<in> set (i # is). \<forall>d a. list_val_at l (int j) = Some d \<longrightarrow> a \<in> device_props \<longrightarrow>
      x \<noteq> (d, a, on_devices_changed_fn, si)}"
    unfolding v(2) w(2) using d(1) by auto
  with v(1) show ?case by blast
qed

lemma listed_idsD: "d \<in> listed_ids l \<Longrightarrow> \<exists>i < nat (l_length l). list_val_at l (int i) = Some d"
proof -
  assume "d \<in> listed_ids l"
  then obtain i where i: "list_val_at l i = Some d" by (auto simp: listed_ids_def)
  then have "0 \<le> i" "i < l_length l" by (auto simp: list_val_at_def Option.bind_eq_Some_conv)
  with i show ?thesis by (intro exI [of _ "nat i"]) auto
qed

lemma unsubscribe_world:
  assumes laws: "listener_laws e L" and run: "unsubscribe_device_listeners e si s = Some t" and x: "sios s si = Some x"
  shows "sios t = (sios s)(si \<mapsto> x\<lparr>coreaudio := (coreaudio x)\<lparr>registered_listeners := list_clear (registered_listeners (coreaudio x))\<rparr>\<rparr>) \<and>
    L (world t) = {y \<in> L (world s). \<forall>i \<in> set [0..<nat (l_length (registered_listeners (coreaudio x)))].
      \<forall>d a. list_val_at (registered_listeners (coreaudio x)) (int i) = Some d \<longrightarrow> a \<in> device_props \<longrightarrow> y \<noteq> (d, a, on_devices_changed_fn, si)}"
proof -
  let ?l = "registered_listeners (coreaudio x)"
  obtain u where u: "for_each (\<lambda>i s. do { d \<leftarrow> list_val_at ?l (int i); Some (remove_listeners e si d s) }) [0..<nat (l_length ?l)] s = Some u"
      "upd_sica si (\<lambda>a. a\<lparr>registered_listeners := list_clear (registered_listeners a)\<rparr>) u = Some t"
    using run x by (auto simp: unsubscribe_device_listeners_def Option.bind_eq_Some_conv Let_def)
  from remove_all_run [OF laws u(1)] obtain w where w: "u = s\<lparr>world := w\<rparr>" "L w = {y \<in> L (world s). \<forall>i \<in> set [0..<nat (l_length ?l)].
      \<forall>d a. list_val_at ?l (int i) = Some d \<longrightarrow> a \<in> device_props \<longrightarrow> y \<noteq> (d, a, on_devices_changed_fn, si)}" by blast
  have "world t = w" "sios t = (sios s)(si \<mapsto> x\<lparr>coreaudio := (coreaudio x)\<lparr>registered_listeners := list_clear ?l\<rparr>\<rparr>)"
    using u(2) w(1) x by (auto simp: upd_sio_def)
  with w(2) show ?thesis by simp
qed

lemma unsubscribe_run:
  assumes laws: "listener_laws e L" and run: "unsubscribe_device_listeners e si s = Some t" and tracked: "tracked L si s"
  shows "tracked L si t \<and> unheard L si t \<and> L (world t) \<subseteq> L (world s)"
proof -
  obtain x where x: "sios s si = Some x" using run by (auto simp: unsubscribe_device_listeners_def Option.bind_eq_Some_conv)
  let ?l = "registered_listeners (coreaudio x)"
  note t = unsubscribe_world [OF laws run x]
  have "\<not> device_listener si (L (world t)) d a" for d a
  proof
    assume l: "device_listener si (L (world t)) d a"
    then have "device_listener si (L (world s)) d a" using t by (simp add: device_listener_def)
    with tracked x have "d \<in> listed_ids ?l" "a \<in> device_props" by (auto simp: tracked_def)
    from listed_idsD [OF this(1)] obtain i where "i \<in> set [0..<nat (l_length ?l)]" "list_val_at ?l (int i) = Some d" by auto
    moreover have "(d, a, on_devices_changed_fn, si) \<in> L (world t)" using l by (simp add: device_listener_def)
    ultimately show False using \<open>a \<in> device_props\<close> t by blast
  qed
  with t show ?thesis by (auto simp: tracked_def unheard_def)
qed

lemma tracks_unsubscribe: "listener_laws e L \<Longrightarrow> obeys (tracks L si) (unsubscribe_device_listeners e si)"
  by (auto simp: obeys_def leads_def tracks_def dest: unsubscribe_run)

subsection \<open>The scan keeps track\<close>

text \<open>Of a new entry only the last cell changes.\<close>

lemma ensure_capacity_vals:
  assumes "list_ensure_capacity l n s = Some (err, l', t)"
  shows "take (length (l_items l)) (l_items l') = l_items l \<and> l_length l' = l_length l"
  using assms by (auto simp: list_ensure_capacity_def Option.bind_eq_Some_conv split: if_splits)

lemma add_one_cells:
  assumes "list_add_one l s = Some (SoundIoErrorNone, l', t)"
  shows "take (length (l_items l)) (l_items l') = l_items l \<and> l_length l' = l_length l + 1"
proof -
  obtain l0 where l0: "list_ensure_capacity l (l_length l + 1) s = Some (SoundIoErrorNone, l0, t)" "l' = l0\<lparr>l_length := l_length l + 1\<rparr>"
    using assms by (auto simp: list_add_one_def list_resize_def c_int_def Option.bind_eq_Some_conv split: if_splits)
  with ensure_capacity_vals [OF l0(1)] show ?thesis by simp
qed

lemma add_one_vals:
  assumes "list_add_one l s = Some (SoundIoErrorNone, l', t)" and "list_val_at l i = Some d"
  shows "list_val_at l' i = Some d"
proof -
  have i: "0 \<le> i" "i < l_length l" "nat i < length (l_items l)" "l_items l ! nat i = Some d"
    using assms(2) by (auto simp: list_val_at_def arr_at_def Option.bind_eq_Some_conv split: if_splits)
  have l': "take (length (l_items l)) (l_items l') = l_items l" "l_length l' = l_length l + 1"
    using add_one_cells [OF assms(1)] by simp_all
  have "l_items l' ! nat i = Some d" using i(3,4) l'(1) by (metis nth_take)
  moreover have "length (l_items l) \<le> length (l_items l')" using l'(1) by (metis length_take min.cobounded1)
  ultimately show ?thesis using i(1,2,3) l'(2) by (simp add: list_val_at_def arr_at_def)
qed

lemma store_vals:
  assumes "list_store l i x = Some l'" and "int i < l_length l"
  shows "list_val_at l' (int i) = Some x" and "j \<noteq> int i \<Longrightarrow> list_val_at l' j = list_val_at l j"
  using assms by (auto simp: list_store_def list_val_at_def arr_set_def arr_at_def nth_list_update split: if_splits)

lemma added:
  assumes "listener_laws e L" and "in_world (AudioObjectAddPropertyListener (chal e) d a f c) s = (err, t)"
  shows "sios t = sios s \<and> L (world t) = (if err = 0 then insert (d, a, f, c) (L (world s)) else L (world s))"
proof -
  let ?r = "AudioObjectAddPropertyListener (chal e) d a f c (world s)"
  have "L (snd ?r) = (if fst ?r = 0 then insert (d, a, f, c) (L (world s)) else L (world s))"
    by (rule conjunct1 [OF assms(1) [unfolded listener_laws_def], rule_format])
  moreover have "err = fst ?r" "t = s\<lparr>world := snd ?r\<rparr>" using assms(2) by (simp_all add: in_world_def case_prod_unfold Let_def)
  ultimately show ?thesis by simp
qed

text \<open>A step of the scan that adds a listener.\<close>

lemma subscribe_step:
  assumes laws: "listener_laws e L" and x: "sios s si = Some x"
    and grown: "list_add_one (registered_listeners (coreaudio x)) s = Some (SoundIoErrorNone, l, s1)"
    and upd: "upd_sica si (\<lambda>a. a\<lparr>registered_listeners := l\<rparr>) s1 = Some s2"
    and tracked: "tracked L si s"
  shows "tracked L si s2"
    and "in_world (AudioObjectAddPropertyListener (chal e) d a on_devices_changed_fn si) s2 = (0, s3) \<Longrightarrow> a \<in> device_props \<Longrightarrow>
      list_last_ptr l = Some i \<Longrightarrow> list_store l i d = Some l' \<Longrightarrow>
      upd_sica si (\<lambda>a. a\<lparr>registered_listeners := l'\<rparr>) s3 = Some s4 \<Longrightarrow> tracked L si s4"
proof -
  have same: "world s1 = world s" "sios s1 = sios s"
    using list_add_one_silent [OF grown] by (cases s, cases s1, simp)+
  have old: "d \<in> listed_ids (registered_listeners (coreaudio x)) \<Longrightarrow> d \<in> listed_ids l" for d
    using add_one_vals [OF grown] by (auto simp: listed_ids_def)
  have s2: "world s2 = world s" "sios s2 si = Some (x\<lparr>coreaudio := (coreaudio x)\<lparr>registered_listeners := l\<rparr>\<rparr>)"
    using upd x by (auto simp: upd_sio_def same)
  with tracked x old show "tracked L si s2" by (auto simp: tracked_def)
  assume add: "in_world (AudioObjectAddPropertyListener (chal e) d a on_devices_changed_fn si) s2 = (0, s3)" and a: "a \<in> device_props"
    and i: "list_last_ptr l = Some i" and l': "list_store l i d = Some l'"
    and s4: "upd_sica si (\<lambda>a. a\<lparr>registered_listeners := l'\<rparr>) s3 = Some s4"
  have len: "l_length l = l_length (registered_listeners (coreaudio x)) + 1"
    using add_one_cells [OF grown] by simp
  have last: "int i = l_length (registered_listeners (coreaudio x))" "int i < l_length l"
    using i len by (auto simp: list_last_ptr_def Option.bind_eq_Some_conv)
  have L: "L (world s3) = insert (d, a, on_devices_changed_fn, si) (L (world s))" "sios s3 = sios s2"
    using added [OF laws add] by (simp_all add: s2(1))
  have new: "d \<in> listed_ids l'" using store_vals(1) [OF l' last(2)] by (auto simp: listed_ids_def)
  have "c \<in> listed_ids l'" if "c \<in> listed_ids (registered_listeners (coreaudio x))" for c
  proof -
    from that obtain j where j: "list_val_at (registered_listeners (coreaudio x)) j = Some c" by (auto simp: listed_ids_def)
    then have "j \<noteq> int i" by (auto simp: last(1) list_val_at_def Option.bind_eq_Some_conv)
    then have "list_val_at l' j = Some c" using store_vals(2) [OF l' last(2), of j] add_one_vals [OF grown j] by simp
    then show ?thesis by (auto simp: listed_ids_def)
  qed
  moreover have "world s4 = world s3" "sios s4 si = Some (x\<lparr>coreaudio := (coreaudio x)\<lparr>registered_listeners := l'\<rparr>\<rparr>)"
    using s4 s2(2) L(2) by (auto simp: upd_sio_def)
  ultimately show "tracked L si s4" using tracked x new a by (auto simp: tracked_def L(1) device_listener_def)
qed

lemma tracks_calls:
  assumes "listener_laws e L"
  shows "ca_calls (tracks L si) e si"
proof unfold_locales
  show "obeys (tracks L si) (unsubscribe_device_listeners e si)" using assms by (rule tracks_unsubscribe)
  show "tracks L si s (the_world (CFRelease (chal e) ref) s)" for s ref
    using assms by (auto simp: the_world_def listener_laws_def intro: tracks_world)
  show "obeys_pair (tracks L si) (in_world (AudioObjectGetPropertyDataSize (chal e) d a))"
    "obeys_pair (tracks L si) (in_world (get_property_ids (chal e) d a))"
    "obeys_pair (tracks L si) (in_world (get_property_id (chal e) d a))"
    "obeys_pair (tracks L si) (in_world (get_property_string (chal e) d a))"
    "obeys_pair (tracks L si) (in_world (get_property_buffers (chal e) d a))"
    "obeys_pair (tracks L si) (in_world (get_property_layout (chal e) d a))"
    "obeys_pair (tracks L si) (in_world (get_property_double (chal e) d a))"
    "obeys_pair (tracks L si) (in_world (get_property_uint32 (chal e) d a))"
    "obeys_pair (tracks L si) (in_world (get_property_ranges (chal e) d a))"
    "obeys_pair (tracks L si) (in_world (get_property_range (chal e) d a))" for d a
    using assms by (simp_all add: listener_laws_def tracks_pair)
  show "obeys (tracks L si) (upd_sica si f)"
    if "\<And>x. registered_listeners (f x) = registered_listeners x \<and> ca_emitted_shutdown_cb (f x) = ca_emitted_shutdown_cb x" for f
    using that by (intro tracks_sica) blast
  show "tracks L si s (emit ev s)" for ev s by (rule tracks_emit) (rule tracking.refl)
qed

lemma refused_entry: "list_add_one l s = Some (err, l', t) \<Longrightarrow> err \<noteq> SoundIoErrorNone \<Longrightarrow> l' = l"
  by (auto simp: list_add_one_def list_resize_def list_ensure_capacity_def Option.bind_eq_Some_conv split: if_splits)

lemma tracks_subscribe:
  assumes laws: "listener_laws e L" and known: "set as \<subseteq> device_props"
  shows "subscribe_device_listeners e si d as rd s = Some (err, rd', t) \<Longrightarrow> tracked L si s \<Longrightarrow> tracked L si t"
  using known
proof (induction as arbitrary: s)
  case (Cons a as)
  obtain x err1 l s1 s2 where grown: "sios s si = Some x" "list_add_one (registered_listeners (coreaudio x)) s = Some (err1, l, s1)"
      "upd_sica si (\<lambda>a. a\<lparr>registered_listeners := l\<rparr>) s1 = Some s2"
    using Cons.prems(1) by (auto simp: Option.bind_eq_Some_conv)
  note failed = ca_calls.ca_failed [OF tracks_calls [OF laws], THEN obeys_tripleD, unfolded tracks_def, rule_format]
  show ?case
  proof (cases "err1 = SoundIoErrorNone")
    case False
    have "world s1 = world s" "sios s1 = sios s" using list_add_one_silent [OF grown(2)] by (cases s, cases s1, simp)+
    with grown refused_entry [OF grown(2) False] Cons.prems(2) have "tracked L si s2" by (auto simp: tracked_def upd_sio_def)
    moreover have "refresh_failed e si rd SoundIoErrorOpeningDevice s2 = Some (err, rd', t)" using Cons.prems(1) grown False by simp
    ultimately show ?thesis by (blast intro: failed)
  next
    case True
    note step = subscribe_step [OF laws grown(1) grown(2) [unfolded True] grown(3) Cons.prems(2)]
    obtain os_err s3 where add: "in_world (AudioObjectAddPropertyListener (chal e) d a on_devices_changed_fn si) s2 = (os_err, s3)"
      by (cases "in_world (AudioObjectAddPropertyListener (chal e) d a on_devices_changed_fn si) s2")
    show ?thesis
    proof (cases "os_err = 0")
      case False
      then have "tracked L si s3" using added [OF laws add] step(1) by (simp add: tracked_def)
      moreover have "refresh_failed e si rd SoundIoErrorOpeningDevice s3 = Some (err, rd', t)"
        using Cons.prems(1) grown True False add by (simp add: hal_do_def)
      ultimately show ?thesis by (blast intro: failed)
    next
      case none: True
      obtain i l' s4 where s4: "list_last_ptr l = Some i" "list_store l i d = Some l'"
          "upd_sica si (\<lambda>a. a\<lparr>registered_listeners := l'\<rparr>) s3 = Some s4"
          "subscribe_device_listeners e si d as rd s4 = Some (err, rd', t)"
        using Cons.prems(1) grown True none add by (auto simp: hal_do_def Option.bind_eq_Some_conv)
      have "tracked L si s4" using step(2) [OF add [unfolded none] _ s4(1,2,3)] Cons.prems(3) by simp
      with s4(4) Cons.prems(3) show ?thesis by (intro Cons.IH) auto
    qed
  qed
qed simp

lemma tracks_scan:
  assumes "listener_laws e L"
  shows "ca_scan (tracks L si) e si"
proof (intro ca_scan.intro ca_scan_axioms.intro)
  show "ca_calls (tracks L si) e si" using assms by (rule tracks_calls)
  show "obeys_triple (tracks L si) (subscribe_device_listeners e si d device_listen_props rd)" for d rd
    unfolding obeys_triple_def leads_def tracks_def using tracks_subscribe [OF assms, of device_listen_props]
    by (auto simp: device_props_def)
qed

subsection \<open>Between the events\<close>

text \<open>The streams leave the listeners of the backend alone.\<close>

definition streams_keep ::
  "('j \<Rightarrow> listener set) \<Rightarrow> nat \<Rightarrow> ('j, 'z) jsio_scheme \<Rightarrow> ('j, 'z) jsio_scheme \<Rightarrow> bool" where
  "streams_keep L si s t \<longleftrightarrow> streams_only s t \<and>
     (\<forall>d a. device_listener si (L (world t)) d a \<longrightarrow> device_listener si (L (world s)) d a)"

lemma background_tracks:
  assumes laws: "listener_laws e L" and "ca_background e si (streams_keep L si) s t"
  shows "tracks L si s t"
proof -
  note scan = tracks_scan [OF laws, of si]
  from assms(2) show ?thesis
  proof (induction rule: ca_background.induct)
    case (transfer s t)
    then have "sios t = sios s" "device_listener si (L (world t)) d a \<Longrightarrow> device_listener si (L (world s)) d a" for d a
      by (auto simp: streams_keep_def streams_only_def)
    then show ?case unfolding tracks_def tracked_def by metis
  qed (auto dest: obeysD [OF ca_scan.ca_thread_step [OF scan]] obeysD [OF ca_scan.ca_listeners(1) [OF scan]]
      obeysD [OF ca_scan.ca_listeners(2) [OF scan]])
qed

lemma backgrounds_tracks:
  "listener_laws e L \<Longrightarrow> (ca_background e si (streams_keep L si))\<^sup>*\<^sup>* s t \<Longrightarrow> tracks L si s t"
  by (rotate_tac 1, induction rule: rtranclp_induct) (blast intro: tracking.refl tracking.trans background_tracks)+

lemma take_tracks:
  assumes run: "take_devices_ca si s = Some t"
  shows "tracks L si s t"
proof -
  obtain x where x: "sios s si = Some x" using run by (auto simp: take_devices_ca_def Option.bind_eq_Some_conv)
  have note_sent: "obeys (tracks L si) (upd_sica si (\<lambda>a. a\<lparr>ca_emitted_shutdown_cb := True\<rparr>))" by (rule tracks_sica) simp
  have swap: "obeys (tracks L si) (upd_sio si (\<lambda>y. y\<lparr>safe_devices_info := q, coreaudio := (coreaudio y)\<lparr>ca_ready_devices_info := None\<rparr>\<rparr>))"
    for q by (auto simp: obeys_def leads_def tracks_def tracked_def upd_sio_def Option.bind_eq_Some_conv split: if_splits)
  have "leads (tracks L si) s (take_devices_ca si s) (\<lambda>v. v)"
  proof (cases "ca_shutdown_err (coreaudio x) \<noteq> SoundIoErrorNone \<and> \<not> ca_emitted_shutdown_cb (coreaudio x)")
    case True
    then show ?thesis
      unfolding take_devices_report [OF x conjunct1 [OF True] conjunct2 [OF True]] on_backend_disconnect_def
      by (intro note_sent [THEN tracking.call] tracking.walk_frame; simp add: tracking.refl tracks_emit)
  next
    case False
    show ?thesis
      unfolding take_devices_no_report [OF x False HOL.refl]
      by (intro tracking.maybe swap tracking.walk_frame; simp add: tracking.refl tracks_emit)
  qed
  with run show ?thesis by (simp add: leads_def)
qed

lemma event_tracks:
  assumes laws: "listener_laws e L" and "ca_event e si (streams_keep L si) s t"
  shows "tracks L si s t"
proof -
  note scan = tracks_scan [OF laws, of si]
  note quiet = backgrounds_tracks [OF laws]
  have flushed: "tracks L si s t" if run: "flush_events_ca others si s = Some t"
      and background: "\<And>u v. others u = Some v \<Longrightarrow> (ca_background e si (streams_keep L si))\<^sup>*\<^sup>* u v" for others s t
  proof -
    obtain u where u: "repeat_until (ca_wait_step others si) s = Some u" "take_devices_ca si u = Some t"
      using run by (auto simp: flush_events_ca_def Option.bind_eq_Some_conv)
    have "tracks L si s u" by (rule obeysD [OF ca_scan.ca_waiting [OF scan] u(1)]) (rule quiet [OF background])
    with take_tracks [OF u(2)] show ?thesis by (rule tracking.trans [rotated])
  qed
  from assms(2) show ?thesis
  proof (induction rule: ca_event.induct)
    case (background s t)
    then show ?case by (rule background_tracks [OF laws])
  next
    case (flush others s t)
    then show ?case by (rule flushed)
  next
    case (wait others s t)
    then obtain u c where u: "flush_events_ca others si s = Some u" "own_mutex_wait others c u = Some t"
      by (auto simp: wait_events_ca_def Option.bind_eq_Some_conv)
    have "tracks L si u t" by (rule obeysD [OF ca_scan.ca_own_wait [OF scan] u(2)]) (rule quiet [OF wait(2)])
    with wait flushed [OF u(1)] show ?case by (blast intro: tracking.trans)
  qed (auto dest: obeysD [OF ca_scan.ca_listeners(3) [OF scan]] obeysD [OF ca_scan.ca_listeners(4) [OF scan]])
qed

lemma events_track:
  "(ca_event e si (streams_keep L si))\<^sup>*\<^sup>* s t \<Longrightarrow> listener_laws e L \<Longrightarrow> tracks L si s t"
  by (induction rule: rtranclp_induct) (blast intro: tracking.refl tracking.trans event_tracks)+

subsection \<open>Creating and destroying the backend\<close>

lemma asked: "os.more (snd (ask s)) = os.more s" "os.more (snd (alloc s)) = os.more s"
  by (cases s, simp add: ask_def alloc_def Let_def split: list.split)+

lemma freed: "free_blk p s = Some t \<Longrightarrow> os.more t = os.more s"
  by (cases s, auto simp: free_blk_def split: option.splits if_splits)

lemma destroyed:
  "soundio_os_mutex_destroy m s = Some t \<Longrightarrow> os.more t = os.more s"
  "soundio_os_cond_destroy c s = Some t \<Longrightarrow> os.more t = os.more s"
  "soundio_os_thread_destroy th s = Some t \<Longrightarrow> os.more t = os.more s"
  by (auto simp: soundio_os_mutex_destroy_def soundio_os_cond_destroy_def soundio_os_thread_destroy_def Option.bind_eq_Some_conv
      split: option.splits dest!: freed)

lemma gave_up:
  "thread_give_up th err s = Some (r, q, t) \<Longrightarrow> os.more t = os.more s" "cond_give_up c s = Some (q, t) \<Longrightarrow> os.more t = os.more s"
  by (auto simp: thread_give_up_def cond_give_up_def Option.bind_eq_Some_conv dest: destroyed)

lemma created:
  "soundio_os_mutex_create s = Some (q, t) \<Longrightarrow> os.more t = os.more s"
  "soundio_os_cond_create s = Some (q, t) \<Longrightarrow> os.more t = os.more s"
  "soundio_os_thread_create f b s = Some (err, q, t) \<Longrightarrow> os.more t = os.more s"
proof -
  show "soundio_os_mutex_create s = Some (q, t) \<Longrightarrow> os.more t = os.more s"
    by (auto simp: soundio_os_mutex_create_def Let_def case_prod_unfold asked Option.bind_eq_Some_conv split: option.splits if_splits
        dest!: destroyed)
  show "soundio_os_cond_create s = Some (q, t) \<Longrightarrow> os.more t = os.more s"
    by (auto simp: soundio_os_cond_create_def set_cond_def Let_def case_prod_unfold asked Option.bind_eq_Some_conv
        split: option.splits if_splits dest!: destroyed gave_up)
  show "soundio_os_thread_create f b s = Some (err, q, t) \<Longrightarrow> os.more t = os.more s"
    by (auto simp: soundio_os_thread_create_def Let_def case_prod_unfold asked Option.bind_eq_Some_conv
        split: option.splits if_splits dest!: destroyed gave_up)
qed

text \<open>What only concerns the heap and the operating system does not change what the library knows.\<close>

lemma same_world:
  "mem.more t = mem.more s \<Longrightarrow> world t = world s" "os.more t = os.more s \<Longrightarrow> world t = world s" "devs.more t = devs.more s \<Longrightarrow> world t = world s"
  by (cases s, cases t, simp)+

interpretation worldly: frame "\<lambda>s t :: ('j, 'z) jsio_scheme. world t = world s"
  by unfold_locales (auto intro: same_world)

lemma destroyed_world:
  "obeys (\<lambda>s t. world t = world s) (soundio_os_mutex_destroy m)" "obeys (\<lambda>s t. world t = world s) (soundio_os_cond_destroy c)"
  "obeys (\<lambda>s t. world t = world s) (soundio_os_thread_destroy th)" "obeys (\<lambda>s t. world t = world s) (list_deinit l)"
  "obeys (\<lambda>s t. world t = world s) (upd_sica si f)" "obeys (\<lambda>s t. world t = world s) (signal_device_scan si)"
  by (auto simp: obeys_def leads_def upd_sio_def signal_device_scan_def soundio_os_cond_signal_def Option.bind_eq_Some_conv
      dest: destroyed [THEN same_world(2)] list_deinit_silent [THEN same_world(1)])

lemmas destroyed_calls = destroyed_world [THEN worldly.call] destroyed_world [THEN worldly.last_call]

lemma leadsD: "m = Some t \<Longrightarrow> leads R s m st \<Longrightarrow> R s (st t)"
  by (simp add: leads_def)

lemma destroy_listeners_run:
  assumes laws: "listener_laws e L" and run: "destroy_listeners_ca e si s = Some t" and tracked: "tracked L si s"
  shows "\<forall>d a. (d, a, on_devices_changed_fn, si) \<notin> L (world t)"
    and "(kAudioObjectSystemObject, system_property kAudioHardwarePropertyServiceRestarted, on_service_restarted_fn, si) \<notin> L (world t)"
    and "tracked L si t"
proof -
  let ?sys = "kAudioObjectSystemObject" and ?devs = "system_property kAudioHardwarePropertyDevices"
    and ?serv = "system_property kAudioHardwarePropertyServiceRestarted"
  have rm: "L (AudioObjectRemovePropertyListener (chal e) d a f c w) = L w - {(d, a, f, c)}" for d a f c w
    by (rule conjunct1 [OF conjunct2 [OF laws [unfolded listener_laws_def]], rule_format])
  define s1 where "s1 = the_world (AudioObjectRemovePropertyListener (chal e) ?sys ?serv on_service_restarted_fn si)
    (the_world (AudioObjectRemovePropertyListener (chal e) ?sys ?devs on_devices_changed_fn si) s)"
  have s1: "L (world s1) = L (world s) - {(?sys, ?devs, on_devices_changed_fn, si)} - {(?sys, ?serv, on_service_restarted_fn, si)}"
      "sios s1 = sios s" by (simp_all add: s1_def the_world_def rm)
  have t: "unsubscribe_device_listeners e si s1 = Some t"
    using run by (simp add: destroy_listeners_ca_def Let_def s1_def)
  have "tracked L si s1" using tracked by (auto simp: tracked_def s1 device_listener_def)
  then have left: "unheard L si t" "L (world t) \<subseteq> L (world s1)" and "tracked L si t"
    using unsubscribe_run [OF laws t] by simp_all
  then show "tracked L si t" by blast
  show "\<forall>d a. (d, a, on_devices_changed_fn, si) \<notin> L (world t)"
    using left s1(1) by (auto simp: unheard_def device_listener_def)
  show "(?sys, ?serv, on_service_restarted_fn, si) \<notin> L (world t)" using left(2) s1(1) by auto
qed

lemma destroy_rest_world: "destroy_rest_ca si s = Some t \<Longrightarrow> world t = world s"
proof -
  assume run: "destroy_rest_ca si s = Some t"
  have stopped: "obeys (\<lambda>s t. world t = world s) (\<lambda>s. do {
      s \<leftarrow> upd_sica si f s;
      s \<leftarrow> signal_device_scan si s;
      soundio_os_thread_destroy th s
    })" for f th
    by (intro worldly.walk_frame destroyed_calls) simp_all
  show "world t = world s"
    by (rule leadsD [OF run [unfolded destroy_rest_ca_def Let_def], where R = "\<lambda>s t. world t = world s" and st = "\<lambda>v. v"])
      (intro worldly.walk_frame destroyed_calls worldly.maybe destroyed_world stopped; simp)
qed

lemma destroy_ca_halves:
  "destroy_ca e si s = Some t \<Longrightarrow> \<exists>u. destroy_listeners_ca e si s = Some u \<and> destroy_rest_ca si u = Some t"
  by (auto simp: destroy_ca_def Option.bind_eq_Some_conv)

lemma tracks_os: "os.more t = os.more s \<Longrightarrow> tracks L si s t"
  by (rule tracking.heap) (cases s, cases t, simp)

lemma tracks_made:
  "soundio_os_mutex_create s = Some (q, t) \<Longrightarrow> tracks L si s t"
  "soundio_os_cond_create s = Some (q, t) \<Longrightarrow> tracks L si s t"
  "soundio_os_thread_create f b s = Some (err, q, t) \<Longrightarrow> tracks L si s t"
  by (rule tracks_os, erule created)+

lemma init_failed_error: "ca_init_failed e si err s = Some (r, t) \<Longrightarrow> r = err"
  by (auto simp: ca_init_failed_def Option.bind_eq_Some_conv)

lemma cond_init_tracks:
  assumes "ca_init_cond e si store next s = Some (SoundIoErrorNone, t)"
    and "\<And>c a. registered_listeners (store c a) = registered_listeners a"
  shows "\<exists>u. tracks L si s u \<and> next u = Some (SoundIoErrorNone, t)"
proof -
  obtain c u v where u: "soundio_os_cond_create s = Some (c, u)" "upd_sica si (store c) u = Some v"
      "next v = Some (SoundIoErrorNone, t)"
    using assms(1) by (auto simp: ca_init_cond_def Option.bind_eq_Some_conv split: if_splits dest: init_failed_error)
  have "tracks L si u v" by (rule obeysD [OF tracks_sica u(2)]) (rule assms(2))
  with tracks_made(2) [OF u(1)] u(3) show ?thesis by (blast intro: tracking.trans)
qed

lemma other_listener:
  assumes laws: "listener_laws e L"
    and "in_world (AudioObjectAddPropertyListener (chal e) d a f si) s = (err, t)"
    and "(d, a, f) = (kAudioObjectSystemObject, system_property kAudioHardwarePropertyDevices, on_devices_changed_fn) \<or> f \<noteq> on_devices_changed_fn"
  shows "tracks L si s t"
  using added [OF assms(1,2)] assms(3) by (auto simp: tracks_def tracked_def device_listener_def split: if_splits)

lemma ca_init_run:
  assumes laws: "listener_laws e L" and run: "soundio_coreaudio_init e si s = Some (SoundIoErrorNone, t)"
  shows "tracks L si s t"
proof -
  obtain s1 m s2 s3 where s1: "upd_sica si (\<lambda>a. a\<lparr>ca_have_devices_flag := False, ca_device_scan_queued := True,
        service_restarted := False, ca_abort_flag := True\<rparr>) s = Some s1"
      "soundio_os_mutex_create s1 = Some (m, s2)" "upd_sica si (\<lambda>a. a\<lparr>ca_mutex := m\<rparr>) s2 = Some s3"
    and s3: "ca_init_cond e si (\<lambda>c a. a\<lparr>ca_cond := c\<rparr>)
       (ca_init_cond e si (\<lambda>c a. a\<lparr>have_devices_cond := c\<rparr>)
         (ca_init_cond e si (\<lambda>c a. a\<lparr>scan_devices_cond := c\<rparr>) (ca_init_listeners e si))) s3 = Some (SoundIoErrorNone, t)"
    using run by (auto simp: soundio_coreaudio_init_def Option.bind_eq_Some_conv split: if_splits dest: init_failed_error)
  have "tracks L si s s1" by (rule obeysD [OF tracks_sica s1(1)]) simp
  moreover have "tracks L si s1 s2" by (rule tracks_made(1) [OF s1(2)])
  moreover have "tracks L si s2 s3" by (rule obeysD [OF tracks_sica s1(3)]) simp
  moreover obtain s6 where s6: "tracks L si s3 s6" "ca_init_listeners e si s6 = Some (SoundIoErrorNone, t)"
  proof -
    from cond_init_tracks [OF s3, where L = L] obtain s4 where s4: "tracks L si s3 s4" and
      "ca_init_cond e si (\<lambda>c a. a\<lparr>have_devices_cond := c\<rparr>)
        (ca_init_cond e si (\<lambda>c a. a\<lparr>scan_devices_cond := c\<rparr>) (ca_init_listeners e si)) s4 = Some (SoundIoErrorNone, t)" by auto
    from cond_init_tracks [OF this(2), where L = L] obtain s5 where s5: "tracks L si s4 s5" and
      "ca_init_cond e si (\<lambda>c a. a\<lparr>scan_devices_cond := c\<rparr>) (ca_init_listeners e si) s5 = Some (SoundIoErrorNone, t)" by auto
    from cond_init_tracks [OF this(2), where L = L] s4 s5 show ?thesis by (auto intro: that tracking.trans)
  qed
  moreover have "tracks L si s6 t"
  proof -
    obtain s7 s8 th s9 s10 where s7:
        "in_world (AudioObjectAddPropertyListener (chal e) kAudioObjectSystemObject (system_property kAudioHardwarePropertyDevices)
          on_devices_changed_fn si) s6 = (0, s7)"
        "in_world (AudioObjectAddPropertyListener (chal e) kAudioObjectSystemObject
          (system_property kAudioHardwarePropertyServiceRestarted) on_service_restarted_fn si) s7 = (0, s8)"
        "soundio_os_thread_create device_thread_run_ca False s8 = Some (SoundIoErrorNone, th, s9)"
        "upd_sica si (\<lambda>a. a\<lparr>ca_thread := th\<rparr>) s9 = Some s10" "upd_sio si (\<lambda>x. x\<lparr>vtable := ca_vtable\<rparr>) s10 = Some t"
      using s6(2) by (auto simp: ca_init_listeners_def hal_do_def Option.bind_eq_Some_conv split: if_splits prod.splits
          dest: init_failed_error)
    have "tracks L si s6 s7" by (rule other_listener [OF laws s7(1)]) simp
    moreover have "tracks L si s7 s8" by (rule other_listener [OF laws s7(2)]) simp
    moreover have "tracks L si s8 s9" by (rule tracks_made(3) [OF s7(3)])
    moreover have "tracks L si s9 s10" by (rule obeysD [OF tracks_sica s7(4)]) simp
    moreover have "tracks L si s10 t"
      using s7(5) by (auto simp: tracks_def tracked_def upd_sio_def Option.bind_eq_Some_conv)
    ultimately show ?thesis by (blast intro: tracking.trans)
  qed
  ultimately show ?thesis by (blast intro: tracking.trans)
qed

subsection \<open>Properties\<close>

lemma events_tracked:
  assumes laws: "listener_laws e L" and fresh: "\<forall>d a. (d, a, on_devices_changed_fn, si) \<notin> L (world s)"
    and x: "sios s si = Some x"
    and init: "soundio_coreaudio_init e si s = Some (SoundIoErrorNone, t)"
    and events: "(ca_event e si (streams_keep L si))\<^sup>*\<^sup>* t u"
  shows "tracked L si u"
proof -
  have "tracked L si s" using fresh x by (auto simp: tracked_def device_listener_def)
  then show ?thesis using ca_init_run [OF laws init] events_track [OF events laws] by (simp add: tracks_def)
qed

text \<open>C13. A destroyed CoreAudio backend is no longer called, when the device thread makes no round while it is destroyed: after a
  successful initialisation and any events, destroying the backend between two rounds of the thread removes every
  listener that was added in its name, for the list of devices, for a restart of the service and for each device of
  each scan, even if the last scan failed halfway.\<close>

theorem coreaudio_destroy_removes_listeners:
  assumes laws: "listener_laws e L" and fresh: "\<forall>d a. (d, a, on_devices_changed_fn, si) \<notin> L (world s)"
    and x: "sios s si = Some x"
    and init: "soundio_coreaudio_init e si s = Some (SoundIoErrorNone, t)"
    and events: "(ca_event e si (streams_keep L si))\<^sup>*\<^sup>* t u"
    and destroy: "destroy_ca e si u = Some v"
  shows "(\<forall>d a. (d, a, on_devices_changed_fn, si) \<notin> L (world v)) \<and>
    (kAudioObjectSystemObject, system_property kAudioHardwarePropertyServiceRestarted, on_service_restarted_fn, si) \<notin> L (world v)"
proof -
  obtain w where w: "destroy_listeners_ca e si u = Some w" "destroy_rest_ca si w = Some v"
    using destroy_ca_halves [OF destroy] by blast
  from destroy_listeners_run [OF laws w(1) events_tracked [OF laws fresh x init events]] destroy_rest_world [OF w(2)]
  show ?thesis by simp
qed

text \<open>C33. The device thread is stopped too late: when it makes rounds after \<open>destroy_ca\<close> has removed the listeners (all of them) and
  before it has stopped the thread, every listener that is in the library at the end of these rounds is still there after the
  destroy. Those for devices are all noted in the list that the rest of the destroy frees unread.\<close>

theorem coreaudio_destroy_race:
  assumes laws: "listener_laws e L" and fresh: "\<forall>d a. (d, a, on_devices_changed_fn, si) \<notin> L (world s)"
    and x: "sios s si = Some x"
    and init: "soundio_coreaudio_init e si s = Some (SoundIoErrorNone, t)"
    and events: "(ca_event e si (streams_keep L si))\<^sup>*\<^sup>* t u"
    and first: "destroy_listeners_ca e si u = Some w1"
    and rounds: "(ca_background e si (streams_keep L si))\<^sup>*\<^sup>* w1 w2"
    and y: "sios w2 si = Some y" and rest: "destroy_rest_ca si w2 = Some v"
  shows "(\<forall>d a. (d, a, on_devices_changed_fn, si) \<notin> L (world w1)) \<and> L (world v) = L (world w2) \<and>
    (\<forall>d a. device_listener si (L (world v)) d a \<longrightarrow>
       d \<in> listed_ids (registered_listeners (coreaudio y)) \<and> a \<in> device_props)"
proof -
  have "tracked L si u" by (rule events_tracked [OF laws fresh x init events])
  note gone = destroy_listeners_run [OF laws first this]
  then have "tracked L si w2" using backgrounds_tracks [OF laws rounds] by (simp add: tracks_def)
  with gone destroy_rest_world [OF rest] y show ?thesis by (auto simp: tracked_def)
qed

text \<open>A library with one device, which has a name but no channels; the listeners are kept in the order in which they came.\<close>

definition one_ca :: "(listener list, unit) ca_env" where
  "one_ca = quiet_ca\<lparr>chal := quiet_hal\<lparr>AudioObjectGetPropertyDataSize := (\<lambda>d a w. ((0, 4), w)),
     get_property_ids := (\<lambda>d a w. ((0, [7]), w)), get_property_string := (\<lambda>d a w. ((0, Some 1), w)),
     CFStringGetCString := (\<lambda>ref n w. Some ''x'')\<rparr>\<rparr>"

lemma one_ca_simps [simp]:
  "AudioObjectAddPropertyListener (chal one_ca) d a f c w = (0, (d, a, f, c) # w)"
  "AudioObjectRemovePropertyListener (chal one_ca) d a f c w = removeAll (d, a, f, c) w"
  "AudioObjectGetPropertyDataSize (chal one_ca) d a w = ((0, 4), w)" "get_property_ids (chal one_ca) d a w = ((0, [7]), w)"
  "get_property_id (chal one_ca) d a w = ((0, 7), w)" "get_property_string (chal one_ca) d a w = ((0, Some 1), w)"
  "get_property_buffers (chal one_ca) d a w = ((0, []), w)"
  "get_property_layout (chal one_ca) d a w = ((1, \<lparr>mChannelLayoutTag = kAudioChannelLayoutTag_Stereo, mNumberChannelDescriptions = 0,
       mChannelDescriptions = []\<rparr>), w)"
  "get_property_double (chal one_ca) d a w = ((0, 48000), w)" "get_property_ranges (chal one_ca) d a w = ((0, []), w)"
  "get_property_range (chal one_ca) d a w = ((0, value_range_zero), w)" "get_property_uint32 (chal one_ca) d a w = ((0, 512), w)"
  "CFStringGetLength (chal one_ca) ref w = 0" "CFStringGetMaximumSizeForEncoding (chal one_ca) n = n"
  "CFStringGetCString (chal one_ca) ref n w = Some ''x''" "CFRelease (chal one_ca) ref w = w"
  by (simp_all add: one_ca_def quiet_ca_defs)

text \<open>The list of the listeners when all of them belong to one device.\<close>

definition noted_device :: "nat option \<Rightarrow> AudioObjectID \<Rightarrow> nat \<Rightarrow> AudioObjectID clist" where
  "noted_device b d k = \<lparr>l_items = replicate k (Some d) @ replicate (16 - k) None, l_blk = b, l_length = int k, l_capacity = 16\<rparr>"

definition added_listeners :: "AudioObjectID \<Rightarrow> AudioObjectPropertyAddress list \<Rightarrow> nat \<Rightarrow> listener list" where
  "added_listeners d as si = map (\<lambda>a. (d, a, on_devices_changed_fn, si)) (rev as)"

lemma grow_enough: "n \<le> c \<Longrightarrow> grow c n = Some c"
  by (simp add: grow.simps)

lemma noted_next:
  assumes "k < 16"
  shows "\<exists>l. list_add_one (noted_device b d k) s = Some (SoundIoErrorNone, l, s) \<and> list_last_ptr l = Some k \<and>
    list_store l k d = Some (noted_device b d (Suc k))"
proof -
  have "(replicate k (Some d) @ replicate (16 - k) None)[k := Some d] = replicate (Suc k) (Some d) @ replicate (16 - Suc k) None"
    using assms by (cases "16 - k") (auto simp: list_update_append replicate_app_Cons_same intro!: arg_cong [of _ _ "\<lambda>n. replicate n None"])
  then show ?thesis using assms
    by (simp add: noted_device_def list_add_one_def list_resize_def list_ensure_capacity_def c_int_def in_int_def int_max_def int_min_def
        soundio_int_max_def grow_enough list_last_ptr_def list_store_def arr_set_def)
qed

lemma noted_first:
  assumes "answers s = []"
  shows "\<exists>l. list_add_one clist_zero s = Some (SoundIoErrorNone, l, s\<lparr>next_id := Suc (next_id s), blocks := insert (next_id s) (blocks s)\<rparr>) \<and>
    list_last_ptr l = Some 0 \<and> list_store l 0 d = Some (noted_device (Some (next_id s)) d 1)"
  using assms
  by (simp add: noted_device_def clist_zero_def list_add_one_def list_resize_def list_ensure_capacity_def c_int_def in_int_def int_max_def
      int_min_def soundio_int_max_def grow_enough realloc_blk_def alloc_nil free_blk_def list_last_ptr_def list_store_def arr_set_def
      numeral_eq_Suc)

lemma subscribe_noted:
  assumes "sios s si = Some x" and "registered_listeners (coreaudio x) = noted_device b d k" and "k + length as \<le> 16"
  shows "subscribe_device_listeners one_ca si d as rd s = Some (SoundIoErrorNone, rd,
    s\<lparr>world := added_listeners d as si @ world s,
      sios := (sios s)(si \<mapsto> x\<lparr>coreaudio := (coreaudio x)\<lparr>registered_listeners := noted_device b d (k + length as)\<rparr>\<rparr>)\<rparr>)"
  using assms
proof (induction as arbitrary: s x k)
  case Nil
  have "x\<lparr>coreaudio := (coreaudio x)\<lparr>registered_listeners := noted_device b d k\<rparr>\<rparr> = x" using Nil(2) by simp
  with Nil show ?case by (simp add: added_listeners_def fun_upd_idem)
next
  case (Cons a as)
  then obtain l where l: "list_add_one (noted_device b d k) s = Some (SoundIoErrorNone, l, s)" "list_last_ptr l = Some k"
      "list_store l k d = Some (noted_device b d (Suc k))"
    using noted_next [of k b d s] by auto
  let ?x = "x\<lparr>coreaudio := (coreaudio x)\<lparr>registered_listeners := noted_device b d (Suc k)\<rparr>\<rparr>"
  let ?s = "s\<lparr>world := (d, a, on_devices_changed_fn, si) # world s, sios := (sios s)(si \<mapsto> ?x)\<rparr>"
  have "subscribe_device_listeners one_ca si d (a # as) rd s = subscribe_device_listeners one_ca si d as rd ?s"
    using Cons.prems l by (simp add: hal_do_def in_world_def upd_sio_def)
  also have "\<dots> = Some (SoundIoErrorNone, rd,
    ?s\<lparr>world := added_listeners d as si @ world ?s,
      sios := (sios ?s)(si \<mapsto> ?x\<lparr>coreaudio := (coreaudio ?x)\<lparr>registered_listeners := noted_device b d (Suc k + length as)\<rparr>\<rparr>)\<rparr>)"
    by (rule Cons.IH) (use Cons.prems in simp_all)
  finally show ?case by (simp add: added_listeners_def fun_upd_def cong: if_cong)
qed

lemma subscribe_first:
  assumes "sios s si = Some x" and "registered_listeners (coreaudio x) = clist_zero" and "answers s = []"
  shows "subscribe_device_listeners one_ca si d device_listen_props rd s = Some (SoundIoErrorNone, rd,
    s\<lparr>next_id := Suc (next_id s), blocks := insert (next_id s) (blocks s),
      world := added_listeners d device_listen_props si @ world s,
      sios := (sios s)(si \<mapsto> x\<lparr>coreaudio := (coreaudio x)\<lparr>registered_listeners := noted_device (Some (next_id s)) d 15\<rparr>\<rparr>)\<rparr>)"
proof -
  obtain a as where as: "device_listen_props = a # as" "length as = 14" by (simp add: device_listen_props_def)
  obtain l where l: "list_add_one clist_zero s = Some (SoundIoErrorNone, l, s\<lparr>next_id := Suc (next_id s), blocks := insert (next_id s) (blocks s)\<rparr>)"
      "list_last_ptr l = Some 0" "list_store l 0 d = Some (noted_device (Some (next_id s)) d 1)"
    using noted_first [OF assms(3)] by blast
  let ?x = "x\<lparr>coreaudio := (coreaudio x)\<lparr>registered_listeners := noted_device (Some (next_id s)) d 1\<rparr>\<rparr>"
  let ?s = "s\<lparr>next_id := Suc (next_id s), blocks := insert (next_id s) (blocks s),
    world := (d, a, on_devices_changed_fn, si) # world s, sios := (sios s)(si \<mapsto> ?x)\<rparr>"
  have "subscribe_device_listeners one_ca si d (a # as) rd s = subscribe_device_listeners one_ca si d as rd ?s"
    using assms l by (simp add: hal_do_def in_world_def upd_sio_def)
  moreover have "subscribe_device_listeners one_ca si d as rd ?s = Some (SoundIoErrorNone, rd,
    ?s\<lparr>world := added_listeners d as si @ world ?s,
      sios := (sios ?s)(si \<mapsto> ?x\<lparr>coreaudio := (coreaudio ?x)\<lparr>registered_listeners := noted_device (Some (next_id s)) d (1 + length as)\<rparr>\<rparr>)\<rparr>)"
    by (rule subscribe_noted) (use as in simp_all)
  ultimately show ?thesis unfolding as(1) using as(2) by (simp add: added_listeners_def fun_upd_def cong: if_cong)
qed

text \<open>Removing the listeners of the device once for each entry of the list.\<close>

definition removed_listeners :: "AudioObjectID \<Rightarrow> nat \<Rightarrow> listener list \<Rightarrow> listener list" where
  "removed_listeners d si w = fold (\<lambda>a. removeAll (d, a, on_devices_changed_fn, si)) device_listen_props w"

lemma remove_one: "remove_listeners one_ca si d s = s\<lparr>world := removed_listeners d si (world s)\<rparr>"
proof -
  have "fold (\<lambda>a. the_world (removeAll (d, a, on_devices_changed_fn, si))) as s =
      s\<lparr>world := fold (\<lambda>a. removeAll (d, a, on_devices_changed_fn, si)) as (world s)\<rparr>" for as
    by (induction as arbitrary: s) (simp_all add: the_world_def)
  moreover have "AudioObjectRemovePropertyListener (chal one_ca) d a f c = removeAll (d, a, f, c)" for a f c
    by (rule ext) simp
  ultimately show ?thesis by (simp add: remove_listeners_def removed_listeners_def)
qed

lemma unsubscribe_noted:
  assumes "sios s si = Some x" and "registered_listeners (coreaudio x) = noted_device b d k" and "k \<le> 16"
  shows "unsubscribe_device_listeners one_ca si s = Some (s\<lparr>world := (removed_listeners d si ^^ k) (world s),
    sios := (sios s)(si \<mapsto> x\<lparr>coreaudio := (coreaudio x)\<lparr>registered_listeners := list_clear (noted_device b d k)\<rparr>\<rparr>)\<rparr>)"
proof -
  have cell: "list_val_at (noted_device b d k) (int i) = Some d" if "i < k" for i
    using that assms(3) by (simp add: list_val_at_def noted_device_def arr_at_def nth_append)
  have each: "for_each (\<lambda>i s. do { d \<leftarrow> list_val_at (noted_device b d k) (int i); Some (remove_listeners one_ca si d s) }) is s =
      Some (s\<lparr>world := (removed_listeners d si ^^ length is) (world s)\<rparr>)" if "set is \<subseteq> {..<k}" for "is" s
    using that by (induction "is" arbitrary: s) (simp_all add: cell remove_one funpow_swap1)
  have "l_length (noted_device b d k) = int k" by (simp add: noted_device_def)
  with each [of "[0..<k]" s] assms(1,2) show ?thesis
    by (simp add: unsubscribe_device_listeners_def upd_sio_def atLeast0LessThan)
qed

lemma unsubscribe_nothing:
  assumes "sios s si = Some x" and "registered_listeners (coreaudio x) = clist_zero"
  shows "unsubscribe_device_listeners e si s = Some s"
proof -
  have "x\<lparr>coreaudio := (coreaudio x)\<lparr>registered_listeners := clist_zero\<rparr>\<rparr> = x" using assms(2) by simp
  then show ?thesis using assms
    by (simp add: unsubscribe_device_listeners_def upd_sio_def list_clear_def clist_zero_def fun_upd_idem)
qed

lemma noted_simps [simp]: "l_blk (noted_device b d k) = b" "l_length (noted_device b d k) = int k"
  by (simp_all add: noted_device_def)

lemma nothing_to_release: "unref_list clist_zero s = Some s" "l_blk clist_zero = None" "soundio_device_unref None s = Some s"
  by (simp_all add: unref_list_def list_deinit_def clist_zero_def free_blk_def soundio_device_unref_def)

text \<open>The listeners of the device are removed as often as there are entries.\<close>

definition removed_times :: "AudioObjectID \<Rightarrow> nat \<Rightarrow> nat \<Rightarrow> listener list \<Rightarrow> listener list" where
  "removed_times d si k w = (removed_listeners d si ^^ k) w"

lemmas unsubscribe_times = unsubscribe_noted [folded removed_times_def]

lemma quiet_listeners: "listener_laws quiet_ca set"
  by (auto simp: listener_laws_def keeps_def quiet_ca_defs)

lemma one_listeners: "listener_laws one_ca set"
  by (auto simp: listener_laws_def keeps_def one_ca_def quiet_ca_defs)

lemmas one_run = soundio_coreaudio_init_def ca_init_cond_def ca_init_listeners_def hal_do_def hal_read_def in_world_def the_world_def
  soundio_os_mutex_create_def soundio_os_cond_create_def soundio_os_thread_create_def alloc_nil ask_nil set_cond_def upd_sio_def
  device_thread_step_ca_def device_thread_iteration_ca_def rescan_ca_def refresh_devices_ca_def unsubscribe_nothing
  refresh_lists_def scan_listed_devices_def scan_ca_device_def subscribe_first scan_name_def scan_uid_def fetch_string_def
  from_cf_string_def scan_direction_def count_channels_def rd_then_def aims_def filled_array_def
  finish_refresh_def publish_devices_ca_def deinit_refresh_devices_def release_string_def rd_zero_def
  soundio_destroy_devices_info_def nothing_to_release devices_info_zero_def list_clear_def list_deinit_def
  free_blk_def soundio_os_mutex_lock_def soundio_os_mutex_unlock_def soundio_os_cond_signal_def soundio_os_cond_wait_def
  cond_target_locked_def emit_def signal_device_scan_def soundio_os_mutex_destroy_def soundio_os_cond_destroy_def
  soundio_os_thread_destroy_def sio_create_def ca_zero_def destroy_listeners_ca_def destroy_rest_ca_def

text \<open>What the backend owns once a scan has noted the device.\<close>

definition owns :: "listener list jsio \<Rightarrow> bool" where
  "owns s \<longleftrightarrow> (\<exists>x cd1 cd2 cd3. sios s 0 = Some x \<and> ca_mutex (coreaudio x) = Some 10 \<and> ca_cond (coreaudio x) = Some 11 \<and>
     have_devices_cond (coreaudio x) = Some 12 \<and> scan_devices_cond (coreaudio x) = Some 13 \<and> ca_thread (coreaudio x) = Some 14 \<and>
     ca_ready_devices_info (coreaudio x) = Some 15 \<and> l_blk (registered_listeners (coreaudio x)) = Some 17 \<and>
     mutexes s 10 = Some \<lparr>mutex_id_init = True, mutex_locked = False\<rparr> \<and> conds s 11 = Some cd1 \<and> conds s 12 = Some cd2 \<and>
     conds s 13 = Some cd3 \<and> cond_default_mutex_init cd3 \<and> threads s 14 \<noteq> None \<and> infos s 15 = Some devices_info_zero \<and>
     {10, 11, 12, 13, 14, 15, 17} \<subseteq> blocks s)"

lemma destroy_rest_returns: "owns s \<Longrightarrow> \<exists>v. destroy_rest_ca 0 s = Some v"
  by (clarsimp simp: owns_def destroy_rest_ca_def Let_def list_deinit_def free_blk_def upd_sio_def signal_device_scan_def
      soundio_os_cond_signal_def soundio_os_thread_destroy_def soundio_os_cond_destroy_def soundio_os_mutex_destroy_def
      soundio_destroy_devices_info_def devices_info_zero_def nothing_to_release)

lemma one_round:
  "\<exists>t u x. soundio_coreaudio_init one_ca 0 ca_lib = Some (SoundIoErrorNone, t) \<and> device_thread_step_ca one_ca 0 t = Some u \<and>
     owns u \<and> sios u 0 = Some x \<and> registered_listeners (coreaudio x) = noted_device (Some 17) 7 15 \<and>
     world u = added_listeners 7 device_listen_props 0 @ world t"
  by (simp add: one_run Let_def owns_def)

lemma late_round:
  "\<exists>t w1 w2. soundio_coreaudio_init one_ca 0 ca_lib = Some (SoundIoErrorNone, t) \<and> destroy_listeners_ca one_ca 0 t = Some w1 \<and>
     device_thread_step_ca one_ca 0 w1 = Some w2 \<and> owns w2 \<and> world w2 = added_listeners 7 device_listen_props 0 @ world w1"
  by (simp add: one_run Let_def owns_def)

theorem coreaudio_destroy_removes_listeners_witness:
  "\<exists>t u v. soundio_coreaudio_init one_ca 0 ca_lib = Some (SoundIoErrorNone, t) \<and> device_thread_step_ca one_ca 0 t = Some u \<and>
     (\<forall>a \<in> device_props. (7, a, on_devices_changed_fn, 0) \<in> set (world u)) \<and>
     destroy_ca one_ca 0 u = Some v \<and> (\<forall>d a. (d, a, on_devices_changed_fn, 0) \<notin> set (world v))"
proof -
  obtain t u x where run: "soundio_coreaudio_init one_ca 0 ca_lib = Some (SoundIoErrorNone, t)"
      "device_thread_step_ca one_ca 0 t = Some u" "world u = added_listeners 7 device_listen_props 0 @ world t"
    and u: "owns u" "sios u 0 = Some x" "registered_listeners (coreaudio x) = noted_device (Some 17) 7 15"
    using one_round by blast
  obtain w where w: "destroy_listeners_ca one_ca 0 u = Some w" "owns w"
    using u by (simp add: destroy_listeners_ca_def the_world_def unsubscribe_times owns_def list_clear_def)
  from destroy_rest_returns [OF w(2)] w(1) obtain v where v: "destroy_ca one_ca 0 u = Some v" by (auto simp: destroy_ca_def)
  have events: "(ca_event one_ca 0 (streams_keep set 0))\<^sup>*\<^sup>* t u"
    using run(2) by (intro r_into_rtranclp ca_event.background ca_background.thread)
  have "\<forall>d a. (d, a, on_devices_changed_fn, 0) \<notin> set (world ca_lib)" "sios ca_lib 0 = Some sio_create" by simp_all
  from coreaudio_destroy_removes_listeners [OF one_listeners this run(1) events v] run v
  show ?thesis by (fastforce simp: added_listeners_def device_props_def)
qed

text \<open>The thread starts its first scan after the listeners were removed.\<close>

theorem coreaudio_destroy_race_witness:
  "\<exists>t w1 w2 v. soundio_coreaudio_init one_ca 0 ca_lib = Some (SoundIoErrorNone, t) \<and> destroy_listeners_ca one_ca 0 t = Some w1 \<and>
     device_thread_step_ca one_ca 0 w1 = Some w2 \<and> destroy_rest_ca 0 w2 = Some v \<and>
     (\<forall>a \<in> device_props. (7, a, on_devices_changed_fn, 0) \<in> set (world v))"
proof -
  obtain t w1 w2 where run: "soundio_coreaudio_init one_ca 0 ca_lib = Some (SoundIoErrorNone, t)"
      "destroy_listeners_ca one_ca 0 t = Some w1" "device_thread_step_ca one_ca 0 w1 = Some w2" "owns w2"
      "world w2 = added_listeners 7 device_listen_props 0 @ world w1"
    using late_round by blast
  from destroy_rest_returns [OF run(4)] obtain v where v: "destroy_rest_ca 0 w2 = Some v" by blast
  have rounds: "(ca_background one_ca 0 (streams_keep set 0))\<^sup>*\<^sup>* w1 w2"
    using run(3) by (intro r_into_rtranclp ca_background.thread)
  have "\<forall>d a. (d, a, on_devices_changed_fn, 0) \<notin> set (world ca_lib)" "sios ca_lib 0 = Some sio_create" by simp_all
  moreover obtain y where "sios w2 0 = Some y" using run(4) by (auto simp: owns_def)
  ultimately have "set (world v) = set (world w2)"
    using coreaudio_destroy_race [OF one_listeners _ _ run(1) rtranclp.rtrancl_refl run(2) rounds _ v] by blast
  with run v show ?thesis by (fastforce simp: added_listeners_def device_props_def)
qed

end
