(* ===== verification/CoreAudioOverload.thy ===== *)
theory CoreAudioOverload
  imports CoreAudioListeners
begin

section \<open>The overload listener of a CoreAudio input stream\<close>

text \<open>
  A stream listens for overloads of its device. An input stream adds the listener for one element and
  removes it for another, so the library goes on calling it, with a pointer to memory that is freed.
\<close>

text \<open>Stopping and disposing of an audio unit leaves the listeners of objects alone.\<close>

definition unit_laws :: "('j, 'z) ca_env \<Rightarrow> ('j \<Rightarrow> listener set) \<Rightarrow> bool" where
  "unit_laws e L \<longleftrightarrow> (\<forall>i w. L (snd (AudioOutputUnitStop (cunit e) i w)) = L w \<and> L (AudioComponentInstanceDispose (cunit e) i w) = L w)"

abbreviation overload_address :: "int \<Rightarrow> AudioObjectPropertyAddress" where
  "overload_address element \<equiv>
     \<lparr>mSelector = kAudioDeviceProcessorOverload, mScope = kAudioObjectPropertyScopeGlobal, mElement = element\<rparr>"

lemma instream_failed_error: "instream_ca_failed e p err s = Some (r, t) \<Longrightarrow> r = err"
  by (auto simp: instream_ca_failed_def Option.bind_eq_Some_conv)

lemma hal_do_opened:
  assumes "hal_do call (instream_ca_failed e p SoundIoErrorOpeningDevice) step s = Some (SoundIoErrorNone, t)"
  shows "\<exists>u. in_world call s = (0, u) \<and> step u = Some (SoundIoErrorNone, t)"
proof -
  obtain err u where "in_world call s = (err, u)" by (cases "in_world call s")
  with assms show ?thesis by (auto simp: hal_do_def split: if_splits dest: instream_failed_error)
qed

lemma hal_read_opened:
  assumes "hal_read call (instream_ca_failed e p SoundIoErrorOpeningDevice) step s = Some (SoundIoErrorNone, t)"
  shows "\<exists>x u. in_world call s = ((0, x), u) \<and> step x u = Some (SoundIoErrorNone, t)"
proof -
  obtain err x u where "in_world call s = ((err, x), u)" by (metis prod.collapse)
  with assms show ?thesis by (auto simp: hal_read_def split: if_splits dest: instream_failed_error)
qed

lemma open_buffer_listens:
  assumes laws: "listener_laws e L" and run: "instream_open_buffer_ca e p dca s = Some (SoundIoErrorNone, t)"
  shows "(dca_device_id dca, overload_address INPUT_ELEMENT, on_instream_device_overload_fn, p) \<in> L (world t)"
proof -
  obtain u v latency where u: "in_world (AudioObjectAddPropertyListener (chal e) (dca_device_id dca)
        (overload_address INPUT_ELEMENT) on_instream_device_overload_fn p) u = (0, v)"
      "upd_isca p (\<lambda>i. i\<lparr>isca_hardware_latency := latency\<rparr>) v = Some t"
    using run by (auto simp: instream_open_buffer_ca_def Let_def Option.bind_eq_Some_conv dest!: hal_do_opened)
  have "world t = world v" using u(2) by (auto simp: upd_in_def Option.bind_eq_Some_conv)
  with added [OF laws u(1)] show ?thesis by simp
qed

lemma open_unit_reaches:
  "instream_open_unit_ca e p dca i s = Some (SoundIoErrorNone, t) \<Longrightarrow>
   \<exists>u. instream_open_buffer_ca e p dca u = Some (SoundIoErrorNone, t)"
  by (auto simp: instream_open_unit_ca_def Let_def Option.bind_eq_Some_conv
      split: prod.splits if_splits dest!: hal_do_opened instream_failed_error)

lemma open_instance_reaches:
  assumes "instream_open_instance_ca e p dca s = Some (SoundIoErrorNone, t)"
  shows "\<exists>u. instream_open_buffer_ca e p dca u = Some (SoundIoErrorNone, t)"
proof -
  obtain c u where c: "in_world (AudioComponentFindNext (cunit e)) s = (c, u)" by (cases "in_world (AudioComponentFindNext (cunit e)) s")
  obtain d where d: "c = Some d" using assms c
    by (cases c) (auto simp: instream_open_instance_ca_def dest!: instream_failed_error)
  obtain err i v where v: "in_world (AudioComponentInstanceNew (cunit e) d) u = ((err, i), v)" by (metis prod.collapse)
  show ?thesis
    using assms by (auto simp: instream_open_instance_ca_def c d v Let_def Option.bind_eq_Some_conv split: if_splits
        dest!: hal_do_opened instream_failed_error open_unit_reaches)
qed

lemma open_reaches:
  assumes run: "instream_open_ca e p s = Some (SoundIoErrorNone, t)"
    and x: "instreams s p = Some is" "is_device is = Some dv" "devices s dv = Some device"
  shows "\<exists>u. instream_open_buffer_ca e p (dev_ca device) u = Some (SoundIoErrorNone, t)"
proof -
  obtain v where v: "(let (b, s) = alloc v in do {
         s \<leftarrow> upd_isca p (\<lambda>i. i\<lparr>isca_buffer_list := map_option (\<lambda>b. (b, [])) b\<rparr>) s;
         case b of None \<Rightarrow> instream_ca_failed e p SoundIoErrorNoMem s
         | Some b \<Rightarrow> hal_read (get_property_buffers (chal e) (dca_device_id (dev_ca device))
               (master_property kAudioDevicePropertyStreamConfiguration kAudioObjectPropertyScopeInput))
             (instream_ca_failed e p SoundIoErrorOpeningDevice)
             (\<lambda>buffers s. do {
               s \<leftarrow> upd_isca p (\<lambda>i. i\<lparr>isca_buffer_list := Some (b, buffers)\<rparr>) s;
               instream_open_instance_ca e p (dev_ca device) s
             }) s
       }) = Some (SoundIoErrorNone, t)"
    using run x by (auto simp: instream_open_ca_def Let_def Option.bind_eq_Some_conv dest!: hal_read_opened)
  obtain b w where "alloc v = (b, w)" by (cases "alloc v")
  with v show ?thesis
    by (cases b) (auto simp: Option.bind_eq_Some_conv dest!: hal_read_opened instream_failed_error open_instance_reaches)
qed

lemma destroy_keeps_element:
  assumes laws: "listener_laws e L" "unit_laws e L" and run: "instream_destroy_ca e p s = Some t"
    and l: "(d, overload_address INPUT_ELEMENT, f, c) \<in> L (world s)"
  shows "(d, overload_address INPUT_ELEMENT, f, c) \<in> L (world t)"
proof -
  obtain "is" dv device v where v: "instreams s p = Some is" "devices s dv = Some device"
    "free_blk (map_option fst (isca_buffer_list (isca is))) (stop_instance e (isca_instance (isca is))
      (the_world (AudioObjectRemovePropertyListener (chal e) (dca_device_id (dev_ca device))
        (system_property kAudioDeviceProcessorOverload) on_instream_device_overload_fn p) s)) = Some v"
    "upd_isca p (\<lambda>i. i\<lparr>isca_instance := None, isca_buffer_list := None\<rparr>) v = Some t"
    using run by (auto simp: instream_destroy_ca_def Let_def Option.bind_eq_Some_conv)
  let ?s = "the_world (AudioObjectRemovePropertyListener (chal e) (dca_device_id (dev_ca device))
    (system_property kAudioDeviceProcessorOverload) on_instream_device_overload_fn p) s"
  have "L (world ?s) = L (world s) - {(dca_device_id (dev_ca device), system_property kAudioDeviceProcessorOverload,
      on_instream_device_overload_fn, p)}"
    using conjunct1 [OF conjunct2 [OF laws(1) [unfolded listener_laws_def]], rule_format] by (simp add: the_world_def)
  moreover have "L (world (stop_instance e (isca_instance (isca is)) ?s)) = L (world ?s)"
    using laws(2) by (auto simp: unit_laws_def stop_instance_def the_world_def in_world_def Let_def case_prod_unfold split: option.split)
  moreover have "world t = world (stop_instance e (isca_instance (isca is)) ?s)"
    using v(4) free_silent [OF v(3), THEN same_world(1)] by (auto simp: upd_in_def Option.bind_eq_Some_conv)
  ultimately show ?thesis using l by (auto simp: system_property_def master_property_def element_defs)
qed

text \<open>C38. An input stream of CoreAudio that was opened and destroyed is still called on overloads of its device: opening adds the
  listener for the input element, destroying removes it for the master element.\<close>

theorem coreaudio_instream_listener_left:
  assumes laws: "listener_laws e L" "unit_laws e L"
    and device: "instreams s p = Some is" "is_device is = Some dv" "devices s dv = Some device"
    and run: "instream_open_ca e p s = Some (SoundIoErrorNone, t)" "instream_destroy_ca e p t = Some u"
  shows "(dca_device_id (dev_ca device), overload_address INPUT_ELEMENT, on_instream_device_overload_fn, p) \<in> L (world u)"
proof -
  obtain v where "instream_open_buffer_ca e p (dev_ca device) v = Some (SoundIoErrorNone, t)"
    using open_reaches [OF run(1) device] by blast
  from destroy_keeps_element [OF laws run(2) open_buffer_listens [OF laws(1) this]] show ?thesis .
qed

definition ca_microphone :: "listener list jsio" where
  "ca_microphone = ca_lib\<lparr>instreams := [1 \<mapsto> instream_zero\<lparr>is_device := Some 2, is_format := SoundIoFormatFloat32LE,
       is_sample_rate := 48000, is_layout := layout_zero\<lparr>cl_channel_count := 2\<rparr>, is_bytes_per_sample := 4, is_bytes_per_frame := 8\<rparr>],
     devices := [2 \<mapsto> device_zero\<lparr>aim := SoundIoDeviceAimInput, software_latency_max := 1,
       dev_ca := \<lparr>dca_device_id = 7, dca_latency_frames = 48\<rparr>\<rparr>]\<rparr>"

lemmas ca_open_run = instream_open_ca_def instream_open_instance_ca_def instream_open_unit_ca_def instream_open_buffer_ca_def
  instream_destroy_ca_def hal_do_def hal_read_def in_world_def the_world_def stop_instance_def upd_in_def alloc_nil free_blk_def
  dbl_to_uint32_def dbl_div_def dbl_trunc_def clamped_latency_def soundio_double_clamp_def set_ca_desc_def quiet_ca_defs

theorem coreaudio_instream_listener_left_witness:
  "\<exists>t u. instream_open_ca quiet_ca 1 ca_microphone = Some (SoundIoErrorNone, t) \<and> instream_destroy_ca quiet_ca 1 t = Some u \<and>
     (7, overload_address INPUT_ELEMENT, on_instream_device_overload_fn, 1) \<in> set (world u)"
proof -
  have "\<exists>t u. instream_open_ca quiet_ca 1 ca_microphone = Some (SoundIoErrorNone, t) \<and> instream_destroy_ca quiet_ca 1 t = Some u"
    by (simp add: ca_open_run ca_microphone_def instream_zero_def isca_zero_def device_zero_def Let_def)
  then obtain t u where run: "instream_open_ca quiet_ca 1 ca_microphone = Some (SoundIoErrorNone, t)"
      "instream_destroy_ca quiet_ca 1 t = Some u" by blast
  have laws: "unit_laws quiet_ca set" by (simp add: unit_laws_def quiet_ca_defs)
  obtain "is" device where "instreams ca_microphone 1 = Some is" "is_device is = Some 2" "devices ca_microphone 2 = Some device"
      "dca_device_id (dev_ca device) = 7"
    by (simp add: ca_microphone_def instream_zero_def)
  from coreaudio_instream_listener_left [OF quiet_listeners laws this(1-3) run] this(4) run show ?thesis by auto
qed

end
