(* ===== verification/Spec2Isabelle.thy ===== *)
theory Spec2Isabelle
  imports ChannelLayout RingBuffer Connect DummyOpen JackEvents PulseConvert PulseEvents PulseScan PulseRead
    AlsaConvert AlsaPending AlsaOpen AlsaEvents CoreAudioAreas CoreAudioEvents CoreAudioListeners CoreAudioOverload
begin

text \<open>
  A model of the portable core of libsoundio: the public functions of \<open>src/soundio.c\<close>, the
  channel layouts, the ring buffer, the POSIX part of the operating system layer, the growable
  lists, and five complete backends: the dummy backend, the JACK backend, the PulseAudio backend, the
  ALSA backend and the CoreAudio backend.

  How the program works. An application creates a library object (\<open>soundio_create\<close>), connects it to
  a backend (\<open>soundio_connect\<close>), reads the lists of devices, and opens streams on them. A backend
  fills a table of function pointers in \<open>SoundIoPrivate\<close>; the public functions check their arguments
  and go through the table. The dummy backend simulates a device with a ring buffer and one thread
  per stream. The JACK backend talks to a server through a client library that calls back from its
  own threads. The PulseAudio backend shares the lock of a main loop with the thread of that library
  and waits for its callbacks. The ALSA backend has a thread that watches the directory of the sound
  devices and scans them, and a thread per stream that waits for the device. The CoreAudio backend has a
  thread that scans the devices whenever a listener of the library says that they changed; the
  library calls its streams with the buffers to fill or to read. The ring buffer keeps
  its bytes in a region that the operating system maps twice in a row, so that a run of bytes is
  contiguous at every position.

  The theories and what they model.
  \<^item> \<open>Prelude\<close>: \<open>int\<close> arithmetic of C, conversions from \<open>double\<close>, arrays with bounds, loops with an
    early exit. \<open>Util\<close>: \<open>src/util.h\<close>. \<open>SoundIoTypes\<close>: the enumerations of \<open>soundio/soundio.h\<close> and
    the functions on errors, formats and backends of \<open>src/soundio.c\<close>.
  \<^item> \<open>Memory\<close>: the allocator. \<open>ListOps\<close>: \<open>src/list.h\<close>, with the locale \<open>growable\<close>.
  \<^item> \<open>ChannelLayout\<close>: \<open>src/channel_layout.c\<close>, and matching and sorting layouts in \<open>src/soundio.c\<close>.
  \<^item> \<open>Os\<close>: the POSIX branches of \<open>src/os.c\<close>: mutexes, conditions, threads, the clock, mirrored
    memory.
  \<^item> \<open>RingBuffer\<close>: \<open>src/ring_buffer.c\<close>, with the locale \<open>byte_fifo\<close> and an interleaving model of one
    writer and one reader.
  \<^item> \<open>Device\<close>: devices and device lists (\<open>src/soundio.c\<close>, \<open>destruct_device\<close> of \<open>src/jack.c\<close>).
    \<open>State\<close>: the structs of the library, the backends and the streams, and the heap they live in.
  \<^item> \<open>Dummy\<close>: \<open>src/dummy.c\<close>. \<open>DummyInit\<close>: what its initialisation does step by step.
    \<open>DummyStreams\<close>, \<open>DummyCapture\<close>: the playback and the capture thread as state machines, with
    the locales \<open>stream_client\<close>, \<open>write_client\<close> and \<open>read_client\<close>. \<open>DummyOpen\<close>: opening streams.
  \<^item> \<open>Jack\<close>: \<open>src/jack.c\<close>. \<open>JackScan\<close>, \<open>JackDevice\<close>, \<open>JackEvents\<close>: the scan of the ports, the devices
    made from it, and the notification of the application.
  \<^item> \<open>PulseApi\<close>: the interface of PulseAudio and the conversions of \<open>src/pulseaudio.c\<close>. \<open>Pulse\<close>: its
    callbacks, waits, the device scan, events, connecting. \<open>PulseStreams\<close>: its streams.
    \<open>PulseConvert\<close>: the conversions undo each other. \<open>PulseWait\<close>: the locale \<open>wait_frame\<close> for
    relations that all callbacks, waits and scans keep; \<open>PulseLock\<close> and \<open>PulseEvents\<close> extend it for
    the lock of the main loop and for the reports to the application. \<open>PulseErrors\<close>: its waits,
    and error paths. \<open>PulseScan\<close>: the devices a scan publishes. \<open>PulseRead\<close>: reading the
    fragment that is lent.
  \<^item> \<open>AlsaApi\<close>: the interface of ALSA and the conversions of \<open>src/alsa.c\<close>. \<open>Alsa\<close>: probing a device.
    \<open>AlsaScan\<close>: the scan of the hints and of the hardware. \<open>AlsaThread\<close>: the device thread, events,
    connecting. \<open>AlsaStreams\<close>: its streams and their threads. \<open>AlsaQuiet\<close>: a concrete library, on
    which the witnesses run. \<open>AlsaConvert\<close>: layouts and formats. \<open>AlsaPending\<close>: the pending
    files of the device thread refine a multiset. \<open>AlsaAreas\<close>: where the samples of a transfer lie.
    \<open>AlsaOpen\<close>: opening a stream is all or nothing and sets up what a transfer needs.
    \<open>Observer\<close>: the locales \<open>frame\<close>, \<open>world_frame\<close> and \<open>observer\<close>, with which a scan is followed step
    by step for a relation on states. \<open>AlsaSilent\<close>: the device thread makes no reports of its own;
    \<open>AlsaEvents\<close>: its failures reach the application, once.
  \<^item> \<open>CoreAudioApi\<close>: the interface of CoreAudio and the conversions of \<open>src/coreaudio.c\<close>. \<open>CoreAudio\<close>: the
    listeners and \<open>refresh_devices\<close>. \<open>CoreAudioThread\<close>: the device thread, events, connecting.
    \<open>CoreAudioStreams\<close>: its streams. \<open>CoreAudioQuiet\<close>: a concrete library for the witnesses.
    \<open>CoreAudioScan\<close>: the locales \<open>ca_calls\<close> and \<open>ca_scan\<close>, in which the scan and the thread are followed
    for every relation that the library's calls respect. \<open>CoreAudioEvents\<close>: failures reach the
    application, once. \<open>CoreAudioListeners\<close>: which listeners outlive the backend. \<open>CoreAudioOverload\<close>: one
    listener outlives an input stream. \<open>CoreAudioAreas\<close>: where the samples that a stream writes lie.
  \<^item> \<open>SoundIo\<close>: the public functions of \<open>src/soundio.c\<close>. \<open>Connect\<close>: connecting and disconnecting.

  How the state corresponds. The structs are records with the fields of the source; the records
  \<open>mem\<close>, \<open>os\<close>, \<open>devs\<close>, \<open>sio\<close> and \<open>jsio\<close> extend one another, so that each theory sees the part of the
  state its functions use. A pointer to a heap object is a \<open>nat option\<close>, the object itself is
  in a map (\<open>devices\<close>, \<open>infos\<close>, \<open>sios\<close>, \<open>outstreams\<close>, \<open>instreams\<close>); \<open>blocks\<close> holds the live blocks, and
  freeing one that is not live is undefined. Every call that may fail for want of resources
  asks \<open>answers\<close>, a list of decisions: what is proved for all of them covers every pattern of
  failures. The result of a function is an \<open>option\<close>: \<open>None\<close> is a failed assertion, a panic or
  undefined behaviour (a NULL access, a signed overflow, an index out of bounds), and an error
  code of the source is a value. \<open>int\<close> values are integers with their range checked, the offsets
  of the ring buffer are words and wrap around. A \<open>double\<close> is a real number: rounding and
  infinities are not modelled, except that a division by zero is undefined.

  Parameters. The JACK library is the record \<open>jack_api\<close> of functions on a state of its own, about
  which nothing is assumed. The PulseAudio library is the record \<open>pa_api\<close> on the same state; it also
  says how many and which callbacks its thread makes while an operation waits (\<open>pa_callback_count\<close>,
  \<open>pa_next_callback\<close>), and the model runs the callback functions of the source on them. Its lock is
  a count per main loop. The ALSA library and the system calls of that backend (\<open>inotify\<close>, \<open>poll\<close>,
  pipes) are the records \<open>alsa_env\<close>, \<open>alsa_sys\<close>, \<open>alsa_ctl\<close>, \<open>alsa_params\<close> and \<open>alsa_pcm\<close>. The objects
  and the audio units of CoreAudio are the records \<open>ca_env\<close>, \<open>ca_hal\<close> and \<open>ca_unit\<close>; what the theorems on
  listeners need of them is \<open>listener_laws\<close> (a listener is registered exactly when adding it succeeds,
  removing it takes back what was added with the same arguments, other calls leave the listeners
  alone) and \<open>unit_laws\<close> (so do audio units), which hold for the concrete library. What
  other threads do while a function waits on a condition is an argument (\<open>others\<close>). \<open>('j, 'z) build\<close>
  is a build of the library: which of the four backends besides the dummy are enabled, the byte
  order, the libraries. The callbacks of the application are functions on the state; what the theorems need of
  them is the locale \<open>stream_client\<close>, which is interpreted on callbacks that write or read all they
  may. Clock readings are inputs of each iteration of a thread, constrained by \<open>clock_ok\<close>: time does
  not run backwards and fewer frames than an \<open>int\<close> holds pass between two readings.

  What the lemmas show. Layouts: printing and parsing names, look-up, matching and the defaults.
  Operating system: a failed creation gives everything back; mirrored memory shows the same bytes
  twice and is released without a trace. Ring buffer: it is a queue of bytes, and no assertion fails
  in any interleaving of one writer and one reader. Devices: the reference count frees exactly what
  a device owns; the nearest sample rate is the best one. Dummy backend: connecting is all or
  nothing, disconnecting restores the state, an opened stream is in order and stays so while the
  threads run, begin and end of a transfer move exactly the frames they say. JACK backend: the scan
  groups the ports by client, the description fits its buffer, the layout is well-formed, the loss of
  the server is reported exactly once. PulseAudio backend: every operation gives back the lock it
  takes whatever happens while it waits (a failed pause of an input stream excepted), the loss of the
  server is reported at most once, a scan publishes its devices with the right defaults, layouts and
  formats survive the conversions, reads take the frames of a lent fragment in order, and connecting
  returns once the server has answered, with success or failure. ALSA
  backend: layouts survive the channel maps, a device supports what the library's mask says, the
  device thread tracks the pending files as a multiset does and scans when the last one is closed,
  its failures reach the application, at most once; opening a stream leaves nothing behind when it fails; the areas of a transfer lie in
  the buffer that opening allocated, or where ALSA defines the samples of mapped memory to lie.
  CoreAudio backend: after any events, destroying the backend between two rounds of its thread removes
  every listener that it added; the end of the device thread reaches the application, at most once; a transfer stays in the buffer
  that the library passed. Several theorems state what goes wrong in the code as it is: sorting
  layouts, clearing the ring buffer from the writer, 32-bit offsets, a stalled thread, a failed \<open>close\<close>, no memory for
  ports or for a context, a refused stream, a failed pause, a sink with too many channels, a loss
  during a scan, the overload listener of an input stream, a round of the CoreAudio thread in the
  middle of the destroy.

  Bounds. Lists are shorter than \<open>2 ^ 30\<close> entries (\<open>list_limit\<close>), beyond which doubling the
  capacity overflows; buffers and port names are shorter than \<open>2 ^ 31\<close> bytes, the range of the
  source's \<open>int\<close>. There is no fuel: loops are recursions on their lists, and those that may not
  end by themselves (growing a list, repeating a scan, waiting for an operation, the connection
  or a stream) are partial functions, whose result \<open>None\<close> also stands for a loop that does not end;
  for growing and connecting there are theorems that say when they end, for flushing ALSA and
  CoreAudio that they end at once after a failure, for opening a stream that it need not end.

  Not modelled. The WASAPI backend, whose logic is bound to the COM interfaces of Windows, and the
  Windows, macOS and kqueue branches of \<open>src/os.c\<close>; the lazy loader of the JACK
  library, a table of symbols; the examples and tests. The version functions return constants of a
  generated header. What threads do at the same time is modelled for the ring buffer step by step,
  for PulseAudio, ALSA and CoreAudio between the waits of an operation, for destroying CoreAudio also
  between the removal of the listeners and the end of the thread, elsewhere operation by operation; a
  scan of the CoreAudio devices in particular is one step. The
  string that a stream passes to JACK as its name is used as it is, and of a latency range only the
  maximum.
\<close>

end
